(* ===== verification/GR_Prelude.thy ===== *)
theory GR_Prelude
  imports Main "HOL-Library.Word"
begin

text \<open>
  Shared vocabulary of the development: the machine types of the program (a 32-bit little-endian
  Windows build, as the project files under src/Server select), faults for the undefined
  behaviours the code can run into, a result type for computations that may fault, raw memory
  copies with their bounds written out, and generic lemmas on lists and bytes that several
  components use.
\<close>

unbundle bit_operations_syntax

declare add_2_eq_Suc [simp del] add_2_eq_Suc' [simp del]

named_theorems gr_simps \<open>rewrite rules shared by the component proofs\<close>

subsection \<open>Machine types\<close>

type_synonym byte = "8 word"
type_synonym u16 = "16 word"
type_synonym u32 = "32 word"
type_synonym u64 = "64 word"

text \<open>
  \<open>size_t\<close> and \<open>long\<close> are 32 bits wide on this target. Sizes are natural numbers; a conversion
  from a signed value to \<open>size_t\<close> is written out as a reduction modulo \<open>2 ^ 32\<close>.
\<close>

definition size_t_of_int :: "int \<Rightarrow> nat" where
  "size_t_of_int i = nat (i mod 2 ^ 32)"

lemma size_t_of_int_nonneg [gr_simps]:
  "0 \<le> i \<Longrightarrow> i < 2 ^ 32 \<Longrightarrow> size_t_of_int i = nat i"
  by (simp add: size_t_of_int_def)

lemma size_t_of_int_neg:
  assumes "- (2 ^ 31) \<le> i" and "i < 0"
  shows "2 ^ 31 \<le> size_t_of_int i"
proof -
  have "(i + 2 ^ 32) mod 2 ^ 32 = i + 2 ^ 32"
    by (rule mod_pos_pos_trivial) (use assms in auto)
  then have "i mod 2 ^ 32 = i + 2 ^ 32"
    by simp
  with assms show ?thesis by (simp add: size_t_of_int_def nat_le_iff le_nat_iff)
qed

text \<open>A count that does not fit a \<open>short\<close> becomes negative.\<close>

lemma short_of_large:
  assumes "32768 \<le> n" and "n < 65536"
  shows "sint (word_of_nat n :: u16) = int n - 65536"
proof -
  have "n div 32768 = 1" using assms by (simp add: div_nat_eqI)
  then have "bit n 15" by (simp add: bit_iff_odd)
  with assms(2) show ?thesis
    by (simp add: signed_of_nat signed_take_bit_eq_take_bit_minus take_bit_int_eq_self
        bit_of_nat_iff)
qed

subsection \<open>Faults\<close>

text \<open>
  What the C++ standard leaves undefined, or what stops the program, is a value of its own.
\<close>

datatype fault =
    OutOfBounds       \<comment> \<open>a copy or an access past the end of an object\<close>
  | Uninitialised     \<comment> \<open>a read of an indeterminate value that decides control flow\<close>
  | AssertFailed      \<comment> \<open>a failing \<open>assert\<close>\<close>
  | MissingReturn     \<comment> \<open>flowing off the end of a value-returning function\<close>
  | NullPointer       \<comment> \<open>a null pointer is followed\<close>
  | BadMutex          \<comment> \<open>a mutex used against its rules\<close>
  | Overflow          \<comment> \<open>a signed integer that overflows\<close>
  | InvalidParameter  \<comment> \<open>the C run-time library's invalid parameter handler\<close>
  | RequestInUse      \<comment> \<open>a request given to libuv again before its callback has come\<close>

type_synonym 'a res = "fault + 'a"

fun rbind :: "'e + 'a \<Rightarrow> ('a \<Rightarrow> 'e + 'b) \<Rightarrow> 'e + 'b" where
  "rbind (Inl e) f = Inl e"
| "rbind (Inr x) f = f x"

lemma rbind_Inr_iff: "rbind m f = Inr y \<longleftrightarrow> (\<exists>x. m = Inr x \<and> f x = Inr y)"
  by (cases m) auto

lemma rbind_assoc: "rbind (rbind m f) g = rbind m (\<lambda>x. rbind (f x) g)"
  by (cases m) auto

lemma rbind_Inr_right [simp]: "rbind m Inr = m"
  by (cases m) auto

text \<open>A computation applied to every element of a list in turn, stopping at the first fault.\<close>

fun rfold :: "('v \<Rightarrow> 's \<Rightarrow> 's res) \<Rightarrow> 'v list \<Rightarrow> 's \<Rightarrow> 's res" where
  "rfold f [] s = Inr s"
| "rfold f (v # vs) s = rbind (f v s) (rfold f vs)"

lemma rfold_append: "rfold f (xs @ ys) s = rbind (rfold f xs s) (rfold f ys)"
proof (induction xs arbitrary: s)
  case Nil
  show ?case by simp
next
  case (Cons x xs)
  then show ?case by (cases "f x s") auto
qed

lemma rfold_invariant:
  assumes "\<And>v s. v \<in> set vs \<Longrightarrow> P s \<Longrightarrow> \<exists>s'. f v s = Inr s' \<and> P s'"
    and "P s"
  shows "\<exists>s'. rfold f vs s = Inr s' \<and> P s'"
  using assms
proof (induction vs arbitrary: s)
  case Nil
  then show ?case by simp
next
  case (Cons v vs)
  then obtain t where t: "f v s = Inr t" "P t"
    by (meson list.set_intros(1))
  have "\<exists>s'. rfold f vs t = Inr s' \<and> P s'"
    by (rule Cons.IH [OF Cons.prems(1) t(2)]) simp_all
  with t show ?case by simp
qed

subsection \<open>Raw memory\<close>

text \<open>
  An object of the program is the list of its bytes. A copy into it or out of it at an offset
  faults when it would leave the object.
\<close>

definition memcpy_to :: "byte list \<Rightarrow> nat \<Rightarrow> byte list \<Rightarrow> byte list res" where
  "memcpy_to mem off bs =
     (if off + length bs \<le> length mem
      then Inr (take off mem @ bs @ drop (off + length bs) mem)
      else Inl OutOfBounds)"

definition memcpy_from :: "byte list \<Rightarrow> nat \<Rightarrow> nat \<Rightarrow> byte list res" where
  "memcpy_from mem off n =
     (if off + n \<le> length mem then Inr (take n (drop off mem)) else Inl OutOfBounds)"

lemma memcpy_from_length: "memcpy_from mem off n = Inr bs \<Longrightarrow> length bs = n"
  by (auto simp: memcpy_from_def split: if_splits)

lemma memcpy_to_length: "memcpy_to mem off bs = Inr mem' \<Longrightarrow> length mem' = length mem"
  by (auto simp: memcpy_to_def split: if_splits)

lemma memcpy_from_to:
  "memcpy_to mem off bs = Inr mem' \<Longrightarrow> memcpy_from mem' off (length bs) = Inr bs"
  by (auto simp: memcpy_to_def memcpy_from_def split: if_splits)

lemma memcpy_to_cases:
  obtains "memcpy_to mem off bs = Inl OutOfBounds"
    | mem' where "memcpy_to mem off bs = Inr mem'" "length mem' = length mem"
  using that by (cases "off + length bs \<le> length mem") (simp_all add: memcpy_to_def)

lemma memcpy_from_cases:
  obtains "memcpy_from mem off n = Inl OutOfBounds"
    | bs where "memcpy_from mem off n = Inr bs" "length bs = n"
  using that by (cases "off + n \<le> length mem") (simp_all add: memcpy_from_def)

text \<open>A copy into a zeroed array with one byte to spare leaves a terminating zero.\<close>

lemma memcpy_to_zeroed:
  assumes "length bs = n"
  shows "memcpy_to (replicate (n + 1) 0) 0 bs = Inr (bs @ [0])"
proof -
  have "replicate (n + 1) (0 :: byte) = replicate n 0 @ [0]"
    by (simp add: replicate_append_same)
  then have "drop n (replicate (n + 1) (0 :: byte)) = [0]"
    by (simp only: drop_append length_replicate) simp
  with assms show ?thesis by (simp add: memcpy_to_def del: replicate_Suc)
qed

text \<open>The characters of a NUL-terminated string: what \<open>std::string(const char*)\<close> copies.\<close>

definition c_str :: "byte list \<Rightarrow> byte list" where
  "c_str mem = takeWhile (\<lambda>b. b \<noteq> 0) mem"

lemma c_str_no_nul: "0 \<notin> set (c_str mem)"
  by (auto simp: c_str_def dest: set_takeWhileD)

lemma c_str_append_nul [gr_simps]: "0 \<notin> set bs \<Longrightarrow> c_str (bs @ 0 # rest) = bs"
  unfolding c_str_def by (subst takeWhile_append2) auto

lemma c_str_id: "c_str (bs @ 0 # rest) = bs \<longleftrightarrow> 0 \<notin> set bs"
  by (metis c_str_append_nul c_str_no_nul)

text \<open>\<open>strlen\<close>, and \<open>strcmp(s, "") == 0\<close>: both read the string up to its first zero byte.\<close>

definition c_strlen :: "byte list \<Rightarrow> nat res" where
  "c_strlen mem = (if 0 \<in> set mem then Inr (length (c_str mem)) else Inl OutOfBounds)"

definition is_empty_c_str :: "byte list \<Rightarrow> bool res" where
  "is_empty_c_str mem = (case mem of [] \<Rightarrow> Inl OutOfBounds | b # _ \<Rightarrow> Inr (b = 0))"

subsection \<open>Transition systems\<close>

text \<open>
  The interface of every state machine of the program: an initial state and the effect of one
  event on the state, which may fault. The invariant may depend on how many events have happened,
  up to a bound (for counters of a fixed width); it holds after every run of at most that many
  events that does not fault.
\<close>

locale counted_event_system =
  fixes init :: "'s \<Rightarrow> bool"
    and event :: "'e \<Rightarrow> 's \<Rightarrow> 's res"
    and inv :: "nat \<Rightarrow> 's \<Rightarrow> bool"
    and bound :: nat
  assumes init_inv: "init s \<Longrightarrow> inv 0 s"
    and event_inv: "inv n s \<Longrightarrow> n < bound \<Longrightarrow> event e s = Inr s' \<Longrightarrow> inv (Suc n) s'"
begin

lemma run_counted:
  "inv n s \<Longrightarrow> n + length es \<le> bound \<Longrightarrow> rfold event es s = Inr s' \<Longrightarrow> inv (n + length es) s'"
proof (induction es arbitrary: n s)
  case Nil
  then show ?case by simp
next
  case (Cons e es)
  then obtain t where t: "event e s = Inr t" "rfold event es t = Inr s'"
    by (auto simp: rbind_Inr_iff)
  have "inv (Suc n) t"
    using Cons.prems t(1) by (intro event_inv) auto
  then have "inv (Suc n + length es) s'"
    using Cons.prems t(2) by (intro Cons.IH) auto
  then show ?case by simp
qed

lemma run_from_init:
  "init s \<Longrightarrow> length es \<le> bound \<Longrightarrow> rfold event es s = Inr s' \<Longrightarrow> inv (length es) s'"
  using run_counted [of 0 s es s'] init_inv by simp

end

text \<open>The special case of an invariant that no number of events breaks.\<close>

locale event_system =
  fixes init :: "'s \<Rightarrow> bool"
    and event :: "'e \<Rightarrow> 's \<Rightarrow> 's res"
    and inv :: "'s \<Rightarrow> bool"
  assumes start: "init s \<Longrightarrow> inv s"
    and step: "inv s \<Longrightarrow> event e s = Inr s' \<Longrightarrow> inv s'"
begin

lemma counted: "counted_event_system init event (\<lambda>_. inv) b"
  by unfold_locales (auto intro: start step)

lemma run_inv: "init s \<Longrightarrow> rfold event es s = Inr s' \<Longrightarrow> inv s'"
  using counted_event_system.run_from_init [OF counted, of s es "length es" s'] by simp

lemma run_from: "inv s \<Longrightarrow> rfold event es s = Inr s' \<Longrightarrow> inv s'"
  using counted_event_system.run_counted [OF counted, of s 0 es "length es" s'] by simp

end

subsection \<open>Queues\<close>

text \<open>
  A first-in first-out queue as the program uses \<open>tbb::concurrent_queue\<close> and \<open>std::queue\<close>:
  \<open>push\<close> appends, \<open>try_pop\<close> takes the oldest element or reports that there is none.
\<close>

locale fifo =
  fixes push :: "'a \<Rightarrow> 'q \<Rightarrow> 'q"
    and try_pop :: "'q \<Rightarrow> ('a \<times> 'q) option"
    and content :: "'q \<Rightarrow> 'a list"
  assumes content_push: "content (push x q) = content q @ [x]"
    and try_pop_None: "try_pop q = None \<longleftrightarrow> content q = []"
    and try_pop_Some: "try_pop q = Some (x, q') \<Longrightarrow> content q = x # content q'"
begin

lemma push_all: "content (fold push xs q) = content q @ xs"
  by (induction xs arbitrary: q) (auto simp: content_push)

lemma pop_oldest: "content q = x # xs \<Longrightarrow> \<exists>q'. try_pop q = Some (x, q') \<and> content q' = xs"
  using try_pop_None [of q] try_pop_Some [of q]
  by (cases "try_pop q") auto

lemma push_pop_same_empty:
  "content q = [] \<Longrightarrow> \<exists>q'. try_pop (push x q) = Some (x, q') \<and> content q' = []"
  by (rule pop_oldest) (simp add: content_push)

end

definition queue_push :: "'a \<Rightarrow> 'a list \<Rightarrow> 'a list" where
  "queue_push x q = q @ [x]"

fun queue_try_pop :: "'a list \<Rightarrow> ('a \<times> 'a list) option" where
  "queue_try_pop [] = None"
| "queue_try_pop (x # q) = Some (x, q)"

interpretation lq: fifo queue_push queue_try_pop "\<lambda>q. q"
proof unfold_locales
  show "queue_push x q = q @ [x]" for x :: 'a and q
    by (simp add: queue_push_def)
  show "queue_try_pop q = None \<longleftrightarrow> q = []" for q :: "'a list"
    by (cases q) auto
  show "queue_try_pop q = Some (x, q') \<Longrightarrow> q = x # q'" for q :: "'a list" and x q'
    by (cases q) auto
qed

end
