(* ===== verification/ByteOrder.thy ===== *)
theory ByteOrder
  imports GR_Prelude
begin

text \<open>
  How the program lays integers out in memory: the little-endian image that \<open>memcpy\<close> reads and
  writes on the target, the byte swaps \<open>htons\<close>, \<open>htonl\<close>, \<open>ntohs\<close>, \<open>ntohl\<close> of the sockets
  library, and the facts that put the two together: an integer swapped and then copied is its
  big-endian encoding.
\<close>

subsection \<open>Memory images\<close>

primrec le_bytes :: "nat \<Rightarrow> 'a::len word \<Rightarrow> byte list" where
  "le_bytes 0 w = []"
| "le_bytes (Suc n) w = ucast w # le_bytes n (drop_bit 8 w)"

primrec le_word :: "byte list \<Rightarrow> 'a::len word" where
  "le_word [] = 0"
| "le_word (b # bs) = ucast b OR push_bit 8 (le_word bs)"

lemma length_le_bytes [simp]: "length (le_bytes n w) = n"
  by (induction n arbitrary: w) auto

lemma le_word_le_bytes: "le_word (le_bytes n w) = take_bit (8 * n) (w :: 'a::len word)"
proof (induction n arbitrary: w)
  case 0
  show ?case by simp
next
  case (Suc n)
  show ?case
    by (rule bit_word_eqI) (auto simp: Suc bit_simps)
qed

lemma le_word_bound: "take_bit (8 * length bs) (le_word bs :: 'a::len word) = le_word bs"
proof (induction bs)
  case Nil
  show ?case by simp
next
  case (Cons b bs)
  have small: "bit (le_word bs :: 'a word) n \<Longrightarrow> n < 8 * length bs" for n
    by (metis Cons bit_take_bit_iff)
  show ?case
    by (rule bit_word_eqI) (auto simp: bit_simps dest: small bit_imp_le_length)
qed

lemma le_bytes_le_word:
  assumes "8 * length bs \<le> LENGTH('a::len)"
  shows "le_bytes (length bs) (le_word bs :: 'a word) = bs"
  using assms
proof (induction bs)
  case Nil
  show ?case by simp
next
  case (Cons b bs)
  have small: "bit (le_word bs :: 'a word) n \<Longrightarrow> n < 8 * length bs" for n
    by (metis le_word_bound bit_take_bit_iff)
  have first: "ucast (ucast b OR push_bit 8 (le_word bs :: 'a word)) = b"
    using Cons.prems by (intro bit_word_eqI) (auto simp: bit_simps)
  have rest: "drop_bit 8 (ucast b OR push_bit 8 (le_word bs :: 'a word)) = le_word bs"
    using Cons.prems
    by (intro bit_word_eqI) (auto simp: bit_simps dest: bit_imp_le_length small)
  show ?case
    unfolding length_Cons le_bytes.simps le_word.simps first rest
    using Cons by simp
qed

subsection \<open>Network byte order\<close>

definition htonl :: "u32 \<Rightarrow> u32" where
  "htonl w = le_word (rev (le_bytes 4 w))"

definition htons :: "u16 \<Rightarrow> u16" where
  "htons w = le_word (rev (le_bytes 2 w))"

definition ntohl :: "u32 \<Rightarrow> u32" where
  "ntohl = htonl"

definition ntohs :: "u16 \<Rightarrow> u16" where
  "ntohs = htons"

definition htonll :: "u64 \<Rightarrow> u64" where
  "htonll w = le_word (rev (le_bytes 8 w))"

definition ntohll :: "u64 \<Rightarrow> u64" where
  "ntohll = htonll"

text \<open>The abstract encodings: most significant byte first.\<close>

definition be16 :: "u16 \<Rightarrow> byte list" where
  "be16 w = rev (le_bytes 2 w)"

definition be32 :: "u32 \<Rightarrow> byte list" where
  "be32 w = rev (le_bytes 4 w)"

definition be64 :: "u64 \<Rightarrow> byte list" where
  "be64 w = rev (le_bytes 8 w)"

lemma length_be [simp]: "length (be16 w) = 2" "length (be32 v) = 4" "length (be64 u) = 8"
  by (simp_all add: be16_def be32_def be64_def)

lemma le_bytes_swap:
  fixes w :: "'a::len word"
  assumes "8 * n = LENGTH('a)"
  shows "le_bytes n (le_word (rev (le_bytes n w)) :: 'a word) = rev (le_bytes n w)"
  using le_bytes_le_word [of "rev (le_bytes n w)", where 'a = 'a] assms by simp

lemma le_word_swap:
  fixes w :: "'a::len word"
  assumes "8 * n = LENGTH('a)"
  shows "le_word (rev (le_bytes n (le_word (rev (le_bytes n w)) :: 'a word))) = w"
  using assms by (simp add: le_bytes_swap le_word_le_bytes)

lemma store_htonl [gr_simps]: "le_bytes 4 (htonl w) = be32 w"
  by (simp add: htonl_def be32_def le_bytes_swap)

lemma store_htons [gr_simps]: "le_bytes 2 (htons w) = be16 w"
  by (simp add: htons_def be16_def le_bytes_swap)

lemma store_htonll [gr_simps]: "le_bytes 8 (htonll w) = be64 w"
  by (simp add: htonll_def be64_def le_bytes_swap)

lemma ntohl_htonl [simp]: "ntohl (htonl w) = w"
  by (simp add: ntohl_def htonl_def le_word_swap)

lemma ntohs_htons [simp]: "ntohs (htons w) = w"
  by (simp add: ntohs_def htons_def le_word_swap)

lemma ntohll_htonll [simp]: "ntohll (htonll w) = w"
  by (simp add: ntohll_def htonll_def le_word_swap)

lemma load_ntohl [gr_simps]: "ntohl (le_word (be32 w)) = w"
  by (simp add: be32_def ntohl_def htonl_def le_word_swap)

lemma load_ntohs [gr_simps]: "ntohs (le_word (be16 w)) = w"
  by (simp add: be16_def ntohs_def htons_def le_word_swap)

end
