(* ===== verification/BinaryWrite.thy ===== *)
theory BinaryWrite
  imports ByteOrder
begin

text \<open>
  The class \<open>BinaryWriteStream\<close> of src/Server/netPack/commDef.hpp and commDef.cpp: a buffer, its
  length and a write position. The position is kept as the offset \<open>cur - ptr\<close>. Every operation
  is translated with its own bounds check; what the code copies without a check goes through
  \<open>memcpy_to\<close> and \<open>memcpy_from\<close>, so that leaving the buffer is a fault.
  The second half gives the operations their meaning on the payload (the bytes after the length
  field) and proves that they implement it.
\<close>

subsection \<open>State and constants\<close>

definition BINARY_PACKLEN_LEN :: nat where "BINARY_PACKLEN_LEN = 4"
definition BINARY_PACKLEN_LEN2 :: nat where "BINARY_PACKLEN_LEN2 = 2"
definition BINARY_PACKAGE_MAXLEN :: nat where "BINARY_PACKAGE_MAXLEN = 0xffff"

lemmas binary_consts [simp] =
  BINARY_PACKLEN_LEN_def BINARY_PACKLEN_LEN2_def BINARY_PACKAGE_MAXLEN_def

record wstream =
  ws_mem :: "byte list"   \<comment> \<open>the array \<open>ptr\<close> points to\<close>
  ws_len :: nat           \<comment> \<open>\<open>len\<close>\<close>
  ws_cur :: nat           \<comment> \<open>\<open>cur - ptr\<close>\<close>

text \<open>
  The constructor allocates ten bytes; \<open>junk\<close> is what \<open>new char[10]\<close> happens to hold.
\<close>

definition BinaryWriteStream_new :: "(nat \<Rightarrow> byte) \<Rightarrow> wstream" where
  "BinaryWriteStream_new junk =
     \<lparr>ws_mem = map junk [0..<10], ws_len = 10, ws_cur = 0 + BINARY_PACKLEN_LEN\<rparr>"

subsection \<open>Operations\<close>

text \<open>\<open>memcpy(cur, &tmp, n); cur += n;\<close>\<close>

definition ws_copy :: "byte list \<Rightarrow> wstream \<Rightarrow> wstream res" where
  "ws_copy bs s =
     rbind (memcpy_to (ws_mem s) (ws_cur s) bs)
       (\<lambda>m. Inr (s\<lparr>ws_mem := m, ws_cur := ws_cur s + length bs\<rparr>))"

definition ws_GetSize :: "wstream \<Rightarrow> nat" where
  "ws_GetSize s = ws_cur s"

definition ws_IsValid :: "wstream \<Rightarrow> bool" where
  "ws_IsValid s =
     (let datalen = ws_GetSize s
      in datalen > BINARY_PACKLEN_LEN \<and> datalen \<le> BINARY_PACKAGE_MAXLEN)"

definition ws_Flush :: "wstream \<Rightarrow> wstream res" where
  "ws_Flush s =
     (let datalen = htonl (word_of_nat (ws_GetSize s))
      in rbind (memcpy_to (ws_mem s) 0 (le_bytes 4 datalen)) (\<lambda>m. Inr (s\<lparr>ws_mem := m\<rparr>)))"

definition ws_Clear :: "wstream \<Rightarrow> wstream" where
  "ws_Clear s = s\<lparr>ws_cur := 0 + BINARY_PACKLEN_LEN\<rparr>"

definition ws_GetData :: "wstream \<Rightarrow> byte list" where
  "ws_GetData s = ws_mem s"

definition ws_GetCurrent :: "wstream \<Rightarrow> nat" where
  "ws_GetCurrent s = ws_cur s"

definition ws_WriteLength :: "nat \<Rightarrow> wstream \<Rightarrow> (bool \<times> wstream) res" where
  "ws_WriteLength n s =
     (let ulen = htons (word_of_nat n)
      in rbind (ws_copy (le_bytes 2 ulen) s) (\<lambda>s'. Inr (True, s')))"

text \<open>\<open>str\<close> is the object the pointer argument points to, \<open>n\<close> the length argument.\<close>

definition ws_Write_buf :: "byte list \<Rightarrow> nat \<Rightarrow> wstream \<Rightarrow> (bool \<times> wstream) res" where
  "ws_Write_buf str n s =
     (if ws_cur s + n + BINARY_PACKLEN_LEN2 > ws_len s then Inr (False, s)
      else rbind (ws_WriteLength n s) (\<lambda>(ok, s1).
        if \<not> ok then Inr (False, s1\<lparr>ws_cur := ws_cur s1 - BINARY_PACKLEN_LEN2\<rparr>)
        else rbind (memcpy_from str 0 n) (\<lambda>bs.
             rbind (ws_copy bs s1) (\<lambda>s2. Inr (True, s2)))))"

definition ws_WriteNoLength :: "byte list \<Rightarrow> nat \<Rightarrow> wstream \<Rightarrow> (bool \<times> wstream) res" where
  "ws_WriteNoLength str n s =
     (if ws_cur s + n + BINARY_PACKLEN_LEN > ws_len s then Inr (False, s)
      else rbind (memcpy_from str 0 n) (\<lambda>bs.
           rbind (ws_copy bs s) (\<lambda>s'. Inr (True, s'))))"

text \<open>A \<open>float\<close> is its 32 bits; the code copies them into an \<open>int\<close> unchanged.\<close>

definition ws_Write_float :: "u32 \<Rightarrow> wstream \<Rightarrow> (bool \<times> wstream) res" where
  "ws_Write_float f s =
     (if ws_cur s + 4 > ws_len s then Inr (False, s)
      else let iTmp = htonl f
           in rbind (ws_copy (le_bytes 4 iTmp) s) (\<lambda>s'. Inr (True, s')))"

definition ws_Write_int :: "u32 \<Rightarrow> wstream \<Rightarrow> (bool \<times> wstream) res" where
  "ws_Write_int i s =
     (if ws_cur s + 4 > ws_len s then Inr (False, s)
      else let iTmp = htonl i
           in rbind (ws_copy (le_bytes 4 iTmp) s) (\<lambda>s'. Inr (True, s')))"

definition ws_Write_short :: "u16 \<Rightarrow> wstream \<Rightarrow> (bool \<times> wstream) res" where
  "ws_Write_short i s =
     (if ws_cur s + 2 > ws_len s then Inr (False, s)
      else let iTmp = htons i
           in rbind (ws_copy (le_bytes 2 iTmp) s) (\<lambda>s'. Inr (True, s')))"

definition ws_Write_char :: "byte \<Rightarrow> wstream \<Rightarrow> (bool \<times> wstream) res" where
  "ws_Write_char c s =
     (if ws_cur s + 1 > ws_len s then Inr (False, s)
      else rbind (ws_copy [c] s) (\<lambda>s'. Inr (True, s')))"

definition ws_Write_uchar :: "byte \<Rightarrow> wstream \<Rightarrow> (bool \<times> wstream) res" where
  "ws_Write_uchar c s =
     (if ws_cur s + 1 > ws_len s then Inr (False, s)
      else rbind (ws_copy [c] s) (\<lambda>s'. Inr (True, s')))"

text \<open>
  \<open>short length = str.size()\<close> keeps sixteen bits with a sign: the check adds the signed value to
  the position, \<open>WriteLength\<close> and \<open>memcpy\<close> take it as a \<open>size_t\<close>.
\<close>

definition ws_Write_string :: "byte list \<Rightarrow> wstream \<Rightarrow> (bool \<times> wstream) res" where
  "ws_Write_string str s =
     (let len16 = sint (word_of_nat (length str) :: u16);
          n = size_t_of_int len16
      in if int (ws_cur s) + len16 + int BINARY_PACKLEN_LEN2 > int (ws_len s) then Inr (False, s)
         else rbind (ws_WriteLength n s) (\<lambda>(ok, s1).
           if \<not> ok then Inr (False, s1\<lparr>ws_cur := ws_cur s1 - BINARY_PACKLEN_LEN2\<rparr>)
           else rbind (memcpy_from (str @ [0]) 0 n) (\<lambda>bs.
                rbind (ws_copy bs s1) (\<lambda>s2. Inr (True, s2)))))"

subsection \<open>Insertion operators\<close>

definition ws_ins_int :: "u32 \<Rightarrow> wstream \<Rightarrow> wstream res" where
  "ws_ins_int i s =
     (if ws_cur s + 4 > ws_len s then Inr s
      else let iTmp = htonl i in rbind (ws_copy (le_bytes 4 iTmp) s) ws_Flush)"

definition ws_ins_llong :: "u64 \<Rightarrow> wstream \<Rightarrow> wstream res" where
  "ws_ins_llong i s =
     rbind (ws_Write_int (ucast (signed_drop_bit 32 i)) s) (\<lambda>(_, s1).
     rbind (ws_Write_int (ucast i) s1) (\<lambda>(_, s2). ws_Flush s2))"

definition ws_ins_float :: "u32 \<Rightarrow> wstream \<Rightarrow> wstream res" where
  "ws_ins_float f s =
     (if ws_cur s + 4 > ws_len s then Inr s
      else let iTmp = htonl f in rbind (ws_copy (le_bytes 4 iTmp) s) ws_Flush)"

definition ws_ins_short :: "u16 \<Rightarrow> wstream \<Rightarrow> wstream res" where
  "ws_ins_short i s =
     (if ws_cur s + 2 > ws_len s then Inr s
      else let iTmp = htons i in rbind (ws_copy (le_bytes 2 iTmp) s) ws_Flush)"

definition ws_ins_char :: "byte \<Rightarrow> wstream \<Rightarrow> wstream res" where
  "ws_ins_char c s =
     (if ws_cur s + 1 > ws_len s then Inr s else rbind (ws_copy [c] s) ws_Flush)"

definition ws_ins_uchar :: "byte \<Rightarrow> wstream \<Rightarrow> wstream res" where
  "ws_ins_uchar c s =
     (if ws_cur s + 1 > ws_len s then Inr s else rbind (ws_copy [c] s) ws_Flush)"

definition ws_ins_string :: "byte list \<Rightarrow> wstream \<Rightarrow> wstream res" where
  "ws_ins_string str s =
     (let len16 = sint (word_of_nat (length str) :: u16);
          n = size_t_of_int len16
      in if int (ws_cur s) + len16 + int BINARY_PACKLEN_LEN2 > int (ws_len s) then Inr s
         else rbind (ws_WriteLength n s) (\<lambda>(ok, s1).
           if \<not> ok then Inr (s1\<lparr>ws_cur := ws_cur s1 - BINARY_PACKLEN_LEN2\<rparr>)
           else rbind (memcpy_from (str @ [0]) 0 n) (\<lambda>bs.
                rbind (ws_copy bs s1) ws_Flush)))"

text \<open>
  The template for vectors: the element count as a \<open>short\<close> (the result of that write is
  ignored), then the elements by their own operator, then a flush.
\<close>

definition ws_ins_vector :: "('v \<Rightarrow> wstream \<Rightarrow> wstream res) \<Rightarrow> 'v list \<Rightarrow> wstream \<Rightarrow> wstream res" where
  "ws_ins_vector ins val s =
     rbind (ws_Write_short (word_of_nat (length val)) s) (\<lambda>(_, s1).
     rbind (rfold ins val s1) ws_Flush)"

text \<open>The free function \<open>WriteVector\<close> stops when the count does not fit.\<close>

definition WriteVector :: "('v \<Rightarrow> wstream \<Rightarrow> wstream res) \<Rightarrow> 'v list \<Rightarrow> wstream \<Rightarrow> (bool \<times> wstream) res" where
  "WriteVector pack val s =
     rbind (ws_Write_short (word_of_nat (length val)) s) (\<lambda>(ok, s1).
       if \<not> ok then Inr (ok, s1)
       else rbind (rfold pack val s1) (\<lambda>s2. Inr (ok, s2)))"

text \<open>\<open>Seek\<close> moves the write position forward, never past the end.\<close>

definition ws_Seek :: "nat \<Rightarrow> wstream \<Rightarrow> bool \<times> wstream" where
  "ws_Seek n s =
     (if ws_cur s + n > ws_len s \<or> ws_cur s + n < BINARY_PACKLEN_LEN then (False, s)
      else (True, s\<lparr>ws_cur := ws_cur s + n\<rparr>))"

lemmas ws_write_defs =
  ws_Write_buf_def ws_WriteNoLength_def ws_Write_float_def ws_Write_int_def ws_Write_short_def
  ws_Write_char_def ws_Write_uchar_def ws_Write_string_def

lemmas ws_ins_defs =
  ws_ins_int_def ws_ins_float_def ws_ins_short_def ws_ins_char_def ws_ins_uchar_def
  ws_ins_string_def

subsection \<open>Invariant and abstract view\<close>

text \<open>
  The invariant: \<open>len\<close> is the size of the array and the position lies after the length field and
  not past the end. The payload is what lies between the length field and the position.
\<close>

definition ws_ok :: "wstream \<Rightarrow> bool" where
  "ws_ok s \<longleftrightarrow> ws_len s = length (ws_mem s) \<and> 4 \<le> ws_cur s \<and> ws_cur s \<le> ws_len s"

definition ws_payload :: "wstream \<Rightarrow> byte list" where
  "ws_payload s = take (ws_cur s - 4) (drop 4 (ws_mem s))"

text \<open>The length field agrees with the position.\<close>

definition ws_synced :: "wstream \<Rightarrow> bool" where
  "ws_synced s \<longleftrightarrow> take 4 (ws_mem s) = be32 (word_of_nat (ws_cur s))"

definition ws_app :: "byte list \<Rightarrow> wstream \<Rightarrow> wstream" where
  "ws_app bs s = s\<lparr>ws_mem := take (ws_cur s) (ws_mem s) @ bs @ drop (ws_cur s + length bs) (ws_mem s),
                   ws_cur := ws_cur s + length bs\<rparr>"

definition ws_flushed :: "wstream \<Rightarrow> wstream" where
  "ws_flushed s = s\<lparr>ws_mem := be32 (word_of_nat (ws_cur s)) @ drop 4 (ws_mem s)\<rparr>"

lemma ws_app_simps [simp]:
  "ws_len (ws_app bs s) = ws_len s" "ws_cur (ws_app bs s) = ws_cur s + length bs"
  by (simp_all add: ws_app_def)

lemma ws_flushed_simps [simp]:
  "ws_len (ws_flushed s) = ws_len s" "ws_cur (ws_flushed s) = ws_cur s"
  by (simp_all add: ws_flushed_def)

lemma ws_copy_fits:
  "ws_ok s \<Longrightarrow> ws_cur s + length bs \<le> ws_len s \<Longrightarrow> ws_copy bs s = Inr (ws_app bs s)"
  by (simp add: ws_ok_def ws_copy_def memcpy_to_def ws_app_def)

lemma ws_app_ok: "ws_ok s \<Longrightarrow> ws_cur s + length bs \<le> ws_len s \<Longrightarrow> ws_ok (ws_app bs s)"
  by (simp add: ws_ok_def ws_app_def)

lemma ws_app_payload:
  assumes "ws_ok s" and "ws_cur s + length bs \<le> ws_len s"
  shows "ws_payload (ws_app bs s) = ws_payload s @ bs"
  using assms by (simp add: ws_ok_def ws_payload_def ws_app_def drop_take)

lemma ws_Flush_eq: "ws_ok s \<Longrightarrow> ws_Flush s = Inr (ws_flushed s)"
  by (simp add: ws_ok_def ws_Flush_def Let_def memcpy_to_def ws_GetSize_def ws_flushed_def
        store_htonl)

lemma ws_flushed_ok: "ws_ok s \<Longrightarrow> ws_ok (ws_flushed s)"
  by (simp add: ws_ok_def ws_flushed_def)

lemma ws_flushed_payload: "ws_ok s \<Longrightarrow> ws_payload (ws_flushed s) = ws_payload s"
  by (simp add: ws_ok_def ws_payload_def ws_flushed_def)

lemma ws_flushed_synced: "ws_synced (ws_flushed s)"
  by (simp add: ws_synced_def ws_flushed_def)

lemma ws_payload_length: "ws_ok s \<Longrightarrow> length (ws_payload s) = ws_cur s - 4"
  by (auto simp: ws_ok_def ws_payload_def)

lemmas ws_laws =
  ws_copy_fits ws_app_ok ws_app_payload ws_Flush_eq ws_flushed_ok ws_flushed_payload
  ws_flushed_synced

lemma ws_new_ok: "ws_ok (BinaryWriteStream_new junk)"
  by (simp add: ws_ok_def BinaryWriteStream_new_def)

lemma ws_new_payload: "ws_payload (BinaryWriteStream_new junk) = []"
  by (simp add: ws_payload_def BinaryWriteStream_new_def)

lemma ws_Clear_ok: "ws_ok s \<Longrightarrow> ws_ok (ws_Clear s)"
  by (simp add: ws_ok_def ws_Clear_def)

lemma ws_Clear_payload: "ws_payload (ws_Clear s) = []"
  by (simp add: ws_payload_def ws_Clear_def)

lemma ws_Seek_ok: "ws_ok s \<Longrightarrow> ws_Seek n s = (b, s') \<Longrightarrow> ws_ok s'"
  by (auto simp: ws_Seek_def ws_ok_def split: if_splits)

subsection \<open>Exact effect of the writes\<close>

lemma ws_WriteLength_eq:
  "ws_ok s \<Longrightarrow> ws_cur s + 2 \<le> ws_len s \<Longrightarrow>
     ws_WriteLength n s = Inr (True, ws_app (be16 (word_of_nat n)) s)"
  by (simp add: ws_WriteLength_def Let_def store_htons ws_copy_fits)

lemma ws_Write_int_eq:
  "ws_ok s \<Longrightarrow> ws_Write_int i s =
     Inr (if ws_cur s + 4 \<le> ws_len s then (True, ws_app (be32 i) s) else (False, s))"
  by (simp add: ws_Write_int_def Let_def store_htonl ws_copy_fits)

lemma ws_Write_float_eq:
  "ws_ok s \<Longrightarrow> ws_Write_float i s =
     Inr (if ws_cur s + 4 \<le> ws_len s then (True, ws_app (be32 i) s) else (False, s))"
  by (simp add: ws_Write_float_def Let_def store_htonl ws_copy_fits)

lemma ws_Write_short_eq:
  "ws_ok s \<Longrightarrow> ws_Write_short i s =
     Inr (if ws_cur s + 2 \<le> ws_len s then (True, ws_app (be16 i) s) else (False, s))"
  by (simp add: ws_Write_short_def Let_def store_htons ws_copy_fits)

lemma ws_Write_char_eq:
  "ws_ok s \<Longrightarrow> ws_Write_char c s =
     Inr (if ws_cur s + 1 \<le> ws_len s then (True, ws_app [c] s) else (False, s))"
  by (simp add: ws_Write_char_def ws_copy_fits)

lemma ws_Write_uchar_eq: "ws_Write_uchar c s = ws_Write_char c s"
  by (simp add: ws_Write_char_def ws_Write_uchar_def)

lemma ws_app_app: "ws_ok s \<Longrightarrow> ws_cur s + length a + length b \<le> ws_len s \<Longrightarrow>
  ws_app b (ws_app a s) = ws_app (a @ b) s"
  by (simp add: ws_app_def ws_ok_def ac_simps)

lemma short_of_length:
  "n < 32768 \<Longrightarrow> sint (word_of_nat n :: u16) = int n"
  by (simp add: signed_of_nat signed_take_bit_int_eq_self)

lemma size_t_of_short: "n < 32768 \<Longrightarrow> size_t_of_int (int n) = n"
  by (simp add: size_t_of_int_def)

lemma ws_Write_buf_eq:
  assumes "ws_ok s"
  shows "ws_Write_buf str (length str) s =
    Inr (if ws_cur s + length str + 2 \<le> ws_len s
         then (True, ws_app (be16 (word_of_nat (length str)) @ str) s) else (False, s))"
  using assms
  by (simp add: ws_Write_buf_def ws_WriteLength_eq memcpy_from_def ws_copy_fits ws_app_ok ws_app_app)

lemma ws_Write_string_eq:
  assumes "ws_ok s" and "length str < 32768"
  shows "ws_Write_string str s =
    Inr (if ws_cur s + length str + 2 \<le> ws_len s
         then (True, ws_app (be16 (word_of_nat (length str)) @ str) s) else (False, s))"
  using assms
  by (simp add: ws_Write_string_def Let_def short_of_length size_t_of_short ws_WriteLength_eq
        memcpy_from_def ws_copy_fits ws_app_ok ws_app_app)

text \<open>The insertion operators write what the \<open>Write\<close> of the type writes, then flush.\<close>

lemma ws_ins_int_eq:
  "ws_ok s \<Longrightarrow> ws_ins_int i s =
     Inr (if ws_cur s + 4 \<le> ws_len s then ws_flushed (ws_app (be32 i) s) else s)"
  by (simp add: ws_ins_int_def Let_def store_htonl ws_laws)

lemma ws_ins_float_eq: "ws_ins_float i s = ws_ins_int i s"
  by (simp add: ws_ins_float_def ws_ins_int_def)

lemma ws_ins_short_eq:
  "ws_ok s \<Longrightarrow> ws_ins_short i s =
     Inr (if ws_cur s + 2 \<le> ws_len s then ws_flushed (ws_app (be16 i) s) else s)"
  by (simp add: ws_ins_short_def Let_def store_htons ws_laws)

lemma ws_ins_char_eq:
  "ws_ok s \<Longrightarrow> ws_ins_char c s =
     Inr (if ws_cur s + 1 \<le> ws_len s then ws_flushed (ws_app [c] s) else s)"
  by (simp add: ws_ins_char_def ws_laws)

lemma ws_ins_uchar_eq: "ws_ins_uchar c s = ws_ins_char c s"
  by (simp add: ws_ins_char_def ws_ins_uchar_def)

lemma ws_ins_string_eq:
  assumes "ws_ok s" and "length str < 32768"
  shows "ws_ins_string str s =
    Inr (if ws_cur s + length str + 2 \<le> ws_len s
         then ws_flushed (ws_app (be16 (word_of_nat (length str)) @ str) s) else s)"
  using assms
  by (simp add: ws_ins_string_def Let_def short_of_length size_t_of_short ws_WriteLength_eq
        memcpy_from_def ws_copy_fits ws_app_ok ws_app_app ws_Flush_eq)

end
