(* ===== verification/BinaryWriteSpec.thy ===== *)
theory BinaryWriteSpec
  imports BinaryWrite
begin

text \<open>
  The contract of the insertion operators of \<open>BinaryWriteStream\<close>. A value is written as a list of
  chunks; a chunk that does not fit any more is dropped, a chunk that fits is appended to the
  payload. The locale \<open>inserter\<close> states that for one value type; it is interpreted for every
  operator of the class and extended to vectors.
\<close>

subsection \<open>Abstract writes\<close>

definition abs_put :: "nat \<Rightarrow> byte list \<Rightarrow> byte list \<Rightarrow> byte list" where
  "abs_put cap c p = (if 4 + length p + length c \<le> cap then p @ c else p)"

definition abs_puts :: "nat \<Rightarrow> byte list list \<Rightarrow> byte list \<Rightarrow> byte list" where
  "abs_puts cap cs p = fold (abs_put cap) cs p"

lemma abs_puts_simps [simp]:
  "abs_puts cap [] p = p"
  "abs_puts cap (c # cs) p = abs_puts cap cs (abs_put cap c p)"
  by (simp_all add: abs_puts_def)

lemma abs_puts_append: "abs_puts cap (cs @ ds) p = abs_puts cap ds (abs_puts cap cs p)"
  by (simp add: abs_puts_def)

lemma abs_puts_fit:
  "4 + length p + length (concat cs) \<le> cap \<Longrightarrow> abs_puts cap cs p = p @ concat cs"
  by (induction cs arbitrary: p) (auto simp: abs_put_def)

lemma abs_puts_full:
  "(\<And>c. c \<in> set cs \<Longrightarrow> cap < 4 + length p + length c) \<Longrightarrow> abs_puts cap cs p = p"
  by (induction cs) (auto simp: abs_put_def simp flip: not_le)

lemma abs_puts_bound: "4 + length p \<le> cap \<Longrightarrow> 4 + length (abs_puts cap cs p) \<le> cap"
  by (induction cs arbitrary: p) (auto simp: abs_put_def)

lemma abs_puts_prefix: "\<exists>q. abs_puts cap cs p = p @ q"
proof (induction cs arbitrary: p)
  case Nil
  show ?case by simp
next
  case (Cons c cs)
  obtain r where "abs_puts cap cs (abs_put cap c p) = abs_put cap c p @ r"
    using Cons.IH by blast
  then show ?case by (auto simp: abs_put_def split: if_splits)
qed

subsection \<open>What it means to implement an abstract write\<close>

definition ws_implements :: "(wstream \<Rightarrow> wstream res) \<Rightarrow> byte list list \<Rightarrow> bool" where
  "ws_implements f cs \<longleftrightarrow>
     (\<forall>s. ws_ok s \<longrightarrow>
       (\<exists>s'. f s = Inr s' \<and> ws_ok s' \<and> ws_len s' = ws_len s
           \<and> ws_payload s' = abs_puts (ws_len s) cs (ws_payload s)
           \<and> (s' = s \<or> ws_synced s')))"

lemma ws_implementsI:
  assumes "\<And>s. ws_ok s \<Longrightarrow>
    \<exists>s'. f s = Inr s' \<and> ws_ok s' \<and> ws_len s' = ws_len s
       \<and> ws_payload s' = abs_puts (ws_len s) cs (ws_payload s) \<and> (s' = s \<or> ws_synced s')"
  shows "ws_implements f cs"
  using assms by (simp add: ws_implements_def)

lemma ws_implementsE:
  assumes "ws_implements f cs" and "ws_ok s"
  obtains s' where "f s = Inr s'" "ws_ok s'" "ws_len s' = ws_len s"
    "ws_payload s' = abs_puts (ws_len s) cs (ws_payload s)" "s' = s \<or> ws_synced s'"
  using assms by (auto simp: ws_implements_def)

lemma ws_implements_Inr: "ws_implements Inr []"
  by (simp add: ws_implements_def)

lemma ws_implements_seq:
  assumes f: "ws_implements f cs" and g: "ws_implements g ds"
  shows "ws_implements (\<lambda>s. rbind (f s) g) (cs @ ds)"
proof (rule ws_implementsI)
  fix s :: wstream
  assume "ws_ok s"
  with f obtain t where t: "f s = Inr t" "ws_ok t" "ws_len t = ws_len s"
    "ws_payload t = abs_puts (ws_len s) cs (ws_payload s)" "t = s \<or> ws_synced t"
    by (rule ws_implementsE)
  from g t(2) obtain u where "g t = Inr u" "ws_ok u" "ws_len u = ws_len t"
    "ws_payload u = abs_puts (ws_len t) ds (ws_payload t)" "u = t \<or> ws_synced u"
    by (rule ws_implementsE)
  with t show "\<exists>s'. rbind (f s) g = Inr s' \<and> ws_ok s' \<and> ws_len s' = ws_len s
       \<and> ws_payload s' = abs_puts (ws_len s) (cs @ ds) (ws_payload s) \<and> (s' = s \<or> ws_synced s')"
    by (auto simp: abs_puts_append)
qed

lemma ws_implements_rfold:
  assumes "\<And>v. v \<in> set vs \<Longrightarrow> ws_implements (ins v) (chunks v)"
  shows "ws_implements (rfold ins vs) (concat (map chunks vs))"
  using assms
proof (induction vs)
  case Nil
  have "rfold ins [] = Inr" by (rule ext) simp
  then show ?case by (simp add: ws_implements_Inr)
next
  case (Cons v vs)
  have "rfold ins (v # vs) = (\<lambda>s. rbind (ins v s) (rfold ins vs))" by (rule ext) simp
  with Cons show ?case by (simp add: ws_implements_seq)
qed

text \<open>The state after an attempt to write a chunk.\<close>

definition ws_tried :: "byte list \<Rightarrow> wstream \<Rightarrow> wstream" where
  "ws_tried c s = (if ws_cur s + length c \<le> ws_len s then ws_app c s else s)"

lemma ws_tried_len [simp]: "ws_len (ws_tried c s) = ws_len s"
  by (simp add: ws_tried_def)

lemma ws_tried_ok: "ws_ok s \<Longrightarrow> ws_ok (ws_tried c s)"
  by (simp add: ws_tried_def ws_app_ok)

lemma ws_tried_payload:
  assumes "ws_ok s"
  shows "ws_payload (ws_tried c s) = abs_put (ws_len s) c (ws_payload s)"
proof -
  have "4 + length (ws_payload s) = ws_cur s"
    using assms by (auto simp: ws_payload_length ws_ok_def)
  with assms show ?thesis by (auto simp: ws_tried_def abs_put_def ws_app_payload)
qed

lemma ws_Write_tried:
  "ws_ok s \<Longrightarrow> \<exists>b. ws_Write_int i s = Inr (b, ws_tried (be32 i) s)"
  "ws_ok s \<Longrightarrow> \<exists>b. ws_Write_short j s = Inr (b, ws_tried (be16 j) s)"
  by (auto simp: ws_Write_int_eq ws_Write_short_eq ws_tried_def)

text \<open>One chunk, written and then flushed.\<close>

lemma ws_implements_chunk:
  assumes "\<And>s. ws_ok s \<Longrightarrow>
    f s = Inr (if ws_cur s + length c \<le> ws_len s then ws_flushed (ws_app c s) else s)"
  shows "ws_implements f [c]"
proof (rule ws_implementsI)
  fix s :: wstream
  assume ok: "ws_ok s"
  then have len: "4 + length (ws_payload s) = ws_cur s"
    by (auto simp: ws_payload_length ws_ok_def)
  show "\<exists>s'. f s = Inr s' \<and> ws_ok s' \<and> ws_len s' = ws_len s
       \<and> ws_payload s' = abs_puts (ws_len s) [c] (ws_payload s) \<and> (s' = s \<or> ws_synced s')"
    using assms [OF ok] ok len by (auto simp: abs_put_def ws_laws)
qed

subsection \<open>The interface of the insertion operators\<close>

locale inserter =
  fixes ins :: "'v \<Rightarrow> wstream \<Rightarrow> wstream res"
    and chunks :: "'v \<Rightarrow> byte list list"
    and insertable :: "'v \<Rightarrow> bool"
  assumes ins_implements: "insertable v \<Longrightarrow> ws_implements (ins v) (chunks v)"
begin

lemma ins_all: "(\<And>v. v \<in> set vs \<Longrightarrow> insertable v) \<Longrightarrow>
    ws_implements (rfold ins vs) (concat (map chunks vs))"
  by (rule ws_implements_rfold) (rule ins_implements)

lemma ins_room:
  assumes "insertable v" and "ws_ok s" and "ws_cur s + length (concat (chunks v)) \<le> ws_len s"
  shows "\<exists>s'. ins v s = Inr s' \<and> ws_ok s' \<and> ws_len s' = ws_len s
            \<and> ws_payload s' = ws_payload s @ concat (chunks v)"
proof -
  from ins_implements [OF assms(1)] assms(2) obtain s' where s': "ins v s = Inr s'" "ws_ok s'"
    "ws_len s' = ws_len s" "ws_payload s' = abs_puts (ws_len s) (chunks v) (ws_payload s)"
    by (rule ws_implementsE)
  moreover have "4 + length (ws_payload s) = ws_cur s"
    using assms(2) by (auto simp: ws_payload_length ws_ok_def)
  ultimately show ?thesis using assms(3) by (auto simp: abs_puts_fit)
qed

text \<open>The vector template over an element operator.\<close>

lemma ins_vector_implements:
  assumes "\<And>v. v \<in> set vs \<Longrightarrow> insertable v"
  shows "ws_implements (ws_ins_vector ins vs)
           (be16 (word_of_nat (length vs)) # concat (map chunks vs))"
proof (rule ws_implementsI)
  fix s :: wstream
  let ?c = "be16 (word_of_nat (length vs))"
  assume ok: "ws_ok s"
  obtain b where t: "ws_Write_short (word_of_nat (length vs)) s = Inr (b, ws_tried ?c s)"
    using ws_Write_tried(2) [OF ok] by blast
  have elems: "ws_implements (rfold ins vs) (concat (map chunks vs))"
    by (rule ins_all) (rule assms)
  obtain u where u: "rfold ins vs (ws_tried ?c s) = Inr u" "ws_ok u"
    "ws_len u = ws_len (ws_tried ?c s)"
    "ws_payload u = abs_puts (ws_len (ws_tried ?c s)) (concat (map chunks vs)) (ws_payload (ws_tried ?c s))"
    by (rule ws_implementsE [OF elems ws_tried_ok [OF ok]])
  show "\<exists>s'. ws_ins_vector ins vs s = Inr s' \<and> ws_ok s' \<and> ws_len s' = ws_len s
       \<and> ws_payload s' = abs_puts (ws_len s) (?c # concat (map chunks vs)) (ws_payload s)
       \<and> (s' = s \<or> ws_synced s')"
  proof (intro exI conjI disjI2)
    show "ws_ins_vector ins vs s = Inr (ws_flushed u)"
      using t u by (simp add: ws_ins_vector_def ws_Flush_eq)
    show "ws_payload (ws_flushed u) =
        abs_puts (ws_len s) (?c # concat (map chunks vs)) (ws_payload s)"
      using u by (simp only: ws_flushed_payload ws_tried_payload [OF ok] ws_tried_len abs_puts_simps)
  qed (use u in \<open>simp_all add: ws_flushed_ok ws_flushed_synced\<close>)
qed

end

subsection \<open>The operators of the class satisfy it\<close>

definition be_chunk :: "('v \<Rightarrow> byte list) \<Rightarrow> 'v \<Rightarrow> byte list list" where
  "be_chunk enc v = [enc v]"

definition string_chunk :: "byte list \<Rightarrow> byte list list" where
  "string_chunk str = [be16 (word_of_nat (length str)) @ str]"

definition llong_chunks :: "u64 \<Rightarrow> byte list list" where
  "llong_chunks i = [be32 (ucast (signed_drop_bit 32 i)), be32 (ucast i)]"

interpretation ins_int: inserter ws_ins_int "be_chunk be32" "\<lambda>_. True"
  by unfold_locales (auto simp: be_chunk_def ws_ins_int_eq intro: ws_implements_chunk)

interpretation ins_float: inserter ws_ins_float "be_chunk be32" "\<lambda>_. True"
  by unfold_locales (auto simp: be_chunk_def ws_ins_float_eq ws_ins_int_eq intro: ws_implements_chunk)

interpretation ins_short: inserter ws_ins_short "be_chunk be16" "\<lambda>_. True"
  by unfold_locales (auto simp: be_chunk_def ws_ins_short_eq intro: ws_implements_chunk)

interpretation ins_char: inserter ws_ins_char "be_chunk (\<lambda>c. [c])" "\<lambda>_. True"
  by unfold_locales (auto simp: be_chunk_def ws_ins_char_eq intro: ws_implements_chunk)

interpretation ins_uchar: inserter ws_ins_uchar "be_chunk (\<lambda>c. [c])" "\<lambda>_. True"
  by unfold_locales
    (auto simp: be_chunk_def ws_ins_uchar_eq ws_ins_char_eq intro: ws_implements_chunk)

interpretation ins_string: inserter ws_ins_string string_chunk "\<lambda>str. length str < 32768"
  by unfold_locales
    (auto simp: string_chunk_def ws_ins_string_eq add.assoc add.commute intro!: ws_implements_chunk)

lemma ws_ins_llong_implements: "ws_implements (ws_ins_llong i) (llong_chunks i)"
proof (rule ws_implementsI)
  fix s :: wstream
  let ?hi = "be32 (ucast (signed_drop_bit 32 i))" and ?lo = "be32 (ucast i)"
  let ?t = "ws_tried ?hi s"
  let ?u = "ws_tried ?lo ?t"
  assume ok: "ws_ok s"
  then have okt: "ws_ok ?t" and oku: "ws_ok ?u"
    by (simp_all add: ws_tried_ok)
  obtain a b where "ws_Write_int (ucast (signed_drop_bit 32 i)) s = Inr (a, ?t)"
    "ws_Write_int (ucast i) ?t = Inr (b, ?u)"
    using ws_Write_tried(1) ok okt by blast
  then have "ws_ins_llong i s = Inr (ws_flushed ?u)"
    using oku by (simp add: ws_ins_llong_def ws_Flush_eq)
  then show "\<exists>s'. ws_ins_llong i s = Inr s' \<and> ws_ok s' \<and> ws_len s' = ws_len s
       \<and> ws_payload s' = abs_puts (ws_len s) (llong_chunks i) (ws_payload s)
       \<and> (s' = s \<or> ws_synced s')"
    using ok okt oku
    by (simp add: llong_chunks_def ws_flushed_payload ws_flushed_ok ws_flushed_synced
        ws_tried_payload)
qed

interpretation ins_llong: inserter ws_ins_llong llong_chunks "\<lambda>_. True"
  by unfold_locales (rule ws_ins_llong_implements)

interpretation ins_vec_int: inserter "ws_ins_vector ws_ins_int"
  "\<lambda>vs. be16 (word_of_nat (length vs)) # concat (map (be_chunk be32) vs)" "\<lambda>_. True"
  by unfold_locales (rule ins_int.ins_vector_implements, simp)

end
