(* ===== verification/BinaryRead.thy ===== *)
theory BinaryRead
  imports BinaryWrite
begin

text \<open>
  The class \<open>BinaryReadStream\<close> of src/Server/netPack/commDef.hpp and commDef.cpp. An out
  parameter of the code is an argument (its value before the call) and a component of the result
  (its value after the call), so a read that fails and leaves it alone says so. \<open>rs_mem\<close> is the
  object the pointer points to; reads past its end are faults.
\<close>

subsection \<open>State and operations\<close>

record rstream =
  rs_mem :: "byte list"   \<comment> \<open>the object \<open>ptr\<close> points to\<close>
  rs_len :: nat           \<comment> \<open>\<open>len\<close>\<close>
  rs_cur :: nat           \<comment> \<open>\<open>cur - ptr\<close>\<close>

definition BinaryReadStream_new :: "byte list \<Rightarrow> nat \<Rightarrow> rstream" where
  "BinaryReadStream_new mem n = \<lparr>rs_mem = mem, rs_len = n, rs_cur = 0 + BINARY_PACKLEN_LEN\<rparr>"

definition rs_IsEmpty :: "rstream \<Rightarrow> bool" where
  "rs_IsEmpty s = (rs_len s \<le> BINARY_PACKLEN_LEN)"

definition rs_GetSize :: "rstream \<Rightarrow> nat" where
  "rs_GetSize s = rs_len s"

definition rs_GetData :: "rstream \<Rightarrow> byte list" where
  "rs_GetData s = rs_mem s"

text \<open>
  Two bytes are read as the length but the caller advances: \<open>None\<close> is the result \<open>false\<close>.
\<close>

definition rs_ReadLengthWithoutOffset :: "rstream \<Rightarrow> nat option res" where
  "rs_ReadLengthWithoutOffset s =
     (if rs_cur s + BINARY_PACKLEN_LEN2 > rs_len s then Inr None
      else rbind (memcpy_from (rs_mem s) (rs_cur s) 2) (\<lambda>bs.
             let tmp = le_word bs :: u16 in Inr (Some (unat (ntohs tmp)))))"

definition rs_ReadLength :: "nat \<Rightarrow> rstream \<Rightarrow> (bool \<times> nat \<times> rstream) res" where
  "rs_ReadLength outlen s =
     rbind (rs_ReadLengthWithoutOffset s) (\<lambda>r. case r of
       None \<Rightarrow> Inr (False, outlen, s)
     | Some n \<Rightarrow> Inr (True, n, s\<lparr>rs_cur := rs_cur s + BINARY_PACKLEN_LEN\<rparr>))"

text \<open>\<open>dest\<close> is the object the destination pointer points to, \<open>strlen\<close> the size it is said to have.\<close>

definition rs_Read_buf ::
  "byte list \<Rightarrow> nat \<Rightarrow> nat \<Rightarrow> rstream \<Rightarrow> (bool \<times> byte list \<times> nat \<times> rstream) res" where
  "rs_Read_buf dest strlen outlen s =
     rbind (rs_ReadLengthWithoutOffset s) (\<lambda>r. case r of
       None \<Rightarrow> Inr (False, dest, outlen, s)
     | Some fieldlen \<Rightarrow>
         if strlen < fieldlen then Inr (False, dest, outlen, s)
         else let s1 = s\<lparr>rs_cur := rs_cur s + BINARY_PACKLEN_LEN2\<rparr>
              in rbind (memcpy_from (rs_mem s1) (rs_cur s1) fieldlen) (\<lambda>bs.
                 rbind (memcpy_to dest 0 bs) (\<lambda>dest'.
                 Inr (True, dest', fieldlen, s1\<lparr>rs_cur := rs_cur s1 + fieldlen\<rparr>))))"

definition rs_Read_string ::
  "byte list \<Rightarrow> nat \<Rightarrow> rstream \<Rightarrow> (bool \<times> byte list \<times> nat \<times> rstream) res" where
  "rs_Read_string str outlen s =
     rbind (rs_ReadLengthWithoutOffset s) (\<lambda>r. case r of
       None \<Rightarrow> Inr (False, str, outlen, s)
     | Some fieldlen \<Rightarrow>
         let s1 = s\<lparr>rs_cur := rs_cur s + BINARY_PACKLEN_LEN2\<rparr>
         in rbind (memcpy_from (rs_mem s1) (rs_cur s1) fieldlen) (\<lambda>bs.
            Inr (True, bs, fieldlen, s1\<lparr>rs_cur := rs_cur s1 + fieldlen\<rparr>)))"

definition rs_Read_int :: "u32 \<Rightarrow> rstream \<Rightarrow> (bool \<times> u32 \<times> rstream) res" where
  "rs_Read_int i s =
     (if rs_cur s + 4 > rs_len s then Inr (False, i, s)
      else rbind (memcpy_from (rs_mem s) (rs_cur s) 4) (\<lambda>bs.
             Inr (True, ntohl (le_word bs), s\<lparr>rs_cur := rs_cur s + 4\<rparr>)))"

definition rs_Read_short :: "u16 \<Rightarrow> rstream \<Rightarrow> (bool \<times> u16 \<times> rstream) res" where
  "rs_Read_short i s =
     (if rs_cur s + 2 > rs_len s then Inr (False, i, s)
      else rbind (memcpy_from (rs_mem s) (rs_cur s) 2) (\<lambda>bs.
             Inr (True, ntohs (le_word bs), s\<lparr>rs_cur := rs_cur s + 2\<rparr>)))"

definition rs_Read_char :: "byte \<Rightarrow> rstream \<Rightarrow> (bool \<times> byte \<times> rstream) res" where
  "rs_Read_char c s =
     (if rs_cur s + 1 > rs_len s then Inr (False, c, s)
      else rbind (memcpy_from (rs_mem s) (rs_cur s) 1) (\<lambda>bs.
             Inr (True, le_word bs, s\<lparr>rs_cur := rs_cur s + 1\<rparr>)))"

subsection \<open>Extraction operators\<close>

definition rs_ext_int :: "u32 \<Rightarrow> rstream \<Rightarrow> (u32 \<times> rstream) res" where
  "rs_ext_int i s =
     (if rs_cur s + 4 > rs_len s then Inr (i, s)
      else rbind (memcpy_from (rs_mem s) (rs_cur s) 4) (\<lambda>bs.
             Inr (ntohl (le_word bs), s\<lparr>rs_cur := rs_cur s + 4\<rparr>)))"

text \<open>
  Two \<open>int\<close>s; the second is sign-extended by \<open>(int)uiLowValue\<close> before the bitwise or. The two
  local variables are always written before they are used, so their initial value does not
  matter; it is \<open>0\<close> here.
\<close>

definition rs_ext_llong :: "u64 \<Rightarrow> rstream \<Rightarrow> (u64 \<times> rstream) res" where
  "rs_ext_llong i s =
     rbind (rs_Read_int 0 s) (\<lambda>(ok1, highValue, s1).
       if \<not> ok1 then Inr (i, s1)
       else rbind (rs_Read_int 0 s1) (\<lambda>(ok2, lowValue, s2).
         if \<not> ok2 then Inr (i, s2)
         else Inr (push_bit 32 (scast highValue) OR scast lowValue, s2)))"

definition rs_ext_float :: "u32 \<Rightarrow> rstream \<Rightarrow> (u32 \<times> rstream) res" where
  "rs_ext_float f s =
     (if rs_cur s + 4 > rs_len s then Inr (f, s)
      else rbind (memcpy_from (rs_mem s) (rs_cur s) 4) (\<lambda>bs.
             let iTmp = ntohl (le_word bs) in Inr (iTmp, s\<lparr>rs_cur := rs_cur s + 4\<rparr>)))"

definition rs_ext_short :: "u16 \<Rightarrow> rstream \<Rightarrow> (u16 \<times> rstream) res" where
  "rs_ext_short i s =
     (if rs_cur s + 2 > rs_len s then Inr (i, s)
      else rbind (memcpy_from (rs_mem s) (rs_cur s) 2) (\<lambda>bs.
             Inr (ntohs (le_word bs), s\<lparr>rs_cur := rs_cur s + 2\<rparr>)))"

definition rs_ext_char :: "byte \<Rightarrow> rstream \<Rightarrow> (byte \<times> rstream) res" where
  "rs_ext_char c s =
     (if rs_cur s + 1 > rs_len s then Inr (c, s)
      else rbind (memcpy_from (rs_mem s) (rs_cur s) 1) (\<lambda>bs.
             Inr (le_word bs, s\<lparr>rs_cur := rs_cur s + 1\<rparr>)))"

definition rs_ext_string :: "byte list \<Rightarrow> rstream \<Rightarrow> (byte list \<times> rstream) res" where
  "rs_ext_string str s =
     rbind (rs_ReadLengthWithoutOffset s) (\<lambda>r. case r of
       None \<Rightarrow> Inr (str, s)
     | Some fieldlen \<Rightarrow>
         let s1 = s\<lparr>rs_cur := rs_cur s + BINARY_PACKLEN_LEN2\<rparr>
         in rbind (memcpy_from (rs_mem s1) (rs_cur s1) fieldlen) (\<lambda>bs.
            Inr (bs, s1\<lparr>rs_cur := rs_cur s1 + fieldlen\<rparr>)))"

text \<open>
  The vector templates. \<open>temp\<close> is declared once outside the loop, so an element whose read fails
  repeats the one before it; its first value is a parameter. A count that could not be read is an
  indeterminate value that the code goes on to test: a fault.
\<close>

fun rs_elems ::
  "('v \<Rightarrow> rstream \<Rightarrow> ('v \<times> rstream) res) \<Rightarrow> nat \<Rightarrow> 'v \<Rightarrow> 'v list \<Rightarrow> rstream \<Rightarrow>
   ('v list \<times> rstream) res" where
  "rs_elems ext 0 temp val s = Inr (val, s)"
| "rs_elems ext (Suc n) temp val s =
     rbind (ext temp s) (\<lambda>(temp', s'). rs_elems ext n temp' (val @ [temp']) s')"

definition rs_ext_vector ::
  "('v \<Rightarrow> rstream \<Rightarrow> ('v \<times> rstream) res) \<Rightarrow> 'v \<Rightarrow> 'v list \<Rightarrow> rstream \<Rightarrow> ('v list \<times> rstream) res" where
  "rs_ext_vector ext temp0 val s =
     rbind (rs_Read_short 0 s) (\<lambda>(ok, vallen, s1).
       if \<not> ok then Inl Uninitialised
       else if sint vallen < 0 \<or> sint vallen > 1000 then Inr ([], s1)
       else rs_elems ext (nat (sint vallen)) temp0 [] s1)"

definition ReadVector ::
  "('v \<Rightarrow> rstream \<Rightarrow> ('v \<times> rstream) res) \<Rightarrow> 'v \<Rightarrow> 'v list \<Rightarrow> rstream \<Rightarrow>
   (bool \<times> 'v list \<times> rstream) res" where
  "ReadVector unpack temp0 val s =
     rbind (rs_Read_short 0 s) (\<lambda>(ok, vallen, s1).
       if \<not> ok then Inl Uninitialised
       else rbind (rs_elems unpack (nat (sint vallen)) temp0 [] s1) (\<lambda>(v, s2). Inr (True, v, s2)))"

definition rs_IsEnd :: "rstream \<Rightarrow> bool res" where
  "rs_IsEnd s = (if \<not> rs_cur s \<le> rs_len s then Inl AssertFailed else Inr (rs_cur s = rs_len s))"

definition rs_ReadAll :: "byte list \<Rightarrow> nat \<Rightarrow> rstream \<Rightarrow> (nat \<times> byte list) res" where
  "rs_ReadAll szBuffer iLen s =
     (let iRealLen = min iLen (rs_len s)
      in rbind (memcpy_from (rs_mem s) 0 iRealLen) (\<lambda>bs.
         rbind (memcpy_to szBuffer 0 bs) (\<lambda>buf. Inr (iRealLen, buf))))"

subsection \<open>Contract with the caller and the unread bytes\<close>

text \<open>\<open>rs_ok\<close>: the length argument of the constructor is the size of the object.\<close>

definition rs_ok :: "rstream \<Rightarrow> bool" where
  "rs_ok s \<longleftrightarrow> rs_len s = length (rs_mem s)"

definition rs_rest :: "rstream \<Rightarrow> byte list" where
  "rs_rest s = drop (rs_cur s) (rs_mem s)"

definition rs_adv :: "nat \<Rightarrow> rstream \<Rightarrow> rstream" where
  "rs_adv n s = s\<lparr>rs_cur := rs_cur s + n\<rparr>"

lemma rs_adv_laws [simp]:
  "rs_rest (rs_adv n s) = drop n (rs_rest s)" "rs_ok (rs_adv n s) = rs_ok s"
  "rs_adv n (rs_adv m s) = rs_adv (m + n) s" "rs_len (rs_adv n s) = rs_len s"
  "rs_cur (rs_adv n s) = rs_cur s + n" "rs_mem (rs_adv n s) = rs_mem s"
  by (simp_all add: rs_adv_def rs_rest_def rs_ok_def add.commute add.assoc)

lemma rs_fits: "rs_ok s \<Longrightarrow> 0 < n \<Longrightarrow> rs_len s < rs_cur s + n \<longleftrightarrow> length (rs_rest s) < n"
  by (auto simp: rs_ok_def rs_rest_def)

lemma rs_copy:
  "rs_ok s \<Longrightarrow> n \<le> length (rs_rest s) \<Longrightarrow> 0 < n \<Longrightarrow>
     memcpy_from (rs_mem s) (rs_cur s) n = Inr (take n (rs_rest s))"
  by (auto simp: rs_ok_def rs_rest_def memcpy_from_def)

text \<open>What big-endian bytes stand for.\<close>

definition from_be32 :: "byte list \<Rightarrow> u32" where
  "from_be32 bs = ntohl (le_word bs)"

definition from_be16 :: "byte list \<Rightarrow> u16" where
  "from_be16 bs = ntohs (le_word bs)"

lemma from_be [simp]: "from_be32 (be32 w) = w" "from_be16 (be16 v) = v"
  by (simp_all add: from_be32_def from_be16_def load_ntohl load_ntohs)

lemma be_from:
  "length bs = 4 \<Longrightarrow> be32 (from_be32 bs) = bs" "length cs = 2 \<Longrightarrow> be16 (from_be16 cs) = cs"
  using le_bytes_le_word [of bs, where 'a = 32] le_bytes_le_word [of "rev bs", where 'a = 32]
    le_bytes_le_word [of cs, where 'a = 16] le_bytes_le_word [of "rev cs", where 'a = 16]
  by (simp_all add: from_be32_def be32_def ntohl_def htonl_def from_be16_def be16_def ntohs_def
      htons_def)

subsection \<open>Exact effect of the reads\<close>

lemma rs_Read_int_eq:
  "rs_ok s \<Longrightarrow> rs_Read_int i s =
     Inr (if 4 \<le> length (rs_rest s) then (True, from_be32 (take 4 (rs_rest s)), rs_adv 4 s)
          else (False, i, s))"
  by (auto simp: rs_Read_int_def rs_fits rs_copy from_be32_def rs_adv_def not_less)

lemma rs_Read_short_eq:
  "rs_ok s \<Longrightarrow> rs_Read_short i s =
     Inr (if 2 \<le> length (rs_rest s) then (True, from_be16 (take 2 (rs_rest s)), rs_adv 2 s)
          else (False, i, s))"
  by (auto simp: rs_Read_short_def rs_fits rs_copy from_be16_def rs_adv_def not_less)

lemma rs_ext_int_eq:
  "rs_ok s \<Longrightarrow> rs_ext_int i s =
     Inr (if 4 \<le> length (rs_rest s) then (from_be32 (take 4 (rs_rest s)), rs_adv 4 s) else (i, s))"
  by (auto simp: rs_ext_int_def rs_fits rs_copy from_be32_def rs_adv_def not_less)

lemma rs_ext_float_eq: "rs_ext_float i s = rs_ext_int i s"
  by (simp add: rs_ext_float_def rs_ext_int_def Let_def)

lemma rs_ext_short_eq:
  "rs_ok s \<Longrightarrow> rs_ext_short i s =
     Inr (if 2 \<le> length (rs_rest s) then (from_be16 (take 2 (rs_rest s)), rs_adv 2 s) else (i, s))"
  by (auto simp: rs_ext_short_def rs_fits rs_copy from_be16_def rs_adv_def not_less)

lemma rs_ext_char_eq:
  assumes "rs_ok s"
  shows "rs_ext_char c s =
    Inr (case rs_rest s of [] \<Rightarrow> (c, s) | b # _ \<Rightarrow> (b, rs_adv 1 s))"
proof (cases "rs_rest s")
  case Nil
  then show ?thesis using rs_fits [OF assms, of 1] by (simp add: rs_ext_char_def)
next
  case (Cons b bs)
  then show ?thesis using rs_fits [OF assms, of 1] rs_copy [OF assms, of 1]
    by (simp add: rs_ext_char_def rs_adv_def)
qed

lemma rs_ReadLengthWithoutOffset_eq:
  "rs_ok s \<Longrightarrow> rs_ReadLengthWithoutOffset s =
     Inr (if 2 \<le> length (rs_rest s) then Some (unat (from_be16 (take 2 (rs_rest s)))) else None)"
  by (auto simp: rs_ReadLengthWithoutOffset_def rs_fits rs_copy from_be16_def not_less)

text \<open>The length that a string read takes from the stream.\<close>

definition declared_len :: "rstream \<Rightarrow> nat" where
  "declared_len s = unat (from_be16 (take 2 (rs_rest s)))"

lemma rs_string_copy:
  assumes "rs_ok s" and "2 \<le> length (rs_rest s)"
  shows "memcpy_from (rs_mem s) (rs_cur s + 2) n =
    (if 2 + n \<le> length (rs_rest s) then Inr (take n (drop 2 (rs_rest s))) else Inl OutOfBounds)"
  using assms by (auto simp: rs_ok_def rs_rest_def memcpy_from_def add.commute)

lemma rs_ext_string_eq:
  assumes "rs_ok s"
  shows "rs_ext_string str s =
    (if length (rs_rest s) < 2 then Inr (str, s)
     else if length (rs_rest s) < 2 + declared_len s then Inl OutOfBounds
     else Inr (take (declared_len s) (drop 2 (rs_rest s)), rs_adv (2 + declared_len s) s))"
  using assms
  by (auto simp: rs_ext_string_def rs_ReadLengthWithoutOffset_eq Let_def rs_string_copy
      declared_len_def rs_adv_def add.assoc)

lemma rs_Read_string_eq:
  assumes "rs_ok s"
  shows "rs_Read_string str outlen s =
    (if length (rs_rest s) < 2 then Inr (False, str, outlen, s)
     else if length (rs_rest s) < 2 + declared_len s then Inl OutOfBounds
     else Inr (True, take (declared_len s) (drop 2 (rs_rest s)), declared_len s,
               rs_adv (2 + declared_len s) s))"
  using assms
  by (auto simp: rs_Read_string_def rs_ReadLengthWithoutOffset_eq Let_def rs_string_copy
      declared_len_def rs_adv_def add.assoc)

text \<open>
  Reading a string trusts the length in the stream: the read leaves the buffer exactly when two length bytes are
  there and the length they give is more than what follows; otherwise it returns the declared bytes, or leaves the
  target alone when not even the length is there.
\<close>

theorem string_read_exact:
  assumes "rs_ok r"
  shows "rs_ext_string old r =
    (if length (rs_rest r) < 2 then Inr (old, r)
     else if length (rs_rest r) - 2 < unat (from_be16 (take 2 (rs_rest r))) then Inl OutOfBounds
     else Inr (take (unat (from_be16 (take 2 (rs_rest r)))) (drop 2 (rs_rest r)),
               rs_adv (2 + unat (from_be16 (take 2 (rs_rest r)))) r))"
  using assms by (auto simp: rs_ext_string_eq declared_len_def)

end
