(* ===== verification/StreamType.thy ===== *)
theory StreamType
  imports BinaryWriteSpec BinaryRead
begin

text \<open>
  The contract of the extraction operators of \<open>BinaryReadStream\<close>, and of the two operators of a
  value type together: what was inserted is extracted again. Interpreted for the value types of
  the streams; vectors are derived from their element type once, inside the locales.
\<close>

subsection \<open>Extraction operators\<close>

text \<open>How many elements of a vector are read back.\<close>

definition vector_count :: "'v list \<Rightarrow> nat" where
  "vector_count vs = (let m = length vs mod 65536 in if m \<le> 1000 then m else 0)"

lemma word_of_nat_mod: "(word_of_nat n :: u16) = word_of_nat (n mod 65536)"
  by (rule word_unat_eq_iff [THEN iffD2]) (simp add: unsigned_of_nat take_bit_eq_mod)

locale extractor =
  fixes ext :: "'v \<Rightarrow> rstream \<Rightarrow> ('v \<times> rstream) res"
    and enc :: "'v \<Rightarrow> byte list"
    and readable :: "'v \<Rightarrow> bool"
  assumes ext_enc: "rs_ok s \<Longrightarrow> readable v \<Longrightarrow> rs_rest s = enc v @ r \<Longrightarrow>
      ext old s = Inr (v, rs_adv (length (enc v)) s)"
begin

lemma elems_enc:
  assumes "rs_ok s" and "\<And>v. v \<in> set vs \<Longrightarrow> readable v"
    and "rs_rest s = concat (map enc vs) @ r"
  shows "rs_elems ext (length vs) temp acc s =
           Inr (acc @ vs, rs_adv (length (concat (map enc vs))) s)"
  using assms
proof (induction vs arbitrary: temp acc s)
  case Nil
  then show ?case by (simp add: rs_adv_def)
next
  case (Cons v vs)
  let ?s = "rs_adv (length (enc v)) s"
  from Cons.prems(3) have "rs_rest s = enc v @ concat (map enc vs) @ r" by simp
  with Cons.prems have v: "ext temp s = Inr (v, ?s)"
    by (intro ext_enc) auto
  have "rs_elems ext (length vs) v (acc @ [v]) ?s =
          Inr ((acc @ [v]) @ vs, rs_adv (length (concat (map enc vs))) ?s)"
    using Cons.prems by (intro Cons.IH) auto
  then show ?case by (simp add: v)
qed

text \<open>The vector operator reads back a vector of at most a thousand elements.\<close>

lemma vector_enc:
  assumes "rs_ok s" and "length vs \<le> 1000" and "\<And>v. v \<in> set vs \<Longrightarrow> readable v"
    and "rs_rest s = be16 (word_of_nat (length vs)) @ concat (map enc vs) @ r"
  shows "rs_ext_vector ext temp0 old s =
           Inr (vs, rs_adv (2 + length (concat (map enc vs))) s)"
proof -
  let ?n = "word_of_nat (length vs) :: u16"
  have n: "sint ?n = int (length vs)"
    using assms(2) by (simp add: short_of_length)
  have "rs_Read_short 0 s = Inr (True, ?n, rs_adv 2 s)"
    using assms(1,4) by (simp add: rs_Read_short_eq)
  moreover have "rs_elems ext (length vs) temp0 [] (rs_adv 2 s) =
      Inr ([] @ vs, rs_adv (length (concat (map enc vs))) (rs_adv 2 s))"
    using assms(1,3,4) by (intro elems_enc) auto
  ultimately show ?thesis
    using assms(2) by (simp add: rs_ext_vector_def n)
qed

text \<open>
  A vector of any length: the count in the stream is the length modulo \<open>2 ^ 16\<close>, and a count of more than a
  thousand stands for no elements at all. The elements that are not read stay in the stream.
\<close>

lemma vector_cut:
  assumes "rs_ok s" and "\<And>v. v \<in> set vs \<Longrightarrow> readable v"
    and "rs_rest s = be16 (word_of_nat (length vs)) @ concat (map enc vs) @ r"
  shows "rs_ext_vector ext temp0 old s =
    Inr (take (vector_count vs) vs, rs_adv (2 + length (concat (map enc (take (vector_count vs) vs)))) s)"
proof -
  let ?m = "length vs mod 65536"
  have count: "(word_of_nat (length vs) :: u16) = word_of_nat ?m" by (rule word_of_nat_mod)
  show ?thesis
  proof (cases "?m \<le> 1000")
    case True
    then have k: "vector_count vs = ?m" "length (take ?m vs) = ?m"
      by (simp_all add: vector_count_def)
    have "concat (map enc vs) = concat (map enc (take ?m vs)) @ concat (map enc (drop ?m vs))"
      by (metis append_take_drop_id concat_append map_append)
    then show ?thesis
      unfolding k(1) using assms True k(2) count
      by (intro vector_enc [where r = "concat (map enc (drop ?m vs)) @ r"]) (auto dest: in_set_takeD)
  next
    case False
    then have "vector_count vs = 0" by (simp add: vector_count_def)
    moreover have "sint (word_of_nat ?m :: u16) < 0 \<or> 1000 < sint (word_of_nat ?m :: u16)"
      using False short_of_length [of ?m] short_of_large [of ?m] by (cases "?m < 32768") auto
    ultimately show ?thesis
      using assms(1,3) count by (simp add: rs_ext_vector_def rs_Read_short_eq)
  qed
qed

end

text \<open>A value type with both operators.\<close>

locale stream_type = inserter ins chunks insertable + extractor ext enc readable
  for ins :: "'v \<Rightarrow> wstream \<Rightarrow> wstream res"
    and chunks :: "'v \<Rightarrow> byte list list" and insertable :: "'v \<Rightarrow> bool"
    and ext :: "'v \<Rightarrow> rstream \<Rightarrow> ('v \<times> rstream) res"
    and enc :: "'v \<Rightarrow> byte list" and readable :: "'v \<Rightarrow> bool" +
  assumes enc_chunks: "enc v = concat (chunks v)"
begin

text \<open>Written into a stream with room for it, a value can be read back from where it starts.\<close>

lemma ins_ext:
  assumes "insertable v" and "readable v" and "ws_ok w"
    and "ws_cur w + length (enc v) \<le> ws_len w"
    and "rs_ok r" and "rs_rest r = enc v @ rest"
  shows "\<exists>w'. ins v w = Inr w' \<and> ws_payload w' = ws_payload w @ enc v
            \<and> ext old r = Inr (v, rs_adv (length (enc v)) r)"
  using ins_room [of v w] ext_enc [OF assms(5,2,6)] assms(1,3,4) by (auto simp: enc_chunks)

end

subsection \<open>The value types\<close>

definition string_enc :: "byte list \<Rightarrow> byte list" where
  "string_enc str = be16 (word_of_nat (length str)) @ str"

definition llong_enc :: "u64 \<Rightarrow> byte list" where
  "llong_enc i = be32 (ucast (signed_drop_bit 32 i)) @ be32 (ucast i)"

text \<open>What the extraction operator makes of the two halves that the insertion operator wrote.\<close>

definition llong_back :: "u64 \<Rightarrow> u64" where
  "llong_back i = push_bit 32 (scast (ucast (signed_drop_bit 32 i) :: u32)) OR scast (ucast i :: u32)"

text \<open>The numbers for which it is the number again.\<close>

definition llong_readable :: "u64 \<Rightarrow> bool" where
  "llong_readable i \<longleftrightarrow> \<not> bit i 31 \<or> signed_drop_bit 32 i = -1"

lemma bit_llong_back:
  "bit (llong_back i) n \<longleftrightarrow> n < 64 \<and> (bit i n \<or> 32 \<le> n \<and> bit i 31)"
proof (cases "n < 64")
  case True
  then show ?thesis
    by (cases "n < 32") (auto simp: llong_back_def bit_simps)
next
  case False
  then show ?thesis by (auto dest: bit_imp_le_length)
qed

lemma high_half_ones: "signed_drop_bit 32 i = (-1 :: u64) \<longleftrightarrow> (\<forall>n. 32 \<le> n \<longrightarrow> n < 64 \<longrightarrow> bit i n)"
proof
  assume ones: "signed_drop_bit 32 i = -1"
  show "\<forall>n. 32 \<le> n \<longrightarrow> n < 64 \<longrightarrow> bit i n"
  proof (intro allI impI)
    fix n :: nat
    assume "32 \<le> n" "n < 64"
    then have "bit (signed_drop_bit 32 i) (n - 32)" by (simp add: ones)
    with \<open>32 \<le> n\<close> \<open>n < 64\<close> show "bit i n" by (auto simp: bit_simps split: if_splits)
  qed
next
  assume "\<forall>n. 32 \<le> n \<longrightarrow> n < 64 \<longrightarrow> bit i n"
  then show "signed_drop_bit 32 i = -1"
    by (intro bit_word_eqI) (auto simp: bit_simps)
qed

lemma llong_back_eq_iff: "llong_back i = i \<longleftrightarrow> llong_readable i"
proof -
  have "llong_back i = i \<longleftrightarrow> (\<forall>n. bit (llong_back i) n \<longleftrightarrow> bit i n)"
    by (metis bit_word_eqI)
  also have "\<dots> \<longleftrightarrow> llong_readable i"
    by (auto simp: llong_readable_def bit_llong_back high_half_ones dest: bit_imp_le_length)
  finally show ?thesis .
qed

lemma rs_ext_llong_enc:
  assumes "rs_ok s" and "rs_rest s = llong_enc i @ r"
  shows "rs_ext_llong old s = Inr (llong_back i, rs_adv 8 s)"
proof -
  have "rs_Read_int 0 s = Inr (True, ucast (signed_drop_bit 32 i), rs_adv 4 s)"
    using assms by (simp add: rs_Read_int_eq llong_enc_def)
  moreover have "rs_Read_int 0 (rs_adv 4 s) = Inr (True, ucast i, rs_adv 8 s)"
    using assms by (simp add: rs_Read_int_eq llong_enc_def)
  ultimately show ?thesis by (simp add: rs_ext_llong_def llong_back_def)
qed

lemma rs_ext_string_enc:
  assumes "rs_ok s" and "length str < 65536" and "rs_rest s = string_enc str @ r"
  shows "rs_ext_string old s = Inr (str, rs_adv (length (string_enc str)) s)"
proof -
  have "unat (word_of_nat (length str) :: u16) = length str"
    using assms(2) by (simp add: unsigned_of_nat take_bit_nat_eq_self)
  with assms show ?thesis
    by (simp add: rs_ext_string_eq declared_len_def string_enc_def)
qed

interpretation st_int: stream_type ws_ins_int "be_chunk be32" "\<lambda>_. True" rs_ext_int be32 "\<lambda>_. True"
  by unfold_locales (simp_all add: rs_ext_int_eq be_chunk_def)

interpretation st_float: stream_type ws_ins_float "be_chunk be32" "\<lambda>_. True" rs_ext_float be32 "\<lambda>_. True"
  by unfold_locales (simp_all add: rs_ext_float_eq rs_ext_int_eq be_chunk_def)

interpretation st_short: stream_type ws_ins_short "be_chunk be16" "\<lambda>_. True" rs_ext_short be16 "\<lambda>_. True"
  by unfold_locales (simp_all add: rs_ext_short_eq be_chunk_def)

interpretation st_char: stream_type ws_ins_char "be_chunk (\<lambda>c. [c])" "\<lambda>_. True"
  rs_ext_char "\<lambda>c. [c]" "\<lambda>_. True"
  by unfold_locales (simp_all add: rs_ext_char_eq be_chunk_def)

interpretation st_string: stream_type ws_ins_string string_chunk "\<lambda>str. length str < 32768"
  rs_ext_string string_enc "\<lambda>str. length str < 65536"
  by unfold_locales (simp_all add: rs_ext_string_enc string_chunk_def string_enc_def)

interpretation st_llong: stream_type ws_ins_llong llong_chunks "\<lambda>_. True"
  rs_ext_llong llong_enc llong_readable
proof unfold_locales
  show "rs_ext_llong old s = Inr (v, rs_adv (length (llong_enc v)) s)"
    if "rs_ok s" "llong_readable v" "rs_rest s = llong_enc v @ r" for s v r old
    using rs_ext_llong_enc [OF that(1,3)] that(2) by (simp add: llong_back_eq_iff llong_enc_def)
  show "llong_enc v = concat (llong_chunks v)" for v
    by (simp add: llong_enc_def llong_chunks_def)
qed

definition vec_int_chunks :: "u32 list \<Rightarrow> byte list list" where
  "vec_int_chunks vs = be16 (word_of_nat (length vs)) # concat (map (be_chunk be32) vs)"

definition vec_int_enc :: "u32 list \<Rightarrow> byte list" where
  "vec_int_enc vs = be16 (word_of_nat (length vs)) @ concat (map be32 vs)"

lemma concat_be_chunk: "concat (concat (map (be_chunk f) vs)) = concat (map f vs)"
  by (induction vs) (auto simp: be_chunk_def)

interpretation st_vec_int: stream_type "ws_ins_vector ws_ins_int" vec_int_chunks "\<lambda>_. True"
  "rs_ext_vector rs_ext_int temp0" vec_int_enc "\<lambda>vs. length vs \<le> 1000" for temp0
proof unfold_locales
  show "ws_implements (ws_ins_vector ws_ins_int v) (vec_int_chunks v)" for v
    unfolding vec_int_chunks_def by (rule ins_vec_int.ins_implements) simp
  show "rs_ext_vector rs_ext_int temp0 old s = Inr (v, rs_adv (length (vec_int_enc v)) s)"
    if "rs_ok s" "length v \<le> 1000" "rs_rest s = vec_int_enc v @ r" for s v r old
    using st_int.vector_enc [OF that(1,2), of r temp0 old] that(3) by (simp add: vec_int_enc_def)
  show "vec_int_enc v = concat (vec_int_chunks v)" for v
    by (simp add: vec_int_enc_def vec_int_chunks_def concat_be_chunk)
qed

subsection \<open>From a writer to a reader\<close>

text \<open>The bytes that a finished writer hands over, and a reader on them.\<close>

definition ws_sent :: "wstream \<Rightarrow> byte list" where
  "ws_sent w = take (ws_GetSize w) (ws_GetData w)"

lemma ws_sent_length: "ws_ok w \<Longrightarrow> length (ws_sent w) = ws_GetSize w"
  by (simp add: ws_sent_def ws_ok_def ws_GetSize_def ws_GetData_def)

lemma reader_of_writer:
  assumes "ws_ok w"
  shows "rs_ok (BinaryReadStream_new (ws_sent w) (ws_GetSize w))"
    and "rs_rest (BinaryReadStream_new (ws_sent w) (ws_GetSize w)) = ws_payload w"
  using ws_sent_length [OF assms]
  by (simp_all add: rs_ok_def rs_rest_def BinaryReadStream_new_def ws_sent_def ws_payload_def
      ws_GetSize_def ws_GetData_def drop_take)

lemma ws_sent_header:
  assumes "ws_ok w" and "ws_synced w"
  shows "take 4 (ws_sent w) = be32 (word_of_nat (length (ws_sent w)))"
  using assms ws_sent_length [OF assms(1)]
  by (simp add: ws_sent_def ws_ok_def ws_synced_def ws_GetSize_def ws_GetData_def min_absorb2)

lemma IsEnd_all_read:
  assumes "rs_ok s" and "rs_cur s = 4" and "n = length (rs_rest s)" and "4 \<le> rs_len s"
  shows "rs_IsEnd (rs_adv n s) = Inr True"
  using assms by (simp add: rs_IsEnd_def rs_ok_def rs_rest_def)

end
