(* ===== verification/StructMacros.thy ===== *)
theory StructMacros
  imports StreamType
begin

text \<open>
  The macros \<open>DEFINE_STRUCT_n\<close> and \<open>DEFINE_MSG_n\<close> of src/Server/netPack/commDef.hpp. A macro is a
  function from the member types and names (and the message id) to a description of the struct it
  declares; the bodies of \<open>Pack\<close> and \<open>UnPack\<close>, the same in every macro, insert and extract the
  members in the order of their declaration. \<open>Pack\<close> of a message also inserts \<open>msgID\<close> first;
  \<open>UnPack\<close> does not extract it.
\<close>

subsection \<open>Member types and values\<close>

datatype ftype = T_int | T_llong | T_float | T_short | T_char | T_string | T_vector_int

datatype fval =
    V_int u32 | V_llong u64 | V_float u32 | V_short u16 | V_char byte
  | V_string "byte list" | V_vector_int "u32 list"

fun type_of :: "fval \<Rightarrow> ftype" where
  "type_of (V_int _) = T_int"
| "type_of (V_llong _) = T_llong"
| "type_of (V_float _) = T_float"
| "type_of (V_short _) = T_short"
| "type_of (V_char _) = T_char"
| "type_of (V_string _) = T_string"
| "type_of (V_vector_int _) = T_vector_int"

text \<open>Overload resolution of \<open><<\<close> and \<open>>>\<close> on the member types.\<close>

fun ins_field :: "fval \<Rightarrow> wstream \<Rightarrow> wstream res" where
  "ins_field (V_int i) = ws_ins_int i"
| "ins_field (V_llong i) = ws_ins_llong i"
| "ins_field (V_float f) = ws_ins_float f"
| "ins_field (V_short i) = ws_ins_short i"
| "ins_field (V_char c) = ws_ins_char c"
| "ins_field (V_string str) = ws_ins_string str"
| "ins_field (V_vector_int vs) = ws_ins_vector ws_ins_int vs"

fun lift_fst :: "('a \<Rightarrow> 'b) \<Rightarrow> ('a \<times> 's) res \<Rightarrow> ('b \<times> 's) res" where
  "lift_fst f (Inl e) = Inl e"
| "lift_fst f (Inr (a, s)) = Inr (f a, s)"

text \<open>\<open>junk\<close> is the first value of the uninitialised loop variable of the vector template.\<close>

fun ext_field :: "u32 \<Rightarrow> fval \<Rightarrow> rstream \<Rightarrow> (fval \<times> rstream) res" where
  "ext_field junk (V_int i) s = lift_fst V_int (rs_ext_int i s)"
| "ext_field junk (V_llong i) s = lift_fst V_llong (rs_ext_llong i s)"
| "ext_field junk (V_float f) s = lift_fst V_float (rs_ext_float f s)"
| "ext_field junk (V_short i) s = lift_fst V_short (rs_ext_short i s)"
| "ext_field junk (V_char c) s = lift_fst V_char (rs_ext_char c s)"
| "ext_field junk (V_string str) s = lift_fst V_string (rs_ext_string str s)"
| "ext_field junk (V_vector_int vs) s = lift_fst V_vector_int (rs_ext_vector rs_ext_int junk vs s)"

subsection \<open>Structs, objects, Pack and UnPack\<close>

record struct_type =
  st_msgID :: "u32 option"
  st_members :: "(ftype \<times> string) list"

record obj =
  obj_msgID :: "u32 option"
  obj_vals :: "fval list"

definition plain_type :: "(ftype \<times> string) list \<Rightarrow> struct_type" where
  "plain_type ms = \<lparr>st_msgID = None, st_members = ms\<rparr>"

definition msg_type :: "u32 \<Rightarrow> (ftype \<times> string) list \<Rightarrow> struct_type" where
  "msg_type MSGIDNAME ms = \<lparr>st_msgID = Some MSGIDNAME, st_members = ms\<rparr>"

definition has_type :: "obj \<Rightarrow> struct_type \<Rightarrow> bool" where
  "has_type ob t \<longleftrightarrow> obj_msgID ob = st_msgID t \<and> map type_of (obj_vals ob) = map fst (st_members t)"

definition Pack :: "obj \<Rightarrow> wstream \<Rightarrow> wstream res" where
  "Pack ob sn =
     rbind (case obj_msgID ob of None \<Rightarrow> Inr sn | Some msgID \<Rightarrow> ws_ins_int msgID sn)
       (rfold ins_field (obj_vals ob))"

fun ext_fields :: "u32 \<Rightarrow> fval list \<Rightarrow> rstream \<Rightarrow> (fval list \<times> rstream) res" where
  "ext_fields junk [] s = Inr ([], s)"
| "ext_fields junk (v # vs) s =
     rbind (ext_field junk v s) (\<lambda>(v', s1).
     rbind (ext_fields junk vs s1) (\<lambda>(vs', s2). Inr (v' # vs', s2)))"

definition UnPack :: "u32 \<Rightarrow> obj \<Rightarrow> rstream \<Rightarrow> (obj \<times> rstream) res" where
  "UnPack junk ob usn = lift_fst (\<lambda>vs. ob\<lparr>obj_vals := vs\<rparr>) (ext_fields junk (obj_vals ob) usn)"

subsection \<open>The macros\<close>

definition DEFINE_STRUCT_1 ::
  "ftype \<Rightarrow> string \<Rightarrow> struct_type" where
  "DEFINE_STRUCT_1 T1 V1 = plain_type [(T1, V1)]"

definition DEFINE_STRUCT_2 ::
  "ftype \<Rightarrow> string \<Rightarrow> ftype \<Rightarrow> string \<Rightarrow>
    struct_type" where
  "DEFINE_STRUCT_2 T1 V1 T2 V2 = plain_type [(T1, V1), (T2, V2)]"

definition DEFINE_STRUCT_3 ::
  "ftype \<Rightarrow> string \<Rightarrow> ftype \<Rightarrow> string \<Rightarrow> ftype
    \<Rightarrow> string \<Rightarrow> struct_type" where
  "DEFINE_STRUCT_3 T1 V1 T2 V2 T3 V3 = plain_type [(T1, V1), (T2, V2), (T3, V3)]"

definition DEFINE_STRUCT_4 ::
  "ftype \<Rightarrow> string \<Rightarrow> ftype \<Rightarrow> string \<Rightarrow> ftype
    \<Rightarrow> string \<Rightarrow> ftype \<Rightarrow> string \<Rightarrow> struct_type" where
  "DEFINE_STRUCT_4 T1 V1 T2 V2 T3 V3 T4 V4 = plain_type [(T1, V1), (T2, V2), (T3, V3),
     (T4, V4)]"

definition DEFINE_STRUCT_5 ::
  "ftype \<Rightarrow> string \<Rightarrow> ftype \<Rightarrow> string \<Rightarrow> ftype
    \<Rightarrow> string \<Rightarrow> ftype \<Rightarrow> string \<Rightarrow> ftype
    \<Rightarrow> string \<Rightarrow> struct_type" where
  "DEFINE_STRUCT_5 T1 V1 T2 V2 T3 V3 T4 V4 T5 V5 = plain_type [(T1, V1), (T2, V2), (T3,
     V3), (T4, V4), (T5, V5)]"

definition DEFINE_STRUCT_6 ::
  "ftype \<Rightarrow> string \<Rightarrow> ftype \<Rightarrow> string \<Rightarrow> ftype
    \<Rightarrow> string \<Rightarrow> ftype \<Rightarrow> string \<Rightarrow> ftype
    \<Rightarrow> string \<Rightarrow> ftype \<Rightarrow> string \<Rightarrow> struct_type" where
  "DEFINE_STRUCT_6 T1 V1 T2 V2 T3 V3 T4 V4 T5 V5 T6 V6 = plain_type [(T1, V1), (T2, V2),
     (T3, V3), (T4, V4), (T5, V5), (T6, V6)]"

definition DEFINE_STRUCT_7 ::
  "ftype \<Rightarrow> string \<Rightarrow> ftype \<Rightarrow> string \<Rightarrow> ftype
    \<Rightarrow> string \<Rightarrow> ftype \<Rightarrow> string \<Rightarrow> ftype
    \<Rightarrow> string \<Rightarrow> ftype \<Rightarrow> string \<Rightarrow> ftype
    \<Rightarrow> string \<Rightarrow> struct_type" where
  "DEFINE_STRUCT_7 T1 V1 T2 V2 T3 V3 T4 V4 T5 V5 T6 V6 T7 V7 = plain_type [(T1, V1), (T2,
     V2), (T3, V3), (T4, V4), (T5, V5), (T6, V6), (T7, V7)]"

definition DEFINE_STRUCT_8 ::
  "ftype \<Rightarrow> string \<Rightarrow> ftype \<Rightarrow> string \<Rightarrow> ftype
    \<Rightarrow> string \<Rightarrow> ftype \<Rightarrow> string \<Rightarrow> ftype
    \<Rightarrow> string \<Rightarrow> ftype \<Rightarrow> string \<Rightarrow> ftype
    \<Rightarrow> string \<Rightarrow> ftype \<Rightarrow> string \<Rightarrow> struct_type" where
  "DEFINE_STRUCT_8 T1 V1 T2 V2 T3 V3 T4 V4 T5 V5 T6 V6 T7 V7 T8 V8 = plain_type [(T1,
     V1), (T2, V2), (T3, V3), (T4, V4), (T5, V5), (T6, V6), (T7, V7), (T8, V8)]"

definition DEFINE_STRUCT_9 ::
  "ftype \<Rightarrow> string \<Rightarrow> ftype \<Rightarrow> string \<Rightarrow> ftype
    \<Rightarrow> string \<Rightarrow> ftype \<Rightarrow> string \<Rightarrow> ftype
    \<Rightarrow> string \<Rightarrow> ftype \<Rightarrow> string \<Rightarrow> ftype
    \<Rightarrow> string \<Rightarrow> ftype \<Rightarrow> string \<Rightarrow> ftype
    \<Rightarrow> string \<Rightarrow> struct_type" where
  "DEFINE_STRUCT_9 T1 V1 T2 V2 T3 V3 T4 V4 T5 V5 T6 V6 T7 V7 T8 V8 T9 V9 = plain_type
     [(T1, V1), (T2, V2), (T3, V3), (T4, V4), (T5, V5), (T6, V6), (T7, V7), (T8, V8), (T9,
     V9)]"

definition DEFINE_STRUCT_10 ::
  "ftype \<Rightarrow> string \<Rightarrow> ftype \<Rightarrow> string \<Rightarrow> ftype
    \<Rightarrow> string \<Rightarrow> ftype \<Rightarrow> string \<Rightarrow> ftype
    \<Rightarrow> string \<Rightarrow> ftype \<Rightarrow> string \<Rightarrow> ftype
    \<Rightarrow> string \<Rightarrow> ftype \<Rightarrow> string \<Rightarrow> ftype
    \<Rightarrow> string \<Rightarrow> ftype \<Rightarrow> string \<Rightarrow> struct_type" where
  "DEFINE_STRUCT_10 T1 V1 T2 V2 T3 V3 T4 V4 T5 V5 T6 V6 T7 V7 T8 V8 T9 V9 T10 V10 =
     plain_type [(T1, V1), (T2, V2), (T3, V3), (T4, V4), (T5, V5), (T6, V6), (T7, V7), (T8,
     V8), (T9, V9), (T10, V10)]"

definition DEFINE_STRUCT_11 ::
  "ftype \<Rightarrow> string \<Rightarrow> ftype \<Rightarrow> string \<Rightarrow> ftype
    \<Rightarrow> string \<Rightarrow> ftype \<Rightarrow> string \<Rightarrow> ftype
    \<Rightarrow> string \<Rightarrow> ftype \<Rightarrow> string \<Rightarrow> ftype
    \<Rightarrow> string \<Rightarrow> ftype \<Rightarrow> string \<Rightarrow> ftype
    \<Rightarrow> string \<Rightarrow> ftype \<Rightarrow> string \<Rightarrow> ftype
    \<Rightarrow> string \<Rightarrow> struct_type" where
  "DEFINE_STRUCT_11 T1 V1 T2 V2 T3 V3 T4 V4 T5 V5 T6 V6 T7 V7 T8 V8 T9 V9 T10 V10 T11 V11
     = plain_type [(T1, V1), (T2, V2), (T3, V3), (T4, V4), (T5, V5), (T6, V6), (T7, V7),
     (T8, V8), (T9, V9), (T10, V10), (T11, V11)]"

definition DEFINE_STRUCT_12 ::
  "ftype \<Rightarrow> string \<Rightarrow> ftype \<Rightarrow> string \<Rightarrow> ftype
    \<Rightarrow> string \<Rightarrow> ftype \<Rightarrow> string \<Rightarrow> ftype
    \<Rightarrow> string \<Rightarrow> ftype \<Rightarrow> string \<Rightarrow> ftype
    \<Rightarrow> string \<Rightarrow> ftype \<Rightarrow> string \<Rightarrow> ftype
    \<Rightarrow> string \<Rightarrow> ftype \<Rightarrow> string \<Rightarrow> ftype
    \<Rightarrow> string \<Rightarrow> ftype \<Rightarrow> string \<Rightarrow> struct_type" where
  "DEFINE_STRUCT_12 T1 V1 T2 V2 T3 V3 T4 V4 T5 V5 T6 V6 T7 V7 T8 V8 T9 V9 T10 V10 T11 V11
     T12 V12 = plain_type [(T1, V1), (T2, V2), (T3, V3), (T4, V4), (T5, V5), (T6, V6), (T7,
     V7), (T8, V8), (T9, V9), (T10, V10), (T11, V11), (T12, V12)]"

definition DEFINE_STRUCT_13 ::
  "ftype \<Rightarrow> string \<Rightarrow> ftype \<Rightarrow> string \<Rightarrow> ftype
    \<Rightarrow> string \<Rightarrow> ftype \<Rightarrow> string \<Rightarrow> ftype
    \<Rightarrow> string \<Rightarrow> ftype \<Rightarrow> string \<Rightarrow> ftype
    \<Rightarrow> string \<Rightarrow> ftype \<Rightarrow> string \<Rightarrow> ftype
    \<Rightarrow> string \<Rightarrow> ftype \<Rightarrow> string \<Rightarrow> ftype
    \<Rightarrow> string \<Rightarrow> ftype \<Rightarrow> string \<Rightarrow> ftype
    \<Rightarrow> string \<Rightarrow> struct_type" where
  "DEFINE_STRUCT_13 T1 V1 T2 V2 T3 V3 T4 V4 T5 V5 T6 V6 T7 V7 T8 V8 T9 V9 T10 V10 T11 V11
     T12 V12 T13 V13 = plain_type [(T1, V1), (T2, V2), (T3, V3), (T4, V4), (T5, V5), (T6,
     V6), (T7, V7), (T8, V8), (T9, V9), (T10, V10), (T11, V11), (T12, V12), (T13, V13)]"

definition DEFINE_STRUCT_14 ::
  "ftype \<Rightarrow> string \<Rightarrow> ftype \<Rightarrow> string \<Rightarrow> ftype
    \<Rightarrow> string \<Rightarrow> ftype \<Rightarrow> string \<Rightarrow> ftype
    \<Rightarrow> string \<Rightarrow> ftype \<Rightarrow> string \<Rightarrow> ftype
    \<Rightarrow> string \<Rightarrow> ftype \<Rightarrow> string \<Rightarrow> ftype
    \<Rightarrow> string \<Rightarrow> ftype \<Rightarrow> string \<Rightarrow> ftype
    \<Rightarrow> string \<Rightarrow> ftype \<Rightarrow> string \<Rightarrow> ftype
    \<Rightarrow> string \<Rightarrow> ftype \<Rightarrow> string \<Rightarrow> struct_type" where
  "DEFINE_STRUCT_14 T1 V1 T2 V2 T3 V3 T4 V4 T5 V5 T6 V6 T7 V7 T8 V8 T9 V9 T10 V10 T11 V11
     T12 V12 T13 V13 T14 V14 = plain_type [(T1, V1), (T2, V2), (T3, V3), (T4, V4), (T5,
     V5), (T6, V6), (T7, V7), (T8, V8), (T9, V9), (T10, V10), (T11, V11), (T12, V12), (T13,
     V13), (T14, V14)]"

definition DEFINE_STRUCT_15 ::
  "ftype \<Rightarrow> string \<Rightarrow> ftype \<Rightarrow> string \<Rightarrow> ftype
    \<Rightarrow> string \<Rightarrow> ftype \<Rightarrow> string \<Rightarrow> ftype
    \<Rightarrow> string \<Rightarrow> ftype \<Rightarrow> string \<Rightarrow> ftype
    \<Rightarrow> string \<Rightarrow> ftype \<Rightarrow> string \<Rightarrow> ftype
    \<Rightarrow> string \<Rightarrow> ftype \<Rightarrow> string \<Rightarrow> ftype
    \<Rightarrow> string \<Rightarrow> ftype \<Rightarrow> string \<Rightarrow> ftype
    \<Rightarrow> string \<Rightarrow> ftype \<Rightarrow> string \<Rightarrow> ftype
    \<Rightarrow> string \<Rightarrow> struct_type" where
  "DEFINE_STRUCT_15 T1 V1 T2 V2 T3 V3 T4 V4 T5 V5 T6 V6 T7 V7 T8 V8 T9 V9 T10 V10 T11 V11
     T12 V12 T13 V13 T14 V14 T15 V15 = plain_type [(T1, V1), (T2, V2), (T3, V3), (T4, V4),
     (T5, V5), (T6, V6), (T7, V7), (T8, V8), (T9, V9), (T10, V10), (T11, V11), (T12, V12),
     (T13, V13), (T14, V14), (T15, V15)]"

definition DEFINE_STRUCT_16 ::
  "ftype \<Rightarrow> string \<Rightarrow> ftype \<Rightarrow> string \<Rightarrow> ftype
    \<Rightarrow> string \<Rightarrow> ftype \<Rightarrow> string \<Rightarrow> ftype
    \<Rightarrow> string \<Rightarrow> ftype \<Rightarrow> string \<Rightarrow> ftype
    \<Rightarrow> string \<Rightarrow> ftype \<Rightarrow> string \<Rightarrow> ftype
    \<Rightarrow> string \<Rightarrow> ftype \<Rightarrow> string \<Rightarrow> ftype
    \<Rightarrow> string \<Rightarrow> ftype \<Rightarrow> string \<Rightarrow> ftype
    \<Rightarrow> string \<Rightarrow> ftype \<Rightarrow> string \<Rightarrow> ftype
    \<Rightarrow> string \<Rightarrow> ftype \<Rightarrow> string \<Rightarrow> struct_type" where
  "DEFINE_STRUCT_16 T1 V1 T2 V2 T3 V3 T4 V4 T5 V5 T6 V6 T7 V7 T8 V8 T9 V9 T10 V10 T11 V11
     T12 V12 T13 V13 T14 V14 T15 V15 T16 V16 = plain_type [(T1, V1), (T2, V2), (T3, V3),
     (T4, V4), (T5, V5), (T6, V6), (T7, V7), (T8, V8), (T9, V9), (T10, V10), (T11, V11),
     (T12, V12), (T13, V13), (T14, V14), (T15, V15), (T16, V16)]"

definition DEFINE_STRUCT_17 ::
  "ftype \<Rightarrow> string \<Rightarrow> ftype \<Rightarrow> string \<Rightarrow> ftype
    \<Rightarrow> string \<Rightarrow> ftype \<Rightarrow> string \<Rightarrow> ftype
    \<Rightarrow> string \<Rightarrow> ftype \<Rightarrow> string \<Rightarrow> ftype
    \<Rightarrow> string \<Rightarrow> ftype \<Rightarrow> string \<Rightarrow> ftype
    \<Rightarrow> string \<Rightarrow> ftype \<Rightarrow> string \<Rightarrow> ftype
    \<Rightarrow> string \<Rightarrow> ftype \<Rightarrow> string \<Rightarrow> ftype
    \<Rightarrow> string \<Rightarrow> ftype \<Rightarrow> string \<Rightarrow> ftype
    \<Rightarrow> string \<Rightarrow> ftype \<Rightarrow> string \<Rightarrow> ftype
    \<Rightarrow> string \<Rightarrow> struct_type" where
  "DEFINE_STRUCT_17 T1 V1 T2 V2 T3 V3 T4 V4 T5 V5 T6 V6 T7 V7 T8 V8 T9 V9 T10 V10 T11 V11
     T12 V12 T13 V13 T14 V14 T15 V15 T16 V16 T17 V17 = plain_type [(T1, V1), (T2, V2), (T3,
     V3), (T4, V4), (T5, V5), (T6, V6), (T7, V7), (T8, V8), (T9, V9), (T10, V10), (T11,
     V11), (T12, V12), (T13, V13), (T14, V14), (T15, V15), (T16, V16), (T17, V17)]"

definition DEFINE_STRUCT_19 ::
  "ftype \<Rightarrow> string \<Rightarrow> ftype \<Rightarrow> string \<Rightarrow> ftype
    \<Rightarrow> string \<Rightarrow> ftype \<Rightarrow> string \<Rightarrow> ftype
    \<Rightarrow> string \<Rightarrow> ftype \<Rightarrow> string \<Rightarrow> ftype
    \<Rightarrow> string \<Rightarrow> ftype \<Rightarrow> string \<Rightarrow> ftype
    \<Rightarrow> string \<Rightarrow> ftype \<Rightarrow> string \<Rightarrow> ftype
    \<Rightarrow> string \<Rightarrow> ftype \<Rightarrow> string \<Rightarrow> ftype
    \<Rightarrow> string \<Rightarrow> ftype \<Rightarrow> string \<Rightarrow> ftype
    \<Rightarrow> string \<Rightarrow> ftype \<Rightarrow> string \<Rightarrow> ftype
    \<Rightarrow> string \<Rightarrow> ftype \<Rightarrow> string \<Rightarrow> ftype
    \<Rightarrow> string \<Rightarrow> struct_type" where
  "DEFINE_STRUCT_19 T1 V1 T2 V2 T3 V3 T4 V4 T5 V5 T6 V6 T7 V7 T8 V8 T9 V9 T10 V10 T11 V11
     T12 V12 T13 V13 T14 V14 T15 V15 T16 V16 T17 V17 T18 V18 T19 V19 = plain_type [(T1,
     V1), (T2, V2), (T3, V3), (T4, V4), (T5, V5), (T6, V6), (T7, V7), (T8, V8), (T9, V9),
     (T10, V10), (T11, V11), (T12, V12), (T13, V13), (T14, V14), (T15, V15), (T16, V16),
     (T17, V17), (T18, V18), (T19, V19)]"

definition DEFINE_STRUCT_20 ::
  "ftype \<Rightarrow> string \<Rightarrow> ftype \<Rightarrow> string \<Rightarrow> ftype
    \<Rightarrow> string \<Rightarrow> ftype \<Rightarrow> string \<Rightarrow> ftype
    \<Rightarrow> string \<Rightarrow> ftype \<Rightarrow> string \<Rightarrow> ftype
    \<Rightarrow> string \<Rightarrow> ftype \<Rightarrow> string \<Rightarrow> ftype
    \<Rightarrow> string \<Rightarrow> ftype \<Rightarrow> string \<Rightarrow> ftype
    \<Rightarrow> string \<Rightarrow> ftype \<Rightarrow> string \<Rightarrow> ftype
    \<Rightarrow> string \<Rightarrow> ftype \<Rightarrow> string \<Rightarrow> ftype
    \<Rightarrow> string \<Rightarrow> ftype \<Rightarrow> string \<Rightarrow> ftype
    \<Rightarrow> string \<Rightarrow> ftype \<Rightarrow> string \<Rightarrow> ftype
    \<Rightarrow> string \<Rightarrow> ftype \<Rightarrow> string \<Rightarrow> struct_type" where
  "DEFINE_STRUCT_20 T1 V1 T2 V2 T3 V3 T4 V4 T5 V5 T6 V6 T7 V7 T8 V8 T9 V9 T10 V10 T11 V11
     T12 V12 T13 V13 T14 V14 T15 V15 T16 V16 T17 V17 T18 V18 T19 V19 T20 V20 = plain_type
     [(T1, V1), (T2, V2), (T3, V3), (T4, V4), (T5, V5), (T6, V6), (T7, V7), (T8, V8), (T9,
     V9), (T10, V10), (T11, V11), (T12, V12), (T13, V13), (T14, V14), (T15, V15), (T16,
     V16), (T17, V17), (T18, V18), (T19, V19), (T20, V20)]"

definition DEFINE_STRUCT_29 ::
  "ftype \<Rightarrow> string \<Rightarrow> ftype \<Rightarrow> string \<Rightarrow> ftype
    \<Rightarrow> string \<Rightarrow> ftype \<Rightarrow> string \<Rightarrow> ftype
    \<Rightarrow> string \<Rightarrow> ftype \<Rightarrow> string \<Rightarrow> ftype
    \<Rightarrow> string \<Rightarrow> ftype \<Rightarrow> string \<Rightarrow> ftype
    \<Rightarrow> string \<Rightarrow> ftype \<Rightarrow> string \<Rightarrow> ftype
    \<Rightarrow> string \<Rightarrow> ftype \<Rightarrow> string \<Rightarrow> ftype
    \<Rightarrow> string \<Rightarrow> ftype \<Rightarrow> string \<Rightarrow> ftype
    \<Rightarrow> string \<Rightarrow> ftype \<Rightarrow> string \<Rightarrow> ftype
    \<Rightarrow> string \<Rightarrow> ftype \<Rightarrow> string \<Rightarrow> ftype
    \<Rightarrow> string \<Rightarrow> ftype \<Rightarrow> string \<Rightarrow> ftype
    \<Rightarrow> string \<Rightarrow> ftype \<Rightarrow> string \<Rightarrow> ftype
    \<Rightarrow> string \<Rightarrow> ftype \<Rightarrow> string \<Rightarrow> ftype
    \<Rightarrow> string \<Rightarrow> ftype \<Rightarrow> string \<Rightarrow> ftype
    \<Rightarrow> string \<Rightarrow> ftype \<Rightarrow> string \<Rightarrow> ftype
    \<Rightarrow> string \<Rightarrow> struct_type" where
  "DEFINE_STRUCT_29 T1 V1 T2 V2 T3 V3 T4 V4 T5 V5 T6 V6 T7 V7 T8 V8 T9 V9 T10 V10 T11 V11
     T12 V12 T13 V13 T14 V14 T15 V15 T16 V16 T17 V17 T18 V18 T19 V19 T20 V20 T21 V21 T22
     V22 T23 V23 T24 V24 T25 V25 T26 V26 T27 V27 T28 V28 T29 V29 = plain_type [(T1, V1),
     (T2, V2), (T3, V3), (T4, V4), (T5, V5), (T6, V6), (T7, V7), (T8, V8), (T9, V9), (T10,
     V10), (T11, V11), (T12, V12), (T13, V13), (T14, V14), (T15, V15), (T16, V16), (T17,
     V17), (T18, V18), (T19, V19), (T20, V20), (T21, V21), (T22, V22), (T23, V23), (T24,
     V24), (T25, V25), (T26, V26), (T27, V27), (T28, V28), (T29, V29)]"

definition DEFINE_STRUCT_30 ::
  "ftype \<Rightarrow> string \<Rightarrow> ftype \<Rightarrow> string \<Rightarrow> ftype
    \<Rightarrow> string \<Rightarrow> ftype \<Rightarrow> string \<Rightarrow> ftype
    \<Rightarrow> string \<Rightarrow> ftype \<Rightarrow> string \<Rightarrow> ftype
    \<Rightarrow> string \<Rightarrow> ftype \<Rightarrow> string \<Rightarrow> ftype
    \<Rightarrow> string \<Rightarrow> ftype \<Rightarrow> string \<Rightarrow> ftype
    \<Rightarrow> string \<Rightarrow> ftype \<Rightarrow> string \<Rightarrow> ftype
    \<Rightarrow> string \<Rightarrow> ftype \<Rightarrow> string \<Rightarrow> ftype
    \<Rightarrow> string \<Rightarrow> ftype \<Rightarrow> string \<Rightarrow> ftype
    \<Rightarrow> string \<Rightarrow> ftype \<Rightarrow> string \<Rightarrow> ftype
    \<Rightarrow> string \<Rightarrow> ftype \<Rightarrow> string \<Rightarrow> ftype
    \<Rightarrow> string \<Rightarrow> ftype \<Rightarrow> string \<Rightarrow> ftype
    \<Rightarrow> string \<Rightarrow> ftype \<Rightarrow> string \<Rightarrow> ftype
    \<Rightarrow> string \<Rightarrow> ftype \<Rightarrow> string \<Rightarrow> ftype
    \<Rightarrow> string \<Rightarrow> ftype \<Rightarrow> string \<Rightarrow> ftype
    \<Rightarrow> string \<Rightarrow> ftype \<Rightarrow> string \<Rightarrow> struct_type" where
  "DEFINE_STRUCT_30 T1 V1 T2 V2 T3 V3 T4 V4 T5 V5 T6 V6 T7 V7 T8 V8 T9 V9 T10 V10 T11 V11
     T12 V12 T13 V13 T14 V14 T15 V15 T16 V16 T17 V17 T18 V18 T19 V19 T20 V20 T21 V21 T22
     V22 T23 V23 T24 V24 T25 V25 T26 V26 T27 V27 T28 V28 T29 V29 T30 V30 = plain_type [(T1,
     V1), (T2, V2), (T3, V3), (T4, V4), (T5, V5), (T6, V6), (T7, V7), (T8, V8), (T9, V9),
     (T10, V10), (T11, V11), (T12, V12), (T13, V13), (T14, V14), (T15, V15), (T16, V16),
     (T17, V17), (T18, V18), (T19, V19), (T20, V20), (T21, V21), (T22, V22), (T23, V23),
     (T24, V24), (T25, V25), (T26, V26), (T27, V27), (T28, V28), (T29, V29), (T30, V30)]"

definition DEFINE_MSG_0 ::
  "u32 \<Rightarrow> struct_type" where
  "DEFINE_MSG_0 MSGIDNAME = msg_type MSGIDNAME []"

definition DEFINE_MSG_1 ::
  "u32 \<Rightarrow> ftype \<Rightarrow> string \<Rightarrow> struct_type" where
  "DEFINE_MSG_1 MSGIDNAME T1 V1 = msg_type MSGIDNAME [(T1, V1)]"

definition DEFINE_MSG_2 ::
  "u32 \<Rightarrow> ftype \<Rightarrow> string \<Rightarrow> ftype \<Rightarrow> string
    \<Rightarrow> struct_type" where
  "DEFINE_MSG_2 MSGIDNAME T1 V1 T2 V2 = msg_type MSGIDNAME [(T1, V1), (T2, V2)]"

definition DEFINE_MSG_3 ::
  "u32 \<Rightarrow> ftype \<Rightarrow> string \<Rightarrow> ftype \<Rightarrow> string
    \<Rightarrow> ftype \<Rightarrow> string \<Rightarrow> struct_type" where
  "DEFINE_MSG_3 MSGIDNAME T1 V1 T2 V2 T3 V3 = msg_type MSGIDNAME [(T1, V1), (T2, V2),
     (T3, V3)]"

definition DEFINE_MSG_4 ::
  "u32 \<Rightarrow> ftype \<Rightarrow> string \<Rightarrow> ftype \<Rightarrow> string
    \<Rightarrow> ftype \<Rightarrow> string \<Rightarrow> ftype \<Rightarrow> string
    \<Rightarrow> struct_type" where
  "DEFINE_MSG_4 MSGIDNAME T1 V1 T2 V2 T3 V3 T4 V4 = msg_type MSGIDNAME [(T1, V1), (T2,
     V2), (T3, V3), (T4, V4)]"

definition DEFINE_MSG_5 ::
  "u32 \<Rightarrow> ftype \<Rightarrow> string \<Rightarrow> ftype \<Rightarrow> string
    \<Rightarrow> ftype \<Rightarrow> string \<Rightarrow> ftype \<Rightarrow> string
    \<Rightarrow> ftype \<Rightarrow> string \<Rightarrow> struct_type" where
  "DEFINE_MSG_5 MSGIDNAME T1 V1 T2 V2 T3 V3 T4 V4 T5 V5 = msg_type MSGIDNAME [(T1, V1),
     (T2, V2), (T3, V3), (T4, V4), (T5, V5)]"

definition DEFINE_MSG_6 ::
  "u32 \<Rightarrow> ftype \<Rightarrow> string \<Rightarrow> ftype \<Rightarrow> string
    \<Rightarrow> ftype \<Rightarrow> string \<Rightarrow> ftype \<Rightarrow> string
    \<Rightarrow> ftype \<Rightarrow> string \<Rightarrow> ftype \<Rightarrow> string
    \<Rightarrow> struct_type" where
  "DEFINE_MSG_6 MSGIDNAME T1 V1 T2 V2 T3 V3 T4 V4 T5 V5 T6 V6 = msg_type MSGIDNAME [(T1,
     V1), (T2, V2), (T3, V3), (T4, V4), (T5, V5), (T6, V6)]"

definition DEFINE_MSG_7 ::
  "u32 \<Rightarrow> ftype \<Rightarrow> string \<Rightarrow> ftype \<Rightarrow> string
    \<Rightarrow> ftype \<Rightarrow> string \<Rightarrow> ftype \<Rightarrow> string
    \<Rightarrow> ftype \<Rightarrow> string \<Rightarrow> ftype \<Rightarrow> string
    \<Rightarrow> ftype \<Rightarrow> string \<Rightarrow> struct_type" where
  "DEFINE_MSG_7 MSGIDNAME T1 V1 T2 V2 T3 V3 T4 V4 T5 V5 T6 V6 T7 V7 = msg_type MSGIDNAME
     [(T1, V1), (T2, V2), (T3, V3), (T4, V4), (T5, V5), (T6, V6), (T7, V7)]"

definition DEFINE_MSG_8 ::
  "u32 \<Rightarrow> ftype \<Rightarrow> string \<Rightarrow> ftype \<Rightarrow> string
    \<Rightarrow> ftype \<Rightarrow> string \<Rightarrow> ftype \<Rightarrow> string
    \<Rightarrow> ftype \<Rightarrow> string \<Rightarrow> ftype \<Rightarrow> string
    \<Rightarrow> ftype \<Rightarrow> string \<Rightarrow> ftype \<Rightarrow> string
    \<Rightarrow> struct_type" where
  "DEFINE_MSG_8 MSGIDNAME T1 V1 T2 V2 T3 V3 T4 V4 T5 V5 T6 V6 T7 V7 T8 V8 = msg_type
     MSGIDNAME [(T1, V1), (T2, V2), (T3, V3), (T4, V4), (T5, V5), (T6, V6), (T7, V7), (T8,
     V8)]"

definition DEFINE_MSG_9 ::
  "u32 \<Rightarrow> ftype \<Rightarrow> string \<Rightarrow> ftype \<Rightarrow> string
    \<Rightarrow> ftype \<Rightarrow> string \<Rightarrow> ftype \<Rightarrow> string
    \<Rightarrow> ftype \<Rightarrow> string \<Rightarrow> ftype \<Rightarrow> string
    \<Rightarrow> ftype \<Rightarrow> string \<Rightarrow> ftype \<Rightarrow> string
    \<Rightarrow> ftype \<Rightarrow> string \<Rightarrow> struct_type" where
  "DEFINE_MSG_9 MSGIDNAME T1 V1 T2 V2 T3 V3 T4 V4 T5 V5 T6 V6 T7 V7 T8 V8 T9 V9 =
     msg_type MSGIDNAME [(T1, V1), (T2, V2), (T3, V3), (T4, V4), (T5, V5), (T6, V6), (T7,
     V7), (T8, V8), (T9, V9)]"

definition DEFINE_MSG_10 ::
  "u32 \<Rightarrow> ftype \<Rightarrow> string \<Rightarrow> ftype \<Rightarrow> string
    \<Rightarrow> ftype \<Rightarrow> string \<Rightarrow> ftype \<Rightarrow> string
    \<Rightarrow> ftype \<Rightarrow> string \<Rightarrow> ftype \<Rightarrow> string
    \<Rightarrow> ftype \<Rightarrow> string \<Rightarrow> ftype \<Rightarrow> string
    \<Rightarrow> ftype \<Rightarrow> string \<Rightarrow> ftype \<Rightarrow> string
    \<Rightarrow> struct_type" where
  "DEFINE_MSG_10 MSGIDNAME T1 V1 T2 V2 T3 V3 T4 V4 T5 V5 T6 V6 T7 V7 T8 V8 T9 V9 T10 V10
     = msg_type MSGIDNAME [(T1, V1), (T2, V2), (T3, V3), (T4, V4), (T5, V5), (T6, V6), (T7,
     V7), (T8, V8), (T9, V9), (T10, V10)]"

definition DEFINE_MSG_11 ::
  "u32 \<Rightarrow> ftype \<Rightarrow> string \<Rightarrow> ftype \<Rightarrow> string
    \<Rightarrow> ftype \<Rightarrow> string \<Rightarrow> ftype \<Rightarrow> string
    \<Rightarrow> ftype \<Rightarrow> string \<Rightarrow> ftype \<Rightarrow> string
    \<Rightarrow> ftype \<Rightarrow> string \<Rightarrow> ftype \<Rightarrow> string
    \<Rightarrow> ftype \<Rightarrow> string \<Rightarrow> ftype \<Rightarrow> string
    \<Rightarrow> ftype \<Rightarrow> string \<Rightarrow> struct_type" where
  "DEFINE_MSG_11 MSGIDNAME T1 V1 T2 V2 T3 V3 T4 V4 T5 V5 T6 V6 T7 V7 T8 V8 T9 V9 T10 V10
     T11 V11 = msg_type MSGIDNAME [(T1, V1), (T2, V2), (T3, V3), (T4, V4), (T5, V5), (T6,
     V6), (T7, V7), (T8, V8), (T9, V9), (T10, V10), (T11, V11)]"

definition DEFINE_MSG_12 ::
  "u32 \<Rightarrow> ftype \<Rightarrow> string \<Rightarrow> ftype \<Rightarrow> string
    \<Rightarrow> ftype \<Rightarrow> string \<Rightarrow> ftype \<Rightarrow> string
    \<Rightarrow> ftype \<Rightarrow> string \<Rightarrow> ftype \<Rightarrow> string
    \<Rightarrow> ftype \<Rightarrow> string \<Rightarrow> ftype \<Rightarrow> string
    \<Rightarrow> ftype \<Rightarrow> string \<Rightarrow> ftype \<Rightarrow> string
    \<Rightarrow> ftype \<Rightarrow> string \<Rightarrow> ftype \<Rightarrow> string
    \<Rightarrow> struct_type" where
  "DEFINE_MSG_12 MSGIDNAME T1 V1 T2 V2 T3 V3 T4 V4 T5 V5 T6 V6 T7 V7 T8 V8 T9 V9 T10 V10
     T11 V11 T12 V12 = msg_type MSGIDNAME [(T1, V1), (T2, V2), (T3, V3), (T4, V4), (T5,
     V5), (T6, V6), (T7, V7), (T8, V8), (T9, V9), (T10, V10), (T11, V11), (T12, V12)]"

definition DEFINE_MSG_13 ::
  "u32 \<Rightarrow> ftype \<Rightarrow> string \<Rightarrow> ftype \<Rightarrow> string
    \<Rightarrow> ftype \<Rightarrow> string \<Rightarrow> ftype \<Rightarrow> string
    \<Rightarrow> ftype \<Rightarrow> string \<Rightarrow> ftype \<Rightarrow> string
    \<Rightarrow> ftype \<Rightarrow> string \<Rightarrow> ftype \<Rightarrow> string
    \<Rightarrow> ftype \<Rightarrow> string \<Rightarrow> ftype \<Rightarrow> string
    \<Rightarrow> ftype \<Rightarrow> string \<Rightarrow> ftype \<Rightarrow> string
    \<Rightarrow> ftype \<Rightarrow> string \<Rightarrow> struct_type" where
  "DEFINE_MSG_13 MSGIDNAME T1 V1 T2 V2 T3 V3 T4 V4 T5 V5 T6 V6 T7 V7 T8 V8 T9 V9 T10 V10
     T11 V11 T12 V12 T13 V13 = msg_type MSGIDNAME [(T1, V1), (T2, V2), (T3, V3), (T4, V4),
     (T5, V5), (T6, V6), (T7, V7), (T8, V8), (T9, V9), (T10, V10), (T11, V11), (T12, V12),
     (T13, V13)]"

definition DEFINE_MSG_14 ::
  "u32 \<Rightarrow> ftype \<Rightarrow> string \<Rightarrow> ftype \<Rightarrow> string
    \<Rightarrow> ftype \<Rightarrow> string \<Rightarrow> ftype \<Rightarrow> string
    \<Rightarrow> ftype \<Rightarrow> string \<Rightarrow> ftype \<Rightarrow> string
    \<Rightarrow> ftype \<Rightarrow> string \<Rightarrow> ftype \<Rightarrow> string
    \<Rightarrow> ftype \<Rightarrow> string \<Rightarrow> ftype \<Rightarrow> string
    \<Rightarrow> ftype \<Rightarrow> string \<Rightarrow> ftype \<Rightarrow> string
    \<Rightarrow> ftype \<Rightarrow> string \<Rightarrow> ftype \<Rightarrow> string
    \<Rightarrow> struct_type" where
  "DEFINE_MSG_14 MSGIDNAME T1 V1 T2 V2 T3 V3 T4 V4 T5 V5 T6 V6 T7 V7 T8 V8 T9 V9 T10 V10
     T11 V11 T12 V12 T13 V13 T14 V14 = msg_type MSGIDNAME [(T1, V1), (T2, V2), (T3, V3),
     (T4, V4), (T5, V5), (T6, V6), (T7, V7), (T8, V8), (T9, V9), (T10, V10), (T11, V11),
     (T12, V12), (T13, V13), (T14, V14)]"

definition DEFINE_MSG_15 ::
  "u32 \<Rightarrow> ftype \<Rightarrow> string \<Rightarrow> ftype \<Rightarrow> string
    \<Rightarrow> ftype \<Rightarrow> string \<Rightarrow> ftype \<Rightarrow> string
    \<Rightarrow> ftype \<Rightarrow> string \<Rightarrow> ftype \<Rightarrow> string
    \<Rightarrow> ftype \<Rightarrow> string \<Rightarrow> ftype \<Rightarrow> string
    \<Rightarrow> ftype \<Rightarrow> string \<Rightarrow> ftype \<Rightarrow> string
    \<Rightarrow> ftype \<Rightarrow> string \<Rightarrow> ftype \<Rightarrow> string
    \<Rightarrow> ftype \<Rightarrow> string \<Rightarrow> ftype \<Rightarrow> string
    \<Rightarrow> ftype \<Rightarrow> string \<Rightarrow> struct_type" where
  "DEFINE_MSG_15 MSGIDNAME T1 V1 T2 V2 T3 V3 T4 V4 T5 V5 T6 V6 T7 V7 T8 V8 T9 V9 T10 V10
     T11 V11 T12 V12 T13 V13 T14 V14 T15 V15 = msg_type MSGIDNAME [(T1, V1), (T2, V2), (T3,
     V3), (T4, V4), (T5, V5), (T6, V6), (T7, V7), (T8, V8), (T9, V9), (T10, V10), (T11,
     V11), (T12, V12), (T13, V13), (T14, V14), (T15, V15)]"

definition DEFINE_MSG_16 ::
  "u32 \<Rightarrow> ftype \<Rightarrow> string \<Rightarrow> ftype \<Rightarrow> string
    \<Rightarrow> ftype \<Rightarrow> string \<Rightarrow> ftype \<Rightarrow> string
    \<Rightarrow> ftype \<Rightarrow> string \<Rightarrow> ftype \<Rightarrow> string
    \<Rightarrow> ftype \<Rightarrow> string \<Rightarrow> ftype \<Rightarrow> string
    \<Rightarrow> ftype \<Rightarrow> string \<Rightarrow> ftype \<Rightarrow> string
    \<Rightarrow> ftype \<Rightarrow> string \<Rightarrow> ftype \<Rightarrow> string
    \<Rightarrow> ftype \<Rightarrow> string \<Rightarrow> ftype \<Rightarrow> string
    \<Rightarrow> ftype \<Rightarrow> string \<Rightarrow> ftype \<Rightarrow> string
    \<Rightarrow> struct_type" where
  "DEFINE_MSG_16 MSGIDNAME T1 V1 T2 V2 T3 V3 T4 V4 T5 V5 T6 V6 T7 V7 T8 V8 T9 V9 T10 V10
     T11 V11 T12 V12 T13 V13 T14 V14 T15 V15 T16 V16 = msg_type MSGIDNAME [(T1, V1), (T2,
     V2), (T3, V3), (T4, V4), (T5, V5), (T6, V6), (T7, V7), (T8, V8), (T9, V9), (T10, V10),
     (T11, V11), (T12, V12), (T13, V13), (T14, V14), (T15, V15), (T16, V16)]"

definition DEFINE_MSG_17 ::
  "u32 \<Rightarrow> ftype \<Rightarrow> string \<Rightarrow> ftype \<Rightarrow> string
    \<Rightarrow> ftype \<Rightarrow> string \<Rightarrow> ftype \<Rightarrow> string
    \<Rightarrow> ftype \<Rightarrow> string \<Rightarrow> ftype \<Rightarrow> string
    \<Rightarrow> ftype \<Rightarrow> string \<Rightarrow> ftype \<Rightarrow> string
    \<Rightarrow> ftype \<Rightarrow> string \<Rightarrow> ftype \<Rightarrow> string
    \<Rightarrow> ftype \<Rightarrow> string \<Rightarrow> ftype \<Rightarrow> string
    \<Rightarrow> ftype \<Rightarrow> string \<Rightarrow> ftype \<Rightarrow> string
    \<Rightarrow> ftype \<Rightarrow> string \<Rightarrow> ftype \<Rightarrow> string
    \<Rightarrow> ftype \<Rightarrow> string \<Rightarrow> struct_type" where
  "DEFINE_MSG_17 MSGIDNAME T1 V1 T2 V2 T3 V3 T4 V4 T5 V5 T6 V6 T7 V7 T8 V8 T9 V9 T10 V10
     T11 V11 T12 V12 T13 V13 T14 V14 T15 V15 T16 V16 T17 V17 = msg_type MSGIDNAME [(T1,
     V1), (T2, V2), (T3, V3), (T4, V4), (T5, V5), (T6, V6), (T7, V7), (T8, V8), (T9, V9),
     (T10, V10), (T11, V11), (T12, V12), (T13, V13), (T14, V14), (T15, V15), (T16, V16),
     (T17, V17)]"

definition DEFINE_MSG_18 ::
  "u32 \<Rightarrow> ftype \<Rightarrow> string \<Rightarrow> ftype \<Rightarrow> string
    \<Rightarrow> ftype \<Rightarrow> string \<Rightarrow> ftype \<Rightarrow> string
    \<Rightarrow> ftype \<Rightarrow> string \<Rightarrow> ftype \<Rightarrow> string
    \<Rightarrow> ftype \<Rightarrow> string \<Rightarrow> ftype \<Rightarrow> string
    \<Rightarrow> ftype \<Rightarrow> string \<Rightarrow> ftype \<Rightarrow> string
    \<Rightarrow> ftype \<Rightarrow> string \<Rightarrow> ftype \<Rightarrow> string
    \<Rightarrow> ftype \<Rightarrow> string \<Rightarrow> ftype \<Rightarrow> string
    \<Rightarrow> ftype \<Rightarrow> string \<Rightarrow> ftype \<Rightarrow> string
    \<Rightarrow> ftype \<Rightarrow> string \<Rightarrow> ftype \<Rightarrow> string
    \<Rightarrow> struct_type" where
  "DEFINE_MSG_18 MSGIDNAME T1 V1 T2 V2 T3 V3 T4 V4 T5 V5 T6 V6 T7 V7 T8 V8 T9 V9 T10 V10
     T11 V11 T12 V12 T13 V13 T14 V14 T15 V15 T16 V16 T17 V17 T18 V18 = msg_type MSGIDNAME
     [(T1, V1), (T2, V2), (T3, V3), (T4, V4), (T5, V5), (T6, V6), (T7, V7), (T8, V8), (T9,
     V9), (T10, V10), (T11, V11), (T12, V12), (T13, V13), (T14, V14), (T15, V15), (T16,
     V16), (T17, V17), (T18, V18)]"

definition DEFINE_MSG_19 ::
  "u32 \<Rightarrow> ftype \<Rightarrow> string \<Rightarrow> ftype \<Rightarrow> string
    \<Rightarrow> ftype \<Rightarrow> string \<Rightarrow> ftype \<Rightarrow> string
    \<Rightarrow> ftype \<Rightarrow> string \<Rightarrow> ftype \<Rightarrow> string
    \<Rightarrow> ftype \<Rightarrow> string \<Rightarrow> ftype \<Rightarrow> string
    \<Rightarrow> ftype \<Rightarrow> string \<Rightarrow> ftype \<Rightarrow> string
    \<Rightarrow> ftype \<Rightarrow> string \<Rightarrow> ftype \<Rightarrow> string
    \<Rightarrow> ftype \<Rightarrow> string \<Rightarrow> ftype \<Rightarrow> string
    \<Rightarrow> ftype \<Rightarrow> string \<Rightarrow> ftype \<Rightarrow> string
    \<Rightarrow> ftype \<Rightarrow> string \<Rightarrow> ftype \<Rightarrow> string
    \<Rightarrow> ftype \<Rightarrow> string \<Rightarrow> struct_type" where
  "DEFINE_MSG_19 MSGIDNAME T1 V1 T2 V2 T3 V3 T4 V4 T5 V5 T6 V6 T7 V7 T8 V8 T9 V9 T10 V10
     T11 V11 T12 V12 T13 V13 T14 V14 T15 V15 T16 V16 T17 V17 T18 V18 T19 V19 = msg_type
     MSGIDNAME [(T1, V1), (T2, V2), (T3, V3), (T4, V4), (T5, V5), (T6, V6), (T7, V7), (T8,
     V8), (T9, V9), (T10, V10), (T11, V11), (T12, V12), (T13, V13), (T14, V14), (T15, V15),
     (T16, V16), (T17, V17), (T18, V18), (T19, V19)]"

definition DEFINE_MSG_20 ::
  "u32 \<Rightarrow> ftype \<Rightarrow> string \<Rightarrow> ftype \<Rightarrow> string
    \<Rightarrow> ftype \<Rightarrow> string \<Rightarrow> ftype \<Rightarrow> string
    \<Rightarrow> ftype \<Rightarrow> string \<Rightarrow> ftype \<Rightarrow> string
    \<Rightarrow> ftype \<Rightarrow> string \<Rightarrow> ftype \<Rightarrow> string
    \<Rightarrow> ftype \<Rightarrow> string \<Rightarrow> ftype \<Rightarrow> string
    \<Rightarrow> ftype \<Rightarrow> string \<Rightarrow> ftype \<Rightarrow> string
    \<Rightarrow> ftype \<Rightarrow> string \<Rightarrow> ftype \<Rightarrow> string
    \<Rightarrow> ftype \<Rightarrow> string \<Rightarrow> ftype \<Rightarrow> string
    \<Rightarrow> ftype \<Rightarrow> string \<Rightarrow> ftype \<Rightarrow> string
    \<Rightarrow> ftype \<Rightarrow> string \<Rightarrow> ftype \<Rightarrow> string
    \<Rightarrow> struct_type" where
  "DEFINE_MSG_20 MSGIDNAME T1 V1 T2 V2 T3 V3 T4 V4 T5 V5 T6 V6 T7 V7 T8 V8 T9 V9 T10 V10
     T11 V11 T12 V12 T13 V13 T14 V14 T15 V15 T16 V16 T17 V17 T18 V18 T19 V19 T20 V20 =
     msg_type MSGIDNAME [(T1, V1), (T2, V2), (T3, V3), (T4, V4), (T5, V5), (T6, V6), (T7,
     V7), (T8, V8), (T9, V9), (T10, V10), (T11, V11), (T12, V12), (T13, V13), (T14, V14),
     (T15, V15), (T16, V16), (T17, V17), (T18, V18), (T19, V19), (T20, V20)]"

definition DEFINE_MSG_21 ::
  "u32 \<Rightarrow> ftype \<Rightarrow> string \<Rightarrow> ftype \<Rightarrow> string
    \<Rightarrow> ftype \<Rightarrow> string \<Rightarrow> ftype \<Rightarrow> string
    \<Rightarrow> ftype \<Rightarrow> string \<Rightarrow> ftype \<Rightarrow> string
    \<Rightarrow> ftype \<Rightarrow> string \<Rightarrow> ftype \<Rightarrow> string
    \<Rightarrow> ftype \<Rightarrow> string \<Rightarrow> ftype \<Rightarrow> string
    \<Rightarrow> ftype \<Rightarrow> string \<Rightarrow> ftype \<Rightarrow> string
    \<Rightarrow> ftype \<Rightarrow> string \<Rightarrow> ftype \<Rightarrow> string
    \<Rightarrow> ftype \<Rightarrow> string \<Rightarrow> ftype \<Rightarrow> string
    \<Rightarrow> ftype \<Rightarrow> string \<Rightarrow> ftype \<Rightarrow> string
    \<Rightarrow> ftype \<Rightarrow> string \<Rightarrow> ftype \<Rightarrow> string
    \<Rightarrow> ftype \<Rightarrow> string \<Rightarrow> struct_type" where
  "DEFINE_MSG_21 MSGIDNAME T1 V1 T2 V2 T3 V3 T4 V4 T5 V5 T6 V6 T7 V7 T8 V8 T9 V9 T10 V10
     T11 V11 T12 V12 T13 V13 T14 V14 T15 V15 T16 V16 T17 V17 T18 V18 T19 V19 T20 V20 T21
     V21 = msg_type MSGIDNAME [(T1, V1), (T2, V2), (T3, V3), (T4, V4), (T5, V5), (T6, V6),
     (T7, V7), (T8, V8), (T9, V9), (T10, V10), (T11, V11), (T12, V12), (T13, V13), (T14,
     V14), (T15, V15), (T16, V16), (T17, V17), (T18, V18), (T19, V19), (T20, V20), (T21,
     V21)]"

definition DEFINE_MSG_22 ::
  "u32 \<Rightarrow> ftype \<Rightarrow> string \<Rightarrow> ftype \<Rightarrow> string
    \<Rightarrow> ftype \<Rightarrow> string \<Rightarrow> ftype \<Rightarrow> string
    \<Rightarrow> ftype \<Rightarrow> string \<Rightarrow> ftype \<Rightarrow> string
    \<Rightarrow> ftype \<Rightarrow> string \<Rightarrow> ftype \<Rightarrow> string
    \<Rightarrow> ftype \<Rightarrow> string \<Rightarrow> ftype \<Rightarrow> string
    \<Rightarrow> ftype \<Rightarrow> string \<Rightarrow> ftype \<Rightarrow> string
    \<Rightarrow> ftype \<Rightarrow> string \<Rightarrow> ftype \<Rightarrow> string
    \<Rightarrow> ftype \<Rightarrow> string \<Rightarrow> ftype \<Rightarrow> string
    \<Rightarrow> ftype \<Rightarrow> string \<Rightarrow> ftype \<Rightarrow> string
    \<Rightarrow> ftype \<Rightarrow> string \<Rightarrow> ftype \<Rightarrow> string
    \<Rightarrow> ftype \<Rightarrow> string \<Rightarrow> ftype \<Rightarrow> string
    \<Rightarrow> struct_type" where
  "DEFINE_MSG_22 MSGIDNAME T1 V1 T2 V2 T3 V3 T4 V4 T5 V5 T6 V6 T7 V7 T8 V8 T9 V9 T10 V10
     T11 V11 T12 V12 T13 V13 T14 V14 T15 V15 T16 V16 T17 V17 T18 V18 T19 V19 T20 V20 T21
     V21 T22 V22 = msg_type MSGIDNAME [(T1, V1), (T2, V2), (T3, V3), (T4, V4), (T5, V5),
     (T6, V6), (T7, V7), (T8, V8), (T9, V9), (T10, V10), (T11, V11), (T12, V12), (T13,
     V13), (T14, V14), (T15, V15), (T16, V16), (T17, V17), (T18, V18), (T19, V19), (T20,
     V20), (T21, V21), (T22, V22)]"

definition DEFINE_MSG_25 ::
  "u32 \<Rightarrow> ftype \<Rightarrow> string \<Rightarrow> ftype \<Rightarrow> string
    \<Rightarrow> ftype \<Rightarrow> string \<Rightarrow> ftype \<Rightarrow> string
    \<Rightarrow> ftype \<Rightarrow> string \<Rightarrow> ftype \<Rightarrow> string
    \<Rightarrow> ftype \<Rightarrow> string \<Rightarrow> ftype \<Rightarrow> string
    \<Rightarrow> ftype \<Rightarrow> string \<Rightarrow> ftype \<Rightarrow> string
    \<Rightarrow> ftype \<Rightarrow> string \<Rightarrow> ftype \<Rightarrow> string
    \<Rightarrow> ftype \<Rightarrow> string \<Rightarrow> ftype \<Rightarrow> string
    \<Rightarrow> ftype \<Rightarrow> string \<Rightarrow> ftype \<Rightarrow> string
    \<Rightarrow> ftype \<Rightarrow> string \<Rightarrow> ftype \<Rightarrow> string
    \<Rightarrow> ftype \<Rightarrow> string \<Rightarrow> ftype \<Rightarrow> string
    \<Rightarrow> ftype \<Rightarrow> string \<Rightarrow> ftype \<Rightarrow> string
    \<Rightarrow> ftype \<Rightarrow> string \<Rightarrow> ftype \<Rightarrow> string
    \<Rightarrow> ftype \<Rightarrow> string \<Rightarrow> struct_type" where
  "DEFINE_MSG_25 MSGIDNAME T1 V1 T2 V2 T3 V3 T4 V4 T5 V5 T6 V6 T7 V7 T8 V8 T9 V9 T10 V10
     T11 V11 T12 V12 T13 V13 T14 V14 T15 V15 T16 V16 T17 V17 T18 V18 T19 V19 T20 V20 T21
     V21 T22 V22 T23 V23 T24 V24 T25 V25 = msg_type MSGIDNAME [(T1, V1), (T2, V2), (T3,
     V3), (T4, V4), (T5, V5), (T6, V6), (T7, V7), (T8, V8), (T9, V9), (T10, V10), (T11,
     V11), (T12, V12), (T13, V13), (T14, V14), (T15, V15), (T16, V16), (T17, V17), (T18,
     V18), (T19, V19), (T20, V20), (T21, V21), (T22, V22), (T23, V23), (T24, V24), (T25,
     V25)]"

lemmas macro_defs [gr_simps] =
  DEFINE_STRUCT_1_def DEFINE_STRUCT_2_def DEFINE_STRUCT_3_def DEFINE_STRUCT_4_def
  DEFINE_STRUCT_5_def DEFINE_STRUCT_6_def DEFINE_STRUCT_7_def DEFINE_STRUCT_8_def
  DEFINE_STRUCT_9_def DEFINE_STRUCT_10_def DEFINE_STRUCT_11_def DEFINE_STRUCT_12_def
  DEFINE_STRUCT_13_def DEFINE_STRUCT_14_def DEFINE_STRUCT_15_def DEFINE_STRUCT_16_def
  DEFINE_STRUCT_17_def DEFINE_STRUCT_19_def DEFINE_STRUCT_20_def DEFINE_STRUCT_29_def
  DEFINE_STRUCT_30_def DEFINE_MSG_0_def DEFINE_MSG_1_def DEFINE_MSG_2_def DEFINE_MSG_3_def
  DEFINE_MSG_4_def DEFINE_MSG_5_def DEFINE_MSG_6_def DEFINE_MSG_7_def DEFINE_MSG_8_def
  DEFINE_MSG_9_def DEFINE_MSG_10_def DEFINE_MSG_11_def DEFINE_MSG_12_def DEFINE_MSG_13_def
  DEFINE_MSG_14_def DEFINE_MSG_15_def DEFINE_MSG_16_def DEFINE_MSG_17_def DEFINE_MSG_18_def
  DEFINE_MSG_19_def DEFINE_MSG_20_def DEFINE_MSG_21_def DEFINE_MSG_22_def DEFINE_MSG_25_def

subsection \<open>What packing writes\<close>

fun field_chunks :: "fval \<Rightarrow> byte list list" where
  "field_chunks (V_int i) = be_chunk be32 i"
| "field_chunks (V_llong i) = llong_chunks i"
| "field_chunks (V_float f) = be_chunk be32 f"
| "field_chunks (V_short i) = be_chunk be16 i"
| "field_chunks (V_char c) = be_chunk (\<lambda>c. [c]) c"
| "field_chunks (V_string str) = string_chunk str"
| "field_chunks (V_vector_int vs) = vec_int_chunks vs"

fun field_insertable :: "fval \<Rightarrow> bool" where
  "field_insertable (V_string str) = (length str < 32768)"
| "field_insertable _ = True"

fun field_readable :: "fval \<Rightarrow> bool" where
  "field_readable (V_llong i) = llong_readable i"
| "field_readable (V_string str) = (length str < 65536)"
| "field_readable (V_vector_int vs) = (length vs \<le> 1000)"
| "field_readable _ = True"

definition field_enc :: "fval \<Rightarrow> byte list" where
  "field_enc v = concat (field_chunks v)"

definition obj_chunks :: "obj \<Rightarrow> byte list list" where
  "obj_chunks ob = (case obj_msgID ob of None \<Rightarrow> [] | Some i \<Rightarrow> [be32 i])
                     @ concat (map field_chunks (obj_vals ob))"

definition members_enc :: "obj \<Rightarrow> byte list" where
  "members_enc ob = concat (map field_enc (obj_vals ob))"

definition obj_enc :: "obj \<Rightarrow> byte list" where
  "obj_enc ob = (case obj_msgID ob of None \<Rightarrow> [] | Some i \<Rightarrow> be32 i) @ members_enc ob"

lemma concat_obj_chunks: "concat (obj_chunks ob) = obj_enc ob"
proof -
  have "concat (concat (map field_chunks vs)) = concat (map field_enc vs)" for vs
    by (induction vs) (auto simp: field_enc_def)
  then show ?thesis
    by (simp add: obj_chunks_def obj_enc_def members_enc_def split: option.split)
qed

interpretation ins_member: inserter ins_field field_chunks field_insertable
proof
  fix v
  assume "field_insertable v"
  then show "ws_implements (ins_field v) (field_chunks v)"
    by (cases v) (simp_all add: ins_int.ins_implements ins_llong.ins_implements
        ins_float.ins_implements ins_short.ins_implements ins_char.ins_implements
        ins_string.ins_implements st_vec_int.ins_implements)
qed

lemma Pack_implements:
  assumes "\<And>v. v \<in> set (obj_vals ob) \<Longrightarrow> field_insertable v"
  shows "ws_implements (Pack ob) (obj_chunks ob)"
proof -
  have "ws_implements (\<lambda>s. case obj_msgID ob of None \<Rightarrow> Inr s | Some i \<Rightarrow> ws_ins_int i s)
          (case obj_msgID ob of None \<Rightarrow> [] | Some i \<Rightarrow> [be32 i])"
    using ws_implements_Inr ins_int.ins_implements
    by (cases "obj_msgID ob") (auto simp: be_chunk_def)
  from ws_implements_seq [OF this ins_member.ins_all [OF assms]] show ?thesis
    unfolding obj_chunks_def Pack_def .
qed

lemma rbind_Inr_eq: "m = Inr x \<Longrightarrow> rbind m f = f x"
  by simp

lemma ext_field_enc:
  assumes "rs_ok s" and "field_readable v" and "type_of old = type_of v"
    and "rs_rest s = field_enc v @ r"
  shows "ext_field junk old s = Inr (v, rs_adv (length (field_enc v)) s)"
  using assms
  by (cases v; cases old)
    (simp_all add: field_enc_def be_chunk_def st_int.ext_enc st_float.ext_enc st_short.ext_enc
      st_char.ext_enc st_string.ext_enc [unfolded string_enc_def] string_chunk_def
      st_llong.ext_enc st_vec_int.ext_enc
      flip: st_llong.enc_chunks st_vec_int.enc_chunks)

lemma ext_fields_enc:
  assumes "rs_ok s" and "list_all field_readable vs" and "map type_of olds = map type_of vs"
    and "rs_rest s = concat (map field_enc vs) @ r"
  shows "ext_fields junk olds s = Inr (vs, rs_adv (length (concat (map field_enc vs))) s)"
  using assms
proof (induction vs arbitrary: olds s)
  case Nil
  then show ?case by (simp add: rs_adv_def)
next
  case (Cons v vs)
  then obtain old olds' where olds: "olds = old # olds'" "type_of old = type_of v"
      "map type_of olds' = map type_of vs"
    by auto
  let ?s = "rs_adv (length (field_enc v)) s"
  have "ext_field junk old s = Inr (v, ?s)"
    using Cons.prems olds by (intro ext_field_enc) auto
  moreover have "ext_fields junk olds' ?s = Inr (vs, rs_adv (length (concat (map field_enc vs))) ?s)"
    using Cons.prems olds by (intro Cons.IH) auto
  ultimately show ?case by (simp add: olds)
qed

text \<open>Members that were inserted are extracted again into any object of the same type.\<close>

lemma UnPack_enc:
  assumes "rs_ok s" and "list_all field_readable (obj_vals ob)"
    and "has_type ob t" and "has_type old t" and "rs_rest s = members_enc ob @ r"
  shows "UnPack junk old s = Inr (ob, rs_adv (length (members_enc ob)) s)"
proof -
  have "ext_fields junk (obj_vals old) s = Inr (obj_vals ob, rs_adv (length (members_enc ob)) s)"
    unfolding members_enc_def using assms
    by (intro ext_fields_enc) (auto simp: has_type_def members_enc_def)
  moreover have "old\<lparr>obj_vals := obj_vals ob\<rparr> = ob"
    using assms(3,4) by (simp add: has_type_def)
  ultimately show ?thesis by (simp add: UnPack_def)
qed

text \<open>An object packed into a cleared stream with room for it is the whole payload.\<close>

lemma Pack_cleared:
  assumes "\<And>v. v \<in> set (obj_vals ob) \<Longrightarrow> field_insertable v"
    and "ws_ok w" and "4 + length (obj_enc ob) \<le> ws_len w"
  obtains w' where "Pack ob (ws_Clear w) = Inr w'" "ws_ok w'" "ws_payload w' = obj_enc ob"
    "w' = ws_Clear w \<or> ws_synced w'"
proof -
  have "ws_ok (ws_Clear w)" "ws_len (ws_Clear w) = ws_len w"
    by (rule ws_Clear_ok [OF assms(2)]) (simp add: ws_Clear_def)
  with Pack_implements [OF assms(1)] obtain w' where
    "Pack ob (ws_Clear w) = Inr w'" "ws_ok w'"
    "ws_payload w' = abs_puts (ws_len w) (obj_chunks ob) (ws_payload (ws_Clear w))"
    "w' = ws_Clear w \<or> ws_synced w'"
    by (metis ws_implementsE)
  with assms(3) show thesis
    by (intro that [of w']) (simp_all add: ws_Clear_payload abs_puts_fit concat_obj_chunks)
qed

end
