(* ===== verification/MessageTypes.thy ===== *)
theory MessageTypes
  imports StructMacros
begin

text \<open>
  The messages of src/Server/netPack/MessageBuf.hpp, each declared by one macro call, in the order
  of the file.
\<close>

definition NetHead :: struct_type where
  "NetHead = DEFINE_STRUCT_2 T_int ''len'' T_string ''body''"

definition RequestLogin :: struct_type where
  "RequestLogin = DEFINE_MSG_5 1 T_string ''_userName'' T_string ''_userPassword''
     T_string ''_userGUID'' T_string ''_deviceToken'' T_int ''_reConnect''"

definition RequestLoginRet :: struct_type where
  "RequestLoginRet = DEFINE_MSG_3 1 T_string ''_userName'' T_string ''_userGUID'' T_int
     ''_flag''"

definition RequestPing :: struct_type where
  "RequestPing = DEFINE_MSG_1 1 T_string ''vlaue''"

definition GSNotifyRoleBaseInfo :: struct_type where
  "GSNotifyRoleBaseInfo = DEFINE_MSG_22 1 T_int ''m_un32ObjID'' T_string
     ''m_n32RoleNickName'' T_int ''m_n32CareerID'' T_int ''m_bGender'' T_int
     ''m_un32CoatTypeID'' T_int ''m_un32LegGuardId'' T_int ''m_un32ShoeId'' T_int
     ''m_un32NecklaceId'' T_int ''m_un32RingId'' T_int ''m_un32WeaponId'' T_int
     ''m_un32Level'' T_int ''m_un32Exp'' T_int ''m_un32CurHP'' T_int ''m_un32CurMP'' T_int
     ''m_un32CurHPVessel'' T_int ''m_un32CurMPVessel'' T_int ''m_un32MaxHP'' T_int
     ''m_un32MaxMP'' T_int ''m_un32MaxHPVessel'' T_int ''m_un32MaxMPVessel'' T_int
     ''m_un32Max_packages'' T_int ''wingID''"

definition GCAskSelectRole :: struct_type where
  "GCAskSelectRole = DEFINE_MSG_1 1 T_string ''_roleName''"

definition NetErrorMessage :: struct_type where
  "NetErrorMessage = DEFINE_MSG_4 1 T_int ''protocolId'' T_int ''strLength'' T_int
     ''errorCode'' T_string ''errorMessage''"

definition GSNotifyChangeScene :: struct_type where
  "GSNotifyChangeScene = DEFINE_MSG_6 1 T_int ''m_un32MapID'' T_int ''m_un32SceneID''
     T_int ''m_un32ClientNO'' T_float ''m_fPosX'' T_float ''m_fPosY'' T_float ''m_fPosZ''"

definition GSNotifyRoleAppear :: struct_type where
  "GSNotifyRoleAppear = DEFINE_MSG_19 1 T_int ''m_un32ObjID'' T_string
     ''m_n32RoleNickName'' T_int ''m_n32CareerID'' T_int ''m_bGender'' T_int
     ''m_un32WeaponTypeID'' T_int ''m_un32CoatTypeID'' T_int ''m_un32Level'' T_float
     ''m_fCurPosX'' T_float ''m_fCurPosY'' T_float ''m_fCurPosZ'' T_float ''m_fTarPosX''
     T_float ''m_fTarPosY'' T_float ''m_fTarPosZ'' T_float ''m_fMoveSpeed'' T_int
     ''m_un32CurTitleID'' T_int ''m_un32CurHp'' T_int ''m_u32WingID'' T_int
     ''m_u32MedalID'' T_int ''m_u32PetID''"

definition GSObjectDisappear :: struct_type where
  "GSObjectDisappear = DEFINE_MSG_2 1 T_int ''ObjNum'' T_vector_int ''m_un32ObjID''"

definition GSObjectMove :: struct_type where
  "GSObjectMove = DEFINE_MSG_8 1 T_int ''m_un32ObjID'' T_float ''m_fCurPosX'' T_float
     ''m_fCurPosY'' T_float ''m_fCurPosZ'' T_float ''m_fTarPosX'' T_float ''m_fTarPosY''
     T_float ''m_fTarPosZ'' T_float ''m_fMoveSpeed''"

definition GCAskMove :: struct_type where
  "GCAskMove = DEFINE_MSG_8 1 T_int ''m_un32ObjID'' T_float ''m_fCurPosX'' T_float
     ''m_fCurPosY'' T_float ''m_fCurPosZ'' T_int ''node_num'' T_float ''m_fTarPosX''
     T_float ''m_fTarPosY'' T_float ''m_fTarPosZ''"

definition GSNotifyRoleProfileChange :: struct_type where
  "GSNotifyRoleProfileChange = DEFINE_MSG_4 1 T_int ''m_un32ObjID'' T_int
     ''m_un32WeaponTypeID'' T_int ''m_un32CoatTypeID'' T_int ''m_un32Level''"

definition GCReportPassGate :: struct_type where
  "GCReportPassGate = DEFINE_MSG_8 1 T_int ''m_un32MapID'' T_int ''m_un32SceneID'' T_int
     ''m_un32HPVessel'' T_int ''m_un32MPVessel'' T_int ''m_un32GotExpNum'' T_int
     ''m_un32GotSilverNum'' T_int ''m_un32UseSecond'' T_int ''m_bPickAllTempGoods''"

definition GCAskTreasureBoxDropGoods :: struct_type where
  "GCAskTreasureBoxDropGoods = DEFINE_MSG_2 1 T_int ''m_un32BoxID'' T_int
     ''m_isShowAward''"

definition GCAskEnterScene :: struct_type where
  "GCAskEnterScene = DEFINE_MSG_7 1 T_int ''m_n32MapID'' T_int ''m_n32SceneID'' T_int
     ''m_bEnterByUI'' T_int ''m_un32HPVessel'' T_int ''m_un32MPVessel'' T_int
     ''m_un32GotExp'' T_int ''m_un32GotSilver''"

definition GSNotifyRoleMapScheduleList :: struct_type where
  "GSNotifyRoleMapScheduleList = DEFINE_MSG_2 1 T_int ''lineNum'' T_int ''mapID''"

definition GCAskRelive :: struct_type where
  "GCAskRelive = DEFINE_MSG_3 1 T_int ''_reliveType'' T_int ''_assetType'' T_int
     ''m_un32AssetNum''"

definition GCReportExp :: struct_type where
  "GCReportExp = DEFINE_MSG_1 1 T_int ''m_un32GotExp''"

definition GCReportUseSkill :: struct_type where
  "GCReportUseSkill = DEFINE_MSG_8 1 T_int ''m_un32ObjID'' T_int ''m_un32SkillID''
     T_float ''m_fPosX'' T_float ''m_fPosY'' T_float ''m_fPosZ'' T_float ''m_fDirX''
     T_float ''m_fDirY'' T_float ''m_fDirZ''"

definition GSNotifySkillReleased :: struct_type where
  "GSNotifySkillReleased = DEFINE_MSG_8 1 T_int ''m_un32ObjectID'' T_int
     ''m_un32SkillID'' T_float ''m_fPosX'' T_float ''m_fPosY'' T_float ''m_fPosZ'' T_float
     ''m_fDirX'' T_float ''m_fDirY'' T_float ''m_fDirZ''"

definition GCReportOBjectAppear :: struct_type where
  "GCReportOBjectAppear = DEFINE_MSG_8 1 T_int ''m_un32ObjID'' T_int ''m_un32TempID''
     T_float ''m_fPosX'' T_float ''m_fPosY'' T_float ''m_fPosZ'' T_float ''m_fDirX''
     T_float ''m_fDirY'' T_float ''m_fDirZ''"

definition GSNotifyObjectAppear :: struct_type where
  "GSNotifyObjectAppear = DEFINE_MSG_8 1 T_int ''m_un32ObjID'' T_int ''m_un32TempID''
     T_float ''m_fPosX'' T_float ''m_fPosY'' T_float ''m_fPosZ'' T_float ''m_fDirX''
     T_float ''m_fDirY'' T_float ''m_fDirZ''"

definition GCReportOBjectDisappear :: struct_type where
  "GCReportOBjectDisappear = DEFINE_MSG_2 1 T_int ''m_un32ObjID'' T_int ''m_n32Reason''"

definition GSNotifyObjectDisappear :: struct_type where
  "GSNotifyObjectDisappear = DEFINE_MSG_2 1 T_int ''m_un32ObjID'' T_int ''m_n32Reason''"

definition GCReportObjectAction :: struct_type where
  "GCReportObjectAction = DEFINE_MSG_8 1 T_int ''m_un32ObjID'' T_int ''m_n32ActionCate''
     T_float ''m_fDirX'' T_float ''m_fDirY'' T_float ''m_fDirZ'' T_float ''m_fPosX''
     T_float ''m_fPosY'' T_float ''m_fPosZ''"

definition GSNotifyObjectAction :: struct_type where
  "GSNotifyObjectAction = DEFINE_MSG_8 1 T_int ''m_un32ObjID'' T_int ''m_n32ActionCate''
     T_float ''m_fDirX'' T_float ''m_fDirY'' T_float ''m_fDirZ'' T_float ''m_fPosX''
     T_float ''m_fPosY'' T_float ''m_fPosZ''"

definition GCReportObjectHurm :: struct_type where
  "GCReportObjectHurm = DEFINE_MSG_5 1 T_int ''m_bHost'' T_int ''m_un32ObjID'' T_int
     ''m_n32HPValue'' T_int ''m_n32CurHP'' T_int ''m_n32Effect''"

definition GSNotifyObjectHurm :: struct_type where
  "GSNotifyObjectHurm = DEFINE_MSG_5 1 T_int ''m_bHost'' T_int ''m_un32ObjID'' T_int
     ''m_n32HPValue'' T_int ''m_n32HP'' T_int ''m_n32Effect''"

definition GCAskEnterTowerInstance :: struct_type where
  "GCAskEnterTowerInstance = DEFINE_MSG_2 1 T_int ''m_un32TowerId'' T_int ''m_bCurWave''"

definition GCReportTowerInstanceScore :: struct_type where
  "GCReportTowerInstanceScore = DEFINE_MSG_1 1 T_int ''m_un32TowerId''"

definition GCAskTowerInstanceRank :: struct_type where
  "GCAskTowerInstanceRank = DEFINE_MSG_1 1 T_int ''m_un16Type''"

definition GCAskTowerInstanceAward :: struct_type where
  "GCAskTowerInstanceAward = DEFINE_MSG_2 1 T_int ''m_u32TowerID'' T_int
     ''m_u16TowerType''"

definition GCAskReadEMail :: struct_type where
  "GCAskReadEMail = DEFINE_MSG_1 1 T_int ''m_un32EMailID''"

definition GCAskGetEMailPrize :: struct_type where
  "GCAskGetEMailPrize = DEFINE_MSG_1 1 T_int ''m_un32EMailID''"

definition GCAskRemoveEMail :: struct_type where
  "GCAskRemoveEMail = DEFINE_MSG_1 1 T_int ''m_un32EMailID''"

definition GCAskTowerInstanceAward1 :: struct_type where
  "GCAskTowerInstanceAward1 = DEFINE_MSG_4 1 T_int ''m_n8RankCate'' T_int
     ''m_n32SelfRank'' T_int ''m_n32SelfRankValue'' T_int ''m_n32RankNum''"

definition GSNotifyEMailList :: struct_type where
  "GSNotifyEMailList = DEFINE_MSG_1 1 T_int ''m_un32EMailNum''"

definition GCSendCreateRole :: struct_type where
  "GCSendCreateRole = DEFINE_MSG_4 1 T_int ''_u32VocationID'' T_int ''_byteGender''
     T_string ''_nickName'' T_int ''_byteVerify''"

definition GCAskRankList :: struct_type where
  "GCAskRankList = DEFINE_MSG_1 1 T_int ''m_n8RankCate''"

definition GCAsChargeIOS :: struct_type where
  "GCAsChargeIOS = DEFINE_MSG_3 1 T_int ''m_bIsDebug'' T_int ''m_strLen'' T_string
     ''m_szAppleReceipt''"

definition GCNotifyChargeIOS :: struct_type where
  "GCNotifyChargeIOS = DEFINE_MSG_3 1 T_int ''m_nResult'' T_int ''m_strLen'' T_string
     ''m_szAppleReceipt''"

definition GCReportProcuce :: struct_type where
  "GCReportProcuce = DEFINE_MSG_2 1 T_int ''_bookID'' T_int ''_bUseDiamond''"

definition GCAskChapterAward :: struct_type where
  "GCAskChapterAward = DEFINE_MSG_2 1 T_int ''_chapterNum'' T_int ''_hardChapter''"

definition GCAskAddFriend :: struct_type where
  "GCAskAddFriend = DEFINE_MSG_2 1 T_int ''_FriendOpt'' T_string ''_roleName''"

definition GCVipFriend :: struct_type where
  "GCVipFriend = DEFINE_MSG_1 1 T_int ''_FriendOpt''"

definition GCAskSelectPlayer :: struct_type where
  "GCAskSelectPlayer = DEFINE_MSG_1 1 T_string ''_byte''"

definition GCAskGuideComplate :: struct_type where
  "GCAskGuideComplate = DEFINE_MSG_2 1 T_int ''GroupId'' T_int ''u8Finish''"

lemmas message_defs [gr_simps] =
  NetHead_def RequestLogin_def RequestLoginRet_def RequestPing_def GSNotifyRoleBaseInfo_def
  GCAskSelectRole_def NetErrorMessage_def GSNotifyChangeScene_def GSNotifyRoleAppear_def
  GSObjectDisappear_def GSObjectMove_def GCAskMove_def GSNotifyRoleProfileChange_def
  GCReportPassGate_def GCAskTreasureBoxDropGoods_def GCAskEnterScene_def
  GSNotifyRoleMapScheduleList_def GCAskRelive_def GCReportExp_def GCReportUseSkill_def
  GSNotifySkillReleased_def GCReportOBjectAppear_def GSNotifyObjectAppear_def
  GCReportOBjectDisappear_def GSNotifyObjectDisappear_def GCReportObjectAction_def
  GSNotifyObjectAction_def GCReportObjectHurm_def GSNotifyObjectHurm_def
  GCAskEnterTowerInstance_def GCReportTowerInstanceScore_def GCAskTowerInstanceRank_def
  GCAskTowerInstanceAward_def GCAskReadEMail_def GCAskGetEMailPrize_def
  GCAskRemoveEMail_def GCAskTowerInstanceAward1_def GSNotifyEMailList_def
  GCSendCreateRole_def GCAskRankList_def GCAsChargeIOS_def GCNotifyChargeIOS_def
  GCReportProcuce_def GCAskChapterAward_def GCAskAddFriend_def GCVipFriend_def
  GCAskSelectPlayer_def GCAskGuideComplate_def

end
