(* ===== verification/MessageHead.thy ===== *)
theory MessageHead
  imports ByteOrder
begin

text \<open>
  The frame around a message on the wire: class \<open>MessageHead\<close> of src/Server/Server/AppManager.h and
  AppManager.cpp. Two 16-bit numbers in the byte order of the host (total length and command), then
  the body. \<open>mh_body\<close> is the array the member \<open>body\<close> points to, \<open>None\<close> for a null pointer.
\<close>

record MessageHead =
  mh_len :: u16
  mh_cmd :: u16
  mh_body :: "byte list option"

definition MessageHead_new :: MessageHead where
  "MessageHead_new = \<lparr>mh_len = 0, mh_cmd = 0, mh_body = None\<rparr>"

text \<open>\<open>msg\<close> is the object the pointer argument points to.\<close>

definition Parse :: "byte list \<Rightarrow> u16 \<Rightarrow> MessageHead \<Rightarrow> (bool \<times> MessageHead) res" where
  "Parse msg length16 h =
     (if unat length16 \<le> 2 + 2 then Inr (False, h)
      else rbind (memcpy_from msg 0 2) (\<lambda>lenb.
           rbind (memcpy_from msg 2 2) (\<lambda>cmdb.
             let len_body = unat length16 - 2 - 2 + 1;
                 body = replicate len_body 0
             in rbind (memcpy_from msg (2 + 2) (len_body - 1)) (\<lambda>bs.
                rbind (memcpy_to body 0 bs) (\<lambda>body'.
                  Inr (True, h\<lparr>mh_len := le_word lenb, mh_cmd := le_word cmdb,
                               mh_body := Some body'\<rparr>))))))"

text \<open>
  \<open>total\<close> is a \<open>uint16_t\<close>, so the sum wraps; the output buffer has \<open>total + 1\<close> bytes and the copies
  into it are not checked.
\<close>

definition MH_Pack ::
  "byte list \<Rightarrow> u16 \<Rightarrow> u16 \<Rightarrow> MessageHead \<Rightarrow> (byte list \<times> MessageHead) res" where
  "MH_Pack msg length16 cmdIn h =
     (let total = word_of_nat (2 + 2 + unat length16) :: u16;
          msgOut = replicate (unat total + 1) 0
      in rbind (memcpy_to msgOut 0 (le_bytes 2 total)) (\<lambda>m1.
         rbind (memcpy_to m1 2 (le_bytes 2 cmdIn)) (\<lambda>m2.
         rbind (memcpy_from msg 0 (unat length16)) (\<lambda>bs.
         rbind (memcpy_to m2 (2 + 2) bs) (\<lambda>m3.
           Inr (m3, h\<lparr>mh_len := total\<rparr>))))))"

subsection \<open>Frames\<close>

text \<open>The bytes of a frame without the terminating zero that \<open>Pack\<close> adds.\<close>

definition frame :: "u16 \<Rightarrow> byte list \<Rightarrow> byte list" where
  "frame cmd body = le_bytes 2 (word_of_nat (4 + length body) :: u16) @ le_bytes 2 cmd @ body"

lemma length_frame [simp]: "length (frame cmd body) = 4 + length body"
  by (simp add: frame_def)

lemma unat_of_small: "n < 65536 \<Longrightarrow> unat (word_of_nat n :: u16) = n"
  by (simp add: unsigned_of_nat take_bit_nat_eq_self)

lemma unat_of_mod: "unat (word_of_nat n :: u16) = n mod 65536"
  by (simp add: unsigned_of_nat take_bit_eq_mod)

lemma le_word_le_bytes16 [simp]: "le_word (le_bytes 2 w) = (w :: u16)"
  by (simp add: le_word_le_bytes take_bit_word_eq_self)

lemma MH_Pack_eq:
  assumes "length body \<le> 65531" and "length body \<le> length msg" and "body = take (length body) msg"
  shows "MH_Pack msg (word_of_nat (length body)) cmd h =
    Inr (frame cmd body @ [0], h\<lparr>mh_len := word_of_nat (4 + length body)\<rparr>)"
proof -
  have n: "unat (word_of_nat (length body) :: u16) = length body"
    using assms(1) by (simp add: unat_of_small)
  have t: "unat (word_of_nat (2 + 2 + length body) :: u16) = 4 + length body"
    using unat_of_small [of "4 + length body"] assms(1) by simp
  let ?L = "le_bytes 2 (word_of_nat (2 + 2 + length body) :: u16)"
  have m1: "memcpy_to (replicate (4 + length body + 1) 0) 0 ?L =
      Inr (?L @ replicate (length body + 3) 0)"
    by (simp add: memcpy_to_def)
  have m2: "memcpy_to (?L @ replicate (length body + 3) 0) 2 (le_bytes 2 cmd) =
      Inr (?L @ le_bytes 2 cmd @ replicate (length body + 1) 0)"
    by (simp add: memcpy_to_def)
  have m3: "memcpy_to (?L @ le_bytes 2 cmd @ replicate (length body + 1) 0) (2 + 2) body =
      Inr (?L @ le_bytes 2 cmd @ body @ [0])"
    using memcpy_to_zeroed [of body "length body"] by (simp add: memcpy_to_def)
  have bs: "memcpy_from msg 0 (length body) = Inr body"
    using assms(2,3) by (simp add: memcpy_from_def)
  show ?thesis
    by (simp only: MH_Pack_def Let_def n t m1 m2 m3 bs rbind.simps)
       (simp add: frame_def)
qed

lemma Parse_frame:
  assumes "0 < length body" and "length body \<le> 65531"
  shows "Parse (frame cmd body @ rest) (word_of_nat (4 + length body)) h =
    Inr (True, h\<lparr>mh_len := word_of_nat (4 + length body), mh_cmd := cmd,
                 mh_body := Some (body @ [0])\<rparr>)"
proof -
  have n: "unat (word_of_nat (4 + length body) :: u16) = 4 + length body"
    by (rule unat_of_small) (use assms(2) in simp)
  let ?m = "frame cmd body @ rest"
  have lenb: "memcpy_from ?m 0 2 = Inr (le_bytes 2 (word_of_nat (4 + length body) :: u16))"
    by (simp add: memcpy_from_def frame_def)
  have cmdb: "memcpy_from ?m 2 2 = Inr (le_bytes 2 cmd)"
    by (simp add: memcpy_from_def frame_def)
  have bs: "memcpy_from ?m (2 + 2) (length body + 1 - 1) = Inr body"
    by (simp add: memcpy_from_def frame_def)
  have b: "memcpy_to (replicate (length body + 1) 0) 0 body = Inr (body @ [0])"
    by (rule memcpy_to_zeroed) simp
  have l: "4 + length body - 2 - 2 + 1 = length body + 1" by simp
  show ?thesis
    using assms(1)
    by (simp only: Parse_def n l lenb cmdb bs b Let_def rbind.simps le_word_le_bytes16) simp
qed

text \<open>Nothing else is accepted: the whole behaviour of \<open>Parse\<close> on a buffer of the given length.\<close>

lemma Parse_short: "unat length16 \<le> 4 \<Longrightarrow> Parse msg length16 h = Inr (False, h)"
  by (simp add: Parse_def)

lemma Parse_long:
  assumes "4 < unat length16" and "unat length16 = length msg"
  shows "Parse msg length16 h =
    Inr (True, h\<lparr>mh_len := le_word (take 2 msg), mh_cmd := le_word (take 2 (drop 2 msg)),
                 mh_body := Some (drop 4 msg @ [0])\<rparr>)"
proof -
  have n: "unat length16 - 2 - 2 + 1 = length (drop 4 msg) + 1"
    using assms by simp
  have bs: "memcpy_from msg (2 + 2) (length (drop 4 msg) + 1 - 1) = Inr (drop 4 msg)"
    using assms by (simp add: memcpy_from_def)
  have b: "memcpy_to (replicate (length (drop 4 msg) + 1) 0) 0 (drop 4 msg) = Inr (drop 4 msg @ [0])"
    by (rule memcpy_to_zeroed) simp
  have head: "memcpy_from msg 0 2 = Inr (take 2 msg)"
    "memcpy_from msg 2 2 = Inr (take 2 (drop 2 msg))"
    using assms by (simp_all add: memcpy_from_def)
  show ?thesis
    using assms(1) by (simp only: Parse_def n bs b head Let_def rbind.simps) simp
qed

text \<open>A body of 65532 bytes or more overruns the output buffer.\<close>

lemma MH_Pack_overflow:
  assumes "65532 \<le> unat length16"
  shows "MH_Pack msg length16 cmd h = Inl OutOfBounds"
proof -
  have lt: "unat length16 < 65536"
    using unsigned_less [of length16] by simp
  let ?t = "word_of_nat (2 + 2 + unat length16) :: u16"
  have "unat ?t = (4 + unat length16) mod 65536"
    using unat_of_mod [of "4 + unat length16"] by simp
  also have "\<dots> = 4 + unat length16 - 65536"
    using assms lt by (simp add: mod_if)
  finally have t: "unat ?t < 4" using lt by linarith
  have one: "memcpy_to m (2 + 2) bs = Inl OutOfBounds"
    if "length m = unat ?t + 1" "length bs = unat length16" for m bs
    using that t assms by (simp add: memcpy_to_def)
  let ?z = "replicate (unat ?t + 1) 0"
  show ?thesis
  proof (cases rule: memcpy_to_cases [of ?z 0 "le_bytes 2 ?t"])
    case 1
    then show ?thesis by (simp only: MH_Pack_def Let_def rbind.simps)
  next
    case (2 m1)
    note m1 = 2
    show ?thesis
    proof (cases rule: memcpy_to_cases [of m1 2 "le_bytes 2 cmd"])
      case 1
      with m1 show ?thesis by (simp only: MH_Pack_def Let_def rbind.simps)
    next
      case (2 m2)
      with m1 have "length m2 = unat ?t + 1" by simp
      with m1 2 one show ?thesis
        by (cases rule: memcpy_from_cases [of msg 0 "unat length16"])
          (simp_all only: MH_Pack_def Let_def rbind.simps)
    qed
  qed
qed

text \<open>Two frames that arrive in one read are taken as one message: the handler of the first
  command gets the first body with the second frame appended, and the second command is never
  dispatched.\<close>

theorem coalesced_frames:
  assumes "length (frame c1 b1 @ frame c2 b2) < 65536"
  shows "\<exists>head. Parse (frame c1 b1 @ frame c2 b2) (word_of_nat (length (frame c1 b1 @ frame c2 b2)))
      MessageHead_new = Inr (True, head)
    \<and> mh_cmd head = c1 \<and> mh_len head = word_of_nat (4 + length b1)
    \<and> mh_body head = Some (b1 @ frame c2 b2 @ [0])"
proof -
  let ?m = "frame c1 b1 @ frame c2 b2"
  have n: "unat (word_of_nat (length ?m) :: u16) = length ?m"
    using assms by (rule unat_of_small)
  have "take 2 ?m = le_bytes 2 (word_of_nat (4 + length b1) :: u16)"
    "take 2 (drop 2 ?m) = le_bytes 2 c1" "drop 4 ?m = b1 @ frame c2 b2"
    by (simp_all add: frame_def)
  moreover have "4 < unat (word_of_nat (length ?m) :: u16)"
    unfolding n by simp
  ultimately show ?thesis
    by (simp only: Parse_long [OF _ n] le_word_le_bytes16) simp
qed

end
