(* ===== verification/Dispatch.thy ===== *)
theory Dispatch
  imports GR_Prelude
begin

text \<open>
  The message dispatcher of src/Server/NetApp/MessageDispatch.hpp: a map from command numbers to
  handlers. A handler is a function on the state of the server; \<open>None\<close> stands for an empty
  \<open>std::function\<close>, which is what \<open>operator[]\<close> stores under a key that is not there yet.
\<close>

type_synonym 'st handler = "int \<Rightarrow> int \<Rightarrow> byte list \<Rightarrow> 'st \<Rightarrow> 'st res"
type_synonym 'st dispatcher = "int \<rightharpoonup> 'st handler option"

definition RegisterMessageHandle :: "int \<Rightarrow> 'st handler \<Rightarrow> 'st dispatcher \<Rightarrow> 'st dispatcher" where
  "RegisterMessageHandle cmd func m = m(cmd \<mapsto> Some func)"

text \<open>\<open>m_Message[cmd]\<close>\<close>

definition subscript :: "int \<Rightarrow> 'st dispatcher \<Rightarrow> 'st handler option \<times> 'st dispatcher" where
  "subscript cmd m =
     (case m cmd of None \<Rightarrow> (None, m(cmd \<mapsto> None)) | Some func \<Rightarrow> (func, m))"

definition DispatchMessageHandle ::
  "int \<Rightarrow> int \<Rightarrow> int \<Rightarrow> byte list \<Rightarrow> 'st dispatcher \<times> 'st \<Rightarrow> (bool \<times> 'st dispatcher \<times> 'st) res" where
  "DispatchMessageHandle cmd a1 a2 a3 = (\<lambda>(m, st).
     case subscript cmd m of
       (None, m') \<Rightarrow> Inr (False, m', st)
     | (Some func, m') \<Rightarrow> rbind (func a1 a2 a3 st) (\<lambda>st'. Inr (True, m', st')))"

text \<open>The handler that a command runs, if any.\<close>

definition handler_of :: "'st dispatcher \<Rightarrow> int \<Rightarrow> 'st handler option" where
  "handler_of m cmd = (case m cmd of None \<Rightarrow> None | Some func \<Rightarrow> func)"

lemma handler_of_register:
  "handler_of (RegisterMessageHandle cmd f m) = (handler_of m)(cmd := Some f)"
  by (auto simp: handler_of_def RegisterMessageHandle_def)

lemma handler_of_subscript: "subscript cmd m = (f, m') \<Longrightarrow> f = handler_of m cmd \<and> handler_of m' = handler_of m"
  by (cases "m cmd") (auto simp: subscript_def handler_of_def)

lemma handler_of_touch: "handler_of m cmd = None \<Longrightarrow> handler_of (m(cmd \<mapsto> None)) = handler_of m"
  by (auto simp: handler_of_def fun_eq_iff split: option.splits)

lemma dispatch_known:
  assumes "handler_of m cmd = Some f"
  shows "DispatchMessageHandle cmd a1 a2 a3 (m, st) =
     rbind (f a1 a2 a3 st) (\<lambda>st'. Inr (True, m, st'))"
  using assms
  by (auto simp: DispatchMessageHandle_def subscript_def handler_of_def split: option.splits)

lemma dispatch_unknown:
  assumes "handler_of m cmd = None"
  shows "DispatchMessageHandle cmd a1 a2 a3 (m, st) = Inr (False, m(cmd \<mapsto> None), st)"
  using assms
  by (auto simp: DispatchMessageHandle_def subscript_def handler_of_def split: option.splits)

text \<open>
  The interface of a handler table: registering decides one command, dispatching decides none.
\<close>

locale handler_table =
  fixes lookup :: "'m \<Rightarrow> 'k \<Rightarrow> 'h option"
    and register :: "'k \<Rightarrow> 'h \<Rightarrow> 'm \<Rightarrow> 'm"
    and touch :: "'k \<Rightarrow> 'm \<Rightarrow> 'm"
  assumes lookup_register: "lookup (register k h m) = (lookup m)(k := Some h)"
    and lookup_touch: "lookup (touch k m) = lookup m"
begin

lemma register_all:
  "lookup (fold (\<lambda>(k, h). register k h) khs m) = lookup m ++ map_of (rev khs)"
proof (induction khs arbitrary: m)
  case Nil
  show ?case by simp
next
  case (Cons kh khs)
  then show ?case
    by (cases kh) (auto simp: lookup_register map_add_def fun_eq_iff split: option.splits)
qed

lemma register_distinct:
  assumes "distinct (map fst khs)" and "(k, h) \<in> set khs"
  shows "lookup (fold (\<lambda>(k, h). register k h) khs m) k = Some h"
proof -
  have "map_of (rev khs) k = Some h"
    using assms by (simp add: map_of_eq_Some_iff rev_map [symmetric])
  then show ?thesis by (simp add: register_all)
qed

end

interpretation dispatch: handler_table handler_of RegisterMessageHandle "\<lambda>cmd m. snd (subscript cmd m)"
proof
  show "handler_of (RegisterMessageHandle k h m) = (handler_of m)(k := Some h)"
    for k h and m :: "'st dispatcher"
    by (rule handler_of_register)
  show "handler_of (snd (subscript k m)) = handler_of m" for k and m :: "'st dispatcher"
    using handler_of_subscript [of k m] by (cases "subscript k m") auto
qed

end
