(* ===== verification/TcpServer.thy ===== *)
theory TcpServer
  imports GR_Prelude "HOL-Library.AList"
begin

text \<open>
  The class \<open>uv::TCPServer\<close> of src/Server/NetApp/NetFrame.h and NetFrame.cpp: the connection
  tables, the pool of connection ids, the two message queues and the callbacks that libuv runs.
  Results of libuv and of \<open>malloc\<close> are arguments of the callbacks; the calls made to libuv are
  recorded in order in \<open>ts_log\<close>. A hash map is an association list in some iteration order. What libuv does after
  a call of \<open>uv_write\<close> is not modelled: \<open>timer_cb\<close> gives it a request on its stack and frees the buffer right after the
  call, so the log says what the program asks libuv to write.
\<close>

subsection \<open>State\<close>

datatype STATUS = NONE | RUNING | CLOSE

text \<open>A pointer to a stream is its address.\<close>

type_synonym handle = nat

record MessageInfo =
  mi_conn :: u32
  mi_buf :: "byte list option"   \<comment> \<open>the object \<open>buf\<close> points to, \<open>None\<close> for a null pointer\<close>
  mi_len :: u32

datatype uv_action =
    UvShutdown handle
  | UvWrite handle "byte list"
  | UvClose handle
  | UvStop
  | UvTimerStart

record tcp_server =
  m_OnlineStream :: "(handle \<times> u32) list"
  m_OnlineID :: "(u32 \<times> handle) list"
  m_ConnectionID :: "u32 list"
  m_SendMessage :: "MessageInfo list"
  m_RecvMessage :: "MessageInfo list"
  m_MaxConnectionID :: u32
  ts_ip :: "byte list"
  ts_port :: int
  ts_status :: STATUS
  ts_log :: "uv_action list"

definition log_action :: "uv_action \<Rightarrow> tcp_server \<Rightarrow> tcp_server" where
  "log_action a s = s\<lparr>ts_log := ts_log s @ [a]\<rparr>"

text \<open>
  \<open>ip_arg\<close> is the object the argument points to. \<open>memcpy_s\<close> of more bytes than the destination has
  runs the invalid parameter handler.
\<close>

definition TCPServer_new :: "byte list \<Rightarrow> int \<Rightarrow> tcp_server res" where
  "TCPServer_new ip_arg port_arg =
     rbind (c_strlen ip_arg) (\<lambda>n.
       if n > 10 then Inl InvalidParameter
       else rbind (memcpy_from ip_arg 0 n) (\<lambda>bs.
            rbind (memcpy_to (replicate 10 0) 0 bs) (\<lambda>ip.
              Inr \<lparr>m_OnlineStream = [], m_OnlineID = [], m_ConnectionID = [], m_SendMessage = [],
                   m_RecvMessage = [], m_MaxConnectionID = 0, ts_ip = ip, ts_port = port_arg,
                   ts_status = NONE, ts_log = []\<rparr>)))"

subsection \<open>Connection ids and tables\<close>

definition GetConnectionID :: "tcp_server \<Rightarrow> u32 \<times> tcp_server" where
  "GetConnectionID s =
     (case m_ConnectionID s of
        [] \<Rightarrow> (m_MaxConnectionID s + 1, s\<lparr>m_MaxConnectionID := m_MaxConnectionID s + 1\<rparr>)
      | cid # ids \<Rightarrow> (cid, s\<lparr>m_ConnectionID := ids\<rparr>))"

definition AddConnection :: "u32 \<Rightarrow> handle \<Rightarrow> tcp_server \<Rightarrow> tcp_server" where
  "AddConnection conn h s =
     s\<lparr>m_OnlineStream := AList.update h conn (m_OnlineStream s),
       m_OnlineID := AList.update conn h (m_OnlineID s)\<rparr>"

text \<open>
  The first loop looks for an entry by value and stops at the first one; the second one looks for
  the key.
\<close>

fun first_id :: "handle \<Rightarrow> (u32 \<times> handle) list \<Rightarrow> u32 option" where
  "first_id h [] = None"
| "first_id h ((cid, h') # al) = (if h' = h then Some cid else first_id h al)"

definition ReleaseConnection :: "handle \<Rightarrow> tcp_server \<Rightarrow> tcp_server" where
  "ReleaseConnection h s =
     (let s1 = (case first_id h (m_OnlineID s) of
                  None \<Rightarrow> s
                | Some cid \<Rightarrow> s\<lparr>m_ConnectionID := m_ConnectionID s @ [cid],
                               m_OnlineID := AList.delete cid (m_OnlineID s)\<rparr>)
      in s1\<lparr>m_OnlineStream := AList.delete h (m_OnlineStream s1)\<rparr>)"

subsection \<open>Message queues\<close>

text \<open>\<open>m_OnlineStream[handle]\<close> stores \<open>0\<close> under a key that is not there.\<close>

definition stream_subscript :: "handle \<Rightarrow> tcp_server \<Rightarrow> u32 \<times> tcp_server" where
  "stream_subscript h s =
     (case map_of (m_OnlineStream s) h of
        None \<Rightarrow> (0, s\<lparr>m_OnlineStream := AList.update h 0 (m_OnlineStream s)\<rparr>)
      | Some conn \<Rightarrow> (conn, s))"

definition PushRecvMessage :: "handle \<Rightarrow> byte list option \<Rightarrow> u32 \<Rightarrow> tcp_server \<Rightarrow> tcp_server" where
  "PushRecvMessage h buf n s =
     (let (conn, s1) = stream_subscript h s
      in s1\<lparr>m_RecvMessage := queue_push \<lparr>mi_conn = conn, mi_buf = buf, mi_len = n\<rparr> (m_RecvMessage s1)\<rparr>)"

definition GetRecvMessage :: "tcp_server \<Rightarrow> MessageInfo option \<times> tcp_server" where
  "GetRecvMessage s =
     (case queue_try_pop (m_RecvMessage s) of
        None \<Rightarrow> (None, s)
      | Some (info, q) \<Rightarrow> (Some info, s\<lparr>m_RecvMessage := q\<rparr>))"

definition PushSendMessage :: "u32 \<Rightarrow> byte list option \<Rightarrow> u32 \<Rightarrow> tcp_server \<Rightarrow> tcp_server" where
  "PushSendMessage conn buf n s =
     s\<lparr>m_SendMessage := queue_push \<lparr>mi_conn = conn, mi_buf = buf, mi_len = n\<rparr> (m_SendMessage s)\<rparr>"

definition GetSendMessage :: "tcp_server \<Rightarrow> MessageInfo option \<times> tcp_server" where
  "GetSendMessage s =
     (case queue_try_pop (m_SendMessage s) of
        None \<Rightarrow> (None, s)
      | Some (info, q) \<Rightarrow> (Some info, s\<lparr>m_SendMessage := q\<rparr>))"

subsection \<open>Callbacks\<close>

definition UV_EOF :: int where "UV_EOF = -4095"
definition UV_ECONNRESET :: int where "UV_ECONNRESET = -4077"

text \<open>
  \<open>buf\<close> is the object \<open>buf->base\<close> points to. The length that \<open>strlen\<close> computes is not used, but
  the scan for the terminating zero happens.
\<close>

definition after_read :: "handle \<Rightarrow> int \<Rightarrow> byte list \<Rightarrow> tcp_server \<Rightarrow> tcp_server res" where
  "after_read h nread buf s =
     (if nread < 0 then
        let s1 = (if nread = UV_EOF then s
                  else if nread = UV_ECONNRESET then s
                  else log_action (UvShutdown h) s);
            s2 = PushRecvMessage h None 0 s1
        in Inr (ReleaseConnection h s2)
      else if nread = 0 then Inr s
      else rbind (c_strlen buf) (\<lambda>_. Inr (PushRecvMessage h (Some buf) (word_of_int nread) s)))"

text \<open>
  \<open>stream\<close> is the result of \<open>malloc\<close>; the other arguments are the status that libuv passes and the
  results of \<open>uv_tcp_init\<close>, \<open>uv_accept\<close> and \<open>uv_read_start\<close>.
\<close>

definition on_connection :: "int \<Rightarrow> handle option \<Rightarrow> int \<Rightarrow> int \<Rightarrow> int \<Rightarrow> tcp_server \<Rightarrow> tcp_server" where
  "on_connection status stream r_init r_accept r_read s =
     (if status \<noteq> 0 then s
      else case stream of
        None \<Rightarrow> s
      | Some h \<Rightarrow>
          if r_init \<noteq> 0 then s
          else if r_accept \<noteq> 0 then s
          else if r_read \<noteq> 0 then s
          else let (conn, s1) = GetConnectionID s in AddConnection conn h s1)"

definition after_shutdown :: "handle \<Rightarrow> tcp_server \<Rightarrow> tcp_server" where
  "after_shutdown h s = log_action (UvClose h) s"

text \<open>What the timer does with one message from the send queue.\<close>

definition send_one :: "MessageInfo \<Rightarrow> tcp_server \<Rightarrow> tcp_server res" where
  "send_one msg s =
     (case map_of (m_OnlineID s) (mi_conn msg) of
        None \<Rightarrow> Inr s
      | Some h \<Rightarrow>
          (case mi_buf msg of
             None \<Rightarrow> Inr (log_action (UvShutdown h) s)
           | Some buf \<Rightarrow>
               rbind (is_empty_c_str buf) (\<lambda>empty.
                 if empty then Inr s
                 else rbind (memcpy_from buf 0 (unat (mi_len msg))) (\<lambda>bs.
                      Inr (log_action (UvWrite h bs) s)))))"

definition timer_cb :: "tcp_server \<Rightarrow> tcp_server res" where
  "timer_cb s =
     (let (msg, s1) = GetSendMessage s
      in rbind (case msg of None \<Rightarrow> Inr s1 | Some m \<Rightarrow> send_one m s1) (\<lambda>s2.
           if ts_status s2 = CLOSE then Inr (log_action UvStop s2)
           else Inr (log_action UvTimerStart s2)))"

definition SetStatus :: "STATUS \<Rightarrow> tcp_server \<Rightarrow> tcp_server" where
  "SetStatus st s = s\<lparr>ts_status := st\<rparr>"

text \<open>\<open>Close\<close> sets the status and then waits for the thread.\<close>

definition Close :: "tcp_server \<Rightarrow> tcp_server" where
  "Close s = SetStatus CLOSE s"

text \<open>
  The thread function up to \<open>uv_run\<close>, with the results of the calls it makes: the code it
  returns when a call fails, \<open>None\<close> when it enters the loop.
\<close>

definition Start :: "int \<Rightarrow> int \<Rightarrow> int \<Rightarrow> int \<Rightarrow> int \<Rightarrow> int \<Rightarrow> tcp_server \<Rightarrow> (int option \<times> tcp_server) res" where
  "Start r_ip r_tcp r_bind r_listen r_timer r_start s =
     rbind (c_strlen (ts_ip s)) (\<lambda>_.
       if r_ip \<noteq> 0 then Inr (Some 1, s)
       else if r_tcp \<noteq> 0 then Inr (Some r_tcp, s)
       else if r_bind \<noteq> 0 then Inr (Some r_bind, s)
       else if r_listen \<noteq> 0 then Inr (Some r_listen, s)
       else if r_timer \<noteq> 0 then Inr (Some r_timer, s)
       else let s1 = log_action UvTimerStart s
            in if r_start \<noteq> 0 then Inr (Some r_start, s1)
               else Inr (None, if ts_status s1 = NONE then SetStatus RUNING s1 else s1))"

subsection \<open>The server as a state machine\<close>

text \<open>
  What can happen to a running server: the callbacks of the loop and the calls of the logic
  thread.
\<close>

datatype srv_event =
    Ev_connect int "handle option" int int int
  | Ev_read handle int "byte list"
  | Ev_shutdown_done handle
  | Ev_timer
  | Ev_push u32 "byte list option" u32
  | Ev_get
  | Ev_close

fun srv_step :: "srv_event \<Rightarrow> tcp_server \<Rightarrow> tcp_server res" where
  "srv_step (Ev_connect status stream r1 r2 r3) s = Inr (on_connection status stream r1 r2 r3 s)"
| "srv_step (Ev_read h nread buf) s = after_read h nread buf s"
| "srv_step (Ev_shutdown_done h) s = Inr (after_shutdown h s)"
| "srv_step Ev_timer s = timer_cb s"
| "srv_step (Ev_push conn buf n) s = Inr (PushSendMessage conn buf n s)"
| "srv_step Ev_get s = Inr (snd (GetRecvMessage s))"
| "srv_step Ev_close s = Inr (Close s)"

subsection \<open>Conservation of connection ids\<close>

definition online_ids :: "tcp_server \<Rightarrow> u32 set" where
  "online_ids s = fst ` set (m_OnlineID s)"

lemma online_ids_simps [simp]:
  "online_ids (s\<lparr>m_ConnectionID := a\<rparr>) = online_ids s"
  "online_ids (s\<lparr>m_MaxConnectionID := b\<rparr>) = online_ids s"
  "online_ids (s\<lparr>m_OnlineStream := c\<rparr>) = online_ids s"
  "online_ids (s\<lparr>m_SendMessage := d\<rparr>) = online_ids s"
  "online_ids (s\<lparr>ts_status := st\<rparr>) = online_ids s"
  "online_ids (AddConnection i h s) = insert i (online_ids s)"
  by (auto simp: online_ids_def AddConnection_def dom_update)

lemma AddConnection_simps [simp]:
  "m_OnlineID (AddConnection i h s) = AList.update i h (m_OnlineID s)"
  "m_OnlineStream (AddConnection i h s) = AList.update h i (m_OnlineStream s)"
  "m_ConnectionID (AddConnection i h s) = m_ConnectionID s"
  "m_MaxConnectionID (AddConnection i h s) = m_MaxConnectionID s"
  "m_SendMessage (AddConnection i h s) = m_SendMessage s"
  "m_RecvMessage (AddConnection i h s) = m_RecvMessage s"
  "ts_log (AddConnection i h s) = ts_log s"
  by (simp_all add: AddConnection_def)

text \<open>
  The ids from one to the largest one handed out are split between the free list and the online
  table; nothing is lost and nothing is in both.
\<close>

definition ids_ok :: "nat \<Rightarrow> tcp_server \<Rightarrow> bool" where
  "ids_ok n s \<longleftrightarrow>
     distinct (map fst (m_OnlineID s)) \<and> distinct (m_ConnectionID s)
     \<and> set (m_ConnectionID s) \<inter> online_ids s = {}
     \<and> set (m_ConnectionID s) \<union> online_ids s = {i. 1 \<le> unat i \<and> unat i \<le> unat (m_MaxConnectionID s)}
     \<and> unat (m_MaxConnectionID s) \<le> n"

lemma ids_ok_Suc: "ids_ok n s \<Longrightarrow> ids_ok (Suc n) s"
  by (auto simp: ids_ok_def)

lemma fst_set_delete: "fst ` set (AList.delete k al) = fst ` set al - {k}"
  by (auto simp: AList.delete_eq)

lemma ids_ok_mono: "ids_ok n s \<Longrightarrow> n \<le> m \<Longrightarrow> ids_ok m s"
  by (auto simp: ids_ok_def)

text \<open>Operations that leave the id tables alone.\<close>

lemma ids_ok_frame:
  "m_OnlineID s' = m_OnlineID s \<Longrightarrow> m_ConnectionID s' = m_ConnectionID s \<Longrightarrow>
   m_MaxConnectionID s' = m_MaxConnectionID s \<Longrightarrow> ids_ok n s' = ids_ok n s"
  by (simp add: ids_ok_def online_ids_def)

lemma log_action_simps [simp]:
  "m_OnlineID (log_action a s) = m_OnlineID s" "m_OnlineStream (log_action a s) = m_OnlineStream s"
  "m_ConnectionID (log_action a s) = m_ConnectionID s"
  "m_MaxConnectionID (log_action a s) = m_MaxConnectionID s"
  "m_SendMessage (log_action a s) = m_SendMessage s"
  "m_RecvMessage (log_action a s) = m_RecvMessage s"
  "ts_status (log_action a s) = ts_status s" "ts_log (log_action a s) = ts_log s @ [a]"
  by (simp_all add: log_action_def)

lemma PushRecv_ids [simp]:
  "m_OnlineID (PushRecvMessage h buf n s) = m_OnlineID s"
  "m_ConnectionID (PushRecvMessage h buf n s) = m_ConnectionID s"
  "m_MaxConnectionID (PushRecvMessage h buf n s) = m_MaxConnectionID s"
  by (simp_all add: PushRecvMessage_def stream_subscript_def split: prod.split option.split)

lemma GetSend_ids:
  assumes "GetSendMessage s = (m, s')"
  shows "m_OnlineID s' = m_OnlineID s" "m_OnlineStream s' = m_OnlineStream s"
    "m_ConnectionID s' = m_ConnectionID s" "m_MaxConnectionID s' = m_MaxConnectionID s"
  using assms by (auto simp: GetSendMessage_def split: option.splits)

lemma GetRecv_ids:
  "m_OnlineID (snd (GetRecvMessage s)) = m_OnlineID s"
  "m_OnlineStream (snd (GetRecvMessage s)) = m_OnlineStream s"
  "m_ConnectionID (snd (GetRecvMessage s)) = m_ConnectionID s"
  "m_MaxConnectionID (snd (GetRecvMessage s)) = m_MaxConnectionID s"
  by (auto simp: GetRecvMessage_def split: option.splits)

lemma send_one_ids:
  assumes "send_one m s = Inr s'"
  shows "m_OnlineID s' = m_OnlineID s" "m_OnlineStream s' = m_OnlineStream s"
    "m_ConnectionID s' = m_ConnectionID s" "m_MaxConnectionID s' = m_MaxConnectionID s"
    "m_SendMessage s' = m_SendMessage s" "ts_status s' = ts_status s"
  using assms
  by (auto simp: send_one_def rbind_Inr_iff split: option.splits if_splits)

lemma timer_cb_ids:
  assumes "timer_cb s = Inr s'"
  shows "m_OnlineID s' = m_OnlineID s" "m_OnlineStream s' = m_OnlineStream s"
    "m_ConnectionID s' = m_ConnectionID s" "m_MaxConnectionID s' = m_MaxConnectionID s"
  using assms
  by (auto simp: timer_cb_def rbind_Inr_iff Let_def GetSend_ids send_one_ids
      split: prod.splits option.splits if_splits)

lemma unat_succ: "unat (w :: u32) < 2 ^ 32 - 1 \<Longrightarrow> unat (w + 1) = unat w + 1"
  by (simp add: unat_word_ariths)

lemma GetConnectionID_ok:
  assumes "ids_ok n s" and "n < 2 ^ 32 - 1" and "GetConnectionID s = (cid, s')"
  shows "cid \<notin> online_ids s" and "m_OnlineID s' = m_OnlineID s"
    and "m_OnlineStream s' = m_OnlineStream s"
    and "ids_ok (Suc n) (AddConnection cid h s')"
proof -
  have "cid \<notin> online_ids s \<and> m_OnlineID s' = m_OnlineID s \<and> m_OnlineStream s' = m_OnlineStream s
      \<and> ids_ok (Suc n) (AddConnection cid h s')"
  proof (cases "m_ConnectionID s")
    case Nil
    let ?max = "m_MaxConnectionID s"
    have max: "unat (?max + 1) = unat ?max + 1"
      using assms(1,2) by (intro unat_succ) (auto simp: ids_ok_def)
    have new: "{i :: u32. 1 \<le> unat i \<and> unat i \<le> unat (?max + 1)} =
        insert (?max + 1) {i. 1 \<le> unat i \<and> unat i \<le> unat ?max}"
      using max by (auto simp: le_Suc_eq word_unat_eq_iff)
    have split: "online_ids s = {i. 1 \<le> unat i \<and> unat i \<le> unat ?max}" "unat ?max \<le> n"
      "distinct (map fst (m_OnlineID s))"
      using assms(1) Nil by (simp_all add: ids_ok_def)
    have s': "cid = ?max + 1" "s' = s\<lparr>m_MaxConnectionID := ?max + 1\<rparr>"
      using assms(3) Nil by (auto simp: GetConnectionID_def)
    have "cid \<notin> online_ids s"
      using split(1) max s'(1) by simp
    moreover have "ids_ok (Suc n) (AddConnection cid h s')"
      using split max new s' Nil
      by (simp add: ids_ok_def distinct_update)
    ultimately show ?thesis by (simp add: s')
  next
    case (Cons i ids)
    have s': "cid = i" "s' = s\<lparr>m_ConnectionID := ids\<rparr>"
      using assms(3) Cons by (auto simp: GetConnectionID_def)
    have "ids_ok (Suc n) (AddConnection cid h s')"
      using assms(1) Cons s'
      by (simp add: ids_ok_def distinct_update)
    then show ?thesis
      using assms(1) Cons s' by (auto simp: ids_ok_def)
  qed
  then show "cid \<notin> online_ids s" "m_OnlineID s' = m_OnlineID s"
    "m_OnlineStream s' = m_OnlineStream s" "ids_ok (Suc n) (AddConnection cid h s')"
    by blast+
qed

lemma first_id_Some: "first_id h al = Some cid \<Longrightarrow> (cid, h) \<in> set al"
  by (induction h al rule: first_id.induct) (auto split: if_splits)

lemma first_id_None: "first_id h al = None \<longleftrightarrow> h \<notin> snd ` set al"
  by (induction h al rule: first_id.induct) auto

lemma ReleaseConnection_ok: "ids_ok n s \<Longrightarrow> ids_ok n (ReleaseConnection h s)"
proof (cases "first_id h (m_OnlineID s)")
  case None
  then show "ids_ok n s \<Longrightarrow> ?thesis"
    by (simp add: ReleaseConnection_def ids_ok_def online_ids_def)
next
  case (Some cid)
  then have "cid \<in> online_ids s"
    by (force simp: online_ids_def dest: first_id_Some)
  with Some show "ids_ok n s \<Longrightarrow> ?thesis"
    by (auto simp: ReleaseConnection_def ids_ok_def online_ids_def distinct_delete
        fst_set_delete)
qed

definition srv_init :: "tcp_server \<Rightarrow> bool" where
  "srv_init s \<longleftrightarrow> (\<exists>ip port. TCPServer_new ip port = Inr s)"

lemma srv_init_empty:
  "srv_init s \<Longrightarrow> m_OnlineID s = [] \<and> m_OnlineStream s = [] \<and> m_ConnectionID s = []
     \<and> m_MaxConnectionID s = 0 \<and> m_SendMessage s = [] \<and> m_RecvMessage s = [] \<and> ts_log s = []"
  by (auto simp: srv_init_def TCPServer_new_def rbind_Inr_iff split: if_splits)

lemma srv_event_ids:
  assumes "ids_ok n s" and "n < 2 ^ 32 - 1" and "srv_step e s = Inr s'"
  shows "ids_ok (Suc n) s'"
proof (cases e)
  case (Ev_connect status stream r1 r2 r3)
  with assms show ?thesis
    by (auto simp: on_connection_def intro: ids_ok_Suc GetConnectionID_ok(4)
        split: if_splits option.splits prod.splits)
next
  case (Ev_read h nread buf)
  have "ids_ok n (log_action a (PushRecvMessage h b k s)) = ids_ok n s"
    "ids_ok n (PushRecvMessage h b k s) = ids_ok n s"
    "ids_ok n (PushRecvMessage h b k (log_action a s)) = ids_ok n s" for a b k
    by (rule ids_ok_frame; simp)+
  with Ev_read assms have "ids_ok n s'"
    by (auto simp: after_read_def Let_def rbind_Inr_iff ReleaseConnection_ok split: if_splits)
  then show ?thesis by (rule ids_ok_mono) simp
next
  case Ev_timer
  with assms have "ids_ok n s' = ids_ok n s"
    by (intro ids_ok_frame) (auto simp: timer_cb_ids)
  with assms(1) show ?thesis by (auto intro: ids_ok_mono)
next
  case (Ev_push conn buf k)
  with assms have "ids_ok n s' = ids_ok n s"
    by (intro ids_ok_frame) (auto simp: PushSendMessage_def)
  with assms(1) show ?thesis by (simp add: ids_ok_Suc)
next
  case Ev_get
  with assms have "ids_ok n s' = ids_ok n s"
    by (intro ids_ok_frame) (auto simp: GetRecv_ids)
  with assms(1) show ?thesis by (simp add: ids_ok_Suc)
next
  case Ev_close
  with assms have "ids_ok n s' = ids_ok n s"
    by (intro ids_ok_frame) (auto simp: Close_def SetStatus_def)
  with assms(1) show ?thesis by (simp add: ids_ok_Suc)
next
  case (Ev_shutdown_done h)
  with assms have "ids_ok n s' = ids_ok n s"
    by (intro ids_ok_frame) (auto simp: after_shutdown_def)
  with assms(1) show ?thesis by (simp add: ids_ok_Suc)
qed

interpretation srv_ids: counted_event_system srv_init srv_step ids_ok "2 ^ 32 - 1"
proof
  show "ids_ok 0 s" if "srv_init s" for s
  proof -
    have none: "{i :: u32. 1 \<le> unat i \<and> unat i \<le> 0} = {}" by auto
    from srv_init_empty [OF that] show ?thesis
      by (simp add: ids_ok_def online_ids_def none)
  qed
  show "ids_ok (Suc n) s'" if "ids_ok n s" "n < 2 ^ 32 - 1" "srv_step e s = Inr s'" for n s e s'
    using that by (rule srv_event_ids)
qed

subsection \<open>The two tables agree\<close>

definition srv_linked :: "tcp_server \<Rightarrow> bool" where
  "srv_linked s \<longleftrightarrow>
     (\<forall>c h. map_of (m_OnlineID s) c = Some h \<longrightarrow> map_of (m_OnlineStream s) h = Some c)
     \<and> distinct (map fst (m_OnlineID s))"

lemma map_of_AList_update: "map_of (AList.update k v al) = (map_of al)(k \<mapsto> v)"
  by (simp add: update_conv')

lemma map_of_AList_delete: "map_of (AList.delete k al) = (map_of al)(k := None)"
  by (simp add: delete_conv')

lemmas alist_simps = map_of_AList_update map_of_AList_delete distinct_update distinct_delete

lemma linked_frame:
  "m_OnlineID s' = m_OnlineID s \<Longrightarrow> m_OnlineStream s' = m_OnlineStream s \<Longrightarrow>
     srv_linked s' = srv_linked s"
  by (simp add: srv_linked_def)

lemma linked_inj:
  assumes "srv_linked s" and "map_of (m_OnlineID s) c = Some h" and "map_of (m_OnlineID s) d = Some h"
  shows "c = d"
  using assms unfolding srv_linked_def by (metis option.inject)

lemma linked_stream:
  "srv_linked s \<Longrightarrow> map_of (m_OnlineID s) c = Some h \<Longrightarrow> map_of (m_OnlineStream s) h = Some c"
  unfolding srv_linked_def by blast

lemma first_id_map_of:
  assumes "distinct (map fst al)" and "first_id h al = Some c"
  shows "map_of al c = Some h"
  using assms by (simp add: first_id_Some)

lemma linked_first_id:
  assumes "srv_linked s" and "map_of (m_OnlineID s) c = Some h"
  shows "first_id h (m_OnlineID s) = Some c"
proof (cases "first_id h (m_OnlineID s)")
  case None
  with assms(2) show ?thesis by (force simp: first_id_None dest: map_of_SomeD)
next
  case (Some d)
  then have "map_of (m_OnlineID s) d = Some h"
    using assms(1) by (intro first_id_map_of) (auto simp: srv_linked_def)
  with Some assms show ?thesis by (auto dest: linked_inj)
qed

lemma linked_add:
  assumes "srv_linked s" and "h \<notin> snd ` set (m_OnlineID s)"
  shows "srv_linked (AddConnection c h s)"
proof -
  have "map_of (m_OnlineID s) d \<noteq> Some h" for d
    using assms(2) by (force dest: map_of_SomeD)
  with assms(1) show ?thesis by (auto simp: srv_linked_def alist_simps)
qed

lemma linked_release:
  assumes "srv_linked s"
  shows "srv_linked (ReleaseConnection h s)"
proof (cases "first_id h (m_OnlineID s)")
  case None
  then have "map_of (m_OnlineID s) d \<noteq> Some h" for d
    by (force simp: first_id_None dest: map_of_SomeD)
  with None assms show ?thesis by (auto simp: srv_linked_def ReleaseConnection_def alist_simps)
next
  case (Some c)
  then have c: "map_of (m_OnlineID s) c = Some h"
    using assms by (intro first_id_map_of) (auto simp: srv_linked_def)
  have "map_of (m_OnlineID s) d = Some h \<Longrightarrow> d = c" for d
    using linked_inj [OF assms _ c] .
  with Some assms show ?thesis
    by (auto simp: srv_linked_def ReleaseConnection_def alist_simps)
qed

lemma PushRecv_linked:
  assumes "srv_linked s"
  shows "srv_linked (PushRecvMessage h buf n s)"
  using assms
  by (auto simp: srv_linked_def PushRecvMessage_def stream_subscript_def alist_simps
      split: option.splits)

lemma PushRecv_known:
  assumes "srv_linked s" and "map_of (m_OnlineID s) c = Some h"
  shows "PushRecvMessage h buf n s =
     s\<lparr>m_RecvMessage := m_RecvMessage s @ [\<lparr>mi_conn = c, mi_buf = buf, mi_len = n\<rparr>]\<rparr>"
  using assms by (simp add: srv_linked_def PushRecvMessage_def stream_subscript_def queue_push_def)

lemma linked_get: "srv_linked s \<Longrightarrow> GetConnectionID s = (c, t) \<Longrightarrow> srv_linked t \<and> m_OnlineID t = m_OnlineID s"
  by (auto simp: GetConnectionID_def srv_linked_def split: list.splits)

text \<open>
  The events that touch neither table: all but a connection that is accepted and a read.
\<close>

fun tables_event :: "srv_event \<Rightarrow> bool" where
  "tables_event (Ev_connect st h r1 r2 r3) = True"
| "tables_event (Ev_read h n buf) = True"
| "tables_event e = False"

lemma srv_step_tables:
  assumes "srv_step e s = Inr s'" and "\<not> tables_event e"
  shows "m_OnlineID s' = m_OnlineID s" and "m_OnlineStream s' = m_OnlineStream s"
  using assms
  by (cases e; auto simp: timer_cb_ids PushSendMessage_def GetRecv_ids Close_def SetStatus_def
      after_shutdown_def)+

lemma after_read_cases:
  assumes "after_read h nread buf s = Inr s'"
  shows "nread < 0 \<and> s' = ReleaseConnection h (PushRecvMessage h None 0
        (if nread = UV_EOF \<or> nread = UV_ECONNRESET then s else log_action (UvShutdown h) s))
    \<or> 0 \<le> nread \<and> (\<exists>b k. s' = PushRecvMessage h b k s) \<or> 0 \<le> nread \<and> s' = s"
proof (cases "nread < 0")
  case True
  then show ?thesis using assms by (simp add: after_read_def Let_def split: if_splits)
next
  case False
  then show ?thesis using assms by (auto simp: after_read_def rbind_Inr_iff split: if_splits)
qed

lemma on_connection_cases:
  assumes "on_connection status stream r1 r2 r3 s = s'"
  shows "s' = s \<and> \<not> (status = 0 \<and> stream \<noteq> None \<and> r1 = 0 \<and> r2 = 0 \<and> r3 = 0)
    \<or> (\<exists>d t g. status = 0 \<and> stream = Some g \<and> r1 = 0 \<and> r2 = 0 \<and> r3 = 0
               \<and> GetConnectionID s = (d, t) \<and> s' = AddConnection d g t)"
  using assms by (auto simp: on_connection_def split: option.splits if_splits prod.splits)

text \<open>
  A connection that is accepted on a stream of its own keeps the link; any other event does as well.
\<close>

lemma srv_step_linked:
  assumes "srv_linked s" and "srv_step e s = Inr s'"
    and "\<And>st h r1 r2 r3. e = Ev_connect st (Some h) r1 r2 r3 \<Longrightarrow> st = 0 \<Longrightarrow> h \<notin> snd ` set (m_OnlineID s)"
  shows "srv_linked s'"
proof (cases "tables_event e")
  case False
  then show ?thesis using assms(1) srv_step_tables [OF assms(2)] by (simp add: srv_linked_def)
next
  case True
  then consider (connect) st h r1 r2 r3 where "e = Ev_connect st h r1 r2 r3"
    | (read) h n buf where "e = Ev_read h n buf"
    by (cases e) auto
  then show ?thesis
  proof cases
    case connect
    then have "on_connection st h r1 r2 r3 s = s'" using assms(2) by simp
    from on_connection_cases [OF this] show ?thesis
    proof (elim disjE exE conjE)
      fix d t g
      assume "st = 0" "h = Some g" "GetConnectionID s = (d, t)" and s': "s' = AddConnection d g t"
      then have "srv_linked t" "g \<notin> snd ` set (m_OnlineID t)"
        using linked_get [OF assms(1)] assms(3) connect by auto
      then show ?thesis unfolding s' by (rule linked_add)
    qed (use assms(1) in simp)
  next
    case read
    have "srv_linked (log_action (UvShutdown h) s)"
      using assms(1) by (simp add: srv_linked_def)
    moreover have "after_read h n buf s = Inr s'" using read assms(2) by simp
    ultimately show ?thesis
      using after_read_cases assms(1) by (fastforce intro: linked_release PushRecv_linked split: if_splits)
  qed
qed

subsection \<open>A stream leads back to its number\<close>

text \<open>
  A stream is filed under no number but its own, or under zero when it is not known any more. No
  condition on what \<open>malloc\<close> returns is needed for this half of the agreement.
\<close>

definition streams_exact :: "tcp_server \<Rightarrow> bool" where
  "streams_exact s \<longleftrightarrow>
     (\<forall>h c. map_of (m_OnlineStream s) h = Some c \<longrightarrow> c = 0 \<or> map_of (m_OnlineID s) c = Some h)"

lemma exact_frame:
  "m_OnlineID t = m_OnlineID s \<Longrightarrow> m_OnlineStream t = m_OnlineStream s \<Longrightarrow> streams_exact t = streams_exact s"
  by (simp add: streams_exact_def)

lemma exact_push: "streams_exact s \<Longrightarrow> streams_exact (PushRecvMessage h b k s)"
  by (auto simp: streams_exact_def PushRecvMessage_def stream_subscript_def alist_simps
      split: option.splits if_splits)

lemma exact_release:
  assumes "streams_exact s" and "distinct (map fst (m_OnlineID s))"
  shows "streams_exact (ReleaseConnection h s)"
proof (cases "first_id h (m_OnlineID s)")
  case None
  then show ?thesis
    using assms(1) by (auto simp: streams_exact_def ReleaseConnection_def alist_simps)
next
  case (Some d)
  then have "map_of (m_OnlineID s) d = Some h"
    by (intro first_id_map_of assms(2))
  then show ?thesis
    using assms(1) Some by (fastforce simp: streams_exact_def ReleaseConnection_def alist_simps)
qed

lemma exact_add:
  assumes "streams_exact s" and "d \<notin> online_ids s"
  shows "streams_exact (AddConnection d g s)"
proof -
  have "map_of (m_OnlineID s) d = None"
    using assms(2) by (simp add: online_ids_def map_of_eq_None_iff)
  then show ?thesis
    using assms(1) by (fastforce simp: streams_exact_def alist_simps)
qed

lemma exact_step:
  assumes "streams_exact s" and "ids_ok n s" and "n < 2 ^ 32 - 1" and "srv_step e s = Inr s'"
  shows "streams_exact s'"
proof (cases "tables_event e")
  case False
  then show ?thesis using assms(1) exact_frame srv_step_tables [OF assms(4)] by blast
next
  case True
  then consider (connect) st h r1 r2 r3 where "e = Ev_connect st h r1 r2 r3"
    | (read) h k buf where "e = Ev_read h k buf"
    by (cases e) auto
  then show ?thesis
  proof cases
    case connect
    then have "on_connection st h r1 r2 r3 s = s'" using assms(4) by simp
    from on_connection_cases [OF this] show ?thesis
    proof (elim disjE exE conjE)
      fix d t g
      assume get: "GetConnectionID s = (d, t)" and s': "s' = AddConnection d g t"
      note new = GetConnectionID_ok(1-3) [OF assms(2,3) get]
      have "streams_exact t" using assms(1) exact_frame [OF new(2,3)] by simp
      then show ?thesis
        unfolding s' by (rule exact_add) (use new in \<open>simp add: online_ids_def\<close>)
    qed (use assms(1) in simp)
  next
    case read
    let ?t = "if k = UV_EOF \<or> k = UV_ECONNRESET then s else log_action (UvShutdown h) s"
    have "distinct (map fst (m_OnlineID s))" using assms(2) by (simp add: ids_ok_def)
    then have eof: "streams_exact (ReleaseConnection h (PushRecvMessage h None 0 ?t))"
      using assms(1) by (intro exact_release exact_push) (simp_all add: streams_exact_def)
    have "after_read h k buf s = Inr s'" using read assms(4) by simp
    from after_read_cases [OF this] show ?thesis
      by (elim disjE exE conjE) (simp_all only: eof exact_push [OF assms(1)] assms(1))
  qed
qed

definition server_ok :: "nat \<Rightarrow> tcp_server \<Rightarrow> bool" where
  "server_ok n s \<longleftrightarrow> ids_ok n s \<and> streams_exact s"

interpretation srv_ok: counted_event_system srv_init srv_step server_ok "2 ^ 32 - 1"
proof
  show "server_ok 0 s" if "srv_init s" for s
    using srv_ids.init_inv [OF that] srv_init_empty [OF that] by (simp add: server_ok_def streams_exact_def)
  show "server_ok (Suc n) s'" if "server_ok n s" "n < 2 ^ 32 - 1" "srv_step e s = Inr s'" for n s e s'
    using that srv_event_ids exact_step by (auto simp: server_ok_def)
qed

lemma server_ok_lookup:
  assumes "server_ok n s" and "map_of (m_OnlineStream s) h = Some c" and "c \<noteq> 0"
  shows "map_of (m_OnlineID s) c = Some h"
  using assms by (auto simp: server_ok_def streams_exact_def)

subsection \<open>Reading, disconnecting, sending\<close>

text \<open>What one queued message makes the timer do.\<close>

definition sendable :: "MessageInfo \<Rightarrow> bool" where
  "sendable m \<longleftrightarrow>
     (case mi_buf m of None \<Rightarrow> True | Some buf \<Rightarrow> buf \<noteq> [] \<and> unat (mi_len m) \<le> length buf)"

definition send_effect :: "tcp_server \<Rightarrow> MessageInfo \<Rightarrow> uv_action list" where
  "send_effect s m =
     (case map_of (m_OnlineID s) (mi_conn m) of
        None \<Rightarrow> []
      | Some h \<Rightarrow>
          (case mi_buf m of
             None \<Rightarrow> [UvShutdown h]
           | Some buf \<Rightarrow> if hd buf = 0 then [] else [UvWrite h (take (unat (mi_len m)) buf)]))"

lemma send_one_eq:
  "sendable m \<Longrightarrow> send_one m s = Inr (s\<lparr>ts_log := ts_log s @ send_effect s m\<rparr>)"
  by (auto simp: sendable_def send_one_def send_effect_def is_empty_c_str_def memcpy_from_def
      log_action_def neq_Nil_conv split: option.splits)

lemma GetSend_Cons:
  "m_SendMessage s = m # q \<Longrightarrow> GetSendMessage s = (Some m, s\<lparr>m_SendMessage := q\<rparr>)"
  using lq.pop_oldest [of "m_SendMessage s" m q] by (auto simp: GetSendMessage_def)

lemma timer_cb_Cons:
  assumes "m_SendMessage s = m # q" and "sendable m" and "ts_status s \<noteq> CLOSE"
  shows "timer_cb s = Inr (s\<lparr>m_SendMessage := q,
                             ts_log := ts_log s @ send_effect s m @ [UvTimerStart]\<rparr>)"
proof -
  have "send_effect (s\<lparr>m_SendMessage := q\<rparr>) m = send_effect s m"
    by (simp add: send_effect_def)
  with assms show ?thesis
    by (simp add: timer_cb_def GetSend_Cons send_one_eq log_action_def)
qed

text \<open>As many timer events as there are messages empty the queue, in order.\<close>

lemma timer_drain:
  assumes "m_SendMessage s = ms" and "\<And>m. m \<in> set ms \<Longrightarrow> sendable m" and "ts_status s \<noteq> CLOSE"
  shows "rfold srv_step (replicate (length ms) Ev_timer) s =
    Inr (s\<lparr>m_SendMessage := [],
           ts_log := ts_log s @ concat (map (\<lambda>m. send_effect s m @ [UvTimerStart]) ms)\<rparr>)"
  using assms
proof (induction ms arbitrary: s)
  case Nil
  then show ?case by simp
next
  case (Cons m ms)
  let ?t = "s\<lparr>m_SendMessage := ms, ts_log := ts_log s @ send_effect s m @ [UvTimerStart]\<rparr>"
  have same: "send_effect ?t x = send_effect s x" for x
    by (simp add: send_effect_def)
  have "timer_cb s = Inr ?t"
    using Cons.prems by (intro timer_cb_Cons) auto
  moreover have "rfold srv_step (replicate (length ms) Ev_timer) ?t =
      Inr (?t\<lparr>m_SendMessage := [],
              ts_log := ts_log ?t @ concat (map (\<lambda>m. send_effect ?t m @ [UvTimerStart]) ms)\<rparr>)"
    using Cons.prems by (intro Cons.IH) auto
  ultimately show ?case by (simp add: same)
qed

lemma disconnect_effect:
  assumes "srv_linked s" and "map_of (m_OnlineID s) c = Some h" and "nread < 0"
  shows "\<exists>s'. after_read h nread buf s = Inr s'
    \<and> m_RecvMessage s' = m_RecvMessage s @ [\<lparr>mi_conn = c, mi_buf = None, mi_len = 0\<rparr>]
    \<and> map_of (m_OnlineID s') = (map_of (m_OnlineID s))(c := None)
    \<and> map_of (m_OnlineStream s') = (map_of (m_OnlineStream s))(h := None)
    \<and> m_ConnectionID s' = m_ConnectionID s @ [c]"
proof -
  have "first_id h (m_OnlineID s) = Some c"
    using assms(1,2) by (rule linked_first_id)
  moreover have "srv_linked (log_action (UvShutdown h) s)"
    using assms(1) by (simp add: srv_linked_def)
  ultimately show ?thesis
    using assms
    by (auto simp: after_read_def Let_def PushRecv_known ReleaseConnection_def alist_simps)
qed

end
