(* ===== verification/AppServer.thy ===== *)
theory AppServer
  imports MessageHead Dispatch TcpServer
begin

text \<open>
  The class \<open>AppManager\<close> of the game server (src/Server/Server/AppManager.h, AppManager.cpp and
  AppInitialze.cpp) and the main loop of src/Server/Server/Server.cpp: what arrives from a
  connection is parsed as a frame and dispatched to the handler of its command, what a handler
  sends is framed and queued. The singleton and the dispatcher it uses are explicit state; handlers
  work on an extension of the record of the singleton.
\<close>

subsection \<open>State\<close>

datatype app_status = App_NONE | App_RUNING | App_CLOSED

text \<open>
  \<open>m_EchoServer\<close> has no initial value, so it must not be used before \<open>SetEchoServere\<close>: \<open>None\<close>.
\<close>

record app_manager =
  m_EchoServer :: "tcp_server option"
  am_status :: app_status

definition AppManager_new :: app_manager where
  "AppManager_new = \<lparr>m_EchoServer = None, am_status = App_NONE\<rparr>"

definition SetEchoServere :: "tcp_server \<Rightarrow> 'a app_manager_scheme \<Rightarrow> 'a app_manager_scheme" where
  "SetEchoServere echo a = a\<lparr>m_EchoServer := Some echo\<rparr>"

definition am_SetStatus :: "app_status \<Rightarrow> 'a app_manager_scheme \<Rightarrow> 'a app_manager_scheme" where
  "am_SetStatus st a = a\<lparr>am_status := st\<rparr>"

text \<open>A call of \<open>m_EchoServer->PushSendMessage\<close>.\<close>

definition echo_push ::
  "u32 \<Rightarrow> byte list option \<Rightarrow> u32 \<Rightarrow> 'a app_manager_scheme \<Rightarrow> 'a app_manager_scheme res" where
  "echo_push conn buf n a =
     (case m_EchoServer a of
        None \<Rightarrow> Inl Uninitialised
      | Some srv \<Rightarrow> Inr (a\<lparr>m_EchoServer := Some (PushSendMessage conn buf n srv)\<rparr>))"

subsection \<open>Sending and receiving\<close>

definition SendClient_str ::
  "u32 \<Rightarrow> byte list \<Rightarrow> 'a app_manager_scheme \<Rightarrow> 'a app_manager_scheme res" where
  "SendClient_str conn sendMsg a =
     (let msg = replicate (length sendMsg + 1) 0
      in rbind (memcpy_from (sendMsg @ [0]) 0 (length sendMsg)) (\<lambda>bs.
         rbind (memcpy_to msg 0 bs) (\<lambda>msg'.
           echo_push conn (Some msg') (word_of_nat (length sendMsg)) a)))"

text \<open>
  \<open>ptrMsg\<close> is what \<open>SerializeAsString\<close> returns for the message, \<open>None\<close> for a null pointer. The
  length is cut to sixteen bits by the call of \<open>Pack\<close>, and so is the command.
\<close>

definition SendClient ::
  "u32 \<Rightarrow> u32 \<Rightarrow> byte list option \<Rightarrow> 'a app_manager_scheme \<Rightarrow> 'a app_manager_scheme res" where
  "SendClient conn cmd ptrMsg a =
     (let oBody = (case ptrMsg of None \<Rightarrow> [] | Some body \<Rightarrow> body)
      in rbind (MH_Pack (oBody @ [0]) (word_of_nat (length oBody)) (ucast cmd) MessageHead_new)
           (\<lambda>(msg, head). echo_push conn (Some msg) (ucast (mh_len head)) a))"

definition UserLoginOut :: "u32 \<Rightarrow> 'a app_manager_scheme \<Rightarrow> 'a app_manager_scheme" where
  "UserLoginOut conn a = a"

text \<open>
  The 32-bit length is cut to sixteen bits by the call of \<open>Parse\<close>; the body reaches the handler as
  a \<open>std::string\<close> made from a \<open>char*\<close>, so up to its first zero byte.
\<close>

definition RecivedMessage ::
  "u32 \<Rightarrow> byte list option \<Rightarrow> u32 \<Rightarrow> 'a app_manager_scheme dispatcher \<times> 'a app_manager_scheme
   \<Rightarrow> ('a app_manager_scheme dispatcher \<times> 'a app_manager_scheme) res" where
  "RecivedMessage conn buf n = (\<lambda>(m, a).
     case buf of
       None \<Rightarrow> Inr (m, UserLoginOut conn a)
     | Some bytes \<Rightarrow>
         if n = 0 then Inr (m, UserLoginOut conn a)
         else rbind (Parse bytes (ucast n) MessageHead_new) (\<lambda>(ok, head).
           if \<not> ok then Inr (m, a)
           else (case mh_body head of
                   None \<Rightarrow> Inl OutOfBounds
                 | Some body \<Rightarrow>
                     rbind (c_strlen body) (\<lambda>_.
                     rbind (DispatchMessageHandle (uint (mh_cmd head)) (uint (mh_cmd head)) (sint conn)
                              (c_str body) (m, a)) (\<lambda>(_, m', a'). Inr (m', a'))))))"

subsection \<open>Initialisation\<close>

text \<open>
  A member of \<open>m_Demos\<close> is what its \<open>Initialze\<close> does: it may register handlers and reports whether
  it succeeded.
\<close>

type_synonym 'st demo = "'st dispatcher \<Rightarrow> bool \<times> 'st dispatcher"

definition AddDemos :: "'st demo \<Rightarrow> 'st demo list \<Rightarrow> 'st demo list" where
  "AddDemos demos ds = ds @ [demos]"

fun run_demos :: "'st demo list \<Rightarrow> 'st dispatcher \<Rightarrow> bool \<times> 'st dispatcher" where
  "run_demos [] m = (True, m)"
| "run_demos (d # ds) m =
     (let (ok, m') = d m in if \<not> ok then (False, m') else run_demos ds m')"

definition Run ::
  "'a app_manager_scheme demo list \<Rightarrow> 'a app_manager_scheme dispatcher \<times> 'a app_manager_scheme
   \<Rightarrow> bool \<times> 'a app_manager_scheme dispatcher \<times> 'a app_manager_scheme" where
  "Run demos = (\<lambda>(m, a).
     let (ok, m') = run_demos demos m
     in if \<not> ok then (False, m', a) else (True, m', am_SetStatus App_RUNING a))"

text \<open>The observer list of \<open>ServerAppSubject\<close>.\<close>

definition Attach :: "'o \<Rightarrow> 'o list \<Rightarrow> 'o list" where
  "Attach ob l = l @ [ob]"

fun Detach :: "'o \<Rightarrow> 'o list \<Rightarrow> 'o list" where
  "Detach ob [] = []"
| "Detach ob (x # l) = (if x = ob then l else x # Detach ob l)"

subsection \<open>The main loop\<close>

text \<open>One turn of the loop: \<open>None\<close> when the status makes it stop. \<open>OnUpdate\<close> does nothing.\<close>

definition OnUpdate :: "'a app_manager_scheme \<Rightarrow> 'a app_manager_scheme" where
  "OnUpdate a = a"

definition main_turn ::
  "'a app_manager_scheme dispatcher \<times> 'a app_manager_scheme
   \<Rightarrow> ('a app_manager_scheme dispatcher \<times> 'a app_manager_scheme) option res" where
  "main_turn = (\<lambda>(m, a).
     if am_status a = App_CLOSED then Inr None
     else case m_EchoServer a of
       None \<Rightarrow> Inl Uninitialised
     | Some srv \<Rightarrow>
         let (msg, srv') = GetRecvMessage srv;
             a1 = a\<lparr>m_EchoServer := Some srv'\<rparr>
         in case msg of
              None \<Rightarrow> Inr (Some (m, OnUpdate a1))
            | Some info \<Rightarrow>
                rbind (RecivedMessage (mi_conn info) (mi_buf info) (mi_len info) (m, a1))
                  (\<lambda>(m', a'). Inr (Some (m', OnUpdate a'))))"

text \<open>
  The whole server: the callbacks of the network thread and the turns of the main loop, in any
  order.
\<close>

datatype sys_event = Sys_net srv_event | Sys_turn

fun sys_step ::
  "sys_event \<Rightarrow> 'a app_manager_scheme dispatcher \<times> 'a app_manager_scheme
   \<Rightarrow> ('a app_manager_scheme dispatcher \<times> 'a app_manager_scheme) res" where
  "sys_step (Sys_net e) (m, a) =
     (case m_EchoServer a of
        None \<Rightarrow> Inl Uninitialised
      | Some srv \<Rightarrow> rbind (srv_step e srv) (\<lambda>srv'. Inr (m, a\<lparr>m_EchoServer := Some srv'\<rparr>)))"
| "sys_step Sys_turn (m, a) =
     rbind (main_turn (m, a)) (\<lambda>r. case r of None \<Rightarrow> Inr (m, a) | Some (m', a') \<Rightarrow> Inr (m', a'))"

text \<open>
  The start of the program: the demos are initialised, the server is made for the local address and
  port 9999 and handed to the manager. \<open>None\<close> when the initialisation fails.
\<close>

definition local_address :: "byte list" where
  "local_address = [49, 50, 55, 46, 48, 46, 48, 46, 49, 0]"

definition server_start ::
  "'a app_manager_scheme demo list \<Rightarrow> 'a app_manager_scheme dispatcher \<times> 'a app_manager_scheme
   \<Rightarrow> ('a app_manager_scheme dispatcher \<times> 'a app_manager_scheme) option res" where
  "server_start demos w =
     (case Run demos w of
        (False, _) \<Rightarrow> Inr None
      | (True, m, a) \<Rightarrow>
          rbind (TCPServer_new local_address 9999) (\<lambda>srv. Inr (Some (m, SetEchoServere srv a))))"

subsection \<open>What a received frame does\<close>

lemma head_fields:
  "mh_body (h\<lparr>mh_len := l, mh_cmd := c, mh_body := b\<rparr>) = b"
  "mh_cmd (h\<lparr>mh_len := l, mh_cmd := c, mh_body := b\<rparr>) = c"
  "mh_len (h\<lparr>mh_len := l\<rparr>) = l"
  by simp_all

lemma c_strlen_terminated: "\<exists>n. c_strlen (bs @ [0]) = Inr n"
  by (simp add: c_strlen_def)

lemma c_str_terminated: "c_str (bs @ [0]) = c_str bs"
proof (cases "0 \<in> set bs")
  case True
  then show ?thesis by (simp add: c_str_def)
next
  case False
  then have same: "c_str bs = bs"
    unfolding c_str_def by (intro takeWhile_eq_all_conv [THEN iffD2]) auto
  show ?thesis unfolding same by (rule c_str_append_nul [OF False])
qed

lemma ucast_len:
  "n < 65536 \<Longrightarrow> ucast (word_of_nat n :: u32) = (word_of_nat n :: u16)"
  "n < 65536 \<Longrightarrow> ucast (word_of_nat n :: u16) = (word_of_nat n :: u32)"
  by (simp_all add: unsigned_of_nat take_bit_nat_eq_self)

lemma ucast_byte: "ucast (word_of_nat n :: u16) = (word_of_nat n :: byte)"
  by (rule bit_word_eqI) (auto simp: bit_simps bit_of_nat_iff)

lemma unat_len32: "n < 65536 \<Longrightarrow> unat (word_of_nat n :: u32) = n"
  by (simp add: unsigned_of_nat take_bit_nat_eq_self)

lemma received_frame:
  assumes "0 < length body" and "length body \<le> 65531"
  shows "RecivedMessage conn (Some (frame cmd body @ rest)) (word_of_nat (4 + length body)) (m, a) =
    rbind (DispatchMessageHandle (uint cmd) (uint cmd) (sint conn) (c_str body) (m, a))
      (\<lambda>(_, m', a'). Inr (m', a'))"
proof -
  let ?n = "word_of_nat (4 + length body) :: u32"
  have n0: "?n \<noteq> 0"
  proof
    assume "?n = 0"
    then have "unat ?n = 0" by (simp only: unat_0)
    moreover have "unat ?n = 4 + length body"
      using assms(2) by (intro unat_len32) simp
    ultimately show False by simp
  qed
  have cut: "ucast ?n = (word_of_nat (4 + length body) :: u16)"
    using assms(2) by (intro ucast_len) simp
  obtain k where k: "c_strlen (body @ [0]) = Inr k"
    using c_strlen_terminated by blast
  show ?thesis
    unfolding RecivedMessage_def
    by (simp only: prod.case if_not_P [OF n0] cut Parse_frame [OF assms] rbind.simps
        head_fields option.case not_True_eq_False if_False k c_str_terminated)
qed

text \<open>Frames with no body, and the ends of connections, change nothing.\<close>

lemma received_nothing:
  "RecivedMessage conn None n (m, a) = Inr (m, a)"
  "RecivedMessage conn (Some bytes) 0 (m, a) = Inr (m, a)"
  "unat (ucast n :: u16) \<le> 4 \<Longrightarrow> RecivedMessage conn (Some bytes) n (m, a) = Inr (m, a)"
  by (auto simp: RecivedMessage_def UserLoginOut_def Parse_short)

subsection \<open>What sending does\<close>

lemma SendClient_eq:
  assumes "length body \<le> 65531"
  shows "SendClient conn cmd (Some body) a =
    echo_push conn (Some (frame (ucast cmd) body @ [0])) (word_of_nat (4 + length body)) a"
proof -
  have "MH_Pack (body @ [0]) (word_of_nat (length body)) (ucast cmd) MessageHead_new =
      Inr (frame (ucast cmd) body @ [0], MessageHead_new\<lparr>mh_len := word_of_nat (4 + length body)\<rparr>)"
    using assms by (intro MH_Pack_eq) simp_all
  moreover have "ucast (word_of_nat (4 + length body) :: u16) = (word_of_nat (4 + length body) :: u32)"
    using assms by (intro ucast_len) simp
  ultimately show ?thesis
    by (simp only: SendClient_def Let_def option.case rbind.simps prod.case head_fields)
qed

lemma le_bytes_Suc_hd: "hd (le_bytes (Suc n) w @ bs) = ucast w"
  by simp

lemma frame_first: "hd (frame cmd body @ rest) = word_of_nat (4 + length body)"
proof -
  have "hd (frame cmd body @ rest) = ucast (word_of_nat (4 + length body) :: u16)"
    unfolding frame_def append_assoc numeral_2_eq_2 by (rule le_bytes_Suc_hd)
  also have "\<dots> = word_of_nat (4 + length body)"
    by (rule ucast_byte)
  finally show ?thesis .
qed

lemma first_byte_zero: "(word_of_nat n :: byte) = 0 \<longleftrightarrow> n mod 256 = 0"
proof -
  have "(word_of_nat n :: byte) = 0 \<longleftrightarrow> unat (word_of_nat n :: byte) = 0"
    by (simp add: unsigned_eq_0_iff)
  also have "\<dots> \<longleftrightarrow> n mod 256 = 0"
    by (simp add: unsigned_of_nat take_bit_eq_mod)
  finally show ?thesis .
qed

text \<open>
  What the timer puts on the wire for a message that \<open>SendClient\<close> framed: the frame, unless the low
  byte of its length is zero.
\<close>

definition written :: "handle \<Rightarrow> u16 \<Rightarrow> byte list \<Rightarrow> uv_action list" where
  "written h cmd body = (if (4 + length body) mod 256 = 0 then [] else [UvWrite h (frame cmd body)])"

definition framed_message :: "u32 \<Rightarrow> u16 \<Rightarrow> byte list \<Rightarrow> MessageInfo" where
  "framed_message conn cmd body =
     \<lparr>mi_conn = conn, mi_buf = Some (frame cmd body @ [0]), mi_len = word_of_nat (4 + length body)\<rparr>"

lemma SendClient_push:
  assumes "length body \<le> 65531" and "m_EchoServer a = Some srv"
  shows "SendClient conn cmd (Some body) a =
    Inr (a\<lparr>m_EchoServer := Some (srv\<lparr>m_SendMessage :=
      m_SendMessage srv @ [framed_message conn (ucast cmd) body]\<rparr>)\<rparr>)"
  using assms
  by (simp only: SendClient_eq echo_push_def option.case PushSendMessage_def queue_push_def
      framed_message_def)

lemma framed_sendable:
  assumes "length body \<le> 65531"
  shows "sendable (framed_message conn cmd body)"
proof -
  have "unat (word_of_nat (4 + length body) :: u32) = 4 + length body"
    using assms by (intro unat_len32) simp
  moreover have "frame cmd body @ [0] \<noteq> []" by simp
  ultimately show ?thesis
    by (simp only: sendable_def framed_message_def MessageInfo.simps option.case) simp
qed

lemma framed_effect:
  assumes "length body \<le> 65531" and "map_of (m_OnlineID s) conn = Some h"
  shows "send_effect s (framed_message conn cmd body) = written h cmd body"
proof -
  have n: "unat (word_of_nat (4 + length body) :: u32) = 4 + length body"
    using assms by (intro unat_len32) simp
  have t: "take (4 + length body) (frame cmd body @ [0]) = frame cmd body"
    by simp
  have z: "hd (frame cmd body @ [0]) = 0 \<longleftrightarrow> (4 + length body) mod 256 = 0"
    unfolding frame_first by (rule first_byte_zero)
  show ?thesis
    by (simp only: send_effect_def framed_message_def MessageInfo.simps assms(2) option.case z n t
        written_def)
qed

subsection \<open>A request and its reply\<close>

lemma read_known:
  assumes "srv_linked s" and "map_of (m_OnlineID s) c = Some h" and "0 < n" and "0 \<in> set buf"
  shows "srv_step (Ev_read h (int n) buf) s =
    Inr (s\<lparr>m_RecvMessage := m_RecvMessage s @ [\<lparr>mi_conn = c, mi_buf = Some buf, mi_len = word_of_nat n\<rparr>]\<rparr>)"
  using assms by (simp add: after_read_def c_strlen_def PushRecv_known)

lemma turn_message:
  assumes "am_status a \<noteq> App_CLOSED" and "m_EchoServer a = Some srv"
    and "m_RecvMessage srv = info # q"
    and "RecivedMessage (mi_conn info) (mi_buf info) (mi_len info)
           (m, a\<lparr>m_EchoServer := Some (srv\<lparr>m_RecvMessage := q\<rparr>)\<rparr>) = Inr (m', a')"
  shows "sys_step Sys_turn (m, a) = Inr (m', a')"
  using assms by (simp add: main_turn_def GetRecvMessage_def OnUpdate_def)

lemma request_reply:
  assumes "srv_linked srv" and "map_of (m_OnlineID srv) conn = Some h"
    and "m_RecvMessage srv = []" and "m_SendMessage srv = []" and "ts_status srv \<noteq> CLOSE"
    and "am_status a \<noteq> App_CLOSED" and "m_EchoServer a = Some srv"
    and "0 < length req" and "length req \<le> 65531" and "0 \<in> set (frame cmd req @ rest)"
    and "handler_of m (uint cmd) = Some f"
    and "f (uint cmd) (sint conn) (c_str req) a = SendClient conn rcmd (Some reply) a"
    and "length reply \<le> 65531"
  shows "rfold sys_step
      [Sys_net (Ev_read h (int (4 + length req)) (frame cmd req @ rest)), Sys_turn, Sys_net Ev_timer]
      (m, a) =
    Inr (m, a\<lparr>m_EchoServer := Some (srv\<lparr>ts_log := ts_log srv
            @ written h (ucast rcmd) reply @ [UvTimerStart]\<rparr>)\<rparr>)"
proof -
  let ?n = "4 + length req" and ?buf = "frame cmd req @ rest"
  let ?info = "\<lparr>mi_conn = conn, mi_buf = Some ?buf, mi_len = word_of_nat ?n\<rparr>"
  let ?reply = "framed_message conn (ucast rcmd) reply"
  let ?srv1 = "srv\<lparr>m_RecvMessage := [?info]\<rparr>" and ?srv2 = "srv\<lparr>m_SendMessage := [?reply]\<rparr>"
  let ?srv3 = "srv\<lparr>ts_log := ts_log srv @ written h (ucast rcmd) reply @ [UvTimerStart]\<rparr>"
  let ?at = "\<lambda>s. a\<lparr>m_EchoServer := Some s\<rparr>"
  have same: "?at srv = a" using assms(7) by simp
  have "srv_step (Ev_read h (int ?n) ?buf) srv = Inr ?srv1"
    using read_known [OF assms(1,2) _ assms(10), of ?n] assms(3) by simp
  then have one: "sys_step (Sys_net (Ev_read h (int ?n) ?buf)) (m, a) = Inr (m, ?at ?srv1)"
    using assms(7) by simp
  have "SendClient conn rcmd (Some reply) a = Inr (?at ?srv2)"
    using SendClient_push [OF assms(13,7), of conn rcmd] assms(4) by simp
  then have "RecivedMessage conn (Some ?buf) (word_of_nat ?n) (m, a) = Inr (m, ?at ?srv2)"
    unfolding received_frame [OF assms(8,9)] dispatch_known [OF assms(11)] assms(12) by simp
  moreover have "srv\<lparr>m_RecvMessage := []\<rparr> = srv"
    using assms(3) by simp
  ultimately have two: "sys_step Sys_turn (m, ?at ?srv1) = Inr (m, ?at ?srv2)"
    using assms(6) same
    by (intro turn_message [where srv = ?srv1 and info = ?info and q = "[]"]) simp_all
  have "timer_cb ?srv2 = Inr (?srv2\<lparr>m_SendMessage := [],
      ts_log := ts_log ?srv2 @ send_effect ?srv2 ?reply @ [UvTimerStart]\<rparr>)"
    using assms(5) framed_sendable [OF assms(13)] by (intro timer_cb_Cons) simp_all
  moreover have "send_effect ?srv2 ?reply = written h (ucast rcmd) reply"
    using assms(2) by (intro framed_effect [OF assms(13)]) simp
  moreover have "srv\<lparr>m_SendMessage := []\<rparr> = srv"
    using assms(4) by simp
  ultimately have "timer_cb ?srv2 = Inr ?srv3" by simp
  then have three: "sys_step (Sys_net Ev_timer) (m, ?at ?srv2) = Inr (m, ?at ?srv3)"
    by simp
  show ?thesis
    by (simp only: rfold.simps rbind.simps one two three)
qed

subsection \<open>The tables of the whole server\<close>

text \<open>Handlers that touch the server only to queue messages.\<close>

definition only_sent :: "'a app_manager_scheme \<Rightarrow> 'a app_manager_scheme \<Rightarrow> bool" where
  "only_sent a a' \<longleftrightarrow>
     (\<exists>q. m_EchoServer a' = map_option (\<lambda>srv. srv\<lparr>m_SendMessage := q\<rparr>) (m_EchoServer a))"

definition send_only :: "'a app_manager_scheme handler \<Rightarrow> bool" where
  "send_only f \<longleftrightarrow> (\<forall>cmd c msg a a'. f cmd c msg a = Inr a' \<longrightarrow> only_sent a a')"

lemma only_sent_same:
  assumes "m_EchoServer a' = m_EchoServer a"
  shows "only_sent a a'"
proof (cases "m_EchoServer a")
  case None
  with assms show ?thesis by (simp add: only_sent_def)
next
  case (Some srv)
  have "m_EchoServer a' = map_option (\<lambda>s. s\<lparr>m_SendMessage := m_SendMessage srv\<rparr>) (m_EchoServer a)"
    using assms Some by simp
  then show ?thesis unfolding only_sent_def by blast
qed

lemma only_sent_trans: "only_sent a b \<Longrightarrow> only_sent b c \<Longrightarrow> only_sent a c"
  by (auto simp: only_sent_def option.map_comp comp_def)

lemma only_sent_SendClient: "SendClient conn cmd msg a = Inr a' \<Longrightarrow> only_sent a a'"
  by (auto simp: SendClient_def Let_def rbind_Inr_iff echo_push_def PushSendMessage_def
      only_sent_def split: option.splits)
    (rule exI, rule refl)+

definition handlers_send_only :: "'a app_manager_scheme dispatcher \<Rightarrow> bool" where
  "handlers_send_only m \<longleftrightarrow> (\<forall>cmd f. handler_of m cmd = Some f \<longrightarrow> send_only f)"

definition app_ok :: "nat \<Rightarrow> 'a app_manager_scheme \<Rightarrow> bool" where
  "app_ok n a \<longleftrightarrow> (\<forall>srv. m_EchoServer a = Some srv \<longrightarrow> server_ok n srv)"

definition sys_ok :: "nat \<Rightarrow> 'a app_manager_scheme dispatcher \<times> 'a app_manager_scheme \<Rightarrow> bool" where
  "sys_ok n = (\<lambda>(m, a). handlers_send_only m \<and> app_ok n a)"

lemma server_ok_frame:
  "m_OnlineID s' = m_OnlineID s \<Longrightarrow> m_OnlineStream s' = m_OnlineStream s \<Longrightarrow> m_ConnectionID s' = m_ConnectionID s \<Longrightarrow>
   m_MaxConnectionID s' = m_MaxConnectionID s \<Longrightarrow> server_ok n s' = server_ok n s"
  unfolding server_ok_def using ids_ok_frame exact_frame by metis

lemma server_ok_send [simp]: "server_ok n (s\<lparr>m_SendMessage := q\<rparr>) = server_ok n s"
  by (rule server_ok_frame) simp_all

lemma dispatch_ok:
  assumes "sys_ok n (m, a)" and "DispatchMessageHandle cmd x y z (m, a) = Inr (b, m', a')"
  shows "sys_ok n (m', a')"
proof (cases "handler_of m cmd")
  case None
  with assms show ?thesis
    by (auto simp: dispatch_unknown sys_ok_def handlers_send_only_def handler_of_touch)
next
  case (Some f)
  then have f: "f x y z a = Inr a'" "m' = m"
    using assms(2) by (auto simp: dispatch_known rbind_Inr_iff)
  have "send_only f"
    using assms(1) Some by (auto simp: sys_ok_def handlers_send_only_def)
  with f(1) obtain q where q: "m_EchoServer a' = map_option (\<lambda>srv. srv\<lparr>m_SendMessage := q\<rparr>) (m_EchoServer a)"
    unfolding send_only_def only_sent_def by blast
  show ?thesis
    using assms(1) f(2) by (auto simp: sys_ok_def app_ok_def q)
qed

lemma received_ok:
  assumes "sys_ok n (m, a)" and "RecivedMessage conn buf len (m, a) = Inr (m', a')"
  shows "sys_ok n (m', a')"
  using assms
  by (auto simp: RecivedMessage_def UserLoginOut_def rbind_Inr_iff
      split: option.splits if_splits intro: dispatch_ok)

lemma server_ok_Suc: "server_ok n s \<Longrightarrow> server_ok (Suc n) s"
  by (simp add: server_ok_def ids_ok_Suc)

lemma sys_ok_Suc: "sys_ok n w \<Longrightarrow> sys_ok (Suc n) w"
  using server_ok_Suc by (auto simp: sys_ok_def app_ok_def)

lemma sys_step_ok:
  assumes "sys_ok n w" and "n < 2 ^ 32 - 1" and "sys_step e w = Inr w'"
  shows "sys_ok (Suc n) w'"
proof (cases e)
  case (Sys_net ev)
  obtain m a where w: "w = (m, a)" by (cases w)
  obtain srv srv' where s: "m_EchoServer a = Some srv" "srv_step ev srv = Inr srv'"
    "w' = (m, a\<lparr>m_EchoServer := Some srv'\<rparr>)"
    using assms(3) Sys_net w by (auto simp: rbind_Inr_iff split: option.splits)
  have "server_ok n srv"
    using assms(1) s(1) w by (auto simp: sys_ok_def app_ok_def)
  then have "server_ok (Suc n) srv'"
    using assms(2) s(2) by (rule srv_ok.event_inv)
  then show ?thesis
    using assms(1) w s(3) by (simp add: sys_ok_def app_ok_def)
next
  case Sys_turn
  obtain m a where w: "w = (m, a)" by (cases w)
  show ?thesis
  proof (cases "am_status a = App_CLOSED")
    case True
    then show ?thesis using assms Sys_turn w sys_ok_Suc by (simp add: main_turn_def)
  next
    case False
    then obtain srv where srv: "m_EchoServer a = Some srv"
      using assms Sys_turn w by (auto simp: main_turn_def split: option.splits)
    obtain msg srv1 where get: "GetRecvMessage srv = (msg, srv1)" by (cases "GetRecvMessage srv")
    let ?a1 = "a\<lparr>m_EchoServer := Some srv1\<rparr>"
    have "server_ok n srv1"
      using assms(1) w srv GetRecv_ids [of srv] get server_ok_frame [of srv1 srv n]
      by (auto simp: sys_ok_def app_ok_def)
    then have ok: "sys_ok (Suc n) (m, ?a1)"
      using assms(1) w server_ok_Suc by (simp add: sys_ok_def app_ok_def)
    show ?thesis
    proof (cases msg)
      case None
      then show ?thesis
        using assms(3) Sys_turn w False srv get ok by (simp add: main_turn_def OnUpdate_def)
    next
      case (Some info)
      then obtain m' a' where
        "RecivedMessage (mi_conn info) (mi_buf info) (mi_len info) (m, ?a1) = Inr (m', a')"
        "w' = (m', a')"
        using assms(3) Sys_turn w False srv get
        by (auto simp: main_turn_def OnUpdate_def rbind_Inr_iff)
      with ok show ?thesis by (simp add: received_ok)
    qed
  qed
qed

definition sys_init ::
  "'a app_manager_scheme dispatcher \<times> 'a app_manager_scheme \<Rightarrow> bool" where
  "sys_init w \<longleftrightarrow>
     (\<exists>demos a0. server_start demos (Map.empty, a0) = Inr (Some w) \<and> handlers_send_only (fst w))"

interpretation sys_run: counted_event_system sys_init sys_step sys_ok "2 ^ 32 - 1"
proof
  show "sys_ok 0 w" if init: "sys_init w" for w :: "'a app_manager_scheme dispatcher \<times> 'a app_manager_scheme"
  proof -
    obtain demos a0 where start: "server_start demos (Map.empty, a0) = Inr (Some w)"
      "handlers_send_only (fst w)"
      using init by (auto simp: sys_init_def)
    then obtain m a srv where w: "w = (m, SetEchoServere srv a)" "TCPServer_new local_address 9999 = Inr srv"
      by (auto simp: server_start_def rbind_Inr_iff split: prod.splits bool.splits)
    have "srv_init srv"
      using w(2) by (auto simp: srv_init_def)
    then have "server_ok 0 srv" by (rule srv_ok.init_inv)
    with w start(2) show ?thesis
      by (simp add: sys_ok_def app_ok_def SetEchoServere_def)
  qed
  show "sys_ok (Suc n) w'" if "sys_ok n w" "n < 2 ^ 32 - 1" "sys_step e w = Inr w'" for n w w' e
    using that by (rule sys_step_ok)
qed

text \<open>
  In every run of the whole server (network callbacks and turns of the main loop in any order, with any
  results of \<open>malloc\<close>) whose handlers use the server only to send, a stream is filed under the number that leads
  back to it, and the numbers are neither lost nor given twice.
\<close>

theorem system_streams_lead_back:
  assumes "server_start demos (Map.empty, a0) = Inr (Some w0)" and "handlers_send_only (fst w0)"
    and "rfold sys_step es w0 = Inr (m, a)" and "m_EchoServer a = Some srv" and "length es \<le> 2 ^ 32 - 1"
  shows "ids_ok (length es) srv"
    and "map_of (m_OnlineStream srv) h = Some c \<Longrightarrow> c \<noteq> 0 \<Longrightarrow> map_of (m_OnlineID srv) c = Some h"
proof -
  have "sys_init w0" using assms(1,2) unfolding sys_init_def by auto
  then have "sys_ok (length es) (m, a)" using assms(5,3) by (rule sys_run.run_from_init)
  then have ok: "server_ok (length es) srv"
    using assms(4) by (simp add: sys_ok_def app_ok_def)
  then show "ids_ok (length es) srv" by (simp add: server_ok_def)
  show "map_of (m_OnlineID srv) c = Some h" if "map_of (m_OnlineStream srv) h = Some c" "c \<noteq> 0"
    using server_ok_lookup [OF ok that] .
qed

end
