(* ===== verification/WireFormat.thy ===== *)
theory WireFormat
  imports ByteOrder
begin

text \<open>
  The wire format of the protocol messages: the part of the protobuf runtime under
  src/Server/protobuf/google/protobuf that the generated code of
  src/Server/protobuf/NetMessage.pb.cc calls. An input is the list of bytes that are left up to
  the current limit of the stream. The limit of 64 MB that a stream has by default is not modelled:
  a body of the game is at most 65531 bytes long.
\<close>

subsection \<open>Variable-length integers\<close>

text \<open>\<open>count\<close> is the number of bytes read so far; ten are the most.\<close>

fun ReadVarint64_at :: "nat \<Rightarrow> byte list \<Rightarrow> (u64 \<times> byte list) option" where
  "ReadVarint64_at count [] = None"
| "ReadVarint64_at count (b # bs) =
     (if count = 10 then None
      else let part = push_bit (7 * count) (ucast (b AND 0x7F)) in
        if b AND 0x80 = 0 then Some (part, bs)
        else (case ReadVarint64_at (count + 1) bs of
                None \<Rightarrow> None
              | Some (v, r) \<Rightarrow> Some (part OR v, r)))"

definition ReadVarint64 :: "byte list \<Rightarrow> (u64 \<times> byte list) option" where
  "ReadVarint64 bs = ReadVarint64_at 0 bs"

definition ReadVarint32 :: "byte list \<Rightarrow> (u32 \<times> byte list) option" where
  "ReadVarint32 bs = map_option (\<lambda>(v, r). (ucast v, r)) (ReadVarint64 bs)"

lemma unat_drop7: "unat (drop_bit 7 (v :: u64)) = unat v div 128"
  by (simp only: unat_drop_bit_eq) (simp add: drop_bit_eq_div)

function WriteVarint64 :: "u64 \<Rightarrow> byte list" where
  "WriteVarint64 v =
     (if v < 0x80 then [ucast v] else (ucast v OR 0x80) # WriteVarint64 (drop_bit 7 v))"
  by pat_completeness auto
termination
proof (relation "measure unat")
  fix v :: u64
  assume "\<not> v < 0x80"
  then have "128 \<le> unat v" by (simp add: word_less_nat_alt)
  then show "(drop_bit 7 v, v) \<in> measure unat"
    by (simp add: unat_drop7)
qed simp

declare WriteVarint64.simps [simp del]

definition WriteVarint32 :: "u32 \<Rightarrow> byte list" where
  "WriteVarint32 v = WriteVarint64 (ucast v)"

lemma low7_zero: "(b :: byte) AND 0x80 = 0 \<longleftrightarrow> \<not> bit b 7"
  using and_exp_eq_0_iff_not_bit [of b 7] by simp

lemma small_no_bit7:
  assumes "(v :: u64) < 0x80"
  shows "\<not> bit v n \<or> n < 7"
proof (cases "n < 7")
  case False
  have "unat v < 2 ^ 7" using assms by (simp add: word_less_nat_alt)
  then have "\<not> bit (unat v) n"
    using False by (metis bit_nat_iff bit_take_bit_iff take_bit_nat_eq_self)
  then show ?thesis by (simp add: bit_unsigned_iff)
qed simp

lemma bit_0x7F: "bit (0x7F :: byte) n \<longleftrightarrow> n < 7"
proof -
  have "(0x7F :: byte) = mask 7" by (simp add: mask_eq_exp_minus_1)
  then show ?thesis by (simp only: bit_mask_iff) auto
qed

lemma bit_0x80: "bit (0x80 :: byte) n \<longleftrightarrow> n = 7"
proof -
  have "(0x80 :: byte) = 2 ^ 7" by simp
  then show ?thesis by (simp only: bit_exp_iff) auto
qed

lemma seven_low_bits: "bit (ucast ((ucast v :: byte) AND 0x7F) :: u64) n \<longleftrightarrow> n < 7 \<and> bit (v :: u64) n"
  by (simp only: bit_unsigned_iff bit_and_iff bit_0x7F) auto

lemma ReadVarint64_last:
  "count \<le> 9 \<Longrightarrow> b AND 0x80 = 0 \<Longrightarrow>
     ReadVarint64_at count (b # bs) = Some (push_bit (7 * count) (ucast (b AND 0x7F)), bs)"
  by simp

lemma ReadVarint64_more:
  "count \<le> 9 \<Longrightarrow> b AND 0x80 \<noteq> 0 \<Longrightarrow> ReadVarint64_at (count + 1) bs = Some (v, r) \<Longrightarrow>
     ReadVarint64_at count (b # bs) = Some (push_bit (7 * count) (ucast (b AND 0x7F)) OR v, r)"
  by simp

lemma ReadVarint64_at_Write:
  "count \<le> 9 \<Longrightarrow> unat v < 2 ^ (64 - 7 * count) \<Longrightarrow>
     ReadVarint64_at count (WriteVarint64 v @ rest) = Some (push_bit (7 * count) v, rest)"
proof (induction v arbitrary: count rule: WriteVarint64.induct)
  case (1 v)
  show ?case
  proof (cases "v < 0x80")
    case True
    have low: "ucast ((ucast v :: byte) AND 0x7F) = v"
      by (rule bit_word_eqI) (use small_no_bit7 [OF True] in \<open>auto simp: seven_low_bits\<close>)
    have last: "(ucast v :: byte) AND 0x80 = 0"
      using small_no_bit7 [OF True, of 7] by (simp add: low7_zero bit_simps)
    show ?thesis
      unfolding WriteVarint64.simps [of v] if_P [OF True] append_Cons append_Nil
        ReadVarint64_last [OF 1(2) last] low ..
  next
    case False
    then have big: "128 \<le> unat v" by (simp add: word_less_nat_alt)
    have c: "count \<le> 8"
    proof (rule ccontr)
      assume "\<not> count \<le> 8"
      with 1(2) have "count = 9" by simp
      with 1(3) big show False by simp
    qed
    have "(2 :: nat) ^ (64 - 7 * count) = 128 * 2 ^ (64 - 7 * (count + 1))"
    proof -
      have "64 - 7 * count = 7 + (64 - 7 * (count + 1))" using c by simp
      then show ?thesis by (simp only: power_add) simp
    qed
    then have "unat (drop_bit 7 v) < 2 ^ (64 - 7 * (count + 1))"
      using 1(3) by (simp only: unat_drop7 less_mult_imp_div_less mult.commute)
    then have IH: "ReadVarint64_at (count + 1) (WriteVarint64 (drop_bit 7 v) @ rest) =
        Some (push_bit (7 * (count + 1)) (drop_bit 7 v), rest)"
      using 1(1) [OF False, of "count + 1"] c by simp
    have bits: "push_bit (7 * count) (ucast ((ucast v :: byte) AND 0x7F))
        OR push_bit (7 * (count + 1)) (drop_bit 7 v) = push_bit (7 * count) v"
    proof (rule bit_word_eqI)
      fix n
      show "bit (push_bit (7 * count) (ucast ((ucast v :: byte) AND 0x7F))
          OR push_bit (7 * (count + 1)) (drop_bit 7 v)) n = bit (push_bit (7 * count) v) n"
      proof (cases "7 * count + 7 \<le> n")
        case True
        then obtain m where "n = 7 * count + 7 + m" by (auto simp: le_iff_add)
        then show ?thesis
          by (auto simp: bit_push_bit_iff bit_or_iff bit_drop_bit_eq seven_low_bits add.commute)
      next
        case False
        then show ?thesis
          by (auto simp: bit_push_bit_iff bit_or_iff bit_drop_bit_eq seven_low_bits)
      qed
    qed
    have low: "(ucast v OR 0x80 :: byte) AND 0x7F = ucast v AND 0x7F"
      by (rule bit_word_eqI) (auto simp only: bit_and_iff bit_or_iff bit_0x7F bit_0x80)
    have high: "(ucast v OR 0x80 :: byte) AND 0x80 \<noteq> 0"
      by (simp add: low7_zero bit_simps)
    show ?thesis
      unfolding WriteVarint64.simps [of v] if_not_P [OF False] append_Cons
        ReadVarint64_more [OF 1(2) high IH] low bits ..
  qed
qed

lemma ReadVarint64_Write: "ReadVarint64 (WriteVarint64 v @ rest) = Some (v, rest)"
  using ReadVarint64_at_Write [of 0 v rest] unsigned_less [of v] by (simp add: ReadVarint64_def)

lemma ReadVarint32_Write: "ReadVarint32 (WriteVarint32 v @ rest) = Some (v, rest)"
proof -
  have "ucast (ucast v :: u64) = v"
    by (rule bit_word_eqI) (auto simp: bit_unsigned_iff)
  then show ?thesis
    by (simp only: ReadVarint32_def WriteVarint32_def ReadVarint64_Write option.map prod.case)
qed

lemma WriteVarint64_nonempty: "WriteVarint64 v \<noteq> []"
  by (subst WriteVarint64.simps) simp

lemma ReadVarint64_at_shorter:
  "ReadVarint64_at count bs = Some (v, r) \<Longrightarrow> length r < length bs"
proof (induction bs arbitrary: count v r)
  case Nil
  then show ?case by simp
next
  case (Cons b bs)
  then show ?case
    by (fastforce simp: Let_def split: if_splits option.splits)
qed

lemma ReadVarint_shorter:
  "ReadVarint64 bs = Some (v, r) \<Longrightarrow> length r < length bs"
  "ReadVarint32 bs = Some (w, r) \<Longrightarrow> length r < length bs"
  by (auto simp: ReadVarint64_def ReadVarint32_def dest: ReadVarint64_at_shorter)


text \<open>
  The sizes that \<open>ByteSize\<close> adds up.
\<close>

definition VarintSize32 :: "u32 \<Rightarrow> nat" where
  "VarintSize32 v =
     (if v < 2 ^ 7 then 1 else if v < 2 ^ 14 then 2 else if v < 2 ^ 21 then 3
      else if v < 2 ^ 28 then 4 else 5)"

definition VarintSize64 :: "u64 \<Rightarrow> nat" where
  "VarintSize64 v =
     (if v < 2 ^ 35 then
        (if v < 2 ^ 7 then 1 else if v < 2 ^ 14 then 2 else if v < 2 ^ 21 then 3
         else if v < 2 ^ 28 then 4 else 5)
      else
        (if v < 2 ^ 42 then 6 else if v < 2 ^ 49 then 7 else if v < 2 ^ 56 then 8
         else if v < 2 ^ 63 then 9 else 10))"

text \<open>A negative number is extended to 64 bits.\<close>

definition VarintSize32SignExtended :: "u32 \<Rightarrow> nat" where
  "VarintSize32SignExtended v = (if sint v < 0 then 10 else VarintSize32 v)"

fun varint_len :: "nat \<Rightarrow> nat" where
  "varint_len n = (if n < 128 then 1 else 1 + varint_len (n div 128))"

declare varint_len.simps [simp del]

lemma length_WriteVarint64: "length (WriteVarint64 v) = varint_len (unat v)"
proof (induction v rule: WriteVarint64.induct)
  case (1 v)
  have lt: "v < 0x80 \<longleftrightarrow> unat v < 128" by (simp add: word_less_nat_alt)
  show ?case
  proof (cases "v < 0x80")
    case True
    then show ?thesis
      using lt by (simp add: WriteVarint64.simps [of v] varint_len.simps [of "unat v"])
  next
    case False
    then show ?thesis
      using lt 1 by (simp add: WriteVarint64.simps [of v] varint_len.simps [of "unat v"] unat_drop7
          del: unat_drop_bit_eq)
  qed
qed

lemma varint_len_small:
  "n < 2 ^ 7 \<Longrightarrow> varint_len n = 1"
  "2 ^ 7 \<le> n \<Longrightarrow> varint_len n = Suc (varint_len (n div 128))"
  by (subst varint_len.simps; simp)+

lemma varint_len_bits:
  "n < 2 ^ (7 * Suc k) \<Longrightarrow> 2 ^ (7 * k) \<le> n \<Longrightarrow> varint_len n = Suc k"
proof (induction k arbitrary: n)
  case 0
  then show ?case by (simp add: varint_len_small(1))
next
  case (Suc k)
  have p: "(2 :: nat) ^ (7 * Suc k) = 128 * 2 ^ (7 * k)"
    by (simp add: power_add)
  have q: "(2 :: nat) ^ (7 * Suc (Suc k)) = 128 * 2 ^ (7 * Suc k)"
    by (simp add: power_add)
  have lo: "2 ^ (7 * k) \<le> n div 128"
    using Suc.prems(2) unfolding p by (simp add: less_eq_div_iff_mult_less_eq mult.commute)
  have hi: "n div 128 < 2 ^ (7 * Suc k)"
    using Suc.prems(1) unfolding q by (simp only: less_mult_imp_div_less mult.commute)
  have "(2 :: nat) ^ 7 \<le> n"
  proof -
    have "(1 :: nat) \<le> 2 ^ (7 * k)" by simp
    then have "128 * 1 \<le> 128 * (2 :: nat) ^ (7 * k)" by (rule mult_le_mono2)
    then have "128 \<le> n" using Suc.prems(2) unfolding p by linarith
    then show ?thesis by simp
  qed
  then show ?case using Suc.IH [OF hi lo] by (simp add: varint_len_small(2))
qed


lemma unat_bounds: "unat (v :: u64) < 2 ^ 64" "unat (w :: u32) < 2 ^ 32"
proof -
  have "unat v < 2 ^ LENGTH(64)" and "unat w < 2 ^ LENGTH(32)" by (rule unsigned_less)+
  then show "unat v < 2 ^ 64" and "unat w < 2 ^ 32" by simp_all
qed

lemma VarintSize64_eq: "VarintSize64 v = length (WriteVarint64 v)"
  unfolding length_WriteVarint64 VarintSize64_def
  using varint_len_bits [of "unat v" 1]
    varint_len_bits [of "unat v" 2] varint_len_bits [of "unat v" 3] varint_len_bits [of "unat v" 4]
    varint_len_bits [of "unat v" 5] varint_len_bits [of "unat v" 6] varint_len_bits [of "unat v" 7]
    varint_len_bits [of "unat v" 8] varint_len_bits [of "unat v" 9] unat_bounds(1) [of v]
    varint_len_small(1) [of "unat v"]
  by (simp add: word_less_nat_alt)

lemma VarintSize32_eq: "VarintSize32 v = length (WriteVarint32 v)"
proof -
  have u: "unat (ucast v :: u64) = unat v"
    by (simp add: unsigned_ucast_eq take_bit_nat_eq_self_iff unsigned_less less_le_trans [OF unsigned_less])
  show ?thesis
    unfolding WriteVarint32_def length_WriteVarint64 VarintSize32_def u
    using varint_len_bits [of "unat v" 1]
      varint_len_bits [of "unat v" 2] varint_len_bits [of "unat v" 3] varint_len_bits [of "unat v" 4]
      unat_bounds(2) [of v] varint_len_small(1) [of "unat v"]
    by (simp add: word_less_nat_alt)
qed

lemma sint_neg_bit: "sint (v :: u32) < 0 \<longleftrightarrow> bit v 31"
  using bit_last_iff [of v] by simp

lemma VarintSize32SignExtended_eq:
  "VarintSize32SignExtended v = length (WriteVarint64 (scast v))"
proof (cases "sint v < 0")
  case True
  then have "bit (scast v :: u64) 63"
    by (simp add: bit_word_scast_iff sint_neg_bit)
  then have "bit (unat (scast v :: u64)) 63" by (simp add: bit_unsigned_iff)
  then have "\<not> unat (scast v :: u64) < 2 ^ 63"
    by (metis bit_take_bit_iff less_irrefl take_bit_nat_eq_self)
  then show ?thesis
    using True varint_len_bits [of "unat (scast v :: u64)" 9] unat_bounds(1) [of "scast v"]
    by (simp add: VarintSize32SignExtended_def length_WriteVarint64)
next
  case False
  have "(scast v :: u64) = ucast v"
    by (rule bit_word_eqI) (use False in \<open>auto simp: bit_word_scast_iff bit_unsigned_iff sint_neg_bit
        less_Suc_eq numeral_eq_Suc dest: bit_imp_le_length\<close>)
  then show ?thesis
    using False by (simp add: VarintSize32SignExtended_def VarintSize32_eq WriteVarint32_def)
qed

subsection \<open>Tags and unknown fields\<close>

definition MakeTag :: "nat \<Rightarrow> nat \<Rightarrow> u32" where
  "MakeTag number wiretype = word_of_nat (8 * number + wiretype)"

definition GetTagWireType :: "u32 \<Rightarrow> nat" where
  "GetTagWireType tag = unat tag mod 8"

definition GetTagFieldNumber :: "u32 \<Rightarrow> nat" where
  "GetTagFieldNumber tag = unat tag div 8"

text \<open>A tag of zero means the end of the input or a tag that could not be read.\<close>

definition ReadTag :: "byte list \<Rightarrow> u32 \<times> byte list" where
  "ReadTag bs = (case ReadVarint32 bs of None \<Rightarrow> (0, bs) | Some r \<Rightarrow> r)"

definition take_bytes :: "nat \<Rightarrow> byte list \<Rightarrow> (byte list \<times> byte list) option" where
  "take_bytes n bs = (if n \<le> length bs then Some (take n bs, drop n bs) else None)"

text \<open>\<open>ReadString\<close> takes the size as an \<open>int\<close> and refuses negative ones.\<close>

definition ReadString :: "byte list \<Rightarrow> (byte list \<times> byte list) option" where
  "ReadString bs =
     (case ReadVarint32 bs of
        None \<Rightarrow> None
      | Some (n, r) \<Rightarrow> if sint n < 0 then None else take_bytes (nat (sint n)) r)"


lemma take_bytes_shorter: "take_bytes n bs = Some (v, r) \<Longrightarrow> length r \<le> length bs"
  by (auto simp: take_bytes_def split: if_splits)

lemma ReadString_shorter: "ReadString bs = Some (v, r) \<Longrightarrow> length r < length bs"
  by (fastforce simp: ReadString_def dest: ReadVarint_shorter(2) take_bytes_shorter
      split: option.splits if_splits)

lemma ReadTag_shorter: "ReadTag bs = (tag, r) \<Longrightarrow> tag \<noteq> 0 \<Longrightarrow> length r < length bs"
  by (auto simp: ReadTag_def dest: ReadVarint_shorter(2) split: option.splits)

lemma ReadTag_not_longer: "ReadTag bs = (tag, r) \<Longrightarrow> length r \<le> length bs"
  by (auto simp: ReadTag_def dest: ReadVarint_shorter(2) split: option.splits)

lemma ReadTag_Write: "ReadTag (WriteVarint32 tag @ rest) = (tag, rest)"
  by (simp add: ReadTag_def ReadVarint32_Write)

lemma ReadString_Write:
  assumes "length str < 2 ^ 31"
  shows "ReadString (WriteVarint32 (word_of_nat (length str)) @ str @ rest) = Some (str, rest)"
proof -
  have "sint (word_of_nat (length str) :: u32) = int (length str)"
    using assms by (simp add: signed_of_nat signed_take_bit_int_eq_self)
  then show ?thesis
    by (simp add: ReadString_def ReadVarint32_Write take_bytes_def)
qed

lemma WriteVarint32_nonempty: "WriteVarint32 v \<noteq> []"
  using WriteVarint64_nonempty by (simp add: WriteVarint32_def)

lemma tag_fields:
  assumes "n < 2 ^ 29" and "w < 8"
  shows "unat (MakeTag n w) = 8 * n + w" "GetTagFieldNumber (MakeTag n w) = n"
    "GetTagWireType (MakeTag n w) = w" "0 < n \<Longrightarrow> MakeTag n w \<noteq> 0"
proof -
  have "8 * n + w < 2 ^ 32" using assms by simp
  then have "take_bit 32 (8 * n + w) = 8 * n + w" by (rule take_bit_nat_eq_self)
  then show u: "unat (MakeTag n w) = 8 * n + w"
    unfolding MakeTag_def by (simp only: unsigned_of_nat) simp
  show "GetTagFieldNumber (MakeTag n w) = n" "GetTagWireType (MakeTag n w) = w"
    unfolding GetTagFieldNumber_def GetTagWireType_def u using assms(2) by simp_all
  show "MakeTag n w \<noteq> 0" if "0 < n"
  proof
    assume "MakeTag n w = 0"
    with u have "8 * n + w = 0" by simp
    with that show False by simp
  qed
qed

subsection \<open>Unknown fields\<close>

text \<open>\<open>UnknownField\<close> and \<open>UnknownFieldSet\<close>: what the parser does not know is kept, with its number.\<close>

datatype unknown_field =
    U_varint nat u64
  | U_fixed32 nat u32
  | U_fixed64 nat u64
  | U_length_delimited nat "byte list"
  | U_group nat "unknown_field list"

text \<open>
  \<open>depth\<close> is what is left of the recursion budget. The first argument bounds the number of steps;
  \<open>SkipField_fuel\<close> shows that twice the length of the input is enough. \<open>SkipMessage\<close> returns the fields
  of the group, and the last tag it read.
\<close>

fun SkipField :: "nat \<Rightarrow> nat \<Rightarrow> u32 \<Rightarrow> byte list \<Rightarrow> (unknown_field \<times> byte list) option"
  and SkipMessage :: "nat \<Rightarrow> nat \<Rightarrow> byte list \<Rightarrow> (unknown_field list \<times> u32 \<times> byte list) option" where
  "SkipField 0 depth tag bs = None"
| "SkipField (Suc fuel) depth tag bs =
     (let number = GetTagFieldNumber tag; wt = GetTagWireType tag in
      if wt = 0 then map_option (\<lambda>(v, r). (U_varint number v, r)) (ReadVarint64 bs)
      else if wt = 1 then map_option (\<lambda>(v, r). (U_fixed64 number (le_word v), r)) (take_bytes 8 bs)
      else if wt = 2 then map_option (\<lambda>(v, r). (U_length_delimited number v, r)) (ReadString bs)
      else if wt = 3 then
        (if depth = 0 then None
         else case SkipMessage fuel (depth - 1) bs of
                None \<Rightarrow> None
              | Some (us, last_tag, r) \<Rightarrow>
                  if last_tag = MakeTag number 4 then Some (U_group number us, r) else None)
      else if wt = 4 then None
      else if wt = 5 then map_option (\<lambda>(v, r). (U_fixed32 number (le_word v), r)) (take_bytes 4 bs)
      else None)"
| "SkipMessage 0 depth bs = None"
| "SkipMessage (Suc fuel) depth bs =
     (let (tag, r) = ReadTag bs in
      if tag = 0 then Some ([], 0, r)
      else if GetTagWireType tag = 4 then Some ([], tag, r)
      else case SkipField fuel depth tag r of
             None \<Rightarrow> None
           | Some (u, r') \<Rightarrow>
               (case SkipMessage fuel depth r' of
                  None \<Rightarrow> None
                | Some (us, last_tag, r'') \<Rightarrow> Some (u # us, last_tag, r'')))"

fun unknown_tag :: "unknown_field \<Rightarrow> u32" where
  "unknown_tag (U_varint n v) = MakeTag n 0"
| "unknown_tag (U_fixed32 n v) = MakeTag n 5"
| "unknown_tag (U_fixed64 n v) = MakeTag n 1"
| "unknown_tag (U_length_delimited n v) = MakeTag n 2"
| "unknown_tag (U_group n us) = MakeTag n 3"

text \<open>What \<open>SerializeUnknownFieldsToArray\<close> writes for one field after its tag.\<close>

fun unknown_body :: "unknown_field \<Rightarrow> byte list" where
  "unknown_body (U_varint n v) = WriteVarint64 v"
| "unknown_body (U_fixed32 n v) = le_bytes 4 v"
| "unknown_body (U_fixed64 n v) = le_bytes 8 v"
| "unknown_body (U_length_delimited n v) = WriteVarint32 (word_of_nat (length v)) @ v"
| "unknown_body (U_group n us) =
     concat (map (\<lambda>u. WriteVarint32 (unknown_tag u) @ unknown_body u) us) @ WriteVarint32 (MakeTag n 4)"

definition SerializeUnknownFields :: "unknown_field list \<Rightarrow> byte list" where
  "SerializeUnknownFields us = concat (map (\<lambda>u. WriteVarint32 (unknown_tag u) @ unknown_body u) us)"

fun unknown_size :: "unknown_field \<Rightarrow> nat" where
  "unknown_size (U_varint n v) = VarintSize32 (MakeTag n 0) + VarintSize64 v"
| "unknown_size (U_fixed32 n v) = VarintSize32 (MakeTag n 5) + 4"
| "unknown_size (U_fixed64 n v) = VarintSize32 (MakeTag n 1) + 8"
| "unknown_size (U_length_delimited n v) =
     VarintSize32 (MakeTag n 2) + VarintSize32 (word_of_nat (length v)) + length v"
| "unknown_size (U_group n us) =
     VarintSize32 (MakeTag n 3) + sum_list (map unknown_size us) + VarintSize32 (MakeTag n 4)"

definition ComputeUnknownFieldsSize :: "unknown_field list \<Rightarrow> nat" where
  "ComputeUnknownFieldsSize us = sum_list (map unknown_size us)"

lemma unknown_size_eq:
  "unknown_size u = length (WriteVarint32 (unknown_tag u) @ unknown_body u)"
proof (induction u)
  case (U_group n us)
  have "sum_list (map unknown_size us) =
      length (concat (map (\<lambda>u. WriteVarint32 (unknown_tag u) @ unknown_body u) us))"
    using U_group by (induction us) simp_all
  then show ?case by (simp add: VarintSize32_eq)
qed (simp_all add: VarintSize32_eq VarintSize64_eq)

lemma ComputeUnknownFieldsSize_eq: "ComputeUnknownFieldsSize us = length (SerializeUnknownFields us)"
  by (induction us)
    (simp_all add: ComputeUnknownFieldsSize_def SerializeUnknownFields_def unknown_size_eq)

lemma Skip_shorter:
  "SkipField fuel depth tag bs = Some (u, r) \<Longrightarrow> length r \<le> length bs"
  "SkipMessage fuel depth bs = Some (us, last_tag, r') \<Longrightarrow> length r' \<le> length bs"
proof (induction fuel depth tag bs and fuel depth bs arbitrary: u r and us last_tag r'
    rule: SkipField_SkipMessage.induct)
  case (2 fuel depth tag bs)
  then show ?case
    by (fastforce simp: Let_def dest: ReadVarint_shorter ReadString_shorter take_bytes_shorter
        split: if_splits option.splits)
next
  case (4 fuel depth bs)
  obtain tag r1 where t: "ReadTag bs = (tag, r1)" by (cases "ReadTag bs")
  have r1: "length r1 \<le> length bs" by (rule ReadTag_not_longer [OF t])
  show ?case
  proof (cases "tag = 0 \<or> GetTagWireType tag = 4")
    case True
    then show ?thesis using 4(3) t r1 by (auto split: if_splits)
  next
    case False
    then obtain u2 r2 us2 where r2: "SkipField fuel depth tag r1 = Some (u2, r2)"
      "SkipMessage fuel depth r2 = Some (us2, last_tag, r')"
      using 4(3) t by (auto split: option.splits)
    have "length r2 \<le> length r1"
      by (rule 4(1) [OF t [symmetric] refl]) (use False r2 in auto)
    moreover have "length r' \<le> length r2"
      by (rule 4(2) [OF t [symmetric] refl _ _ r2(1) refl r2(2)]) (use False in auto)
    ultimately show ?thesis using r1 by simp
  qed
qed simp_all

lemma Skip_fuel:
  "2 * length bs + 2 \<le> fuel \<Longrightarrow> 2 * length bs + 2 \<le> g \<Longrightarrow>
     SkipField fuel depth tag bs = SkipField g depth tag bs"
  "2 * length bs + 1 \<le> fuel \<Longrightarrow> 2 * length bs + 1 \<le> g \<Longrightarrow>
     SkipMessage fuel depth bs = SkipMessage g depth bs"
proof (induction fuel depth tag bs and fuel depth bs arbitrary: g and g
    rule: SkipField_SkipMessage.induct)
  case (2 fuel depth tag bs)
  then obtain h where g: "g = Suc h" by (cases g) auto
  have "SkipMessage fuel (depth - 1) bs = SkipMessage h (depth - 1) bs"
    if "GetTagWireType tag = 3" "depth \<noteq> 0"
    using that 2(2,3) g by (intro 2(1) [OF refl refl]) simp_all
  then show ?case by (simp add: g Let_def)
next
  case (4 fuel depth bs)
  then obtain h where g: "g = Suc h" by (cases g) auto
  obtain tag r where t: "ReadTag bs = (tag, r)" by (cases "ReadTag bs")
  show ?case
  proof (cases "tag = 0 \<or> GetTagWireType tag = 4")
    case True
    then show ?thesis using t by (auto simp: g)
  next
    case False
    then have r: "length r < length bs" using t by (auto dest: ReadTag_shorter)
    have field: "SkipField fuel depth tag r = SkipField h depth tag r"
      by (rule 4(1) [OF t [symmetric] refl]) (use False r 4(3,4) g in auto)
    have "SkipMessage fuel depth r' = SkipMessage h depth r'"
      if r': "SkipField fuel depth tag r = Some (u, r')" for u r'
      by (rule 4(2) [OF t [symmetric] refl _ _ r' refl])
        (use False r 4(3,4) g Skip_shorter(1) [OF r'] in auto)
    with field show ?thesis using False t by (auto simp: g split: option.split)
  qed
qed simp_all

lemma SkipField_fuel:
  "length r < length bs \<Longrightarrow> 2 * length bs \<le> g \<Longrightarrow>
     SkipField (2 * length bs) depth tag r = SkipField g depth tag r"
  by (rule Skip_fuel(1)) simp_all

text \<open>Fields that the parser can keep: what is written for them is skipped to the same field.\<close>

fun unknown_number :: "unknown_field \<Rightarrow> nat" where
  "unknown_number (U_varint n v) = n"
| "unknown_number (U_fixed32 n v) = n"
| "unknown_number (U_fixed64 n v) = n"
| "unknown_number (U_length_delimited n v) = n"
| "unknown_number (U_group n us) = n"

fun unknown_ok :: "nat \<Rightarrow> unknown_field \<Rightarrow> bool" where
  "unknown_ok depth (U_length_delimited n v) \<longleftrightarrow> 0 < n \<and> n < 2 ^ 29 \<and> length v < 2 ^ 31"
| "unknown_ok depth (U_group n us) \<longleftrightarrow>
     0 < n \<and> n < 2 ^ 29 \<and> 0 < depth \<and> (\<forall>u \<in> set us. unknown_ok (depth - 1) u)"
| "unknown_ok depth u \<longleftrightarrow> 0 < unknown_number u \<and> unknown_number u < 2 ^ 29"

lemma unknown_ok_number:
  "unknown_ok depth u \<Longrightarrow> 0 < unknown_number u \<and> unknown_number u < 2 ^ 29"
  by (cases u) auto

lemma unknown_tag_nonzero:
  assumes "unknown_ok depth u"
  shows "unknown_tag u \<noteq> 0" "GetTagWireType (unknown_tag u) \<noteq> 4"
  using unknown_ok_number [OF assms] tag_fields(3,4) [of "unknown_number u"]
  by (cases u; simp)+

lemma le_word_back: "le_word (le_bytes 4 w) = (w :: u32)" "le_word (le_bytes 8 v) = (v :: u64)"
  by (simp_all add: le_word_le_bytes take_bit_word_eq_self)

lemma SkipField_Write:
  assumes "unknown_ok depth u" and "2 * length (unknown_body u @ rest) + 2 \<le> fuel"
  shows "SkipField fuel depth (unknown_tag u) (unknown_body u @ rest) = Some (u, rest)"
  using assms
proof (induction u arbitrary: depth rest fuel)
  case (U_group n us)
  obtain f where f: "fuel = Suc f" using U_group.prems(2) by (cases fuel) auto
  have n: "0 < n" "n < 2 ^ 29" and d: "0 < depth" "\<forall>u \<in> set us. unknown_ok (depth - 1) u"
    using U_group.prems(1) by simp_all
  have group: "SkipMessage g (depth - 1) (SerializeUnknownFields vs @ WriteVarint32 (MakeTag n 4) @ rest) =
      Some (vs, MakeTag n 4, rest)"
    if "set vs \<subseteq> set us"
      "2 * length (SerializeUnknownFields vs @ WriteVarint32 (MakeTag n 4) @ rest) + 1 \<le> g" for vs g
    using that
  proof (induction vs arbitrary: g)
    case Nil
    then show ?case
      using tag_fields(3,4) [OF n(2), of 4] n(1)
      by (cases g) (simp_all add: SerializeUnknownFields_def ReadTag_Write)
  next
    case (Cons v vs)
    let ?tail = "SerializeUnknownFields vs @ WriteVarint32 (MakeTag n 4) @ rest"
    obtain h where g: "g = Suc h" using Cons.prems(2) by (cases g) auto
    have ser: "SerializeUnknownFields (v # vs) @ WriteVarint32 (MakeTag n 4) @ rest =
        WriteVarint32 (unknown_tag v) @ unknown_body v @ ?tail"
      by (simp add: SerializeUnknownFields_def)
    have v: "unknown_ok (depth - 1) v" using d(2) Cons.prems(1) by simp
    have len: "2 * length (unknown_body v @ ?tail) + 2 \<le> h" "2 * length ?tail + 1 \<le> h"
      using Cons.prems(2) WriteVarint32_nonempty [of "unknown_tag v"]
      unfolding ser g by (cases "WriteVarint32 (unknown_tag v)"; simp)+
    have "SkipField h (depth - 1) (unknown_tag v) (unknown_body v @ ?tail) = Some (v, ?tail)"
      using Cons.prems(1) v len(1) by (intro U_group.IH) auto
    moreover have "SkipMessage h (depth - 1) ?tail = Some (vs, MakeTag n 4, rest)"
      using Cons.prems(1) len(2) by (intro Cons.IH) auto
    ultimately show ?case
      unfolding ser g using unknown_tag_nonzero [OF v] by (simp add: ReadTag_Write)
  qed
  have "SkipMessage f (depth - 1) (SerializeUnknownFields us @ WriteVarint32 (MakeTag n 4) @ rest) =
      Some (us, MakeTag n 4, rest)"
    using U_group.prems(2) unfolding f by (intro group) (simp_all add: SerializeUnknownFields_def)
  then show ?case
    using tag_fields(2,3) [OF n(2), of 3] d(1)
    by (simp add: f SerializeUnknownFields_def)
qed (use tag_fields(2,3) in
    \<open>(case_tac fuel; simp add: ReadVarint64_Write ReadString_Write take_bytes_def le_word_back)+\<close>)

end
