(* ===== verification/Protobuf.thy ===== *)
theory Protobuf
  imports WireFormat
begin

text \<open>
  Protocol messages: the parser, the serialiser, the size computation and the merging that protoc
  generates for every message of src/Server/protobuf/NetMessage.pb.cc, as functions of the list of the
  fields of the message. A message maps the numbers of the fields that are set to their
  values, and keeps the fields the parser does not know in the order in which they came. A repeated
  field that is empty has no entry.
\<close>

subsection \<open>Field types and values\<close>

text \<open>
  An enumeration is the list of the numbers its \<open>IsValid\<close> accepts. Of the repeated fields the
  messages use the packed one of \<open>uint32\<close> and the one of a sub-message.
\<close>

datatype pb_type =
    PB_int32 | PB_uint32 | PB_bool | PB_string | PB_float
  | PB_enum "int list"
  | PB_packed_uint32
  | PB_message "(nat \<times> pb_type) list"

type_synonym pb_schema = "(nat \<times> pb_type) list"

datatype pb_val =
    Int32 u32 | UInt32 u32 | Bool bool | Str "byte list" | Float u32
  | Enum u32
  | Packed "u32 list"
  | Messages "pb_msg list"
and pb_msg =
    Msg (pb_fields: "nat \<Rightarrow> pb_val option") (pb_unknown: "unknown_field list")

abbreviation pb_new :: pb_msg where
  "pb_new \<equiv> Msg Map.empty []"

abbreviation pb_set :: "nat \<Rightarrow> pb_val \<Rightarrow> pb_msg \<Rightarrow> pb_msg" where
  "pb_set n v m \<equiv> Msg ((pb_fields m)(n \<mapsto> v)) (pb_unknown m)"

definition add_unknown :: "unknown_field \<Rightarrow> pb_msg \<Rightarrow> pb_msg" where
  "add_unknown u m = Msg (pb_fields m) (pb_unknown m @ [u])"

definition get_packed :: "nat \<Rightarrow> pb_msg \<Rightarrow> u32 list" where
  "get_packed n m = (case pb_fields m n of Some (Packed ws) \<Rightarrow> ws | _ \<Rightarrow> [])"

definition get_messages :: "nat \<Rightarrow> pb_msg \<Rightarrow> pb_msg list" where
  "get_messages n m = (case pb_fields m n of Some (Messages xs) \<Rightarrow> xs | _ \<Rightarrow> [])"

definition add_packed :: "nat \<Rightarrow> u32 list \<Rightarrow> pb_msg \<Rightarrow> pb_msg" where
  "add_packed n ws m = (if ws = [] then m else pb_set n (Packed (get_packed n m @ ws)) m)"

definition add_message :: "nat \<Rightarrow> pb_msg \<Rightarrow> pb_msg \<Rightarrow> pb_msg" where
  "add_message n x m = pb_set n (Messages (get_messages n m @ [x])) m"

text \<open>The wire type of the tag that the serialiser writes.\<close>

fun pb_wire :: "pb_type \<Rightarrow> nat" where
  "pb_wire PB_string = 2"
| "pb_wire PB_float = 5"
| "pb_wire PB_packed_uint32 = 2"
| "pb_wire (PB_message sch) = 2"
| "pb_wire _ = 0"

definition field_tag :: "nat \<times> pb_type \<Rightarrow> u32" where
  "field_tag f = MakeTag (fst f) (pb_wire (snd f))"

fun field_with_tag :: "u32 \<Rightarrow> pb_schema \<Rightarrow> (nat \<times> pb_type) option" where
  "field_with_tag tag [] = None"
| "field_with_tag tag (f # fs) = (if tag = field_tag f then Some f else field_with_tag tag fs)"

text \<open>A packed field may also come as single elements, each with a tag of its own.\<close>

fun unpacked_with_tag :: "u32 \<Rightarrow> pb_schema \<Rightarrow> nat option" where
  "unpacked_with_tag tag [] = None"
| "unpacked_with_tag tag ((n, t) # fs) =
     (if t = PB_packed_uint32 \<and> tag = MakeTag n 0 then Some n else unpacked_with_tag tag fs)"

fun sub_schema :: "pb_type \<Rightarrow> pb_schema option" where
  "sub_schema (PB_message sch) = Some sch"
| "sub_schema _ = None"

subsection \<open>Reading\<close>

text \<open>
  \<open>PushLimit\<close>: how many of the bytes that are left lie under a new limit. A negative length, and one that
  is longer than the rest, is cut to the limit there was.
\<close>

definition PushLimit :: "u32 \<Rightarrow> byte list \<Rightarrow> nat" where
  "PushLimit n bs = (if sint n < 0 then length bs else min (nat (sint n)) (length bs))"

text \<open>
  The bytes of a sub-message, and what follows them. A length that cannot be read counts as zero: with less
  than ten bytes left the reader has then gone to the end, otherwise it stands where it stood.
\<close>

definition ReadLengthAndPushLimit :: "byte list \<Rightarrow> byte list \<times> byte list" where
  "ReadLengthAndPushLimit bs =
     (case ReadVarint32 bs of
        Some (n, r) \<Rightarrow> (take (PushLimit n r) r, drop (PushLimit n r) r)
      | None \<Rightarrow> if length bs < 10 then ([], []) else ([], bs))"

function read_uint32s :: "byte list \<Rightarrow> u32 list option" where
  "read_uint32s bs =
     (if bs = [] then Some []
      else case ReadVarint32 bs of
             None \<Rightarrow> None
           | Some (w, r) \<Rightarrow> map_option ((#) w) (read_uint32s r))"
  by pat_completeness auto
termination
  by (relation "measure length") (auto dest: ReadVarint_shorter(2))

declare read_uint32s.simps [simp del]

definition ReadPackedPrimitive :: "byte list \<Rightarrow> (u32 list \<times> byte list) option" where
  "ReadPackedPrimitive bs =
     (case ReadVarint32 bs of
        None \<Rightarrow> None
      | Some (n, r) \<Rightarrow>
          map_option (\<lambda>ws. (ws, drop (PushLimit n r) r)) (read_uint32s (take (PushLimit n r) r)))"

definition ExpectTag :: "u32 \<Rightarrow> byte list \<Rightarrow> byte list option" where
  "ExpectTag expected bs =
     (if expected < 2 ^ 7 then
        (case bs of b # r \<Rightarrow> if b = ucast expected then Some r else None | [] \<Rightarrow> None)
      else if expected < 2 ^ 14 then
        (case bs of
           b # c # r \<Rightarrow>
             if b = ucast (expected OR 0x80) \<and> c = ucast (drop_bit 7 expected) then Some r else None
         | _ \<Rightarrow> None)
      else None)"

text \<open>
  The capacity of a \<open>RepeatedField\<close> that has grown from nothing by \<open>Add\<close>: \<open>Reserve\<close> doubles it, and starts
  with four.
\<close>

fun rf_capacity :: "nat \<Rightarrow> nat" where
  "rf_capacity n =
     (if n = 0 then 0 else if n \<le> 4 then 4 else 2 * rf_capacity ((n + 1) div 2))"

declare rf_capacity.simps [simp del]

text \<open>
  \<open>ReadRepeatedPrimitive\<close>: one element, and as long as there is room in the array further elements that
  follow the expected tag.
\<close>

fun read_reserved :: "nat \<Rightarrow> u32 \<Rightarrow> u32 list \<Rightarrow> byte list \<Rightarrow> (u32 list \<times> byte list) option" where
  "read_reserved 0 tag ws bs = Some (ws, bs)"
| "read_reserved (Suc reserved) tag ws bs =
     (case ExpectTag tag bs of
        None \<Rightarrow> Some (ws, bs)
      | Some r \<Rightarrow>
          (case ReadVarint32 r of
             None \<Rightarrow> None
           | Some (w, r') \<Rightarrow> read_reserved reserved tag (ws @ [w]) r'))"

definition ReadRepeatedPrimitive :: "u32 \<Rightarrow> nat \<Rightarrow> byte list \<Rightarrow> (u32 list \<times> byte list) option" where
  "ReadRepeatedPrimitive tag count bs =
     (case ReadVarint32 bs of
        None \<Rightarrow> None
      | Some (w, r) \<Rightarrow> read_reserved (rf_capacity (count + 1) - (count + 1)) tag [w] r)"

fun pb_read :: "pb_type \<Rightarrow> byte list \<Rightarrow> (pb_val \<times> byte list) option" where
  "pb_read PB_int32 bs = map_option (\<lambda>(w, r). (Int32 w, r)) (ReadVarint32 bs)"
| "pb_read PB_uint32 bs = map_option (\<lambda>(w, r). (UInt32 w, r)) (ReadVarint32 bs)"
| "pb_read PB_bool bs = map_option (\<lambda>(v, r). (Bool (v \<noteq> 0), r)) (ReadVarint64 bs)"
| "pb_read PB_string bs = map_option (\<lambda>(v, r). (Str v, r)) (ReadString bs)"
| "pb_read PB_float bs = map_option (\<lambda>(v, r). (Float (le_word v), r)) (take_bytes 4 bs)"
| "pb_read (PB_enum cases) bs = map_option (\<lambda>(w, r). (Enum w, r)) (ReadVarint32 bs)"
| "pb_read _ bs = None"

text \<open>
  The code under the tag of a field that is not a sub-message. A number that is not one of the
  enumeration becomes an unknown field.
\<close>

definition store :: "nat \<times> pb_type \<Rightarrow> pb_val \<Rightarrow> pb_msg \<Rightarrow> pb_msg" where
  "store f v m =
     (case (snd f, v) of
        (PB_enum cases, Enum w) \<Rightarrow>
          if sint w \<in> set cases then pb_set (fst f) v m else add_unknown (U_varint (fst f) (scast w)) m
      | _ \<Rightarrow> pb_set (fst f) v m)"

definition read_field :: "nat \<times> pb_type \<Rightarrow> byte list \<Rightarrow> pb_msg \<Rightarrow> (pb_msg \<times> byte list) option" where
  "read_field f bs m =
     (if snd f = PB_packed_uint32 then
        map_option (\<lambda>(ws, r). (add_packed (fst f) ws m, r)) (ReadPackedPrimitive bs)
      else map_option (\<lambda>(v, r). (store f v m, r)) (pb_read (snd f) bs))"

text \<open>
  The parsing loop of the generated code with \<open>depth\<close> levels of recursion left, and the check of its
  caller that the message ends where the input ends: stopping at a zero tag or at the end of a group
  before that is a failure. The loops over repeated fields are turns of the same loop. The first
  argument bounds the number of steps; \<open>MergePartial_fuel\<close> shows that one more than the length of the
  input is enough.
\<close>

fun MergePartial :: "nat \<Rightarrow> nat \<Rightarrow> pb_schema \<Rightarrow> pb_msg \<Rightarrow> byte list \<Rightarrow> pb_msg option" where
  "MergePartial 0 depth sch m bs = None"
| "MergePartial (Suc fuel) depth sch m bs =
     (if bs = [] then Some m
      else let (tag, r) = ReadTag bs in
        case field_with_tag tag sch of
          Some f \<Rightarrow>
            (case sub_schema (snd f) of
               Some sub \<Rightarrow>
                 if depth = 0 then None
                 else (case MergePartial fuel (depth - 1) sub pb_new (fst (ReadLengthAndPushLimit r)) of
                         None \<Rightarrow> None
                       | Some x \<Rightarrow>
                           MergePartial fuel depth sch (add_message (fst f) x m)
                             (snd (ReadLengthAndPushLimit r)))
             | None \<Rightarrow>
                 (case read_field f r m of
                    None \<Rightarrow> None
                  | Some (m', r') \<Rightarrow> MergePartial fuel depth sch m' r'))
        | None \<Rightarrow>
            (case unpacked_with_tag tag sch of
               Some n \<Rightarrow>
                 (case ReadRepeatedPrimitive (MakeTag n 2) (length (get_packed n m)) r of
                    None \<Rightarrow> None
                  | Some (ws, r') \<Rightarrow> MergePartial fuel depth sch (add_packed n ws m) r')
             | None \<Rightarrow>
                 if tag = 0 \<or> GetTagWireType tag = 4 then None
                 else (case SkipField (2 * length bs) depth tag r of
                         None \<Rightarrow> None
                       | Some (u, r') \<Rightarrow> MergePartial fuel depth sch (add_unknown u m) r')))"

declare MergePartial.simps(2) [simp del]

definition ParseFromString :: "pb_schema \<Rightarrow> byte list \<Rightarrow> pb_msg option" where
  "ParseFromString sch bs = MergePartial (length bs + 1) 100 sch pb_new bs"

text \<open>A schema as protoc accepts it: positive distinct numbers below \<open>2 ^ 29\<close>.\<close>

fun good_type :: "pb_type \<Rightarrow> bool" and good_schema :: "pb_schema \<Rightarrow> bool" where
  "good_type (PB_message sch) = good_schema sch"
| "good_type _ = True"
| "good_schema [] = True"
| "good_schema ((n, t) # fs) \<longleftrightarrow>
     0 < n \<and> n < 2 ^ 29 \<and> n \<notin> fst ` set fs \<and> good_type t \<and> good_schema fs"

lemma good_schema_field:
  "good_schema sch \<Longrightarrow> f \<in> set sch \<Longrightarrow> 0 < fst f \<and> fst f < 2 ^ 29 \<and> good_type (snd f)"
  by (induction sch) auto

lemma good_schema_distinct: "good_schema sch \<Longrightarrow> distinct (map fst sch)"
proof (induction sch)
  case (Cons f sch)
  then show ?case by (cases f) simp
qed simp

lemma pb_wire_small: "pb_wire t < 8"
  by (cases t) simp_all

lemma field_tag_facts:
  assumes "0 < fst f" and "fst f < 2 ^ 29"
  shows "unat (field_tag f) = 8 * fst f + pb_wire (snd f)" "field_tag f \<noteq> 0"
    "GetTagFieldNumber (field_tag f) = fst f" "GetTagWireType (field_tag f) = pb_wire (snd f)"
  using tag_fields [OF assms(2) pb_wire_small [of "snd f"]] assms(1) by (simp_all add: field_tag_def)

lemma field_with_tag_number:
  "good_schema sch \<Longrightarrow> field_with_tag tag sch = Some f \<Longrightarrow>
     f \<in> set sch \<and> tag = field_tag f \<and> tag \<noteq> 0"
proof (induction sch)
  case (Cons g sch)
  then show ?case
    using field_tag_facts(2) [of g] by (cases g) (auto split: if_splits)
qed simp

lemma unpacked_with_tag_number:
  "good_schema sch \<Longrightarrow> unpacked_with_tag tag sch = Some n \<Longrightarrow>
     (n, PB_packed_uint32) \<in> set sch \<and> tag = MakeTag n 0 \<and> tag \<noteq> 0"
proof (induction sch)
  case (Cons g sch)
  then show ?case
    using tag_fields(4) [of "fst g" 0] by (cases g) (auto split: if_splits)
qed simp

lemma field_with_tag_Some:
  assumes "good_schema sch" and "f \<in> set sch"
  shows "field_with_tag (field_tag f) sch = Some f"
  using assms
proof (induction sch)
  case (Cons g sch)
  show ?case
  proof (cases "f = g")
    case False
    then have f: "f \<in> set sch" using Cons.prems(2) by simp
    have good: "good_schema sch" "fst g \<notin> fst ` set sch" "0 < fst g" "fst g < 2 ^ 29"
      using Cons.prems(1) by (cases g; simp)+
    have "fst f \<noteq> fst g" using f good(2) by (metis image_eqI)
    then have "field_tag f \<noteq> field_tag g"
      using good_schema_field [OF good(1) f] good(3,4) field_tag_facts(3) [of f] field_tag_facts(3) [of g]
      by auto
    then show ?thesis using Cons.IH [OF good(1) f] by simp
  qed simp
qed simp

subsection \<open>The step bounds are enough\<close>

lemma ReadLengthAndPushLimit_shorter:
  "length (fst (ReadLengthAndPushLimit bs)) + length (snd (ReadLengthAndPushLimit bs)) \<le> length bs"
  by (auto simp: ReadLengthAndPushLimit_def split: option.split dest: ReadVarint_shorter(2))

lemma pb_read_shorter: "pb_read t bs = Some (v, r) \<Longrightarrow> length r \<le> length bs"
  by (cases t) (auto dest: ReadVarint_shorter ReadString_shorter take_bytes_shorter)

lemma read_field_shorter: "read_field f bs m = Some (m', r) \<Longrightarrow> length r \<le> length bs"
  by (auto simp: read_field_def ReadPackedPrimitive_def split: if_splits option.splits
      dest: pb_read_shorter ReadVarint_shorter(2))

lemma ExpectTag_shorter: "ExpectTag tag bs = Some r \<Longrightarrow> length r < length bs"
  by (auto simp: ExpectTag_def split: if_splits list.splits)

lemma read_reserved_shorter:
  "read_reserved k tag ws bs = Some (ws', r) \<Longrightarrow> length r \<le> length bs"
proof (induction k tag ws bs rule: read_reserved.induct)
  case (2 reserved tag ws bs)
  then show ?case
    by (fastforce split: option.splits dest: ExpectTag_shorter ReadVarint_shorter(2))
qed simp

lemma ReadRepeatedPrimitive_shorter:
  "ReadRepeatedPrimitive tag count bs = Some (ws, r) \<Longrightarrow> length r \<le> length bs"
  by (auto simp: ReadRepeatedPrimitive_def split: option.splits
      dest!: read_reserved_shorter ReadVarint_shorter(2))

lemma MergePartial_fuel:
  "good_schema sch \<Longrightarrow> length bs < fuel \<Longrightarrow> length bs < g \<Longrightarrow>
     MergePartial fuel depth sch m bs = MergePartial g depth sch m bs"
proof (induction fuel depth sch m bs arbitrary: g rule: MergePartial.induct)
  case (2 fuel depth sch m bs)
  obtain h where g: "g = Suc h" using 2(8) by (cases g) auto
  obtain tag r where t: "ReadTag bs = (tag, r)" by (cases "ReadTag bs")
  show ?case
  proof (cases "bs = []")
    case True
    then show ?thesis by (simp add: g MergePartial.simps(2))
  next
    case ne: False
    have shorter: "length r < fuel" "length r < h" if "tag \<noteq> 0"
      using ReadTag_shorter [OF t that] 2(7,8) g by simp_all
    show ?thesis
    proof (cases "field_with_tag tag sch")
      case None
      show ?thesis
      proof (cases "unpacked_with_tag tag sch")
        case unk: None
        show ?thesis
        proof (cases "tag = 0 \<or> GetTagWireType tag = 4")
          case True
          then show ?thesis using None unk t ne by (auto simp: g MergePartial.simps(2))
        next
          case False
          have "MergePartial fuel depth sch (add_unknown u m) r' = MergePartial h depth sch (add_unknown u m) r'"
            if r': "SkipField (2 * length bs) depth tag r = Some (u, r')" for u r'
            by (rule 2(1) [OF ne t [symmetric] refl None unk False r' refl 2(6)])
              (use shorter False Skip_shorter(1) [OF r'] in auto)
          then show ?thesis
            using None unk False t ne by (auto simp: g MergePartial.simps(2) split: option.split)
        qed
      next
        case (Some n)
        have "tag \<noteq> 0" using unpacked_with_tag_number [OF 2(6) Some] by blast
        then have "MergePartial fuel depth sch (add_packed n ws m) r' = MergePartial h depth sch (add_packed n ws m) r'"
          if r': "ReadRepeatedPrimitive (MakeTag n 2) (length (get_packed n m)) r = Some (ws, r')" for ws r'
          by (intro 2(2) [OF ne t [symmetric] refl None Some r' refl 2(6)])
            (use shorter ReadRepeatedPrimitive_shorter [OF r'] in auto)
        then show ?thesis
          using None Some t ne by (auto simp: g MergePartial.simps(2) split: option.split)
      qed
    next
      case (Some f)
      have tag: "tag \<noteq> 0" and f: "f \<in> set sch"
        using field_with_tag_number [OF 2(6) Some] by auto
      show ?thesis
      proof (cases "sub_schema (snd f)")
        case None
        have "MergePartial fuel depth sch m' r' = MergePartial h depth sch m' r'"
          if r': "read_field f r m = Some (m', r')" for m' r'
          by (rule 2(3) [OF ne t [symmetric] refl Some None r' refl 2(6)])
            (use shorter [OF tag] read_field_shorter [OF r'] in auto)
        then show ?thesis
          using None Some t ne by (auto simp: g MergePartial.simps(2) split: option.split)
      next
        case sub: (Some sub)
        then have good: "good_schema sub"
          using good_schema_field [OF 2(6) f] by (cases "snd f") auto
        show ?thesis
        proof (cases "depth = 0")
          case True
          then show ?thesis using sub Some t ne by (simp add: g MergePartial.simps(2))
        next
          case d: False
          let ?B = "ReadLengthAndPushLimit r"
          have len: "length (fst ?B) < fuel" "length (fst ?B) < h" "length (snd ?B) < fuel" "length (snd ?B) < h"
            using shorter [OF tag] ReadLengthAndPushLimit_shorter [of r] by auto
          have body: "MergePartial fuel (depth - 1) sub pb_new (fst ?B) = MergePartial h (depth - 1) sub pb_new (fst ?B)"
            by (rule 2(4) [OF ne t [symmetric] refl Some sub d good len(1,2)])
          have "MergePartial fuel depth sch (add_message (fst f) x m) (snd ?B) =
              MergePartial h depth sch (add_message (fst f) x m) (snd ?B)"
            if "MergePartial fuel (depth - 1) sub pb_new (fst ?B) = Some x" for x
            by (rule 2(5) [OF ne t [symmetric] refl Some sub d that 2(6) len(3,4)])
          then show ?thesis
            using body sub Some t ne d by (auto simp: g MergePartial.simps(2) split: option.split)
        qed
      qed
    qed
  qed
qed simp

subsection \<open>Writing\<close>

text \<open>An \<open>int32\<close> or an enumeration is written as a 64-bit number with its sign.\<close>

fun pb_write :: "pb_val \<Rightarrow> byte list" where
  "pb_write (Int32 w) = WriteVarint64 (scast w)"
| "pb_write (UInt32 w) = WriteVarint32 w"
| "pb_write (Bool b) = [if b then 1 else 0]"
| "pb_write (Str str) = WriteVarint32 (word_of_nat (length str)) @ str"
| "pb_write (Float f) = le_bytes 4 f"
| "pb_write (Enum w) = WriteVarint64 (scast w)"
| "pb_write _ = []"

fun pb_size :: "pb_val \<Rightarrow> nat" where
  "pb_size (Int32 w) = VarintSize32SignExtended w"
| "pb_size (UInt32 w) = VarintSize32 w"
| "pb_size (Bool b) = 1"
| "pb_size (Str str) = VarintSize32 (word_of_nat (length str)) + length str"
| "pb_size (Float f) = 4"
| "pb_size (Enum w) = VarintSize32SignExtended w"
| "pb_size _ = 0"

definition packed_size :: "u32 list \<Rightarrow> nat" where
  "packed_size ws = sum_list (map VarintSize32 ws)"

text \<open>
  \<open>ByteSize\<close>, with sizes as natural numbers (the code adds them up in an \<open>int\<close>): the part of one
  field, and of all fields.
\<close>

fun field_size :: "nat \<Rightarrow> pb_type \<Rightarrow> pb_val \<Rightarrow> nat"
  and fields_size :: "pb_schema \<Rightarrow> pb_msg \<Rightarrow> nat" where
  "field_size n (PB_message sub) v =
     (case v of
        Messages xs \<Rightarrow>
          sum_list (map (\<lambda>x.
            let len = fields_size sub x + ComputeUnknownFieldsSize (pb_unknown x)
            in VarintSize32 (MakeTag n 2) + (VarintSize32 (word_of_nat len) + len)) xs)
      | _ \<Rightarrow> 0)"
| "field_size n PB_packed_uint32 v =
     (case v of
        Packed ws \<Rightarrow>
          (if 0 < packed_size ws
           then VarintSize32 (MakeTag n 2) + VarintSize32SignExtended (word_of_nat (packed_size ws)) else 0)
          + packed_size ws
      | _ \<Rightarrow> 0)"
| "field_size n t v = VarintSize32 (field_tag (n, t)) + pb_size v"
| "fields_size [] m = 0"
| "fields_size ((n, t) # fs) m =
     (case pb_fields m n of None \<Rightarrow> 0 | Some v \<Rightarrow> field_size n t v) + fields_size fs m"

definition ByteSize :: "pb_schema \<Rightarrow> pb_msg \<Rightarrow> nat" where
  "ByteSize sch m = fields_size sch m + ComputeUnknownFieldsSize (pb_unknown m)"

text \<open>
  \<open>SerializeWithCachedSizesToArray\<close>: the cached sizes that are written before sub-messages and packed
  elements are those of \<open>ByteSize\<close>.
\<close>

fun field_bytes :: "nat \<Rightarrow> pb_type \<Rightarrow> pb_val \<Rightarrow> byte list"
  and fields_bytes :: "pb_schema \<Rightarrow> pb_msg \<Rightarrow> byte list" where
  "field_bytes n (PB_message sub) v =
     (case v of
        Messages xs \<Rightarrow>
          concat (map (\<lambda>x.
            WriteVarint32 (MakeTag n 2) @ WriteVarint32 (word_of_nat (ByteSize sub x))
            @ fields_bytes sub x @ SerializeUnknownFields (pb_unknown x)) xs)
      | _ \<Rightarrow> [])"
| "field_bytes n PB_packed_uint32 v =
     (case v of
        Packed ws \<Rightarrow>
          (if ws \<noteq> [] then WriteVarint32 (MakeTag n 2) @ WriteVarint32 (word_of_nat (packed_size ws)) else [])
          @ concat (map WriteVarint32 ws)
      | _ \<Rightarrow> [])"
| "field_bytes n t v = WriteVarint32 (field_tag (n, t)) @ pb_write v"
| "fields_bytes [] m = []"
| "fields_bytes ((n, t) # fs) m =
     (case pb_fields m n of None \<Rightarrow> [] | Some v \<Rightarrow> field_bytes n t v) @ fields_bytes fs m"

text \<open>
  \<open>AppendPartialToString\<close> tests \<open>byte_size < 0\<close> before it writes, for messages of 2 GB and more whose \<open>ByteSize\<close>
  has overflowed its \<open>int\<close>. Sizes are natural numbers here, and such a message does not fit into the address
  space of the 32-bit build, so the test is left out.
\<close>

definition SerializeAsString :: "pb_schema \<Rightarrow> pb_msg \<Rightarrow> byte list" where
  "SerializeAsString sch m = fields_bytes sch m @ SerializeUnknownFields (pb_unknown m)"

text \<open>
  \<open>SerializeAsString\<close> allocates \<open>ByteSize\<close> bytes and checks that as many have been written; they always
  have, as long as the elements of a packed field take less than \<open>2 ^ 31\<close> bytes.
\<close>

fun sizes_ok :: "pb_type \<Rightarrow> pb_val \<Rightarrow> bool" and all_sizes_ok :: "pb_schema \<Rightarrow> pb_msg \<Rightarrow> bool" where
  "sizes_ok (PB_message sub) v \<longleftrightarrow> (case v of Messages xs \<Rightarrow> list_all (all_sizes_ok sub) xs | _ \<Rightarrow> True)"
| "sizes_ok PB_packed_uint32 v \<longleftrightarrow> (case v of Packed ws \<Rightarrow> packed_size ws < 2 ^ 31 | _ \<Rightarrow> True)"
| "sizes_ok t v \<longleftrightarrow> True"
| "all_sizes_ok [] m \<longleftrightarrow> True"
| "all_sizes_ok ((n, t) # fs) m \<longleftrightarrow>
     (case pb_fields m n of None \<Rightarrow> True | Some v \<Rightarrow> sizes_ok t v) \<and> all_sizes_ok fs m"

lemma pb_size_eq: "pb_size v = length (pb_write v)"
  by (cases v) (simp_all add: VarintSize32_eq VarintSize32SignExtended_eq)

lemma packed_size_eq: "packed_size ws = length (concat (map WriteVarint32 ws))"
  by (induction ws) (simp_all add: packed_size_def VarintSize32_eq)

lemma SignExtended_small: "n < 2 ^ 31 \<Longrightarrow>
    VarintSize32SignExtended (word_of_nat n) = VarintSize32 (word_of_nat n)"
  by (simp add: VarintSize32SignExtended_def signed_of_nat signed_take_bit_int_eq_self)

lemma fields_size_eq:
  "sizes_ok t v \<Longrightarrow> field_size n t v = length (field_bytes n t v)"
  "all_sizes_ok sch m \<Longrightarrow> fields_size sch m = length (fields_bytes sch m)"
proof (induction n t v and sch m rule: field_size_fields_size.induct)
  case (1 n sub v)
  show ?case
  proof (cases v)
    case (Messages xs)
    have "sum_list (map (\<lambda>x. let len = fields_size sub x + ComputeUnknownFieldsSize (pb_unknown x)
            in VarintSize32 (MakeTag n 2) + (VarintSize32 (word_of_nat len) + len)) ys) =
        length (concat (map (\<lambda>x. WriteVarint32 (MakeTag n 2) @ WriteVarint32 (word_of_nat (ByteSize sub x))
            @ fields_bytes sub x @ SerializeUnknownFields (pb_unknown x)) ys))"
      if "set ys \<subseteq> set xs" for ys
      using that 1 Messages
      by (induction ys)
        (auto simp: Let_def VarintSize32_eq ByteSize_def ComputeUnknownFieldsSize_eq list_all_iff)
    then show ?thesis using Messages by simp
  qed simp_all
next
  case (2 n v)
  show ?case
  proof (cases v)
    case (Packed ws)
    have "packed_size ws = 0 \<longleftrightarrow> ws = []"
      using WriteVarint32_nonempty by (cases ws) (simp_all add: packed_size_eq)
    then show ?thesis
      using Packed 2 SignExtended_small [of "packed_size ws"]
      by (cases "ws = []") (simp_all add: VarintSize32_eq packed_size_eq [symmetric] del: length_concat)
  qed simp_all
qed (simp_all add: VarintSize32_eq pb_size_eq split: option.splits)

lemma ByteSize_eq: "all_sizes_ok sch m \<Longrightarrow> ByteSize sch m = length (SerializeAsString sch m)"
  by (simp add: ByteSize_def SerializeAsString_def fields_size_eq(2) ComputeUnknownFieldsSize_eq)

subsection \<open>Merging\<close>

text \<open>The generated \<open>MergeFrom\<close>: a field that is set in the source is set in the target, repeated
  fields and the unknown ones are appended.\<close>

fun merge_val :: "pb_val option \<Rightarrow> pb_val \<Rightarrow> pb_val" where
  "merge_val (Some (Packed ws)) (Packed ws') = Packed (ws @ ws')"
| "merge_val (Some (Messages xs)) (Messages xs') = Messages (xs @ xs')"
| "merge_val old v = v"

definition MergeFrom :: "pb_msg \<Rightarrow> pb_msg \<Rightarrow> pb_msg" where
  "MergeFrom from m =
     Msg (\<lambda>n. case pb_fields from n of
               None \<Rightarrow> pb_fields m n
             | Some v \<Rightarrow> Some (merge_val (pb_fields m n) v))
         (pb_unknown m @ pb_unknown from)"

lemma merge_val_None [simp]: "merge_val None v = v"
  by (cases v) simp_all

lemma MergeFrom_new: "MergeFrom m pb_new = m"
  by (cases m) (auto simp: MergeFrom_def fun_eq_iff split: option.split)

subsection \<open>The other generated members\<close>

definition has_field :: "nat \<Rightarrow> pb_msg \<Rightarrow> bool" where
  "has_field n m \<longleftrightarrow> pb_fields m n \<noteq> None"

definition clear_field :: "nat \<Rightarrow> pb_msg \<Rightarrow> pb_msg" where
  "clear_field n m = Msg ((pb_fields m)(n := None)) (pb_unknown m)"

definition set_field :: "nat \<Rightarrow> pb_val \<Rightarrow> pb_msg \<Rightarrow> pb_msg" where
  "set_field n v m = pb_set n v m"

text \<open>The setter of an enumeration asserts that the number is one of it.\<close>

definition set_enum :: "int list \<Rightarrow> nat \<Rightarrow> u32 \<Rightarrow> pb_msg \<Rightarrow> pb_msg res" where
  "set_enum cases n w m = (if sint w \<in> set cases then Inr (set_field n (Enum w) m) else Inl AssertFailed)"

definition Clear :: "pb_msg \<Rightarrow> pb_msg" where
  "Clear m = pb_new"

text \<open>\<open>same\<close>: the source is the object itself.\<close>

definition CopyFrom :: "bool \<Rightarrow> pb_msg \<Rightarrow> pb_msg \<Rightarrow> pb_msg" where
  "CopyFrom same from m = (if same then m else MergeFrom from (Clear m))"

definition InternalSwap :: "pb_msg \<Rightarrow> pb_msg \<Rightarrow> pb_msg \<times> pb_msg" where
  "InternalSwap m other = (other, m)"

lemma CopyFrom_copies: "CopyFrom (from = m) from m = from"
  by (simp add: CopyFrom_def Clear_def MergeFrom_new)

lemma MergeFrom_empty: "MergeFrom pb_new m = m"
  by (cases m) (simp add: MergeFrom_def)

lemma has_field_set: "has_field k (set_field n v m) \<longleftrightarrow> k = n \<or> has_field k m"
  by (simp add: has_field_def set_field_def)

lemma has_field_clear: "has_field k (clear_field n m) \<longleftrightarrow> k \<noteq> n \<and> has_field k m"
  by (simp add: has_field_def clear_field_def)

lemma has_field_merge: "has_field k (MergeFrom from m) \<longleftrightarrow> has_field k from \<or> has_field k m"
  by (simp add: has_field_def MergeFrom_def split: option.split)

subsection \<open>Messages that fit their schema\<close>

text \<open>
  \<open>depth\<close> levels of recursion are left. An unknown field must not have the tag of a known one, unless it is a
  number that the enumeration of that field does not have.
\<close>

definition unknown_fits :: "nat \<Rightarrow> pb_schema \<Rightarrow> unknown_field \<Rightarrow> bool" where
  "unknown_fits depth sch u \<longleftrightarrow>
     unknown_ok depth u \<and> unpacked_with_tag (unknown_tag u) sch = None
     \<and> (case field_with_tag (unknown_tag u) sch of
          None \<Rightarrow> True
        | Some f \<Rightarrow>
            (case (snd f, u) of
               (PB_enum cases, U_varint n v) \<Rightarrow>
                 v = scast (ucast v :: u32) \<and> sint (ucast v :: u32) \<notin> set cases
             | _ \<Rightarrow> False))"

fun scalar_fits :: "pb_type \<Rightarrow> pb_val \<Rightarrow> bool" where
  "scalar_fits PB_int32 (Int32 w) \<longleftrightarrow> True"
| "scalar_fits PB_uint32 (UInt32 w) \<longleftrightarrow> True"
| "scalar_fits PB_bool (Bool b) \<longleftrightarrow> True"
| "scalar_fits PB_string (Str str) \<longleftrightarrow> length str < 2 ^ 31"
| "scalar_fits PB_float (Float w) \<longleftrightarrow> True"
| "scalar_fits (PB_enum cases) (Enum w) \<longleftrightarrow> sint w \<in> set cases"
| "scalar_fits t v \<longleftrightarrow> False"

fun val_fits :: "nat \<Rightarrow> pb_type \<Rightarrow> pb_val \<Rightarrow> bool"
  and fields_fit :: "nat \<Rightarrow> pb_schema \<Rightarrow> pb_msg \<Rightarrow> bool" where
  "val_fits depth (PB_message sub) v \<longleftrightarrow>
     (case v of
        Messages xs \<Rightarrow>
          xs \<noteq> [] \<and> 0 < depth
          \<and> list_all (\<lambda>x. fields_fit (depth - 1) sub x \<and> dom (pb_fields x) \<subseteq> fst ` set sub
              \<and> list_all (unknown_fits (depth - 1) sub) (pb_unknown x) \<and> ByteSize sub x < 2 ^ 31) xs
      | _ \<Rightarrow> False)"
| "val_fits depth PB_packed_uint32 v \<longleftrightarrow>
     (case v of Packed ws \<Rightarrow> ws \<noteq> [] \<and> packed_size ws < 2 ^ 31 | _ \<Rightarrow> False)"
| "val_fits depth t v \<longleftrightarrow> scalar_fits t v"
| "fields_fit depth [] m \<longleftrightarrow> True"
| "fields_fit depth ((n, t) # fs) m \<longleftrightarrow>
     (case pb_fields m n of None \<Rightarrow> True | Some v \<Rightarrow> val_fits depth t v) \<and> fields_fit depth fs m"

definition msg_fits_at :: "nat \<Rightarrow> pb_schema \<Rightarrow> pb_msg \<Rightarrow> bool" where
  "msg_fits_at depth sch m \<longleftrightarrow>
     fields_fit depth sch m \<and> dom (pb_fields m) \<subseteq> fst ` set sch
     \<and> list_all (unknown_fits depth sch) (pb_unknown m)"

definition msg_fits :: "pb_schema \<Rightarrow> pb_msg \<Rightarrow> bool" where
  "msg_fits sch m \<longleftrightarrow> msg_fits_at 100 sch m"

lemma fits_sizes_ok:
  "val_fits depth t v \<Longrightarrow> sizes_ok t v"
  "fields_fit depth sch m \<Longrightarrow> all_sizes_ok sch m"
  by (induction depth t v and depth sch m rule: val_fits_fields_fit.induct)
    (auto simp: list_all_iff split: pb_val.splits option.splits)

lemma ByteSize_fits: "msg_fits_at depth sch m \<Longrightarrow> ByteSize sch m = length (SerializeAsString sch m)"
  by (auto simp: msg_fits_at_def intro: ByteSize_eq fits_sizes_ok(2))

text \<open>Merging is associative on messages of one schema.\<close>

lemma fields_fit_val:
  "fields_fit depth sch m \<Longrightarrow> (n, t) \<in> set sch \<Longrightarrow> pb_fields m n = Some v \<Longrightarrow> val_fits depth t v"
proof (induction sch)
  case (Cons f sch)
  then show ?case by (cases f) auto
qed simp

lemma merge_val_assoc:
  "val_fits depth t u \<Longrightarrow> val_fits depth t v \<Longrightarrow> val_fits depth t w \<Longrightarrow>
     merge_val (Some (merge_val (Some u) v)) w = merge_val (Some u) (merge_val (Some v) w)"
  by (cases t) (auto simp: scalar_fits.simps split: pb_val.splits elim: scalar_fits.elims)

lemma MergeFrom_assoc:
  assumes "msg_fits sch a" and "msg_fits sch b" and "msg_fits sch c"
  shows "MergeFrom c (MergeFrom b a) = MergeFrom (MergeFrom c b) a"
proof -
  have "merge_val (Some (merge_val (pb_fields a n) v)) w = merge_val (pb_fields a n) (merge_val (Some v) w)"
    if vw: "pb_fields b n = Some v" "pb_fields c n = Some w" for n v w
  proof (cases "pb_fields a n")
    case (Some u)
    have "n \<in> fst ` set sch"
      using assms(1) Some unfolding msg_fits_def msg_fits_at_def by blast
    then obtain t where "(n, t) \<in> set sch" by auto
    then have "val_fits 100 t u" "val_fits 100 t v" "val_fits 100 t w"
      using assms Some vw fields_fit_val unfolding msg_fits_def msg_fits_at_def by blast+
    then show ?thesis using Some by (simp add: merge_val_assoc)
  qed simp
  then show ?thesis
    by (auto simp: MergeFrom_def fun_eq_iff split: option.split)
qed

subsection \<open>A serialised message is parsed again\<close>

lemma scast_back: "ucast (scast w :: u64) = (w :: u32)"
  by (rule bit_word_eqI) (auto simp: bit_simps)

lemma Bool_byte: "ReadVarint64 (b # rest) = Some (ucast b, rest)" if "b = 0 \<or> b = 1"
  using that by (auto simp: ReadVarint64_def)

lemma ReadVarint32_Write_signed: "ReadVarint32 (WriteVarint64 (scast w) @ rest) = Some (w, rest)"
  by (simp add: ReadVarint32_def ReadVarint64_Write scast_back)

lemma pb_read_write:
  "scalar_fits t v \<Longrightarrow> pb_read t (pb_write v @ rest) = Some (v, rest)"
  by (induction t v rule: scalar_fits.induct)
    (simp_all add: ReadVarint32_Write_signed ReadVarint32_Write Bool_byte
      ReadString_Write take_bytes_def le_word_back)

lemma scalar_store: "scalar_fits (snd f) v \<Longrightarrow> store f v m = pb_set (fst f) v m"
  by (cases "snd f"; cases v) (simp_all add: store_def)

lemma scalar_merge: "scalar_fits t v \<Longrightarrow> merge_val old v = v"
  by (induction t v rule: scalar_fits.induct) simp_all

lemma scalar_field:
  assumes "scalar_fits t v"
  shows "field_bytes n t v = WriteVarint32 (field_tag (n, t)) @ pb_write v"
    "sub_schema t = None" "t \<noteq> PB_packed_uint32" "val_fits depth t v"
  using assms by (induction t v rule: scalar_fits.induct) simp_all

lemma PushLimit_exact: "n < 2 ^ 31 \<Longrightarrow> n \<le> length bs \<Longrightarrow> PushLimit (word_of_nat n) bs = n"
  by (simp add: PushLimit_def signed_of_nat signed_take_bit_int_eq_self)

lemma read_uint32s_Write: "read_uint32s (concat (map WriteVarint32 ws)) = Some ws"
proof (induction ws)
  case Nil
  then show ?case by (simp add: read_uint32s.simps)
next
  case (Cons w ws)
  then show ?case
    using WriteVarint32_nonempty [of w] by (subst read_uint32s.simps) (simp add: ReadVarint32_Write)
qed

lemma ReadPackedPrimitive_Write:
  assumes "packed_size ws < 2 ^ 31"
  shows "ReadPackedPrimitive (WriteVarint32 (word_of_nat (packed_size ws)) @ concat (map WriteVarint32 ws) @ rest) =
    Some (ws, rest)"
  using assms PushLimit_exact [of "packed_size ws" "concat (map WriteVarint32 ws) @ rest"]
  by (simp add: ReadPackedPrimitive_def ReadVarint32_Write packed_size_eq read_uint32s_Write
      del: length_concat)

lemma ReadLengthAndPushLimit_Write:
  assumes "length bs < 2 ^ 31"
  shows "ReadLengthAndPushLimit (WriteVarint32 (word_of_nat (length bs)) @ bs @ rest) = (bs, rest)"
  using assms PushLimit_exact [of "length bs" "bs @ rest"]
  by (simp add: ReadLengthAndPushLimit_def ReadVarint32_Write)

text \<open>One turn of the loop on a known tag.\<close>

lemma Merge_step:
  assumes "good_schema sch" and "f \<in> set sch" and "sub_schema (snd f) = None"
    and "read_field f (bs @ rest) m = Some (m', rest)"
    and "length (WriteVarint32 (field_tag f) @ bs @ rest) < fuel"
  shows "MergePartial fuel depth sch m (WriteVarint32 (field_tag f) @ bs @ rest) =
    MergePartial (length rest + 1) depth sch m' rest"
proof -
  obtain g where g: "fuel = Suc g" using assms(5) by (cases fuel) auto
  have "MergePartial fuel depth sch m (WriteVarint32 (field_tag f) @ bs @ rest) =
      MergePartial g depth sch m' rest"
    using WriteVarint32_nonempty [of "field_tag f"] field_with_tag_Some [OF assms(1,2)] assms(3,4)
    by (simp add: g MergePartial.simps(2) ReadTag_Write)
  also have "\<dots> = MergePartial (length rest + 1) depth sch m' rest"
    using assms(5) g WriteVarint32_nonempty [of "field_tag f"]
    by (intro MergePartial_fuel [OF assms(1)]) (cases "WriteVarint32 (field_tag f)"; simp)+
  finally show ?thesis .
qed

lemma Merge_scalar:
  assumes "good_schema sch" and "f \<in> set sch" and "scalar_fits (snd f) v"
    and "length (field_bytes (fst f) (snd f) v @ rest) < fuel"
  shows "MergePartial fuel depth sch m (field_bytes (fst f) (snd f) v @ rest) =
    MergePartial (length rest + 1) depth sch (pb_set (fst f) v m) rest"
proof -
  note s = scalar_field [OF assms(3)]
  have "read_field f (pb_write v @ rest) m = Some (pb_set (fst f) v m, rest)"
    using pb_read_write [OF assms(3)] s(3) scalar_store [OF assms(3)] by (simp add: read_field_def)
  then show ?thesis
    using Merge_step [OF assms(1,2) s(2), of "pb_write v" rest m _ fuel depth] assms(4) s(1)
    by simp
qed

lemma Merge_packed:
  assumes "good_schema sch" and "(n, PB_packed_uint32) \<in> set sch" and "ws \<noteq> []"
    and "packed_size ws < 2 ^ 31" and "length (field_bytes n PB_packed_uint32 (Packed ws) @ rest) < fuel"
  shows "MergePartial fuel depth sch m (field_bytes n PB_packed_uint32 (Packed ws) @ rest) =
    MergePartial (length rest + 1) depth sch (pb_set n (merge_val (pb_fields m n) (Packed ws)) m) rest"
proof -
  let ?bs = "WriteVarint32 (word_of_nat (packed_size ws)) @ concat (map WriteVarint32 ws)"
  have "add_packed n ws m = pb_set n (merge_val (pb_fields m n) (Packed ws)) m"
    using assms(3) by (auto simp: add_packed_def get_packed_def split: option.split pb_val.split)
  then have "read_field (n, PB_packed_uint32) (?bs @ rest) m =
      Some (pb_set n (merge_val (pb_fields m n) (Packed ws)) m, rest)"
    using ReadPackedPrimitive_Write [OF assms(4)] by (simp add: read_field_def)
  then show ?thesis
    using Merge_step [OF assms(1,2), of ?bs rest m _ fuel depth] assms(3,5)
    by (simp add: field_tag_def)
qed

lemma merge_messages_cons:
  "merge_val (Some (merge_val old (Messages [x]))) (Messages xs) = merge_val old (Messages (x # xs))"
proof (cases old)
  case (Some v)
  then show ?thesis by (cases v) simp_all
qed simp

text \<open>Sub-messages, given that each alone is parsed again with one level less.\<close>

lemma Merge_messages:
  assumes "good_schema sch" and "(n, PB_message sub) \<in> set sch" and "0 < depth"
    and "\<And>x. x \<in> set xs \<Longrightarrow> msg_fits_at (depth - 1) sub x \<and> ByteSize sub x < 2 ^ 31
      \<and> MergePartial (length (SerializeAsString sub x) + 1) (depth - 1) sub pb_new (SerializeAsString sub x) = Some x"
    and "length (field_bytes n (PB_message sub) (Messages xs) @ rest) < fuel" and "xs \<noteq> []"
  shows "MergePartial fuel depth sch m (field_bytes n (PB_message sub) (Messages xs) @ rest) =
    MergePartial (length rest + 1) depth sch (pb_set n (merge_val (pb_fields m n) (Messages xs)) m) rest"
  using assms(4-6)
proof (induction xs arbitrary: m fuel)
  case (Cons x xs)
  let ?B = "field_bytes n (PB_message sub) (Messages xs) @ rest"
  let ?X = "SerializeAsString sub x"
  have x: "msg_fits_at (depth - 1) sub x" "ByteSize sub x < 2 ^ 31"
    "MergePartial (length ?X + 1) (depth - 1) sub pb_new ?X = Some x"
    using Cons.prems(1) [of x] by simp_all
  have size: "ByteSize sub x = length ?X" by (rule ByteSize_fits [OF x(1)])
  have bytes: "field_bytes n (PB_message sub) (Messages (x # xs)) @ rest =
      WriteVarint32 (field_tag (n, PB_message sub)) @ WriteVarint32 (word_of_nat (length ?X)) @ ?X @ ?B"
    by (simp add: size field_tag_def SerializeAsString_def)
  obtain g where g: "fuel = Suc g" using Cons.prems(2) by (cases fuel) auto
  have len: "length ?X < g" "length ?B < g"
    using Cons.prems(2) WriteVarint32_nonempty [of "field_tag (n, PB_message sub)"]
    unfolding bytes g by (cases "WriteVarint32 (field_tag (n, PB_message sub))"; simp)+
  have sub: "good_schema sub" using good_schema_field [OF assms(1,2)] by simp
  have body: "MergePartial g (depth - 1) sub pb_new ?X = Some x"
    using x(3) MergePartial_fuel [OF sub, of ?X g "length ?X + 1" "depth - 1" pb_new] len(1) by simp
  let ?m = "add_message n x m"
  have step: "MergePartial fuel depth sch m (field_bytes n (PB_message sub) (Messages (x # xs)) @ rest) =
      MergePartial g depth sch ?m ?B"
    unfolding bytes g
    using WriteVarint32_nonempty [of "field_tag (n, PB_message sub)"]
      field_with_tag_Some [OF assms(1,2)] assms(3) body
      ReadLengthAndPushLimit_Write [of ?X ?B] x(2) size
    by (simp add: MergePartial.simps(2) ReadTag_Write)
  have m: "?m = pb_set n (merge_val (pb_fields m n) (Messages [x])) m"
    by (auto simp: add_message_def get_messages_def split: option.split pb_val.split)
  show ?case
  proof (cases "xs = []")
    case True
    then have rest: "?B = rest" by simp
    have "MergePartial g depth sch ?m rest = MergePartial (length rest + 1) depth sch ?m rest"
      using len(2) unfolding rest by (intro MergePartial_fuel [OF assms(1)]) simp_all
    then show ?thesis unfolding step rest unfolding m True .
  next
    case False
    have "MergePartial g depth sch ?m ?B =
        MergePartial (length rest + 1) depth sch
          (pb_set n (merge_val (pb_fields ?m n) (Messages xs)) ?m) rest"
      using Cons.prems(1) len(2) False by (intro Cons.IH) simp_all
    also have "pb_set n (merge_val (pb_fields ?m n) (Messages xs)) ?m =
        pb_set n (merge_val (pb_fields m n) (Messages (x # xs))) m"
      unfolding m by (simp add: merge_messages_cons)
    finally show ?thesis unfolding step .
  qed
qed simp

text \<open>A field of any type, at a level below which messages are known to be parsed again.\<close>

lemma Merge_field:
  assumes "good_schema sch" and "f \<in> set sch" and "val_fits depth (snd f) v"
    and below: "\<And>sub x. good_schema sub \<Longrightarrow> 0 < depth \<Longrightarrow> msg_fits_at (depth - 1) sub x \<Longrightarrow>
      MergePartial (length (SerializeAsString sub x) + 1) (depth - 1) sub pb_new (SerializeAsString sub x) = Some x"
    and "length (field_bytes (fst f) (snd f) v @ rest) < fuel"
  shows "MergePartial fuel depth sch m (field_bytes (fst f) (snd f) v @ rest) =
    MergePartial (length rest + 1) depth sch (pb_set (fst f) (merge_val (pb_fields m (fst f)) v) m) rest"
proof -
  obtain n t where f: "f = (n, t)" by (cases f)
  consider (scalar) "scalar_fits t v" | (packed) "t = PB_packed_uint32" | sub where "t = PB_message sub"
    using assms(3) f by (cases t) auto
  then show ?thesis
  proof cases
    case scalar
    then show ?thesis
      using Merge_scalar [OF assms(1,2) _ assms(5)] by (simp add: f scalar_merge)
  next
    case packed
    then obtain ws where "v = Packed ws" "ws \<noteq> []" "packed_size ws < 2 ^ 31"
      using assms(3) f by (cases v) auto
    then show ?thesis
      using Merge_packed [OF assms(1), of n ws rest fuel depth m] assms(2,5) packed by (simp add: f)
  next
    case 3
    then obtain xs where xs: "v = Messages xs" "xs \<noteq> []" "0 < depth"
      "\<And>x. x \<in> set xs \<Longrightarrow> msg_fits_at (depth - 1) sub x \<and> ByteSize sub x < 2 ^ 31"
      using assms(3) f by (cases v) (auto simp: list_all_iff msg_fits_at_def)
    have sub: "good_schema sub" using good_schema_field [OF assms(1,2)] f 3 by simp
    have "MergePartial fuel depth sch m (field_bytes n (PB_message sub) (Messages xs) @ rest) =
      MergePartial (length rest + 1) depth sch (pb_set n (merge_val (pb_fields m n) (Messages xs)) m) rest"
    proof (rule Merge_messages [OF assms(1) _ xs(3) _ _ xs(2)])
      show "(n, PB_message sub) \<in> set sch" using assms(2) f 3 by simp
      show "length (field_bytes n (PB_message sub) (Messages xs) @ rest) < fuel"
        using assms(5) f 3 xs(1) by simp
    qed (use xs(4) below [OF sub xs(3)] in blast)
    then show ?thesis by (simp only: f 3 xs(1) fst_conv snd_conv)
  qed
qed

lemma Merge_unknown:
  assumes "good_schema sch" and "unknown_fits depth sch u"
    and "length (WriteVarint32 (unknown_tag u) @ unknown_body u @ rest) < fuel"
  shows "MergePartial fuel depth sch m (WriteVarint32 (unknown_tag u) @ unknown_body u @ rest) =
    MergePartial (length rest + 1) depth sch (add_unknown u m) rest"
proof -
  let ?bs = "WriteVarint32 (unknown_tag u) @ unknown_body u @ rest"
  have u: "unknown_ok depth u" "unpacked_with_tag (unknown_tag u) sch = None"
    using assms(2) by (simp_all add: unknown_fits_def)
  obtain g where g: "fuel = Suc g" using assms(3) by (cases fuel) auto
  have ne: "?bs \<noteq> []" using WriteVarint32_nonempty by simp
  have len: "length rest < g" "2 * length (unknown_body u @ rest) + 2 \<le> 2 * length ?bs"
    using assms(3) WriteVarint32_nonempty [of "unknown_tag u"]
    unfolding g by (cases "WriteVarint32 (unknown_tag u)"; simp)+
  have "MergePartial fuel depth sch m ?bs = MergePartial g depth sch (add_unknown u m) rest"
  proof (cases "field_with_tag (unknown_tag u) sch")
    case None
    have "SkipField (2 * length ?bs) depth (unknown_tag u) (unknown_body u @ rest) = Some (u, rest)"
      by (rule SkipField_Write [OF u(1) len(2)])
    then show ?thesis
      using ne None u(2) unknown_tag_nonzero [OF u(1)]
      by (simp add: g MergePartial.simps(2) ReadTag_Write WriteVarint32_nonempty del: length_append)
  next
    case (Some f)
    then obtain cases n v where e: "snd f = PB_enum cases" "u = U_varint n v"
      "v = scast (ucast v :: u32)" "sint (ucast v :: u32) \<notin> set cases"
      using assms(2) by (auto simp: unknown_fits_def split: pb_type.splits unknown_field.splits)
    have f: "f \<in> set sch" "field_tag f = MakeTag n 0"
      using field_with_tag_number [OF assms(1) Some] e(2) by auto
    have "fst f = n"
      using field_tag_facts(3) [of f] good_schema_field [OF assms(1) f(1)] f(2) e(2)
        unknown_ok_number [OF u(1)] tag_fields(2) [of n 0] by simp
    moreover have "ReadVarint32 (WriteVarint64 v @ rest) = Some (ucast v, rest)"
      using ReadVarint32_Write_signed [of "ucast v" rest] e(3) by simp
    ultimately have "read_field f (unknown_body u @ rest) m = Some (add_unknown u m, rest)"
      using e by (simp add: read_field_def store_def)
    then show ?thesis
      using ne Some e(1) by (simp add: g MergePartial.simps(2) ReadTag_Write WriteVarint32_nonempty)
  qed
  also have "\<dots> = MergePartial (length rest + 1) depth sch (add_unknown u m) rest"
    using len(1) by (intro MergePartial_fuel [OF assms(1)]) simp_all
  finally show ?thesis .
qed

lemma Merge_unknowns:
  "good_schema sch \<Longrightarrow> list_all (unknown_fits depth sch) us \<Longrightarrow>
   length (SerializeUnknownFields us @ rest) < fuel \<Longrightarrow>
     MergePartial fuel depth sch m (SerializeUnknownFields us @ rest) =
     MergePartial (length rest + 1) depth sch (Msg (pb_fields m) (pb_unknown m @ us)) rest"
proof (induction us arbitrary: m fuel)
  case Nil
  then show ?case
    using MergePartial_fuel [of sch rest fuel "length rest + 1" depth m]
    by (simp add: SerializeUnknownFields_def)
next
  case (Cons u us)
  have bytes: "SerializeUnknownFields (u # us) @ rest =
      WriteVarint32 (unknown_tag u) @ unknown_body u @ SerializeUnknownFields us @ rest"
    by (simp add: SerializeUnknownFields_def)
  have "MergePartial fuel depth sch m (SerializeUnknownFields (u # us) @ rest) =
      MergePartial (length (SerializeUnknownFields us @ rest) + 1) depth sch (add_unknown u m)
        (SerializeUnknownFields us @ rest)"
    unfolding bytes using Cons.prems by (intro Merge_unknown) (simp_all add: bytes)
  also have "\<dots> = MergePartial (length rest + 1) depth sch
      (Msg (pb_fields (add_unknown u m)) (pb_unknown (add_unknown u m) @ us)) rest"
    using Cons.prems by (intro Cons.IH) simp_all
  finally show ?case by (simp add: add_unknown_def)
qed

text \<open>The fields of a list of fields, one after the other.\<close>

definition merge_field :: "pb_msg \<Rightarrow> nat \<times> pb_type \<Rightarrow> pb_msg \<Rightarrow> pb_msg" where
  "merge_field from f m =
     (case pb_fields from (fst f) of
        None \<Rightarrow> m
      | Some v \<Rightarrow> pb_set (fst f) (merge_val (pb_fields m (fst f)) v) m)"

lemma Merge_fields:
  assumes "good_schema sch"
    and below: "\<And>sub x. good_schema sub \<Longrightarrow> 0 < depth \<Longrightarrow> msg_fits_at (depth - 1) sub x \<Longrightarrow>
      MergePartial (length (SerializeAsString sub x) + 1) (depth - 1) sub pb_new (SerializeAsString sub x) = Some x"
    and "set fs \<subseteq> set sch" and "fields_fit depth fs msg"
    and "length (fields_bytes fs msg @ rest) < fuel"
  shows "MergePartial fuel depth sch m (fields_bytes fs msg @ rest) =
    MergePartial (length rest + 1) depth sch (fold (merge_field msg) fs m) rest"
  using assms(3-5)
proof (induction fs arbitrary: m fuel)
  case Nil
  then show ?case using MergePartial_fuel [OF assms(1), of rest fuel "length rest + 1"] by simp
next
  case (Cons f fs)
  obtain n t where f: "f = (n, t)" by (cases f)
  show ?case
  proof (cases "pb_fields msg n")
    case None
    then show ?thesis using Cons by (simp add: f merge_field_def)
  next
    case (Some v)
    have bytes: "fields_bytes (f # fs) msg @ rest = field_bytes (fst f) (snd f) v @ fields_bytes fs msg @ rest"
      using Some by (simp add: f)
    have "MergePartial fuel depth sch m (fields_bytes (f # fs) msg @ rest) =
        MergePartial (length (fields_bytes fs msg @ rest) + 1) depth sch (merge_field msg f m)
          (fields_bytes fs msg @ rest)"
      unfolding bytes using Some Cons.prems f bytes
      by (subst Merge_field [OF assms(1) _ _ below]) (simp_all add: merge_field_def)
    also have "\<dots> = MergePartial (length rest + 1) depth sch (fold (merge_field msg) fs (merge_field msg f m)) rest"
      using Cons.prems f by (intro Cons.IH) simp_all
    finally show ?thesis by simp
  qed
qed

lemma fold_merge_field:
  assumes "distinct (map fst fs)"
  shows "fold (merge_field msg) fs m =
    Msg (\<lambda>n. if n \<in> fst ` set fs
              then (case pb_fields msg n of None \<Rightarrow> pb_fields m n | Some v \<Rightarrow> Some (merge_val (pb_fields m n) v))
              else pb_fields m n) (pb_unknown m)"
  using assms
proof (induction fs arbitrary: m)
  case Nil
  then show ?case by (cases m) simp
next
  case (Cons f fs)
  have "fold (merge_field msg) (f # fs) m = fold (merge_field msg) fs (merge_field msg f m)" by simp
  also have "\<dots> = Msg (\<lambda>n. if n \<in> fst ` set (f # fs)
      then (case pb_fields msg n of None \<Rightarrow> pb_fields m n | Some v \<Rightarrow> Some (merge_val (pb_fields m n) v))
      else pb_fields m n) (pb_unknown m)"
    using Cons.prems by (subst Cons.IH) (auto simp: fun_eq_iff merge_field_def split: option.split)
  finally show ?case .
qed

lemma MergePartial_Nil: "0 < fuel \<Longrightarrow> MergePartial fuel depth sch m [] = Some m"
  by (cases fuel) (simp_all add: MergePartial.simps(2))

text \<open>A serialised message is merged into the message that is being parsed.\<close>

lemma Merge_Serialize:
  "good_schema sch \<Longrightarrow> msg_fits_at depth sch msg \<Longrightarrow> length (SerializeAsString sch msg @ rest) < fuel \<Longrightarrow>
     MergePartial fuel depth sch m (SerializeAsString sch msg @ rest) =
     MergePartial (length rest + 1) depth sch (MergeFrom msg m) rest"
proof (induction depth arbitrary: sch msg rest fuel m rule: less_induct)
  case (less depth)
  have fits: "fields_fit depth sch msg" "dom (pb_fields msg) \<subseteq> fst ` set sch"
    "list_all (unknown_fits depth sch) (pb_unknown msg)"
    using less.prems(2) by (simp_all add: msg_fits_at_def)
  let ?tail = "SerializeUnknownFields (pb_unknown msg) @ rest"
  let ?m = "fold (merge_field msg) sch m"
  have below: "MergePartial (length (SerializeAsString sub x) + 1) (depth - 1) sub pb_new
      (SerializeAsString sub x) = Some x"
    if "good_schema sub" "0 < depth" "msg_fits_at (depth - 1) sub x" for sub x
    using less.IH [of "depth - 1" sub x "[]" "length (SerializeAsString sub x) + 1" pb_new] that
    by (simp add: MergeFrom_new MergePartial_Nil)
  have "MergePartial fuel depth sch m (SerializeAsString sch msg @ rest) =
      MergePartial (length ?tail + 1) depth sch ?m ?tail"
    using less.prems(3) Merge_fields [OF less.prems(1) below, of sch msg ?tail fuel m] fits(1)
    by (simp add: SerializeAsString_def)
  also have "\<dots> = MergePartial (length rest + 1) depth sch (Msg (pb_fields ?m) (pb_unknown ?m @ pb_unknown msg)) rest"
    by (rule Merge_unknowns [OF less.prems(1) fits(3)]) simp
  also have "Msg (pb_fields ?m) (pb_unknown ?m @ pb_unknown msg) = MergeFrom msg m"
  proof -
    have "pb_fields msg n = None" if "n \<notin> fst ` set sch" for n
      using fits(2) that by blast
    then show ?thesis
      by (auto simp: fold_merge_field [OF good_schema_distinct [OF less.prems(1)]] MergeFrom_def fun_eq_iff
          split: option.split)
  qed
  finally show ?case .
qed

lemma ParseFromString_Serialize:
  assumes "good_schema sch" and "msg_fits sch msg"
  shows "ParseFromString sch (SerializeAsString sch msg) = Some msg"
  using Merge_Serialize [OF assms(1), of 100 msg "[]" "length (SerializeAsString sch msg) + 1" pb_new] assms(2)
  by (simp add: ParseFromString_def msg_fits_def MergeFrom_new MergePartial_Nil)

lemma ParseFromString_concat:
  assumes "good_schema sch" and "msg_fits sch a" and "msg_fits sch b"
  shows "ParseFromString sch (SerializeAsString sch a @ SerializeAsString sch b) = Some (MergeFrom b a)"
proof -
  have "ParseFromString sch (SerializeAsString sch a @ SerializeAsString sch b) =
      MergePartial (length (SerializeAsString sch b) + 1) 100 sch a (SerializeAsString sch b)"
    using Merge_Serialize [OF assms(1), of 100 a "SerializeAsString sch b"
        "length (SerializeAsString sch a @ SerializeAsString sch b) + 1" pb_new] assms(2)
    by (simp add: ParseFromString_def msg_fits_def MergeFrom_new)
  also have "\<dots> = Some (MergeFrom b a)"
    using Merge_Serialize [OF assms(1), of 100 b "[]" "length (SerializeAsString sch b) + 1" a] assms(3)
    by (simp add: msg_fits_def MergePartial_Nil)
  finally show ?thesis .
qed

end
