(* ===== verification/NetMessages.thy ===== *)
theory NetMessages
  imports Protobuf
begin

text \<open>
  The messages of src/Server/protobuf/NetMessage.pb.cc (generated from NetMessage.proto): the number and
  the type of every field, in the order of the code, which is the same in the parser, the serialiser
  and the size computation; and the enumerations, each as the list of the numbers its \<open>IsValid\<close>
  accepts.
\<close>

subsection \<open>Enumerations\<close>

definition CeC2GType :: "int list" where
  "CeC2GType =
     [0, 1, 2, 3, 4, 5, 6, 7, 8, 9, 10, 11, 12, 13, 14, 15, 16, 17, 18, 19, 20, 21, 22, 23, 24,
      25, 26, 27, 29, 30, 31, 32, 33, 34, 35, 36, 37, 38, 39, 40, 41, 42, 43, 44, 45, 46, 47,
      48, 49, 50, 51, 52, 53, 54, 55, 56, 57, 58, 59, 60, 61, 62, 63, 64, 65, 66, 67, 68, 69,
      70, 71, 72, 73, 74, 75, 76, 77, 78, 79, 80, 81, 82, 83, 84, 85, 86, 87, 88, 89, 90, 91,
      92, 93, 94, 95, 96, 97, 98, 99, 100, 101, 102, 103, 104, 105, 106, 107, 108, 109, 110,
      111, 112, 113, 114, 115, 116, 117, 118, 124, 125, 126, 127, 129, 130, 131, 132, 133]"

definition CeG2CType :: "int list" where
  "CeG2CType =
     [0, 1, 2, 3, 4, 5, 6, 7, 8, 9, 10, 11, 12, 13, 14, 15, 16, 17, 18, 19, 20, 21, 22, 23, 24,
      25, 26, 27, 28, 29, 30, 31, 32, 33, 34, 35, 36, 37, 38, 39, 40, 41, 42, 43, 44, 45, 46,
      47, 48, 49, 50, 51, 52, 53, 54, 55, 56, 57, 58, 59, 60, 61, 62, 63, 64, 65, 66, 67, 68,
      69, 70, 71, 72, 73, 74, 75, 76, 77, 78, 79, 80, 81, 85, 87, 88, 89, 90]"

definition PostType :: "int list" where
  "PostType =
     [0, 1, 2, 3]"

definition EmailState :: "int list" where
  "EmailState =
     [0, 1, 2, 3]"

definition CGCAskAddFriend_FriendSendType :: "int list" where
  "CGCAskAddFriend_FriendSendType =
     [0, 1, 2, 3, 4, 5, 6]"

definition CGCVipFriend_FriendSendType :: "int list" where
  "CGCVipFriend_FriendSendType =
     [0, 1, 2, 3, 4, 5, 6]"

subsection \<open>Messages\<close>

definition CNetHead :: pb_schema where
  "CNetHead = [(1, PB_uint32), (2, PB_uint32), (3, PB_string)]"

definition CRequestLogin :: pb_schema where
  "CRequestLogin = [(1, PB_string), (2, PB_string), (3, PB_string), (4, PB_string), (5, PB_bool)]"

definition CRequestLoginRet :: pb_schema where
  "CRequestLoginRet = [(1, PB_string), (2, PB_string), (3, PB_int32)]"

definition CRequestPing :: pb_schema where
  "CRequestPing = []"

definition CGSNotifyRoleBaseInfo :: pb_schema where
  "CGSNotifyRoleBaseInfo =
     [(1, PB_uint32), (2, PB_string), (3, PB_int32), (4, PB_bool), (5, PB_uint32),
      (6, PB_uint32), (7, PB_uint32), (8, PB_uint32), (9, PB_uint32), (10, PB_uint32),
      (11, PB_uint32), (12, PB_uint32), (13, PB_uint32), (14, PB_uint32), (15, PB_uint32),
      (16, PB_uint32), (17, PB_uint32), (18, PB_uint32), (19, PB_uint32), (20, PB_uint32),
      (21, PB_uint32), (22, PB_uint32)]"

definition CGCAskSelectRole :: pb_schema where
  "CGCAskSelectRole = [(1, PB_string)]"

definition CNetErrorMessage :: pb_schema where
  "CNetErrorMessage = [(1, PB_uint32), (2, PB_uint32), (3, PB_int32), (4, PB_string)]"

definition CGSNotifyService :: pb_schema where
  "CGSNotifyService =
     [(1, PB_enum PostType), (2, PB_uint32), (3, PB_string), (4, PB_string), (5, PB_string),
      (6, PB_string)]"

definition CGSNotifyChangeScene :: pb_schema where
  "CGSNotifyChangeScene =
     [(1, PB_uint32), (2, PB_uint32), (3, PB_uint32), (4, PB_float), (5, PB_float),
      (6, PB_float)]"

definition CGSNotifyRoleAppear :: pb_schema where
  "CGSNotifyRoleAppear =
     [(1, PB_uint32), (2, PB_string), (3, PB_int32), (4, PB_bool), (5, PB_uint32),
      (6, PB_uint32), (7, PB_uint32), (8, PB_float), (9, PB_float), (10, PB_float),
      (11, PB_float), (12, PB_float), (13, PB_float), (14, PB_float), (15, PB_uint32),
      (16, PB_uint32), (17, PB_uint32), (18, PB_uint32), (19, PB_uint32)]"

definition CGSObjectDisappear :: pb_schema where
  "CGSObjectDisappear = [(1, PB_uint32), (2, PB_packed_uint32)]"

definition CGCAskLogout :: pb_schema where
  "CGCAskLogout = []"

definition CGSObjectMove :: pb_schema where
  "CGSObjectMove =
     [(1, PB_uint32), (2, PB_float), (3, PB_float), (4, PB_float), (5, PB_float), (6, PB_float),
      (7, PB_float), (8, PB_float)]"

definition CGCAskMove :: pb_schema where
  "CGCAskMove =
     [(1, PB_uint32), (2, PB_float), (3, PB_float), (4, PB_float), (5, PB_uint32),
      (6, PB_float), (7, PB_float), (8, PB_float)]"

definition CGSNotifyRoleProfileChange :: pb_schema where
  "CGSNotifyRoleProfileChange = [(1, PB_uint32), (2, PB_uint32), (3, PB_uint32), (4, PB_uint32)]"

definition CGCReportPassGate :: pb_schema where
  "CGCReportPassGate =
     [(1, PB_uint32), (2, PB_uint32), (3, PB_uint32), (4, PB_uint32), (5, PB_uint32),
      (6, PB_uint32), (7, PB_uint32), (8, PB_bool)]"

definition CGCAskTreasureBoxDropGoods :: pb_schema where
  "CGCAskTreasureBoxDropGoods = [(1, PB_uint32), (2, PB_bool)]"

definition CGCAskEnterScene :: pb_schema where
  "CGCAskEnterScene =
     [(1, PB_int32), (2, PB_int32), (3, PB_bool), (4, PB_uint32), (5, PB_uint32),
      (6, PB_uint32), (7, PB_uint32)]"

definition CGSNotifyRoleMapScheduleList :: pb_schema where
  "CGSNotifyRoleMapScheduleList = [(1, PB_uint32), (2, PB_uint32)]"

definition CGSNotifyRoleFightProperty :: pb_schema where
  "CGSNotifyRoleFightProperty = []"

definition CGSNotifyAssetChange :: pb_schema where
  "CGSNotifyAssetChange = []"

definition CGSNotifyLevelChange :: pb_schema where
  "CGSNotifyLevelChange = []"

definition CGSNotifyExpChange :: pb_schema where
  "CGSNotifyExpChange = []"

definition CGSNotifyCurProperty :: pb_schema where
  "CGSNotifyCurProperty = []"

definition CGSNotifyDisplayGateIncome :: pb_schema where
  "CGSNotifyDisplayGateIncome = []"

definition CGCAskRelive :: pb_schema where
  "CGCAskRelive = [(1, PB_bool), (2, PB_bool), (3, PB_uint32)]"

definition CGCReportExp :: pb_schema where
  "CGCReportExp = [(1, PB_uint32)]"

definition CGCReportUseSkill :: pb_schema where
  "CGCReportUseSkill =
     [(1, PB_uint32), (2, PB_uint32), (3, PB_float), (4, PB_float), (5, PB_float),
      (6, PB_float), (7, PB_float), (8, PB_float)]"

definition CGSNotifySkillReleased :: pb_schema where
  "CGSNotifySkillReleased =
     [(1, PB_uint32), (2, PB_uint32), (3, PB_float), (4, PB_float), (5, PB_float),
      (6, PB_float), (7, PB_float), (8, PB_float)]"

definition CGCReportOBjectAppear :: pb_schema where
  "CGCReportOBjectAppear =
     [(1, PB_uint32), (2, PB_uint32), (3, PB_float), (4, PB_float), (5, PB_float),
      (6, PB_float), (7, PB_float), (8, PB_float)]"

definition CGSNotifyObjectAppear :: pb_schema where
  "CGSNotifyObjectAppear =
     [(1, PB_uint32), (2, PB_uint32), (3, PB_float), (4, PB_float), (5, PB_float),
      (6, PB_float), (7, PB_float), (8, PB_float)]"

definition CGCReportOBjectDisappear :: pb_schema where
  "CGCReportOBjectDisappear = [(1, PB_uint32), (2, PB_int32)]"

definition CGSNotifyObjectDisappear :: pb_schema where
  "CGSNotifyObjectDisappear = [(1, PB_uint32), (2, PB_int32)]"

definition CGCReportObjectAction :: pb_schema where
  "CGCReportObjectAction =
     [(1, PB_uint32), (2, PB_int32), (3, PB_float), (4, PB_float), (5, PB_float), (6, PB_float),
      (7, PB_float), (8, PB_float)]"

definition CGSNotifyObjectAction :: pb_schema where
  "CGSNotifyObjectAction =
     [(1, PB_uint32), (2, PB_int32), (3, PB_float), (4, PB_float), (5, PB_float), (6, PB_float),
      (7, PB_float), (8, PB_float)]"

definition CGCReportObjectHurm :: pb_schema where
  "CGCReportObjectHurm =
     [(1, PB_bool), (2, PB_uint32), (3, PB_int32), (4, PB_int32), (5, PB_int32)]"

definition CGSNotifyObjectHurm :: pb_schema where
  "CGSNotifyObjectHurm =
     [(1, PB_bool), (2, PB_uint32), (3, PB_int32), (4, PB_int32), (5, PB_int32)]"

definition CGCAskEnterTowerInstance :: pb_schema where
  "CGCAskEnterTowerInstance = [(1, PB_uint32), (2, PB_bool)]"

definition CGCReportTowerInstanceScore :: pb_schema where
  "CGCReportTowerInstanceScore = [(1, PB_uint32)]"

definition CGCAskTowerInstanceRank :: pb_schema where
  "CGCAskTowerInstanceRank = [(1, PB_int32)]"

definition CGCAskTowerInstanceAward :: pb_schema where
  "CGCAskTowerInstanceAward = [(1, PB_uint32), (2, PB_uint32)]"

definition MainInfo :: pb_schema where
  "MainInfo =
     [(1, PB_uint32), (2, PB_string), (3, PB_string), (4, PB_enum EmailState),
      (5, PB_enum EmailState)]"

definition CGSNotifyEMailList :: pb_schema where
  "CGSNotifyEMailList = [(1, PB_uint32), (2, PB_message MainInfo)]"

definition GCAskReadEMail :: pb_schema where
  "GCAskReadEMail = [(1, PB_uint32)]"

definition CGCAskGetEMailPrize :: pb_schema where
  "CGCAskGetEMailPrize = [(1, PB_uint32)]"

definition CGCAskRemoveEMail :: pb_schema where
  "CGCAskRemoveEMail = [(1, PB_uint32)]"

definition CGSNotifyRankList :: pb_schema where
  "CGSNotifyRankList = [(1, PB_int32), (2, PB_int32), (3, PB_int32), (4, PB_int32)]"

definition CGCSendCreateRole :: pb_schema where
  "CGCSendCreateRole = [(1, PB_uint32), (2, PB_bool), (3, PB_string), (4, PB_bool)]"

definition CGCSendCreateRoleRet :: pb_schema where
  "CGCSendCreateRoleRet = [(1, PB_int32)]"

definition CGCAskRankList :: pb_schema where
  "CGCAskRankList = [(1, PB_uint32)]"

definition CGCAsChargeIOS :: pb_schema where
  "CGCAsChargeIOS = [(1, PB_bool), (2, PB_uint32), (3, PB_string)]"

definition CGCNotifyChargeIOS :: pb_schema where
  "CGCNotifyChargeIOS = [(1, PB_int32), (2, PB_uint32), (3, PB_string)]"

definition CGCReportProcuce :: pb_schema where
  "CGCReportProcuce = [(1, PB_uint32), (2, PB_bool)]"

definition CGCAskChapterAward :: pb_schema where
  "CGCAskChapterAward = [(1, PB_int32), (2, PB_bool)]"

definition CGCAskMedalInfo :: pb_schema where
  "CGCAskMedalInfo = []"

definition CGCAskMedalLevelUp :: pb_schema where
  "CGCAskMedalLevelUp = []"

definition CGCAskAddFriend :: pb_schema where
  "CGCAskAddFriend = [(1, PB_enum CGCAskAddFriend_FriendSendType), (2, PB_string)]"

definition CGCVipFriend :: pb_schema where
  "CGCVipFriend = [(1, PB_enum CGCVipFriend_FriendSendType)]"

definition CGCAskFriendRecord :: pb_schema where
  "CGCAskFriendRecord = []"

definition CGCAskSelectPlayer :: pb_schema where
  "CGCAskSelectPlayer = [(1, PB_string)]"

definition CGCAskGuideComplate :: pb_schema where
  "CGCAskGuideComplate = [(1, PB_uint32), (2, PB_bool)]"

lemmas net_schemas =
  CNetHead_def CRequestLogin_def CRequestLoginRet_def CRequestPing_def
  CGSNotifyRoleBaseInfo_def CGCAskSelectRole_def CNetErrorMessage_def CGSNotifyService_def
  CGSNotifyChangeScene_def CGSNotifyRoleAppear_def CGSObjectDisappear_def CGCAskLogout_def
  CGSObjectMove_def CGCAskMove_def CGSNotifyRoleProfileChange_def CGCReportPassGate_def
  CGCAskTreasureBoxDropGoods_def CGCAskEnterScene_def CGSNotifyRoleMapScheduleList_def
  CGSNotifyRoleFightProperty_def CGSNotifyAssetChange_def CGSNotifyLevelChange_def
  CGSNotifyExpChange_def CGSNotifyCurProperty_def CGSNotifyDisplayGateIncome_def
  CGCAskRelive_def CGCReportExp_def CGCReportUseSkill_def CGSNotifySkillReleased_def
  CGCReportOBjectAppear_def CGSNotifyObjectAppear_def CGCReportOBjectDisappear_def
  CGSNotifyObjectDisappear_def CGCReportObjectAction_def CGSNotifyObjectAction_def
  CGCReportObjectHurm_def CGSNotifyObjectHurm_def CGCAskEnterTowerInstance_def
  CGCReportTowerInstanceScore_def CGCAskTowerInstanceRank_def CGCAskTowerInstanceAward_def
  MainInfo_def CGSNotifyEMailList_def GCAskReadEMail_def CGCAskGetEMailPrize_def
  CGCAskRemoveEMail_def CGSNotifyRankList_def CGCSendCreateRole_def CGCSendCreateRoleRet_def
  CGCAskRankList_def CGCAsChargeIOS_def CGCNotifyChargeIOS_def CGCReportProcuce_def
  CGCAskChapterAward_def CGCAskMedalInfo_def CGCAskMedalLevelUp_def CGCAskAddFriend_def
  CGCVipFriend_def CGCAskFriendRecord_def CGCAskSelectPlayer_def CGCAskGuideComplate_def

lemmas net_enums =
  CeC2GType_def CeG2CType_def PostType_def EmailState_def
  CGCAskAddFriend_FriendSendType_def CGCVipFriend_FriendSendType_def

text \<open>Each is a schema as protoc accepts it.\<close>

lemma net_good_schemas [simp]:
  "good_schema CNetHead"
  "good_schema CRequestLogin"
  "good_schema CRequestLoginRet"
  "good_schema CRequestPing"
  "good_schema CGSNotifyRoleBaseInfo"
  "good_schema CGCAskSelectRole"
  "good_schema CNetErrorMessage"
  "good_schema CGSNotifyService"
  "good_schema CGSNotifyChangeScene"
  "good_schema CGSNotifyRoleAppear"
  "good_schema CGSObjectDisappear"
  "good_schema CGCAskLogout"
  "good_schema CGSObjectMove"
  "good_schema CGCAskMove"
  "good_schema CGSNotifyRoleProfileChange"
  "good_schema CGCReportPassGate"
  "good_schema CGCAskTreasureBoxDropGoods"
  "good_schema CGCAskEnterScene"
  "good_schema CGSNotifyRoleMapScheduleList"
  "good_schema CGSNotifyRoleFightProperty"
  "good_schema CGSNotifyAssetChange"
  "good_schema CGSNotifyLevelChange"
  "good_schema CGSNotifyExpChange"
  "good_schema CGSNotifyCurProperty"
  "good_schema CGSNotifyDisplayGateIncome"
  "good_schema CGCAskRelive"
  "good_schema CGCReportExp"
  "good_schema CGCReportUseSkill"
  "good_schema CGSNotifySkillReleased"
  "good_schema CGCReportOBjectAppear"
  "good_schema CGSNotifyObjectAppear"
  "good_schema CGCReportOBjectDisappear"
  "good_schema CGSNotifyObjectDisappear"
  "good_schema CGCReportObjectAction"
  "good_schema CGSNotifyObjectAction"
  "good_schema CGCReportObjectHurm"
  "good_schema CGSNotifyObjectHurm"
  "good_schema CGCAskEnterTowerInstance"
  "good_schema CGCReportTowerInstanceScore"
  "good_schema CGCAskTowerInstanceRank"
  "good_schema CGCAskTowerInstanceAward"
  "good_schema MainInfo"
  "good_schema CGSNotifyEMailList"
  "good_schema GCAskReadEMail"
  "good_schema CGCAskGetEMailPrize"
  "good_schema CGCAskRemoveEMail"
  "good_schema CGSNotifyRankList"
  "good_schema CGCSendCreateRole"
  "good_schema CGCSendCreateRoleRet"
  "good_schema CGCAskRankList"
  "good_schema CGCAsChargeIOS"
  "good_schema CGCNotifyChargeIOS"
  "good_schema CGCReportProcuce"
  "good_schema CGCAskChapterAward"
  "good_schema CGCAskMedalInfo"
  "good_schema CGCAskMedalLevelUp"
  "good_schema CGCAskAddFriend"
  "good_schema CGCVipFriend"
  "good_schema CGCAskFriendRecord"
  "good_schema CGCAskSelectPlayer"
  "good_schema CGCAskGuideComplate"
  by (simp_all add: net_schemas)

subsection \<open>Malformed input that is accepted\<close>

text \<open>
  A list of mails that is cut right after the tag of a mail is accepted, with an empty mail at its end:
  the length that cannot be read counts as zero.
\<close>

lemma cut_mail_list_accepted:
  assumes "msg_fits CGSNotifyEMailList m"
  shows "ParseFromString CGSNotifyEMailList (SerializeAsString CGSNotifyEMailList m @ [18]) =
    Some (add_message 2 pb_new m)"
proof -
  have tag: "ReadTag [18] = (18, [])" "ReadLengthAndPushLimit [] = ([], [])"
    by (simp_all add: ReadTag_def ReadVarint32_def ReadVarint64_def ReadLengthAndPushLimit_def)
  have field: "field_with_tag 18 CGSNotifyEMailList = Some (2, PB_message MainInfo)"
    by (simp add: CGSNotifyEMailList_def field_tag_def MakeTag_def)
  have "MergePartial 2 100 CGSNotifyEMailList m [18] = Some (add_message 2 pb_new m)"
    using field by (simp add: numeral_2_eq_2 MergePartial.simps(2) tag)
  then show ?thesis
    using assms Merge_Serialize [of CGSNotifyEMailList 100 m "[18]"
      "length (SerializeAsString CGSNotifyEMailList m @ [18]) + 1" pb_new]
    by (simp add: ParseFromString_def msg_fits_def MergeFrom_new numeral_2_eq_2)
qed

text \<open>
  An object id that comes alone (tag 16), followed by a packed list of ids (tag 18): the length of the list is
  taken for an id, and its content is parsed as further fields. Here one id 5 and the packed list of the
  ids 8 and 1 give the ids 5 and 2, and the number of objects becomes 1.
\<close>

lemma packed_after_single_misread:
  "ParseFromString CGSObjectDisappear [16, 5, 18, 2, 8, 1] = Some (Msg [2 \<mapsto> Packed [5, 2], 1 \<mapsto> UInt32 1] [])"
proof -
  have tags: "ReadTag [16, 5, 18, 2, 8, 1] = (16, [5, 18, 2, 8, 1])" "ReadTag [8, 1] = (8, [1])"
    by (simp_all add: ReadTag_def ReadVarint32_def ReadVarint64_def)
  have single: "field_with_tag 16 CGSObjectDisappear = None" "unpacked_with_tag 16 CGSObjectDisappear = Some 2"
    by (simp_all add: CGSObjectDisappear_def field_tag_def MakeTag_def)
  have num: "field_with_tag 8 CGSObjectDisappear = Some (1, PB_uint32)"
    by (simp add: CGSObjectDisappear_def field_tag_def MakeTag_def)
  have "read_reserved 3 18 [5] [18, 2, 8, 1] = Some ([5, 2], [8, 1])"
    by (simp add: numeral_3_eq_3 ExpectTag_def ReadVarint32_def ReadVarint64_def)
  moreover have "rf_capacity 1 = 4" "MakeTag 2 2 = 18"
    by (simp_all add: rf_capacity.simps MakeTag_def)
  moreover have "ReadVarint32 [5, 18, 2, 8, 1] = Some (5, [18, 2, 8, 1])"
    by (simp add: ReadVarint32_def ReadVarint64_def)
  ultimately have ids: "ReadRepeatedPrimitive (MakeTag 2 2) 0 [5, 18, 2, 8, 1] = Some ([5, 2], [8, 1])"
    by (simp add: ReadRepeatedPrimitive_def)
  have one: "ReadVarint32 [1] = Some (1, [])"
    by (simp add: ReadVarint32_def ReadVarint64_def)
  have len: "length [16, 5, 18, 2, 8, 1 :: byte] + 1 = 7" by simp
  note turns = MergePartial.simps(2) [of 6, simplified] MergePartial.simps(2) [of 5, simplified]
  show ?thesis
    unfolding ParseFromString_def len
    by (simp add: turns MergePartial_Nil tags single num ids one read_field_def store_def
        get_packed_def add_packed_def fun_upd_twist)
qed

end
