(* ===== verification/Login.thy ===== *)
theory Login
  imports AppServer NetMessages
begin

text \<open>
  The login handlers of src/Server/Server/CLogin.h and CLogin.cpp, with the messages of
  src/Server/protobuf/NetMessage.pb.cc that they parse and send, and the mail handler of Mail.cpp.
\<close>

subsection \<open>Getters\<close>

text \<open>The getters return the default of the type for a field that is not set.\<close>

definition get_string :: "pb_msg \<Rightarrow> nat \<Rightarrow> byte list" where
  "get_string m n = (case pb_fields m n of Some (Str str) \<Rightarrow> str | _ \<Rightarrow> [])"

definition get_uint32 :: "pb_msg \<Rightarrow> nat \<Rightarrow> u32" where
  "get_uint32 m n = (case pb_fields m n of Some (UInt32 w) \<Rightarrow> w | _ \<Rightarrow> 0)"

definition get_bool :: "pb_msg \<Rightarrow> nat \<Rightarrow> bool" where
  "get_bool m n = (case pb_fields m n of Some (Bool b) \<Rightarrow> b | _ \<Rightarrow> False)"

subsection \<open>Commands\<close>

definition C2G_Login :: int where "C2G_Login = 2"
definition C2G_CreateRole :: int where "C2G_CreateRole = 3"
definition C2G_SelectRole :: int where "C2G_SelectRole = 4"
definition G2C_LoginRet :: u32 where "G2C_LoginRet = 1"
definition G2C_RoleList :: u32 where "G2C_RoleList = 2"
definition G2C_RoleCreateRet :: u32 where "G2C_RoleCreateRet = 3"
definition G2C_RoleChangeScene :: u32 where "G2C_RoleChangeScene = 14"

lemmas commands =
  C2G_Login_def C2G_CreateRole_def C2G_SelectRole_def G2C_LoginRet_def G2C_RoleList_def
  G2C_RoleCreateRet_def G2C_RoleChangeScene_def

subsection \<open>The handlers\<close>

text \<open>The global \<open>m_UserList\<close> of CLogin.cpp is part of the state.\<close>

record login_app = app_manager +
  m_UserList :: "int \<rightharpoonup> pb_msg"

definition HandleLogin :: "login_app handler" where
  "HandleLogin cmd connection recvMsg a =
     (case ParseFromString CRequestLogin recvMsg of
        None \<Rightarrow> Inr a
      | Some inData \<Rightarrow>
          let loginRet = pb_set 1 (Str (get_string inData 1)) pb_new
          in SendClient (word_of_int connection) G2C_LoginRet
               (Some (SerializeAsString CRequestLoginRet loginRet)) a)"

definition role_base_info :: "pb_msg \<Rightarrow> pb_msg" where
  "role_base_info inData =
     Msg [1 \<mapsto> UInt32 1, 2 \<mapsto> Str (get_string inData 3), 3 \<mapsto> Int32 (get_uint32 inData 1),
      4 \<mapsto> Bool (get_bool inData 2), 5 \<mapsto> UInt32 1, 6 \<mapsto> UInt32 1, 7 \<mapsto> UInt32 1, 8 \<mapsto> UInt32 1,
      9 \<mapsto> UInt32 1, 10 \<mapsto> UInt32 1, 11 \<mapsto> UInt32 1, 12 \<mapsto> UInt32 1, 13 \<mapsto> UInt32 1,
      14 \<mapsto> UInt32 1, 15 \<mapsto> UInt32 1, 16 \<mapsto> UInt32 1, 17 \<mapsto> UInt32 100, 18 \<mapsto> UInt32 100,
      19 \<mapsto> UInt32 100, 20 \<mapsto> UInt32 100, 21 \<mapsto> UInt32 1, 22 \<mapsto> UInt32 1] []"

definition HandleCreateRole :: "login_app handler" where
  "HandleCreateRole cmd connection recvMsg a =
     (case ParseFromString CGCSendCreateRole recvMsg of
        None \<Rightarrow> Inr a
      | Some inData \<Rightarrow>
          let a1 = a\<lparr>m_UserList := (m_UserList a)(connection \<mapsto> inData)\<rparr>;
              loginRet = pb_set 1 (Int32 0) pb_new;
              roleRet = role_base_info inData
          in rbind (SendClient (word_of_int connection) G2C_RoleCreateRet
                      (Some (SerializeAsString CGCSendCreateRoleRet loginRet)) a1)
               (SendClient (word_of_int connection) G2C_RoleList
                  (Some (SerializeAsString CGSNotifyRoleBaseInfo roleRet))))"

text \<open>The floats are the bits of -2.12f, -0.82f and -0.01f.\<close>

definition change_scene :: pb_msg where
  "change_scene =
     Msg [1 \<mapsto> UInt32 100000001, 2 \<mapsto> UInt32 1, 3 \<mapsto> UInt32 19,
      4 \<mapsto> Float 0xC007AE14, 5 \<mapsto> Float 0xBF51EB85, 6 \<mapsto> Float 0xBC23D70A] []"

definition HandleSelectRole :: "login_app handler" where
  "HandleSelectRole cmd connection recvMsg a =
     (case ParseFromString CGCAskSelectRole recvMsg of
        None \<Rightarrow> Inr a
      | Some inData \<Rightarrow>
          SendClient (word_of_int connection) G2C_RoleChangeScene
            (Some (SerializeAsString CGSNotifyChangeScene change_scene)) a)"

definition RegisterMessage :: "login_app dispatcher \<Rightarrow> login_app dispatcher" where
  "RegisterMessage m =
     RegisterMessageHandle C2G_SelectRole HandleSelectRole
       (RegisterMessageHandle C2G_CreateRole HandleCreateRole
          (RegisterMessageHandle C2G_Login HandleLogin m))"

definition CLogin_Initialze :: "login_app demo" where
  "CLogin_Initialze m = (True, RegisterMessage m)"

text \<open>The mail manager registers nothing; its handler parses the message and stops.\<close>

definition MaillManager_Initialze :: "login_app demo" where
  "MaillManager_Initialze m = (True, m)"

definition HandleGetMailList :: "login_app handler" where
  "HandleGetMailList cmd connection recvMsg a =
     (case ParseFromString CGSNotifyEMailList recvMsg of None \<Rightarrow> Inr a | Some inData \<Rightarrow> Inr a)"

subsection \<open>The handlers only send\<close>

lemma HandleLogin_send_only: "send_only HandleLogin"
  by (auto simp: send_only_def HandleLogin_def Let_def split: option.splits
      intro: only_sent_same only_sent_SendClient)

lemma HandleSelectRole_send_only: "send_only HandleSelectRole"
  by (auto simp: send_only_def HandleSelectRole_def split: option.splits
      intro: only_sent_same only_sent_SendClient)

lemma HandleCreateRole_send_only: "send_only HandleCreateRole"
  unfolding send_only_def
proof (intro allI impI)
  fix cmd c msg a a'
  assume run: "HandleCreateRole cmd c msg a = Inr a'"
  show "only_sent a a'"
  proof (cases "ParseFromString CGCSendCreateRole msg")
    case None
    with run show ?thesis by (simp add: HandleCreateRole_def only_sent_same)
  next
    case (Some inData)
    let ?a1 = "a\<lparr>m_UserList := (m_UserList a)(c \<mapsto> inData)\<rparr>"
    obtain b where "SendClient (word_of_int c) G2C_RoleCreateRet
        (Some (SerializeAsString CGCSendCreateRoleRet (pb_set 1 (Int32 0) pb_new))) ?a1 = Inr b"
      "SendClient (word_of_int c) G2C_RoleList
        (Some (SerializeAsString CGSNotifyRoleBaseInfo (role_base_info inData))) b = Inr a'"
      using run Some by (auto simp: HandleCreateRole_def Let_def rbind_Inr_iff)
    then have "only_sent ?a1 b" "only_sent b a'"
      by (auto intro: only_sent_SendClient)
    moreover have "only_sent a ?a1" by (rule only_sent_same) simp
    ultimately show ?thesis by (blast intro: only_sent_trans)
  qed
qed

lemma handler_of_RegisterMessage:
  "handler_of (RegisterMessage m) =
     (handler_of m)(2 \<mapsto> HandleLogin, 3 \<mapsto> HandleCreateRole, 4 \<mapsto> HandleSelectRole)"
  by (simp add: RegisterMessage_def handler_of_register commands)

lemma login_handlers_send_only: "handlers_send_only (RegisterMessage Map.empty)"
  by (auto simp: handlers_send_only_def handler_of_RegisterMessage handler_of_def
      HandleLogin_send_only HandleCreateRole_send_only HandleSelectRole_send_only split: if_splits)

subsection \<open>Messages without a zero byte\<close>

lemma WriteVarint64_no_nul: "v \<noteq> 0 \<Longrightarrow> 0 \<notin> set (WriteVarint64 v)"
proof (induction v rule: WriteVarint64.induct)
  case (1 v)
  show ?case
  proof (cases "v < 0x80")
    case True
    have "(ucast v :: byte) \<noteq> 0"
    proof
      assume z: "(ucast v :: byte) = 0"
      have "v = 0"
      proof (rule bit_word_eqI)
        fix n
        have "\<not> bit v n \<or> n < 7" by (rule small_no_bit7 [OF True])
        moreover have "bit (ucast v :: byte) n = False" unfolding z by simp
        ultimately show "bit v n = bit 0 n" by (auto simp: bit_unsigned_iff)
      qed
      with 1(2) show False ..
    qed
    then show ?thesis unfolding WriteVarint64.simps [of v] if_P [OF True] by simp
  next
    case False
    then have "128 \<le> unat v" by (simp add: word_less_nat_alt)
    then have "unat (drop_bit 7 v) \<noteq> 0" unfolding unat_drop7 by simp
    then have "drop_bit 7 v \<noteq> 0" by auto
    then have "0 \<notin> set (WriteVarint64 (drop_bit 7 v))" by (rule 1(1) [OF False])
    moreover have "(ucast v OR 0x80 :: byte) \<noteq> 0"
    proof
      assume z: "(ucast v OR 0x80 :: byte) = 0"
      have "bit (ucast v OR 0x80 :: byte) 7" by (simp only: bit_or_iff bit_0x80) simp
      then show False unfolding z by simp
    qed
    ultimately show ?thesis unfolding WriteVarint64.simps [of v] if_not_P [OF False] by simp
  qed
qed

lemma WriteVarint32_no_nul: "v \<noteq> 0 \<Longrightarrow> 0 \<notin> set (WriteVarint32 v)"
proof -
  assume v: "v \<noteq> 0"
  have "(ucast v :: u64) \<noteq> 0"
  proof
    assume z: "(ucast v :: u64) = 0"
    have "v = ucast (ucast v :: u64)" by (rule bit_word_eqI) (auto simp: bit_unsigned_iff)
    with v z show False by simp
  qed
  then show ?thesis unfolding WriteVarint32_def by (rule WriteVarint64_no_nul)
qed

fun pb_no_nul :: "pb_val \<Rightarrow> bool" where
  "pb_no_nul (Int32 w) = (w \<noteq> 0)"
| "pb_no_nul (UInt32 w) = (w \<noteq> 0)"
| "pb_no_nul (Bool b) = b"
| "pb_no_nul (Str str) = (str \<noteq> [] \<and> 0 \<notin> set str)"
| "pb_no_nul (Float f) = (0 \<notin> set (le_bytes 4 f))"
| "pb_no_nul (Enum w) = (w \<noteq> 0)"
| "pb_no_nul _ = False"

lemma signed_varint_no_nul: "(w :: u32) \<noteq> 0 \<Longrightarrow> 0 \<notin> set (WriteVarint64 (scast w))"
proof -
  assume w: "w \<noteq> 0"
  have "(scast w :: u64) \<noteq> 0"
  proof
    assume "(scast w :: u64) = 0"
    then have "ucast (scast w :: u64) = (0 :: u32)" by (simp only: unsigned_0)
    with w show False by (simp add: scast_back)
  qed
  then show ?thesis by (rule WriteVarint64_no_nul)
qed

lemma pb_write_no_nul:
  assumes "pb_no_nul v" and "scalar_fits t v"
  shows "0 \<notin> set (pb_write v)"
proof (cases v)
  case (UInt32 w)
  with assms show ?thesis by (simp add: WriteVarint32_no_nul)
next
  case (Str str)
  then have "length str < 2 ^ 31" using assms(2) by (cases t) auto
  then have "unat (word_of_nat (length str) :: u32) = length str"
    by (simp add: unsigned_of_nat take_bit_nat_eq_self)
  then have "(word_of_nat (length str) :: u32) \<noteq> 0" using assms Str by auto
  then show ?thesis using assms Str by (simp add: WriteVarint32_no_nul)
qed (use assms in \<open>auto simp: signed_varint_no_nul\<close>)

lemma field_bytes_no_nul:
  assumes "0 < n" and "n < 2 ^ 29" and "scalar_fits t v" and "pb_no_nul v"
  shows "0 \<notin> set (field_bytes n t v)"
  using field_tag_facts(2) [of "(n, t)"] pb_write_no_nul [OF assms(4), of t] assms
  by (simp add: scalar_field(1) WriteVarint32_no_nul)

text \<open>A message of single values, without unknown fields.\<close>

lemma fields_no_nul:
  assumes "good_schema sch" and "fields_fit depth sch msg"
    and "\<And>n v. pb_fields msg n = Some v \<Longrightarrow> pb_no_nul v"
  shows "0 \<notin> set (fields_bytes sch msg)"
  using assms(1,2)
proof (induction sch)
  case (Cons f sch)
  obtain n t where f: "f = (n, t)" by (cases f)
  have "0 \<notin> set (field_bytes n t v)" if v: "pb_fields msg n = Some v" for v
  proof (rule field_bytes_no_nul)
    show "scalar_fits t v"
      using Cons.prems(2) assms(3) [OF v] v f by (cases t; cases v) auto
  qed (use Cons.prems(1) f assms(3) [OF v] in auto)
  then show ?case using Cons f by (auto split: option.split)
qed simp

lemma Serialize_no_nul:
  assumes "good_schema sch" and "msg_fits sch msg" and "pb_unknown msg = []"
    and "\<And>n v. pb_fields msg n = Some v \<Longrightarrow> pb_no_nul v"
  shows "0 \<notin> set (SerializeAsString sch msg)"
proof -
  have "0 \<notin> set (fields_bytes sch msg)"
    using assms(2) by (intro fields_no_nul [OF assms(1), of 100] assms(4))
      (simp_all add: msg_fits_def msg_fits_at_def)
  then show ?thesis using assms(3) by (simp add: SerializeAsString_def SerializeUnknownFields_def)
qed

subsection \<open>Login\<close>

lemma frame_has_nul:
  assumes "unat cmd < 256"
  shows "0 \<in> set (frame cmd body @ rest)"
proof -
  have "drop_bit 8 cmd = 0"
  proof -
    have "unat (drop_bit 8 cmd) = 0"
      using assms by (simp only: unat_drop_bit_eq) (simp add: drop_bit_eq_div)
    then show ?thesis by (simp add: unsigned_eq_0_iff)
  qed
  then have "le_bytes 2 cmd = [ucast cmd, 0]" by (simp add: numeral_2_eq_2)
  then show ?thesis by (simp add: frame_def)
qed

lemma HandleLogin_reply:
  assumes "msg_fits CRequestLogin req" and "pb_fields req 1 = Some (Str name)"
  shows "HandleLogin cmd connection (SerializeAsString CRequestLogin req) a =
    SendClient (word_of_int connection) 1
      (Some (SerializeAsString CRequestLoginRet (pb_set 1 (Str name) pb_new))) a"
  using ParseFromString_Serialize [OF net_good_schemas(2) assms(1)] assms(2)
  by (simp add: HandleLogin_def get_string_def commands)

lemma login_body_nonempty:
  assumes "pb_fields req 1 = Some (Str name)"
  shows "0 < length (SerializeAsString CRequestLogin req)"
  using assms WriteVarint64_nonempty
  by (auto simp: SerializeAsString_def CRequestLogin_def WriteVarint32_def)

lemma login_answered:
  assumes "srv_linked srv" and "map_of (m_OnlineID srv) conn = Some h"
    and "m_RecvMessage srv = []" and "m_SendMessage srv = []" and "ts_status srv \<noteq> CLOSE"
    and "am_status a \<noteq> App_CLOSED" and "m_EchoServer a = Some srv"
    and "handler_of m C2G_Login = Some HandleLogin"
    and "msg_fits CRequestLogin req" and "pb_unknown req = []"
    and "\<And>n v. pb_fields req n = Some v \<Longrightarrow> pb_no_nul v"
    and "pb_fields req 1 = Some (Str name)"
    and "length (SerializeAsString CRequestLogin req) \<le> 65531"
    and "length (SerializeAsString CRequestLoginRet (pb_set 1 (Str name) pb_new)) \<le> 65531"
  shows "rfold sys_step
      [Sys_net (Ev_read h (int (4 + length (SerializeAsString CRequestLogin req)))
                 (frame 2 (SerializeAsString CRequestLogin req) @ rest)),
       Sys_turn, Sys_net Ev_timer] (m, a) =
    Inr (m, a\<lparr>m_EchoServer := Some (srv\<lparr>ts_log := ts_log srv
      @ written h 1 (SerializeAsString CRequestLoginRet (pb_set 1 (Str name) pb_new)) @ [UvTimerStart]\<rparr>)\<rparr>)"
proof -
  let ?body = "SerializeAsString CRequestLogin req"
  have whole: "c_str ?body = ?body"
    using Serialize_no_nul [OF net_good_schemas(2) assms(9-11)]
    unfolding c_str_def by (intro takeWhile_eq_all_conv [THEN iffD2]) auto
  have u: "uint (2 :: u16) = C2G_Login" by (simp add: C2G_Login_def)
  have h: "handler_of m (uint (2 :: u16)) = Some HandleLogin"
    unfolding u by (rule assms(8))
  have f: "HandleLogin (uint (2 :: u16)) (sint conn) (c_str ?body) a =
      SendClient conn 1 (Some (SerializeAsString CRequestLoginRet (pb_set 1 (Str name) pb_new))) a"
    unfolding whole HandleLogin_reply [OF assms(9,12)] by simp
  have nul: "0 \<in> set (frame 2 ?body @ rest)"
    by (rule frame_has_nul) simp
  have c: "ucast (1 :: u32) = (1 :: u16)" by simp
  show ?thesis
    using request_reply [OF assms(1-7) login_body_nonempty [of req, OF assms(12)] assms(13) nul h f assms(14)]
    unfolding c .
qed

text \<open>A role with the gender false: the zero byte that encodes it ends the string.\<close>

lemma create_role_cut:
  assumes "msg_fits CGCSendCreateRole req" and "pb_fields req 2 = Some (Bool False)"
    and "\<And>v. pb_fields req 1 = Some v \<Longrightarrow> pb_no_nul v"
  shows "ParseFromString CGCSendCreateRole (c_str (SerializeAsString CGCSendCreateRole req)) = None"
proof -
  let ?sch = CGCSendCreateRole
  let ?F = "case pb_fields req 1 of None \<Rightarrow> [] | Some v \<Rightarrow> field_bytes 1 PB_uint32 v"
  let ?tail = "(case pb_fields req 3 of None \<Rightarrow> [] | Some v \<Rightarrow> field_bytes 3 PB_string v)
    @ (case pb_fields req 4 of None \<Rightarrow> [] | Some v \<Rightarrow> field_bytes 4 PB_bool v)
    @ SerializeUnknownFields (pb_unknown req)"
  have "WriteVarint32 (field_tag (2, PB_bool)) = [16]"
    by (simp add: field_tag_def MakeTag_def WriteVarint32_def WriteVarint64.simps)
  then have ser: "SerializeAsString ?sch req = ?F @ [16] @ 0 # ?tail"
    using assms(2) by (simp add: SerializeAsString_def CGCSendCreateRole_def del: One_nat_def)
  have vocation: "scalar_fits PB_uint32 v" if "pb_fields req 1 = Some v" for v
    using that assms(1) by (auto simp: msg_fits_def msg_fits_at_def CGCSendCreateRole_def)
  have "0 \<notin> set ?F"
  proof (cases "pb_fields req 1")
    case (Some v)
    then have "0 \<notin> set (field_bytes 1 PB_uint32 v)"
      by (intro field_bytes_no_nul vocation assms(3)) simp_all
    then show ?thesis using Some by simp
  qed simp
  then have "0 \<notin> set (?F @ [16])" by simp
  then have cut: "c_str (SerializeAsString ?sch req) = ?F @ [16]"
    unfolding ser append_assoc [symmetric] by (rule c_str_append_nul)
  have stop: "MergePartial (Suc k) 100 ?sch m [16] = None" for k m
  proof -
    have "ReadTag [16] = (16, [])"
      by (simp add: ReadTag_def ReadVarint32_def ReadVarint64_def)
    moreover have "field_with_tag 16 ?sch = Some (2, PB_bool)"
      by (simp add: CGCSendCreateRole_def field_tag_def MakeTag_def)
    ultimately show ?thesis by (simp add: MergePartial.simps(2) ReadVarint64_def read_field_def)
  qed
  show ?thesis
  proof (cases "pb_fields req 1")
    case None
    then show ?thesis unfolding cut ParseFromString_def using stop by simp
  next
    case (Some v)
    have "(1, PB_uint32) \<in> set ?sch" by (simp add: CGCSendCreateRole_def)
    then have "MergePartial (length (field_bytes 1 PB_uint32 v @ [16]) + 1) 100 ?sch pb_new
        (field_bytes 1 PB_uint32 v @ [16]) = MergePartial (length [16 :: byte] + 1) 100 ?sch (pb_set 1 v pb_new) [16]"
      using Merge_scalar [of ?sch "(1, PB_uint32)" v "[16]" _ 100 pb_new] vocation [OF Some] by simp
    then show ?thesis unfolding cut ParseFromString_def using stop Some by simp
  qed
qed

end
