(* ===== verification/ReadSafety.thy ===== *)
theory ReadSafety
  imports StructMacros
begin

text \<open>
  Reading arbitrary bytes. \<open>decode\<close> says what each member type makes of a list of bytes, without pointers,
  bounds or loops: the value, the number of bytes used, or the fault. The operators of \<open>BinaryReadStream\<close> and
  \<open>UnPack\<close> are shown to do exactly that, so a read leaves the buffer only where \<open>decode\<close> says so.
\<close>

subsection \<open>What the bytes stand for\<close>

text \<open>
  The elements of a vector: one for each four bytes that are there; the others repeat the last one, or the
  uninitialised loop variable when there is none.
\<close>

definition be32s :: "nat \<Rightarrow> byte list \<Rightarrow> u32 list" where
  "be32s k bs = map (\<lambda>i. from_be32 (take 4 (drop (4 * i) bs))) [0..<k]"

definition decode_elems :: "u32 \<Rightarrow> nat \<Rightarrow> byte list \<Rightarrow> u32 list" where
  "decode_elems junk n bs =
     (let k = min n (length bs div 4)
      in be32s k bs @ replicate (n - k) (if k = 0 then junk else last (be32s k bs)))"

fun decode :: "u32 \<Rightarrow> fval \<Rightarrow> byte list \<Rightarrow> (fval \<times> nat) res" where
  "decode junk (V_int i) bs =
     Inr (if 4 \<le> length bs then (V_int (from_be32 (take 4 bs)), 4) else (V_int i, 0))"
| "decode junk (V_llong i) bs =
     Inr (if 8 \<le> length bs
          then (V_llong (push_bit 32 (scast (from_be32 (take 4 bs))) OR scast (from_be32 (take 4 (drop 4 bs)))), 8)
          else (V_llong i, if 4 \<le> length bs then 4 else 0))"
| "decode junk (V_float f) bs =
     Inr (if 4 \<le> length bs then (V_float (from_be32 (take 4 bs)), 4) else (V_float f, 0))"
| "decode junk (V_short i) bs =
     Inr (if 2 \<le> length bs then (V_short (from_be16 (take 2 bs)), 2) else (V_short i, 0))"
| "decode junk (V_char c) bs = Inr (case bs of [] \<Rightarrow> (V_char c, 0) | b # _ \<Rightarrow> (V_char b, 1))"
| "decode junk (V_string str) bs =
     (let n = unat (from_be16 (take 2 bs))
      in if length bs < 2 then Inr (V_string str, 0)
         else if length bs - 2 < n then Inl OutOfBounds
         else Inr (V_string (take n (drop 2 bs)), 2 + n))"
| "decode junk (V_vector_int vs) bs =
     (let n = sint (from_be16 (take 2 bs))
      in if length bs < 2 then Inl Uninitialised
         else if n < 0 \<or> 1000 < n then Inr (V_vector_int [], 2)
         else Inr (V_vector_int (decode_elems junk (nat n) (drop 2 bs)),
                   2 + 4 * min (nat n) ((length bs - 2) div 4)))"

fun decode_all :: "u32 \<Rightarrow> fval list \<Rightarrow> byte list \<Rightarrow> (fval list \<times> nat) res" where
  "decode_all junk [] bs = Inr ([], 0)"
| "decode_all junk (v # vs) bs =
     rbind (decode junk v bs) (\<lambda>(v', n).
     rbind (decode_all junk vs (drop n bs)) (\<lambda>(vs', m). Inr (v' # vs', n + m)))"

text \<open>It uses bytes that are there only, keeps the types, and faults on strings and vectors only.\<close>

lemma decode_type: "decode junk v bs = Inr (v', n) \<Longrightarrow> type_of v' = type_of v \<and> n \<le> length bs"
  by (cases v) (auto simp: Let_def split: if_splits list.splits)

lemma decode_fault:
  "decode junk v bs = Inl e \<Longrightarrow>
     e = OutOfBounds \<and> type_of v = T_string \<or> e = Uninitialised \<and> type_of v = T_vector_int"
  by (cases v) (auto simp: Let_def split: if_splits)

lemma decode_all_type:
  "decode_all junk vs bs = Inr (vs', n) \<Longrightarrow> map type_of vs' = map type_of vs \<and> n \<le> length bs"
proof (induction vs arbitrary: bs vs' n)
  case (Cons v vs)
  then obtain v' k ws m where "decode junk v bs = Inr (v', k)" "decode_all junk vs (drop k bs) = Inr (ws, m)"
    "vs' = v' # ws" "n = k + m"
    by (auto simp: rbind_Inr_iff)
  then show ?case using decode_type [of junk v bs v' k] Cons.IH [of "drop k bs" ws m] by auto
qed simp

lemma decode_all_fault:
  "decode_all junk vs bs = Inl e \<Longrightarrow>
     e = OutOfBounds \<and> T_string \<in> type_of ` set vs \<or> e = Uninitialised \<and> T_vector_int \<in> type_of ` set vs"
proof (induction vs arbitrary: bs)
  case (Cons v vs)
  show ?case
  proof (cases "decode junk v bs")
    case (Inl f)
    then show ?thesis using Cons.prems decode_fault [OF Inl] by auto
  next
    case (Inr p)
    then obtain v' n where p: "decode junk v bs = Inr (v', n)" by (cases p) simp
    then have "decode_all junk vs (drop n bs) = Inl e"
      using Cons.prems by (cases "decode_all junk vs (drop n bs)") auto
    then show ?thesis using Cons.IH by auto
  qed
qed simp

subsection \<open>The operators do that\<close>

lemma be32s_Suc: "be32s (Suc k) bs = from_be32 (take 4 bs) # be32s k (drop 4 bs)"
  by (simp add: be32s_def map_upt_Suc add.commute del: upt_Suc)

lemma quarter: "4 \<le> (n :: nat) \<Longrightarrow> n div 4 = Suc ((n - 4) div 4)"
  by (simp add: le_div_geq)

lemma decode_elems_more:
  assumes "4 \<le> length bs"
  shows "decode_elems junk (Suc n) bs = from_be32 (take 4 bs) # decode_elems (from_be32 (take 4 bs)) n (drop 4 bs)"
proof -
  have "length bs div 4 = Suc ((length bs - 4) div 4)"
    using assms by (rule quarter)
  then show ?thesis
    by (simp add: decode_elems_def Let_def be32s_Suc) (simp add: be32s_def)
qed

lemma decode_elems_none:
  "length bs < 4 \<Longrightarrow> decode_elems junk n bs = replicate n junk"
  by (simp add: decode_elems_def be32s_def)

lemma rs_elems_decode:
  "rs_ok s \<Longrightarrow> rs_elems rs_ext_int n t acc s =
     Inr (acc @ decode_elems t n (rs_rest s), rs_adv (4 * min n (length (rs_rest s) div 4)) s)"
proof (induction n arbitrary: t acc s)
  case 0
  then show ?case by (simp add: decode_elems_def be32s_def rs_adv_def)
next
  case (Suc n)
  show ?case
  proof (cases "4 \<le> length (rs_rest s)")
    case True
    have "length (rs_rest s) div 4 = Suc ((length (rs_rest s) - 4) div 4)"
      using True by (rule quarter)
    then show ?thesis
      using Suc True by (simp add: rs_ext_int_eq decode_elems_more)
  next
    case False
    then show ?thesis
      using Suc by (simp add: rs_ext_int_eq decode_elems_none)
  qed
qed

lemma rs_adv_zero [simp]: "rs_adv 0 s = s"
  by (simp add: rs_adv_def)

text \<open>The result of a read, as \<open>decode\<close> gives it.\<close>

definition decoded :: "('a \<times> nat) res \<Rightarrow> rstream \<Rightarrow> ('a \<times> rstream) res" where
  "decoded d s = rbind d (\<lambda>(v, n). Inr (v, rs_adv n s))"

lemma ext_field_decode:
  assumes "rs_ok s"
  shows "ext_field junk v s = decoded (decode junk v (rs_rest s)) s"
proof (cases v)
  case (V_llong i)
  have "4 \<le> length (rs_rest s) - 4 \<longleftrightarrow> 8 \<le> length (rs_rest s)" by auto
  then show ?thesis
    using assms V_llong by (simp add: decoded_def rs_ext_llong_def rs_Read_int_eq)
next
  case (V_string str)
  then show ?thesis
    using assms by (auto simp: decoded_def rs_ext_string_eq declared_len_def Let_def)
next
  case (V_vector_int vs)
  then show ?thesis
    using assms by (simp add: decoded_def rs_ext_vector_def rs_Read_short_eq rs_elems_decode Let_def)
qed (use assms in \<open>simp_all add: decoded_def rs_ext_int_eq rs_ext_float_eq rs_ext_short_eq rs_ext_char_eq
      rs_ext_llong_def rs_Read_int_eq split: list.split\<close>)

lemma ext_fields_decode: "rs_ok s \<Longrightarrow> ext_fields junk vs s = decoded (decode_all junk vs (rs_rest s)) s"
proof (induction vs arbitrary: s)
  case (Cons v vs)
  show ?case
  proof (cases "decode junk v (rs_rest s)")
    case (Inl e)
    then show ?thesis using ext_field_decode [OF Cons.prems, of junk v] by (simp add: decoded_def)
  next
    case (Inr p)
    then obtain v' n where p: "decode junk v (rs_rest s) = Inr (v', n)" by (cases p) simp
    have "ext_fields junk vs (rs_adv n s) = decoded (decode_all junk vs (drop n (rs_rest s))) (rs_adv n s)"
      using Cons.IH [of "rs_adv n s"] Cons.prems by simp
    then show ?thesis
      using p ext_field_decode [OF Cons.prems, of junk v]
      by (cases "decode_all junk vs (drop n (rs_rest s))") (auto simp: decoded_def)
  qed
qed (simp add: decoded_def)

theorem UnPack_decode:
  assumes "rs_ok r"
  shows "UnPack junk old r =
    decoded (rbind (decode_all junk (obj_vals old) (rs_rest r)) (\<lambda>(vs, n). Inr (old\<lparr>obj_vals := vs\<rparr>, n))) r"
  by (cases "decode_all junk (obj_vals old) (rs_rest r)")
    (auto simp: UnPack_def ext_fields_decode [OF assms] decoded_def)

end
