(* ===== verification/TcpClient.thy ===== *)
theory TcpClient
  imports TcpServer
begin

text \<open>
  The class \<open>uv::TCPClient\<close> of src/Server/NetApp/NetFrame.h and NetFrame.cpp. Its callbacks are run
  by libuv; what the loop still has to do for the client (an armed timer, a connection attempt, a
  stream that is read or being closed, a write that is under way) is part of the state, so that the step
  relation only runs a callback that was asked for, once. The client has one request object for its writes,
  \<open>write_req\<close>; libuv owns it from \<open>uv_write\<close> to \<open>write_cb\<close>, and handing it over again before is a fault.
\<close>

subsection \<open>State\<close>

datatype uc_action =
    UcConnect
  | UcReadStart
  | UcWrite "byte list option" u32 int   \<comment> \<open>with the result of the call\<close>
  | UcShutdown
  | UcClose

record tcp_client =
  tc_status :: STATUS
  tc_unicode :: u32
  tc_ip :: "byte list"
  tc_port :: int
  tc_SendMessage :: "MessageInfo list"
  tc_RecvMessage :: "MessageInfo list"
  tc_timer :: bool        \<comment> \<open>the timer is armed\<close>
  tc_connecting :: bool   \<comment> \<open>a connection attempt is under way\<close>
  tc_reading :: bool      \<comment> \<open>reading has been started on the stream\<close>
  tc_closing :: bool      \<comment> \<open>the stream is being closed\<close>
  tc_writing :: bool      \<comment> \<open>\<open>write_req\<close> is under way\<close>
  tc_log :: "uc_action list"

definition TCPClient_new :: "u32 \<Rightarrow> byte list \<Rightarrow> int \<Rightarrow> tcp_client res" where
  "TCPClient_new unicode_arg ip_arg port_arg =
     rbind (c_strlen ip_arg) (\<lambda>n.
       if n > 10 then Inl InvalidParameter
       else rbind (memcpy_from ip_arg 0 n) (\<lambda>bs.
            rbind (memcpy_to (replicate 10 0) 0 bs) (\<lambda>ip.
              Inr \<lparr>tc_status = NONE, tc_unicode = unicode_arg, tc_ip = ip, tc_port = port_arg,
                   tc_SendMessage = [], tc_RecvMessage = [], tc_timer = False,
                   tc_connecting = False, tc_reading = False, tc_closing = False,
                   tc_writing = False, tc_log = []\<rparr>)))"

subsection \<open>Calls to libuv\<close>

text \<open>\<open>r\<close> is the result of the call; a call that fails asks for nothing.\<close>

definition uc_connect :: "int \<Rightarrow> tcp_client \<Rightarrow> tcp_client" where
  "uc_connect r s = s\<lparr>tc_connecting := (tc_connecting s \<or> r = 0), tc_log := tc_log s @ [UcConnect]\<rparr>"

definition uc_timer_start :: "int \<Rightarrow> tcp_client \<Rightarrow> tcp_client" where
  "uc_timer_start r s = s\<lparr>tc_timer := (tc_timer s \<or> r = 0)\<rparr>"

definition uc_read_start :: "int \<Rightarrow> tcp_client \<Rightarrow> tcp_client" where
  "uc_read_start r s = s\<lparr>tc_reading := (tc_reading s \<or> r = 0), tc_log := tc_log s @ [UcReadStart]\<rparr>"

definition uc_close :: "tcp_client \<Rightarrow> tcp_client" where
  "uc_close s = s\<lparr>tc_reading := False, tc_closing := True, tc_log := tc_log s @ [UcClose]\<rparr>"

definition uc_write :: "byte list option \<Rightarrow> u32 \<Rightarrow> int \<Rightarrow> tcp_client \<Rightarrow> tcp_client res" where
  "uc_write buf n r s =
     (if tc_writing s then Inl RequestInUse
      else Inr (s\<lparr>tc_writing := (r = 0), tc_log := tc_log s @ [UcWrite buf n r]\<rparr>))"

subsection \<open>Queues and callbacks\<close>

definition client_PushRecvMessage :: "MessageInfo \<Rightarrow> tcp_client \<Rightarrow> tcp_client" where
  "client_PushRecvMessage info s = s\<lparr>tc_RecvMessage := queue_push info (tc_RecvMessage s)\<rparr>"

definition client_GetRecvMessage :: "tcp_client \<Rightarrow> MessageInfo option \<times> tcp_client" where
  "client_GetRecvMessage s =
     (case queue_try_pop (tc_RecvMessage s) of
        None \<Rightarrow> (None, s)
      | Some (info, q) \<Rightarrow> (Some info, s\<lparr>tc_RecvMessage := q\<rparr>))"

definition PushSendMssage :: "MessageInfo \<Rightarrow> tcp_client \<Rightarrow> tcp_client" where
  "PushSendMssage info s = s\<lparr>tc_SendMessage := queue_push info (tc_SendMessage s)\<rparr>"

definition client_GetSendMessage :: "tcp_client \<Rightarrow> MessageInfo option \<times> tcp_client" where
  "client_GetSendMessage s =
     (case queue_try_pop (tc_SendMessage s) of
        None \<Rightarrow> (None, s)
      | Some (info, q) \<Rightarrow> (Some info, s\<lparr>tc_SendMessage := q\<rparr>))"

definition client_close_cb :: "tcp_client \<Rightarrow> tcp_client" where
  "client_close_cb s = s\<lparr>tc_status := NONE\<rparr>"

text \<open>The message built from a successful read is a local variable that nothing looks at.\<close>

definition client_read_cb :: "int \<Rightarrow> tcp_client \<Rightarrow> tcp_client" where
  "client_read_cb nread s =
     (if nread = 0 then s
      else if nread < 0 then uc_close s
      else s)"

text \<open>
  The result of \<open>uv_write\<close> is looked at for a line of output only: the message that the call refuses has
  left the queue.
\<close>

definition client_timer_cb :: "int \<Rightarrow> int \<Rightarrow> int \<Rightarrow> int \<Rightarrow> tcp_client \<Rightarrow> tcp_client res" where
  "client_timer_cb r_connect r_read r_write r_start s =
     (if tc_status s = CLOSE then Inr (s\<lparr>tc_log := tc_log s @ [UcShutdown]\<rparr>)
      else if tc_status s = NONE then Inr (uc_connect r_connect s)
      else let s1 = uc_read_start r_read s;
               (msg, s2) = client_GetSendMessage s1
           in rbind (case msg of
                       None \<Rightarrow> Inr s2
                     | Some info \<Rightarrow> uc_write (mi_buf info) (mi_len info) r_write s2) (\<lambda>s3.
                Inr (uc_timer_start r_start s3)))"

definition client_write_cb :: "int \<Rightarrow> tcp_client \<Rightarrow> tcp_client" where
  "client_write_cb status s = s"

definition client_connect_cb :: "int \<Rightarrow> int \<Rightarrow> int \<Rightarrow> tcp_client \<Rightarrow> tcp_client" where
  "client_connect_cb status r_init r_start s =
     (let s1 = (if status \<noteq> 0 then s
                else if tc_status s = NONE then s\<lparr>tc_status := RUNING\<rparr> else s)
      in if r_init \<noteq> 0 then s1 else uc_timer_start r_start s1)"

definition client_Close :: "tcp_client \<Rightarrow> tcp_client" where
  "client_Close s = s\<lparr>tc_status := CLOSE\<rparr>"

text \<open>The thread function up to \<open>uv_run\<close>: a code when a call fails, \<open>None\<close> when it enters the loop.\<close>

definition client_Start :: "int \<Rightarrow> int \<Rightarrow> tcp_client \<Rightarrow> int option \<times> tcp_client" where
  "client_Start r_ip r_connect s =
     (if r_ip \<noteq> 0 then (Some r_ip, s)
      else let s1 = uc_connect r_connect s
           in if r_connect \<noteq> 0 then (Some r_connect, s1) else (None, s1))"

subsection \<open>The client as a state machine\<close>

datatype cl_event =
    Cl_timer int int int int
  | Cl_connected int int int
  | Cl_read int
  | Cl_closed
  | Cl_written int
  | Cl_push MessageInfo
  | Cl_get
  | Cl_close

inductive cl_step :: "tcp_client \<Rightarrow> cl_event \<Rightarrow> tcp_client \<Rightarrow> bool" where
  cl_timer: "tc_timer s \<Longrightarrow> client_timer_cb r1 r2 r3 r4 (s\<lparr>tc_timer := False\<rparr>) = Inr t \<Longrightarrow>
     cl_step s (Cl_timer r1 r2 r3 r4) t"
| cl_connected: "tc_connecting s \<Longrightarrow>
     cl_step s (Cl_connected st r1 r2) (client_connect_cb st r1 r2 (s\<lparr>tc_connecting := False\<rparr>))"
| cl_read: "tc_reading s \<Longrightarrow> cl_step s (Cl_read nread) (client_read_cb nread s)"
| cl_closed: "tc_closing s \<Longrightarrow> cl_step s Cl_closed (client_close_cb (s\<lparr>tc_closing := False\<rparr>))"
| cl_written: "tc_writing s \<Longrightarrow> cl_step s (Cl_written st) (client_write_cb st (s\<lparr>tc_writing := False\<rparr>))"
| cl_push: "cl_step s (Cl_push info) (PushSendMssage info s)"
| cl_get: "cl_step s Cl_get (snd (client_GetRecvMessage s))"
| cl_close: "cl_step s Cl_close (client_Close s)"

inductive_cases cl_step_cases: "cl_step s e t"

inductive_simps cl_step_simps:
  "cl_step s (Cl_timer r1 r2 r3 r4) t" "cl_step s (Cl_written st) t" "cl_step s (Cl_connected st r1 r2) t"
  "cl_step s (Cl_read nread) t" "cl_step s Cl_closed t" "cl_step s (Cl_push info) t"
  "cl_step s Cl_get t" "cl_step s Cl_close t"

inductive cl_run :: "tcp_client \<Rightarrow> cl_event list \<Rightarrow> tcp_client \<Rightarrow> bool" where
  cl_run_nil: "cl_run s [] s"
| cl_run_snoc: "cl_run s es t \<Longrightarrow> cl_step t e u \<Longrightarrow> cl_run s (es @ [e]) u"

definition cl_started :: "tcp_client \<Rightarrow> bool" where
  "cl_started s \<longleftrightarrow> (\<exists>u ip port s0. TCPClient_new u ip port = Inr s0 \<and> client_Start 0 0 s0 = (None, s))"

lemma cl_started_fields:
  assumes "cl_started s"
  shows "tc_status s = NONE" "tc_SendMessage s = []" "tc_RecvMessage s = []" "tc_timer s = False"
    "tc_connecting s = True" "tc_writing s = False" "tc_log s = [UcConnect]"
  using assms
  by (auto simp: cl_started_def TCPClient_new_def client_Start_def uc_connect_def Let_def
      rbind_Inr_iff split: if_splits)

lemmas client_defs =
  client_timer_cb_def client_connect_cb_def client_read_cb_def client_close_cb_def
  PushSendMssage_def client_GetRecvMessage_def client_GetSendMessage_def client_Close_def
  client_write_cb_def uc_write_def uc_connect_def uc_timer_start_def uc_read_start_def uc_close_def Let_def

subsection \<open>What the client receives\<close>

lemma cl_step_recv: "cl_step s e t \<Longrightarrow> tc_RecvMessage s = [] \<Longrightarrow> tc_RecvMessage t = []"
  by (erule cl_step_cases) (auto simp: client_defs split: option.splits prod.splits if_splits)

lemma cl_run_recv: "cl_run s es t \<Longrightarrow> tc_RecvMessage s = [] \<Longrightarrow> tc_RecvMessage t = []"
  by (induction rule: cl_run.induct) (auto dest: cl_step_recv)

subsection \<open>What the client sends\<close>

text \<open>
  The messages pushed in a run; the writes a client has tried, with the result of each; the messages that libuv
  has taken.
\<close>

fun pushed :: "cl_event list \<Rightarrow> (byte list option \<times> u32) list" where
  "pushed [] = []"
| "pushed (Cl_push info # es) = (mi_buf info, mi_len info) # pushed es"
| "pushed (_ # es) = pushed es"

fun client_tries :: "uc_action list \<Rightarrow> ((byte list option \<times> u32) \<times> int) list" where
  "client_tries [] = []"
| "client_tries (UcWrite buf n r # l) = ((buf, n), r) # client_tries l"
| "client_tries (_ # l) = client_tries l"

definition accepted_writes :: "((byte list option \<times> u32) \<times> int) list \<Rightarrow> (byte list option \<times> u32) list" where
  "accepted_writes ts = map fst (filter (\<lambda>t. snd t = 0) ts)"

lemma pushed_append [simp]: "pushed (es @ fs) = pushed es @ pushed fs"
  by (induction es rule: pushed.induct) auto

lemma client_tries_append [simp]: "client_tries (k @ l) = client_tries k @ client_tries l"
  by (induction k rule: client_tries.induct) auto

lemma accepted_writes_append [simp]: "accepted_writes (ts @ us) = accepted_writes ts @ accepted_writes us"
  by (simp add: accepted_writes_def)

definition queued :: "tcp_client \<Rightarrow> (byte list option \<times> u32) list" where
  "queued s = map (\<lambda>info. (mi_buf info, mi_len info)) (tc_SendMessage s)"

text \<open>A step leaves the messages that were tried before and those that wait in the order of their pushing.\<close>

lemma cl_step_outbox:
  assumes "cl_step s e t"
  shows "\<exists>ts. client_tries (tc_log t) = client_tries (tc_log s) @ ts \<and> map fst ts @ queued t = queued s @ pushed [e]"
  using assms
proof (cases rule: cl_step.cases)
  case (cl_timer r1 r2 r3 r4)
  then show ?thesis
    by (cases "tc_SendMessage s") (auto simp: queued_def client_defs split: if_splits)
qed (auto simp: queued_def client_defs queue_push_def split: option.splits)

definition cl_outbox :: "tcp_client \<Rightarrow> (byte list option \<times> u32) list" where
  "cl_outbox s = map fst (client_tries (tc_log s)) @ queued s"

lemma cl_run_outbox: "cl_run s es t \<Longrightarrow> cl_outbox t = cl_outbox s @ pushed es"
proof (induction rule: cl_run.induct)
  case (cl_run_snoc s es t e u)
  then show ?case using cl_step_outbox [of t e u] by (auto simp: cl_outbox_def)
qed simp

text \<open>
  What a client has tried to write to its stream, followed by what is still queued, is what has been pushed,
  in the same order: over disconnections and new connections every message is tried once at most and none
  overtakes another.
\<close>

theorem client_sends_in_order:
  assumes "cl_started s" and "cl_run s es t"
  shows "map fst (client_tries (tc_log t)) @ queued t = pushed es"
  using cl_run_outbox [OF assms(2)] cl_started_fields(2,7) [OF assms(1)]
  by (simp add: cl_outbox_def queued_def)

text \<open>
  A message whose write libuv refuses is lost: it has left the queue, and the timer goes on with the next one.
\<close>

theorem refused_write_loses_message:
  assumes "tc_status s = RUNING" and "tc_SendMessage s = info # q" and "\<not> tc_writing s" and "r3 \<noteq> 0"
  shows "\<exists>t. client_timer_cb r1 r2 r3 0 s = Inr t \<and> tc_SendMessage t = q \<and> tc_timer t \<and> \<not> tc_writing t
    \<and> client_tries (tc_log t) = client_tries (tc_log s) @ [((mi_buf info, mi_len info), r3)]"
  using assms by (simp add: client_defs)

text \<open>
  Nothing waits for the callback of a write: with two messages queued, the second turn of the timer hands
  \<open>write_req\<close> to libuv again when the first write has not completed by then.
\<close>

theorem write_request_reused:
  assumes "tc_status s = RUNING" and "tc_SendMessage s = m # n # q" and "tc_timer s" and "\<not> tc_writing s"
  shows "\<exists>t. cl_step s (Cl_timer r1 r2 0 0) t \<and> tc_timer t
    \<and> client_timer_cb r1' r2' r3' r4' (t\<lparr>tc_timer := False\<rparr>) = Inl RequestInUse"
  using assms by (simp add: cl_step_simps client_defs)

subsection \<open>Reconnecting\<close>

text \<open>Events of a run in which the calls that keep the client going succeed, without \<open>Close\<close>.\<close>

fun cl_smooth :: "cl_event \<Rightarrow> bool" where
  "cl_smooth (Cl_timer r1 r2 r3 r4) = (r1 = 0 \<and> r4 = 0)"
| "cl_smooth (Cl_connected st r1 r2) = (r1 = 0 \<and> r2 = 0)"
| "cl_smooth Cl_close = False"
| "cl_smooth _ = True"

definition cl_alive :: "tcp_client \<Rightarrow> bool" where
  "cl_alive s \<longleftrightarrow> tc_status s \<noteq> CLOSE \<and> (tc_timer s \<or> tc_connecting s)"

lemma cl_step_alive: "cl_step s e t \<Longrightarrow> cl_smooth e \<Longrightarrow> cl_alive s \<Longrightarrow> cl_alive t"
  by (erule cl_step_cases)
    (auto simp: cl_alive_def client_defs split: option.splits prod.splits if_splits)

lemma cl_run_alive:
  "cl_run s es t \<Longrightarrow> list_all cl_smooth es \<Longrightarrow> cl_alive s \<Longrightarrow> cl_alive t"
  by (induction rule: cl_run.induct) (auto dest: cl_step_alive)

text \<open>
  A client that is not running and has no attempt under way asks for a new connection when its
  timer fires, and is running once the attempt succeeds.
\<close>

lemma cl_reconnect:
  assumes "tc_status s = NONE" and "tc_timer s" and "\<not> tc_connecting s"
  shows "\<exists>t. cl_run s [Cl_timer 0 r2 r3 r4, Cl_connected 0 0 0] t \<and> tc_status t = RUNING \<and> tc_timer t
    \<and> tc_SendMessage t = tc_SendMessage s"
proof -
  let ?t = "uc_connect 0 (s\<lparr>tc_timer := False\<rparr>)"
  let ?u = "client_connect_cb 0 0 0 (?t\<lparr>tc_connecting := False\<rparr>)"
  have one: "cl_step s (Cl_timer 0 r2 r3 r4) ?t"
    using assms by (intro cl_timer) (simp_all add: client_timer_cb_def)
  have "tc_connecting ?t" using assms by (simp add: client_defs)
  then have two: "cl_step ?t (Cl_connected 0 0 0) ?u" by (rule cl_connected)
  have "cl_run s ([Cl_timer 0 r2 r3 r4] @ [Cl_connected 0 0 0]) ?u"
    using cl_run_snoc [OF cl_run_snoc [OF cl_run_nil one] two] by simp
  moreover have "tc_status ?u = RUNING" "tc_timer ?u" "tc_SendMessage ?u = tc_SendMessage s"
    using assms by (simp_all add: client_defs)
  ultimately show ?thesis by auto
qed

end
