(* ===== verification/TextNum.thy ===== *)
theory TextNum
  imports GR_Prelude
begin

text \<open>
  Numbers as text, as far as the text streams of src/Server/netPack/commDef.cpp use the C library:
  \<open>snprintf\<close> with \<open>%zx\<close> and \<open>%d\<close>, \<open>strtol\<close> and \<open>atoi\<close>. Characters are bytes.
\<close>

subsection \<open>Printing\<close>

definition digit_char :: "nat \<Rightarrow> byte" where
  "digit_char d = (if d < 10 then word_of_nat (48 + d) else word_of_nat (87 + d))"

fun print_base :: "nat \<Rightarrow> nat \<Rightarrow> byte list" where
  "print_base b n =
     (if b < 2 \<or> n < b then [digit_char n] else print_base b (n div b) @ [digit_char (n mod b)])"

declare print_base.simps [simp del]

definition print_hex :: "nat \<Rightarrow> byte list" where
  "print_hex n = print_base 16 n"

definition print_int :: "int \<Rightarrow> byte list" where
  "print_int i = (if i < 0 then 45 # print_base 10 (nat (- i)) else print_base 10 (nat i))"

text \<open>\<open>%0wzx\<close>\<close>

definition print_hex_padded :: "nat \<Rightarrow> nat \<Rightarrow> byte list" where
  "print_hex_padded w n = replicate (w - length (print_hex n)) 48 @ print_hex n"

subsection \<open>Reading\<close>

definition is_space :: "byte \<Rightarrow> bool" where
  "is_space c \<longleftrightarrow> c = 32 \<or> 9 \<le> c \<and> c \<le> 13"

definition char_digit :: "nat \<Rightarrow> byte \<Rightarrow> nat option" where
  "char_digit b c =
     (let d = (if 48 \<le> c \<and> c \<le> 57 then Some (unat c - 48)
               else if 97 \<le> c \<and> c \<le> 122 then Some (unat c - 87)
               else if 65 \<le> c \<and> c \<le> 90 then Some (unat c - 55)
               else None)
      in case d of None \<Rightarrow> None | Some v \<Rightarrow> if v < b then Some v else None)"

fun digits_value :: "nat \<Rightarrow> nat \<Rightarrow> byte list \<Rightarrow> nat" where
  "digits_value b acc [] = acc"
| "digits_value b acc (c # cs) =
     (case char_digit b c of None \<Rightarrow> acc | Some d \<Rightarrow> digits_value b (acc * b + d) cs)"

text \<open>A value that a \<open>long\<close> of 32 bits cannot hold becomes the nearest one that it can.\<close>

definition clamp_long :: "int \<Rightarrow> int" where
  "clamp_long i = max (- (2 ^ 31)) (min (2 ^ 31 - 1) i)"

fun skip_0x :: "nat \<Rightarrow> byte list \<Rightarrow> byte list" where
  "skip_0x b (z # x # c # cs) =
     (if b = 16 \<and> z = 48 \<and> (x = 120 \<or> x = 88) \<and> char_digit 16 c \<noteq> None then c # cs
      else z # x # c # cs)"
| "skip_0x b cs = cs"

definition strtol :: "nat \<Rightarrow> byte list \<Rightarrow> int" where
  "strtol b str =
     (let cs = dropWhile is_space str;
          (neg, ds) = (case cs of
             [] \<Rightarrow> (False, [])
           | c # r \<Rightarrow> if c = 45 then (True, r) else if c = 43 then (False, r) else (False, cs));
          v = int (digits_value b 0 (skip_0x b ds))
      in clamp_long (if neg then - v else v))"

definition atoi :: "byte list \<Rightarrow> int" where
  "atoi str = strtol 10 str"

subsection \<open>Reading what was printed\<close>

lemma unat_digit: "n < 256 \<Longrightarrow> unat (word_of_nat n :: byte) = n"
  by (simp add: unsigned_of_nat take_bit_nat_eq_self)

lemma char_digit_digit_char:
  assumes "d < b" and "b \<le> 16"
  shows "char_digit b (digit_char d) = Some d"
proof (cases "d < 10")
  case True
  then have u: "unat (digit_char d) = 48 + d"
    unfolding digit_char_def by (simp add: unat_digit del: of_nat_add)
  then have "48 \<le> digit_char d" "digit_char d \<le> 57"
    using True by (simp_all add: word_le_nat_alt)
  with assms u show ?thesis by (simp add: char_digit_def)
next
  case False
  then have u: "unat (digit_char d) = 87 + d"
    unfolding digit_char_def using assms by (simp add: unat_digit del: of_nat_add)
  then have "\<not> digit_char d \<le> 57" "97 \<le> digit_char d" "digit_char d \<le> 122"
    using False assms by (simp_all add: word_le_nat_alt)
  with assms u show ?thesis by (simp add: char_digit_def)
qed

lemma digits_value_print:
  assumes "2 \<le> b" and "b \<le> 16"
  shows "digits_value b acc (print_base b n @ cs) = digits_value b (acc * b ^ length (print_base b n) + n) cs"
proof (induction n arbitrary: acc cs rule: less_induct)
  case (less n)
  show ?case
  proof (cases "n < b")
    case True
    then show ?thesis
      using char_digit_digit_char [of n b] assms by (simp add: print_base.simps [of b n])
  next
    case False
    have "n div b < n" using False assms by (intro div_less_dividend) auto
    moreover have "n mod b < b" using assms by simp
    ultimately show ?thesis
      using False assms less [of "n div b" acc "digit_char (n mod b) # cs"]
        char_digit_digit_char [of "n mod b" b]
      by (simp add: print_base.simps [of b n] algebra_simps)
  qed
qed

lemma digits_value_zeros: "0 < b \<Longrightarrow> digits_value b 0 (replicate k 48 @ cs) = digits_value b 0 cs"
proof (induction k)
  case (Suc k)
  then show ?case by (simp add: char_digit_def)
qed simp

lemma char_digit_nul [simp]: "char_digit b 0 = None"
  by (simp add: char_digit_def)

text \<open>The characters of a printed number.\<close>

definition plain_char :: "byte \<Rightarrow> bool" where
  "plain_char c \<longleftrightarrow> \<not> is_space c \<and> c \<noteq> 45 \<and> c \<noteq> 43 \<and> c \<noteq> 120 \<and> c \<noteq> 88 \<and> c \<noteq> 0"

lemma digit_char_plain:
  assumes "d < 16"
  shows "plain_char (digit_char d)"
proof -
  have "list_all (\<lambda>d. plain_char (digit_char d)) [0..<16]"
    by (simp add: plain_char_def is_space_def digit_char_def upt_rec)
  then show ?thesis using assms by (simp add: list_all_iff)
qed

lemma print_base_plain:
  "2 \<le> b \<Longrightarrow> b \<le> 16 \<Longrightarrow> c \<in> set (print_base b n) \<Longrightarrow> plain_char c"
proof (induction n rule: less_induct)
  case (less n)
  show ?case
  proof (cases "n < b")
    case True
    then show ?thesis
      using less.prems digit_char_plain [of n] by (simp add: print_base.simps [of b n])
  next
    case False
    have "n div b < n" using False less.prems by (intro div_less_dividend) auto
    then have IH: "c \<in> set (print_base b (n div b)) \<Longrightarrow> plain_char c"
      by (rule less.IH [OF _ less.prems(1,2)])
    have "n mod b < b" using less.prems(1) by simp
    then have "plain_char (digit_char (n mod b))"
      using less.prems(2) by (intro digit_char_plain) simp
    then show ?thesis
      using less.prems(1,3) False IH by (auto simp: print_base.simps [of b n])
  qed
qed

lemma print_base_nonempty: "print_base b n \<noteq> []"
  by (subst print_base.simps) simp

lemma skip_0x_plain: "list_all (\<lambda>c. c \<noteq> 120 \<and> c \<noteq> 88) ds \<Longrightarrow> skip_0x b ds = ds"
  by (cases "(b, ds)" rule: skip_0x.cases) auto

lemma strtol_plain:
  assumes "ds \<noteq> []" and "list_all plain_char ds"
  shows "strtol b (ds @ [0]) = clamp_long (int (digits_value b 0 (ds @ [0])))"
proof -
  obtain d ds' where ds: "ds = d # ds'" using assms(1) by (cases ds) auto
  have "skip_0x b (ds @ [0]) = ds @ [0]"
    using assms(2) by (intro skip_0x_plain) (auto simp: list_all_iff plain_char_def)
  then show ?thesis
    using assms(2) by (simp add: strtol_def Let_def ds plain_char_def)
qed

lemma strtol_minus:
  assumes "ds \<noteq> []" and "list_all plain_char ds"
  shows "strtol b (45 # ds @ [0]) = clamp_long (- int (digits_value b 0 (ds @ [0])))"
proof -
  have "skip_0x b (ds @ [0]) = ds @ [0]"
    using assms(2) by (intro skip_0x_plain) (auto simp: list_all_iff plain_char_def)
  then show ?thesis by (simp add: strtol_def Let_def is_space_def)
qed

lemma strtol_print_hex:
  assumes "n < 2 ^ 31"
  shows "strtol 16 (print_hex_padded w n @ [0]) = int n"
proof -
  let ?ds = "print_hex_padded w n"
  have plain: "list_all plain_char ?ds"
    using print_base_plain [of 16 _ n]
    by (auto simp: print_hex_padded_def print_hex_def list_all_iff plain_char_def is_space_def)
  have "?ds \<noteq> []" using print_base_nonempty by (simp add: print_hex_padded_def print_hex_def)
  then have "strtol 16 (?ds @ [0]) = clamp_long (int (digits_value 16 0 (?ds @ [0])))"
    using plain by (rule strtol_plain)
  also have "digits_value 16 0 (?ds @ [0]) = n"
    using digits_value_print [of 16 0 n "[0]"]
    by (simp add: print_hex_padded_def print_hex_def digits_value_zeros)
  finally show ?thesis using assms by (simp add: clamp_long_def)
qed

lemma atoi_print_int:
  assumes "- (2 ^ 31) \<le> i" and "i < 2 ^ 31"
  shows "atoi (print_int i @ [0]) = i"
proof -
  let ?ds = "\<lambda>n. print_base 10 n"
  have plain: "?ds n \<noteq> []" "list_all plain_char (?ds n)" for n
    using print_base_plain [of 10] print_base_nonempty by (auto simp: list_all_iff)
  have value_ds: "digits_value 10 0 (?ds n @ [0]) = n" for n
    using digits_value_print [of 10 0 n "[0]"] by simp
  show ?thesis
    using strtol_plain [OF plain, of 10 "nat i"] strtol_minus [OF plain, of 10 "nat (- i)"]
      value_ds assms by (simp add: atoi_def print_int_def clamp_long_def)
qed

subsection \<open>How long a printed number is\<close>

lemma length_print_base_le:
  "2 \<le> b \<Longrightarrow> n < b ^ Suc w \<Longrightarrow> length (print_base b n) \<le> Suc w"
proof (induction w arbitrary: n)
  case 0
  then show ?case by (simp add: print_base.simps)
next
  case (Suc w)
  show ?case
  proof (cases "n < b")
    case True
    then show ?thesis by (simp add: print_base.simps)
  next
    case False
    have "n div b < b ^ Suc w"
      using Suc.prems by (simp add: less_mult_imp_div_less mult.commute)
    then have "length (print_base b (n div b)) \<le> Suc w"
      by (rule Suc.IH [OF Suc.prems(1)])
    then show ?thesis using False Suc.prems(1) by (simp add: print_base.simps [of b n])
  qed
qed

lemma length_print_base_gt:
  "2 \<le> b \<Longrightarrow> b ^ w \<le> n \<Longrightarrow> w < length (print_base b n)"
proof (induction w arbitrary: n)
  case 0
  then show ?case using print_base_nonempty by simp
next
  case (Suc w)
  have "b * 1 \<le> b * b ^ w" using Suc.prems(1) by (intro mult_left_mono) simp_all
  then have big: "\<not> n < b" using Suc.prems(2) unfolding power_Suc by linarith
  have "b ^ w \<le> n div b"
    using Suc.prems by (simp add: less_eq_div_iff_mult_less_eq mult.commute)
  then have "w < length (print_base b (n div b))" by (rule Suc.IH [OF Suc.prems(1)])
  then show ?case using big Suc.prems(1) by (simp add: print_base.simps [of b n])
qed

lemma length_print_hex:
  assumes "0 < w"
  shows "length (print_hex n) \<le> w \<longleftrightarrow> n < 16 ^ w"
proof
  assume "n < 16 ^ w"
  with assms show "length (print_hex n) \<le> w"
    using length_print_base_le [of 16 n "w - 1"] by (simp add: print_hex_def)
next
  assume le: "length (print_hex n) \<le> w"
  show "n < 16 ^ w"
  proof (rule ccontr)
    assume "\<not> n < 16 ^ w"
    then have "w < length (print_hex n)"
      unfolding print_hex_def by (intro length_print_base_gt) simp_all
    with le show False by simp
  qed
qed

lemma length_print_hex_padded: "n < 16 ^ w \<Longrightarrow> 0 < w \<Longrightarrow> length (print_hex_padded w n) = w"
  using length_print_hex [of w n] by (simp add: print_hex_padded_def)

lemma length_print_int:
  assumes "- (2 ^ 31) \<le> i" and "i < 2 ^ 31"
  shows "length (print_int i) \<le> 11"
proof -
  have "length (print_base 10 n) \<le> Suc 9" if "n \<le> 2 ^ 31" for n
    using that by (intro length_print_base_le) simp_all
  from this [of "nat i"] this [of "nat (- i)"] show ?thesis
    using assms by (auto simp: print_int_def nat_le_iff)
qed

subsection \<open>A few digits hold a small number\<close>

lemma char_digit_less: "char_digit b c = Some d \<Longrightarrow> d < b"
  by (auto simp: char_digit_def Let_def split: if_splits)

lemma digits_value_nul: "digits_value b acc (cs @ [0]) = digits_value b acc cs"
  by (induction b acc cs rule: digits_value.induct) (auto split: option.split)

lemma digits_value_less:
  "2 \<le> b \<Longrightarrow> acc < b ^ k \<Longrightarrow> digits_value b acc cs < b ^ (k + length cs)"
proof (induction cs arbitrary: acc k)
  case Nil
  then show ?case by simp
next
  case (Cons c cs)
  show ?case
  proof (cases "char_digit b c")
    case None
    have "b ^ k \<le> b ^ (k + length (c # cs))" using Cons.prems(1) by (intro power_increasing) simp_all
    then show ?thesis using None Cons.prems(2) by simp
  next
    case (Some d)
    have "acc * b + d < b ^ Suc k"
    proof -
      have "acc * b + d < (acc + 1) * b" using char_digit_less [OF Some] by simp
      also have "\<dots> \<le> b ^ k * b" using Cons.prems(2) by (intro mult_right_mono) simp_all
      finally show ?thesis by (simp add: mult.commute)
    qed
    then have "digits_value b (acc * b + d) cs < b ^ (Suc k + length cs)"
      by (rule Cons.IH [OF Cons.prems(1)])
    then show ?thesis using Some by simp
  qed
qed

lemma strtol_short:
  assumes "ds \<noteq> []" and "list_all plain_char ds" and "length ds \<le> 7"
  shows "0 \<le> strtol 16 (ds @ [0])" and "strtol 16 (ds @ [0]) < 16 ^ length ds"
proof -
  have v: "digits_value 16 0 ds < 16 ^ length ds"
    using digits_value_less [of 16 0 0 ds] by simp
  also have "(16 :: nat) ^ length ds \<le> 16 ^ 7" using assms(3) by (intro power_increasing) simp_all
  finally have "digits_value 16 0 ds < 2 ^ 31" by simp
  then have "strtol 16 (ds @ [0]) = int (digits_value 16 0 ds)"
    using strtol_plain [OF assms(1,2), of 16] by (simp add: digits_value_nul clamp_long_def)
  moreover have "int (digits_value 16 0 ds) < int (16 ^ length ds)" using v by simp
  ultimately show "0 \<le> strtol 16 (ds @ [0])" "strtol 16 (ds @ [0]) < 16 ^ length ds" by simp_all
qed

end
