(* ===== verification/TextStream.thy ===== *)
theory TextStream
  imports TextNum
begin

text \<open>
  The text streams of src/Server/netPack/commDef.hpp and commDef.cpp: \<open>TextReadStream\<close> and
  \<open>TextWriteStream\<close>, whose length fields are four hexadecimal digits, and their second versions
  with six. The code of the two versions differs only in the width, in what a failed read does to
  the position, and in what \<open>Flush\<close> writes; the shared code is a function of the width, and each
  class has its own definitions. Where the code has two ways of formatting, the one of the C standard
  (\<open>snprintf\<close>) is modelled.
\<close>

subsection \<open>State\<close>

definition TEXT_PACKLEN_LEN :: nat where "TEXT_PACKLEN_LEN = 4"
definition TEXT_PACKAGE_MAXLEN :: nat where "TEXT_PACKAGE_MAXLEN = 0xffff"
definition TEXT_PACKLEN_LEN_2 :: nat where "TEXT_PACKLEN_LEN_2 = 6"
definition TEXT_PACKAGE_MAXLEN_2 :: nat where "TEXT_PACKAGE_MAXLEN_2 = 0xffffff"

record tstream =
  tx_mem :: "byte list"   \<comment> \<open>the object \<open>ptr\<close> points to\<close>
  tx_len :: nat           \<comment> \<open>\<open>len\<close>\<close>
  tx_cur :: nat           \<comment> \<open>\<open>cur - ptr\<close>\<close>

definition text_new :: "nat \<Rightarrow> byte list \<Rightarrow> nat \<Rightarrow> tstream" where
  "text_new w mem n = \<lparr>tx_mem = mem, tx_len = n, tx_cur = 0 + w\<rparr>"

subsection \<open>Reading\<close>

definition text_IsEmpty :: "nat \<Rightarrow> tstream \<Rightarrow> bool" where
  "text_IsEmpty w s = (tx_len s \<le> w)"

text \<open>\<open>None\<close> is the result \<open>false\<close>.\<close>

definition text_ReadLengthWithoutOffset :: "nat \<Rightarrow> tstream \<Rightarrow> nat option res" where
  "text_ReadLengthWithoutOffset w s =
     (if tx_cur s + w > tx_len s then Inr None
      else rbind (memcpy_from (tx_mem s) (tx_cur s) w) (\<lambda>lenstr.
             Inr (Some (size_t_of_int (strtol 16 (lenstr @ [0]))))))"

definition text_ReadLength :: "nat \<Rightarrow> nat \<Rightarrow> tstream \<Rightarrow> (bool \<times> nat \<times> tstream) res" where
  "text_ReadLength w outlen s =
     rbind (text_ReadLengthWithoutOffset w s) (\<lambda>r. case r of
       None \<Rightarrow> Inr (False, outlen, s)
     | Some n \<Rightarrow> Inr (True, n, s\<lparr>tx_cur := tx_cur s + w\<rparr>))"

definition text_ReadContent :: "byte list \<Rightarrow> nat \<Rightarrow> tstream \<Rightarrow> (bool \<times> byte list \<times> tstream) res" where
  "text_ReadContent dest maxlen s =
     (if tx_cur s + maxlen > tx_len s then Inr (False, dest, s)
      else rbind (memcpy_from (tx_mem s) (tx_cur s) maxlen) (\<lambda>bs.
           rbind (memcpy_to dest 0 bs) (\<lambda>dest'.
             Inr (True, dest', s\<lparr>tx_cur := tx_cur s + maxlen\<rparr>))))"

text \<open>\<open>rollback\<close>: the first version goes back before the length field when the content is missing.\<close>

definition text_Read ::
  "nat \<Rightarrow> bool \<Rightarrow> byte list \<Rightarrow> nat \<Rightarrow> nat \<Rightarrow> tstream \<Rightarrow> (bool \<times> byte list \<times> nat \<times> tstream) res" where
  "text_Read w rollback dest strlen outlen s =
     rbind (text_ReadLengthWithoutOffset w s) (\<lambda>r. case r of
       None \<Rightarrow> Inr (False, dest, outlen, s)
     | Some fieldlen \<Rightarrow>
         if strlen < fieldlen then Inr (False, dest, outlen, s)
         else rbind (text_ReadContent dest fieldlen (s\<lparr>tx_cur := tx_cur s + w\<rparr>)) (\<lambda>(ok, dest', s1).
           if \<not> ok then Inr (False, dest', outlen, if rollback then s1\<lparr>tx_cur := tx_cur s1 - w\<rparr> else s1)
           else Inr (True, dest', fieldlen, s1)))"

text \<open>
  The digits go through a local array of 32 characters; only what was read and the terminator after
  it are looked at, so its initial content does not matter.
\<close>

definition text_Read_int :: "nat \<Rightarrow> bool \<Rightarrow> u32 \<Rightarrow> tstream \<Rightarrow> (bool \<times> u32 \<times> tstream) res" where
  "text_Read_int w rollback i s =
     rbind (text_Read w rollback (replicate 32 0) 31 0 s) (\<lambda>(ok, intstr, len, s1).
       if \<not> ok then Inr (False, i, s1)
       else Inr (True, word_of_int (atoi (take len intstr @ [0])), s1))"

definition text_Read_char :: "nat \<Rightarrow> bool \<Rightarrow> byte \<Rightarrow> tstream \<Rightarrow> (bool \<times> byte \<times> tstream) res" where
  "text_Read_char w rollback c s =
     rbind (text_Read w rollback [c] 1 0 s) (\<lambda>(ok, dest, len, s1). Inr (ok, hd dest, s1))"

definition text_IsEnd :: "tstream \<Rightarrow> bool res" where
  "text_IsEnd s = (if \<not> tx_cur s \<le> tx_len s then Inl AssertFailed else Inr (tx_cur s = tx_len s))"

definition text_ReadAll :: "byte list \<Rightarrow> nat \<Rightarrow> tstream \<Rightarrow> (nat \<times> byte list) res" where
  "text_ReadAll szBuffer iLen s =
     (let iRealLen = min iLen (tx_len s)
      in rbind (memcpy_from (tx_mem s) 0 iRealLen) (\<lambda>bs.
         rbind (memcpy_to szBuffer 0 bs) (\<lambda>buf. Inr (iRealLen, buf))))"

subsection \<open>Writing\<close>

definition text_WriteContent :: "byte list \<Rightarrow> tstream \<Rightarrow> (bool \<times> tstream) res" where
  "text_WriteContent bs s =
     rbind (memcpy_to (tx_mem s) (tx_cur s) bs)
       (\<lambda>m. Inr (True, s\<lparr>tx_mem := m, tx_cur := tx_cur s + length bs\<rparr>))"

text \<open>\<open>lengthstr\<close> is the printed length: plain in the first version, padded in the second.\<close>

definition text_WriteLength :: "nat \<Rightarrow> byte list \<Rightarrow> tstream \<Rightarrow> (bool \<times> tstream) res" where
  "text_WriteLength w lengthstr s =
     (if length lengthstr > w then Inr (False, s)
      else text_WriteContent (replicate (w - length lengthstr) 48 @ lengthstr) s)"

definition text_Write ::
  "nat \<Rightarrow> bool \<Rightarrow> (nat \<Rightarrow> byte list) \<Rightarrow> byte list \<Rightarrow> nat \<Rightarrow> tstream \<Rightarrow> (bool \<times> tstream) res" where
  "text_Write w rollback fmt str n s =
     (if tx_cur s + w + n > tx_len s then Inr (False, s)
      else rbind (text_WriteLength w (fmt n) s) (\<lambda>(ok, s1).
        if \<not> ok then Inr (False, s1)
        else rbind (memcpy_from str 0 n) (\<lambda>bs.
             rbind (text_WriteContent bs s1) (\<lambda>(ok2, s2).
               if \<not> ok2 then Inr (False, if rollback then s2\<lparr>tx_cur := tx_cur s2 - w\<rparr> else s2)
               else Inr (True, s2)))))"

definition text_GetSize :: "tstream \<Rightarrow> nat" where
  "text_GetSize s = tx_cur s"

definition text_IsValid :: "nat \<Rightarrow> nat \<Rightarrow> tstream \<Rightarrow> bool" where
  "text_IsValid w maxlen s = (let datalen = text_GetSize s - w in datalen > 0 \<and> datalen \<le> maxlen)"

definition text_Clear :: "nat \<Rightarrow> tstream \<Rightarrow> tstream" where
  "text_Clear w s = s\<lparr>tx_cur := 0 + w\<rparr>"

text \<open>\<open>snprintf\<close> into an array of \<open>w + 1\<close> characters keeps the first \<open>w\<close>.\<close>

definition text_Flush :: "nat \<Rightarrow> nat \<Rightarrow> tstream \<Rightarrow> tstream res" where
  "text_Flush w n s =
     rbind (memcpy_to (tx_mem s) 0 (take w (print_hex_padded w n))) (\<lambda>m. Inr (s\<lparr>tx_mem := m\<rparr>))"

subsection \<open>The first version\<close>

definition TextReadStream_new :: "byte list \<Rightarrow> nat \<Rightarrow> tstream" where
  "TextReadStream_new = text_new TEXT_PACKLEN_LEN"
definition TextReadStream_IsEmpty :: "tstream \<Rightarrow> bool" where
  "TextReadStream_IsEmpty = text_IsEmpty TEXT_PACKLEN_LEN"
definition TextReadStream_Read :: "byte list \<Rightarrow> nat \<Rightarrow> nat \<Rightarrow> tstream \<Rightarrow> (bool \<times> byte list \<times> nat \<times> tstream) res" where
  "TextReadStream_Read = text_Read TEXT_PACKLEN_LEN True"
definition TextReadStream_Read_int :: "u32 \<Rightarrow> tstream \<Rightarrow> (bool \<times> u32 \<times> tstream) res" where
  "TextReadStream_Read_int = text_Read_int TEXT_PACKLEN_LEN True"
definition TextReadStream_Read_char :: "byte \<Rightarrow> tstream \<Rightarrow> (bool \<times> byte \<times> tstream) res" where
  "TextReadStream_Read_char = text_Read_char TEXT_PACKLEN_LEN True"
definition TextReadStream_ReadLength :: "nat \<Rightarrow> tstream \<Rightarrow> (bool \<times> nat \<times> tstream) res" where
  "TextReadStream_ReadLength = text_ReadLength TEXT_PACKLEN_LEN"
definition TextReadStream_ReadLengthWithoutOffset :: "tstream \<Rightarrow> nat option res" where
  "TextReadStream_ReadLengthWithoutOffset = text_ReadLengthWithoutOffset TEXT_PACKLEN_LEN"
definition TextWriteStream_new :: "byte list \<Rightarrow> nat \<Rightarrow> tstream" where
  "TextWriteStream_new = text_new TEXT_PACKLEN_LEN"
definition TextWriteStream_WriteLength :: "nat \<Rightarrow> tstream \<Rightarrow> (bool \<times> tstream) res" where
  "TextWriteStream_WriteLength n = text_WriteLength TEXT_PACKLEN_LEN (print_hex n)"
definition TextWriteStream_Write :: "byte list \<Rightarrow> nat \<Rightarrow> tstream \<Rightarrow> (bool \<times> tstream) res" where
  "TextWriteStream_Write = text_Write TEXT_PACKLEN_LEN True print_hex"
definition TextWriteStream_IsValid :: "tstream \<Rightarrow> bool" where
  "TextWriteStream_IsValid = text_IsValid TEXT_PACKLEN_LEN TEXT_PACKAGE_MAXLEN"
definition TextWriteStream_Clear :: "tstream \<Rightarrow> tstream" where
  "TextWriteStream_Clear = text_Clear TEXT_PACKLEN_LEN"

text \<open>A \<open>short\<close> is read through an \<open>int\<close>.\<close>

definition TextReadStream_Read_short :: "u16 \<Rightarrow> tstream \<Rightarrow> (bool \<times> u16 \<times> tstream) res" where
  "TextReadStream_Read_short i s =
     rbind (TextReadStream_Read_int 0 s) (\<lambda>(ok, i', s1).
       if \<not> ok then Inr (False, i, s1) else Inr (True, ucast i', s1))"

definition TextWriteStream_Write_int :: "u32 \<Rightarrow> tstream \<Rightarrow> (bool \<times> tstream) res" where
  "TextWriteStream_Write_int i s =
     (let intstr = print_int (sint i) in TextWriteStream_Write (intstr @ [0]) (length intstr) s)"

definition TextWriteStream_Write_short :: "u16 \<Rightarrow> tstream \<Rightarrow> (bool \<times> tstream) res" where
  "TextWriteStream_Write_short i s =
     (let intstr = print_int (sint i) in TextWriteStream_Write (intstr @ [0]) (length intstr) s)"

definition TextWriteStream_Write_char :: "byte \<Rightarrow> tstream \<Rightarrow> (bool \<times> tstream) res" where
  "TextWriteStream_Write_char c s = TextWriteStream_Write [c] 1 s"

definition TextWriteStream_Flush :: "tstream \<Rightarrow> tstream res" where
  "TextWriteStream_Flush s =
     (let datalen = text_GetSize s - TEXT_PACKLEN_LEN in text_Flush TEXT_PACKLEN_LEN datalen s)"

subsection \<open>The second version\<close>

definition TextReadStream2_new :: "byte list \<Rightarrow> nat \<Rightarrow> tstream" where
  "TextReadStream2_new = text_new TEXT_PACKLEN_LEN_2"
definition TextReadStream2_IsEmpty :: "tstream \<Rightarrow> bool" where
  "TextReadStream2_IsEmpty = text_IsEmpty TEXT_PACKLEN_LEN_2"
definition TextReadStream2_Read :: "byte list \<Rightarrow> nat \<Rightarrow> nat \<Rightarrow> tstream \<Rightarrow> (bool \<times> byte list \<times> nat \<times> tstream) res" where
  "TextReadStream2_Read = text_Read TEXT_PACKLEN_LEN_2 False"
definition TextReadStream2_Read_int :: "u32 \<Rightarrow> tstream \<Rightarrow> (bool \<times> u32 \<times> tstream) res" where
  "TextReadStream2_Read_int = text_Read_int TEXT_PACKLEN_LEN_2 False"
definition TextReadStream2_Read_char :: "byte \<Rightarrow> tstream \<Rightarrow> (bool \<times> byte \<times> tstream) res" where
  "TextReadStream2_Read_char = text_Read_char TEXT_PACKLEN_LEN_2 False"
definition TextReadStream2_ReadLength :: "nat \<Rightarrow> tstream \<Rightarrow> (bool \<times> nat \<times> tstream) res" where
  "TextReadStream2_ReadLength = text_ReadLength TEXT_PACKLEN_LEN_2"
definition TextReadStream2_ReadLengthWithoutOffset :: "tstream \<Rightarrow> nat option res" where
  "TextReadStream2_ReadLengthWithoutOffset = text_ReadLengthWithoutOffset TEXT_PACKLEN_LEN_2"
definition TextReadStream2_ReadContent :: "byte list \<Rightarrow> nat \<Rightarrow> tstream \<Rightarrow> (bool \<times> byte list \<times> tstream) res" where
  "TextReadStream2_ReadContent = text_ReadContent"
definition TextReadStream2_IsEnd :: "tstream \<Rightarrow> bool res" where
  "TextReadStream2_IsEnd = text_IsEnd"
definition TextReadStream2_ReadAll :: "byte list \<Rightarrow> nat \<Rightarrow> tstream \<Rightarrow> (nat \<times> byte list) res" where
  "TextReadStream2_ReadAll = text_ReadAll"
definition TextWriteStream2_WriteContent :: "byte list \<Rightarrow> tstream \<Rightarrow> (bool \<times> tstream) res" where
  "TextWriteStream2_WriteContent = text_WriteContent"
definition TextWriteStream2_GetSize :: "tstream \<Rightarrow> nat" where
  "TextWriteStream2_GetSize = text_GetSize"
definition TextWriteStream2_new :: "byte list \<Rightarrow> nat \<Rightarrow> tstream" where
  "TextWriteStream2_new = text_new TEXT_PACKLEN_LEN_2"
definition TextWriteStream2_WriteLength :: "nat \<Rightarrow> tstream \<Rightarrow> (bool \<times> tstream) res" where
  "TextWriteStream2_WriteLength n =
  text_WriteLength TEXT_PACKLEN_LEN_2 (print_hex_padded TEXT_PACKLEN_LEN_2 n)"
definition TextWriteStream2_Write :: "byte list \<Rightarrow> nat \<Rightarrow> tstream \<Rightarrow> (bool \<times> tstream) res" where
  "TextWriteStream2_Write =
  text_Write TEXT_PACKLEN_LEN_2 False (print_hex_padded TEXT_PACKLEN_LEN_2)"
definition TextWriteStream2_IsValid :: "tstream \<Rightarrow> bool" where
  "TextWriteStream2_IsValid = text_IsValid TEXT_PACKLEN_LEN_2 TEXT_PACKAGE_MAXLEN_2"
definition TextWriteStream2_Clear :: "tstream \<Rightarrow> tstream" where
  "TextWriteStream2_Clear = text_Clear TEXT_PACKLEN_LEN_2"

definition TextReadStream2_Read_short :: "u16 \<Rightarrow> tstream \<Rightarrow> (bool \<times> u16 \<times> tstream) res" where
  "TextReadStream2_Read_short i s =
     rbind (TextReadStream2_Read (replicate 32 0) 31 0 s) (\<lambda>(ok, intstr, len, s1).
       if \<not> ok then Inr (False, i, s1)
       else Inr (True, word_of_int (atoi (take len intstr @ [0])), s1))"

definition TextWriteStream2_Write_int :: "u32 \<Rightarrow> tstream \<Rightarrow> (bool \<times> tstream) res" where
  "TextWriteStream2_Write_int i s =
     (let intstr = print_int (sint i) in TextWriteStream2_Write (intstr @ [0]) (length intstr) s)"

definition TextWriteStream2_Write_short :: "u16 \<Rightarrow> tstream \<Rightarrow> (bool \<times> tstream) res" where
  "TextWriteStream2_Write_short i s =
     (let intstr = print_int (sint i) in TextWriteStream2_Write (intstr @ [0]) (length intstr) s)"

definition TextWriteStream2_Write_char :: "byte \<Rightarrow> tstream \<Rightarrow> (bool \<times> tstream) res" where
  "TextWriteStream2_Write_char c s = TextWriteStream2_Write [c] 1 s"

text \<open>Here the length field counts itself too.\<close>

definition TextWriteStream2_Flush :: "tstream \<Rightarrow> tstream res" where
  "TextWriteStream2_Flush s =
     (let datalen = text_GetSize s - TEXT_PACKLEN_LEN_2
      in text_Flush TEXT_PACKLEN_LEN_2 (datalen + TEXT_PACKLEN_LEN_2) s)"

subsection \<open>Exact effect\<close>

definition tx_ok :: "tstream \<Rightarrow> bool" where
  "tx_ok s \<longleftrightarrow> tx_len s = length (tx_mem s)"

definition tx_rest :: "tstream \<Rightarrow> byte list" where
  "tx_rest s = drop (tx_cur s) (tx_mem s)"

definition tx_adv :: "nat \<Rightarrow> tstream \<Rightarrow> tstream" where
  "tx_adv n s = s\<lparr>tx_cur := tx_cur s + n\<rparr>"

definition tx_app :: "byte list \<Rightarrow> tstream \<Rightarrow> tstream" where
  "tx_app bs s = s\<lparr>tx_mem := take (tx_cur s) (tx_mem s) @ bs @ drop (tx_cur s + length bs) (tx_mem s),
                   tx_cur := tx_cur s + length bs\<rparr>"

text \<open>A field on the wire: its length in hexadecimal digits, then the bytes.\<close>

definition text_field :: "nat \<Rightarrow> byte list \<Rightarrow> byte list" where
  "text_field w str = print_hex_padded w (length str) @ str"

lemma tx_app_simps [simp]:
  "tx_len (tx_app bs s) = tx_len s" "tx_cur (tx_app bs s) = tx_cur s + length bs"
  by (simp_all add: tx_app_def)

lemma tx_app_ok: "tx_ok s \<Longrightarrow> tx_cur s + length bs \<le> tx_len s \<Longrightarrow> tx_ok (tx_app bs s)"
  by (simp add: tx_ok_def tx_app_def)

lemma tx_app_app:
  "tx_ok s \<Longrightarrow> tx_cur s + length a + length b \<le> tx_len s \<Longrightarrow>
     tx_app b (tx_app a s) = tx_app (a @ b) s"
  by (simp add: tx_app_def tx_ok_def ac_simps)

lemma text_WriteContent_eq:
  "tx_ok s \<Longrightarrow> tx_cur s + length bs \<le> tx_len s \<Longrightarrow> text_WriteContent bs s = Inr (True, tx_app bs s)"
  by (simp add: text_WriteContent_def memcpy_to_def tx_ok_def tx_app_def)

text \<open>
  What the two versions share: a width and a way to print a length that fits it.
\<close>

locale text_version =
  fixes w :: nat and fmt :: "nat \<Rightarrow> byte list" and rollback :: bool
  assumes width: "0 < w" "w \<le> 7"
    and fmt_length: "n < 16 ^ w \<Longrightarrow> length (fmt n) \<le> w"
    and fmt_padded: "n < 16 ^ w \<Longrightarrow> replicate (w - length (fmt n)) 48 @ fmt n = print_hex_padded w n"
begin

lemma small: "n < 16 ^ w \<Longrightarrow> n < 2 ^ 31" for n :: nat
proof -
  assume "n < 16 ^ w"
  also have "(16 :: nat) ^ w \<le> 16 ^ 7" using width(2) by (intro power_increasing) simp_all
  finally show ?thesis by simp
qed

lemma field_length: "length str < 16 ^ w \<Longrightarrow> length (text_field w str) = w + length str"
  using width(1) by (simp add: text_field_def length_print_hex_padded)

lemma Write_eq:
  assumes "tx_ok s" and "length str < 16 ^ w"
  shows "text_Write w rollback fmt (str @ junk) (length str) s =
    Inr (if tx_cur s + w + length str \<le> tx_len s then (True, tx_app (text_field w str) s)
         else (False, s))"
proof (cases "tx_cur s + w + length str \<le> tx_len s")
  case False
  then show ?thesis by (simp add: text_Write_def)
next
  case True
  let ?n = "length str"
  let ?p = "print_hex_padded w ?n"
  have lp: "length ?p = w" using assms(2) width(1) by (intro length_print_hex_padded)
  have "text_WriteLength w (fmt ?n) s = text_WriteContent ?p s"
    using fmt_length [OF assms(2)] fmt_padded [OF assms(2)] by (simp add: text_WriteLength_def)
  also have "\<dots> = Inr (True, tx_app ?p s)"
    using assms(1) True lp by (intro text_WriteContent_eq) simp_all
  finally have len: "text_WriteLength w (fmt ?n) s = Inr (True, tx_app ?p s)" .
  have "text_WriteContent str (tx_app ?p s) = Inr (True, tx_app str (tx_app ?p s))"
    using assms(1) True lp by (intro text_WriteContent_eq tx_app_ok) simp_all
  moreover have "tx_app str (tx_app ?p s) = tx_app (text_field w str) s"
    using assms(1) True lp by (simp add: tx_app_app text_field_def)
  moreover have "memcpy_from (str @ junk) 0 ?n = Inr str"
    by (simp add: memcpy_from_def)
  ultimately show ?thesis
    using True len by (simp add: text_Write_def)
qed

lemma ReadLength_field:
  assumes "tx_ok s" and "length str < 16 ^ w" and "tx_rest s = text_field w str @ r"
  shows "text_ReadLengthWithoutOffset w s = Inr (Some (length str))"
proof -
  let ?p = "print_hex_padded w (length str)"
  have lp: "length ?p = w" using assms(2) width(1) by (intro length_print_hex_padded)
  have "length (tx_rest s) = w + length str + length r"
    using assms(3) field_length [OF assms(2)] by simp
  then have fits: "tx_cur s + w \<le> tx_len s"
    using assms(1) width(1) by (simp add: tx_ok_def tx_rest_def)
  then have "memcpy_from (tx_mem s) (tx_cur s) w = Inr (take w (tx_rest s))"
    using assms(1) by (simp add: memcpy_from_def tx_ok_def tx_rest_def)
  also have "take w (tx_rest s) = ?p"
    unfolding assms(3) text_field_def using lp by simp
  finally show ?thesis
    using fits strtol_print_hex [OF small [OF assms(2)]] small [OF assms(2)]
    by (simp add: text_ReadLengthWithoutOffset_def size_t_of_int_nonneg)
qed

lemma Read_field:
  assumes "tx_ok s" and "length str < 16 ^ w" and "tx_rest s = text_field w str @ r"
    and "length str \<le> strlen" and "strlen \<le> length dest"
  shows "text_Read w rollback dest strlen outlen s =
    Inr (True, str @ drop (length str) dest, length str, tx_adv (w + length str) s)"
proof -
  let ?n = "length str"
  let ?s = "s\<lparr>tx_cur := tx_cur s + w\<rparr>"
  have lp: "length (print_hex_padded w ?n) = w" using assms(2) width(1) by (intro length_print_hex_padded)
  have drop: "drop (tx_cur s + w) (tx_mem s) = str @ r"
  proof -
    have "drop (tx_cur s + w) (tx_mem s) = drop w (tx_rest s)"
      by (simp add: tx_rest_def add.commute)
    then show ?thesis unfolding assms(3) text_field_def using lp by simp
  qed
  have "length (tx_rest s) = w + ?n + length r"
    using assms(3) field_length [OF assms(2)] by simp
  then have fits: "tx_cur s + w + ?n \<le> tx_len s"
    using assms(1) width(1) by (simp add: tx_ok_def tx_rest_def)
  then have "memcpy_from (tx_mem s) (tx_cur s + w) ?n = Inr str"
    using assms(1) drop by (simp add: memcpy_from_def tx_ok_def)
  then have "text_ReadContent dest ?n ?s = Inr (True, str @ drop ?n dest, tx_adv (w + ?n) s)"
    using fits assms(4,5) by (simp add: text_ReadContent_def memcpy_to_def tx_adv_def add.assoc)
  then show ?thesis
    using ReadLength_field [OF assms(1-3)] assms(4) by (simp add: text_Read_def)
qed

text \<open>A reader on the bytes that a writer produced after its length field.\<close>

lemma text_reader_of_writer:
  assumes "tx_ok s" and "tx_cur s = w" and "w + length bs \<le> tx_len s"
  defines "s' \<equiv> tx_app bs s"
  shows "tx_ok (text_new w (take (text_GetSize s') (tx_mem s')) (text_GetSize s'))"
    and "tx_rest (text_new w (take (text_GetSize s') (tx_mem s')) (text_GetSize s')) = bs"
  using assms
  by (simp_all add: tx_ok_def tx_rest_def text_new_def text_GetSize_def tx_app_def)

text \<open>No input makes a read leave the buffer.\<close>

lemma Read_total:
  assumes "tx_ok s" and "strlen \<le> length dest"
  shows "\<exists>ok dest' n s'. text_Read w rollback dest strlen outlen s = Inr (ok, dest', n, s')
    \<and> length dest' = length dest \<and> tx_ok s' \<and> tx_mem s' = tx_mem s
    \<and> (ok \<longrightarrow> n \<le> strlen \<and> tx_cur s' = tx_cur s + w + n \<and> tx_cur s' \<le> tx_len s)
    \<and> (\<not> ok \<longrightarrow> dest' = dest \<and> n = outlen
         \<and> (s' = s \<or> \<not> rollback \<and> s' = s\<lparr>tx_cur := tx_cur s + w\<rparr>))"
proof (cases "tx_cur s + w > tx_len s")
  case True
  then show ?thesis using assms by (auto simp: text_Read_def text_ReadLengthWithoutOffset_def)
next
  case False
  let ?n = "size_t_of_int (strtol 16 (take w (drop (tx_cur s) (tx_mem s)) @ [0]))"
  have len: "text_ReadLengthWithoutOffset w s = Inr (Some ?n)"
    using False assms(1) by (simp add: text_ReadLengthWithoutOffset_def memcpy_from_def tx_ok_def)
  show ?thesis
  proof (cases "strlen < ?n")
    case True
    then show ?thesis using len assms by (auto simp: text_Read_def)
  next
    case fits: False
    show ?thesis
    proof (cases "tx_cur s + w + ?n > tx_len s")
      case True
      then show ?thesis
        using len fits assms by (auto simp: text_Read_def text_ReadContent_def tx_ok_def)
    next
      case room: False
      then show ?thesis
        using len fits assms
        by (auto simp: text_Read_def text_ReadContent_def tx_ok_def memcpy_from_def memcpy_to_def)
    qed
  qed
qed

text \<open>A 32-bit number written as digits is read back.\<close>

lemma Read_int_field:
  assumes "tx_ok s" and "tx_rest s = text_field w (print_int (sint i)) @ r" and "2 \<le> w"
  shows "text_Read_int w rollback old s =
    Inr (True, i, tx_adv (w + length (print_int (sint i))) s)"
proof -
  let ?str = "print_int (sint i)"
  have range: "- (2 ^ 31) \<le> sint i" "sint i < 2 ^ 31"
    using sint_range_size [of i] by (simp_all add: word_size)
  have le: "length ?str \<le> 11" by (rule length_print_int [OF range])
  have "(16 :: nat) ^ 2 \<le> 16 ^ w" using assms(3) by (intro power_increasing) simp_all
  then have "length ?str < 16 ^ w" using le by simp
  then have "text_Read w rollback (replicate 32 0) 31 0 s =
      Inr (True, ?str @ drop (length ?str) (replicate 32 0), length ?str, tx_adv (w + length ?str) s)"
    using le assms(1,2) by (intro Read_field) simp_all
  then show ?thesis
    using atoi_print_int [OF range] by (simp add: text_Read_int_def)
qed

end

interpretation text1: text_version TEXT_PACKLEN_LEN print_hex True
proof
  show "0 < TEXT_PACKLEN_LEN" "TEXT_PACKLEN_LEN \<le> 7"
    by (simp_all add: TEXT_PACKLEN_LEN_def)
  show "length (print_hex n) \<le> TEXT_PACKLEN_LEN" if "n < 16 ^ TEXT_PACKLEN_LEN" for n
    using that length_print_hex [of TEXT_PACKLEN_LEN n] by (simp add: TEXT_PACKLEN_LEN_def)
  show "replicate (TEXT_PACKLEN_LEN - length (print_hex n)) 48 @ print_hex n =
      print_hex_padded TEXT_PACKLEN_LEN n" for n
    by (simp add: print_hex_padded_def)
qed

interpretation text2: text_version TEXT_PACKLEN_LEN_2 "print_hex_padded TEXT_PACKLEN_LEN_2" False
proof
  show "0 < TEXT_PACKLEN_LEN_2" "TEXT_PACKLEN_LEN_2 \<le> 7"
    by (simp_all add: TEXT_PACKLEN_LEN_2_def)
  fix n :: nat
  assume n: "n < 16 ^ TEXT_PACKLEN_LEN_2"
  have len: "length (print_hex_padded TEXT_PACKLEN_LEN_2 n) = TEXT_PACKLEN_LEN_2"
    by (rule length_print_hex_padded [OF n]) (simp add: TEXT_PACKLEN_LEN_2_def)
  then show "length (print_hex_padded TEXT_PACKLEN_LEN_2 n) \<le> TEXT_PACKLEN_LEN_2" by simp
  show "replicate (TEXT_PACKLEN_LEN_2 - length (print_hex_padded TEXT_PACKLEN_LEN_2 n)) 48
      @ print_hex_padded TEXT_PACKLEN_LEN_2 n = print_hex_padded TEXT_PACKLEN_LEN_2 n"
    using len by simp
qed

lemma tx_mem_update: "tx_mem (s\<lparr>tx_mem := m\<rparr>) = m"
  by simp

text \<open>The length field that \<open>Flush\<close> of the first version writes.\<close>

lemma text_flush_length:
  assumes "tx_ok s" and "4 \<le> tx_cur s" and "tx_cur s \<le> tx_len s" and "tx_cur s < 2 ^ 31"
  shows "\<exists>s'. TextWriteStream_Flush s = Inr s' \<and> drop 4 (tx_mem s') = drop 4 (tx_mem s)
    \<and> (strtol 16 (take 4 (tx_mem s') @ [0]) = int (tx_cur s - 4) \<longleftrightarrow> tx_cur s - 4 \<le> 0xffff)"
proof -
  let ?n = "tx_cur s - 4"
  let ?h = "take 4 (print_hex_padded 4 ?n)"
  have hlen: "length ?h = 4" by (simp add: print_hex_padded_def)
  have plain: "list_all plain_char (print_hex_padded 4 ?n)"
    using print_base_plain [of 16 _ ?n]
    by (auto simp: print_hex_padded_def print_hex_def list_all_iff plain_char_def is_space_def)
  then have hplain: "list_all plain_char ?h"
    by (auto simp: list_all_iff dest: in_set_takeD)
  have ne: "?h \<noteq> []" using hlen by auto
  have upper: "strtol 16 (?h @ [0]) < 65536"
    using strtol_short(2) [OF ne hplain] unfolding hlen by simp
  have same: "strtol 16 (?h @ [0]) = int ?n" if "?n < 65536"
  proof -
    have "length (print_hex_padded 4 ?n) = 4"
      using that by (intro length_print_hex_padded) simp_all
    then have "?h = print_hex_padded 4 ?n" by simp
    then show ?thesis using that strtol_print_hex [of ?n 4] by simp
  qed
  have flush: "TextWriteStream_Flush s = Inr (s\<lparr>tx_mem := ?h @ drop 4 (tx_mem s)\<rparr>)"
    using assms(1-3) hlen
    by (simp add: TextWriteStream_Flush_def text_Flush_def text_GetSize_def TEXT_PACKLEN_LEN_def
        memcpy_to_def tx_ok_def)
  have front: "take 4 (?h @ m) = ?h" "drop 4 (?h @ m) = m" for m
    using hlen append_eq_conv_conj [of ?h m "?h @ m"] by simp_all
  have iff: "strtol 16 (?h @ [0]) = int ?n \<longleftrightarrow> ?n \<le> 0xffff"
    using upper same by (cases "?n < 65536") auto
  have mem: "tx_mem (s\<lparr>tx_mem := ?h @ drop 4 (tx_mem s)\<rparr>) = ?h @ drop 4 (tx_mem s)"
    by (rule tx_mem_update)
  show ?thesis
    by (rule exI [of _ "s\<lparr>tx_mem := ?h @ drop 4 (tx_mem s)\<rparr>"])
      (simp only: flush mem front iff simp_thms)
qed

end
