(* ===== verification/MessageBuffer.thy ===== *)
theory MessageBuffer
  imports ByteOrder
begin

text \<open>
  The class \<open>MessageBuffer\<close> of src/Server/NetApp/Buffer.h: a growing byte buffer with a read and a
  write position. A \<open>float\<close> or \<open>double\<close> is its bits.
\<close>

subsection \<open>State\<close>

definition MESSAGE_MAX_LENGTH :: nat where "MESSAGE_MAX_LENGTH = 1024 * 4"

record msgbuf =
  mb_buffer :: "byte list"
  mb_rpos :: nat
  mb_wpos :: nat

definition vec_resize :: "nat \<Rightarrow> byte list \<Rightarrow> byte list" where
  "vec_resize n v = take n v @ replicate (n - length v) 0"

definition MessageBuffer_new :: msgbuf where
  "MessageBuffer_new = \<lparr>mb_buffer = vec_resize MESSAGE_MAX_LENGTH [], mb_rpos = 0, mb_wpos = 0\<rparr>"

definition mb_copy :: "msgbuf \<Rightarrow> msgbuf" where
  "mb_copy right = \<lparr>mb_buffer = mb_buffer right, mb_rpos = mb_rpos right, mb_wpos = mb_wpos right\<rparr>"

text \<open>\<open>Move\<close> resets the positions and gives the vector away.\<close>

definition mb_Move :: "msgbuf \<Rightarrow> byte list \<times> msgbuf" where
  "mb_Move b = (mb_buffer b, b\<lparr>mb_buffer := [], mb_rpos := 0, mb_wpos := 0\<rparr>)"

text \<open>
  Members are initialised in the order of their declaration, so \<open>_buffer\<close> comes first and \<open>Move\<close>
  has already reset the positions of the other object when they are copied. The result is the new
  object and the one moved from.
\<close>

definition mb_move_construct :: "msgbuf \<Rightarrow> msgbuf \<times> msgbuf" where
  "mb_move_construct right =
     (let (buf, right') = mb_Move right
      in (\<lparr>mb_buffer = buf, mb_rpos = mb_rpos right', mb_wpos = mb_wpos right'\<rparr>, right'))"

definition mb_move_assign :: "msgbuf \<Rightarrow> msgbuf \<Rightarrow> msgbuf \<times> msgbuf" where
  "mb_move_assign b right =
     (let b1 = b\<lparr>mb_wpos := mb_wpos right, mb_rpos := mb_rpos right\<rparr>;
          (buf, right') = mb_Move right
      in (b1\<lparr>mb_buffer := buf\<rparr>, right'))"

definition mb_Reset :: "msgbuf \<Rightarrow> msgbuf" where
  "mb_Reset b = b\<lparr>mb_wpos := 0, mb_rpos := 0\<rparr>"

definition mb_Resize :: "msgbuf \<Rightarrow> msgbuf" where
  "mb_Resize b = b\<lparr>mb_buffer := vec_resize MESSAGE_MAX_LENGTH (mb_buffer b)\<rparr>"

definition GetbufferSize :: "msgbuf \<Rightarrow> nat" where
  "GetbufferSize b = length (mb_buffer b)"

definition WriteComplete :: "nat \<Rightarrow> msgbuf \<Rightarrow> msgbuf" where
  "WriteComplete n b = b\<lparr>mb_wpos := mb_wpos b + n\<rparr>"

definition ReadComplete :: "nat \<Rightarrow> msgbuf \<Rightarrow> msgbuf" where
  "ReadComplete n b = b\<lparr>mb_rpos := mb_rpos b + n\<rparr>"

text \<open>Differences of sizes wrap.\<close>

definition GetActiveSize :: "msgbuf \<Rightarrow> nat" where
  "GetActiveSize b = size_t_of_int (int (mb_wpos b) - int (mb_rpos b))"

definition GetRemainingSpace :: "msgbuf \<Rightarrow> nat" where
  "GetRemainingSpace b = size_t_of_int (int (length (mb_buffer b)) - int (mb_wpos b))"

definition mb_Write :: "byte list \<Rightarrow> nat \<Rightarrow> msgbuf \<Rightarrow> msgbuf res" where
  "mb_Write data n b =
     (if n \<noteq> 0 then
        rbind (memcpy_from data 0 n) (\<lambda>bs.
        rbind (memcpy_to (mb_buffer b) (mb_wpos b) bs) (\<lambda>buf.
          Inr (WriteComplete n (b\<lparr>mb_buffer := buf\<rparr>))))
      else Inr b)"

text \<open>The \<open>memmove\<close> takes as many bytes as the buffer has, from the read position on.\<close>

definition Normalize :: "msgbuf \<Rightarrow> msgbuf res" where
  "Normalize b =
     (if mb_rpos b \<noteq> 0 then
        rbind (if mb_rpos b \<noteq> mb_wpos b
               then rbind (memcpy_from (mb_buffer b) (mb_rpos b) (GetbufferSize b)) (\<lambda>bs.
                    rbind (memcpy_to (mb_buffer b) 0 bs) (\<lambda>buf. Inr (b\<lparr>mb_buffer := buf\<rparr>)))
               else Inr b)
          (\<lambda>b1. Inr (b1\<lparr>mb_wpos := size_t_of_int (int (mb_wpos b1) - int (mb_rpos b1)), mb_rpos := 0\<rparr>))
      else Inr b)"

subsection \<open>Appending\<close>

text \<open>\<open>src\<close> is the object the pointer points to, \<open>None\<close> for a null pointer.\<close>

definition append_raw :: "byte list option \<Rightarrow> nat \<Rightarrow> msgbuf \<Rightarrow> msgbuf res" where
  "append_raw src cnt b =
     (if cnt = 0 then Inr b
      else case src of
        None \<Rightarrow> Inr b
      | Some mem \<Rightarrow>
          let b1 = (if length (mb_buffer b) < mb_wpos b + cnt
                    then b\<lparr>mb_buffer := vec_resize (mb_wpos b + cnt) (mb_buffer b)\<rparr> else b)
          in rbind (memcpy_from mem 0 cnt) (\<lambda>bs.
             rbind (memcpy_to (mb_buffer b1) (mb_wpos b1) bs) (\<lambda>buf.
               Inr (b1\<lparr>mb_buffer := buf, mb_wpos := mb_wpos b1 + cnt\<rparr>))))"

text \<open>\<open>append<T>(value)\<close> copies the bytes of the value.\<close>

definition append_value :: "byte list \<Rightarrow> msgbuf \<Rightarrow> msgbuf res" where
  "append_value bytes b = append_raw (Some bytes) (length bytes) b"

definition mb_put_uint8 :: "byte \<Rightarrow> msgbuf \<Rightarrow> msgbuf res" where
  "mb_put_uint8 v b = append_value (le_bytes 1 v) b"

text \<open>The next three have no \<open>return\<close>.\<close>

definition mb_put_uint16 :: "u16 \<Rightarrow> msgbuf \<Rightarrow> msgbuf res" where
  "mb_put_uint16 v b = rbind (append_value (le_bytes 2 (htons v)) b) (\<lambda>_. Inl MissingReturn)"

definition mb_put_int :: "u32 \<Rightarrow> msgbuf \<Rightarrow> msgbuf res" where
  "mb_put_int v b = rbind (append_value (le_bytes 4 (htonl v)) b) (\<lambda>_. Inl MissingReturn)"

definition mb_put_uint64 :: "u64 \<Rightarrow> msgbuf \<Rightarrow> msgbuf res" where
  "mb_put_uint64 v b = rbind (append_value (le_bytes 8 (htonll v)) b) (\<lambda>_. Inl MissingReturn)"

definition mb_put_int8 :: "byte \<Rightarrow> msgbuf \<Rightarrow> msgbuf res" where
  "mb_put_int8 v b = append_value (le_bytes 1 v) b"

definition mb_put_int16 :: "u16 \<Rightarrow> msgbuf \<Rightarrow> msgbuf res" where
  "mb_put_int16 v b = append_value (le_bytes 2 (htons v)) b"

definition mb_put_int64 :: "u64 \<Rightarrow> msgbuf \<Rightarrow> msgbuf res" where
  "mb_put_int64 v b = append_value (le_bytes 8 (htonll v)) b"

definition mb_put_float :: "u32 \<Rightarrow> msgbuf \<Rightarrow> msgbuf res" where
  "mb_put_float v b = append_value (le_bytes 4 v) b"

definition mb_put_double :: "u64 \<Rightarrow> msgbuf \<Rightarrow> msgbuf res" where
  "mb_put_double v b = append_value (le_bytes 8 v) b"

definition mb_put_string :: "byte list \<Rightarrow> msgbuf \<Rightarrow> msgbuf res" where
  "mb_put_string str b =
     rbind (if length str \<noteq> 0 then append_raw (Some (str @ [0])) (length str) b else Inr b)
       (append_value [0])"

text \<open>
  \<open>operator=(const char*)\<close> appends; its last call is \<open>append<uint8_t*>\<close> of a null pointer, four
  bytes on this target.
\<close>

definition mb_assign_c_str :: "byte list option \<Rightarrow> msgbuf \<Rightarrow> msgbuf res" where
  "mb_assign_c_str str b =
     rbind (case str of None \<Rightarrow> Inr 0 | Some mem \<Rightarrow> c_strlen mem) (\<lambda>len.
     rbind (if len \<noteq> 0 then append_raw str len b else Inr b)
       (append_value (replicate 4 0)))"

subsection \<open>Reading\<close>

text \<open>\<open>read<T>(pos)\<close> of \<open>n\<close> bytes: zeros when they are not all in the vector.\<close>

definition read_at :: "nat \<Rightarrow> nat \<Rightarrow> msgbuf \<Rightarrow> byte list" where
  "read_at n pos b =
     (if pos + n > GetbufferSize b then replicate n 0 else take n (drop pos (mb_buffer b)))"

definition read_value :: "nat \<Rightarrow> msgbuf \<Rightarrow> byte list \<times> msgbuf" where
  "read_value n b = (read_at n (mb_rpos b) b, b\<lparr>mb_rpos := mb_rpos b + n\<rparr>)"

definition mb_read :: "byte list \<Rightarrow> nat \<Rightarrow> msgbuf \<Rightarrow> (byte list \<times> msgbuf) res" where
  "mb_read dest len b =
     (if mb_rpos b + len > GetbufferSize b then Inr (dest, b)
      else rbind (memcpy_from (mb_buffer b) (mb_rpos b) len) (\<lambda>bs.
           rbind (memcpy_to dest 0 bs) (\<lambda>dest'. Inr (dest', b\<lparr>mb_rpos := mb_rpos b + len\<rparr>))))"

definition mb_get_uint8 :: "byte \<Rightarrow> msgbuf \<Rightarrow> byte \<times> msgbuf" where
  "mb_get_uint8 v b = (let (bs, b1) = read_value 1 b in (le_word bs, b1))"

definition mb_get_uint16 :: "u16 \<Rightarrow> msgbuf \<Rightarrow> u16 \<times> msgbuf" where
  "mb_get_uint16 v b = (let (bs, b1) = read_value 2 b in (ntohs (le_word bs), b1))"

definition mb_get_int :: "u32 \<Rightarrow> msgbuf \<Rightarrow> u32 \<times> msgbuf" where
  "mb_get_int v b = (let (bs, b1) = read_value 4 b in (ntohl (le_word bs), b1))"

definition mb_get_uint64 :: "u64 \<Rightarrow> msgbuf \<Rightarrow> u64 \<times> msgbuf" where
  "mb_get_uint64 v b = (let (bs, b1) = read_value 8 b in (ntohll (le_word bs), b1))"

definition mb_get_int8 :: "byte \<Rightarrow> msgbuf \<Rightarrow> byte \<times> msgbuf" where
  "mb_get_int8 v b = (let (bs, b1) = read_value 1 b in (le_word bs, b1))"

definition mb_get_int16 :: "u16 \<Rightarrow> msgbuf \<Rightarrow> u16 \<times> msgbuf" where
  "mb_get_int16 v b = (let (bs, b1) = read_value 2 b in (ntohs (le_word bs), b1))"

definition mb_get_int64 :: "u64 \<Rightarrow> msgbuf \<Rightarrow> u64 \<times> msgbuf" where
  "mb_get_int64 v b = (let (bs, b1) = read_value 8 b in (ntohll (le_word bs), b1))"

text \<open>\<open>isfinite\<close>: the exponent is not all ones.\<close>

definition isfinite_float :: "u32 \<Rightarrow> bool" where
  "isfinite_float w \<longleftrightarrow> drop_bit 23 w AND 0xFF \<noteq> 0xFF"

definition isfinite_double :: "u64 \<Rightarrow> bool" where
  "isfinite_double w \<longleftrightarrow> drop_bit 52 w AND 0x7FF \<noteq> 0x7FF"

definition mb_get_float :: "u32 \<Rightarrow> msgbuf \<Rightarrow> u32 \<times> msgbuf" where
  "mb_get_float v b =
     (let (bs, b1) = read_value 4 b; tmp = le_word bs
      in if \<not> isfinite_float tmp then (v, b1) else (tmp, b1))"

definition mb_get_double :: "u64 \<Rightarrow> msgbuf \<Rightarrow> u64 \<times> msgbuf" where
  "mb_get_double v b =
     (let (bs, b1) = read_value 8 b; tmp = le_word bs
      in if \<not> isfinite_double tmp then (v, b1) else (tmp, b1))"

function mb_get_chars :: "byte list \<Rightarrow> msgbuf \<Rightarrow> byte list \<times> msgbuf" where
  "mb_get_chars val b =
     (if mb_rpos b < GetbufferSize b
      then let (bs, b1) = read_value 1 b; c = hd bs
           in if c = 0 then (val, b1) else mb_get_chars (val @ [c]) b1
      else (val, b))"
  by pat_completeness auto
termination
  by (relation "measure (\<lambda>(val, b). GetbufferSize b - mb_rpos b)")
    (auto simp: read_value_def GetbufferSize_def)

declare mb_get_chars.simps [simp del]

definition mb_get_string :: "byte list \<Rightarrow> msgbuf \<Rightarrow> byte list \<times> msgbuf" where
  "mb_get_string v b = mb_get_chars [] b"

subsection \<open>The buffer as a queue of bytes\<close>

definition mb_ok :: "msgbuf \<Rightarrow> bool" where
  "mb_ok b \<longleftrightarrow> mb_rpos b \<le> mb_wpos b \<and> mb_wpos b \<le> length (mb_buffer b)"

definition unread :: "msgbuf \<Rightarrow> byte list" where
  "unread b = drop (mb_rpos b) (take (mb_wpos b) (mb_buffer b))"

definition mb_app :: "byte list \<Rightarrow> msgbuf \<Rightarrow> msgbuf" where
  "mb_app bs b = b\<lparr>mb_buffer := take (mb_wpos b) (mb_buffer b) @ bs @ drop (mb_wpos b + length bs) (mb_buffer b),
                   mb_wpos := mb_wpos b + length bs\<rparr>"

definition mb_adv :: "nat \<Rightarrow> msgbuf \<Rightarrow> msgbuf" where
  "mb_adv n b = b\<lparr>mb_rpos := mb_rpos b + n\<rparr>"

lemma mb_new_ok [simp]: "mb_ok MessageBuffer_new"
  by (simp add: mb_ok_def MessageBuffer_new_def)

lemma unread_new [simp]: "unread MessageBuffer_new = []"
  by (simp add: unread_def MessageBuffer_new_def)

lemma length_unread: "mb_ok b \<Longrightarrow> length (unread b) = mb_wpos b - mb_rpos b"
  by (simp add: mb_ok_def unread_def)

lemma mb_app_ok: "mb_ok b \<Longrightarrow> mb_ok (mb_app bs b)"
  by (simp add: mb_ok_def mb_app_def)

lemma unread_app: "mb_ok b \<Longrightarrow> unread (mb_app bs b) = unread b @ bs"
  by (simp add: mb_ok_def mb_app_def unread_def)

lemma mb_app_app: "mb_ok b \<Longrightarrow> mb_app cs (mb_app bs b) = mb_app (bs @ cs) b"
  by (simp add: mb_ok_def mb_app_def add_ac)

lemma mb_app_Nil: "mb_ok b \<Longrightarrow> mb_app [] b = b"
  by (simp add: mb_app_def)

lemma mb_adv_ok: "mb_ok b \<Longrightarrow> n \<le> length (unread b) \<Longrightarrow> mb_ok (mb_adv n b)"
  by (auto simp: mb_ok_def mb_adv_def unread_def)

lemma unread_adv: "unread (mb_adv n b) = drop n (unread b)"
  by (simp add: mb_adv_def unread_def add.commute)

lemma mb_adv_adv: "mb_adv n (mb_adv m b) = mb_adv (m + n) b"
  by (simp add: mb_adv_def add_ac)

lemma append_raw_eq:
  assumes "mb_ok b" and "cnt = length bs"
  shows "append_raw (Some (bs @ rest)) cnt b = Inr (mb_app bs b)"
proof (cases "length (mb_buffer b) < mb_wpos b + length bs")
  case True
  then show ?thesis
    using assms
    by (auto simp: append_raw_def memcpy_from_def memcpy_to_def mb_app_def mb_ok_def vec_resize_def)
next
  case False
  then show ?thesis
    using assms by (simp add: append_raw_def memcpy_from_def memcpy_to_def mb_app_def)
qed

lemma append_value_eq: "mb_ok b \<Longrightarrow> append_value bs b = Inr (mb_app bs b)"
  using append_raw_eq [of b "length bs" bs "[]"] by (simp add: append_value_def)

lemma unread_prefix:
  assumes "mb_ok b" and "unread b = bs @ r"
  shows "mb_rpos b + length bs \<le> length (mb_buffer b)"
    and "take (length bs) (drop (mb_rpos b) (mb_buffer b)) = bs"
proof -
  have "length bs \<le> mb_wpos b - mb_rpos b"
    using assms length_unread [OF assms(1)] by simp
  moreover have "bs = take (length bs) (unread b)" using assms(2) by simp
  ultimately show "mb_rpos b + length bs \<le> length (mb_buffer b)"
    "take (length bs) (drop (mb_rpos b) (mb_buffer b)) = bs"
    using assms(1) by (auto simp: mb_ok_def unread_def drop_take min_def)
qed

lemma read_value_eq:
  assumes "mb_ok b" and "unread b = bs @ r" and "n = length bs"
  shows "read_value n b = (bs, mb_adv n b)"
  using unread_prefix [OF assms(1,2)] assms(3)
  by (simp add: read_value_def read_at_def GetbufferSize_def mb_adv_def)

text \<open>
  \<open>Normalize\<close> copies past the end as soon as there is something to move; a read of more than is
  left makes the active size wrap around.
\<close>

lemma Normalize_eq:
  "mb_ok b \<Longrightarrow> Normalize b =
     (if mb_rpos b = 0 then Inr b
      else if mb_rpos b = mb_wpos b then Inr (b\<lparr>mb_wpos := 0, mb_rpos := 0\<rparr>)
      else Inl OutOfBounds)"
  by (auto simp: Normalize_def memcpy_from_def GetbufferSize_def size_t_of_int_def)

lemma over_read:
  assumes "mb_ok b" and "length (unread b) < n" and "mb_wpos b < 2 ^ 31" and "n < 2 ^ 31"
  shows "2 ^ 31 \<le> GetActiveSize (snd (read_value n b))"
proof -
  have "int (mb_wpos b) - int (mb_rpos b + n) < 0" "- (2 ^ 31) \<le> int (mb_wpos b) - int (mb_rpos b + n)"
    using assms length_unread [OF assms(1)] by (auto simp: mb_ok_def)
  then show ?thesis
    using size_t_of_int_neg [of "int (mb_wpos b) - int (mb_rpos b + n)"]
    by (simp add: GetActiveSize_def read_value_def)
qed

subsection \<open>Types that the buffer carries\<close>

locale buffer_type =
  fixes put :: "'a \<Rightarrow> msgbuf \<Rightarrow> msgbuf res"
    and get :: "'a \<Rightarrow> msgbuf \<Rightarrow> 'a \<times> msgbuf"
    and enc :: "'a \<Rightarrow> byte list"
    and fine :: "'a \<Rightarrow> bool"
  assumes put_eq: "mb_ok b \<Longrightarrow> put v b = Inr (mb_app (enc v) b)"
    and get_eq: "mb_ok b \<Longrightarrow> fine v \<Longrightarrow> unread b = enc v @ r \<Longrightarrow>
      get old b = (v, mb_adv (length (enc v)) b)"
begin

lemma put_all: "mb_ok b \<Longrightarrow> rfold put vs b = Inr (mb_app (concat (map enc vs)) b)"
  by (induction vs arbitrary: b) (simp_all add: mb_app_Nil put_eq mb_app_ok mb_app_app)

lemma get_next:
  assumes "mb_ok b" and "fine v" and "unread b = enc v @ r"
  obtains b' where "get old b = (v, b')" "mb_ok b'" "unread b' = r"
  using that [of "mb_adv (length (enc v)) b"] get_eq [OF assms] assms
  by (simp add: mb_adv_ok unread_adv)

end

lemma read_le:
  "mb_ok b \<Longrightarrow> unread b = le_bytes n w @ r \<Longrightarrow> read_value n b = (le_bytes n w, mb_adv n b)"
  by (rule read_value_eq) simp_all

lemma le_word_le_bytes_all:
  "LENGTH('a) \<le> 8 * n \<Longrightarrow> le_word (le_bytes n w) = (w :: 'a::len word)"
  unfolding le_word_le_bytes by (rule bit_word_eqI) (auto simp: bit_take_bit_iff)

lemma le_word_byte: "le_word (le_bytes 1 w) = (w :: byte)"
  by (rule le_word_le_bytes_all) simp

interpretation mb_uint8: buffer_type mb_put_uint8 mb_get_uint8 "le_bytes 1" "\<lambda>_. True"
  by unfold_locales
    (simp_all only: mb_put_uint8_def mb_get_uint8_def append_value_eq read_le length_le_bytes
      le_word_byte prod.case Let_def)

interpretation mb_int8: buffer_type mb_put_int8 mb_get_int8 "le_bytes 1" "\<lambda>_. True"
  by unfold_locales
    (simp_all only: mb_put_int8_def mb_get_int8_def append_value_eq read_le length_le_bytes
      le_word_byte prod.case Let_def)

interpretation mb_int16: buffer_type mb_put_int16 mb_get_int16 be16 "\<lambda>_. True"
  by unfold_locales
    (simp_all add: mb_put_int16_def mb_get_int16_def append_value_eq read_value_eq gr_simps)

interpretation mb_int64: buffer_type mb_put_int64 mb_get_int64 be64 "\<lambda>_. True"
proof
  show "mb_put_int64 v b = Inr (mb_app (be64 v) b)" if "mb_ok b" for v b
    using that by (simp only: mb_put_int64_def store_htonll append_value_eq)
  show "mb_get_int64 old b = (v, mb_adv (length (be64 v)) b)"
    if "mb_ok b" "unread b = be64 v @ r" for v b r old
  proof -
    have "ntohll (le_word (be64 v)) = v"
      by (simp add: be64_def ntohll_def htonll_def le_word_swap)
    then show ?thesis
      using read_value_eq [OF that, of 8] by (simp add: mb_get_int64_def)
  qed
qed

interpretation mb_float: buffer_type mb_put_float mb_get_float "le_bytes 4" isfinite_float
  by unfold_locales
    (simp_all add: mb_put_float_def mb_get_float_def append_value_eq read_le le_word_le_bytes_all)

interpretation mb_double: buffer_type mb_put_double mb_get_double "le_bytes 8" isfinite_double
  by unfold_locales
    (simp_all add: mb_put_double_def mb_get_double_def append_value_eq read_le le_word_le_bytes_all)

lemma mb_get_chars_eq:
  "mb_ok b \<Longrightarrow> unread b = str @ 0 # r \<Longrightarrow> 0 \<notin> set str \<Longrightarrow>
     mb_get_chars val b = (val @ str, mb_adv (length str + 1) b)"
proof (induction str arbitrary: b val)
  case Nil
  then show ?case
    using read_value_eq [of b "[0]" r 1] unread_prefix(1) [of b "[0]" r]
    by (subst mb_get_chars.simps) (simp add: GetbufferSize_def)
next
  case (Cons c str)
  have first: "read_value 1 b = ([c], mb_adv 1 b)"
    using Cons.prems by (intro read_value_eq [of b "[c]"]) simp_all
  have "mb_get_chars (val @ [c]) (mb_adv 1 b) =
      ((val @ [c]) @ str, mb_adv (length str + 1) (mb_adv 1 b))"
    using Cons.prems by (intro Cons.IH) (simp_all add: mb_adv_ok unread_adv)
  then show ?case
    using first Cons.prems unread_prefix(1) [of b "[c]" "str @ 0 # r"]
    by (subst mb_get_chars.simps) (simp add: GetbufferSize_def mb_adv_adv)
qed

interpretation mb_string: buffer_type mb_put_string mb_get_string "\<lambda>str. str @ [0]" "\<lambda>str. 0 \<notin> set str"
proof
  show "mb_put_string v b = Inr (mb_app (v @ [0]) b)" if "mb_ok b" for v b
    using that append_raw_eq [OF that, of "length v" v "[0]"]
    by (simp add: mb_put_string_def append_value_eq mb_app_ok mb_app_app)
  show "mb_get_string old b = (v, mb_adv (length (v @ [0])) b)"
    if "mb_ok b" "0 \<notin> set v" "unread b = (v @ [0]) @ r" for v b r old
    using that mb_get_chars_eq [of b v r "[]"] by (simp add: mb_get_string_def)
qed

subsection \<open>The overloaded operators\<close>

text \<open>A value of one of the types whose operators return; the operators are chosen by the type.\<close>

datatype mb_value =
    MB_uint8 byte
  | MB_int8 byte
  | MB_int16 u16
  | MB_int64 u64
  | MB_float u32
  | MB_double u64
  | MB_string "byte list"

fun mb_put :: "mb_value \<Rightarrow> msgbuf \<Rightarrow> msgbuf res" where
  "mb_put (MB_uint8 v) = mb_put_uint8 v"
| "mb_put (MB_int8 v) = mb_put_int8 v"
| "mb_put (MB_int16 v) = mb_put_int16 v"
| "mb_put (MB_int64 v) = mb_put_int64 v"
| "mb_put (MB_float v) = mb_put_float v"
| "mb_put (MB_double v) = mb_put_double v"
| "mb_put (MB_string v) = mb_put_string v"

text \<open>The first argument is the object that \<open>operator>>\<close> assigns to.\<close>

fun mb_get :: "mb_value \<Rightarrow> msgbuf \<Rightarrow> mb_value \<times> msgbuf" where
  "mb_get (MB_uint8 v) = map_prod MB_uint8 id \<circ> mb_get_uint8 v"
| "mb_get (MB_int8 v) = map_prod MB_int8 id \<circ> mb_get_int8 v"
| "mb_get (MB_int16 v) = map_prod MB_int16 id \<circ> mb_get_int16 v"
| "mb_get (MB_int64 v) = map_prod MB_int64 id \<circ> mb_get_int64 v"
| "mb_get (MB_float v) = map_prod MB_float id \<circ> mb_get_float v"
| "mb_get (MB_double v) = map_prod MB_double id \<circ> mb_get_double v"
| "mb_get (MB_string v) = map_prod MB_string id \<circ> mb_get_string v"

fun mb_get_all :: "mb_value list \<Rightarrow> msgbuf \<Rightarrow> mb_value list \<times> msgbuf" where
  "mb_get_all [] b = ([], b)"
| "mb_get_all (old # olds) b =
     (let (v, b1) = mb_get old b; (vs, b2) = mb_get_all olds b1 in (v # vs, b2))"

fun mb_enc :: "mb_value \<Rightarrow> byte list" where
  "mb_enc (MB_uint8 v) = le_bytes 1 v"
| "mb_enc (MB_int8 v) = le_bytes 1 v"
| "mb_enc (MB_int16 v) = be16 v"
| "mb_enc (MB_int64 v) = be64 v"
| "mb_enc (MB_float v) = le_bytes 4 v"
| "mb_enc (MB_double v) = le_bytes 8 v"
| "mb_enc (MB_string v) = v @ [0]"

fun mb_fine :: "mb_value \<Rightarrow> bool" where
  "mb_fine (MB_float v) = isfinite_float v"
| "mb_fine (MB_double v) = isfinite_double v"
| "mb_fine (MB_string v) = (0 \<notin> set v)"
| "mb_fine _ = True"

fun mb_same_type :: "mb_value \<Rightarrow> mb_value \<Rightarrow> bool" where
  "mb_same_type (MB_uint8 _) (MB_uint8 _) = True"
| "mb_same_type (MB_int8 _) (MB_int8 _) = True"
| "mb_same_type (MB_int16 _) (MB_int16 _) = True"
| "mb_same_type (MB_int64 _) (MB_int64 _) = True"
| "mb_same_type (MB_float _) (MB_float _) = True"
| "mb_same_type (MB_double _) (MB_double _) = True"
| "mb_same_type (MB_string _) (MB_string _) = True"
| "mb_same_type _ _ = False"

lemma mb_put_eq: "mb_ok b \<Longrightarrow> mb_put v b = Inr (mb_app (mb_enc v) b)"
  by (cases v)
    (simp_all add: mb_uint8.put_eq mb_int8.put_eq mb_int16.put_eq mb_int64.put_eq mb_float.put_eq
      mb_double.put_eq mb_string.put_eq)

lemma mb_get_eq:
  "mb_ok b \<Longrightarrow> mb_fine v \<Longrightarrow> mb_same_type v old \<Longrightarrow> unread b = mb_enc v @ r \<Longrightarrow>
     mb_get old b = (v, mb_adv (length (mb_enc v)) b)"
  by (cases v; cases old)
    (simp_all add: mb_uint8.get_eq mb_int8.get_eq mb_int16.get_eq mb_int64.get_eq mb_float.get_eq
      mb_double.get_eq mb_string.get_eq)

lemma mb_put_all: "mb_ok b \<Longrightarrow> rfold mb_put vs b = Inr (mb_app (concat (map mb_enc vs)) b)"
  by (induction vs arbitrary: b) (simp_all add: mb_app_Nil mb_put_eq mb_app_ok mb_app_app)

lemma mb_get_all_eq:
  "list_all2 mb_same_type vs olds \<Longrightarrow> mb_ok b \<Longrightarrow> list_all mb_fine vs \<Longrightarrow>
     unread b = concat (map mb_enc vs) @ r \<Longrightarrow>
     mb_get_all olds b = (vs, mb_adv (length (concat (map mb_enc vs))) b)"
proof (induction vs olds arbitrary: b rule: list_all2_induct)
  case Nil
  then show ?case by (simp add: mb_adv_def)
next
  case (Cons v vs old olds)
  let ?b = "mb_adv (length (mb_enc v)) b"
  have "mb_get old b = (v, ?b)"
    using Cons.prems Cons.hyps by (intro mb_get_eq) simp_all
  moreover have "mb_get_all olds ?b = (vs, mb_adv (length (concat (map mb_enc vs))) ?b)"
    using Cons.prems by (intro Cons.IH) (simp_all add: mb_adv_ok unread_adv)
  ultimately show ?case by (simp add: mb_adv_adv)
qed

end
