(* ===== verification/DbConnection.thy ===== *)
theory DbConnection
  imports TextNum
begin

text \<open>
  The connections of the database application: \<open>MySqlConnection\<close> of src/Server/DBApp/MySqlConnection.h
  and the pools \<open>Connction\<close> and \<open>ConnectionMgr\<close> of src/Server/DBApp/NewConnection.h. The calls of the
  MySQL client library are arguments: what they return. The account data of a \<open>Connction\<close> is kept,
  the library only passes it on.
\<close>

subsection \<open>MySqlConnection\<close>

text \<open>An object is its address and \<open>mysql_\<close>, \<open>None\<close> for a null pointer.\<close>

record sql_conn =
  sc_addr :: nat
  sc_mysql :: "nat option"

record mysql_env =
  r_mysql_init :: "nat option"
  r_mysql_options :: int
  r_mysql_real_connect :: "nat option"

definition MySqlConnection_new :: "nat \<Rightarrow> sql_conn" where
  "MySqlConnection_new addr = \<lparr>sc_addr = addr, sc_mysql = None\<rparr>"

definition MySqlConnection_init :: "mysql_env \<Rightarrow> sql_conn \<Rightarrow> bool \<times> sql_conn" where
  "MySqlConnection_init env c =
     (case r_mysql_init env of
        None \<Rightarrow> (False, c)
      | Some _ \<Rightarrow>
          if r_mysql_options env \<noteq> 0 then (False, c)
          else (let c1 = c\<lparr>sc_mysql := r_mysql_real_connect env\<rparr>
                in if sc_mysql c1 = None then (False, c1) else (True, c1)))"

text \<open>A result set: the names of the columns and the rows, an SQL null is \<open>None\<close>.\<close>

record sql_result =
  rs_names :: "byte list list"
  rs_rows :: "byte list option list list"

record query_env =
  r_mysql_query :: int
  r_mysql_store_result :: "sql_result option"

text \<open>\<open>cout << row[i]\<close> follows the pointer, which is null for an SQL null.\<close>

fun print_cells :: "byte list option list \<Rightarrow> byte list res" where
  "print_cells [] = Inr [10]"
| "print_cells (None # cells) = Inl NullPointer"
| "print_cells (Some bs # cells) = rbind (print_cells cells) (\<lambda>out. Inr (bs @ [9, 9] @ out))"

fun print_rows :: "byte list option list list \<Rightarrow> byte list res" where
  "print_rows [] = Inr []"
| "print_rows (row # rows) =
     rbind (print_cells row) (\<lambda>line. rbind (print_rows rows) (\<lambda>out. Inr (line @ out)))"

text \<open>
  The result and what goes to the standard output. \<open>mysql_num_rows\<close> of a null pointer, which
  \<open>mysql_store_result\<close> returns for statements without a result set, is a fault.
\<close>

definition MySqlConnection_Query :: "query_env \<Rightarrow> sql_conn \<Rightarrow> (bool \<times> byte list) res" where
  "MySqlConnection_Query env c =
     (if sc_mysql c = None then Inr (False, [])
      else if r_mysql_query env \<noteq> 0 then Inr (False, [])
      else case r_mysql_store_result env of
        None \<Rightarrow> Inl NullPointer
      | Some result \<Rightarrow>
          rbind (print_rows (rs_rows result)) (\<lambda>out.
            Inr (True, print_int (int (length (rs_rows result))) @ [10]
              @ concat (map (\<lambda>name. name @ [9]) (rs_names result)) @ [10] @ out)))"

subsection \<open>Connction\<close>

record connction =
  cn_que :: "sql_conn list"
  cn_ip :: string
  cn_port :: nat
  cn_account :: string
  cn_pass :: string
  cn_name :: string

definition Connction_new :: "string \<Rightarrow> nat \<Rightarrow> string \<Rightarrow> string \<Rightarrow> string \<Rightarrow> connction" where
  "Connction_new ip port account pass name =
     \<lparr>cn_que = [], cn_ip = ip, cn_port = port, cn_account = account, cn_pass = pass, cn_name = name\<rparr>"

text \<open>\<open>addr\<close> is the address that \<open>new T()\<close> returns, if it comes to that.\<close>

definition GetSqlConnection :: "mysql_env \<Rightarrow> nat \<Rightarrow> connction \<Rightarrow> sql_conn option \<times> connction" where
  "GetSqlConnection env addr c =
     (case queue_try_pop (cn_que c) of
        None \<Rightarrow>
          let (ok, conn) = MySqlConnection_init env (MySqlConnection_new addr)
          in if ok then (Some conn, c) else (None, c)
      | Some (conn, q) \<Rightarrow> (Some conn, c\<lparr>cn_que := q\<rparr>))"

definition PushConnection :: "sql_conn \<Rightarrow> connction \<Rightarrow> connction" where
  "PushConnection conn c = c\<lparr>cn_que := queue_push conn (cn_que c)\<rparr>"

subsection \<open>ConnectionMgr\<close>

text \<open>The table maps an index to the address of a \<open>Connction\<close>; the index is a \<open>uint16_t\<close>.\<close>

definition PushConnction :: "u16 \<Rightarrow> nat \<Rightarrow> (u16 \<rightharpoonup> nat) \<Rightarrow> (u16 \<rightharpoonup> nat)" where
  "PushConnction index conn m = m(index \<mapsto> conn)"

definition GetConnction :: "u16 \<Rightarrow> (u16 \<rightharpoonup> nat) \<Rightarrow> nat option" where
  "GetConnction index m = m index"

subsection \<open>What the operations do\<close>

lemma init_ok_iff:
  "fst (MySqlConnection_init env c) \<longleftrightarrow>
     r_mysql_init env \<noteq> None \<and> r_mysql_options env = 0 \<and> r_mysql_real_connect env \<noteq> None"
  by (auto simp: MySqlConnection_init_def Let_def split: option.splits)

lemma init_addr: "sc_addr (snd (MySqlConnection_init env c)) = sc_addr c"
  by (auto simp: MySqlConnection_init_def Let_def split: option.splits)

lemma init_mysql: "fst (MySqlConnection_init env c) \<Longrightarrow> sc_mysql (snd (MySqlConnection_init env c)) \<noteq> None"
  by (auto simp: MySqlConnection_init_def Let_def split: option.splits if_splits)

text \<open>Either a pooled connection leaves the pool, or a new one is made, or there is none.\<close>

lemma GetSqlConnection_cases:
  obtains (pooled) conn q where "cn_que c = conn # q" "GetSqlConnection env addr c = (Some conn, c\<lparr>cn_que := q\<rparr>)"
  | (fresh) conn where "cn_que c = []" "GetSqlConnection env addr c = (Some conn, c)"
      "sc_addr conn = addr" "sc_mysql conn \<noteq> None" "fst (MySqlConnection_init env (MySqlConnection_new addr))"
  | (failed) "cn_que c = []" "GetSqlConnection env addr c = (None, c)"
      "\<not> fst (MySqlConnection_init env (MySqlConnection_new addr))"
proof (cases "cn_que c")
  case Nil
  show thesis
  proof (cases "MySqlConnection_init env (MySqlConnection_new addr)")
    case (Pair ok conn)
    have "sc_addr conn = addr" "ok \<Longrightarrow> sc_mysql conn \<noteq> None"
      using Pair init_addr [of env "MySqlConnection_new addr"] init_mysql [of env "MySqlConnection_new addr"]
      by (simp_all add: MySqlConnection_new_def)
    then show thesis
      using Nil Pair fresh failed by (cases ok) (auto simp: GetSqlConnection_def)
  qed
next
  case (Cons conn q)
  then show thesis by (intro pooled) (simp_all add: GetSqlConnection_def)
qed

text \<open>When a query prints: no cell is an SQL null.\<close>

lemma print_cells_ok: "(\<exists>out. print_cells cells = Inr out) \<longleftrightarrow> None \<notin> set cells"
proof (induction cells rule: print_cells.induct)
  case (3 bs cells)
  then show ?case by (auto simp: rbind_Inr_iff)
qed simp_all

lemma print_cells_eq:
  "None \<notin> set cells \<Longrightarrow> print_cells cells = Inr (concat (map (\<lambda>c. the c @ [9, 9]) cells) @ [10])"
  by (induction cells rule: print_cells.induct) auto

lemma print_rows_ok: "(\<exists>out. print_rows rows = Inr out) \<longleftrightarrow> (\<forall>row \<in> set rows. None \<notin> set row)"
proof (induction rows)
  case (Cons row rows)
  then show ?case using print_cells_ok [of row] by (auto simp: rbind_Inr_iff)
qed simp

lemma Query_ok_iff:
  assumes "sc_mysql c \<noteq> None" and "r_mysql_query env = 0"
  shows "(\<exists>out. MySqlConnection_Query env c = Inr (True, out)) \<longleftrightarrow>
    (\<exists>result. r_mysql_store_result env = Some result \<and> (\<forall>row \<in> set (rs_rows result). None \<notin> set row))"
  using assms print_rows_ok
  by (auto simp: MySqlConnection_Query_def rbind_Inr_iff split: option.split)

end
