(* ===== verification/DbPool.thy ===== *)
theory DbPool
  imports DbConnection "HOL-Library.Multiset"
begin

text \<open>
  The queue and the worker threads of the database application: \<open>ProducerConsumerQueue\<close> and
  \<open>DatabaseThreadPool\<close> of src/Server/DBApp. A thread is the place where it stands in \<open>run\<close>; the
  code under the lock of the queue is one step, and \<open>wait\<close> of the condition variable is two, one
  until the thread sleeps and one from the moment it has the lock again.
\<close>

subsection \<open>State\<close>

record TaskInfo =
  ti_conn :: "nat option"      \<comment> \<open>the address of a \<open>Connction\<close>, \<open>None\<close> for a null pointer\<close>
  ti_cmd :: "byte list"

definition TaskInfo_new :: TaskInfo where
  "TaskInfo_new = \<lparr>ti_conn = None, ti_cmd = []\<rparr>"

datatype worker =
    W_loop                       \<comment> \<open>at the top of the loop\<close>
  | W_waiting                    \<comment> \<open>asleep in \<open>_condition.wait\<close>\<close>
  | W_woken                      \<comment> \<open>woken up, before it has the lock\<close>
  | W_task TaskInfo              \<comment> \<open>with a task, before \<open>GetSqlConnection\<close>\<close>
  | W_query TaskInfo sql_conn    \<comment> \<open>before \<open>Query\<close>\<close>
  | W_push TaskInfo sql_conn     \<comment> \<open>before \<open>PushConnection\<close>\<close>
  | W_done                       \<comment> \<open>returned\<close>

text \<open>
  \<open>pq_shutDown\<close> is never initialised by the code: its initial value is arbitrary. \<open>tp_taken\<close> and
  \<open>tp_results\<close> record what the threads have taken and executed.
\<close>

record db_pool =
  pq_queue :: "TaskInfo list"
  pq_shutDown :: int
  tp_threads :: "worker list"
  tp_conns :: "connction list"   \<comment> \<open>the \<open>Connction\<close> objects, by address\<close>
  tp_fresh :: nat                \<comment> \<open>the next address for a \<open>MySqlConnection\<close>\<close>
  tp_taken :: "TaskInfo list"
  tp_results :: "(byte list \<times> bool) list"

definition db_pool_new :: "int \<Rightarrow> db_pool" where
  "db_pool_new shut =
     \<lparr>pq_queue = [], pq_shutDown = shut, tp_threads = [], tp_conns = [], tp_fresh = 0,
      tp_taken = [], tp_results = []\<rparr>"

subsection \<open>ProducerConsumerQueue\<close>

text \<open>\<open>notify_one\<close> wakes one of the threads that wait, the argument says which; if none waits, nothing happens.\<close>

fun notify_ok :: "nat option \<Rightarrow> worker list \<Rightarrow> bool" where
  "notify_ok None ws = (W_waiting \<notin> set ws)"
| "notify_ok (Some i) ws = (i < length ws \<and> ws ! i = W_waiting)"

fun notify_one :: "nat option \<Rightarrow> worker list \<Rightarrow> worker list" where
  "notify_one None ws = ws"
| "notify_one (Some i) ws = ws[i := W_woken]"

definition pq_Push :: "TaskInfo \<Rightarrow> nat option \<Rightarrow> db_pool \<Rightarrow> db_pool" where
  "pq_Push value pick s =
     s\<lparr>pq_queue := queue_push value (pq_queue s), tp_threads := notify_one pick (tp_threads s)\<rparr>"

definition pq_Empty :: "db_pool \<Rightarrow> bool" where
  "pq_Empty s = (pq_queue s = [])"

text \<open>What \<open>Pop\<close> does, and \<open>WaitAndPop\<close> once it has slept: \<open>value\<close> keeps its content if nothing is taken.\<close>

definition pq_take :: "TaskInfo \<Rightarrow> db_pool \<Rightarrow> bool \<times> TaskInfo \<times> db_pool" where
  "pq_take value s =
     (if pq_queue s = [] \<or> pq_shutDown s \<noteq> 0 then (False, value, s)
      else (True, hd (pq_queue s),
            s\<lparr>pq_queue := tl (pq_queue s), tp_taken := tp_taken s @ [hd (pq_queue s)]\<rparr>))"

definition set_worker :: "nat \<Rightarrow> worker \<Rightarrow> db_pool \<Rightarrow> db_pool" where
  "set_worker i w s = s\<lparr>tp_threads := (tp_threads s)[i := w]\<rparr>"

definition set_conn :: "nat \<Rightarrow> connction \<Rightarrow> db_pool \<Rightarrow> db_pool" where
  "set_conn a c s = s\<lparr>tp_conns := (tp_conns s)[a := c]\<rparr>"

subsection \<open>DatabaseThreadPool\<close>

text \<open>\<open>run\<close>, in the steps of thread \<open>i\<close>: it starts to wait, or it is back from the wait.\<close>

definition run_wait :: "nat \<Rightarrow> db_pool \<Rightarrow> db_pool" where
  "run_wait i s = set_worker i W_waiting s"

definition run_pop :: "nat \<Rightarrow> db_pool \<Rightarrow> db_pool" where
  "run_pop i s =
     (let (_, value, s1) = pq_take TaskInfo_new s
      in set_worker i (if ti_conn value = None then W_done else W_task value) s1)"

definition run_connect :: "nat \<Rightarrow> mysql_env \<Rightarrow> TaskInfo \<Rightarrow> nat \<Rightarrow> db_pool \<Rightarrow> db_pool" where
  "run_connect i env value a s =
     (let (conn, c) = GetSqlConnection env (tp_fresh s) (tp_conns s ! a);
          s1 = set_conn a c (s\<lparr>tp_fresh := tp_fresh s + 1\<rparr>)
      in case conn of
           None \<Rightarrow> set_worker i W_loop s1
         | Some sc \<Rightarrow> set_worker i (W_query value sc) s1)"

definition run_query :: "nat \<Rightarrow> query_env \<Rightarrow> TaskInfo \<Rightarrow> sql_conn \<Rightarrow> db_pool \<Rightarrow> db_pool res" where
  "run_query i env value sc s =
     rbind (MySqlConnection_Query env sc) (\<lambda>(ok, _).
       Inr (set_worker i (W_push value sc) (s\<lparr>tp_results := tp_results s @ [(ti_cmd value, ok)]\<rparr>)))"

definition run_push :: "nat \<Rightarrow> sql_conn \<Rightarrow> nat \<Rightarrow> db_pool \<Rightarrow> db_pool" where
  "run_push i sc a s = set_worker i W_loop (set_conn a (PushConnection sc (tp_conns s ! a)) s)"

definition CreateThreadPool :: "nat \<Rightarrow> db_pool \<Rightarrow> db_pool" where
  "CreateThreadPool threadNum s = s\<lparr>tp_threads := tp_threads s @ replicate threadNum W_loop\<rparr>"

text \<open>One empty task for every thread; \<open>wait\<close> returns when all threads have returned.\<close>

definition ClosePool_tasks :: "db_pool \<Rightarrow> TaskInfo list" where
  "ClosePool_tasks s = replicate (length (tp_threads s)) TaskInfo_new"

definition wait_returns :: "db_pool \<Rightarrow> bool" where
  "wait_returns s = list_all (\<lambda>w. w = W_done) (tp_threads s)"

subsection \<open>Runs\<close>

datatype db_event =
    Db_post TaskInfo "nat option"
  | Db_wait nat
  | Db_wake nat            \<comment> \<open>a spurious wake-up, which the standard permits\<close>
  | Db_pop nat
  | Db_connect nat mysql_env
  | Db_query nat query_env
  | Db_push nat
  | Db_new connction       \<comment> \<open>another \<open>Connction\<close> is made\<close>

text \<open>A query that faults ends the program, so it has no next state.\<close>

inductive pool_step :: "db_pool \<Rightarrow> db_event \<Rightarrow> db_pool \<Rightarrow> bool" where
  st_post: "notify_ok pick (tp_threads s) \<Longrightarrow> pool_step s (Db_post value pick) (pq_Push value pick s)"
| st_wait: "i < length (tp_threads s) \<Longrightarrow> tp_threads s ! i = W_loop \<Longrightarrow>
     pool_step s (Db_wait i) (run_wait i s)"
| st_wake: "i < length (tp_threads s) \<Longrightarrow> tp_threads s ! i = W_waiting \<Longrightarrow>
     pool_step s (Db_wake i) (set_worker i W_woken s)"
| st_pop: "i < length (tp_threads s) \<Longrightarrow> tp_threads s ! i = W_woken \<Longrightarrow>
     pool_step s (Db_pop i) (run_pop i s)"
| st_connect: "i < length (tp_threads s) \<Longrightarrow> tp_threads s ! i = W_task value \<Longrightarrow>
     ti_conn value = Some a \<Longrightarrow> a < length (tp_conns s) \<Longrightarrow>
     pool_step s (Db_connect i env) (run_connect i env value a s)"
| st_query: "i < length (tp_threads s) \<Longrightarrow> tp_threads s ! i = W_query value sc \<Longrightarrow>
     run_query i env value sc s = Inr t \<Longrightarrow> pool_step s (Db_query i env) t"
| st_push: "i < length (tp_threads s) \<Longrightarrow> tp_threads s ! i = W_push value sc \<Longrightarrow>
     ti_conn value = Some a \<Longrightarrow> a < length (tp_conns s) \<Longrightarrow>
     pool_step s (Db_push i) (run_push i sc a s)"
| st_new: "cn_que c = [] \<Longrightarrow> pool_step s (Db_new c) (s\<lparr>tp_conns := tp_conns s @ [c]\<rparr>)"

inductive_cases pool_step_cases: "pool_step s e t"

inductive_simps pool_step_simps:
  "pool_step s (Db_post value pick) t" "pool_step s (Db_wait i) t" "pool_step s (Db_wake i) t"
  "pool_step s (Db_pop i) t" "pool_step s (Db_connect i env) t" "pool_step s (Db_query i env') t"
  "pool_step s (Db_push i) t" "pool_step s (Db_new c) t"

inductive pool_run :: "db_pool \<Rightarrow> db_event list \<Rightarrow> db_pool \<Rightarrow> bool" where
  pool_nil: "pool_run s [] s"
| pool_snoc: "pool_run s es t \<Longrightarrow> pool_step t e u \<Longrightarrow> pool_run s (es @ [e]) u"

lemma pool_run_Nil_iff [simp]: "pool_run s [] t \<longleftrightarrow> t = s"
  by (auto elim: pool_run.cases intro: pool_nil)

lemma pool_run_snoc_iff: "pool_run s (es @ [e]) u \<longleftrightarrow> (\<exists>t. pool_run s es t \<and> pool_step t e u)"
  by (auto elim: pool_run.cases intro: pool_snoc)

lemma pool_run_append_iff: "pool_run s (es @ fs) u \<longleftrightarrow> (\<exists>t. pool_run s es t \<and> pool_run t fs u)"
proof (induction fs arbitrary: u rule: rev_induct)
  case (snoc e fs)
  then show ?case
    unfolding append_assoc [symmetric] pool_run_snoc_iff by blast
qed simp

lemma pool_run_single_iff: "pool_run s [e] t \<longleftrightarrow> pool_step s e t"
  using pool_run_snoc_iff [of s "[]" e t] by simp

lemma pool_run_invariant:
  assumes "\<And>s e t. P s \<Longrightarrow> pool_step s e t \<Longrightarrow> P t"
  shows "pool_run s es t \<Longrightarrow> P s \<Longrightarrow> P t"
  by (induction rule: pool_run.induct) (auto intro: assms)

lemmas pool_defs =
  pq_Push_def run_wait_def run_pop_def run_connect_def run_query_def run_push_def set_worker_def
  set_conn_def pq_take_def Let_def queue_push_def

subsection \<open>Tasks are taken in the order in which they are posted\<close>

fun posted :: "db_event list \<Rightarrow> TaskInfo list" where
  "posted [] = []"
| "posted (Db_post value _ # es) = value # posted es"
| "posted (_ # es) = posted es"

lemma posted_append [simp]: "posted (es @ fs) = posted es @ posted fs"
  by (induction es rule: posted.induct) auto

lemma pool_step_fifo:
  "pool_step s e t \<Longrightarrow> tp_taken t @ pq_queue t = tp_taken s @ pq_queue s @ posted [e]"
  by (erule pool_step_cases)
    (auto simp: pool_defs rbind_Inr_iff split: prod.splits option.splits if_splits)

lemma pool_run_fifo:
  "pool_run s es t \<Longrightarrow> tp_taken t @ pq_queue t = tp_taken s @ pq_queue s @ posted es"
  by (induction rule: pool_run.induct) (auto dest: pool_step_fifo)

lemma pool_step_shutDown: "pool_step s e t \<Longrightarrow> pq_shutDown t = pq_shutDown s"
  by (erule pool_step_cases)
    (auto simp: pool_defs rbind_Inr_iff split: prod.splits option.splits if_splits)

lemma length_notify_one [simp]: "length (notify_one pick ws) = length ws"
  by (cases pick) simp_all

lemma pool_step_length: "pool_step s e t \<Longrightarrow> length (tp_threads t) = length (tp_threads s)"
  by (erule pool_step_cases)
    (auto simp: pool_defs rbind_Inr_iff split: prod.splits option.splits if_splits)

subsection \<open>Nobody is woken for a task that is already there\<close>

text \<open>The events that the threads bring about themselves.\<close>

fun by_threads :: "db_event \<Rightarrow> bool" where
  "by_threads (Db_post _ _) = False"
| "by_threads (Db_wake _) = False"
| "by_threads (Db_new _) = False"
| "by_threads _ = True"

definition asleep :: "db_pool \<Rightarrow> bool" where
  "asleep s = list_all (\<lambda>w. w = W_waiting \<or> w = W_done) (tp_threads s)"

lemma asleep_stuck: "asleep s \<Longrightarrow> pool_step s e t \<Longrightarrow> \<not> by_threads e"
  by (erule pool_step_cases) (auto simp: asleep_def list_all_length)

text \<open>Threads that are at the top of their loop go to sleep, whatever is in the queue.\<close>

definition sleep_events :: "nat \<Rightarrow> db_event list" where
  "sleep_events n = map Db_wait [0..<n]"

lemma all_sleep:
  assumes "tp_threads s = replicate m W_loop" and "n \<le> m"
  shows "pool_run s (sleep_events n) (s\<lparr>tp_threads := replicate n W_waiting @ replicate (m - n) W_loop\<rparr>)"
  using assms(2)
proof (induction n)
  case 0
  have "s\<lparr>tp_threads := replicate m W_loop\<rparr> = s" using assms(1) by simp
  then show ?case by (simp add: sleep_events_def pool_nil)
next
  case (Suc n)
  let ?t = "s\<lparr>tp_threads := replicate n W_waiting @ replicate (m - n) W_loop\<rparr>"
  have rep: "replicate (m - n) W_loop = W_loop # replicate (m - Suc n) W_loop"
    using Suc.prems by (metis Suc_diff_Suc Suc_le_lessD replicate_Suc)
  have "pool_step ?t (Db_wait n) (run_wait n ?t)"
    using Suc.prems by (intro st_wait) (simp_all add: nth_append)
  moreover have "run_wait n ?t = s\<lparr>tp_threads := replicate (Suc n) W_waiting @ replicate (m - Suc n) W_loop\<rparr>"
    unfolding rep by (simp add: run_wait_def set_worker_def list_update_append replicate_app_Cons_same)
  ultimately show ?case
    using pool_snoc [OF Suc.IH] Suc.prems by (simp add: sleep_events_def)
qed

subsection \<open>No two threads use the same connection\<close>

fun holds :: "worker \<Rightarrow> nat list" where
  "holds (W_query _ sc) = [sc_addr sc]"
| "holds (W_push _ sc) = [sc_addr sc]"
| "holds _ = []"

definition conn_addrs :: "connction \<Rightarrow> nat list" where
  "conn_addrs c = map sc_addr (cn_que c)"

definition sql_addrs :: "db_pool \<Rightarrow> nat multiset" where
  "sql_addrs s = mset (concat (map holds (tp_threads s))) + mset (concat (map conn_addrs (tp_conns s)))"

definition conns_ok :: "db_pool \<Rightarrow> bool" where
  "conns_ok s \<longleftrightarrow> (\<forall>a. count (sql_addrs s) a \<le> 1) \<and> (\<forall>a \<in># sql_addrs s. a < tp_fresh s)"

lemma mset_concat_update:
  "i < length xs \<Longrightarrow>
     mset (concat (map f (xs[i := y]))) + mset (f (xs ! i)) = mset (concat (map f xs)) + mset (f y)"
proof (induction xs arbitrary: i)
  case (Cons x xs)
  then show ?case by (cases i) (auto simp: ac_simps)
qed simp

lemma sql_addrs_set_worker:
  "i < length (tp_threads s) \<Longrightarrow>
     sql_addrs (set_worker i w s) + mset (holds (tp_threads s ! i)) = sql_addrs s + mset (holds w)"
  using mset_concat_update [of i "tp_threads s" holds w]
  by (simp add: sql_addrs_def set_worker_def ac_simps)

lemma sql_addrs_set_conn:
  "a < length (tp_conns s) \<Longrightarrow>
     sql_addrs (set_conn a c s) + mset (conn_addrs (tp_conns s ! a)) = sql_addrs s + mset (conn_addrs c)"
  using mset_concat_update [of a "tp_conns s" conn_addrs c]
  by (simp add: sql_addrs_def set_conn_def ac_simps)

lemma conns_ok_cong:
  "sql_addrs t = sql_addrs s \<Longrightarrow> tp_fresh s \<le> tp_fresh t \<Longrightarrow> conns_ok s \<Longrightarrow> conns_ok t"
  by (fastforce simp: conns_ok_def)

lemma holds_notify_one: "notify_ok pick ws \<Longrightarrow> map holds (notify_one pick ws) = map holds ws"
  by (cases pick) (auto simp: map_update list_update_same_conv)

lemma conns_ok_connect:
  assumes "conns_ok s" and "i < length (tp_threads s)" and "tp_threads s ! i = W_task value"
    and "a < length (tp_conns s)"
  shows "conns_ok (run_connect i env value a s)"
proof -
  let ?s = "s\<lparr>tp_fresh := tp_fresh s + 1\<rparr>"
  let ?c = "tp_conns s ! a"
  have work: "sql_addrs (set_worker i w (set_conn a c ?s)) = sql_addrs (set_conn a c ?s) + mset (holds w)" for w c
    using sql_addrs_set_worker [of i "set_conn a c ?s" w] assms(2,3) by (simp add: set_conn_def)
  have conn: "sql_addrs (set_conn a c ?s) + mset (conn_addrs ?c) = sql_addrs s + mset (conn_addrs c)" for c
    using sql_addrs_set_conn [of a ?s c] assms(4) by (simp add: sql_addrs_def)
  show ?thesis
  proof (cases rule: GetSqlConnection_cases [of ?c env "tp_fresh s"])
    case (pooled conn q)
    let ?t = "set_worker i (W_query value conn) (set_conn a (?c\<lparr>cn_que := q\<rparr>) ?s)"
    have "mset (conn_addrs ?c) = add_mset (sc_addr conn) (mset (conn_addrs (?c\<lparr>cn_que := q\<rparr>)))"
      using pooled(1) by (simp add: conn_addrs_def)
    then have "sql_addrs ?t = sql_addrs s"
      using work [of "W_query value conn" "?c\<lparr>cn_que := q\<rparr>"] conn [of "?c\<lparr>cn_que := q\<rparr>"] by simp
    then have "conns_ok ?t"
      by (rule conns_ok_cong [OF _ _ assms(1)]) (simp add: set_worker_def set_conn_def)
    then show ?thesis using pooled(2) by (simp add: run_connect_def)
  next
    case (fresh conn)
    let ?t = "set_worker i (W_query value conn) (set_conn a ?c ?s)"
    have "sql_addrs ?t = add_mset (tp_fresh s) (sql_addrs s)"
      using work [of "W_query value conn" ?c] conn [of ?c] fresh(3) by simp
    moreover have "tp_fresh s \<notin># sql_addrs s" using assms(1) by (auto simp: conns_ok_def)
    moreover have "tp_fresh ?t = tp_fresh s + 1" by (simp add: set_worker_def set_conn_def)
    ultimately have "conns_ok ?t"
      using assms(1) by (auto simp: conns_ok_def not_in_iff less_Suc_eq)
    then show ?thesis using fresh(2) by (simp add: run_connect_def)
  next
    case failed
    let ?t = "set_worker i W_loop (set_conn a ?c ?s)"
    have "sql_addrs ?t = sql_addrs s" using work [of W_loop ?c] conn [of ?c] by simp
    then have "conns_ok ?t"
      by (rule conns_ok_cong [OF _ _ assms(1)]) (simp add: set_worker_def set_conn_def)
    then show ?thesis using failed(2) by (simp add: run_connect_def)
  qed
qed

lemma conns_ok_push:
  assumes "conns_ok s" and "i < length (tp_threads s)" and "tp_threads s ! i = W_push value sc"
    and "a < length (tp_conns s)"
  shows "conns_ok (run_push i sc a s)"
proof -
  let ?c = "PushConnection sc (tp_conns s ! a)"
  let ?t = "set_conn a ?c s"
  have "conn_addrs ?c = conn_addrs (tp_conns s ! a) @ [sc_addr sc]"
    by (simp add: conn_addrs_def PushConnection_def queue_push_def)
  then have "sql_addrs ?t = add_mset (sc_addr sc) (sql_addrs s)"
    using sql_addrs_set_conn [OF assms(4), of ?c] by simp
  moreover have "sql_addrs (set_worker i W_loop ?t) + {#sc_addr sc#} = sql_addrs ?t"
    using sql_addrs_set_worker [of i ?t W_loop] assms(2,3) by (simp add: set_conn_def)
  ultimately have "sql_addrs (run_push i sc a s) = sql_addrs s"
    by (simp add: run_push_def)
  then show ?thesis
    by (rule conns_ok_cong [OF _ _ assms(1)]) (simp add: run_push_def set_worker_def set_conn_def)
qed

lemma conns_ok_set_worker:
  assumes "conns_ok s" and "i < length (tp_threads s)" and "holds w = holds (tp_threads s ! i)"
  shows "conns_ok (set_worker i w s)"
proof (rule conns_ok_cong [OF _ _ assms(1)])
  show "sql_addrs (set_worker i w s) = sql_addrs s"
    using sql_addrs_set_worker [OF assms(2), of w] assms(3) by simp
qed (simp add: set_worker_def)

lemma conns_ok_step: "pool_step s e t \<Longrightarrow> conns_ok s \<Longrightarrow> conns_ok t"
proof (induction rule: pool_step.induct)
  case (st_post pick s val)
  show ?case
    by (rule conns_ok_cong [OF _ _ st_post.prems])
      (simp_all add: sql_addrs_def pq_Push_def holds_notify_one [OF st_post.hyps])
next
  case (st_pop i s)
  let ?s = "snd (snd (pq_take TaskInfo_new s))"
  have "conns_ok ?s"
    by (rule conns_ok_cong [OF _ _ st_pop.prems]) (simp_all add: sql_addrs_def pq_take_def)
  moreover have "tp_threads ?s = tp_threads s" by (simp add: pq_take_def)
  ultimately show ?case
    using st_pop.hyps by (auto simp: run_pop_def Let_def split: prod.split intro!: conns_ok_set_worker)
next
  case (st_query i s val sc env t)
  then obtain r where t: "t = set_worker i (W_push val sc) (s\<lparr>tp_results := r\<rparr>)"
    by (auto simp: run_query_def rbind_Inr_iff)
  have "conns_ok (s\<lparr>tp_results := r\<rparr>)"
    by (rule conns_ok_cong [OF _ _ st_query.prems]) (simp_all add: sql_addrs_def)
  then show ?case
    unfolding t using st_query.hyps by (intro conns_ok_set_worker) simp_all
next
  case (st_new c s)
  show ?case
    by (rule conns_ok_cong [OF _ _ st_new.prems])
      (simp_all add: sql_addrs_def conn_addrs_def st_new.hyps)
qed (auto simp: run_wait_def intro!: conns_ok_set_worker conns_ok_connect conns_ok_push)

text \<open>Two threads at different places of a list without repetitions.\<close>

lemma distinct_concat_nth:
  "distinct (concat (map f xs)) \<Longrightarrow> i < j \<Longrightarrow> j < length xs \<Longrightarrow> a \<in> set (f (xs ! i)) \<Longrightarrow>
     a \<notin> set (f (xs ! j))"
proof (induction xs arbitrary: i j)
  case (Cons x xs)
  then show ?case by (cases i; cases j) (auto simp: disjoint_iff)
qed simp

lemma conns_ok_exclusive:
  assumes "conns_ok s" and "i < length (tp_threads s)" and "j < length (tp_threads s)" and "i \<noteq> j"
    and "a \<in> set (holds (tp_threads s ! i))"
  shows "a \<notin> set (holds (tp_threads s ! j))"
    and "c \<in> set (tp_conns s) \<Longrightarrow> a \<notin> set (conn_addrs c)"
proof -
  let ?h = "concat (map holds (tp_threads s))" and ?p = "concat (map conn_addrs (tp_conns s))"
  have "\<forall>a. count (mset (?h @ ?p)) a \<le> 1"
    using assms(1) by (simp add: conns_ok_def sql_addrs_def)
  then have dist: "distinct (?h @ ?p)"
    by (simp only: distinct_count_atmost_1) (metis count_eq_zero_iff le_Suc_eq le_zero_eq One_nat_def set_mset_mset)
  show "a \<notin> set (holds (tp_threads s ! j))"
    using dist assms(2-5) distinct_concat_nth [of holds "tp_threads s" i j a]
      distinct_concat_nth [of holds "tp_threads s" j i a] by (cases i j rule: linorder_cases) auto
  show "a \<notin> set (conn_addrs c)" if "c \<in> set (tp_conns s)"
  proof
    assume "a \<in> set (conn_addrs c)"
    then have "a \<in> set ?p" using that by auto
    moreover have "a \<in> set ?h" using assms(2,5) nth_mem by fastforce
    ultimately show False using dist by auto
  qed
qed

subsection \<open>Closing the pool\<close>

definition waiters :: "db_pool \<Rightarrow> nat" where
  "waiters s = count (mset (tp_threads s)) W_waiting"

definition wakers :: "db_pool \<Rightarrow> nat" where
  "wakers s = count (mset (tp_threads s)) W_woken"

text \<open>Only empty tasks are left, and every thread waits for one, has been woken for one, or is done.\<close>

definition draining :: "db_pool \<Rightarrow> bool" where
  "draining s \<longleftrightarrow> list_all (\<lambda>w. w = W_waiting \<or> w = W_woken \<or> w = W_done) (tp_threads s)
    \<and> list_all (\<lambda>v. ti_conn v = None) (pq_queue s)"

lemma count_update:
  assumes "i < length xs"
  shows "count (mset (xs[i := y])) a + (if xs ! i = a then 1 else 0) =
    count (mset xs) a + (if y = a then 1 else 0)"
proof -
  have "add_mset (xs ! i) (mset (xs[i := y])) = add_mset y (mset xs)"
    using assms by (simp add: mset_update insert_DiffM)
  then have "count (add_mset (xs ! i) (mset (xs[i := y]))) a = count (add_mset y (mset xs)) a"
    by simp
  then show ?thesis by (simp split: if_splits)
qed

lemma set_update_cases: "x \<in> set (xs[i := y]) \<Longrightarrow> x = y \<or> x \<in> set xs"
  using set_update_subset_insert by fastforce

lemma draining_place:
  "draining s \<Longrightarrow> i < length (tp_threads s) \<Longrightarrow> tp_threads s ! i = w \<Longrightarrow>
     w = W_waiting \<or> w = W_woken \<or> w = W_done"
  by (auto simp: draining_def list_all_length)

text \<open>A woken thread finds nothing or an empty task, and returns.\<close>

lemma draining_pop:
  assumes "draining s"
  shows "tp_threads (run_pop i s) = (tp_threads s)[i := W_done]"
    and "pq_queue (run_pop i s) = pq_queue s \<or> pq_queue (run_pop i s) = tl (pq_queue s)"
  using assms
  by (auto simp: draining_def run_pop_def pq_take_def set_worker_def TaskInfo_new_def neq_Nil_conv)

lemma draining_step:
  assumes "draining s" and "pool_step s e t" and "list_all (\<lambda>v. ti_conn v = None) (posted [e])"
  shows "draining t"
  using assms(2)
proof (cases rule: pool_step.cases)
  case (st_post pick val)
  then show ?thesis
    using assms(1,3)
    by (cases pick) (auto simp: draining_def pq_Push_def queue_push_def list_all_iff dest: set_update_cases)
next
  case (st_wake i)
  then show ?thesis
    using assms(1) by (auto simp: draining_def set_worker_def list_all_iff dest: set_update_cases)
next
  case (st_pop i)
  then show ?thesis
    using assms(1) draining_pop [OF assms(1), of i]
    by (cases "pq_queue s") (auto simp: draining_def list_all_iff dest: set_update_cases)
next
  case (st_new c)
  then show ?thesis using assms(1) by (simp add: draining_def)
qed (use draining_place [OF assms(1)] in auto)

lemma draining_waiters:
  assumes "draining s" and "pool_step s e t"
  shows "waiters t \<le> waiters s - length (posted [e])"
  using assms(2)
proof (cases rule: pool_step.cases)
  case (st_post pick val)
  show ?thesis
  proof (cases pick)
    case None
    with st_post have "waiters s = 0" by (simp add: waiters_def)
    moreover have "waiters t = waiters s" using st_post None by (simp add: waiters_def pq_Push_def)
    ultimately show ?thesis by simp
  next
    case (Some i)
    with st_post show ?thesis
      using count_update [of i "tp_threads s" W_woken W_waiting] by (simp add: waiters_def pq_Push_def)
  qed
next
  case (st_wake i)
  then show ?thesis
    using count_update [of i "tp_threads s" W_woken W_waiting] by (simp add: waiters_def set_worker_def)
next
  case (st_pop i)
  then show ?thesis
    using count_update [of i "tp_threads s" W_done W_waiting] draining_pop(1) [OF assms(1), of i]
    by (simp add: waiters_def)
next
  case (st_new c)
  then show ?thesis by (simp add: waiters_def)
qed (use draining_place [OF assms(1)] in auto)

lemma draining_run:
  "pool_run s es t \<Longrightarrow> draining s \<Longrightarrow> list_all (\<lambda>v. ti_conn v = None) (posted es) \<Longrightarrow>
     draining t \<and> waiters t \<le> waiters s - length (posted es)"
proof (induction rule: pool_run.induct)
  case (pool_snoc s es t e u)
  then have "draining t" "waiters t \<le> waiters s - length (posted es)" by simp_all
  then show ?case
    using pool_snoc.hyps(2) pool_snoc.prems(2) draining_step [of t e u] draining_waiters [of t e u]
    by simp
qed simp

text \<open>Once nobody waits, every step of a thread is the last one of that thread.\<close>

lemma wakers_step:
  assumes "draining s" and "waiters s = 0" and "pool_step s e t" and "by_threads e"
  shows "draining t \<and> waiters t = 0 \<and> wakers s = Suc (wakers t)"
proof -
  have "draining t"
    using assms by (intro draining_step [OF assms(1,3)]) (cases e; simp)
  moreover have "waiters t = 0" using draining_waiters [OF assms(1,3)] assms(2) by simp
  moreover obtain i where "i < length (tp_threads s)" "tp_threads s ! i = W_woken" "t = run_pop i s"
    using assms(3,4) draining_place [OF assms(1)]
    by (cases rule: pool_step.cases) fastforce+
  ultimately show ?thesis
    using count_update [of i "tp_threads s" W_done W_woken] draining_pop(1) [OF assms(1), of i]
    by (simp add: wakers_def)
qed

lemma wakers_run:
  "pool_run s es t \<Longrightarrow> draining s \<Longrightarrow> waiters s = 0 \<Longrightarrow> list_all by_threads es \<Longrightarrow>
     draining t \<and> waiters t = 0 \<and> wakers s = wakers t + length es"
proof (induction rule: pool_run.induct)
  case (pool_snoc s es t e u)
  then show ?case using wakers_step [of t e u] by simp
qed simp

lemma draining_progress:
  assumes "draining s" and "waiters s = 0"
  shows "wait_returns s \<or> (\<exists>i t. pool_step s (Db_pop i) t)"
proof (cases "W_woken \<in> set (tp_threads s)")
  case True
  then obtain i where "i < length (tp_threads s)" "tp_threads s ! i = W_woken"
    by (meson in_set_conv_nth)
  then show ?thesis by (blast intro: st_pop)
next
  case False
  then have "wait_returns s"
    using assms by (auto simp: draining_def wait_returns_def list_all_iff waiters_def count_eq_zero_iff)
  then show ?thesis ..
qed

lemma wakers_le: "wakers s \<le> length (tp_threads s)"
  by (simp add: wakers_def count_mset count_le_length)

subsection \<open>Connections that are used once\<close>

fun carries :: "worker \<Rightarrow> TaskInfo list" where
  "carries (W_task v) = [v]"
| "carries (W_query v _) = [v]"
| "carries (W_push v _) = [v]"
| "carries _ = []"

definition conn_of :: "TaskInfo \<Rightarrow> nat list" where
  "conn_of v = (case ti_conn v of None \<Rightarrow> [] | Some a \<Rightarrow> [a])"

lemma conn_of_simps [simp]:
  "ti_conn v = None \<Longrightarrow> conn_of v = []" "ti_conn v = Some a \<Longrightarrow> conn_of v = [a]"
  by (simp_all add: conn_of_def)

definition carried :: "worker \<Rightarrow> nat list" where
  "carried w = concat (map conn_of (carries w))"

lemma carried_simps [simp]:
  "carried (W_task v) = conn_of v" "carried (W_query v sc) = conn_of v" "carried (W_push v sc) = conn_of v"
  "carried W_loop = []" "carried W_waiting = []" "carried W_woken = []" "carried W_done = []"
  by (simp_all add: carried_def)

definition pending :: "db_pool \<Rightarrow> nat multiset" where
  "pending s = mset (concat (map conn_of (pq_queue s))) + mset (concat (map carried (tp_threads s)))"

text \<open>No two unfinished tasks are for the same \<open>Connction\<close>, and those \<open>Connction\<close>s have no connection to lend.\<close>

definition single_use :: "db_pool \<Rightarrow> bool" where
  "single_use s \<longleftrightarrow> (\<forall>a. count (pending s) a \<le> 1)
    \<and> (\<forall>a \<in># pending s. a < length (tp_conns s) \<and> cn_que (tp_conns s ! a) = [])"

definition idle_conn :: "nat \<Rightarrow> db_pool \<Rightarrow> bool" where
  "idle_conn a s \<longleftrightarrow> a < length (tp_conns s) \<and> a \<notin># pending s \<and> cn_que (tp_conns s ! a) = []"

lemma pending_set_worker:
  "i < length (tp_threads s) \<Longrightarrow>
     pending (set_worker i w s) + mset (carried (tp_threads s ! i)) = pending s + mset (carried w)"
  using mset_concat_update [of i "tp_threads s" carried w]
  by (simp add: pending_def set_worker_def ac_simps)

lemma carried_notify_one: "notify_ok pick ws \<Longrightarrow> map carried (notify_one pick ws) = map carried ws"
  by (cases pick) (auto simp: map_update list_update_same_conv)

lemma pending_post:
  "notify_ok pick (tp_threads s) \<Longrightarrow> pending (pq_Push v pick s) = pending s + mset (conn_of v)"
  by (simp add: pending_def pq_Push_def queue_push_def carried_notify_one ac_simps)

text \<open>What a step other than a post keeps.\<close>

definition keeps_conns :: "db_pool \<Rightarrow> db_pool \<Rightarrow> bool" where
  "keeps_conns s t \<longleftrightarrow> pending t \<subseteq># pending s \<and> length (tp_conns s) \<le> length (tp_conns t)
    \<and> (\<forall>b < length (tp_conns s). b \<notin># pending s \<or> b \<in># pending t
         \<longrightarrow> cn_que (tp_conns t ! b) = cn_que (tp_conns s ! b))"

lemma keeps_worker:
  assumes "i < length (tp_threads s)" and "tp_conns t = tp_conns s"
    and "pending t = pending s" and "mset (carried w) \<subseteq># mset (carried (tp_threads s ! i))"
    and "tp_threads t = tp_threads s"
  shows "keeps_conns s (set_worker i w t)"
proof -
  have "pending (set_worker i w t) \<subseteq># pending s"
    using pending_set_worker [of i t w] assms
    by (metis add.commute mset_subset_eq_mono_add_right_cancel mset_subset_eq_add_left subset_mset.add_left_mono)
  then show ?thesis
    using assms(2) by (simp add: keeps_conns_def set_worker_def)
qed

lemma keeps_pop:
  assumes "i < length (tp_threads s)" and "tp_threads s ! i = W_woken"
  shows "keeps_conns s (run_pop i s)"
proof -
  let ?t = "snd (snd (pq_take TaskInfo_new s))" and ?v = "fst (snd (pq_take TaskInfo_new s))"
  let ?w = "if ti_conn ?v = None then W_done else W_task ?v"
  have pop: "run_pop i s = set_worker i ?w ?t"
    by (simp add: run_pop_def split_beta Let_def)
  have "pending ?t + mset (conn_of ?v) = pending s"
    by (auto simp: pq_take_def pending_def TaskInfo_new_def neq_Nil_conv)
  moreover have "pending (set_worker i ?w ?t) = pending ?t + mset (conn_of ?v)"
    using pending_set_worker [of i ?t ?w] assms by (auto simp: pq_take_def)
  ultimately show ?thesis
    unfolding pop by (simp add: keeps_conns_def set_worker_def pq_take_def)
qed

lemma keeps_connect:
  assumes "single_use s" and "i < length (tp_threads s)" and "tp_threads s ! i = W_task v"
    and "ti_conn v = Some a"
  shows "keeps_conns s (run_connect i env v a s)"
proof -
  let ?c = "tp_conns s ! a"
  let ?t = "s\<lparr>tp_fresh := tp_fresh s + 1\<rparr>"
  have "a \<in># pending s"
    using assms(2-4) nth_mem [OF assms(2)] by (force simp: pending_def)
  then have empty: "cn_que ?c = []" using assms(1) by (simp add: single_use_def)
  have keep: "keeps_conns s (set_worker i w ?t)" if "mset (carried w) \<subseteq># mset (conn_of v)" for w
    using assms(2,3) that by (intro keeps_worker) (simp_all add: pending_def)
  have "set_conn a ?c ?t = ?t" by (simp add: set_conn_def)
  then show ?thesis
    using empty keep
    by (cases rule: GetSqlConnection_cases [of ?c env "tp_fresh s"]) (simp_all add: run_connect_def)
qed

lemma keeps_push:
  assumes "single_use s" and "i < length (tp_threads s)" and "tp_threads s ! i = W_push v sc"
    and "ti_conn v = Some a"
  shows "keeps_conns s (run_push i sc a s)"
proof -
  let ?t = "set_conn a (PushConnection sc (tp_conns s ! a)) s"
  have p: "pending ?t = pending s" by (simp add: pending_def set_conn_def)
  let ?u = "run_push i sc a s"
  have split: "pending s = add_mset a (pending ?u)"
    using pending_set_worker [of i ?t W_loop] assms(2-4) p by (simp add: run_push_def set_conn_def)
  have "count (pending s) a \<le> 1" using assms(1) by (simp add: single_use_def)
  then have "a \<notin># pending ?u" unfolding split by (simp add: not_in_iff)
  moreover have "tp_conns ?u ! b = tp_conns s ! b" if "b \<noteq> a" for b
    using that by (simp add: run_push_def set_worker_def set_conn_def)
  moreover have "length (tp_conns ?u) = length (tp_conns s)"
    by (simp add: run_push_def set_worker_def set_conn_def)
  ultimately show ?thesis
    unfolding keeps_conns_def split by (metis add_mset_add_single mset_subset_eq_add_left order_refl
      union_single_eq_member)
qed

lemma keeps_step:
  assumes "single_use s" and "pool_step s e t" and "posted [e] = []"
  shows "keeps_conns s t"
  using assms(2)
proof (cases rule: pool_step.cases)
  case (st_query i v sc env)
  then obtain r where "t = set_worker i (W_push v sc) (s\<lparr>tp_results := r\<rparr>)"
    by (auto simp: run_query_def rbind_Inr_iff)
  with st_query show ?thesis
    by (auto intro!: keeps_worker simp: pending_def)
next
  case (st_new c)
  then show ?thesis by (simp add: keeps_conns_def pending_def nth_append)
qed (use assms(1,3) in \<open>auto simp: run_wait_def intro!: keeps_worker keeps_pop keeps_connect keeps_push\<close>)

lemma single_use_keeps: "single_use s \<Longrightarrow> keeps_conns s t \<Longrightarrow> single_use t"
  unfolding single_use_def keeps_conns_def
  by (auto dest: mset_subset_eqD intro: order_trans [OF mset_subset_eq_count] less_le_trans)

lemma idle_keeps: "idle_conn a s \<Longrightarrow> keeps_conns s t \<Longrightarrow> idle_conn a t"
  unfolding idle_conn_def keeps_conns_def
  by (auto dest: mset_subset_eqD)

lemma single_use_run:
  "pool_run s es t \<Longrightarrow> single_use s \<Longrightarrow> posted es = [] \<Longrightarrow> single_use t \<and> (idle_conn a s \<longrightarrow> idle_conn a t)"
proof (induction rule: pool_run.induct)
  case (pool_snoc s es t e u)
  then show ?case using keeps_step [of t e u] single_use_keeps idle_keeps by auto
qed simp

lemma single_use_post:
  assumes "single_use s" and "pool_step s (Db_post v pick) t" and "\<And>a. ti_conn v = Some a \<Longrightarrow> idle_conn a s"
  shows "single_use t"
proof -
  have t: "t = pq_Push v pick s" and ok: "notify_ok pick (tp_threads s)"
    using assms(2) by (auto simp: pool_step_simps)
  show ?thesis
  proof (cases "ti_conn v")
    case None
    then show ?thesis
      using assms(1) pending_post [OF ok, of v] t by (simp add: single_use_def pq_Push_def)
  next
    case (Some a)
    then show ?thesis
      using assms(1) assms(3) [OF Some] pending_post [OF ok, of v] t
      by (auto simp: single_use_def idle_conn_def pq_Push_def not_in_iff)
  qed
qed

end
