(* ===== verification/DbApp.thy ===== *)
theory DbApp
  imports DbPool TcpServer
begin

text \<open>
  The class \<open>AppManager\<close> of src/Server/DBApp and the main loop of DBApp.cpp, on top of the thread pool
  and of the TCP server. \<open>AppManager\<close> hands its tasks to the pool; its operations return them in
  order, and \<open>db_turn\<close> runs the threads of the pool beside them.
\<close>

subsection \<open>State\<close>

datatype db_status = Db_NONE | Db_RUNNING | Db_CLOSE

record db_app =
  da_status :: db_status
  da_UserStatus :: "u32 \<rightharpoonup> bool"
  da_MessageList :: "MessageInfo list"
  da_TaskMgr :: "u16 \<rightharpoonup> nat"
  da_made :: nat                \<comment> \<open>how many \<open>Connction\<close> objects have been made: the next address\<close>

definition db_app_new :: db_app where
  "db_app_new = \<lparr>da_status = Db_NONE, da_UserStatus = Map.empty, da_MessageList = [],
                 da_TaskMgr = Map.empty, da_made = 0\<rparr>"

subsection \<open>Operations\<close>

definition db_LoadConfigValue :: bool where
  "db_LoadConfigValue = True"

definition db_StartDB :: "db_pool \<Rightarrow> db_pool" where
  "db_StartDB p = CreateThreadPool 10 p"

definition db_Run :: "db_app \<times> db_pool \<Rightarrow> bool \<times> db_app \<times> db_pool" where
  "db_Run = (\<lambda>(a, p).
     if \<not> db_LoadConfigValue then (False, a, p)
     else (True, a\<lparr>da_status := Db_RUNNING\<rparr>, db_StartDB p))"

definition db_RecivedMessage :: "MessageInfo \<Rightarrow> db_app \<Rightarrow> db_app" where
  "db_RecivedMessage msg a = a\<lparr>da_MessageList := da_MessageList a @ [msg]\<rparr>"

definition game_data :: connction where
  "game_data = Connction_new ''127.0.0.1'' 3306 ''root'' ''root'' ''GameData''"

text \<open>The new \<open>Connction\<close> gets the address \<open>da_made\<close>.\<close>

definition db_NewConnction :: "u16 \<Rightarrow> db_app \<Rightarrow> connction \<times> db_app" where
  "db_NewConnction conn a =
     (game_data, a\<lparr>da_TaskMgr := PushConnction conn (da_made a) (da_TaskMgr a), da_made := da_made a + 1\<rparr>)"

definition select_platform :: "byte list" where
  "select_platform = map of_char ''select * from Platform''"

text \<open>
  The loop over the messages. A message whose user is free is not passed over at once: the loop comes
  back to it with the user now busy. The key of the user is cut to 16 bits for the table of
  connections.
\<close>

function db_update_loop ::
  "(u16 \<rightharpoonup> nat) \<Rightarrow> (u32 \<rightharpoonup> bool) \<Rightarrow> MessageInfo list \<Rightarrow> TaskInfo list \<Rightarrow> (u32 \<rightharpoonup> bool) \<times> TaskInfo list" where
  "db_update_loop mgr us [] tasks = (us, tasks)"
| "db_update_loop mgr us (m # ms) tasks =
     (case us (mi_conn m) of
        None \<Rightarrow> db_update_loop mgr us ms tasks
      | Some busy \<Rightarrow>
          if busy then db_update_loop mgr us ms tasks
          else (case GetConnction (ucast (mi_conn m)) mgr of
                  None \<Rightarrow> db_update_loop mgr us ms tasks
                | Some conn \<Rightarrow>
                    db_update_loop mgr (us(mi_conn m \<mapsto> True)) (m # ms)
                      (tasks @ [\<lparr>ti_conn = Some conn, ti_cmd = select_platform\<rparr>])))"
  by pat_completeness auto
termination
  by (relation "measure (\<lambda>(mgr, us, ms, tasks). 2 * length ms
        + (case ms of [] \<Rightarrow> 0 | m # _ \<Rightarrow> if us (mi_conn m) = Some False then 1 else 0))")
    (auto split: list.splits)

declare db_update_loop.simps(2) [simp del]

definition db_OnUpdate :: "db_app \<Rightarrow> db_app \<times> connction \<times> TaskInfo list" where
  "db_OnUpdate a =
     (let a1 = a\<lparr>da_UserStatus := (da_UserStatus a)(1 \<mapsto> False)\<rparr>;
          (c, a2) = db_NewConnction 1 a1;
          (us, tasks) = db_update_loop (da_TaskMgr a2) (da_UserStatus a2) (da_MessageList a2) []
      in (a2\<lparr>da_UserStatus := us\<rparr>, c, tasks))"

text \<open>The tasks that \<open>Close\<close> posts; afterwards it waits for the threads.\<close>

definition db_Close :: "db_app \<times> db_pool \<Rightarrow> db_app \<times> TaskInfo list" where
  "db_Close = (\<lambda>(a, p). (a\<lparr>da_status := Db_CLOSE\<rparr>, ClosePool_tasks p))"

subsection \<open>The main loop\<close>

text \<open>The message that the loop makes up when none has arrived.\<close>

definition made_up_message :: MessageInfo where
  "made_up_message = \<lparr>mi_conn = 1, mi_buf = Some [50, 50, 50, 0], mi_len = 3\<rparr>"

definition db_receive :: "tcp_server \<Rightarrow> db_app \<Rightarrow> db_app \<times> tcp_server" where
  "db_receive srv a =
     (let (msg, srv') = GetRecvMessage srv
      in (db_RecivedMessage (case msg of None \<Rightarrow> made_up_message | Some info \<Rightarrow> info) a, srv'))"

text \<open>The \<open>Connction\<close> objects made in a part of a run.\<close>

fun made_conns :: "db_event list \<Rightarrow> connction list" where
  "made_conns [] = []"
| "made_conns (Db_new c # es) = c # made_conns es"
| "made_conns (_ # es) = made_conns es"

lemma made_conns_append [simp]: "made_conns (es @ fs) = made_conns es @ made_conns fs"
  by (induction es rule: made_conns.induct) auto

text \<open>One turn of the loop while the program is not closed: the main thread makes the connection, then posts the tasks; the threads run at any time.\<close>

inductive db_turn ::
  "db_app \<times> tcp_server \<times> db_pool \<Rightarrow> db_app \<times> tcp_server \<times> db_pool \<Rightarrow> bool" where
  db_turn: "da_status a \<noteq> Db_CLOSE \<Longrightarrow> db_receive srv a = (a1, srv') \<Longrightarrow>
     db_OnUpdate a1 = (a2, c, tasks) \<Longrightarrow>
     pool_run p (es @ Db_new c # fs) p' \<Longrightarrow> made_conns es = [] \<Longrightarrow> posted es = [] \<Longrightarrow>
     made_conns fs = [] \<Longrightarrow> posted fs = tasks \<Longrightarrow>
     db_turn (a, srv, p) (a2, srv', p')"

text \<open>The program: turns of the main loop, callbacks of the network thread and steps of the workers in any order.\<close>

datatype db_sys_event = Dbs_turn | Dbs_net srv_event | Dbs_thread db_event

inductive db_run ::
  "db_app \<times> tcp_server \<times> db_pool \<Rightarrow> db_sys_event list \<Rightarrow> db_app \<times> tcp_server \<times> db_pool \<Rightarrow> bool" where
  db_run_nil: "db_run w [] w"
| db_run_turn: "db_run v es w \<Longrightarrow> db_turn w x \<Longrightarrow> db_run v (es @ [Dbs_turn]) x"
| db_run_net: "db_run v es (a, srv, p) \<Longrightarrow> srv_step e srv = Inr srv' \<Longrightarrow>
     db_run v (es @ [Dbs_net e]) (a, srv', p)"
| db_run_thread: "db_run v es (a, srv, p) \<Longrightarrow> pool_step p e p' \<Longrightarrow> posted [e] = [] \<Longrightarrow>
     made_conns [e] = [] \<Longrightarrow> db_run v (es @ [Dbs_thread e]) (a, srv, p')"

fun turns :: "db_sys_event list \<Rightarrow> nat" where
  "turns [] = 0"
| "turns (Dbs_turn # es) = Suc (turns es)"
| "turns (_ # es) = turns es"

lemma turns_append [simp]: "turns (es @ fs) = turns es + turns fs"
  by (induction es rule: turns.induct) auto

text \<open>The start of the program: \<open>AppManager::Run\<close> before the loop.\<close>

definition db_start :: "int \<Rightarrow> tcp_server \<Rightarrow> db_app \<times> tcp_server \<times> db_pool" where
  "db_start shut srv =
     (case db_Run (db_app_new, db_pool_new shut) of (_, a, p) \<Rightarrow> (a, srv, p))"

subsection \<open>What the loop posts\<close>

definition free_user :: "(u16 \<rightharpoonup> nat) \<Rightarrow> (u32 \<rightharpoonup> bool) \<Rightarrow> u32 \<Rightarrow> bool" where
  "free_user mgr us c \<longleftrightarrow> us c = Some False \<and> mgr (ucast c) \<noteq> None"

definition user_task :: "(u16 \<rightharpoonup> nat) \<Rightarrow> u32 \<Rightarrow> TaskInfo" where
  "user_task mgr c = \<lparr>ti_conn = mgr (ucast c), ti_cmd = select_platform\<rparr>"

text \<open>A reference: the free users among the senders, in the order of their first messages.\<close>

fun first_free :: "(u16 \<rightharpoonup> nat) \<Rightarrow> (u32 \<rightharpoonup> bool) \<Rightarrow> u32 list \<Rightarrow> u32 list" where
  "first_free mgr us [] = []"
| "first_free mgr us (c # cs) =
     (if free_user mgr us c then c # first_free mgr (us(c \<mapsto> True)) cs else first_free mgr us cs)"

definition mark_busy :: "u32 list \<Rightarrow> (u32 \<rightharpoonup> bool) \<Rightarrow> (u32 \<rightharpoonup> bool)" where
  "mark_busy cs us = (\<lambda>c. if c \<in> set cs then Some True else us c)"

lemma mark_busy_Cons: "mark_busy (c # cs) us = mark_busy cs (us(c \<mapsto> True))"
  by (auto simp: mark_busy_def fun_eq_iff)

lemma db_update_loop_eq:
  "db_update_loop mgr us ms tasks =
     (mark_busy (first_free mgr us (map mi_conn ms)) us,
      tasks @ map (user_task mgr) (first_free mgr us (map mi_conn ms)))"
proof (induction mgr us ms tasks rule: db_update_loop.induct)
  case (1 mgr us tasks)
  then show ?case by (simp add: mark_busy_def)
next
  case (2 mgr us m ms tasks)
  show ?case
  proof (cases "us (mi_conn m)")
    case None
    then show ?thesis using 2(1) by (simp add: db_update_loop.simps(2) free_user_def)
  next
    case (Some busy)
    show ?thesis
    proof (cases busy)
      case True
      then show ?thesis using 2(2) Some by (simp add: db_update_loop.simps(2) free_user_def)
    next
      case False
      then show ?thesis
        using 2(3) [OF Some] 2(4) [OF Some] Some
        by (cases "mgr (ucast (mi_conn m))")
          (simp_all add: db_update_loop.simps(2) free_user_def GetConnction_def mark_busy_Cons
            user_task_def del: fun_upd_apply, simp_all add: free_user_def)
    qed
  qed
qed

lemma set_first_free: "set (first_free mgr us cs) = {c \<in> set cs. free_user mgr us c}"
  by (induction cs arbitrary: us) (auto simp: free_user_def)

lemma distinct_first_free: "distinct (first_free mgr us cs)"
  by (induction cs arbitrary: us) (auto simp: set_first_free free_user_def)

text \<open>The statuses that \<open>OnUpdate\<close> leaves are those of user 1 alone.\<close>

definition only_user_1 :: "db_app \<Rightarrow> bool" where
  "only_user_1 a \<longleftrightarrow> dom (da_UserStatus a) \<subseteq> {1}"

lemma distinct_singleton: "distinct xs \<Longrightarrow> set xs = {x} \<Longrightarrow> xs = [x]"
  by (cases xs) (auto simp: set_eq_iff neq_Nil_conv, metis list.set_intros(1) neq_Nil_conv)

lemma first_free_user_1:
  assumes "dom us \<subseteq> {1}" and "us 1 = Some False" and "mgr 1 = Some x"
  shows "first_free mgr us cs = (if 1 \<in> set cs then [1] else [])"
proof -
  have "set (first_free mgr us cs) = set cs \<inter> {1}"
    using assms by (auto simp: set_first_free free_user_def)
  then show ?thesis
    using distinct_first_free [of mgr us cs] distinct_singleton [of "first_free mgr us cs" 1]
    by (cases "1 \<in> set cs") auto
qed

lemma db_OnUpdate_eq:
  assumes "only_user_1 a"
  shows "db_OnUpdate a =
    (a\<lparr>da_UserStatus := [1 \<mapsto> 1 \<in> set (map mi_conn (da_MessageList a))],
       da_TaskMgr := (da_TaskMgr a)(1 \<mapsto> da_made a), da_made := da_made a + 1\<rparr>,
     game_data,
     if 1 \<in> set (map mi_conn (da_MessageList a))
     then [\<lparr>ti_conn = Some (da_made a), ti_cmd = select_platform\<rparr>] else [])"
proof -
  let ?us = "(da_UserStatus a)(1 \<mapsto> False)" and ?mgr = "(da_TaskMgr a)(1 \<mapsto> da_made a)"
  let ?cs = "map mi_conn (da_MessageList a)"
  have us: "?us = [1 \<mapsto> False]"
    using assms by (auto simp: only_user_1_def fun_eq_iff dom_def)
  have free: "first_free ?mgr [1 \<mapsto> False] ?cs = (if 1 \<in> set ?cs then [1] else [])"
    by (rule first_free_user_1) simp_all
  have "db_update_loop ?mgr ?us (da_MessageList a) [] =
      ([1 \<mapsto> 1 \<in> set ?cs], if 1 \<in> set ?cs then [\<lparr>ti_conn = Some (da_made a), ti_cmd = select_platform\<rparr>] else [])"
    unfolding us db_update_loop_eq free
    by (cases "1 \<in> set ?cs") (simp_all add: mark_busy_def user_task_def fun_eq_iff)
  then show ?thesis
    by (simp add: db_OnUpdate_def db_NewConnction_def PushConnction_def)
qed

lemma db_receive_list:
  "db_receive srv a = (a1, srv') \<Longrightarrow>
     \<exists>m. a1 = a\<lparr>da_MessageList := da_MessageList a @ [m]\<rparr> \<and>
       (m_RecvMessage srv = [] \<longrightarrow> m = made_up_message)"
  by (cases "m_RecvMessage srv")
    (auto simp: db_receive_def db_RecivedMessage_def GetRecvMessage_def)

subsection \<open>Invariants of the program\<close>

lemma pool_step_conns:
  "pool_step s e t \<Longrightarrow> length (tp_conns t) = length (tp_conns s) + length (made_conns [e])"
  by (erule pool_step_cases)
    (auto simp: pool_defs rbind_Inr_iff split: prod.splits option.splits if_splits)

lemma pool_run_conns:
  "pool_run s es t \<Longrightarrow> length (tp_conns t) = length (tp_conns s) + length (made_conns es)"
  by (induction rule: pool_run.induct) (auto dest: pool_step_conns)

text \<open>A run with one post, of a task for a connection that is not used.\<close>

lemma single_use_one_post:
  "pool_run s es t \<Longrightarrow> single_use s \<Longrightarrow> idle_conn a s \<Longrightarrow>
     posted es = [] \<or> (\<exists>v. posted es = [v] \<and> ti_conn v = Some a) \<Longrightarrow>
     single_use t \<and> (posted es = [] \<longrightarrow> idle_conn a t)"
proof (induction rule: pool_run.induct)
  case (pool_snoc s es t e u)
  have IH: "single_use t" "posted es = [] \<longrightarrow> idle_conn a t"
    using pool_snoc by (auto simp: append_eq_Cons_conv)
  show ?case
  proof (cases "posted [e] = []")
    case True
    then show ?thesis
      using keeps_step [OF IH(1) pool_snoc.hyps(2)] IH single_use_keeps idle_keeps by auto
  next
    case False
    then obtain v pick where e: "e = Db_post v pick" by (cases e) auto
    then have "posted es = []" "ti_conn v = Some a"
      using pool_snoc.prems(3) by (auto simp: append_eq_Cons_conv)
    then have "single_use u"
      using pool_snoc.hyps(2) IH(2) e by (intro single_use_post [OF IH(1), of v pick]) auto
    then show ?thesis using e by simp
  qed
qed simp

definition db_ok :: "db_app \<times> tcp_server \<times> db_pool \<Rightarrow> bool" where
  "db_ok = (\<lambda>(a, srv, p). only_user_1 a \<and> da_made a = length (tp_conns p) \<and> single_use p \<and> conns_ok p)"

lemma db_start_ok: "db_ok (db_start shut srv)"
  by (simp add: db_ok_def db_start_def db_Run_def db_LoadConfigValue_def db_StartDB_def
      CreateThreadPool_def db_app_new_def db_pool_new_def only_user_1_def single_use_def pending_def
      conns_ok_def sql_addrs_def)

lemma db_turn_effect:
  assumes "db_turn (a, srv, p) (a', srv', p')" and "db_ok (a, srv, p)"
  shows "db_ok (a', srv', p')"
    and "length (da_MessageList a') = Suc (length (da_MessageList a))"
    and "set (da_MessageList a) \<subseteq> set (da_MessageList a')"
    and "1 \<in> mi_conn ` set (da_MessageList a') \<Longrightarrow>
      length (tp_taken p' @ pq_queue p') = Suc (length (tp_taken p @ pq_queue p))"
    and "1 \<notin> mi_conn ` set (da_MessageList a') \<Longrightarrow> tp_taken p' @ pq_queue p' = tp_taken p @ pq_queue p"
proof -
  obtain a1 c tasks es fs where t: "db_receive srv a = (a1, srv')" "db_OnUpdate a1 = (a', c, tasks)"
    "pool_run p (es @ Db_new c # fs) p'" "made_conns es = []" "posted es = []"
    "made_conns fs = []" "posted fs = tasks"
    using assms(1) by (cases rule: db_turn.cases) auto
  obtain m where a1: "a1 = a\<lparr>da_MessageList := da_MessageList a @ [m]\<rparr>"
    using db_receive_list [OF t(1)] by auto
  have user: "only_user_1 a1" using assms(2) a1 by (simp add: db_ok_def only_user_1_def)
  note upd = db_OnUpdate_eq [OF user]
  have a': "only_user_1 a'" "da_made a' = Suc (da_made a)" "da_MessageList a' = da_MessageList a @ [m]"
    "c = game_data"
    and tasks: "tasks = (if 1 \<in> mi_conn ` set (da_MessageList a')
      then [\<lparr>ti_conn = Some (da_made a), ti_cmd = select_platform\<rparr>] else [])"
    using t(2) upd a1 by (auto simp: only_user_1_def)
  have "pool_run p (es @ [Db_new c] @ fs) p'" using t(3) by simp
  then obtain q r where q: "pool_run p es q" and new: "pool_step q (Db_new c) r" and r: "pool_run r fs p'"
    unfolding pool_run_append_iff pool_run_single_iff by blast
  have r_eq: "r = q\<lparr>tp_conns := tp_conns q @ [c]\<rparr>" using new by (simp add: pool_step_simps)
  have len: "length (tp_conns q) = da_made a"
    using pool_run_conns [OF q] t(4) assms(2) by (simp add: db_ok_def)
  have "single_use q"
    using single_use_run [OF q] assms(2) t(5) by (simp add: db_ok_def)
  then have "keeps_conns q r" by (rule keeps_step [OF _ new]) simp
  have "b < length (tp_conns q)" if "b \<in># pending q" for b
    using \<open>single_use q\<close> that unfolding single_use_def by blast
  then have fresh: "da_made a \<notin># pending q" using len less_irrefl by metis
  have use: "single_use r"
    by (rule single_use_keeps [OF \<open>single_use q\<close> \<open>keeps_conns q r\<close>])
  have "idle_conn (da_made a) r"
    using fresh len r_eq a'(4) by (simp add: idle_conn_def pending_def game_data_def Connction_new_def nth_append)
  then have "single_use p'"
    using single_use_one_post [OF r use] tasks t(7) by simp
  moreover have "conns_ok p'"
    using pool_run_invariant [of conns_ok, OF _ t(3)] conns_ok_step assms(2) by (auto simp: db_ok_def)
  moreover have "length (tp_conns p') = Suc (da_made a)"
    using pool_run_conns [OF t(3)] t(4,6) assms(2) by (simp add: db_ok_def)
  ultimately show "db_ok (a', srv', p')"
    using a' by (simp add: db_ok_def)
  show "length (da_MessageList a') = Suc (length (da_MessageList a))"
    "set (da_MessageList a) \<subseteq> set (da_MessageList a')"
    using a'(3) by auto
  have "tp_taken p' @ pq_queue p' = tp_taken p @ pq_queue p @ tasks"
    using pool_run_fifo [OF t(3)] t(5,7) by simp
  then show "1 \<in> mi_conn ` set (da_MessageList a') \<Longrightarrow>
      length (tp_taken p' @ pq_queue p') = Suc (length (tp_taken p @ pq_queue p))"
    and "1 \<notin> mi_conn ` set (da_MessageList a') \<Longrightarrow> tp_taken p' @ pq_queue p' = tp_taken p @ pq_queue p"
    using tasks by (auto dest: arg_cong [where f = length])
qed

lemma db_thread_effect:
  assumes "pool_step p e p'" and "posted [e] = []" and "made_conns [e] = []" and "db_ok (a, srv, p)"
  shows "db_ok (a, srv, p')" and "tp_taken p' @ pq_queue p' = tp_taken p @ pq_queue p"
proof -
  have "single_use p'"
    using assms by (auto simp: db_ok_def intro: single_use_keeps keeps_step)
  then show "db_ok (a, srv, p')"
    using assms pool_step_conns [OF assms(1)] conns_ok_step [OF assms(1)] by (simp add: db_ok_def)
  show "tp_taken p' @ pq_queue p' = tp_taken p @ pq_queue p"
    using pool_step_fifo [OF assms(1)] assms(2) by simp
qed

lemma db_run_ok: "db_run v es w \<Longrightarrow> db_ok v \<Longrightarrow> db_ok w"
proof (induction rule: db_run.induct)
  case (db_run_turn v es w x)
  then show ?case by (cases w; cases x) (auto dest: db_turn_effect(1))
next
  case (db_run_thread v es a srv p e p')
  then show ?case by (auto intro: db_thread_effect(1))
qed (auto simp: db_ok_def)

lemma db_run_forever:
  "db_run v es w \<Longrightarrow> v = (a, srv, p) \<Longrightarrow> w = (a', srv', p') \<Longrightarrow> db_ok v \<Longrightarrow>
     1 \<in> mi_conn ` set (da_MessageList a) \<Longrightarrow>
     set (da_MessageList a) \<subseteq> set (da_MessageList a')
     \<and> length (da_MessageList a') = length (da_MessageList a) + turns es
     \<and> length (tp_taken p' @ pq_queue p') = length (tp_taken p @ pq_queue p) + turns es"
proof (induction arbitrary: a' srv' p' rule: db_run.induct)
  case (db_run_turn v es w x)
  obtain b srv1 q where w: "w = (b, srv1, q)" by (cases w)
  have ok: "db_ok (b, srv1, q)" using db_run_ok [OF db_run_turn.hyps(1)] db_run_turn.prems(3) w by simp
  have turn: "db_turn (b, srv1, q) (a', srv', p')"
    using db_run_turn.hyps(2) db_run_turn.prems(2) w by simp
  note eff = db_turn_effect [OF turn ok]
  show ?case
    using db_run_turn.IH [OF db_run_turn.prems(1) w db_run_turn.prems(3,4)] eff(2-4) db_run_turn.prems(4)
    by (auto simp del: length_append)
next
  case (db_run_thread v es b srv1 q e q')
  have "db_ok (b, srv1, q)" using db_run_ok [OF db_run_thread.hyps(1)] db_run_thread.prems(3) by simp
  from db_thread_effect(2) [OF db_run_thread.hyps(2-4) this] show ?case
    using db_run_thread.IH [OF db_run_thread.prems(1) refl db_run_thread.prems(3,4)] db_run_thread.prems(2)
    by simp
qed auto

text \<open>What a worker finds when it asks for a connection.\<close>

lemma single_use_connect:
  assumes "single_use p" and "i < length (tp_threads p)" and "tp_threads p ! i = W_task v" and "ti_conn v = Some c"
  shows "c < length (tp_conns p)" and "cn_que (tp_conns p ! c) = []"
proof -
  have "c \<in># pending p"
    using assms(2-4) nth_mem [OF assms(2)] by (force simp: pending_def)
  then show "c < length (tp_conns p)" and "cn_que (tp_conns p ! c) = []"
    using assms(1) by (simp_all add: single_use_def)
qed

text \<open>The loop of \<open>OnUpdate\<close>, which comes back to a message after it has marked its user busy, ends and
  does what a plain pass over the senders does.\<close>

theorem update_loop_is_one_pass:
  "db_update_loop mgr us ms tasks =
      (mark_busy (first_free mgr us (map mi_conn ms)) us,
       tasks @ map (user_task mgr) (first_free mgr us (map mi_conn ms)))
    \<and> distinct (first_free mgr us (map mi_conn ms))
    \<and> set (first_free mgr us (map mi_conn ms)) =
        {c \<in> mi_conn ` set ms. us c = Some False \<and> mgr (ucast c) \<noteq> None}"
  using distinct_first_free [of mgr us "map mi_conn ms"]
  by (simp add: db_update_loop_eq set_first_free free_user_def)

end
