(* ===== verification/OldSocket.thy ===== *)
theory OldSocket
  imports GR_Prelude
begin

text \<open>
  What the server and the client of src/ServerApp/ServerApp/NetSocket.cpp share: error messages,
  mutexes, and buffers that libuv reads some time after it has been given them.
\<close>

subsection \<open>Error messages\<close>

text \<open>\<open>GetUVError\<close> makes a text from a code of libuv; the code stands for the text.\<close>

datatype errmsg =
    Err_empty
  | Err_text string
  | Err_uv int
  | Err_client string int

definition GetUVError :: "int \<Rightarrow> errmsg" where
  "GetUVError retcode = Err_uv retcode"

subsection \<open>Mutexes\<close>

text \<open>A mutex of this target is a critical section: the thread that holds it may lock it again.\<close>

type_synonym thread = nat

datatype uv_mutex =
    Mx_raw
  | Mx_free
  | Mx_held thread nat   \<comment> \<open>by whom, and how often beyond the first time\<close>
  | Mx_destroyed

fun uv_mutex_init :: "int \<Rightarrow> uv_mutex \<Rightarrow> uv_mutex" where
  "uv_mutex_init r m = (if r = 0 then Mx_free else m)"

text \<open>\<open>lax\<close>: the platform lets a mutex be destroyed that is not initialised. libuv does not promise it.\<close>

fun uv_mutex_destroy :: "bool \<Rightarrow> uv_mutex \<Rightarrow> uv_mutex res" where
  "uv_mutex_destroy lax Mx_free = Inr Mx_destroyed"
| "uv_mutex_destroy lax (Mx_held t n) = Inl BadMutex"
| "uv_mutex_destroy lax m = (if lax then Inr Mx_destroyed else Inl BadMutex)"

text \<open>\<open>None\<close>: the thread waits.\<close>

fun uv_mutex_lock :: "thread \<Rightarrow> uv_mutex \<Rightarrow> uv_mutex option res" where
  "uv_mutex_lock t Mx_free = Inr (Some (Mx_held t 0))"
| "uv_mutex_lock t (Mx_held u n) = Inr (if t = u then Some (Mx_held u (Suc n)) else None)"
| "uv_mutex_lock t m = Inl BadMutex"

fun uv_mutex_unlock :: "thread \<Rightarrow> uv_mutex \<Rightarrow> uv_mutex res" where
  "uv_mutex_unlock t (Mx_held u n) =
     (if t \<noteq> u then Inl BadMutex else Inr (case n of 0 \<Rightarrow> Mx_free | Suc k \<Rightarrow> Mx_held u k))"
| "uv_mutex_unlock t m = Inl BadMutex"

lemma lock_unlock:
  "uv_mutex_lock t m = Inr (Some m') \<Longrightarrow> uv_mutex_unlock t m' = Inr m"
  by (cases m) (auto split: if_splits)

subsection \<open>Write buffers\<close>

text \<open>
  A buffer that is used for every write. libuv is given a pointer into it and reads the bytes at some
  time before it reports the end of the write; \<open>wb_moved\<close> counts the calls of \<open>realloc\<close>, after
  which earlier pointers are invalid. A write under way is its length and the count at its start.
\<close>

record write_buffer =
  wb_base :: "byte list"
  wb_moved :: nat
  wb_pending :: "(nat \<times> nat) list"

definition BUFFERSIZE :: nat where "BUFFERSIZE = 1024 * 1024"

text \<open>The bytes that \<open>realloc\<close> and \<open>malloc\<close> leave undefined come from \<open>junk\<close>.\<close>

definition write_buffer_new :: "(nat \<Rightarrow> byte) \<Rightarrow> write_buffer" where
  "write_buffer_new junk = \<lparr>wb_base = map junk [0..<BUFFERSIZE], wb_moved = 0, wb_pending = []\<rparr>"

definition wb_grow :: "(nat \<Rightarrow> byte) \<Rightarrow> nat \<Rightarrow> write_buffer \<Rightarrow> write_buffer" where
  "wb_grow junk len b =
     (if length (wb_base b) < len
      then b\<lparr>wb_base := wb_base b @ map junk [length (wb_base b)..<len], wb_moved := wb_moved b + 1\<rparr>
      else b)"

text \<open>The part that both \<open>send\<close> functions have: the copy into the buffer and the call of \<open>uv_write\<close>.\<close>

definition wb_send :: "(nat \<Rightarrow> byte) \<Rightarrow> int \<Rightarrow> byte list \<Rightarrow> nat \<Rightarrow> write_buffer \<Rightarrow> write_buffer res" where
  "wb_send junk r_write data len b =
     (let b1 = wb_grow junk len b
      in rbind (memcpy_from data 0 len) (\<lambda>bs.
         rbind (memcpy_to (wb_base b1) 0 bs) (\<lambda>base.
           let b2 = b1\<lparr>wb_base := base\<rparr>
           in Inr (if r_write \<noteq> 0 then b2 else b2\<lparr>wb_pending := wb_pending b2 @ [(len, wb_moved b2)]\<rparr>))))"

text \<open>libuv reads the bytes of the oldest write and ends it.\<close>

definition wb_complete :: "write_buffer \<Rightarrow> (byte list \<times> write_buffer) res" where
  "wb_complete b =
     (case wb_pending b of
        [] \<Rightarrow> Inr ([], b)
      | (n, moved) # rest \<Rightarrow>
          if moved \<noteq> wb_moved b then Inl OutOfBounds
          else Inr (take n (wb_base b), b\<lparr>wb_pending := rest\<rparr>))"

lemma length_wb_grow: "len \<le> length (wb_base (wb_grow junk len b))"
  by (simp add: wb_grow_def)

lemma wb_send_eq:
  assumes "len = length data"
  shows "\<exists>b'. wb_send junk r data len b = Inr b' \<and> take len (wb_base b') = data
    \<and> wb_moved b' = wb_moved b + (if length (wb_base b) < len then 1 else 0)
    \<and> wb_pending b' = wb_pending b @ (if r = 0 then [(len, wb_moved b')] else [])
    \<and> length (wb_base b') = max (length (wb_base b)) len"
  using assms length_wb_grow [of len junk b]
  by (auto simp: wb_send_def memcpy_from_def memcpy_to_def Let_def wb_grow_def max_def)

text \<open>One write at a time delivers its bytes.\<close>

lemma wb_send_complete:
  assumes "wb_pending b = []"
  shows "\<exists>b' b''. wb_send junk 0 data (length data) b = Inr b' \<and> wb_complete b' = Inr (data, b'')
    \<and> wb_pending b'' = []"
  using wb_send_eq [of "length data" data junk 0 b] assms by (auto simp: wb_complete_def)

text \<open>A second write before the first has ended changes or invalidates its bytes.\<close>

lemma wb_send_twice:
  assumes "wb_pending b = []"
  shows "\<exists>b1 b2. wb_send junk 0 d1 (length d1) b = Inr b1 \<and> wb_send junk 0 d2 (length d2) b1 = Inr b2
    \<and> (case wb_complete b2 of
         Inl e \<Rightarrow> max (length (wb_base b)) (length d1) < length d2
       | Inr (bs, _) \<Rightarrow> length d2 \<le> max (length (wb_base b)) (length d1)
           \<and> take (length d2) bs = take (length d1) d2)"
proof -
  obtain b1 where b1: "wb_send junk 0 d1 (length d1) b = Inr b1" "take (length d1) (wb_base b1) = d1"
    "wb_pending b1 = [(length d1, wb_moved b1)]" "length (wb_base b1) = max (length (wb_base b)) (length d1)"
    using wb_send_eq [of "length d1" d1 junk 0 b] assms by auto
  obtain b2 where b2: "wb_send junk 0 d2 (length d2) b1 = Inr b2" "take (length d2) (wb_base b2) = d2"
    "wb_moved b2 = wb_moved b1 + (if length (wb_base b1) < length d2 then 1 else 0)"
    "wb_pending b2 = [(length d1, wb_moved b1), (length d2, wb_moved b2)]"
    using wb_send_eq [of "length d2" d2 junk 0 b1] b1(3) by auto
  have "take (length d2) (take (length d1) (wb_base b2)) = take (length d1) d2"
    using b2(2) by (metis take_take min.commute)
  then show ?thesis
    using b1 b2 by (auto simp: wb_complete_def)
qed

end
