(* ===== verification/OldServer.thy ===== *)
theory OldServer
  imports OldSocket "HOL-Library.Multiset"
begin

text \<open>
  The class \<open>uv::TCPServer\<close> of src/ServerApp/ServerApp/NetSocket.h and NetSocket.cpp. Results of
  libuv are arguments. The functions that the user registers are given by the calls of the public
  operations they make; a pointer to such a function is a number.
\<close>

subsection \<open>State\<close>

record clientdata =
  cd_client_id :: int
  cd_handle :: nat                \<comment> \<open>the address of the stream\<close>
  cd_writebuffer :: write_buffer
  cd_recvcb :: "nat option"

definition clientdata_new :: "(nat \<Rightarrow> byte) \<Rightarrow> nat \<Rightarrow> int \<Rightarrow> clientdata" where
  "clientdata_new junk h clientid =
     \<lparr>cd_client_id = clientid, cd_handle = h, cd_writebuffer = write_buffer_new junk, cd_recvcb = None\<rparr>"

datatype os_action =
    Os_close_client nat        \<comment> \<open>\<open>uv_close\<close> of a stream\<close>
  | Os_close_server
  | Os_read_start nat
  | Os_read_stop nat
  | Os_newconnect nat int      \<comment> \<open>the function for new connections is called\<close>
  | Os_recv nat int "byte list"
  | Os_sent nat "byte list"    \<comment> \<open>what libuv reads from the buffer of a write\<close>
  | Os_delete nat              \<comment> \<open>the \<open>clientdata\<close> of a stream is deleted\<close>

text \<open>\<open>os_clients\<close> is a \<open>std::map\<close>: in the order of its keys. \<open>os_closing\<close>: closed, the callback is still to come.\<close>

record old_server =
  os_loop :: bool                 \<comment> \<open>\<open>loop_\<close> is not null\<close>
  os_isinit :: bool
  os_mutex :: uv_mutex
  os_clients :: "(int \<times> clientdata) list"
  os_errmsg :: errmsg
  os_newconcb :: "nat option"
  os_s_id :: int
  os_fresh :: nat                 \<comment> \<open>the next address of a stream\<close>
  os_closing :: "clientdata list"
  os_log :: "os_action list"

definition os_new :: "bool \<Rightarrow> old_server" where
  "os_new loop =
     \<lparr>os_loop = loop, os_isinit = False, os_mutex = Mx_raw, os_clients = [], os_errmsg = Err_empty,
      os_newconcb = None, os_s_id = 0, os_fresh = 0, os_closing = [], os_log = []\<rparr>"

definition os_act :: "os_action \<Rightarrow> old_server \<Rightarrow> old_server" where
  "os_act a s = s\<lparr>os_log := os_log s @ [a]\<rparr>"

definition os_fail :: "int \<Rightarrow> old_server \<Rightarrow> bool \<times> old_server" where
  "os_fail iret s = (False, s\<lparr>os_errmsg := GetUVError iret\<rparr>)"

text \<open>\<open>std::map\<close>: \<open>insert\<close> does not replace.\<close>

fun map_insert :: "int \<Rightarrow> 'v \<Rightarrow> (int \<times> 'v) list \<Rightarrow> (int \<times> 'v) list" where
  "map_insert k v [] = [(k, v)]"
| "map_insert k v ((k', v') # m) =
     (if k < k' then (k, v) # (k', v') # m
      else if k = k' then (k', v') # m
      else (k', v') # map_insert k v m)"

definition map_erase :: "int \<Rightarrow> (int \<times> 'v) list \<Rightarrow> (int \<times> 'v) list" where
  "map_erase k m = filter (\<lambda>e. fst e \<noteq> k) m"

definition map_change :: "int \<Rightarrow> ('v \<Rightarrow> 'v) \<Rightarrow> (int \<times> 'v) list \<Rightarrow> (int \<times> 'v) list" where
  "map_change k f m = map (\<lambda>(k', v). (k', if k' = k then f v else v)) m"

subsection \<open>Starting and closing\<close>

definition os_init :: "int \<Rightarrow> int \<Rightarrow> old_server \<Rightarrow> bool \<times> old_server" where
  "os_init r_mutex r_tcp s =
     (if os_isinit s then (True, s)
      else if \<not> os_loop s then (False, s\<lparr>os_errmsg := Err_text ''loop is null on tcp init.''\<rparr>)
      else let s1 = s\<lparr>os_mutex := uv_mutex_init r_mutex (os_mutex s)\<rparr>
           in if r_mutex \<noteq> 0 then os_fail r_mutex s1
              else if r_tcp \<noteq> 0 then os_fail r_tcp s1
              else (True, s1\<lparr>os_isinit := True\<rparr>))"

definition os_close :: "bool \<Rightarrow> old_server \<Rightarrow> old_server res" where
  "os_close lax s =
     (let cs = map snd (os_clients s);
          s1 = s\<lparr>os_clients := [], os_closing := os_closing s @ cs,
                 os_log := os_log s @ map (\<lambda>c. Os_close_client (cd_handle c)) cs\<rparr>;
          s2 = (if os_isinit s1 then os_act Os_close_server s1 else s1);
          s3 = s2\<lparr>os_isinit := False\<rparr>
      in rbind (uv_mutex_destroy lax (os_mutex s3)) (\<lambda>m. Inr (s3\<lparr>os_mutex := m\<rparr>)))"

definition os_run :: "int \<Rightarrow> old_server \<Rightarrow> bool \<times> old_server" where
  "os_run r_run s = (if r_run \<noteq> 0 then os_fail r_run s else (True, s))"

definition os_setNoDelay :: "int \<Rightarrow> old_server \<Rightarrow> bool \<times> old_server" where
  "os_setNoDelay r s = (if r \<noteq> 0 then os_fail r s else (True, s))"

definition os_setKeepAlive :: "int \<Rightarrow> old_server \<Rightarrow> bool \<times> old_server" where
  "os_setKeepAlive r s = (if r \<noteq> 0 then os_fail r s else (True, s))"

definition os_bind :: "int \<Rightarrow> int \<Rightarrow> old_server \<Rightarrow> bool \<times> old_server" where
  "os_bind r_addr r_bind s =
     (if r_addr \<noteq> 0 then os_fail r_addr s else if r_bind \<noteq> 0 then os_fail r_bind s else (True, s))"

definition os_bind6 :: "int \<Rightarrow> int \<Rightarrow> old_server \<Rightarrow> bool \<times> old_server" where
  "os_bind6 r_addr r_bind s =
     (if r_addr \<noteq> 0 then os_fail r_addr s else if r_bind \<noteq> 0 then os_fail r_bind s else (True, s))"

definition os_listen :: "int \<Rightarrow> old_server \<Rightarrow> bool \<times> old_server" where
  "os_listen r s = (if r \<noteq> 0 then os_fail r s else (True, s))"

record os_results =
  rr_mutex :: int
  rr_tcp :: int
  rr_addr :: int
  rr_bind :: int
  rr_listen :: int
  rr_run :: int

definition os_Start :: "bool \<Rightarrow> os_results \<Rightarrow> old_server \<Rightarrow> (bool \<times> old_server) res" where
  "os_Start lax r s =
     rbind (os_close lax s) (\<lambda>s1.
       let (ok1, s2) = os_init (rr_mutex r) (rr_tcp r) s1
       in if \<not> ok1 then Inr (False, s2)
          else let (ok2, s3) = os_bind (rr_addr r) (rr_bind r) s2
               in if \<not> ok2 then Inr (False, s3)
                  else let (ok3, s4) = os_listen (rr_listen r) s3
                       in if \<not> ok3 then Inr (False, s4)
                          else let (ok4, s5) = os_run (rr_run r) s4
                               in if \<not> ok4 then Inr (False, s5) else Inr (True, s5))"

definition os_Start6 :: "bool \<Rightarrow> os_results \<Rightarrow> old_server \<Rightarrow> (bool \<times> old_server) res" where
  "os_Start6 lax r s =
     rbind (os_close lax s) (\<lambda>s1.
       let (ok1, s2) = os_init (rr_mutex r) (rr_tcp r) s1
       in if \<not> ok1 then Inr (False, s2)
          else let (ok2, s3) = os_bind6 (rr_addr r) (rr_bind r) s2
               in if \<not> ok2 then Inr (False, s3)
                  else let (ok3, s4) = os_listen (rr_listen r) s3
                       in if \<not> ok3 then Inr (False, s4)
                          else let (ok4, s5) = os_run (rr_run r) s4
                               in if \<not> ok4 then Inr (False, s5) else Inr (True, s5))"

subsection \<open>Public operations on clients\<close>

text \<open>The result is -1, 0 (\<open>false\<close>) or 1 (\<open>true\<close>).\<close>

definition os_send :: "(nat \<Rightarrow> byte) \<Rightarrow> int \<Rightarrow> int \<Rightarrow> byte list \<Rightarrow> nat \<Rightarrow> old_server \<Rightarrow> (int \<times> old_server) res" where
  "os_send junk r_write clientid data len s =
     (case map_of (os_clients s) clientid of
        None \<Rightarrow> Inr (-1, s\<lparr>os_errmsg := Err_client ''can't find cliendid '' clientid\<rparr>)
      | Some c \<Rightarrow>
          rbind (wb_send junk r_write data len (cd_writebuffer c)) (\<lambda>wb.
            let s1 = s\<lparr>os_clients := map_change clientid (cd_writebuffer_update (\<lambda>_. wb)) (os_clients s)\<rparr>
            in Inr (if r_write \<noteq> 0 then (0, s1\<lparr>os_errmsg := GetUVError r_write\<rparr>) else (1, s1))))"

definition os_setrecvcb :: "int \<Rightarrow> nat option \<Rightarrow> old_server \<Rightarrow> old_server" where
  "os_setrecvcb clientid cb s =
     (case map_of (os_clients s) clientid of
        None \<Rightarrow> s
      | Some _ \<Rightarrow> s\<lparr>os_clients := map_change clientid (cd_recvcb_update (\<lambda>_. cb)) (os_clients s)\<rparr>)"

definition os_setnewconnectcb :: "nat option \<Rightarrow> old_server \<Rightarrow> old_server" where
  "os_setnewconnectcb cb s = s\<lparr>os_newconcb := cb\<rparr>"

text \<open>What a registered function may do.\<close>

datatype os_call =
    Call_send int int "byte list"
  | Call_setrecvcb int "nat option"
  | Call_setnewconnectcb "nat option"

fun os_do_call :: "(nat \<Rightarrow> byte) \<Rightarrow> os_call \<Rightarrow> old_server \<Rightarrow> old_server res" where
  "os_do_call junk (Call_send r clientid data) s =
     rbind (os_send junk r clientid data (length data) s) (\<lambda>(_, s1). Inr s1)"
| "os_do_call junk (Call_setrecvcb clientid cb) s = Inr (os_setrecvcb clientid cb s)"
| "os_do_call junk (Call_setnewconnectcb cb) s = Inr (os_setnewconnectcb cb s)"

subsection \<open>Callbacks\<close>

text \<open>The id is a signed \<open>int\<close> that only grows.\<close>

definition GetAvailaClientID :: "old_server \<Rightarrow> (int \<times> old_server) res" where
  "GetAvailaClientID s =
     (if os_s_id s = 2 ^ 31 - 1 then Inl Overflow
      else let i = os_s_id s + 1 in Inr (i, s\<lparr>os_s_id := i\<rparr>))"

text \<open>The stream of a client whose \<open>uv_accept\<close> fails is deleted right after \<open>uv_close\<close>.\<close>

definition os_acceptConnection ::
  "(nat \<Rightarrow> byte) \<Rightarrow> (nat \<Rightarrow> int \<Rightarrow> os_call list) \<Rightarrow> int \<Rightarrow> int \<Rightarrow> int \<Rightarrow> old_server \<Rightarrow> old_server res" where
  "os_acceptConnection junk on_new r_tcp r_accept r_read s =
     rbind (GetAvailaClientID s) (\<lambda>(clientid, s1).
       let h = os_fresh s1;
           cdata = clientdata_new junk h clientid;
           s2 = s1\<lparr>os_fresh := h + 1\<rparr>
       in if r_tcp \<noteq> 0 then Inr ((os_act (Os_delete h) s2)\<lparr>os_errmsg := GetUVError r_tcp\<rparr>)
          else if r_accept \<noteq> 0
          then Inr (os_act (Os_delete h) (os_act (Os_close_client h) (s2\<lparr>os_errmsg := GetUVError r_accept\<rparr>)))
          else let s3 = s2\<lparr>os_clients := map_insert clientid cdata (os_clients s2)\<rparr>
               in rbind (case os_newconcb s3 of
                           None \<Rightarrow> Inr s3
                         | Some cb \<Rightarrow> rfold (os_do_call junk) (on_new cb clientid) (os_act (Os_newconnect cb clientid) s3))
                    (\<lambda>s4. Inr (if r_read = 0 then os_act (Os_read_start h) s4 else s4)))"

text \<open>The thread of the loop is thread 0; no other operation locks the mutex, so nobody waits for it.\<close>

definition DeleteClient :: "bool \<Rightarrow> int \<Rightarrow> old_server \<Rightarrow> (bool \<times> old_server) res" where
  "DeleteClient active clientid s =
     rbind (uv_mutex_lock 0 (os_mutex s)) (\<lambda>lock. case lock of
       None \<Rightarrow> Inl BadMutex
     | Some m \<Rightarrow>
         let s1 = s\<lparr>os_mutex := m\<rparr>
         in case map_of (os_clients s1) clientid of
              None \<Rightarrow>
                rbind (uv_mutex_unlock 0 m) (\<lambda>m'.
                  Inr (False, s1\<lparr>os_errmsg := Err_client ''can't find client '' clientid, os_mutex := m'\<rparr>))
            | Some c \<Rightarrow>
                let s2 = (if active then os_act (Os_read_stop (cd_handle c)) s1 else s1);
                    s3 = (os_act (Os_close_client (cd_handle c)) s2)\<lparr>os_closing := os_closing s2 @ [c]\<rparr>;
                    s4 = s3\<lparr>os_clients := map_erase clientid (os_clients s3)\<rparr>
                in rbind (uv_mutex_unlock 0 m) (\<lambda>m'. Inr (True, s4\<lparr>os_mutex := m'\<rparr>)))"

definition os_onAllocBuffer :: nat where
  "os_onAllocBuffer = BUFFERSIZE"

text \<open>\<open>c\<close> is the \<open>clientdata\<close> that the stream points to, \<open>buf\<close> what was read.\<close>

definition AfterServerRecv ::
  "(nat \<Rightarrow> byte) \<Rightarrow> (nat \<Rightarrow> int \<Rightarrow> byte list \<Rightarrow> os_call list) \<Rightarrow> bool \<Rightarrow> clientdata \<Rightarrow> int \<Rightarrow> byte list
   \<Rightarrow> old_server \<Rightarrow> old_server res" where
  "AfterServerRecv junk on_recv active c nread buf s =
     (if nread < 0 then rbind (DeleteClient active (cd_client_id c) s) (\<lambda>(_, s1). Inr s1)
      else if nread = 0 then Inr s
      else case cd_recvcb c of
        None \<Rightarrow> Inr s
      | Some cb \<Rightarrow>
          rbind (memcpy_from buf 0 (nat nread)) (\<lambda>bs.
            rfold (os_do_call junk) (on_recv cb (cd_client_id c) bs)
              (os_act (Os_recv cb (cd_client_id c) bs) s)))"

text \<open>\<open>AfterSend\<close> prints an error and does nothing else, so the end of a write is what libuv does.\<close>

definition os_AfterSend :: "int \<Rightarrow> old_server \<Rightarrow> old_server res" where
  "os_AfterSend clientid s =
     (case map_of (os_clients s) clientid of
        None \<Rightarrow> Inr s
      | Some c \<Rightarrow>
          rbind (wb_complete (cd_writebuffer c)) (\<lambda>(bs, wb).
            Inr ((os_act (Os_sent (cd_handle c) bs) s)
              \<lparr>os_clients := map_change clientid (cd_writebuffer_update (\<lambda>_. wb)) (os_clients s)\<rparr>)))"

definition AfterClientClose :: "clientdata \<Rightarrow> old_server \<Rightarrow> old_server" where
  "AfterClientClose c s = (os_act (Os_delete (cd_handle c)) s)\<lparr>os_closing := remove1 c (os_closing s)\<rparr>"

definition AfterServerClose :: "old_server \<Rightarrow> old_server" where
  "AfterServerClose s = s"

subsection \<open>Runs\<close>

datatype os_event =
    Os_accept int int int
  | Os_read int bool int "byte list"
  | Os_write_done int
  | Os_client_closed
  | Os_user os_call

text \<open>libuv calls back for streams that exist only: others are no events.\<close>

fun os_step ::
  "(nat \<Rightarrow> byte) \<Rightarrow> (nat \<Rightarrow> int \<Rightarrow> os_call list) \<Rightarrow> (nat \<Rightarrow> int \<Rightarrow> byte list \<Rightarrow> os_call list)
   \<Rightarrow> os_event \<Rightarrow> old_server \<Rightarrow> old_server res" where
  "os_step junk on_new on_recv (Os_accept r1 r2 r3) s = os_acceptConnection junk on_new r1 r2 r3 s"
| "os_step junk on_new on_recv (Os_read clientid active nread buf) s =
     (case map_of (os_clients s) clientid of
        None \<Rightarrow> Inr s
      | Some c \<Rightarrow> AfterServerRecv junk on_recv active c nread buf s)"
| "os_step junk on_new on_recv (Os_write_done clientid) s = os_AfterSend clientid s"
| "os_step junk on_new on_recv Os_client_closed s =
     (case os_closing s of [] \<Rightarrow> Inr s | c # _ \<Rightarrow> Inr (AfterClientClose c s))"
| "os_step junk on_new on_recv (Os_user call) s = os_do_call junk call s"

subsection \<open>Client ids and streams\<close>

fun closed_streams :: "os_action list \<Rightarrow> nat list" where
  "closed_streams [] = []"
| "closed_streams (Os_close_client h # l) = h # closed_streams l"
| "closed_streams (_ # l) = closed_streams l"

fun deleted_streams :: "os_action list \<Rightarrow> nat list" where
  "deleted_streams [] = []"
| "deleted_streams (Os_delete h # l) = h # deleted_streams l"
| "deleted_streams (_ # l) = deleted_streams l"

lemma closed_streams_append [simp]: "closed_streams (k @ l) = closed_streams k @ closed_streams l"
  by (induction k rule: closed_streams.induct) auto

lemma deleted_streams_append [simp]: "deleted_streams (k @ l) = deleted_streams k @ deleted_streams l"
  by (induction k rule: deleted_streams.induct) auto

definition client_view :: "old_server \<Rightarrow> (int \<times> int \<times> nat) list" where
  "client_view s = map (\<lambda>(k, c). (k, cd_client_id c, cd_handle c)) (os_clients s)"

definition client_handles :: "old_server \<Rightarrow> nat list" where
  "client_handles s = map (\<lambda>(_, _, h). h) (client_view s)"

definition closing_handles :: "old_server \<Rightarrow> nat list" where
  "closing_handles s = map cd_handle (os_closing s)"

text \<open>
  The keys are in order, at most the last id given, and are the ids in the \<open>clientdata\<close>; every stream
  is closed at most once and deleted at most once, and neither before its client is taken out.
\<close>

definition os_ok :: "old_server \<Rightarrow> bool" where
  "os_ok s \<longleftrightarrow> sorted_wrt (<) (map fst (client_view s))
    \<and> list_all (\<lambda>(k, i, h). k = i \<and> 0 < k \<and> k \<le> os_s_id s) (client_view s)
    \<and> 0 \<le> os_s_id s \<and> os_mutex s = Mx_free
    \<and> distinct (client_handles s @ closed_streams (os_log s))
    \<and> distinct (client_handles s @ closing_handles s @ deleted_streams (os_log s))
    \<and> (\<forall>h \<in> set (client_handles s @ closed_streams (os_log s) @ closing_handles s @ deleted_streams (os_log s)).
         h < os_fresh s)"

text \<open>What the calls of the user do not change.\<close>

definition os_frame :: "old_server \<Rightarrow> (int \<times> int \<times> nat) list \<times> int \<times> uv_mutex \<times> nat \<times> clientdata list \<times> nat list \<times> nat list" where
  "os_frame s = (client_view s, os_s_id s, os_mutex s, os_fresh s, os_closing s,
                 closed_streams (os_log s), deleted_streams (os_log s))"

lemma os_ok_frame: "os_frame t = os_frame s \<Longrightarrow> os_ok t = os_ok s"
  by (simp add: os_ok_def os_frame_def client_handles_def closing_handles_def)

lemma map_change_view:
  "(\<And>c. cd_client_id (f c) = cd_client_id c \<and> cd_handle (f c) = cd_handle c) \<Longrightarrow>
     map (\<lambda>(k, c). (k, cd_client_id c, cd_handle c)) (map_change i f m) =
     map (\<lambda>(k, c). (k, cd_client_id c, cd_handle c)) m"
  by (auto simp: map_change_def)

lemma os_call_frame: "os_do_call junk call s = Inr t \<Longrightarrow> os_frame t = os_frame s"
proof (induction junk call s rule: os_do_call.induct)
  case (1 junk r i data s)
  then show ?case
    by (auto simp: os_send_def rbind_Inr_iff os_frame_def client_view_def map_change_view Let_def
        split: option.splits if_splits)
next
  case (2 junk i cb s)
  then show ?case
    by (auto simp: os_setrecvcb_def os_frame_def client_view_def map_change_view split: option.splits)
next
  case (3 junk cb s)
  then show ?case by (auto simp: os_setnewconnectcb_def os_frame_def client_view_def)
qed

lemma os_calls_frame: "rfold (os_do_call junk) calls s = Inr t \<Longrightarrow> os_frame t = os_frame s"
proof (induction calls arbitrary: s)
  case (Cons call calls)
  then obtain u where "os_do_call junk call s = Inr u" "rfold (os_do_call junk) calls u = Inr t"
    by (auto simp: rbind_Inr_iff)
  then show ?case using Cons.IH os_call_frame by metis
qed simp

text \<open>Entering a new client: its id is larger than all keys, so it comes last.\<close>

lemma map_insert_last: "\<forall>k' \<in> set (map fst m). k' < k \<Longrightarrow> map_insert k v m = m @ [(k, v)]"
  by (induction k v m rule: map_insert.induct) auto

lemma accept_ok:
  assumes "os_ok s" and "os_s_id s < i" and "i = cd_client_id c" and "cd_handle c = os_fresh s"
  shows "os_ok (s\<lparr>os_s_id := i, os_fresh := os_fresh s + 1, os_clients := map_insert i c (os_clients s)\<rparr>)"
proof -
  have "\<forall>k \<in> set (map fst (os_clients s)). k < i"
    using assms(1,2) by (fastforce simp: os_ok_def client_view_def list_all_iff)
  then have ins: "map_insert i c (os_clients s) = os_clients s @ [(i, c)]"
    by (rule map_insert_last)
  let ?t = "s\<lparr>os_s_id := i, os_fresh := os_fresh s + 1, os_clients := os_clients s @ [(i, c)]\<rparr>"
  have view: "client_view ?t = client_view s @ [(i, i, os_fresh s)]"
    using assms(3,4) by (simp add: client_view_def)
  then have handles: "client_handles ?t = client_handles s @ [os_fresh s]"
    by (simp add: client_handles_def)
  have last: "\<forall>x \<in> set (client_view s). fst x < i"
    using assms(1,2) by (auto simp: os_ok_def list_all_iff)
  have fresh: "os_fresh s \<notin> set (client_handles s @ closed_streams (os_log s) @ closing_handles s @ deleted_streams (os_log s))"
    using assms(1) unfolding os_ok_def by (meson less_irrefl)
  show ?thesis
    unfolding ins os_ok_def view handles
    using assms(1,2) last fresh
    by (auto simp: os_ok_def sorted_wrt_append list_all_iff closing_handles_def less_Suc_eq)
qed

lemma entered_view:
  assumes "os_ok s" and "cd_client_id c = os_s_id s + 1"
  shows "client_view (s\<lparr>os_s_id := os_s_id s + 1, os_fresh := n, os_clients := map_insert (os_s_id s + 1) c (os_clients s)\<rparr>)
    = client_view s @ [(os_s_id s + 1, os_s_id s + 1, cd_handle c)]"
proof -
  have "\<forall>k \<in> set (map fst (os_clients s)). k < os_s_id s + 1"
    using assms(1) by (fastforce simp: os_ok_def client_view_def list_all_iff)
  from map_insert_last [OF this, of c] show ?thesis by (simp add: client_view_def assms(2))
qed

text \<open>A stream that is deleted before its client is entered.\<close>

lemma discard_ok:
  assumes "os_ok s" and "os_frame t = (client_view s, os_s_id s + 1, os_mutex s, os_fresh s + 1, os_closing s,
      closed_streams (os_log s) @ hs, deleted_streams (os_log s) @ [os_fresh s])"
    and "set hs \<subseteq> {os_fresh s}" and "distinct hs"
  shows "os_ok t"
proof -
  let ?all = "client_handles s @ closed_streams (os_log s) @ closing_handles s @ deleted_streams (os_log s)"
  have less: "h < os_fresh s" if "h \<in> set ?all" for h
    using assms(1) that unfolding os_ok_def by blast
  then have fresh: "os_fresh s \<notin> set ?all" by blast
  have t: "client_view t = client_view s" "os_s_id t = os_s_id s + 1" "os_mutex t = os_mutex s"
    "os_fresh t = os_fresh s + 1" "os_closing t = os_closing s"
    "closed_streams (os_log t) = closed_streams (os_log s) @ hs"
    "deleted_streams (os_log t) = deleted_streams (os_log s) @ [os_fresh s]"
    using assms(2) by (simp_all add: os_frame_def)
  then have handles: "client_handles t = client_handles s" "closing_handles t = closing_handles s"
    by (simp_all add: client_handles_def closing_handles_def)
  have keys: "list_all (\<lambda>(k, i, h). k = i \<and> 0 < k \<and> k \<le> os_s_id s + 1) (client_view s)"
    using assms(1) by (auto simp: os_ok_def list_all_iff)
  have "distinct (client_handles s @ closed_streams (os_log s) @ hs)"
    "distinct (client_handles s @ closing_handles s @ deleted_streams (os_log s) @ [os_fresh s])"
    using assms(1,3,4) fresh by (auto simp: os_ok_def)
  moreover have "h < os_fresh s + 1"
    if "h \<in> set (client_handles s @ (closed_streams (os_log s) @ hs) @ closing_handles s @ deleted_streams (os_log s) @ [os_fresh s])" for h
    using that less [of h] assms(3) by (auto simp: less_Suc_eq)
  ultimately show ?thesis
    using assms(1) keys unfolding os_ok_def t handles by simp
qed

lemma os_act_frame:
  "closed_streams [a] = [] \<Longrightarrow> deleted_streams [a] = [] \<Longrightarrow> os_frame (os_act a s) = os_frame s"
  by (simp add: os_frame_def os_act_def client_view_def)

lemma accept_id:
  "os_acceptConnection junk on_new r1 r2 r3 s = Inr t \<Longrightarrow> GetAvailaClientID s = Inr (os_s_id s + 1, s\<lparr>os_s_id := os_s_id s + 1\<rparr>)"
  by (auto simp: os_acceptConnection_def GetAvailaClientID_def Let_def)

lemma os_accept_entered:
  assumes "os_ok s" and "os_acceptConnection junk on_new 0 0 r3 s = Inr t"
  obtains c where "cd_client_id c = os_s_id s + 1" and "cd_handle c = os_fresh s"
    and "os_frame t = os_frame (s\<lparr>os_s_id := os_s_id s + 1, os_fresh := os_fresh s + 1,
           os_clients := map_insert (os_s_id s + 1) c (os_clients s)\<rparr>)"
proof -
  let ?i = "os_s_id s + 1" and ?h = "os_fresh s"
  let ?c = "clientdata_new junk ?h ?i"
  let ?t = "s\<lparr>os_s_id := ?i, os_fresh := ?h + 1, os_clients := map_insert ?i ?c (os_clients s)\<rparr>"
  obtain u where u: "(case os_newconcb s of
        None \<Rightarrow> Inr ?t
      | Some cb \<Rightarrow> rfold (os_do_call junk) (on_new cb ?i) (os_act (Os_newconnect cb ?i) ?t)) = Inr u"
    "t = (if r3 = 0 then os_act (Os_read_start ?h) u else u)"
    using assms(2) accept_id [OF assms(2)]
    by (cases "os_newconcb s") (auto simp: os_acceptConnection_def Let_def rbind_Inr_iff)
  have "os_frame u = os_frame ?t"
    using u(1) by (auto dest!: os_calls_frame simp: os_act_frame split: option.splits)
  then have "os_frame t = os_frame ?t"
    using u(2) by (simp add: os_act_frame)
  then show ?thesis using that [of ?c] by (simp add: clientdata_new_def)
qed

lemma os_accept_refused:
  assumes "os_ok s" and "os_acceptConnection junk on_new r1 r2 r3 s = Inr t" and "\<not> (r1 = 0 \<and> r2 = 0)"
  obtains hs where "set hs \<subseteq> {os_fresh s}" and "distinct hs"
    and "os_frame t = (client_view s, os_s_id s + 1, os_mutex s, os_fresh s + 1, os_closing s,
           closed_streams (os_log s) @ hs, deleted_streams (os_log s) @ [os_fresh s])"
proof -
  let ?h = "os_fresh s" and ?s = "s\<lparr>os_s_id := os_s_id s + 1, os_fresh := os_fresh s + 1\<rparr>"
  have "t = (os_act (Os_delete ?h) ?s)\<lparr>os_errmsg := GetUVError r1\<rparr>
    \<or> t = os_act (Os_delete ?h) (os_act (Os_close_client ?h) (?s\<lparr>os_errmsg := GetUVError r2\<rparr>))"
    using assms(2,3) accept_id [OF assms(2)] by (auto simp: os_acceptConnection_def Let_def split: if_splits)
  then show ?thesis
    using that [of "[]"] that [of "[?h]"] by (auto simp: os_frame_def client_view_def os_act_def)
qed

lemma os_accept_ok:
  assumes "os_ok s" and "os_acceptConnection junk on_new r1 r2 r3 s = Inr t"
  shows "os_ok t"
proof (cases "r1 = 0 \<and> r2 = 0")
  case True
  then obtain c where c: "cd_client_id c = os_s_id s + 1" "cd_handle c = os_fresh s"
    "os_frame t = os_frame (s\<lparr>os_s_id := os_s_id s + 1, os_fresh := os_fresh s + 1,
       os_clients := map_insert (os_s_id s + 1) c (os_clients s)\<rparr>)"
    using os_accept_entered [of s junk on_new r3 t] assms by auto
  show ?thesis
    unfolding os_ok_frame [OF c(3)] by (rule accept_ok [OF assms(1)]) (simp_all add: c)
next
  case False
  show ?thesis by (rule os_accept_refused [OF assms False]) (rule discard_ok [OF assms(1)])
qed

lemma map_of_view:
  "map_of (os_clients s) i = Some c \<Longrightarrow> (i, cd_client_id c, cd_handle c) \<in> set (client_view s)"
  by (force simp: client_view_def dest: map_of_SomeD)

lemma os_ok_client_id: "os_ok s \<Longrightarrow> map_of (os_clients s) i = Some c \<Longrightarrow> cd_client_id c = i"
  by (drule map_of_view) (auto simp: os_ok_def list_all_iff)

lemma sorted_filter_split:
  "sorted_wrt (<) (map fst m) \<Longrightarrow> (i, x) \<in> set m \<Longrightarrow>
     mset m = add_mset (i, x) (mset (filter (\<lambda>e. fst e \<noteq> i) m))" for i :: int
proof (induction m)
  case (Cons a m)
  show ?case
  proof (cases "a = (i, x)")
    case True
    then have "\<forall>e \<in> set m. fst e \<noteq> i"
      using Cons.prems(1) by auto
    then have "filter (\<lambda>e. fst e \<noteq> i) m = m" by (rule filter_True)
    then show ?thesis using True by simp
  next
    case False
    then have "(i, x) \<in> set m" "fst a \<noteq> i" using Cons.prems by auto
    then show ?thesis using Cons by (cases a) simp
  qed
qed simp

text \<open>The effect of \<open>DeleteClient\<close> on a client that is there, and on one that is not.\<close>

lemma DeleteClient_eq:
  assumes "os_ok s"
  shows "DeleteClient active i s = Inr (case map_of (os_clients s) i of
      None \<Rightarrow> (False, s\<lparr>os_errmsg := Err_client ''can't find client '' i\<rparr>)
    | Some c \<Rightarrow> (True, s\<lparr>os_clients := map_erase i (os_clients s), os_closing := os_closing s @ [c],
        os_log := os_log s @ (if active then [Os_read_stop (cd_handle c)] else []) @ [Os_close_client (cd_handle c)]\<rparr>))"
  using assms
  by (auto simp: DeleteClient_def os_ok_def os_act_def Let_def split: option.split)

lemma erase_ok:
  assumes "os_ok s" and "map_of (os_clients s) i = Some c"
    and "closed_streams l = [cd_handle c]" and "deleted_streams l = []"
  shows "os_ok (s\<lparr>os_clients := map_erase i (os_clients s), os_closing := os_closing s @ [c], os_log := os_log s @ l\<rparr>)"
    (is "os_ok ?t")
proof -
  have view: "client_view ?t = filter (\<lambda>e. fst e \<noteq> i) (client_view s)"
    by (simp add: client_view_def map_erase_def filter_map o_def case_prod_beta)
  have "(i, cd_client_id c, cd_handle c) \<in> set (client_view s)"
    using assms(2) by (rule map_of_view)
  moreover have sorted: "sorted_wrt (<) (map fst (client_view s))"
    using assms(1) by (simp add: os_ok_def)
  ultimately have "mset (client_view s) = add_mset (i, cd_client_id c, cd_handle c) (mset (client_view ?t))"
    unfolding view by (intro sorted_filter_split)
  then have "mset (client_handles s) = add_mset (cd_handle c) (mset (client_handles ?t))"
    unfolding client_handles_def by (metis (no_types, lifting) image_mset_add_mset mset_map case_prod_conv)
  then have handles: "mset (client_handles ?t @ cd_handle c # xs) = mset (client_handles s @ xs)" for xs
    by simp
  have dist: "distinct (client_handles ?t @ cd_handle c # xs) = distinct (client_handles s @ xs)"
    "set (client_handles ?t @ cd_handle c # xs) = set (client_handles s @ xs)" for xs
    using handles [of xs] by (metis mset_eq_imp_distinct_iff) (metis handles set_mset_mset)
  have s_view: "sorted_wrt (<) (map fst (client_view ?t))"
    unfolding view using sorted by (simp add: sorted_wrt_map sorted_wrt_filter)
  show ?thesis
    using assms(1) s_view dist(1) [of "closed_streams (os_log s)"]
      dist(1) [of "closing_handles s @ deleted_streams (os_log s)"]
      dist(2) [of "closed_streams (os_log s) @ closing_handles s @ deleted_streams (os_log s)"] assms(3,4)
    by (auto simp: os_ok_def view list_all_iff closing_handles_def)
qed

lemma DeleteClient_ok:
  assumes "os_ok s" and "DeleteClient active i s = Inr (r, t)"
  shows "os_ok t"
proof (cases "map_of (os_clients s) i")
  case None
  then have "os_frame t = os_frame s"
    using assms by (auto simp: DeleteClient_eq os_frame_def client_view_def)
  then show ?thesis using assms(1) os_ok_frame by metis
next
  case (Some c)
  then show ?thesis
    using assms erase_ok [OF assms(1) Some] by (auto simp: DeleteClient_eq)
qed

lemma recv_cases:
  assumes "AfterServerRecv junk on_recv active c nread buf s = Inr t"
  shows "0 \<le> nread \<and> os_frame t = os_frame s
    \<or> nread < 0 \<and> (\<exists>r. DeleteClient active (cd_client_id c) s = Inr (r, t))"
  using assms
  by (auto simp: AfterServerRecv_def rbind_Inr_iff os_act_frame dest!: os_calls_frame
      split: if_splits option.splits)

lemma recv_ok:
  assumes "os_ok s" and "AfterServerRecv junk on_recv active c nread buf s = Inr t"
  shows "os_ok t"
  using recv_cases [OF assms(2)] assms(1) DeleteClient_ok os_ok_frame by metis

lemma write_done_ok: "os_AfterSend i s = Inr t \<Longrightarrow> os_frame t = os_frame s"
  by (auto simp: os_AfterSend_def rbind_Inr_iff os_frame_def client_view_def map_change_view os_act_def
      split: option.splits)

lemma closed_ok:
  assumes "os_ok s" and "os_closing s = c # cs"
  shows "os_ok (AfterClientClose c s)"
  using assms
  by (auto simp: os_ok_def AfterClientClose_def os_act_def client_handles_def closing_handles_def client_view_def)

lemma os_ok_keep: "os_frame t = os_frame s \<Longrightarrow> os_ok s \<Longrightarrow> os_ok t"
  using os_ok_frame [of t s] by blast

lemma os_step_ok:
  assumes "os_ok s" and "os_step junk on_new on_recv e s = Inr t"
  shows "os_ok t"
proof (cases e)
  case (Os_accept r1 r2 r3)
  then show ?thesis using assms by (auto dest: os_accept_ok)
next
  case (Os_read i active nread buf)
  then show ?thesis
    using assms by (cases "map_of (os_clients s) i") (auto dest: recv_ok)
next
  case (Os_write_done i)
  then show ?thesis using assms(2) by (simp add: os_ok_keep [OF write_done_ok assms(1)])
next
  case Os_client_closed
  then show ?thesis
    using assms by (cases "os_closing s") (auto dest: closed_ok)
next
  case (Os_user call)
  then show ?thesis using assms(2) by (simp add: os_ok_keep [OF os_call_frame assms(1)])
qed

text \<open>A server that has been started on a platform that lets it.\<close>

definition os_started :: "old_server \<Rightarrow> bool" where
  "os_started s \<longleftrightarrow> (\<exists>r. os_Start True r (os_new True) = Inr (True, s))"

lemma os_started_eq:
  "os_started s \<Longrightarrow> s = (os_new True)\<lparr>os_mutex := Mx_free, os_isinit := True\<rparr>"
  by (auto simp: os_started_def os_Start_def os_close_def os_new_def os_init_def os_bind_def os_listen_def
      os_run_def os_fail_def Let_def split: if_splits)

interpretation old_srv: event_system os_started "os_step junk on_new on_recv" os_ok for junk on_new on_recv
proof
  show "os_ok s" if "os_started s" for s
    unfolding os_started_eq [OF that]
    by (simp add: os_ok_def os_new_def client_view_def client_handles_def closing_handles_def)
qed (rule os_step_ok)

subsection \<open>Which clients are in the table\<close>

text \<open>
  The table as it should be, from the events alone: the \<open>n\<close>-th connection has the id \<open>n\<close> and the \<open>n\<close>-th stream
  object; its client is entered when libuv accepts it and leaves when a read of it fails.
\<close>

fun table_after :: "os_event \<Rightarrow> nat \<times> (int \<times> nat) list \<Rightarrow> nat \<times> (int \<times> nat) list" where
  "table_after (Os_accept r1 r2 r3) (n, tbl) = (n + 1, if r1 = 0 \<and> r2 = 0 then tbl @ [(int n + 1, n)] else tbl)"
| "table_after (Os_read i active nread buf) (n, tbl) = (n, if nread < 0 then filter (\<lambda>e. fst e \<noteq> i) tbl else tbl)"
| "table_after e w = w"

definition client_table :: "old_server \<Rightarrow> (int \<times> nat) list" where
  "client_table s = map (\<lambda>(k, c). (k, cd_handle c)) (os_clients s)"

lemma client_table_view: "client_table s = map (\<lambda>(k, _, h). (k, h)) (client_view s)"
  by (simp add: client_table_def client_view_def case_prod_beta)

text \<open>Every stream object so far belongs to a client in the table or has been closed or deleted.\<close>

definition table_streams :: "old_server \<Rightarrow> nat set" where
  "table_streams s = snd ` set (client_table s)"

lemma table_streams_frame: "client_table t = client_table s \<Longrightarrow> table_streams t = table_streams s"
  by (simp add: table_streams_def)

definition gone_streams :: "old_server \<Rightarrow> nat set" where
  "gone_streams s = set (closed_streams (os_log s) @ deleted_streams (os_log s))"

definition os_sim :: "nat \<times> (int \<times> nat) list \<Rightarrow> old_server \<Rightarrow> bool" where
  "os_sim w s \<longleftrightarrow> os_ok s \<and> client_table s = snd w \<and> os_fresh s = fst w \<and> os_s_id s = int (fst w)
     \<and> table_streams s \<union> gone_streams s = {..<fst w}"

lemma os_sim_frame: "os_frame t = os_frame s \<Longrightarrow> os_sim w t = os_sim w s"
  using os_ok_frame [of t s] by (simp add: os_sim_def os_frame_def client_table_view gone_streams_def table_streams_def)

lemma absent_filter:
  "map_of (os_clients s) i = None \<Longrightarrow> filter (\<lambda>e. fst e \<noteq> i) (client_table s) = client_table s"
  by (intro filter_True) (force simp: client_table_def map_of_eq_None_iff)

lemma DeleteClient_sim:
  assumes "os_sim (n, tbl) s" and "DeleteClient active i s = Inr (r, t)"
  shows "os_sim (n, filter (\<lambda>e. fst e \<noteq> i) tbl) t"
proof -
  have ok: "os_ok s" "client_table s = tbl" using assms(1) by (auto simp: os_sim_def)
  show ?thesis
  proof (cases "map_of (os_clients s) i")
    case None
    then have "os_frame t = os_frame s"
      using assms(2) ok by (auto simp: DeleteClient_eq os_frame_def client_view_def)
    then show ?thesis using assms(1) os_sim_frame [of t s] absent_filter [OF None] ok(2) by simp
  next
    case (Some c)
    then have t: "t = s\<lparr>os_clients := map_erase i (os_clients s), os_closing := os_closing s @ [c],
        os_log := os_log s @ (if active then [Os_read_stop (cd_handle c)] else []) @ [Os_close_client (cd_handle c)]\<rparr>"
      using assms(2) ok by (simp add: DeleteClient_eq)
    have tbl: "client_table t = filter (\<lambda>e. fst e \<noteq> i) (client_table s)"
      by (simp add: t client_table_def map_erase_def filter_map o_def case_prod_beta)
    have gone: "gone_streams t = insert (cd_handle c) (gone_streams s)"
      by (auto simp: t gone_streams_def)
    have key: "distinct (map fst (client_table s))"
      using ok(1) by (auto simp: os_ok_def client_table_view client_view_def comp_def case_prod_beta strict_sorted_iff)
    have c: "(i, cd_handle c) \<in> set (client_table s)"
      using Some by (force simp: client_table_def dest: map_of_SomeD)
    have "table_streams s = insert (cd_handle c) (table_streams t)"
    proof (rule set_eqI)
      fix h
      have "h = cd_handle c" if "(i, h) \<in> set (client_table s)"
        using eq_key_imp_eq_value [OF key that c] .
      then show "h \<in> table_streams s \<longleftrightarrow> h \<in> insert (cd_handle c) (table_streams t)"
        using c unfolding table_streams_def tbl by force
    qed
    moreover have keep: "os_fresh t = os_fresh s" "os_s_id t = os_s_id s" by (simp_all add: t)
    ultimately have "table_streams t \<union> gone_streams t = table_streams s \<union> gone_streams s"
      unfolding gone by blast
    then show ?thesis
      using assms(1) DeleteClient_ok [OF ok(1) assms(2)] keep by (simp add: os_sim_def tbl)
  qed
qed

lemma accept_sim:
  assumes "os_sim (n, tbl) s" and "os_acceptConnection junk on_new r1 r2 r3 s = Inr t"
  shows "os_sim (table_after (Os_accept r1 r2 r3) (n, tbl)) t"
proof -
  have ok: "os_ok s" "os_fresh s = n" "os_s_id s = int n" "client_table s = tbl"
    "table_streams s \<union> gone_streams s = {..<n}"
    using assms(1) by (auto simp: os_sim_def)
  have t: "os_ok t" by (rule os_accept_ok [OF ok(1) assms(2)])
  show ?thesis
  proof (cases "r1 = 0 \<and> r2 = 0")
    case True
    let ?s = "\<lambda>c. s\<lparr>os_s_id := os_s_id s + 1, os_fresh := os_fresh s + 1,
         os_clients := map_insert (os_s_id s + 1) c (os_clients s)\<rparr>"
    obtain c where c: "cd_client_id c = os_s_id s + 1" "cd_handle c = os_fresh s" "os_frame t = os_frame (?s c)"
      using os_accept_entered [of s junk on_new r3 t] ok(1) assms(2) True by auto
    have view: "client_view (?s c) = client_view s @ [(os_s_id s + 1, os_s_id s + 1, os_fresh s)]"
      using entered_view [OF ok(1) c(1)] c(2) by simp
    have frame: "client_view t = client_view (?s c)" "os_s_id t = os_s_id s + 1" "os_fresh t = os_fresh s + 1"
      "gone_streams t = gone_streams s"
      using c(3) by (simp_all add: os_frame_def gone_streams_def)
    then have tbl: "client_table t = client_table s @ [(int n + 1, n)]"
      unfolding client_table_view frame(1) view by (simp add: ok(2,3))
    then have "table_streams t = insert n (table_streams s)" by (simp add: table_streams_def)
    then show ?thesis
      using t ok True frame(2-4) tbl by (auto simp: os_sim_def)
  next
    case False
    obtain hs where hs: "set hs \<subseteq> {os_fresh s}" "os_frame t = (client_view s, os_s_id s + 1, os_mutex s,
        os_fresh s + 1, os_closing s, closed_streams (os_log s) @ hs, deleted_streams (os_log s) @ [os_fresh s])"
      by (rule os_accept_refused [OF ok(1) assms(2) False])
    then have frame: "client_table t = client_table s" "os_s_id t = os_s_id s + 1" "os_fresh t = os_fresh s + 1"
      "gone_streams t = insert (os_fresh s) (gone_streams s)"
      by (auto simp: os_frame_def gone_streams_def client_table_view)
    then show ?thesis
      using t ok False table_streams_frame [OF frame(1)] by (auto simp: os_sim_def)
  qed
qed

lemma closed_sim:
  assumes "os_sim w s" and "os_closing s = c # cs"
  shows "os_sim w (AfterClientClose c s)"
proof -
  have "cd_handle c < fst w"
    using assms by (auto simp: os_sim_def os_ok_def closing_handles_def)
  moreover have "gone_streams (AfterClientClose c s) = insert (cd_handle c) (gone_streams s)"
    by (auto simp: AfterClientClose_def os_act_def gone_streams_def)
  moreover have "client_table (AfterClientClose c s) = client_table s" "os_fresh (AfterClientClose c s) = os_fresh s"
    "os_s_id (AfterClientClose c s) = os_s_id s"
    "table_streams (AfterClientClose c s) = table_streams s"
    by (simp_all add: AfterClientClose_def os_act_def client_table_def table_streams_def)
  ultimately show ?thesis
    using assms closed_ok [of s c cs] by (auto simp: os_sim_def)
qed

lemma os_step_sim:
  assumes "os_sim w s" and "os_step junk on_new on_recv e s = Inr t"
  shows "os_sim (table_after e w) t"
proof (cases w)
  case (Pair n tbl)
  have ok: "os_ok s" using assms(1) by (simp add: os_sim_def)
  show ?thesis
  proof (cases e)
    case (Os_accept r1 r2 r3)
    then show ?thesis using assms accept_sim Pair by (metis os_step.simps(1))
  next
    case (Os_read i active nread buf)
    show ?thesis
    proof (cases "map_of (os_clients s) i")
      case None
      then show ?thesis using absent_filter [OF None] assms Os_read Pair by (auto simp: os_sim_def)
    next
      case (Some c)
      then have recv: "AfterServerRecv junk on_recv active c nread buf s = Inr t" and id: "cd_client_id c = i"
        using assms(2) Os_read os_ok_client_id [OF ok] by simp_all
      from recv_cases [OF recv] show ?thesis
        unfolding id
      proof (elim disjE conjE exE)
        assume "0 \<le> nread" "os_frame t = os_frame s"
        then show ?thesis using assms(1) Os_read Pair os_sim_frame [of t s] by simp
      next
        fix r
        assume "nread < 0" "DeleteClient active i s = Inr (r, t)"
        then show ?thesis using assms(1) Os_read Pair DeleteClient_sim by simp
      qed
    qed
  next
    case (Os_write_done i)
    then show ?thesis using assms os_sim_frame [OF write_done_ok] Pair by simp
  next
    case Os_client_closed
    then show ?thesis using assms closed_sim Pair by (cases "os_closing s") auto
  next
    case (Os_user call)
    then show ?thesis using assms os_sim_frame [OF os_call_frame] Pair by simp
  qed
qed

lemma os_started_sim: "os_started s \<Longrightarrow> os_sim (0, []) s"
  using old_srv.start [of s] os_started_eq [of s]
  by (simp add: os_sim_def os_new_def client_table_def gone_streams_def table_streams_def)

lemma os_run_sim:
  assumes "os_sim w s" and "rfold (os_step junk on_new on_recv) es s = Inr t"
  shows "os_sim (fold table_after es w) t"
  using assms
proof (induction es arbitrary: w s)
  case (Cons e es)
  then obtain u where "os_step junk on_new on_recv e s = Inr u" "rfold (os_step junk on_new on_recv) es u = Inr t"
    by (auto simp: rbind_Inr_iff)
  then show ?case using Cons.IH [OF os_step_sim] Cons.prems(1) by simp
qed simp

text \<open>Without that leave of the platform \<open>Start\<close> never gets past its first call.\<close>

lemma os_Start_new: "os_Start False r (os_new loop) = Inl BadMutex"
  by (simp add: os_Start_def os_close_def os_new_def Let_def)

lemma os_Start6_eq: "os_Start6 lax r s = os_Start lax r s"
proof -
  have "os_bind6 = os_bind" by (intro ext) (simp add: os_bind6_def os_bind_def)
  then show ?thesis by (simp only: os_Start6_def os_Start_def)
qed

end
