(* ===== verification/OldClient.thy ===== *)
theory OldClient
  imports OldSocket
begin

text \<open>
  The class \<open>uv::TCPClient\<close> of src/ServerApp/ServerApp/NetSocket.h and NetSocket.cpp. Results of libuv
  are arguments. Thread 0 is the one that runs the loop.
\<close>

subsection \<open>State\<close>

datatype connect_status = CONNECT_TIMEOUT | CONNECT_FINISH | CONNECT_ERROR | CONNECT_DIS

datatype stream_state = St_raw | St_open | St_closing

datatype oc_action =
    Oc_connect
  | Oc_read_start
  | Oc_close
  | Oc_recv nat nat "byte list"   \<comment> \<open>the user's function, its data and the bytes\<close>
  | Oc_sent "byte list"

text \<open>
  The last four fields are where the threads stand: a call of \<open>connect\<close> that waits and its result, a
  thread that has been created, and a connection attempt that libuv will report on.
\<close>

record old_client =
  oc_loop :: bool
  oc_isinit :: bool
  oc_stream :: stream_state
  oc_mutex :: uv_mutex
  oc_errmsg :: errmsg
  oc_writebuffer :: write_buffer
  oc_connectstatus :: connect_status
  oc_recvcb :: "nat option"
  oc_userdata :: nat
  oc_connectip :: string
  oc_connectport :: int
  oc_log :: "oc_action list"
  oc_waiting :: bool
  oc_result :: "bool option"
  oc_thread :: bool
  oc_connecting :: bool

definition oc_new :: "(nat \<Rightarrow> byte) \<Rightarrow> bool \<Rightarrow> old_client" where
  "oc_new junk loop =
     \<lparr>oc_loop = loop, oc_isinit = False, oc_stream = St_raw, oc_mutex = Mx_raw, oc_errmsg = Err_empty,
      oc_writebuffer = write_buffer_new junk, oc_connectstatus = CONNECT_DIS, oc_recvcb = None,
      oc_userdata = 0, oc_connectip = '''', oc_connectport = 0, oc_log = [], oc_waiting = False,
      oc_result = None, oc_thread = False, oc_connecting = False\<rparr>"

definition oc_act :: "oc_action \<Rightarrow> old_client \<Rightarrow> old_client" where
  "oc_act a s = s\<lparr>oc_log := oc_log s @ [a]\<rparr>"

definition oc_fail :: "int \<Rightarrow> old_client \<Rightarrow> bool \<times> old_client" where
  "oc_fail iret s = (False, s\<lparr>oc_errmsg := GetUVError iret\<rparr>)"

text \<open>\<open>uv_close\<close> stops the program when the stream is already being closed.\<close>

definition oc_uv_close :: "old_client \<Rightarrow> old_client res" where
  "oc_uv_close s =
     (if oc_stream s = St_closing then Inl AssertFailed
      else Inr ((oc_act Oc_close s)\<lparr>oc_stream := St_closing\<rparr>))"

subsection \<open>Operations\<close>

definition oc_init :: "int \<Rightarrow> int \<Rightarrow> old_client \<Rightarrow> bool \<times> old_client" where
  "oc_init r_tcp r_mutex s =
     (if oc_isinit s then (True, s)
      else if \<not> oc_loop s then (False, s\<lparr>oc_errmsg := Err_text ''loop is null on tcp init.''\<rparr>)
      else if r_tcp \<noteq> 0 then oc_fail r_tcp s
      else let s1 = s\<lparr>oc_stream := St_open, oc_mutex := uv_mutex_init r_mutex (oc_mutex s)\<rparr>
           in if r_mutex \<noteq> 0 then oc_fail r_mutex s1
              else (True, s1\<lparr>oc_isinit := True\<rparr>))"

definition oc_close :: "old_client \<Rightarrow> old_client res" where
  "oc_close s =
     (if \<not> oc_isinit s then Inr s
      else rbind (uv_mutex_destroy False (oc_mutex s)) (\<lambda>m.
           rbind (oc_uv_close (s\<lparr>oc_mutex := m\<rparr>)) (\<lambda>s1. Inr (s1\<lparr>oc_isinit := False\<rparr>))))"

definition oc_run :: "int \<Rightarrow> old_client \<Rightarrow> bool \<times> old_client" where
  "oc_run r s = (if r \<noteq> 0 then oc_fail r s else (True, s))"

definition oc_setNoDelay :: "int \<Rightarrow> old_client \<Rightarrow> bool \<times> old_client" where
  "oc_setNoDelay r s = (if r \<noteq> 0 then oc_fail r s else (True, s))"

definition oc_setKeepAlive :: "int \<Rightarrow> old_client \<Rightarrow> bool \<times> old_client" where
  "oc_setKeepAlive r s = (if r \<noteq> 0 then oc_fail r s else (True, s))"

definition oc_setrecvcb :: "nat option \<Rightarrow> nat \<Rightarrow> old_client \<Rightarrow> old_client" where
  "oc_setrecvcb cb userdata s = s\<lparr>oc_recvcb := cb, oc_userdata := userdata\<rparr>"

text \<open>\<open>connect\<close> and \<open>connect6\<close> up to the loop that waits; the result of \<open>init\<close> is not looked at.\<close>

definition oc_connect :: "int \<Rightarrow> int \<Rightarrow> int \<Rightarrow> string \<Rightarrow> int \<Rightarrow> old_client \<Rightarrow> old_client res" where
  "oc_connect r_tcp r_mutex r_thread ip port s =
     rbind (oc_close s) (\<lambda>s1.
       let (_, s2) = oc_init r_tcp r_mutex s1;
           s3 = s2\<lparr>oc_connectip := ip, oc_connectport := port\<rparr>
       in if r_thread \<noteq> 0
          then let (ok, s4) = oc_fail r_thread s3 in Inr (s4\<lparr>oc_result := Some ok\<rparr>)
          else Inr (s3\<lparr>oc_thread := True, oc_waiting := True, oc_result := None\<rparr>))"

text \<open>One look at the status, every 100 milliseconds.\<close>

definition oc_poll :: "old_client \<Rightarrow> old_client" where
  "oc_poll s =
     (if oc_connectstatus s = CONNECT_DIS then s
      else s\<lparr>oc_waiting := False, oc_result := Some (oc_connectstatus s = CONNECT_FINISH)\<rparr>)"

text \<open>\<open>ConnectThread\<close> up to the loop.\<close>

definition ConnectThread :: "int \<Rightarrow> int \<Rightarrow> old_client \<Rightarrow> old_client" where
  "ConnectThread r_addr r_connect s =
     (if r_addr \<noteq> 0 then snd (oc_fail r_addr s)
      else let s1 = oc_act Oc_connect s
           in if r_connect \<noteq> 0 then snd (oc_fail r_connect s1) else s1\<lparr>oc_connecting := True\<rparr>)"

definition AfterConnect :: "int \<Rightarrow> int \<Rightarrow> old_client \<Rightarrow> old_client" where
  "AfterConnect status r_read s =
     (if status \<noteq> 0 then s\<lparr>oc_connectstatus := CONNECT_ERROR\<rparr>
      else let s1 = oc_act Oc_read_start s
           in if r_read \<noteq> 0 then s1\<lparr>oc_connectstatus := CONNECT_ERROR\<rparr>
              else s1\<lparr>oc_connectstatus := CONNECT_FINISH\<rparr>)"

text \<open>
  \<open>t\<close> is the calling thread; \<open>None\<close>: it waits for the mutex. A successful call returns with the
  mutex held.
\<close>

definition oc_send ::
  "(nat \<Rightarrow> byte) \<Rightarrow> thread \<Rightarrow> int \<Rightarrow> byte list option \<Rightarrow> nat \<Rightarrow> old_client \<Rightarrow> (int \<times> old_client) option res" where
  "oc_send junk t r_write data len s =
     (if data = None \<or> len = 0
      then Inr (Some (0, s\<lparr>oc_errmsg := Err_text ''send data is null or len less than zero.''\<rparr>))
      else rbind (uv_mutex_lock t (oc_mutex s)) (\<lambda>lock. case lock of
        None \<Rightarrow> Inr None
      | Some m \<Rightarrow>
          rbind (wb_send junk r_write (the data) len (oc_writebuffer s)) (\<lambda>wb.
            let s1 = s\<lparr>oc_mutex := m, oc_writebuffer := wb\<rparr>
            in if r_write \<noteq> 0
               then rbind (uv_mutex_unlock t m) (\<lambda>m'.
                      Inr (Some (0, s1\<lparr>oc_mutex := m', oc_errmsg := GetUVError r_write\<rparr>)))
               else Inr (Some (1, s1)))))"

definition oc_onAllocBuffer :: nat where
  "oc_onAllocBuffer = BUFFERSIZE"

text \<open>\<open>AfterSend\<close> runs in the thread of the loop; before it libuv has taken the bytes.\<close>

definition oc_AfterSend :: "old_client \<Rightarrow> old_client res" where
  "oc_AfterSend s =
     rbind (wb_complete (oc_writebuffer s)) (\<lambda>(bs, wb).
     rbind (uv_mutex_unlock 0 (oc_mutex s)) (\<lambda>m.
       Inr ((oc_act (Oc_sent bs) s)\<lparr>oc_mutex := m, oc_writebuffer := wb\<rparr>)))"

definition AfterClientRecv :: "int \<Rightarrow> byte list \<Rightarrow> old_client \<Rightarrow> old_client res" where
  "AfterClientRecv nread buf s =
     (if nread < 0 then oc_uv_close s
      else if nread > 0
      then (case oc_recvcb s of
              None \<Rightarrow> Inr s
            | Some cb \<Rightarrow> rbind (memcpy_from buf 0 (nat nread)) (\<lambda>bs. Inr (oc_act (Oc_recv cb (oc_userdata s) bs) s)))
      else Inr s)"

subsection \<open>A call of connect\<close>

text \<open>What can happen while \<open>connect\<close> waits: libuv reports on attempts that it has accepted, once.\<close>

datatype oc_event =
    Oce_poll
  | Oce_thread int int
  | Oce_connected int int
  | Oce_read int "byte list"
  | Oce_written

inductive oc_step :: "old_client \<Rightarrow> oc_event \<Rightarrow> old_client \<Rightarrow> bool" where
  oc_poll: "oc_waiting s \<Longrightarrow> oc_step s Oce_poll (oc_poll s)"
| oc_thread: "oc_thread s \<Longrightarrow> oc_step s (Oce_thread r1 r2) (ConnectThread r1 r2 (s\<lparr>oc_thread := False\<rparr>))"
| oc_connected: "oc_connecting s \<Longrightarrow>
     oc_step s (Oce_connected st r) (AfterConnect st r (s\<lparr>oc_connecting := False\<rparr>))"
| oc_read: "AfterClientRecv nread buf s = Inr t \<Longrightarrow> oc_step s (Oce_read nread buf) t"
| oc_written: "wb_pending (oc_writebuffer s) \<noteq> [] \<Longrightarrow> oc_AfterSend s = Inr t \<Longrightarrow> oc_step s Oce_written t"

inductive_cases oc_step_cases: "oc_step s e t"

inductive oc_run_to :: "old_client \<Rightarrow> oc_event list \<Rightarrow> old_client \<Rightarrow> bool" where
  oc_nil: "oc_run_to s [] s"
| oc_cons: "oc_step s e t \<Longrightarrow> oc_run_to t es u \<Longrightarrow> oc_run_to s (e # es) u"

lemmas oc_defs =
  oc_poll_def ConnectThread_def AfterConnect_def oc_act_def oc_fail_def AfterClientRecv_def
  oc_uv_close_def oc_AfterSend_def Let_def

text \<open>Nothing is under way and the status is still the initial one.\<close>

definition oc_stuck :: "old_client \<Rightarrow> bool" where
  "oc_stuck s \<longleftrightarrow> oc_waiting s \<and> oc_connectstatus s = CONNECT_DIS \<and> \<not> oc_thread s \<and> \<not> oc_connecting s
    \<and> oc_result s = None"

lemma oc_stuck_step: "oc_step s e t \<Longrightarrow> oc_stuck s \<Longrightarrow> oc_stuck t"
  by (erule oc_step_cases)
    (auto simp: oc_stuck_def oc_defs rbind_Inr_iff split: if_splits option.splits)

lemma oc_stuck_run: "oc_run_to s es t \<Longrightarrow> oc_stuck s \<Longrightarrow> oc_stuck t"
  by (induction rule: oc_run_to.induct) (auto dest: oc_stuck_step)

text \<open>A call of \<open>connect\<close> for a client that never was connected: as long as it waits, something is under way.\<close>

definition oc_first_call :: "old_client \<Rightarrow> bool" where
  "oc_first_call s \<longleftrightarrow> oc_waiting s \<and> oc_thread s \<and> \<not> oc_connecting s \<and> oc_result s = None
    \<and> oc_connectstatus s = CONNECT_DIS"

lemma oc_connect_first:
  "oc_connect r1 r2 0 ip port (oc_new junk loop) = Inr s \<Longrightarrow> oc_first_call s"
  by (auto simp: oc_connect_def oc_close_def oc_new_def oc_init_def oc_fail_def oc_first_call_def Let_def
      split: if_splits)

text \<open>A message that another thread than that of the loop sends cannot be finished: \<open>send\<close> returns
  with the mutex held by the calling thread, and the callback at the end of the write unlocks it in the
  thread of the loop, which does not hold it.\<close>

theorem send_from_another_thread:
  assumes "oc_send junk th 0 (Some data) (length data) s = Inr (Some (1, s'))" and "th \<noteq> 0"
    and "oc_mutex s = Mx_free" and "wb_pending (oc_writebuffer s) = []" and "data2 \<noteq> []" and "th2 \<noteq> th"
  shows "oc_AfterSend s' = Inl BadMutex
    \<and> oc_send junk th2 r (Some data2) (length data2) s' = Inr None"
proof -
  have ne: "data \<noteq> []" using assms(1) by (auto simp: oc_send_def)
  then obtain wb where wb: "wb_send junk 0 data (length data) (oc_writebuffer s) = Inr wb"
    and s': "s' = s\<lparr>oc_mutex := Mx_held th 0, oc_writebuffer := wb\<rparr>"
    using assms(1,3) by (auto simp: oc_send_def rbind_Inr_iff)
  obtain wb' where "wb_complete wb = Inr (data, wb')"
    using wb_send_complete [OF assms(4), of junk data] wb by auto
  then show ?thesis
    using assms(2,5,6) by (simp add: oc_AfterSend_def oc_send_def s')
qed

end
