(* ===== verification/VarintFast.thy ===== *)
theory VarintFast
  imports WireFormat
begin

text \<open>
  The fast paths of src/Server/protobuf/google/protobuf/io/coded_stream.cc: the unrolled readers and
  the unrolled writer of variable-length integers, with the tests that choose between them and the
  loops of WireFormat. A reader on the fast path does not look for the end of its buffer; a byte it
  would read behind the end is a fault here.
\<close>

subsection \<open>Reading\<close>

fun next_byte :: "byte list \<Rightarrow> (byte \<times> byte list) res" where
  "next_byte [] = Inl OutOfBounds"
| "next_byte (b # ptr) = Inr (b, ptr)"

text \<open>
  \<open>b = *(ptr++); part += b << shift; if (!(b & 0x80)) goto done; part -= 0x80 << shift\<close>, with the code
  after it and the code at \<open>done\<close>.
\<close>

definition add_byte ::
  "nat \<Rightarrow> (u32 \<Rightarrow> byte list \<Rightarrow> 'r res) \<Rightarrow> (u32 \<Rightarrow> byte list \<Rightarrow> 'r res) \<Rightarrow> u32 \<Rightarrow> byte list \<Rightarrow> 'r res" where
  "add_byte shift is_done next part ptr =
     rbind (next_byte ptr) (\<lambda>(b, ptr).
       let part = part + push_bit shift (ucast b) in
       if b AND 0x80 = 0 then is_done part ptr else next (part - push_bit shift 0x80) ptr)"

text \<open>The bytes whose bits do not fit 32 bits any more are read and dropped; ten bytes are too many.\<close>

fun skip_bytes :: "nat \<Rightarrow> u32 \<Rightarrow> byte list \<Rightarrow> (u32 \<times> byte list) option res" where
  "skip_bytes 0 result ptr = Inr None"
| "skip_bytes (Suc n) result ptr =
     rbind (next_byte ptr) (\<lambda>(b, ptr).
       if b AND 0x80 = 0 then Inr (Some (result, ptr)) else skip_bytes n result ptr)"

text \<open>The last subtraction, of \<open>0x80 << 28\<close>, is left out in the code: it is zero in 32 bits.\<close>

definition ReadVarint32FromArray :: "u32 \<Rightarrow> byte list \<Rightarrow> (u32 \<times> byte list) option res" where
  "ReadVarint32FromArray first_byte buffer =
     (let found = \<lambda>result ptr. Inr (Some (result, ptr)) in
      rbind (next_byte buffer) (\<lambda>(_, ptr).
        add_byte 7 found (add_byte 14 found (add_byte 21 found (add_byte 28 found (skip_bytes 5))))
          (first_byte - 0x80) ptr))"

definition fast_path :: "byte list \<Rightarrow> bool" where
  "fast_path buffer \<longleftrightarrow> 10 \<le> length buffer \<or> buffer \<noteq> [] \<and> last buffer AND 0x80 = 0"

definition ReadVarint64Fallback :: "byte list \<Rightarrow> (u64 \<times> byte list) option res" where
  "ReadVarint64Fallback buffer =
     (if fast_path buffer then
        let found = \<lambda>part0 part1 part2 ptr.
              Inr (Some ((ucast part0 OR push_bit 28 (ucast part1)) OR push_bit 56 (ucast part2), ptr)) in
        let found0 = \<lambda>part0. found part0 0 0; found1 = \<lambda>part0 part1. found part0 part1 0 in
        add_byte 0 found0 (add_byte 7 found0 (add_byte 14 found0 (add_byte 21 found0 (\<lambda>part0.
          add_byte 0 (found1 part0) (add_byte 7 (found1 part0) (add_byte 14 (found1 part0)
            (add_byte 21 (found1 part0) (\<lambda>part1.
              add_byte 0 (found part0 part1) (add_byte 7 (found part0 part1)
                (\<lambda>part2 ptr. Inr None)) 0))) ) 0)))) 0 buffer
      else Inr (ReadVarint64_at 0 buffer))"


text \<open>The inline functions of the header, and the two fallbacks.\<close>

definition ReadVarint32_inline :: "byte list \<Rightarrow> (u32 \<times> byte list) option res" where
  "ReadVarint32_inline buffer =
     (let v = (case buffer of [] \<Rightarrow> 0 | b # _ \<Rightarrow> ucast b) in
      if buffer \<noteq> [] \<and> v < 0x80 then Inr (Some (v, tl buffer))
      else if fast_path buffer then ReadVarint32FromArray v buffer
      else rbind (ReadVarint64Fallback buffer)
             (\<lambda>p. Inr (map_option (\<lambda>(value, r). (ucast value, r)) p)))"

definition ReadVarint64_inline :: "byte list \<Rightarrow> (u64 \<times> byte list) option res" where
  "ReadVarint64_inline buffer =
     (case buffer of
        b # r \<Rightarrow> if b < 0x80 then Inr (Some (ucast b, r)) else ReadVarint64Fallback buffer
      | [] \<Rightarrow> ReadVarint64Fallback buffer)"

definition ReadTagSlow :: "byte list \<Rightarrow> (u32 \<times> byte list) res" where
  "ReadTagSlow buffer =
     (if buffer = [] then Inr (0, [])
      else rbind (ReadVarint64_inline buffer)
             (\<lambda>p. Inr (case p of None \<Rightarrow> (0, buffer) | Some (result, r) \<Rightarrow> (ucast result, r))))"

definition ReadTagFallback :: "u32 \<Rightarrow> byte list \<Rightarrow> (u32 \<times> byte list) res" where
  "ReadTagFallback first_byte_or_zero buffer =
     (if fast_path buffer then
        if first_byte_or_zero = 0 then Inr (0, tl buffer)
        else rbind (ReadVarint32FromArray first_byte_or_zero buffer)
               (\<lambda>p. Inr (case p of None \<Rightarrow> (0, buffer) | Some (tag, r) \<Rightarrow> (tag, r)))
      else if buffer = [] then Inr (0, [])
      else ReadTagSlow buffer)"

definition ReadTag_inline :: "byte list \<Rightarrow> (u32 \<times> byte list) res" where
  "ReadTag_inline buffer =
     (let v = (case buffer of [] \<Rightarrow> 0 | b # _ \<Rightarrow> ucast b) in
      if buffer \<noteq> [] \<and> v < 0x80 then Inr (v, tl buffer) else ReadTagFallback v buffer)"

subsection \<open>The value of a variable-length integer\<close>

fun varint_nat :: "nat \<Rightarrow> byte list \<Rightarrow> (nat \<times> byte list) option" where
  "varint_nat count [] = None"
| "varint_nat count (b # bs) =
     (if count = 10 then None
      else if b AND 0x80 = 0 then Some (unat b, bs)
      else map_option (\<lambda>(n, r). (unat b - 128 + 128 * n, r)) (varint_nat (count + 1) bs))"

lemma high_bit_clear: "(b :: byte) AND 0x80 = 0 \<longleftrightarrow> unat b < 128"
proof -
  have "take_bit 7 b = b \<longleftrightarrow> (\<forall>n. bit b n \<longrightarrow> n < 7)"
    by (auto simp only: bit_eq_iff bit_take_bit_iff intro: bit_imp_possible_bit)
  also have "\<dots> \<longleftrightarrow> \<not> bit b 7"
  proof
    assume "\<not> bit b 7"
    show "\<forall>n. bit b n \<longrightarrow> n < 7"
    proof (intro allI impI)
      fix n
      assume n: "bit b n"
      then have "n < 8" using bit_imp_le_length [OF n] by simp
      moreover have "n \<noteq> 7" using n \<open>\<not> bit b 7\<close> by metis
      ultimately show "n < 7" by simp
    qed
  qed blast
  finally have "b AND 0x80 = 0 \<longleftrightarrow> take_bit 7 b = b" by (simp only: low7_zero)
  also have "\<dots> \<longleftrightarrow> unat b < 128"
    by (simp add: word_unat_eq_iff unsigned_take_bit_eq take_bit_nat_eq_self_iff)
  finally show ?thesis .
qed

lemma low_bits_value: "unat ((b :: byte) AND 0x7F) = unat b mod 128"
proof -
  have "b AND 0x7F = take_bit 7 b"
    by (rule bit_word_eqI) (simp only: bit_and_iff bit_take_bit_iff bit_0x7F conj_commute)
  then show ?thesis
    by (simp only: unsigned_take_bit_eq) (simp add: take_bit_eq_mod)
qed

lemma join_bits:
  fixes v w :: "'a :: len word"
  assumes "unat v < 2 ^ k"
  shows "v OR push_bit k w = v + push_bit k w"
proof (rule disjunctive_add [symmetric])
  fix n
  have "\<not> bit v n" if "k \<le> n"
  proof -
    have "take_bit k v = v"
      using assms by (simp add: word_unat_eq_iff unsigned_take_bit_eq take_bit_nat_eq_self_iff)
    then show ?thesis using that by (metis bit_take_bit_iff not_le)
  qed
  then show "\<not> bit v n \<or> \<not> bit (push_bit k w) n"
    by (auto simp: bit_push_bit_iff)
qed

lemma low_bits_cases:
  "unat (b :: byte) < 128 \<Longrightarrow> unat b mod 128 = unat b"
  "\<not> unat (b :: byte) < 128 \<Longrightarrow> unat b mod 128 = unat b - 128"
proof -
  have "unat b < 256" using unsigned_less [of b] by simp
  then show "\<not> unat b < 128 \<Longrightarrow> unat b mod 128 = unat b - 128"
    by (simp add: mod_if)
qed simp

lemma low_bits_word: "ucast (b AND 0x7F :: byte) = (word_of_nat (unat b mod 128) :: 'a :: len word)"
  by (simp flip: low_bits_value)

lemma ReadVarint64_at_value:
  "ReadVarint64_at count bs =
     map_option (\<lambda>(n, r). (push_bit (7 * count) (word_of_nat n), r)) (varint_nat count bs)"
proof (induction count bs rule: varint_nat.induct)
  case (2 count b bs)
  have "push_bit (7 * count) (word_of_nat (unat b mod 128)) OR push_bit (7 * (count + 1)) (word_of_nat n :: u64) =
      push_bit (7 * count) (word_of_nat (unat b mod 128 + 128 * n))" for n
  proof -
    have "unat (word_of_nat (unat b mod 128) :: u64) < 2 ^ 7"
      by (simp add: unat_of_nat take_bit_eq_mod)
    then have "word_of_nat (unat b mod 128) OR push_bit 7 (word_of_nat n) =
        (word_of_nat (unat b mod 128) + push_bit 7 (word_of_nat n) :: u64)"
      by (rule join_bits)
    also have "\<dots> = word_of_nat (unat b mod 128 + 128 * n)"
      by (simp add: push_bit_eq_mult mult.commute)
    finally have "push_bit (7 * count) (word_of_nat (unat b mod 128) OR push_bit 7 (word_of_nat n) :: u64) =
        push_bit (7 * count) (word_of_nat (unat b mod 128 + 128 * n))"
      by (rule arg_cong)
    then show ?thesis
      by (simp only: push_bit_or push_bit_push_bit) (simp add: add.commute)
  qed
  note join = this
  show ?case
  proof (cases "count \<noteq> 10 \<and> \<not> unat b < 128")
    case True
    then have IH: "ReadVarint64_at (count + 1) bs =
        map_option (\<lambda>(n, r). (push_bit (7 * (count + 1)) (word_of_nat n), r)) (varint_nat (count + 1) bs)"
      using 2 by (simp only: high_bit_clear simp_thms)
    show ?thesis
    proof (cases "varint_nat (count + 1) bs")
      case None
      then show ?thesis
        using True IH by (simp only: ReadVarint64_at.simps varint_nat.simps high_bit_clear Let_def
            if_False option.map option.case simp_thms)
    next
      case (Some a)
      obtain n r where "a = (n, r)" by (cases a)
      then show ?thesis
        using True IH Some join [of n]
        by (simp only: ReadVarint64_at.simps varint_nat.simps high_bit_clear low_bits_word Let_def
            if_False option.map option.case prod.case simp_thms low_bits_cases)
    qed
  next
    case False
    then show ?thesis
      by (cases "count = 10")
        (simp_all only: ReadVarint64_at.simps varint_nat.simps high_bit_clear low_bits_word Let_def
          low_bits_cases option.map prod.case if_True if_False simp_thms)
  qed
qed simp

subsection \<open>The fast paths agree with the loops\<close>

text \<open>The test before a fast path, after \<open>count\<close> bytes have been read: no further byte lies behind the end.\<close>

definition enough_bytes :: "nat \<Rightarrow> byte list \<Rightarrow> bool" where
  "enough_bytes count ptr \<longleftrightarrow> 10 \<le> count + length ptr \<or> ptr \<noteq> [] \<and> last ptr AND 0x80 = 0"

lemma enough_bytes_next:
  "enough_bytes count ptr \<Longrightarrow> count < 10 \<Longrightarrow>
     \<exists>b r. ptr = b # r \<and> (b AND 0x80 \<noteq> 0 \<longrightarrow> enough_bytes (count + 1) r)"
  by (cases ptr) (auto simp: enough_bytes_def split: if_splits)

lemma add_byte_value:
  assumes "enough_bytes count ptr" and "count < 10"
    and "\<And>b r. b < 128 \<Longrightarrow> is_done (part + push_bit shift (word_of_nat b)) r = Inr (Some (F b, r))"
    and "\<And>b r. b < 128 \<Longrightarrow> enough_bytes (count + 1) r \<Longrightarrow>
      next (part + push_bit shift (word_of_nat b)) r =
        Inr (map_option (\<lambda>(n, r). (F (b + 128 * n), r)) (varint_nat (count + 1) r))"
  shows "add_byte shift is_done next part ptr =
    Inr (map_option (\<lambda>(n, r). (F n, r)) (varint_nat count ptr))"
proof -
  obtain b r where ptr: "ptr = b # r" and more: "b AND 0x80 \<noteq> 0 \<Longrightarrow> enough_bytes (count + 1) r"
    using enough_bytes_next [OF assms(1,2)] by blast
  have b: "unat b < 256" using unsigned_less [of b] by simp
  show ?thesis
  proof (cases "b AND 0x80 = 0")
    case True
    then show ?thesis
      using assms(2) assms(3) [of "unat b" r] by (simp add: ptr add_byte_def high_bit_clear)
  next
    case False
    then have big: "128 \<le> unat b" by (simp add: high_bit_clear)
    have "ucast b - 0x80 = (word_of_nat (unat b - 128) :: u32)"
      using big by (simp add: of_nat_diff)
    then have part: "part + push_bit shift (ucast b) - push_bit shift 0x80 =
        part + push_bit shift (word_of_nat (unat b - 128))"
      by (simp only: push_bit_eq_mult add_diff_eq [symmetric] left_diff_distrib [symmetric])
    have "unat b - 128 < 128" using b by simp
    note step = assms(4) [OF this more [OF False]]
    show ?thesis
    proof (cases "varint_nat (count + 1) r")
      case None
      then show ?thesis
        using step False assms(2) by (simp add: ptr add_byte_def part)
    next
      case (Some a)
      obtain n r' where "a = (n, r')" by (cases a)
      then show ?thesis
        using step Some False assms(2) by (simp add: ptr add_byte_def part)
    qed
  qed
qed

lemma skip_bytes_value:
  "enough_bytes count ptr \<Longrightarrow> n + count = 10 \<Longrightarrow>
     skip_bytes n result ptr = Inr (map_option (\<lambda>(_, r). (result, r)) (varint_nat count ptr))"
proof (induction n result ptr arbitrary: count rule: skip_bytes.induct)
  case (1 result ptr)
  then show ?case by (cases ptr) simp_all
next
  case (2 n result ptr)
  obtain b r where "ptr = b # r" and "b AND 0x80 \<noteq> 0 \<Longrightarrow> enough_bytes (count + 1) r"
    using enough_bytes_next [OF 2(2)] 2(3) by auto
  then show ?case
    using 2(1) [of b "count + 1" r] 2(3)
    by (cases "varint_nat (count + 1) r") auto
qed

lemma add_byte_32:
  assumes "enough_bytes count ptr" and "count < 10"
    and "\<And>part ptr. enough_bytes (count + 1) ptr \<Longrightarrow>
      next part ptr = Inr (map_option (\<lambda>(n, r). (part + word_of_nat (2 ^ (k + 7) * n), r)) (varint_nat (count + 1) ptr))"
  shows "add_byte k (\<lambda>result ptr. Inr (Some (result, ptr))) next part ptr =
    Inr (map_option (\<lambda>(n, r). (part + word_of_nat (2 ^ k * n), r)) (varint_nat count ptr))"
proof (rule add_byte_value [OF assms(1,2)])
  have "part + push_bit k (word_of_nat m) + word_of_nat (2 ^ (k + 7) * n) = part + word_of_nat (2 ^ k * (m + 128 * n))"
    for m n by (simp add: push_bit_eq_mult power_add algebra_simps)
  then show "next (part + push_bit k (word_of_nat b)) r =
      Inr (map_option (\<lambda>(n, r). (part + word_of_nat (2 ^ k * (b + 128 * n)), r)) (varint_nat (count + 1) r))"
    if "enough_bytes (count + 1) r" for b r
    by (simp only: assms(3) [OF that])
qed (simp add: push_bit_eq_mult mult.commute)

lemma ReadVarint32FromArray_value:
  assumes "fast_path (b # buffer)" and "\<not> b < 0x80"
  shows "ReadVarint32FromArray (ucast b) (b # buffer) =
    Inr (map_option (\<lambda>(n, r). (word_of_nat n, r)) (varint_nat 0 (b # buffer)))"
proof -
  have b: "\<not> unat b < 128" using assms(2) by (simp add: word_less_nat_alt)
  have enough: "enough_bytes 1 buffer"
    using assms(1) b by (auto simp: fast_path_def enough_bytes_def high_bit_clear split: if_splits)
  have zero: "(word_of_nat (2 ^ (28 + 7) * n) :: u32) = 0" for n
    by (simp only: word_of_nat_eq_0_iff) simp
  have high: "enough_bytes 5 ptr \<Longrightarrow> skip_bytes 5 part ptr =
      Inr (map_option (\<lambda>(n, r). (part + word_of_nat (2 ^ (28 + 7) * n), r)) (varint_nat 5 ptr))" for part ptr
    using skip_bytes_value [of 5 ptr 5 part] by (simp only: zero) simp
  let ?found = "\<lambda>result ptr. Inr (Some (result, ptr))"
  have b28: "enough_bytes 4 ptr \<Longrightarrow> add_byte 28 ?found (skip_bytes 5) part ptr =
      Inr (map_option (\<lambda>(n, r). (part + word_of_nat (2 ^ 28 * n), r)) (varint_nat 4 ptr))" for part ptr
    by (rule add_byte_32) (simp_all add: high)
  have b21: "enough_bytes 3 ptr \<Longrightarrow> add_byte 21 ?found (add_byte 28 ?found (skip_bytes 5)) part ptr =
      Inr (map_option (\<lambda>(n, r). (part + word_of_nat (2 ^ 21 * n), r)) (varint_nat 3 ptr))" for part ptr
    by (rule add_byte_32) (simp_all add: b28)
  have b14: "enough_bytes 2 ptr \<Longrightarrow>
      add_byte 14 ?found (add_byte 21 ?found (add_byte 28 ?found (skip_bytes 5))) part ptr =
      Inr (map_option (\<lambda>(n, r). (part + word_of_nat (2 ^ 14 * n), r)) (varint_nat 2 ptr))" for part ptr
    by (rule add_byte_32) (simp_all add: b21)
  have b7: "enough_bytes 1 ptr \<Longrightarrow>
      add_byte 7 ?found (add_byte 14 ?found (add_byte 21 ?found (add_byte 28 ?found (skip_bytes 5)))) part ptr =
      Inr (map_option (\<lambda>(n, r). (part + word_of_nat (2 ^ 7 * n), r)) (varint_nat 1 ptr))" for part ptr
    by (rule add_byte_32) (simp_all add: b14 [unfolded numeral_2_eq_2])
  show ?thesis
    using b b7 [OF enough, of "ucast b - 0x80"] high_bit_clear [of b]
    by (cases "varint_nat 1 buffer") (auto simp: ReadVarint32FromArray_def of_nat_diff)
qed

lemma word_of_nat_small: "n < 2 ^ 32 \<Longrightarrow> ucast (word_of_nat n :: u32) = (word_of_nat n :: u64)"
  by (simp add: word_unat_eq_iff unsigned_ucast_eq unat_of_nat take_bit_nat_eq_self)

lemma join_parts:
  assumes "p0 < 2 ^ 28" and "p1 < 2 ^ 28" and "p2 < 2 ^ 32"
  shows "(ucast (word_of_nat p0 :: u32) OR push_bit 28 (ucast (word_of_nat p1 :: u32)))
    OR push_bit 56 (ucast (word_of_nat p2 :: u32)) = (word_of_nat (p0 + 2 ^ 28 * p1 + 2 ^ 56 * p2) :: u64)"
proof -
  have small: "unat (word_of_nat p0 :: u64) < 2 ^ 28" "unat (word_of_nat (p0 + 2 ^ 28 * p1) :: u64) < 2 ^ 56"
    using assms(1,2) by (simp_all add: unat_of_nat take_bit_nat_eq_self del: of_nat_add of_nat_mult)
  have "ucast (word_of_nat p0 :: u32) OR push_bit 28 (ucast (word_of_nat p1 :: u32)) =
      (word_of_nat (p0 + 2 ^ 28 * p1) :: u64)"
    using assms(1,2) join_bits [OF small(1), of "word_of_nat p1"]
    by (simp add: word_of_nat_small push_bit_eq_mult mult.commute)
  then show ?thesis
    using assms join_bits [OF small(2), of "word_of_nat p2"]
    by (simp add: word_of_nat_small push_bit_eq_mult mult.commute)
qed

text \<open>
  One byte of the 64-bit reader: \<open>S\<close> is the value of the parts before, \<open>B\<close> the weight of the current
  one.
\<close>

lemma add_byte_64:
  fixes S B :: nat
  assumes "enough_bytes count ptr" and "count < 10" and "p < 2 ^ k"
    and "\<And>q r. q < 2 ^ (k + 7) \<Longrightarrow> is_done (word_of_nat q) r = Inr (Some (word_of_nat (S + B * q), r))"
    and "\<And>q ptr. q < 2 ^ (k + 7) \<Longrightarrow> enough_bytes (count + 1) ptr \<Longrightarrow> next (word_of_nat q) ptr =
      Inr (map_option (\<lambda>(n, r). (word_of_nat (S + B * (q + 2 ^ (k + 7) * n)), r)) (varint_nat (count + 1) ptr))"
  shows "add_byte k is_done next (word_of_nat p) ptr =
    Inr (map_option (\<lambda>(n, r). (word_of_nat (S + B * (p + 2 ^ k * n)) :: u64, r)) (varint_nat count ptr))"
proof (rule add_byte_value [OF assms(1,2)])
  have part: "word_of_nat p + push_bit k (word_of_nat b) = (word_of_nat (p + 2 ^ k * b) :: u32)" for b
    by (simp add: push_bit_eq_mult mult.commute)
  have less: "p + 2 ^ k * b < 2 ^ (k + 7)" if "b < 128" for b
  proof -
    have "2 ^ k * b \<le> 2 ^ k * 127" by (rule mult_le_mono2) (use that in simp)
    moreover have "2 ^ (k + 7) = 2 ^ k * (128 :: nat)" by (simp add: power_add)
    ultimately show ?thesis using assms(3) by linarith
  qed
  show "is_done (word_of_nat p + push_bit k (word_of_nat b)) r =
      Inr (Some (word_of_nat (S + B * (p + 2 ^ k * b)), r))" if "b < 128" for b r
    unfolding part by (rule assms(4) [OF less [OF that]])
  have sum: "p + 2 ^ k * b + 2 ^ (k + 7) * n = p + 2 ^ k * (b + 128 * n)" for b n
    by (simp add: power_add algebra_simps)
  show "next (word_of_nat p + push_bit k (word_of_nat b)) r =
      Inr (map_option (\<lambda>(n, r). (word_of_nat (S + B * (p + 2 ^ k * (b + 128 * n))), r)) (varint_nat (count + 1) r))"
    if "b < 128" and "enough_bytes (count + 1) r" for b r
    unfolding part assms(5) [OF less [OF that(1)] that(2)] sum ..
qed

lemma enough_fast: "fast_path buffer = enough_bytes 0 buffer"
  by (simp add: fast_path_def enough_bytes_def)

lemma ReadVarint64Fallback_loop: "ReadVarint64Fallback buffer = Inr (ReadVarint64 buffer)"
proof (cases "fast_path buffer")
  case True
  define found :: "u32 \<Rightarrow> u32 \<Rightarrow> u32 \<Rightarrow> byte list \<Rightarrow> (u64 \<times> byte list) option res" where
    "found = (\<lambda>part0 part1 part2 ptr.
       Inr (Some ((ucast part0 OR push_bit 28 (ucast part1)) OR push_bit 56 (ucast part2), ptr)))"
  have found: "found (word_of_nat p0) (word_of_nat p1) (word_of_nat p2) ptr =
      Inr (Some (word_of_nat (p0 + 2 ^ 28 * p1 + 2 ^ 56 * p2), ptr))"
    if "p0 < 2 ^ 28" "p1 < 2 ^ 28" "p2 < 2 ^ 32" for p0 p1 p2 ptr
    unfolding found_def using join_parts [OF that] by simp
  define last2 where "last2 = (\<lambda>part0 part1.
      add_byte 0 (found part0 part1) (add_byte 7 (found part0 part1) (\<lambda>part2 ptr. Inr None)))"
  have none: "varint_nat 10 ptr = None" for ptr by (cases ptr) simp_all
  have last2: "last2 (word_of_nat p0) (word_of_nat p1) 0 ptr =
      Inr (map_option (\<lambda>(n, r). (word_of_nat (p0 + 2 ^ 28 * p1 + 2 ^ 56 * n), r)) (varint_nat 8 ptr))"
    if "p0 < 2 ^ 28" "p1 < 2 ^ 28" "enough_bytes 8 ptr" for p0 p1 ptr
  proof -
    have 1: "add_byte 7 (found (word_of_nat p0) (word_of_nat p1)) (\<lambda>part2 ptr. Inr None) (word_of_nat q) ptr =
        Inr (map_option (\<lambda>(n, r). (word_of_nat ((p0 + 2 ^ 28 * p1) + 2 ^ 56 * (q + 2 ^ 7 * n)), r)) (varint_nat 9 ptr))"
      if "q < 2 ^ 7" "enough_bytes 9 ptr" for q ptr
      by (rule add_byte_64)
        (use that found [OF \<open>p0 < 2 ^ 28\<close> \<open>p1 < 2 ^ 28\<close>] in \<open>simp_all add: none del: of_nat_add of_nat_mult\<close>)
    have "last2 (word_of_nat p0) (word_of_nat p1) (word_of_nat 0) ptr =
      Inr (map_option (\<lambda>(n, r). (word_of_nat (p0 + 2 ^ 28 * p1 + 2 ^ 56 * (0 + 2 ^ 0 * n)), r)) (varint_nat 8 ptr))"
      unfolding last2_def
      by (rule add_byte_64)
        (use that found [OF \<open>p0 < 2 ^ 28\<close> \<open>p1 < 2 ^ 28\<close>] 1 in \<open>simp_all del: of_nat_add of_nat_mult\<close>)
    then show ?thesis by simp
  qed
  define last1 where "last1 = (\<lambda>part0.
      add_byte 0 (\<lambda>part1. found part0 part1 0) (add_byte 7 (\<lambda>part1. found part0 part1 0)
        (add_byte 14 (\<lambda>part1. found part0 part1 0) (add_byte 21 (\<lambda>part1. found part0 part1 0)
          (\<lambda>part1. last2 part0 part1 0)))))"
  have last1: "last1 (word_of_nat p0) 0 ptr =
      Inr (map_option (\<lambda>(n, r). (word_of_nat (p0 + 2 ^ 28 * n), r)) (varint_nat 4 ptr))"
    if p0: "p0 < 2 ^ 28" and "enough_bytes 4 ptr" for p0 ptr
  proof -
    let ?f = "\<lambda>part1. found (word_of_nat p0) part1 0"
    let ?R = "\<lambda>count k q ptr. Inr (map_option
        (\<lambda>(n, r). (word_of_nat (p0 + 2 ^ 28 * (q + 2 ^ k * n)) :: u64, r)) (varint_nat count ptr))"
    have f: "?f (word_of_nat q) r = Inr (Some (word_of_nat (p0 + 2 ^ 28 * q), r))" if "q < 2 ^ 28" for q r
      using found [OF p0 that, of 0 r] by simp
    have 4: "add_byte 21 ?f (\<lambda>part1. last2 (word_of_nat p0) part1 0) (word_of_nat q) ptr = ?R 7 21 q ptr"
      if "q < 2 ^ 21" "enough_bytes 7 ptr" for q ptr
      by (rule add_byte_64)
        (use that f last2 [OF p0] in \<open>simp_all add: distrib_left add.assoc del: of_nat_add of_nat_mult\<close>)
    have 3: "add_byte 14 ?f (add_byte 21 ?f (\<lambda>part1. last2 (word_of_nat p0) part1 0)) (word_of_nat q) ptr =
        ?R 6 14 q ptr" if "q < 2 ^ 14" "enough_bytes 6 ptr" for q ptr
      by (rule add_byte_64) (use that f 4 in \<open>simp_all del: of_nat_add of_nat_mult\<close>)
    have 2: "add_byte 7 ?f (add_byte 14 ?f (add_byte 21 ?f (\<lambda>part1. last2 (word_of_nat p0) part1 0))) (word_of_nat q) ptr =
        ?R 5 7 q ptr" if "q < 2 ^ 7" "enough_bytes 5 ptr" for q ptr
      by (rule add_byte_64) (use that f 3 in \<open>simp_all del: of_nat_add of_nat_mult\<close>)
    have "last1 (word_of_nat p0) (word_of_nat 0) ptr = ?R 4 0 0 ptr"
      unfolding last1_def
      by (rule add_byte_64) (use that f 2 in \<open>simp_all del: of_nat_add of_nat_mult\<close>)
    then show ?thesis by simp
  qed
  let ?f = "\<lambda>part0. found part0 0 0"
  let ?R = "\<lambda>count k q ptr. Inr (map_option
      (\<lambda>(n, r). (word_of_nat (0 + 1 * (q + 2 ^ k * n)) :: u64, r)) (varint_nat count ptr))"
  have f: "?f (word_of_nat q) r = Inr (Some (word_of_nat (0 + 1 * q), r))" if "q < 2 ^ 28" for q r
    using found [OF that, of 0 0 r] by simp
  have 4: "add_byte 21 ?f (\<lambda>part0. last1 part0 0) (word_of_nat q) ptr = ?R 3 21 q ptr"
    if "q < 2 ^ 21" "enough_bytes 3 ptr" for q ptr
    by (rule add_byte_64) (use that f last1 in \<open>simp_all del: of_nat_add of_nat_mult\<close>)
  have 3: "add_byte 14 ?f (add_byte 21 ?f (\<lambda>part0. last1 part0 0)) (word_of_nat q) ptr = ?R (Suc (Suc 0)) 14 q ptr"
    if "q < 2 ^ 14" "enough_bytes (Suc (Suc 0)) ptr" for q ptr
    by (rule add_byte_64) (use that f 4 in \<open>simp_all add: numeral_3_eq_3 del: of_nat_add of_nat_mult\<close>)
  have 2: "add_byte 7 ?f (add_byte 14 ?f (add_byte 21 ?f (\<lambda>part0. last1 part0 0))) (word_of_nat q) ptr = ?R 1 7 q ptr"
    if "q < 2 ^ 7" "enough_bytes 1 ptr" for q ptr
    by (rule add_byte_64) (use that f 3 in \<open>simp_all del: of_nat_add of_nat_mult\<close>)
  have "ReadVarint64Fallback buffer = add_byte 0 ?f (add_byte 7 ?f (add_byte 14 ?f (add_byte 21 ?f
      (\<lambda>part0. last1 part0 0)))) (word_of_nat 0) buffer"
    using True by (simp add: ReadVarint64Fallback_def Let_def found_def last1_def last2_def)
  also have "\<dots> = ?R 0 0 0 buffer"
    by (rule add_byte_64) (use True [unfolded enough_fast] f 2 in \<open>simp_all del: of_nat_add of_nat_mult\<close>)
  finally show ?thesis
    by (simp add: ReadVarint64_def ReadVarint64_at_value)
qed (simp add: ReadVarint64Fallback_def ReadVarint64_def)

lemma byte_up:
  "unat (ucast (b :: byte) :: u32) = unat b" "ucast (ucast b :: u64) = (ucast b :: u32)"
  "b AND 0x80 \<noteq> 0 \<Longrightarrow> (ucast b :: u32) \<noteq> 0"
proof -
  have "unat b < 256" using unsigned_less [of b] by simp
  then show u: "unat (ucast b :: u32) = unat b"
    by (simp add: unsigned_ucast_eq take_bit_nat_eq_self)
  show "ucast (ucast b :: u64) = (ucast b :: u32)"
    by (rule bit_word_eqI) (auto simp: bit_unsigned_iff dest: bit_imp_le_length)
  show "b AND 0x80 \<noteq> 0 \<Longrightarrow> (ucast b :: u32) \<noteq> 0"
    using u by (auto simp: high_bit_clear)
qed

lemma small_byte: "(b :: byte) < 0x80 \<longleftrightarrow> b AND 0x80 = 0" "(ucast (b :: byte) :: u32) < 0x80 \<longleftrightarrow> b AND 0x80 = 0"
  by (simp_all add: high_bit_clear word_less_nat_alt byte_up)

lemma ReadVarint64_one_byte: "b AND 0x80 = 0 \<Longrightarrow> ReadVarint64 (b # r) = Some (ucast b, r)"
  by (simp add: ReadVarint64_def ReadVarint64_at_value)

theorem ReadVarint64_inline_loop: "ReadVarint64_inline buffer = Inr (ReadVarint64 buffer)"
  by (cases buffer)
    (auto simp: ReadVarint64_inline_def ReadVarint64Fallback_loop small_byte ReadVarint64_one_byte)

lemma ReadVarint32_value:
  "ReadVarint32 bs = map_option (\<lambda>(n, r). (word_of_nat n, r)) (varint_nat 0 bs)"
proof -
  have "ucast (word_of_nat n :: u64) = (word_of_nat n :: u32)" for n
    by (rule bit_word_eqI) (auto simp: bit_unsigned_iff bit_of_nat_iff)
  then show ?thesis
    by (cases "varint_nat 0 bs") (auto simp: ReadVarint32_def ReadVarint64_def ReadVarint64_at_value)
qed

lemma FromArray_loop:
  assumes "fast_path (b # buffer)" and "b AND 0x80 \<noteq> 0"
  shows "ReadVarint32FromArray (ucast b) (b # buffer) = Inr (ReadVarint32 (b # buffer))"
  using ReadVarint32FromArray_value [OF assms(1)] assms(2) by (simp add: small_byte ReadVarint32_value)

theorem ReadVarint32_inline_loop: "ReadVarint32_inline buffer = Inr (ReadVarint32 buffer)"
proof (cases buffer)
  case (Cons b r)
  show ?thesis
  proof (cases "b AND 0x80 = 0")
    case True
    then show ?thesis
      by (simp add: Cons ReadVarint32_inline_def small_byte byte_up ReadVarint32_def ReadVarint64_one_byte)
  next
    case False
    then show ?thesis
      by (simp add: Cons ReadVarint32_inline_def small_byte FromArray_loop ReadVarint64Fallback_loop
          ReadVarint32_def)
  qed
qed (simp add: ReadVarint32_inline_def fast_path_def ReadVarint64Fallback_loop ReadVarint32_def)

text \<open>
  A failure is a tag of zero, after which the parser stops and the position is not used any more.
\<close>

theorem ReadTag_inline_loop: "ReadTag_inline buffer = Inr (ReadTag buffer)"
proof (cases buffer)
  case (Cons b r)
  show ?thesis
  proof (cases "b AND 0x80 = 0")
    case True
    then show ?thesis
      by (simp add: Cons ReadTag_inline_def small_byte byte_up ReadTag_def ReadVarint32_def ReadVarint64_one_byte)
  next
    case False
    then show ?thesis
      using byte_up(3) [of b] by (auto simp: Cons ReadTag_inline_def ReadTagFallback_def ReadTagSlow_def small_byte
          FromArray_loop ReadVarint64_inline_loop
          ReadTag_def ReadVarint32_def Let_def split: option.split)
  qed
qed (simp add: ReadTag_inline_def fast_path_def ReadTagFallback_def ReadTag_def ReadVarint32_def ReadVarint64_def)

subsection \<open>Writing\<close>

function WriteVarint32ToArray :: "u32 \<Rightarrow> byte list" where
  "WriteVarint32ToArray value =
     (if 0x80 \<le> value then (ucast (value OR 0x80)) # WriteVarint32ToArray (drop_bit 7 value)
      else [ucast value])"
  by pat_completeness auto
termination
proof (relation "measure unat")
  fix v :: u32
  assume "0x80 \<le> v"
  then have "0 < unat v" by (simp add: word_le_nat_alt)
  then show "(drop_bit 7 v, v) \<in> measure unat"
    by (simp only: in_measure unat_drop_bit_eq) (simp add: drop_bit_eq_div)
qed simp

declare WriteVarint32ToArray.simps [simp del]

text \<open>The jump to \<open>size<n>\<close> falls through the stores below it; then the last byte loses its top bit.\<close>

definition WriteVarint64ToArrayInline :: "u64 \<Rightarrow> byte list" where
  "WriteVarint64ToArrayInline value =
     (let part0 = ucast value :: u32; part1 = ucast (drop_bit 28 value) :: u32;
          part2 = ucast (drop_bit 56 value) :: u32;
          size = (if part2 = 0 then
                    if part1 = 0 then
                      if part0 < 2 ^ 14 then (if part0 < 2 ^ 7 then 1 else 2)
                      else (if part0 < 2 ^ 21 then 3 else 4)
                    else
                      if part1 < 2 ^ 14 then (if part1 < 2 ^ 7 then 5 else 6)
                      else (if part1 < 2 ^ 21 then 7 else 8)
                  else if part2 < 2 ^ 7 then 9 else 10);
          target = take size
            [ucast (part0 OR 0x80), ucast (drop_bit 7 part0 OR 0x80),
             ucast (drop_bit 14 part0 OR 0x80), ucast (drop_bit 21 part0 OR 0x80),
             ucast (part1 OR 0x80), ucast (drop_bit 7 part1 OR 0x80),
             ucast (drop_bit 14 part1 OR 0x80), ucast (drop_bit 21 part1 OR 0x80),
             ucast (part2 OR 0x80), ucast (drop_bit 7 part2 OR 0x80)]
      in target[size - 1 := target ! (size - 1) AND 0x7F])"

definition seven_bits :: "u64 \<Rightarrow> nat \<Rightarrow> byte" where
  "seven_bits v i = ucast (drop_bit (7 * i) v) OR 0x80"

lemma bit_seven_bits: "bit (seven_bits v i) n \<longleftrightarrow> n = 7 \<or> n < 7 \<and> bit v (7 * i + n)"
  unfolding seven_bits_def bit_or_iff bit_0x80 bit_unsigned_iff bit_drop_bit_eq
  by (auto simp: less_Suc_eq numeral_eq_Suc dest: bit_imp_le_length)

lemma WriteVarint64_bytes:
  "n = varint_len (unat v) \<Longrightarrow>
     WriteVarint64 v = (map (seven_bits v) [0..<n])[n - 1 := seven_bits v (n - 1) AND 0x7F]"
proof (induction v arbitrary: n rule: WriteVarint64.induct)
  case (1 v)
  have lt: "v < 0x80 \<longleftrightarrow> unat v < 128" by (simp add: word_less_nat_alt)
  show ?case
  proof (cases "v < 0x80")
    case True
    have "seven_bits v 0 AND 0x7F = ucast v"
      by (rule bit_word_eqI)
        (use small_no_bit7 [OF True] in
          \<open>auto simp only: bit_and_iff bit_seven_bits bit_0x7F bit_unsigned_iff mult_0_right add_0 possible_bit_word\<close>)
    then show ?thesis
      using True lt 1(2) by (simp add: WriteVarint64.simps [of v] varint_len.simps [of "unat v"])
  next
    case False
    let ?w = "drop_bit 7 v"
    define k where "k = varint_len (unat ?w)"
    have n: "n = Suc k"
      using False lt 1(2) by (simp add: k_def varint_len.simps [of "unat v"] unat_drop7 del: unat_drop_bit_eq)
    have k: "0 < k" unfolding k_def by (subst varint_len.simps) simp
    have shift: "seven_bits ?w i = seven_bits v (Suc i)" for i
      by (rule bit_word_eqI) (auto simp: bit_seven_bits bit_drop_bit_eq algebra_simps)
    have "WriteVarint64 v = seven_bits v 0 # WriteVarint64 ?w"
      using False by (simp add: WriteVarint64.simps [of v] seven_bits_def)
    also have "WriteVarint64 ?w = (map (\<lambda>i. seven_bits v (Suc i)) [0..<k])[k - 1 := seven_bits v k AND 0x7F]"
      using 1(1) [OF False k_def] k by (simp add: shift)
    also have "seven_bits v 0 # \<dots> = (map (seven_bits v) [0..<n])[n - 1 := seven_bits v (n - 1) AND 0x7F]"
      using k by (cases k) (simp_all add: n map_upt_Suc del: upt_Suc)
    finally show ?thesis .
  qed
qed

lemma seven_bits_part:
  assumes "7 * i = s + j" and "j \<le> 21"
  shows "ucast (drop_bit j (ucast (drop_bit s v) :: u32) OR 0x80) = seven_bits v i"
proof (rule bit_word_eqI)
  fix n
  assume "n < LENGTH(8)"
  then have n: "n = 7 \<or> n < 7" by auto
  have "(0x80 :: u32) = 2 ^ 7" by simp
  then have "bit (0x80 :: u32) n \<longleftrightarrow> n = 7" by (simp only: bit_exp_iff) auto
  then show "bit (ucast (drop_bit j (ucast (drop_bit s v) :: u32) OR 0x80) :: byte) n = bit (seven_bits v i) n"
    using n assms
    by (auto simp: bit_seven_bits bit_unsigned_iff bit_or_iff bit_drop_bit_eq add.assoc)
qed

lemma part_values:
  "unat (ucast v :: u32) = unat v mod 2 ^ 32"
  "unat (ucast (drop_bit 28 v) :: u32) = unat v div 2 ^ 28 mod 2 ^ 32"
  "unat (ucast (drop_bit 56 v) :: u32) = unat v div 2 ^ 56" for v :: u64
proof -
  have drop: "unat (drop_bit k v) = unat v div 2 ^ k" for k
    by (simp only: unat_drop_bit_eq) (simp add: drop_bit_eq_div)
  show "unat (ucast v :: u32) = unat v mod 2 ^ 32"
    and "unat (ucast (drop_bit 28 v) :: u32) = unat v div 2 ^ 28 mod 2 ^ 32"
    by (simp_all only: unsigned_ucast_eq take_bit_eq_mod drop) simp_all
  have "unat v div 2 ^ 56 < 2 ^ 32"
    using unat_bounds(1) [of v] by (simp add: less_mult_imp_div_less)
  then show "unat (ucast (drop_bit 56 v) :: u32) = unat v div 2 ^ 56"
    by (simp only: unsigned_ucast_eq take_bit_eq_mod drop) simp
qed

theorem WriteVarint64ToArrayInline_loop: "WriteVarint64ToArrayInline v = WriteVarint64 v"
proof -
  define n where "n = varint_len (unat v)"
  have ten: "[0..<10] = [0 :: nat, 1, 2, 3, 4, 5, 6, 7, 8, 9]"
    by (simp add: upt_rec)
  have bytes: "[ucast ((ucast v :: u32) OR 0x80), ucast (drop_bit 7 (ucast v :: u32) OR 0x80),
      ucast (drop_bit 14 (ucast v :: u32) OR 0x80), ucast (drop_bit 21 (ucast v :: u32) OR 0x80),
      ucast ((ucast (drop_bit 28 v) :: u32) OR 0x80), ucast (drop_bit 7 (ucast (drop_bit 28 v) :: u32) OR 0x80),
      ucast (drop_bit 14 (ucast (drop_bit 28 v) :: u32) OR 0x80), ucast (drop_bit 21 (ucast (drop_bit 28 v) :: u32) OR 0x80),
      ucast ((ucast (drop_bit 56 v) :: u32) OR 0x80), ucast (drop_bit 7 (ucast (drop_bit 56 v) :: u32) OR 0x80)] =
    map (seven_bits v) [0..<10]"
    unfolding ten
    using seven_bits_part [of 0 0 0 v] seven_bits_part [of 1 0 7 v] seven_bits_part [of 2 0 14 v]
      seven_bits_part [of 3 0 21 v] seven_bits_part [of 4 28 0 v] seven_bits_part [of 5 28 7 v]
      seven_bits_part [of 6 28 14 v] seven_bits_part [of 7 28 21 v] seven_bits_part [of 8 56 0 v]
      seven_bits_part [of 9 56 7 v]
    by simp
  let ?p0 = "ucast v :: u32" and ?p1 = "ucast (drop_bit 28 v) :: u32" and ?p2 = "ucast (drop_bit 56 v) :: u32"
  define size where "size = (if ?p2 = 0 then
                    if ?p1 = 0 then
                      if ?p0 < 2 ^ 14 then (if ?p0 < 2 ^ 7 then 1 else 2)
                      else (if ?p0 < 2 ^ 21 then 3 else 4)
                    else
                      if ?p1 < 2 ^ 14 then (if ?p1 < 2 ^ 7 then 5 else 6)
                      else (if ?p1 < 2 ^ 21 then 7 else 8)
                  else if ?p2 < 2 ^ 7 then 9 else (10 :: nat))"
  have n_eq: "n = VarintSize64 v"
    by (simp add: n_def VarintSize64_eq length_WriteVarint64)
  let ?m = "unat v"
  have p2: "?p2 = 0 \<longleftrightarrow> ?m < 2 ^ 56" "?p2 < 2 ^ 7 \<longleftrightarrow> ?m < 2 ^ 63"
    unfolding word_unat_eq_iff word_less_nat_alt part_values(3)
    using div_less_iff_less_mult [of "2 ^ 56" ?m "2 ^ 7"] by (simp_all add: div_eq_0_iff)
  have p1: "?p1 = 0 \<longleftrightarrow> ?m < 2 ^ 28" "?p1 < 2 ^ 7 \<longleftrightarrow> ?m < 2 ^ 35" "?p1 < 2 ^ 14 \<longleftrightarrow> ?m < 2 ^ 42"
    "?p1 < 2 ^ 21 \<longleftrightarrow> ?m < 2 ^ 49" if "?m < 2 ^ 56"
  proof -
    have "unat ?p1 = ?m div 2 ^ 28"
      unfolding part_values(2) using that by (simp add: less_mult_imp_div_less)
    then show "?p1 = 0 \<longleftrightarrow> ?m < 2 ^ 28" "?p1 < 2 ^ 7 \<longleftrightarrow> ?m < 2 ^ 35" "?p1 < 2 ^ 14 \<longleftrightarrow> ?m < 2 ^ 42"
      "?p1 < 2 ^ 21 \<longleftrightarrow> ?m < 2 ^ 49"
      unfolding word_unat_eq_iff word_less_nat_alt
      using div_less_iff_less_mult [of "2 ^ 28" ?m "2 ^ 7"] div_less_iff_less_mult [of "2 ^ 28" ?m "2 ^ 14"]
        div_less_iff_less_mult [of "2 ^ 28" ?m "2 ^ 21"]
      by (simp_all add: div_eq_0_iff)
  qed
  have p0: "?p0 < 2 ^ 7 \<longleftrightarrow> ?m < 2 ^ 7" "?p0 < 2 ^ 14 \<longleftrightarrow> ?m < 2 ^ 14" "?p0 < 2 ^ 21 \<longleftrightarrow> ?m < 2 ^ 21"
    if "?m < 2 ^ 28"
    unfolding word_less_nat_alt part_values(1) using that by simp_all
  have size: "size = n"
    unfolding n_eq size_def VarintSize64_def word_less_nat_alt [of v]
    using p2 p1 p0 by auto
  have n: "0 < n" "n \<le> 10" unfolding n_eq VarintSize64_def by simp_all
  have "WriteVarint64ToArrayInline v = (let target = take size (map (seven_bits v) [0..<10])
      in target[size - 1 := target ! (size - 1) AND 0x7F])"
    by (simp only: WriteVarint64ToArrayInline_def Let_def bytes size_def)
  also have "\<dots> = (map (seven_bits v) [0..<n])[n - 1 := seven_bits v (n - 1) AND 0x7F]"
    using n by (simp add: size take_map)
  finally show ?thesis using WriteVarint64_bytes [OF n_def] by simp
qed

theorem WriteVarint32ToArray_loop: "WriteVarint32ToArray v = WriteVarint32 v"
proof -
  have "WriteVarint32ToArray v = WriteVarint64 (ucast v)" 
  proof (induction v rule: WriteVarint32ToArray.induct)
    case (1 v)
    have "(ucast v :: u64) < 0x80 \<longleftrightarrow> \<not> 0x80 \<le> v"
      using unat_bounds(2) [of v]
      by (simp add: word_less_nat_alt word_le_nat_alt unsigned_ucast_eq not_le take_bit_nat_eq_self)
    moreover have "ucast (drop_bit 7 v) = drop_bit 7 (ucast v :: u64)"
      by (rule bit_word_eqI) (auto simp: bit_simps dest: bit_imp_le_length)
    moreover have "(ucast (v OR 0x80) :: byte) = ucast (ucast v :: u64) OR 0x80"
      by (rule bit_word_eqI) (auto simp: bit_simps)
    moreover have "(ucast v :: byte) = ucast (ucast v :: u64)"
      by (rule bit_word_eqI) (auto simp: bit_simps)
    ultimately show ?case
      using 1 by (simp add: WriteVarint32ToArray.simps [of v] WriteVarint64.simps [of "ucast v"])
  qed
  then show ?thesis by (simp add: WriteVarint32_def)
qed

end
