(* ===== verification/GenParser.thy ===== *)
theory GenParser
  imports Protobuf VarintFast
begin

text \<open>
  The parser of a message with the control flow of the generated \<open>MergePartialFromCodedStream\<close>
  (src/Server/protobuf/NetMessage.pb.cc): the tag is read against a cutoff, the \<open>switch\<close> goes by the
  number of the field, and the code behind every field expects the tag of the next one and jumps into
  the middle of its case when it comes. The theory shows that all this reads the same
  messages as the loop \<open>MergePartial\<close>.
\<close>

subsection \<open>Reading a tag\<close>

text \<open>
  \<open>ReadTagWithCutoff\<close>: the tag, whether it may be one of a known field, and the bytes behind it. The
  third path is the one of \<open>ReadTag\<close>.
\<close>

definition ReadTagWithCutoff :: "u32 \<Rightarrow> byte list \<Rightarrow> u32 \<times> bool \<times> byte list" where
  "ReadTagWithCutoff cutoff bs =
     (let slow = (case ReadTag bs of (tag, r) \<Rightarrow> (tag, tag - 1 < cutoff, r)) in
      case bs of
        [] \<Rightarrow> slow
      | b # r \<Rightarrow>
          if 0 < sint b then (ucast b, 0x7F \<le> cutoff \<or> ucast b \<le> cutoff, r)
          else (case r of
            [] \<Rightarrow> slow
          | c # r' \<Rightarrow>
              if 0x80 \<le> cutoff \<and> 0x80 \<le> (b AND NOT c) then
                let tag = 2 ^ 7 * ucast c + (ucast b - 0x80)
                in (tag, 0x3FFF \<le> cutoff \<or> tag \<le> cutoff, r')
              else slow))"

text \<open>The cutoff protoc writes into the code of a message: its largest tag, rounded up.\<close>

fun max_tag :: "pb_schema \<Rightarrow> u32" where
  "max_tag [] = 0"
| "max_tag (f # fs) = max (field_tag f) (max_tag fs)"

definition tag_cutoff :: "pb_schema \<Rightarrow> u32" where
  "tag_cutoff sch =
     (if max_tag sch \<le> 0x7F then 0x7F else if max_tag sch \<le> 0x3FFF then 0x3FFF else max_tag sch)"

subsection \<open>The labels of the code\<close>

text \<open>
  Where the code goes on: at the top of the loop, at the label of a field (with the
  fields that follow it in the code), at the inner label of a repeated message field, behind its check of
  the depth, or at the end.
\<close>

datatype label =
    L_loop
  | L_parse "nat \<times> pb_type" pb_schema
  | L_parse_loop "nat \<times> pb_type" pb_schema
  | L_success

text \<open>The code behind a field: \<open>ExpectTag\<close> of the next one, or \<open>ExpectAtEnd\<close> behind the last.\<close>

fun after_field :: "pb_schema \<Rightarrow> byte list \<Rightarrow> label \<times> byte list" where
  "after_field [] bs = (if bs = [] then (L_success, bs) else (L_loop, bs))"
| "after_field (g # fs) bs =
     (case ExpectTag (field_tag g) bs of Some r \<Rightarrow> (L_parse g fs, r) | None \<Rightarrow> (L_loop, bs))"

definition fields_from :: "nat \<Rightarrow> pb_schema \<Rightarrow> pb_schema" where
  "fields_from n sch = dropWhile (\<lambda>f. fst f \<noteq> n) sch"

text \<open>
  A result is the message, the bytes that are left, and whether the code stopped at the end of the
  message; \<open>None\<close> is the jump to \<open>failure\<close>. A sub-message must end where its bytes end.
\<close>

fun RunCode :: "nat \<Rightarrow> nat \<Rightarrow> pb_schema \<Rightarrow> label \<Rightarrow> pb_msg \<Rightarrow> byte list \<Rightarrow> (pb_msg \<times> byte list \<times> bool) option" where
  "RunCode 0 depth sch label m bs = None"
| "RunCode (Suc fuel) depth sch L_success m bs = Some (m, bs, True)"
| "RunCode (Suc fuel) depth sch (L_parse f fs) m bs =
     (if sub_schema (snd f) \<noteq> None then
        if depth = 0 then None else RunCode fuel depth sch (L_parse_loop f fs) m bs
      else case read_field f bs m of
             None \<Rightarrow> None
           | Some (m', r) \<Rightarrow> (case after_field fs r of (label, r') \<Rightarrow> RunCode fuel depth sch label m' r'))"
| "RunCode (Suc fuel) depth sch (L_parse_loop f fs) m bs =
     (case ReadLengthAndPushLimit bs of (body, r) \<Rightarrow>
        case RunCode fuel (depth - 1) (the (sub_schema (snd f))) L_loop pb_new body of
          Some (x, _, True) \<Rightarrow>
            (case ExpectTag (field_tag f) r of
               Some r' \<Rightarrow> RunCode fuel depth sch (L_parse_loop f fs) (add_message (fst f) x m) r'
             | None \<Rightarrow>
                 (case after_field fs r of
                    (label, r') \<Rightarrow> RunCode fuel depth sch label (add_message (fst f) x m) r'))
        | _ \<Rightarrow> None)"
| "RunCode (Suc fuel) depth sch L_loop m bs =
     (case ReadTagWithCutoff (tag_cutoff sch) bs of (tag, below, r) \<Rightarrow>
        let handle_unusual =
              (if tag = 0 \<or> GetTagWireType tag = 4 then Some (m, r, bs = [])
               else case SkipField (2 * length bs) depth tag r of
                      None \<Rightarrow> None
                    | Some (u, r') \<Rightarrow> RunCode fuel depth sch L_loop (add_unknown u m) r')
        in if \<not> below then handle_unusual
           else case fields_from (GetTagFieldNumber tag) sch of
             [] \<Rightarrow> handle_unusual
           | f # fs \<Rightarrow>
               if tag = field_tag f then RunCode fuel depth sch (L_parse f fs) m r
               else if snd f = PB_packed_uint32 \<and> tag = MakeTag (fst f) 0 then
                 (case ReadRepeatedPrimitive (field_tag f) (length (get_packed (fst f) m)) r of
                    None \<Rightarrow> None
                  | Some (ws, r') \<Rightarrow>
                      (case after_field fs r' of
                         (label, r'') \<Rightarrow> RunCode fuel depth sch label (add_packed (fst f) ws m) r''))
               else handle_unusual)"

declare RunCode.simps(2-) [simp del]

text \<open>The caller checks that the message ended where the input ended.\<close>

fun accepted :: "(pb_msg \<times> byte list \<times> bool) option \<Rightarrow> pb_msg option" where
  "accepted (Some (m, r, True)) = Some m"
| "accepted _ = None"

definition GeneratedParse :: "pb_schema \<Rightarrow> byte list \<Rightarrow> pb_msg option" where
  "GeneratedParse sch bs = accepted (RunCode (3 * length bs + 1) 100 sch L_loop pb_new bs)"

subsection \<open>Tags\<close>

lemma ExpectTag_WriteVarint32: "ExpectTag tag bs = Some r \<Longrightarrow> bs = WriteVarint32 tag @ r"
proof -
  assume e: "ExpectTag tag bs = Some r"
  show "bs = WriteVarint32 tag @ r"
  proof (cases "tag < 2 ^ 7")
    case True
    then show ?thesis
      using e by (auto simp: ExpectTag_def WriteVarint32ToArray.simps [of tag] not_le
          simp flip: WriteVarint32ToArray_loop split: list.splits if_splits)
  next
    case False
    then have tag: "tag < 2 ^ 14" using e by (auto simp: ExpectTag_def split: if_splits)
    have "unat (drop_bit 7 tag) < 128"
      using tag by (simp only: unat_drop_bit_eq word_less_nat_alt)
        (simp add: drop_bit_eq_div less_mult_imp_div_less)
    then have "\<not> 0x80 \<le> drop_bit 7 tag" by (simp add: word_le_nat_alt)
    then have "WriteVarint32 tag = [ucast (tag OR 0x80), ucast (drop_bit 7 tag)]"
      using False WriteVarint32ToArray.simps [of tag] WriteVarint32ToArray.simps [of "drop_bit 7 tag"]
      by (simp add: not_less flip: WriteVarint32ToArray_loop)
    then show ?thesis
      using e False tag by (auto simp: ExpectTag_def split: list.splits if_splits)
  qed
qed

lemma ExpectTag_ReadTag: "ExpectTag tag bs = Some r \<Longrightarrow> bs \<noteq> [] \<and> ReadTag bs = (tag, r)"
  using ExpectTag_shorter [of tag bs r] by (auto simp: ReadTag_Write dest!: ExpectTag_WriteVarint32)

lemma positive_byte: "0 < sint (b :: byte) \<Longrightarrow> b AND 0x80 = 0"
proof -
  assume "0 < sint b"
  then have "\<not> bit b 7" using bit_last_iff [of b] by simp
  then show ?thesis by (simp add: low7_zero)
qed

lemma two_byte_tag:
  assumes "0x80 \<le> (b AND NOT c :: byte)"
  shows "ReadTag (b # c # r) = (2 ^ 7 * ucast c + (ucast b - 0x80), r)"
proof -
  have "(b AND NOT c) AND 0x80 \<noteq> 0"
    using assms by (simp add: high_bit_clear word_le_nat_alt not_less)
  then have bits: "b AND 0x80 \<noteq> 0" "c AND 0x80 = 0"
    by (simp_all add: low7_zero bit_and_iff bit_not_iff)
  show ?thesis
    using bits high_bit_clear [of b] by (simp add: ReadTag_def ReadVarint32_value of_nat_diff)
qed

lemma cutoff_slow:
  assumes "\<not> tag - 1 < cutoff"
  shows "tag = 0 \<or> cutoff < (tag :: u32)"
proof (cases "tag = 0")
  case False
  then have "unat (tag - 1) = unat tag - 1" "0 < unat tag"
    by (simp_all add: unat_minus_one unat_gt_0)
  with assms show ?thesis unfolding word_less_nat_alt by linarith
qed simp

lemma cutoff_reads:
  "ReadTagWithCutoff cutoff bs = (tag, below, r) \<Longrightarrow>
     ReadTag bs = (tag, r) \<and> (below \<or> tag = 0 \<or> cutoff < tag)"
proof -
  assume t: "ReadTagWithCutoff cutoff bs = (tag, below, r)"
  obtain tag' r' where s: "ReadTag bs = (tag', r')" by (cases "ReadTag bs")
  have one: "ReadTag (b # rest) = (ucast b, rest)" if "0 < sint b" for b rest
    using positive_byte [OF that]
    by (simp add: ReadTag_def ReadVarint32_def ReadVarint64_one_byte byte_up)
  show ?thesis
    using t s cutoff_slow [of tag' cutoff]
    by (auto simp: ReadTagWithCutoff_def one two_byte_tag Let_def not_le not_less split: list.splits if_splits)
qed

lemma field_tag_below: "f \<in> set sch \<Longrightarrow> field_tag f \<le> tag_cutoff sch"
proof -
  assume f: "f \<in> set sch"
  have "field_tag f \<le> max_tag sch" using f by (induction sch) (auto simp: le_max_iff_disj)
  then show ?thesis by (auto simp: tag_cutoff_def)
qed

lemma unpacked_tag_facts:
  assumes "good_schema sch" and "(n, PB_packed_uint32) \<in> set sch"
  shows "GetTagFieldNumber (MakeTag n 0) = n" "MakeTag n 0 \<le> tag_cutoff sch"
proof -
  have n: "n < 2 ^ 29" using good_schema_field [OF assms] by simp
  then show "GetTagFieldNumber (MakeTag n 0) = n" using tag_fields [OF n, of 0] by simp
  have "MakeTag n 0 \<le> field_tag (n, PB_packed_uint32)"
    using n tag_fields(1) [OF n, of 0] tag_fields(1) [OF n, of 2]
    by (simp add: field_tag_def word_le_nat_alt)
  also have "\<dots> \<le> tag_cutoff sch" by (rule field_tag_below [OF assms(2)])
  finally show "MakeTag n 0 \<le> tag_cutoff sch" .
qed

lemma unpacked_with_tag_Some:
  assumes "good_schema sch" and "(n, PB_packed_uint32) \<in> set sch"
  shows "unpacked_with_tag (MakeTag n 0) sch = Some n"
  using assms
proof (induction sch)
  case (Cons g sch)
  obtain k t where g: "g = (k, t)" by (cases g)
  show ?case
  proof (cases "t = PB_packed_uint32 \<and> MakeTag n 0 = MakeTag k 0")
    case True
    then have "(k, PB_packed_uint32) \<in> set (g # sch)" by (simp add: g)
    then have "n = k"
      using True unpacked_tag_facts(1) [OF Cons.prems] unpacked_tag_facts(1) [OF Cons.prems(1), of k] by metis
    then show ?thesis using True by (simp add: g)
  next
    case False
    then have "(n, PB_packed_uint32) \<in> set sch" using Cons.prems(2) by (auto simp: g)
    moreover have "good_schema sch" using Cons.prems(1) by (simp add: g)
    ultimately have "unpacked_with_tag (MakeTag n 0) sch = Some n" by (simp add: Cons.IH)
    then show ?thesis using False by (simp only: g unpacked_with_tag.simps if_False)
  qed
qed simp

text \<open>Above the cutoff there is no field of the message.\<close>

lemma above_cutoff:
  assumes "good_schema sch" and "tag = 0 \<or> tag_cutoff sch < tag"
  shows "field_with_tag tag sch = None" "unpacked_with_tag tag sch = None"
proof -
  show "field_with_tag tag sch = None"
    using field_with_tag_number [OF assms(1), of tag] field_tag_below [of _ sch] assms(2)
    by (cases "field_with_tag tag sch") (auto simp: not_le [symmetric])
  show "unpacked_with_tag tag sch = None"
    using unpacked_with_tag_number [OF assms(1), of tag] unpacked_tag_facts(2) [OF assms(1)] assms(2)
    by (cases "unpacked_with_tag tag sch") (auto simp: not_le [symmetric])
qed

text \<open>The \<open>switch\<close> on the number of the field and the comparison of the tag find the field of the tag.\<close>

lemma number_unique:
  "good_schema sch \<Longrightarrow> f \<in> set sch \<Longrightarrow> g \<in> set sch \<Longrightarrow> fst f = fst g \<Longrightarrow> f = g"
  using good_schema_distinct [of sch] by (metis distinct_map inj_onD)

lemma switch_none:
  assumes "good_schema sch" and "fields_from (GetTagFieldNumber tag) sch = []"
  shows "field_with_tag tag sch = None" "unpacked_with_tag tag sch = None"
proof -
  have no: "f \<in> set sch \<Longrightarrow> fst f \<noteq> GetTagFieldNumber tag" for f
    using assms(2) by (auto simp: fields_from_def dropWhile_eq_Nil_conv)
  show "field_with_tag tag sch = None"
    using field_with_tag_number [OF assms(1), of tag] no good_schema_field [OF assms(1)] field_tag_facts(3)
    by (cases "field_with_tag tag sch") force+
  show "unpacked_with_tag tag sch = None"
    using unpacked_with_tag_number [OF assms(1), of tag] no unpacked_tag_facts(1) [OF assms(1)]
    by (cases "unpacked_with_tag tag sch") force+
qed

lemma switch_field:
  assumes "good_schema sch" and "fields_from (GetTagFieldNumber tag) sch = f # fs"
  shows "set (f # fs) \<subseteq> set sch"
    and "field_with_tag tag sch = (if tag = field_tag f then Some f else None)"
    and "unpacked_with_tag tag sch =
          (if snd f = PB_packed_uint32 \<and> tag = MakeTag (fst f) 0 then Some (fst f) else None)"
proof -
  show sub: "set (f # fs) \<subseteq> set sch"
    using assms(2) by (metis fields_from_def set_dropWhileD subsetI)
  have n: "fst f = GetTagFieldNumber tag"
    using assms(2) hd_dropWhile [of "\<lambda>f. fst f \<noteq> GetTagFieldNumber tag" sch]
    by (auto simp: fields_from_def)
  have number: "g \<in> set sch \<Longrightarrow> GetTagFieldNumber (field_tag g) = fst g" for g
    using good_schema_field [OF assms(1)] field_tag_facts(3) by blast
  show "field_with_tag tag sch = (if tag = field_tag f then Some f else None)"
    using field_with_tag_number [OF assms(1), of tag] field_with_tag_Some [OF assms(1), of f] sub n
      number number_unique [OF assms(1), of f]
    by (cases "field_with_tag tag sch") force+
  show "unpacked_with_tag tag sch =
      (if snd f = PB_packed_uint32 \<and> tag = MakeTag (fst f) 0 then Some (fst f) else None)"
  proof (cases "unpacked_with_tag tag sch")
    case None
    then show ?thesis
      using unpacked_with_tag_Some [OF assms(1), of "fst f"] sub by (cases f) auto
  next
    case (Some k)
    then show ?thesis
      using unpacked_with_tag_number [OF assms(1) Some] unpacked_tag_facts(1) [OF assms(1), of k] n sub
        number_unique [OF assms(1), of f "(k, PB_packed_uint32)"] by auto
  qed
qed

subsection \<open>The generated parser reads what the loop reads\<close>

text \<open>\<open>MergePartial\<close> with a bound that is enough, and one turn of its loop.\<close>

definition Merge :: "nat \<Rightarrow> pb_schema \<Rightarrow> pb_msg \<Rightarrow> byte list \<Rightarrow> pb_msg option" where
  "Merge depth sch m bs = MergePartial (length bs + 1) depth sch m bs"

lemma Merge_fuel: "good_schema sch \<Longrightarrow> length bs < fuel \<Longrightarrow> MergePartial fuel depth sch m bs = Merge depth sch m bs"
  unfolding Merge_def by (rule MergePartial_fuel) simp_all

definition merge_field_at :: "nat \<Rightarrow> pb_schema \<Rightarrow> nat \<times> pb_type \<Rightarrow> pb_msg \<Rightarrow> byte list \<Rightarrow> pb_msg option" where
  "merge_field_at depth sch f m r =
     (case sub_schema (snd f) of
        Some sub \<Rightarrow>
          if depth = 0 then None
          else (case Merge (depth - 1) sub pb_new (fst (ReadLengthAndPushLimit r)) of
                  None \<Rightarrow> None
                | Some x \<Rightarrow> Merge depth sch (add_message (fst f) x m) (snd (ReadLengthAndPushLimit r)))
      | None \<Rightarrow>
          (case read_field f r m of
             None \<Rightarrow> None
           | Some (m', r') \<Rightarrow> Merge depth sch m' r'))"

lemma Merge_unfold:
  assumes "good_schema sch" and "bs \<noteq> []" and "ReadTag bs = (tag, r)"
  shows "Merge depth sch m bs =
    (case field_with_tag tag sch of
       Some f \<Rightarrow> merge_field_at depth sch f m r
     | None \<Rightarrow>
         (case unpacked_with_tag tag sch of
            Some n \<Rightarrow>
              (case ReadRepeatedPrimitive (MakeTag n 2) (length (get_packed n m)) r of
                 None \<Rightarrow> None
               | Some (ws, r') \<Rightarrow> Merge depth sch (add_packed n ws m) r')
          | None \<Rightarrow>
              if tag = 0 \<or> GetTagWireType tag = 4 then None
              else (case SkipField (2 * length bs) depth tag r of
                      None \<Rightarrow> None
                    | Some (u, r') \<Rightarrow> Merge depth sch (add_unknown u m) r')))"
proof -
  have shorter: "tag \<noteq> 0 \<Longrightarrow> length r < length bs"
    by (rule ReadTag_shorter [OF assms(3)])
  have sub: "f \<in> set sch \<Longrightarrow> sub_schema (snd f) = Some s \<Longrightarrow> good_schema s" for f s
    using good_schema_field [OF assms(1), of f] by (cases "snd f") auto
  have fuel: "length r' \<le> length r \<Longrightarrow> tag \<noteq> 0 \<Longrightarrow> MergePartial (length bs) depth sch m' r' = Merge depth sch m' r'"
    for m' r' using shorter by (intro Merge_fuel [OF assms(1)]) simp
  have unfold: "Merge depth sch m bs = MergePartial (Suc (length bs)) depth sch m bs"
    by (simp add: Merge_def)
  show ?thesis
  proof (cases "field_with_tag tag sch")
    case (Some f)
    then have tag: "tag \<noteq> 0" and f: "f \<in> set sch"
      using field_with_tag_number [OF assms(1) Some] by auto
    show ?thesis
    proof (cases "sub_schema (snd f)")
      case None
      then show ?thesis
        using Some assms(2,3) fuel [OF read_field_shorter tag]
        by (auto simp: unfold MergePartial.simps(2) merge_field_at_def split: option.split)
    next
      case sub_f: (Some s)
      have len: "length (fst (ReadLengthAndPushLimit r)) < length bs" "length (snd (ReadLengthAndPushLimit r)) \<le> length r"
        using ReadLengthAndPushLimit_shorter [of r] shorter [OF tag] by linarith+
      have "MergePartial (length bs) (depth - 1) s pb_new (fst (ReadLengthAndPushLimit r)) =
          Merge (depth - 1) s pb_new (fst (ReadLengthAndPushLimit r))"
        by (rule Merge_fuel [OF sub [OF f sub_f] len(1)])
      then show ?thesis
        using Some sub_f assms(2,3) fuel [OF len(2) tag]
        by (auto simp: unfold MergePartial.simps(2) merge_field_at_def split: option.split)
    qed
  next
    case None
    show ?thesis
    proof (cases "unpacked_with_tag tag sch")
      case (Some n)
      then have "tag \<noteq> 0" using unpacked_with_tag_number [OF assms(1) Some] by blast
      then show ?thesis
        using None Some assms(2,3) fuel [OF ReadRepeatedPrimitive_shorter]
        by (auto simp: unfold MergePartial.simps(2) split: option.split)
    next
      case unk: None
      show ?thesis
        using None unk assms(2,3) fuel [OF Skip_shorter(1)]
        by (auto simp: unfold MergePartial.simps(2) split: option.split)
    qed
  qed
qed

text \<open>What the parser has still to do at a label, in terms of the loop.\<close>

fun merge_label :: "nat \<Rightarrow> pb_schema \<Rightarrow> label \<Rightarrow> pb_msg \<Rightarrow> byte list \<Rightarrow> pb_msg option" where
  "merge_label depth sch L_loop m bs = Merge depth sch m bs"
| "merge_label depth sch L_success m bs = Some m"
| "merge_label depth sch (L_parse f fs) m bs = merge_field_at depth sch f m bs"
| "merge_label depth sch (L_parse_loop f fs) m bs = merge_field_at depth sch f m bs"

fun label_ok :: "nat \<Rightarrow> pb_schema \<Rightarrow> label \<Rightarrow> bool" where
  "label_ok depth sch (L_parse f fs) \<longleftrightarrow> set (f # fs) \<subseteq> set sch"
| "label_ok depth sch (L_parse_loop f fs) \<longleftrightarrow> set (f # fs) \<subseteq> set sch \<and> sub_schema (snd f) \<noteq> None \<and> 0 < depth"
| "label_ok depth sch _ \<longleftrightarrow> True"

text \<open>The steps that are enough, three for every byte.\<close>

fun steps :: "label \<Rightarrow> byte list \<Rightarrow> nat" where
  "steps L_loop bs = 3 * length bs + 1"
| "steps (L_parse f fs) bs = 3 * length bs + 3"
| "steps (L_parse_loop f fs) bs = 3 * length bs + 2"
| "steps L_success bs = 1"

lemma Merge_Nil: "Merge depth sch m [] = Some m"
  by (simp add: Merge_def MergePartial_Nil)

lemma after_field_merge:
  assumes "good_schema sch" and "set fs \<subseteq> set sch" and "after_field fs bs = (label, r)"
  shows "merge_label depth sch label m r = Merge depth sch m bs"
    and "label_ok depth sch label" and "steps label r \<le> 3 * length bs + 1"
proof -
  have "merge_label depth sch label m r = Merge depth sch m bs \<and> label_ok depth sch label
      \<and> steps label r \<le> 3 * length bs + 1"
  proof (cases fs)
    case Nil
    then show ?thesis using assms(3) by (auto simp: Merge_Nil split: if_splits)
  next
    case (Cons g gs)
    show ?thesis
    proof (cases "ExpectTag (field_tag g) bs")
      case None
      then show ?thesis using assms(3) Cons by simp
    next
      case (Some r')
      then have l: "label = L_parse g gs" "r = r'" using assms(3) Cons by simp_all
      have "length r < length bs" using ExpectTag_shorter [OF Some] l by simp
      moreover have "Merge depth sch m bs = merge_field_at depth sch g m r"
        using Merge_unfold [OF assms(1), of bs "field_tag g" r] ExpectTag_ReadTag [OF Some]
          field_with_tag_Some [OF assms(1), of g] assms(2) Cons l by simp
      ultimately show ?thesis using l assms(2) Cons by simp
    qed
  qed
  then show "merge_label depth sch label m r = Merge depth sch m bs"
    and "label_ok depth sch label" and "steps label r \<le> 3 * length bs + 1" by simp_all
qed

theorem RunCode_Merge:
  "good_schema sch \<Longrightarrow> label_ok depth sch label \<Longrightarrow> steps label bs \<le> fuel \<Longrightarrow>
     accepted (RunCode fuel depth sch label m bs) = merge_label depth sch label m bs"
proof (induction fuel arbitrary: depth sch label m bs)
  case 0
  then show ?case by (cases label) simp_all
next
  case (Suc fuel)
  have goto: "accepted (case after_field fs r of (label, r') \<Rightarrow> RunCode fuel depth sch label m' r') = Merge depth sch m' r"
    if "set fs \<subseteq> set sch" "3 * length r + 1 \<le> fuel" for fs r m'
  proof -
    obtain label r' where l: "after_field fs r = (label, r')" by (cases "after_field fs r")
    show ?thesis
      using Suc.IH [of sch depth label r' m'] Suc.prems(1) after_field_merge [OF Suc.prems(1) that(1) l]
        that(2) l by simp
  qed
  show ?case
  proof (cases label)
    case L_success
    then show ?thesis by (simp add: RunCode.simps(2))
  next
    case (L_parse f fs)
    show ?thesis
    proof (cases "sub_schema (snd f)")
      case None
      have "3 * length r + 1 \<le> fuel" if "read_field f bs m = Some (m', r)" for m' r
        using read_field_shorter [OF that] Suc.prems(3) L_parse by simp
      then show ?thesis
        using None Suc.prems(2) L_parse goto by (auto simp: RunCode.simps(3) merge_field_at_def split: option.split)
    next
      case (Some sub)
      show ?thesis
        using Some Suc.prems L_parse Suc.IH [of sch depth "L_parse_loop f fs" bs m]
        by (auto simp: RunCode.simps(3) merge_field_at_def)
    qed
  next
    case (L_parse_loop f fs)
    obtain sub where sub: "sub_schema (snd f) = Some sub" and fs: "f \<in> set sch" "set fs \<subseteq> set sch"
      and depth: "0 < depth"
      using Suc.prems(2) L_parse_loop by auto
    obtain body r where b: "ReadLengthAndPushLimit bs = (body, r)" by (cases "ReadLengthAndPushLimit bs")
    have len: "length body + length r \<le> length bs" using ReadLengthAndPushLimit_shorter [of bs] b by simp
    have "good_schema sub"
      using good_schema_field [OF Suc.prems(1) fs(1)] sub by (cases "snd f") auto
    then have IH: "accepted (RunCode fuel (depth - 1) sub L_loop pb_new body) = Merge (depth - 1) sub pb_new body"
      using Suc.IH [of sub "depth - 1" L_loop body pb_new] Suc.prems(3) L_parse_loop len by simp
    have again: "accepted (RunCode fuel depth sch (L_parse_loop f fs) m' r') = Merge depth sch m' r"
      if e: "ExpectTag (field_tag f) r = Some r'" for m' r'
    proof -
      have "Merge depth sch m' r = merge_field_at depth sch f m' r'"
        using Merge_unfold [OF Suc.prems(1), of r "field_tag f" r'] ExpectTag_ReadTag [OF e]
          field_with_tag_Some [OF Suc.prems(1) fs(1)] by simp
      moreover have "length r' < length r" by (rule ExpectTag_shorter [OF e])
      ultimately show ?thesis
        using Suc.IH [of sch depth "L_parse_loop f fs" r' m'] Suc.prems L_parse_loop len by simp
    qed
    have next_field: "accepted (case after_field fs r of (label, r') \<Rightarrow> RunCode fuel depth sch label m' r') = Merge depth sch m' r"
      for m' by (rule goto [OF fs(2)]) (use Suc.prems(3) L_parse_loop len in simp)
    show ?thesis
    proof (cases "Merge (depth - 1) sub pb_new body")
      case None
      then show ?thesis
        using IH sub depth b
        by (auto simp: L_parse_loop RunCode.simps(4) merge_field_at_def split: option.split bool.split)
    next
      case (Some x)
      then obtain r0 where "RunCode fuel (depth - 1) sub L_loop pb_new body = Some (x, r0, True)"
        using IH by (auto elim!: accepted.elims)
      then show ?thesis
        using Some sub depth b again next_field
        by (auto simp: L_parse_loop RunCode.simps(4) merge_field_at_def split: option.split)
    qed
  next
    case L_loop
    obtain tag below r where t: "ReadTagWithCutoff (tag_cutoff sch) bs = (tag, below, r)"
      by (cases "ReadTagWithCutoff (tag_cutoff sch) bs")
    note tag = cutoff_reads [OF t]
    have read: "ReadTag bs = (tag, r)" and nil: "bs = [] \<Longrightarrow> tag = 0"
      using tag by (auto simp: ReadTag_def ReadVarint32_value)
    have len: "tag \<noteq> 0 \<Longrightarrow> 3 * length r + 3 \<le> fuel"
      using ReadTag_shorter [OF read] Suc.prems(3) L_loop by fastforce
    note unfold = Merge_unfold [OF Suc.prems(1) _ read]
    define unusual where "unusual =
        (if tag = 0 \<or> GetTagWireType tag = 4 then Some (m, r, bs = [])
         else case SkipField (2 * length bs) depth tag r of
                None \<Rightarrow> None
              | Some (u, r') \<Rightarrow> RunCode fuel depth sch L_loop (add_unknown u m) r')"
    have unusual: "accepted unusual = Merge depth sch m bs"
      if none: "field_with_tag tag sch = None" "unpacked_with_tag tag sch = None"
    proof (cases "tag = 0 \<or> GetTagWireType tag = 4")
      case True
      then show ?thesis
        using none nil unfold by (cases "bs = []") (auto simp: unusual_def Merge_Nil GetTagWireType_def)
    next
      case False
      then have "bs \<noteq> []" using nil by auto
      moreover have "accepted (RunCode fuel depth sch L_loop m' r') = Merge depth sch m' r'"
        if "SkipField (2 * length bs) depth tag r = Some (u, r')" for m' u r'
        using Suc.IH [of sch depth L_loop r' m'] Suc.prems(1) Skip_shorter(1) [OF that] len False by simp
      ultimately show ?thesis
        using none False unfold by (auto simp: unusual_def split: option.split)
    qed
    have step: "RunCode (Suc fuel) depth sch label m bs =
      (if \<not> below then unusual
       else case fields_from (GetTagFieldNumber tag) sch of
         [] \<Rightarrow> unusual
       | f # fs \<Rightarrow>
           if tag = field_tag f then RunCode fuel depth sch (L_parse f fs) m r
           else if snd f = PB_packed_uint32 \<and> tag = MakeTag (fst f) 0 then
             (case ReadRepeatedPrimitive (field_tag f) (length (get_packed (fst f) m)) r of
                None \<Rightarrow> None
              | Some (ws, r') \<Rightarrow>
                  (case after_field fs r' of
                     (label, r'') \<Rightarrow> RunCode fuel depth sch label (add_packed (fst f) ws m) r''))
           else unusual)"
      using t by (simp only: L_loop RunCode.simps(5) prod.case Let_def flip: unusual_def)
    show ?thesis
    proof (cases "below \<and> fields_from (GetTagFieldNumber tag) sch \<noteq> []")
      case False
      then have "\<not> below \<or> below \<and> fields_from (GetTagFieldNumber tag) sch = []" by blast
      then have "accepted (RunCode (Suc fuel) depth sch label m bs) = accepted unusual"
        unfolding step by (elim disjE conjE) simp_all
      also have "\<dots> = Merge depth sch m bs"
      proof (rule unusual)
        show "field_with_tag tag sch = None" "unpacked_with_tag tag sch = None"
          using False switch_none [OF Suc.prems(1), of tag] above_cutoff [OF Suc.prems(1), of tag] tag
          by (cases below; simp)+
      qed
      finally show ?thesis by (simp add: L_loop)
    next
      case True
      then obtain f fs where f: "fields_from (GetTagFieldNumber tag) sch = f # fs"
        by (cases "fields_from (GetTagFieldNumber tag) sch") auto
      note field = switch_field [OF Suc.prems(1) f]
      consider (known) "tag = field_tag f"
        | (unpacked) "tag \<noteq> field_tag f" "snd f = PB_packed_uint32 \<and> tag = MakeTag (fst f) 0"
        | (other) "tag \<noteq> field_tag f" "\<not> (snd f = PB_packed_uint32 \<and> tag = MakeTag (fst f) 0)"
        by blast
      then show ?thesis
      proof cases
        case known
        then have found: "field_with_tag tag sch = Some f" using field(2) by simp
        then have "tag \<noteq> 0" using field_with_tag_number [OF Suc.prems(1)] by blast
        then have IH: "accepted (RunCode fuel depth sch (L_parse f fs) m r) = merge_field_at depth sch f m r"
          using Suc.IH [of sch depth "L_parse f fs" r m] Suc.prems(1) len field(1) by simp
        have "bs \<noteq> []" using nil \<open>tag \<noteq> 0\<close> by blast
        then have "Merge depth sch m bs = merge_field_at depth sch f m r"
          using unfold [of depth m] found by (simp only: option.case simp_thms)
        moreover have "RunCode (Suc fuel) depth sch label m bs = RunCode fuel depth sch (L_parse f fs) m r"
          unfolding step f using True known by simp
        ultimately show ?thesis using IH by (simp add: L_loop)
      next
        case unpacked
        then have found: "field_with_tag tag sch = None" "unpacked_with_tag tag sch = Some (fst f)"
          using field by simp_all
        from found(2) have "tag \<noteq> 0" using unpacked_with_tag_number [OF Suc.prems(1)] by blast
        then have "bs \<noteq> []" using nil by blast
        have f2: "field_tag f = MakeTag (fst f) 2" using unpacked(2) by (simp add: field_tag_def)
        have next_field: "accepted (case after_field fs r' of (label, r'') \<Rightarrow> RunCode fuel depth sch label m' r'') =
            Merge depth sch m' r'"
          if "ReadRepeatedPrimitive (MakeTag (fst f) 2) (length (get_packed (fst f) m)) r = Some (ws, r')" for m' ws r'
          by (rule goto) (use field(1) ReadRepeatedPrimitive_shorter [OF that] len \<open>tag \<noteq> 0\<close> in simp_all)
        have "Merge depth sch m bs =
            (case ReadRepeatedPrimitive (MakeTag (fst f) 2) (length (get_packed (fst f) m)) r of
               None \<Rightarrow> None
             | Some (ws, r') \<Rightarrow> Merge depth sch (add_packed (fst f) ws m) r')"
          using unfold [of depth m] \<open>bs \<noteq> []\<close> found by (simp only: option.case simp_thms)
        moreover have "RunCode (Suc fuel) depth sch label m bs =
            (case ReadRepeatedPrimitive (MakeTag (fst f) 2) (length (get_packed (fst f) m)) r of
                None \<Rightarrow> None
              | Some (ws, r') \<Rightarrow>
                  (case after_field fs r' of
                     (label, r'') \<Rightarrow> RunCode fuel depth sch label (add_packed (fst f) ws m) r''))"
          unfolding step f using True unpacked f2 by simp
        ultimately show ?thesis
          using next_field by (auto simp: L_loop split: option.split)
      next
        case other
        then have "accepted (RunCode (Suc fuel) depth sch label m bs) = accepted unusual"
          unfolding step f using True other by auto
        also have "\<dots> = Merge depth sch m bs"
          by (rule unusual) (use other field in simp_all)
        finally show ?thesis by (simp add: L_loop)
      qed
    qed
  qed
qed

theorem GeneratedParse_eq: "good_schema sch \<Longrightarrow> GeneratedParse sch bs = ParseFromString sch bs"
  using RunCode_Merge [of sch 100 L_loop bs "3 * length bs + 1" pb_new]
  by (simp add: GeneratedParse_def ParseFromString_def Merge_def)

end
