(* ===== verification/PbObject.thy ===== *)
theory PbObject
  imports GenParser
begin

text \<open>
  The objects behind the messages of src/Server/protobuf/NetMessage.pb.h: the word of \<open>_has_bits_\<close>, the
  members, the unknown fields and the cached sizes; the statements of which the generated functions
  \<open>SharedCtor\<close>, \<open>Clear\<close>, \<open>MergeFrom\<close>, \<open>ByteSize\<close>, \<open>SerializeWithCachedSizesToArray\<close> and \<open>InternalSwap\<close> of
  NetMessage.pb.cc consist; and the contract of these functions, stated over the messages of Protobuf.
  A member is named by the number of its field. A sub-message is kept by its value.
\<close>

subsection \<open>Objects\<close>

record pb_object =
  has_bits :: u32
  member :: "nat \<Rightarrow> pb_val"
  unknown_fields :: "unknown_field list"
  cached_size :: nat
  packed_cached_byte_size :: nat

text \<open>The members of the class in the order of their declaration, with their types.\<close>

type_synonym pb_layout = "(nat \<times> pb_type) list"

text \<open>A value for the numbers that are no field of the message.\<close>

definition no_member :: pb_val where
  "no_member = Bool False"

fun default_val :: "pb_type \<Rightarrow> pb_val" where
  "default_val PB_int32 = Int32 0"
| "default_val PB_uint32 = UInt32 0"
| "default_val PB_bool = Bool False"
| "default_val PB_string = Str []"
| "default_val PB_float = Float 0"
| "default_val (PB_enum cases) = Enum 0"
| "default_val PB_packed_uint32 = Packed []"
| "default_val (PB_message sch) = Messages []"

text \<open>
  \<open>_has_bits_[0] & mask\<close>: the test of one field with its bit, and the tests that guard a group of fields.
\<close>

definition has :: "u32 \<Rightarrow> pb_object \<Rightarrow> bool" where
  "has flag x \<longleftrightarrow> has_bits x AND flag \<noteq> 0"

fun as_uint32 :: "pb_val \<Rightarrow> u32" where
  "as_uint32 (Int32 w) = w"
| "as_uint32 (UInt32 w) = w"
| "as_uint32 (Float w) = w"
| "as_uint32 (Enum w) = w"
| "as_uint32 _ = 0"

fun as_bool :: "pb_val \<Rightarrow> bool" where
  "as_bool (Bool b) = b"
| "as_bool _ = False"

fun as_string :: "pb_val \<Rightarrow> byte list" where
  "as_string (Str s) = s"
| "as_string _ = []"

fun as_packed :: "pb_val \<Rightarrow> u32 list" where
  "as_packed (Packed ws) = ws"
| "as_packed _ = []"

fun as_messages :: "pb_val \<Rightarrow> pb_msg list" where
  "as_messages (Messages xs) = xs"
| "as_messages _ = []"

subsection \<open>Statements\<close>

type_synonym pb_stmt = "pb_object \<Rightarrow> pb_object res"

definition run :: "pb_stmt list \<Rightarrow> pb_stmt" where
  "run ss = rfold (\<lambda>s. s) ss"

definition guarded :: "(pb_object \<Rightarrow> bool) \<Rightarrow> pb_stmt list \<Rightarrow> pb_stmt" where
  "guarded P ss x = (if P x then run ss x else Inr x)"

definition assign :: "nat \<Rightarrow> pb_val \<Rightarrow> pb_object \<Rightarrow> pb_object" where
  "assign n v x = x\<lparr>member := (member x)(n := v)\<rparr>"

text \<open>
  \<open>ZR_(first, last)\<close> fills the memory from one member to another with zeroes. Over the pointer of a
  string it would leave a null pointer, and with the two in the wrong order it would run away.
\<close>

fun zero_val :: "pb_type \<Rightarrow> pb_val option" where
  "zero_val PB_int32 = Some (Int32 0)"
| "zero_val PB_uint32 = Some (UInt32 0)"
| "zero_val PB_bool = Some (Bool False)"
| "zero_val PB_float = Some (Float 0)"
| "zero_val (PB_enum cases) = Some (Enum 0)"
| "zero_val _ = None"

fun ZR_to :: "nat \<Rightarrow> pb_layout \<Rightarrow> pb_stmt" where
  "ZR_to b [] x = Inl OutOfBounds"
| "ZR_to b ((n, t) # ms) x =
     (case zero_val t of
        None \<Rightarrow> Inl NullPointer
      | Some v \<Rightarrow> if n = b then Inr (assign n v x) else ZR_to b ms (assign n v x))"

fun ZR :: "pb_layout \<Rightarrow> nat \<Rightarrow> nat \<Rightarrow> pb_stmt" where
  "ZR [] a b x = Inl OutOfBounds"
| "ZR ((n, t) # ms) a b x = (if n = a then ZR_to b ((n, t) # ms) x else ZR ms a b x)"

text \<open>\<open>member = 0\<close>, \<open>if (has_x()) x.ClearToEmptyNoArena(...)\<close> and the \<open>Clear\<close> of a repeated field.\<close>

definition clear_member :: "nat \<Rightarrow> pb_val \<Rightarrow> pb_stmt" where
  "clear_member n v x = Inr (assign n v x)"

definition clear_string :: "u32 \<Rightarrow> nat \<Rightarrow> pb_stmt" where
  "clear_string flag n = guarded (has flag) [clear_member n (Str [])]"

definition clear_has_bits :: pb_stmt where
  "clear_has_bits x = Inr (x\<lparr>has_bits := 0\<rparr>)"

definition clear_unknown :: pb_stmt where
  "clear_unknown = guarded (\<lambda>x. unknown_fields x \<noteq> []) [\<lambda>x. Inr (x\<lparr>unknown_fields := []\<rparr>)]"

text \<open>
  \<open>set_has_x(); x_ = v\<close>, under \<open>if (from.has_x())\<close>. The setter of an enumeration asserts that the number is
  one of it.
\<close>

definition set_member :: "u32 \<Rightarrow> nat \<Rightarrow> pb_val \<Rightarrow> pb_object \<Rightarrow> pb_object" where
  "set_member flag n v x = assign n v (x\<lparr>has_bits := has_bits x OR flag\<rparr>)"

definition copy_field :: "u32 \<Rightarrow> nat \<Rightarrow> pb_object \<Rightarrow> pb_stmt" where
  "copy_field flag n from x = Inr (if has flag from then set_member flag n (member from n) x else x)"

definition copy_enum :: "int list \<Rightarrow> u32 \<Rightarrow> nat \<Rightarrow> pb_object \<Rightarrow> pb_stmt" where
  "copy_enum cases flag n from x =
     (if has flag from \<and> sint (as_uint32 (member from n)) \<notin> set cases then Inl AssertFailed
      else copy_field flag n from x)"

definition merge_packed :: "nat \<Rightarrow> pb_object \<Rightarrow> pb_stmt" where
  "merge_packed n from x = Inr (assign n (Packed (as_packed (member x n) @ as_packed (member from n))) x)"

definition merge_messages :: "nat \<Rightarrow> pb_object \<Rightarrow> pb_stmt" where
  "merge_messages n from x =
     Inr (assign n (Messages (as_messages (member x n) @ as_messages (member from n))) x)"

definition merge_unknown :: "pb_object \<Rightarrow> pb_stmt" where
  "merge_unknown from =
     guarded (\<lambda>_. unknown_fields from \<noteq> [])
       [\<lambda>x. Inr (x\<lparr>unknown_fields := unknown_fields x @ unknown_fields from\<rparr>)]"

text \<open>The sizes and the writers of WireFormatLite for one field.\<close>

definition UInt32Size :: "pb_val \<Rightarrow> nat" where "UInt32Size v = VarintSize32 (as_uint32 v)"
definition Int32Size :: "pb_val \<Rightarrow> nat" where "Int32Size v = VarintSize32SignExtended (as_uint32 v)"
definition EnumSize :: "pb_val \<Rightarrow> nat" where "EnumSize v = VarintSize32SignExtended (as_uint32 v)"
definition StringSize :: "pb_val \<Rightarrow> nat" where
  "StringSize v = VarintSize32 (word_of_nat (length (as_string v))) + length (as_string v)"

definition MessageSizeNoVirtual :: "pb_schema \<Rightarrow> pb_msg \<Rightarrow> nat" where
  "MessageSizeNoVirtual sub m = VarintSize32 (word_of_nat (ByteSize sub m)) + ByteSize sub m"

definition unknown_fields_size :: "pb_object \<Rightarrow> nat" where
  "unknown_fields_size x = (if unknown_fields x \<noteq> [] then ComputeUnknownFieldsSize (unknown_fields x) else 0)"

definition WriteTagToArray :: "nat \<Rightarrow> nat \<Rightarrow> byte list" where
  "WriteTagToArray n wire = WriteVarint32 (MakeTag n wire)"

definition WriteUInt32ToArray :: "nat \<Rightarrow> pb_val \<Rightarrow> byte list" where
  "WriteUInt32ToArray n v = WriteTagToArray n 0 @ WriteVarint32 (as_uint32 v)"
definition WriteInt32ToArray :: "nat \<Rightarrow> pb_val \<Rightarrow> byte list" where
  "WriteInt32ToArray n v = WriteTagToArray n 0 @ WriteVarint64 (scast (as_uint32 v))"
definition WriteEnumToArray :: "nat \<Rightarrow> pb_val \<Rightarrow> byte list" where
  "WriteEnumToArray n v = WriteTagToArray n 0 @ WriteVarint64 (scast (as_uint32 v))"
definition WriteBoolToArray :: "nat \<Rightarrow> pb_val \<Rightarrow> byte list" where
  "WriteBoolToArray n v = WriteTagToArray n 0 @ [if as_bool v then 1 else 0]"
definition WriteFloatToArray :: "nat \<Rightarrow> pb_val \<Rightarrow> byte list" where
  "WriteFloatToArray n v = WriteTagToArray n 5 @ le_bytes 4 (as_uint32 v)"
definition WriteStringToArray :: "nat \<Rightarrow> pb_val \<Rightarrow> byte list" where
  "WriteStringToArray n v =
     WriteTagToArray n 2 @ WriteVarint32 (word_of_nat (length (as_string v))) @ as_string v"

definition WriteMessageNoVirtualToArray :: "pb_schema \<Rightarrow> nat \<Rightarrow> pb_msg \<Rightarrow> byte list" where
  "WriteMessageNoVirtualToArray sub n m =
     WriteTagToArray n 2 @ WriteVarint32 (word_of_nat (ByteSize sub m)) @ SerializeAsString sub m"

definition unknown_bytes :: "pb_object \<Rightarrow> byte list" where
  "unknown_bytes x = (if unknown_fields x \<noteq> [] then SerializeUnknownFields (unknown_fields x) else [])"

text \<open>The statements of \<open>InternalSwap\<close>, on the pair of the two objects.\<close>

type_synonym pb_swap = "pb_object \<times> pb_object \<Rightarrow> pb_object \<times> pb_object"

definition swap_member :: "nat \<Rightarrow> pb_swap" where
  "swap_member n = (\<lambda>(x, y). (assign n (member y n) x, assign n (member x n) y))"

definition swap_has_bits :: pb_swap where
  "swap_has_bits = (\<lambda>(x, y). (x\<lparr>has_bits := has_bits y\<rparr>, y\<lparr>has_bits := has_bits x\<rparr>))"

definition swap_metadata :: pb_swap where
  "swap_metadata =
     (\<lambda>(x, y). (x\<lparr>unknown_fields := unknown_fields y\<rparr>, y\<lparr>unknown_fields := unknown_fields x\<rparr>))"

definition swap_cached_size :: pb_swap where
  "swap_cached_size =
     (\<lambda>(x, y). (x\<lparr>cached_size := cached_size y\<rparr>, y\<lparr>cached_size := cached_size x\<rparr>))"

definition swap_all :: "pb_swap list \<Rightarrow> pb_swap" where
  "swap_all ss = fold (\<lambda>s. s) ss"

subsection \<open>Well-formed objects and the messages they stand for\<close>

fun val_ok :: "pb_type \<Rightarrow> pb_val \<Rightarrow> bool" where
  "val_ok PB_int32 (Int32 w) \<longleftrightarrow> True"
| "val_ok PB_uint32 (UInt32 w) \<longleftrightarrow> True"
| "val_ok PB_bool (Bool b) \<longleftrightarrow> True"
| "val_ok PB_string (Str s) \<longleftrightarrow> True"
| "val_ok PB_float (Float w) \<longleftrightarrow> True"
| "val_ok (PB_enum cases) (Enum w) \<longleftrightarrow> sint w \<in> set cases"
| "val_ok PB_packed_uint32 (Packed ws) \<longleftrightarrow> True"
| "val_ok (PB_message sch) (Messages xs) \<longleftrightarrow> True"
| "val_ok t v \<longleftrightarrow> False"

text \<open>Field number \<open>i\<close> of the class has bit \<open>i\<close>; a repeated field is set when it has elements.\<close>

fun is_set :: "nat \<Rightarrow> nat \<times> pb_type \<Rightarrow> pb_object \<Rightarrow> bool" where
  "is_set i (n, PB_packed_uint32) x \<longleftrightarrow> member x n \<noteq> Packed []"
| "is_set i (n, PB_message sch) x \<longleftrightarrow> member x n \<noteq> Messages []"
| "is_set i (n, t) x \<longleftrightarrow> bit (has_bits x) i"

fun fields_ok :: "nat \<Rightarrow> pb_schema \<Rightarrow> pb_object \<Rightarrow> bool" where
  "fields_ok i [] x \<longleftrightarrow> True"
| "fields_ok i ((n, t) # fs) x \<longleftrightarrow>
     val_ok t (member x n) \<and> (\<not> is_set i (n, t) x \<longrightarrow> member x n = default_val t)
     \<and> fields_ok (i + 1) fs x"

text \<open>The invariant of the objects: typed members, which have their default value while they are not set.\<close>

definition object_ok :: "pb_schema \<Rightarrow> pb_object \<Rightarrow> bool" where
  "object_ok sch x \<longleftrightarrow>
     fields_ok 0 sch x \<and> (\<forall>n. n \<notin> fst ` set sch \<longrightarrow> member x n = no_member)
     \<and> (\<forall>j. bit (has_bits x) j \<longrightarrow> j < length sch)"

fun fields_of :: "nat \<Rightarrow> pb_schema \<Rightarrow> pb_object \<Rightarrow> nat \<Rightarrow> pb_val option" where
  "fields_of i [] x = Map.empty"
| "fields_of i ((n, t) # fs) x =
     (if is_set i (n, t) x then (fields_of (i + 1) fs x)(n \<mapsto> member x n) else fields_of (i + 1) fs x)"

definition message_of :: "pb_schema \<Rightarrow> pb_object \<Rightarrow> pb_msg" where
  "message_of sch x = Msg (fields_of 0 sch x) (unknown_fields x)"

subsection \<open>The generated functions over a schema\<close>

text \<open>
  What the functions of a class amount to, as recursions over its fields: the yardstick the code of every
  class is compared with below.
\<close>

fun default_from :: "(nat \<Rightarrow> pb_val) \<Rightarrow> pb_schema \<Rightarrow> nat \<Rightarrow> pb_val" where
  "default_from g [] = g"
| "default_from g ((n, t) # fs) = default_from (g(n := default_val t)) fs"

definition default_members :: "pb_schema \<Rightarrow> nat \<Rightarrow> pb_val" where
  "default_members sch = default_from (\<lambda>_. no_member) sch"

definition new_object :: "pb_schema \<Rightarrow> pb_object \<Rightarrow> pb_object" where
  "new_object sch raw =
     raw\<lparr>has_bits := 0, member := default_members sch, unknown_fields := [], cached_size := 0\<rparr>"

definition clear_object :: "pb_schema \<Rightarrow> pb_object \<Rightarrow> pb_object" where
  "clear_object sch x = x\<lparr>has_bits := 0, member := default_members sch, unknown_fields := []\<rparr>"

fun merge_field_object :: "nat \<Rightarrow> nat \<times> pb_type \<Rightarrow> pb_object \<Rightarrow> pb_object \<Rightarrow> pb_object" where
  "merge_field_object i (n, PB_packed_uint32) from x =
     assign n (Packed (as_packed (member x n) @ as_packed (member from n))) x"
| "merge_field_object i (n, PB_message sch) from x =
     assign n (Messages (as_messages (member x n) @ as_messages (member from n))) x"
| "merge_field_object i (n, t) from x =
     (if bit (has_bits from) i then set_member (2 ^ i) n (member from n) x else x)"

fun merge_fields :: "nat \<Rightarrow> pb_schema \<Rightarrow> pb_object \<Rightarrow> pb_object \<Rightarrow> pb_object" where
  "merge_fields i [] from x = x"
| "merge_fields i (f # fs) from x = merge_fields (i + 1) fs from (merge_field_object i f from x)"

definition merge_object :: "pb_schema \<Rightarrow> pb_object \<Rightarrow> pb_object \<Rightarrow> pb_object" where
  "merge_object sch from x =
     (merge_fields 0 sch from x)\<lparr>unknown_fields := unknown_fields x @ unknown_fields from\<rparr>"

fun object_size :: "nat \<Rightarrow> pb_schema \<Rightarrow> pb_object \<Rightarrow> nat" where
  "object_size i [] x = 0"
| "object_size i ((n, t) # fs) x =
     (if is_set i (n, t) x then field_size n t (member x n) else 0) + object_size (i + 1) fs x"

fun object_bytes :: "nat \<Rightarrow> pb_schema \<Rightarrow> pb_object \<Rightarrow> byte list" where
  "object_bytes i [] x = []"
| "object_bytes i ((n, t) # fs) x =
     (if is_set i (n, t) x then field_bytes n t (member x n) else []) @ object_bytes (i + 1) fs x"


subsection \<open>They are the functions of Protobuf\<close>

lemma fields_of_None: "n \<notin> fst ` set sch \<Longrightarrow> fields_of i sch x n = None"
  by (induction i sch x rule: fields_of.induct) auto

lemma fields_size_cong:
  "(\<And>n. n \<in> fst ` set sch \<Longrightarrow> pb_fields m n = pb_fields m' n) \<Longrightarrow> fields_size sch m = fields_size sch m'"
proof (induction sch)
  case (Cons f fs)
  then show ?case by (cases f) auto
qed simp

lemma fields_bytes_cong:
  "(\<And>n. n \<in> fst ` set sch \<Longrightarrow> pb_fields m n = pb_fields m' n) \<Longrightarrow> fields_bytes sch m = fields_bytes sch m'"
proof (induction sch)
  case (Cons f fs)
  then show ?case by (cases f) auto
qed simp

lemma object_size_bytes:
  assumes "distinct (map fst sch)"
  shows "object_size i sch x = fields_size sch (Msg (fields_of i sch x) u)"
    and "object_bytes i sch x = fields_bytes sch (Msg (fields_of i sch x) u)"
proof -
  have "object_size i sch x = fields_size sch (Msg (fields_of i sch x) u)
      \<and> object_bytes i sch x = fields_bytes sch (Msg (fields_of i sch x) u)"
    using assms
  proof (induction sch arbitrary: i)
    case (Cons f fs)
    obtain n t where f: "f = (n, t)" by (cases f)
    have n: "n \<notin> fst ` set fs" and d: "distinct (map fst fs)" using Cons.prems f by auto
    have eq: "k \<in> fst ` set fs \<Longrightarrow> fields_of i (f # fs) x k = fields_of (i + 1) fs x k" for k
      using n f by auto
    have "fields_size fs (Msg (fields_of i (f # fs) x) u) = object_size (i + 1) fs x"
      and "fields_bytes fs (Msg (fields_of i (f # fs) x) u) = object_bytes (i + 1) fs x"
      using Cons.IH [OF d, of "i + 1"] fields_size_cong [of fs "Msg (fields_of i (f # fs) x) u"]
        fields_bytes_cong [of fs "Msg (fields_of i (f # fs) x) u"] eq by (metis pb_msg.sel(1))+
    then show ?case
      using fields_of_None [OF n, of "i + 1" x] by (simp add: f)
  qed simp
  then show "object_size i sch x = fields_size sch (Msg (fields_of i sch x) u)"
    and "object_bytes i sch x = fields_bytes sch (Msg (fields_of i sch x) u)" by simp_all
qed

text \<open>What a statement on another field leaves alone.\<close>

lemma is_set_cong:
  "(bit (has_bits x) i \<longleftrightarrow> bit (has_bits y) i) \<Longrightarrow> member x (fst f) = member y (fst f) \<Longrightarrow>
     is_set i f x = is_set i f y"
  by (cases f; cases "snd f") auto

lemma fields_cong:
  assumes "\<And>j. i \<le> j \<Longrightarrow> bit (has_bits x) j \<longleftrightarrow> bit (has_bits y) j"
    and "\<And>n. n \<in> fst ` set sch \<Longrightarrow> member x n = member y n"
  shows "fields_of i sch x = fields_of i sch y" "fields_ok i sch x = fields_ok i sch y"
proof -
  have "fields_of i sch x = fields_of i sch y \<and> fields_ok i sch x = fields_ok i sch y"
    using assms
  proof (induction sch arbitrary: i)
    case (Cons f fs)
    have "fields_of (i + 1) fs x = fields_of (i + 1) fs y \<and> fields_ok (i + 1) fs x = fields_ok (i + 1) fs y"
      by (rule Cons.IH) (use Cons.prems in simp_all)
    moreover have "is_set i f x = is_set i f y"
      by (rule is_set_cong) (use Cons.prems in simp_all)
    ultimately show ?case
      using Cons.prems(2) [of "fst f"] by (cases f) simp
  qed simp
  then show "fields_of i sch x = fields_of i sch y" "fields_ok i sch x = fields_ok i sch y" by simp_all
qed

lemma merge_field_object_frame:
  assumes "i < 32"
  shows "bit (has_bits (merge_field_object i f from x)) j \<longleftrightarrow>
      bit (has_bits x) j \<or> j = i \<and> bit (has_bits (merge_field_object i f from x)) i"
    and "k \<noteq> fst f \<Longrightarrow> member (merge_field_object i f from x) k = member x k"
    and "unknown_fields (merge_field_object i f from x) = unknown_fields x"
    and "cached_size (merge_field_object i f from x) = cached_size x"
  using assms by (cases f; cases "snd f"; auto simp: assign_def set_member_def bit_or_iff bit_exp_iff)+

lemma merge_fields_frame:
  assumes "i + length sch \<le> 32"
  shows "j < i \<or> i + length sch \<le> j \<Longrightarrow> bit (has_bits (merge_fields i sch from x)) j \<longleftrightarrow> bit (has_bits x) j"
    and "k \<notin> fst ` set sch \<Longrightarrow> member (merge_fields i sch from x) k = member x k"
    and "unknown_fields (merge_fields i sch from x) = unknown_fields x"
    and "cached_size (merge_fields i sch from x) = cached_size x"
proof -
  have "(j < i \<or> i + length sch \<le> j \<longrightarrow> bit (has_bits (merge_fields i sch from x)) j = bit (has_bits x) j)
      \<and> (k \<notin> fst ` set sch \<longrightarrow> member (merge_fields i sch from x) k = member x k)
      \<and> unknown_fields (merge_fields i sch from x) = unknown_fields x
      \<and> cached_size (merge_fields i sch from x) = cached_size x"
    using assms
  proof (induction sch arbitrary: i x)
    case (Cons f fs)
    have i: "i < 32" "i + 1 + length fs \<le> 32" using Cons.prems by simp_all
    show ?case
      using Cons.IH [OF i(2), of "merge_field_object i f from x"]
        merge_field_object_frame(1) [OF i(1), of f "from" x j] merge_field_object_frame(2) [OF i(1), of k f "from" x] merge_field_object_frame(3,4) [OF i(1), of f "from" x]
      by auto
  qed simp
  then show "j < i \<or> i + length sch \<le> j \<Longrightarrow> bit (has_bits (merge_fields i sch from x)) j \<longleftrightarrow> bit (has_bits x) j"
    and "k \<notin> fst ` set sch \<Longrightarrow> member (merge_fields i sch from x) k = member x k"
    and "unknown_fields (merge_fields i sch from x) = unknown_fields x"
    and "cached_size (merge_fields i sch from x) = cached_size x"
    by blast+
qed

lemma val_ok_cases:
  "val_ok PB_packed_uint32 v \<Longrightarrow> \<exists>ws. v = Packed ws"
  "val_ok (PB_message sch) v \<Longrightarrow> \<exists>xs. v = Messages xs"
  by (cases v; simp)+

lemma merge_val_scalar: "val_ok t v \<Longrightarrow> (\<nexists>sch. t = PB_message sch) \<Longrightarrow> t \<noteq> PB_packed_uint32 \<Longrightarrow> merge_val old v = v"
  by (cases t; cases v) auto

definition set_val :: "nat \<Rightarrow> nat \<times> pb_type \<Rightarrow> pb_object \<Rightarrow> pb_val option" where
  "set_val i f x = (if is_set i f x then Some (member x (fst f)) else None)"

lemma merge_field_object_val:
  assumes i: "i < 32" and ok: "val_ok (snd f) (member from (fst f))" "val_ok (snd f) (member x (fst f))"
    and d: "\<not> is_set i f x \<longrightarrow> member x (fst f) = default_val (snd f)"
  shows "set_val i f (merge_field_object i f from x) =
      (case set_val i f from of None \<Rightarrow> set_val i f x | Some v \<Rightarrow> Some (merge_val (set_val i f x) v))"
    and "val_ok (snd f) (member (merge_field_object i f from x) (fst f))"
    and "\<not> is_set i f (merge_field_object i f from x)
      \<longrightarrow> member (merge_field_object i f from x) (fst f) = default_val (snd f)"
proof -
  obtain n t where f: "f = (n, t)" by (cases f)
  have "set_val i f (merge_field_object i f from x) =
        (case set_val i f from of None \<Rightarrow> set_val i f x | Some v \<Rightarrow> Some (merge_val (set_val i f x) v))
      \<and> val_ok (snd f) (member (merge_field_object i f from x) (fst f))
      \<and> (\<not> is_set i f (merge_field_object i f from x)
        \<longrightarrow> member (merge_field_object i f from x) (fst f) = default_val (snd f))"
  proof (cases "t = PB_packed_uint32 \<or> (\<exists>sch. t = PB_message sch)")
    case True
    then show ?thesis
      using ok d by (auto simp: f set_val_def assign_def dest!: val_ok_cases)
  next
    case False
    have m: "merge_field_object i (n, t) from x =
        (if bit (has_bits from) i then set_member (2 ^ i) n (member from n) x else x)"
      and s: "is_set i (n, t) y \<longleftrightarrow> bit (has_bits y) i" for y
      using False by (cases t; simp)+
    have b: "bit (has_bits x OR 2 ^ i) i"
      using i by (simp add: bit_or_iff bit_exp_iff)
    show ?thesis
      using ok d b merge_val_scalar [of t "member from n"] False
      by (auto simp: set_val_def m s f set_member_def assign_def)
  qed
  then show "set_val i f (merge_field_object i f from x) =
      (case set_val i f from of None \<Rightarrow> set_val i f x | Some v \<Rightarrow> Some (merge_val (set_val i f x) v))"
    and "val_ok (snd f) (member (merge_field_object i f from x) (fst f))"
    and "\<not> is_set i f (merge_field_object i f from x)
      \<longrightarrow> member (merge_field_object i f from x) (fst f) = default_val (snd f)" by blast+
qed

lemma fields_of_Cons:
  "n \<notin> fst ` set fs \<Longrightarrow> fields_of i ((n, t) # fs) x = (fields_of (i + 1) fs x)(n := set_val i (n, t) x)"
  using fields_of_None [of n fs "i + 1" x] by (auto simp: set_val_def fun_eq_iff)

lemma merge_fields_of:
  assumes "i + length sch \<le> 32" and "distinct (map fst sch)" and "fields_ok i sch from" and "fields_ok i sch x"
  shows "fields_of i sch (merge_fields i sch from x) = (\<lambda>n. case fields_of i sch from n of
        None \<Rightarrow> fields_of i sch x n | Some v \<Rightarrow> Some (merge_val (fields_of i sch x n) v))"
    and "fields_ok i sch (merge_fields i sch from x)"
proof -
  have "fields_of i sch (merge_fields i sch from x) = (\<lambda>n. case fields_of i sch from n of
        None \<Rightarrow> fields_of i sch x n | Some v \<Rightarrow> Some (merge_val (fields_of i sch x n) v))
      \<and> fields_ok i sch (merge_fields i sch from x)"
    using assms
  proof (induction sch arbitrary: i x)
    case (Cons f fs)
    obtain n t where f: "f = (n, t)" by (cases f)
    have n: "n \<notin> fst ` set fs" and d: "distinct (map fst fs)" and i: "i < 32" "i + 1 + length fs \<le> 32"
      using Cons.prems f by auto
    let ?x = "merge_field_object i f from x"
    let ?y = "merge_fields (i + 1) fs from ?x"
    have bit: "j \<noteq> i \<Longrightarrow> bit (has_bits ?x) j = bit (has_bits x) j" for j
      using merge_field_object_frame(1) [OF i(1), of f "from" x j] by blast
    have mem: "k \<in> fst ` set fs \<Longrightarrow> member ?x k = member x k" for k
      using merge_field_object_frame(2) [OF i(1), of k f "from" x] n f by auto
    have tail: "fields_of (i + 1) fs ?x = fields_of (i + 1) fs x" "fields_ok (i + 1) fs ?x = fields_ok (i + 1) fs x"
      by (rule fields_cong; use bit mem in auto)+
    have rest: "fields_ok (i + 1) fs from" "fields_ok (i + 1) fs x"
      using Cons.prems(3,4) by (simp_all add: f)
    have IH: "fields_of (i + 1) fs ?y = (\<lambda>n. case fields_of (i + 1) fs from n of
          None \<Rightarrow> fields_of (i + 1) fs x n | Some v \<Rightarrow> Some (merge_val (fields_of (i + 1) fs x n) v))"
      "fields_ok (i + 1) fs ?y"
      using Cons.IH [OF i(2) d rest(1), of ?x] rest(2) unfolding tail by blast+
    have y: "member ?y n = member ?x n" "bit (has_bits ?y) i = bit (has_bits ?x) i"
      using merge_fields_frame(1,2) [OF i(2), of i "from" ?x] merge_fields_frame(2) [OF i(2) n] by simp_all
    then have set_y: "is_set i f ?y = is_set i f ?x"
      by (intro is_set_cong) (simp_all add: f)
    then have val_y: "set_val i f ?y = set_val i f ?x" using y by (simp add: set_val_def f)
    note head = merge_field_object_val [OF i(1), of f "from" x]
    have "fields_of i (f # fs) ?y = (\<lambda>n. case fields_of i (f # fs) from n of
        None \<Rightarrow> fields_of i (f # fs) x n | Some v \<Rightarrow> Some (merge_val (fields_of i (f # fs) x n) v))"
    proof (rule ext)
      fix k
      show "fields_of i (f # fs) ?y k = (case fields_of i (f # fs) from k of
          None \<Rightarrow> fields_of i (f # fs) x k | Some v \<Rightarrow> Some (merge_val (fields_of i (f # fs) x k) v))"
      proof (cases "k = n")
        case True
        then show ?thesis
          unfolding True f fields_of_Cons [OF n] fun_upd_same using head(1) Cons.prems(3,4) val_y unfolding f
          by simp
      next
        case False
        then show ?thesis
          unfolding f fields_of_Cons [OF n] fun_upd_other [OF False] using fun_cong [OF IH(1), of k]
          unfolding f by simp
      qed
    qed
    moreover have "fields_ok i (f # fs) ?y"
      using head(2,3) Cons.prems(3,4) IH(2) set_y y by (simp add: f)
    ultimately show ?case by simp
  qed simp
  then show "fields_of i sch (merge_fields i sch from x) = (\<lambda>n. case fields_of i sch from n of
        None \<Rightarrow> fields_of i sch x n | Some v \<Rightarrow> Some (merge_val (fields_of i sch x n) v))"
    and "fields_ok i sch (merge_fields i sch from x)" by blast+
qed

lemma default_members_val:
  "distinct (map fst sch) \<Longrightarrow> (n, t) \<in> set sch \<Longrightarrow> default_members sch n = default_val t"
  "n \<notin> fst ` set sch \<Longrightarrow> default_members sch n = no_member"
proof -
  have out: "n \<notin> fst ` set sch \<Longrightarrow> default_from g sch n = g n" for g sch
    by (induction g sch rule: default_from.induct) auto
  show "n \<notin> fst ` set sch \<Longrightarrow> default_members sch n = no_member"
    by (simp add: default_members_def out)
  have "distinct (map fst sch) \<Longrightarrow> (n, t) \<in> set sch \<Longrightarrow> default_from g sch n = default_val t" for g
    by (induction g sch rule: default_from.induct) (auto simp: out)
  then show "distinct (map fst sch) \<Longrightarrow> (n, t) \<in> set sch \<Longrightarrow> default_members sch n = default_val t"
    by (simp add: default_members_def)
qed

text \<open>Zero is a number of every enumeration.\<close>

fun enums_ok :: "pb_schema \<Rightarrow> bool" where
  "enums_ok [] \<longleftrightarrow> True"
| "enums_ok ((n, PB_enum cases) # fs) \<longleftrightarrow> 0 \<in> set cases \<and> enums_ok fs"
| "enums_ok (f # fs) \<longleftrightarrow> enums_ok fs"

lemma default_fields:
  assumes "enums_ok sch" and "has_bits x = 0" and "\<And>n t. (n, t) \<in> set sch \<Longrightarrow> member x n = default_val t"
  shows "fields_of i sch x = Map.empty" "fields_ok i sch x"
proof -
  have "fields_of i sch x = Map.empty \<and> fields_ok i sch x"
    using assms
  proof (induction sch arbitrary: i)
    case (Cons f fs)
    obtain n t where f: "f = (n, t)" by (cases f)
    have "fields_of (i + 1) fs x = Map.empty \<and> fields_ok (i + 1) fs x"
      by (rule Cons.IH) (use Cons.prems f in \<open>cases t; auto\<close>)+
    moreover have "member x n = default_val t" using Cons.prems(3) [of n t] f by simp
    moreover have "\<not> is_set i (n, t) x" "val_ok t (default_val t)"
      using Cons.prems(1,2) \<open>member x n = default_val t\<close> f by (cases t; simp)+
    ultimately show ?case by (simp add: f)
  qed simp
  then show "fields_of i sch x = Map.empty" "fields_ok i sch x" by simp_all
qed

lemma object_size_message:
  assumes "good_schema sch"
  shows "object_size 0 sch x + unknown_fields_size x = ByteSize sch (message_of sch x)"
    and "object_bytes 0 sch x @ unknown_bytes x = SerializeAsString sch (message_of sch x)"
  using object_size_bytes [OF good_schema_distinct [OF assms], of 0 x "unknown_fields x"]
  by (simp_all add: ByteSize_def SerializeAsString_def message_of_def unknown_fields_size_def unknown_bytes_def
      ComputeUnknownFieldsSize_def SerializeUnknownFields_def)

lemma default_object:
  assumes "good_schema sch" and "enums_ok sch" and "has_bits x = 0" and "member x = default_members sch"
  shows "fields_of 0 sch x = Map.empty" and "object_ok sch x"
  using default_fields [OF assms(2,3), of 0] default_members_val(1) [OF good_schema_distinct [OF assms(1)]] assms(3,4)
    default_members_val(2) [of _ sch]
  by (auto simp: object_ok_def)

lemma new_object_message:
  assumes "good_schema sch" and "enums_ok sch"
  shows "message_of sch (new_object sch raw) = pb_new" and "object_ok sch (new_object sch raw)"
  using default_object [OF assms, of "new_object sch raw"] by (simp_all add: message_of_def new_object_def)

lemma clear_object_message:
  assumes "good_schema sch" and "enums_ok sch"
  shows "message_of sch (clear_object sch x) = pb_new" and "object_ok sch (clear_object sch x)"
  using default_object [OF assms, of "clear_object sch x"] by (simp_all add: message_of_def clear_object_def)

lemma merge_object_message:
  assumes "good_schema sch" and "length sch \<le> 32" and "object_ok sch from" and "object_ok sch x"
  shows "message_of sch (merge_object sch from x) = MergeFrom (message_of sch from) (message_of sch x)"
    and "object_ok sch (merge_object sch from x)"
proof -
  have ok: "fields_ok 0 sch from" "fields_ok 0 sch x" using assms(3,4) by (simp_all add: object_ok_def)
  note m = merge_fields_of [OF _ good_schema_distinct [OF assms(1)] ok]
  let ?y = "merge_fields 0 sch from x"
  have same: "fields_of 0 sch (merge_object sch from x) = fields_of 0 sch ?y"
    "fields_ok 0 sch (merge_object sch from x) = fields_ok 0 sch ?y"
    unfolding merge_object_def by (rule fields_cong; simp)+
  show "message_of sch (merge_object sch from x) = MergeFrom (message_of sch from) (message_of sch x)"
    unfolding message_of_def same using m(1) assms(2) by (simp add: MergeFrom_def merge_object_def cong: option.case_cong)
  have "member (merge_object sch from x) n = no_member" if "n \<notin> fst ` set sch" for n
    using merge_fields_frame(2) [of 0 sch n "from" x] that assms(2,4) by (simp add: object_ok_def merge_object_def)
  moreover have "j < length sch" if "bit (has_bits (merge_object sch from x)) j" for j
    using merge_fields_frame(1) [of 0 sch j "from" x] that assms(2,4)
    by (cases "j < length sch") (auto simp: object_ok_def merge_object_def)
  ultimately show "object_ok sch (merge_object sch from x)"
    unfolding object_ok_def same using m(2) assms(2) by simp
qed

subsection \<open>Accessors\<close>

text \<open>
  \<open>x()\<close> returns the member whether it is set or not: the invariant makes it the value of the field or the
  default.
\<close>

lemma fields_nth:
  "fields_ok i sch x \<Longrightarrow> distinct (map fst sch) \<Longrightarrow> k < length sch \<Longrightarrow> sch ! k = (n, t) \<Longrightarrow>
     val_ok t (member x n) \<and> (\<not> is_set (i + k) (n, t) x \<longrightarrow> member x n = default_val t)
     \<and> fields_of i sch x n = (if is_set (i + k) (n, t) x then Some (member x n) else None)"
proof (induction sch arbitrary: i k)
  case (Cons f fs)
  obtain m u where f: "f = (m, u)" by (cases f)
  have m: "m \<notin> fst ` set fs" using Cons.prems(2) f by simp
  show ?case
  proof (cases k)
    case 0
    then show ?thesis using Cons.prems m f by (simp add: fields_of_None)
  next
    case (Suc j)
    then have j: "j < length fs" "fs ! j = (n, t)" using Cons.prems(3,4) by simp_all
    then have "n \<noteq> m" using m nth_mem [OF j(1)] by force
    then show ?thesis
      using Cons.IH [of "i + 1" j] Cons.prems(1,2) j f Suc by simp
  qed
qed simp

lemma getter_value:
  assumes "object_ok sch x" and "good_schema sch" and "(n, t) \<in> set sch"
  shows "member x n = (case pb_fields (message_of sch x) n of Some v \<Rightarrow> v | None \<Rightarrow> default_val t)"
proof -
  obtain k where "k < length sch" "sch ! k = (n, t)" using assms(3) by (auto simp: in_set_conv_nth)
  then show ?thesis
    using fields_nth [of 0 sch x k n t] assms(1) good_schema_distinct [OF assms(2)]
    by (auto simp: object_ok_def message_of_def)
qed

text \<open>An object that differs from another in one field only.\<close>

lemma fields_update:
  assumes "fields_ok i sch x" and "distinct (map fst sch)" and "k < length sch" and "sch ! k = (n, t)"
    and "\<And>j. j \<noteq> i + k \<Longrightarrow> bit (has_bits y) j \<longleftrightarrow> bit (has_bits x) j"
    and "\<And>m. m \<noteq> n \<Longrightarrow> member y m = member x m"
    and "val_ok t (member y n)" and "\<not> is_set (i + k) (n, t) y \<longrightarrow> member y n = default_val t"
  shows "fields_of i sch y = (fields_of i sch x)(n := set_val (i + k) (n, t) y) \<and> fields_ok i sch y"
  using assms
proof (induction sch arbitrary: i k)
  case (Cons f fs)
  obtain m u where f: "f = (m, u)" by (cases f)
  have m: "m \<notin> fst ` set fs" using Cons.prems(2) f by simp
  show ?case
  proof (cases k)
    case 0
    then have "m = n" "u = t" using Cons.prems(4) f by simp_all
    have tail: "fields_of (i + 1) fs y = fields_of (i + 1) fs x" "fields_ok (i + 1) fs y = fields_ok (i + 1) fs x"
      by (rule fields_cong; use Cons.prems(5,6) 0 m \<open>m = n\<close> in force)+
    show ?thesis
      using tail Cons.prems(1,7,8) 0 fields_of_Cons [OF m, of i u] f \<open>m = n\<close> \<open>u = t\<close>
      by (auto simp: fun_eq_iff)
  next
    case (Suc j)
    then have j: "j < length fs" "fs ! j = (n, t)" using Cons.prems(3,4) by simp_all
    then have "n \<noteq> m" using m nth_mem [OF j(1)] by force
    have head: "is_set i (m, u) y = is_set i (m, u) x" "member y m = member x m"
      using Cons.prems(5) [of i] Cons.prems(6) [of m] Suc \<open>n \<noteq> m\<close> is_set_cong [of y i x "(m, u)"] by auto
    have "fields_of (i + 1) fs y = (fields_of (i + 1) fs x)(n := set_val (i + 1 + j) (n, t) y) \<and> fields_ok (i + 1) fs y"
      by (rule Cons.IH) (use Cons.prems f j Suc in \<open>auto\<close>)
    then show ?thesis
      using head Cons.prems(1) \<open>n \<noteq> m\<close> by (auto simp: f Suc fun_eq_iff)
  qed
qed simp

end
