(* ===== verification/PbClass.thy ===== *)
theory PbClass
  imports PbObject NetMessages
begin

text \<open>
  The contract that the functions generated for a message class keep, and the rules by which the code of a
  class is compared with it.
\<close>

subsection \<open>The contract of a generated class\<close>

text \<open>
  \<open>same\<close> is the comparison of the two addresses: \<open>MergeFrom\<close> stops the program on the object itself,
  \<open>CopyFrom\<close> and \<open>Swap\<close> do nothing then.
\<close>

definition copy_object :: "pb_stmt \<Rightarrow> (bool \<Rightarrow> pb_object \<Rightarrow> pb_stmt) \<Rightarrow> bool \<Rightarrow> pb_object \<Rightarrow> pb_stmt" where
  "copy_object clear merge same from x = (if same then Inr x else rbind (clear x) (merge False from))"

definition swap_objects :: "pb_swap \<Rightarrow> bool \<Rightarrow> pb_swap" where
  "swap_objects internal_swap same p = (if same then p else internal_swap p)"

locale message_class =
  fixes sch :: pb_schema
    and ctor :: "pb_object \<Rightarrow> pb_object"
    and clear :: pb_stmt
    and merge :: "bool \<Rightarrow> pb_object \<Rightarrow> pb_stmt"
    and size :: "pb_object \<Rightarrow> nat \<times> pb_object"
    and bytes :: "pb_object \<Rightarrow> byte list"
    and swap :: pb_swap
  assumes good: "good_schema sch" "length sch \<le> 32" "enums_ok sch"
    and ctor: "ctor raw = new_object sch raw"
    and clear: "object_ok sch x \<Longrightarrow> clear x = Inr (clear_object sch x)"
    and merge: "object_ok sch from \<Longrightarrow> object_ok sch x \<Longrightarrow>
      merge same from x = (if same then Inl AssertFailed else Inr (merge_object sch from x))"
    and size: "object_ok sch x \<Longrightarrow> \<exists>p. size x =
      (object_size 0 sch x + unknown_fields_size x,
       x\<lparr>cached_size := object_size 0 sch x + unknown_fields_size x, packed_cached_byte_size := p\<rparr>)"
    and bytes: "object_ok sch x \<Longrightarrow> bytes (snd (size x)) = object_bytes 0 sch x @ unknown_bytes x"
    and swap: "object_ok sch x \<Longrightarrow> object_ok sch y \<Longrightarrow>
      swap (x, y) = (y\<lparr>packed_cached_byte_size := packed_cached_byte_size x\<rparr>,
        x\<lparr>packed_cached_byte_size := packed_cached_byte_size y\<rparr>)"
begin

lemma ctor_message: "object_ok sch (ctor raw)" "message_of sch (ctor raw) = pb_new"
  using new_object_message [OF good(1,3)] by (simp_all add: ctor)

lemma clear_message:
  "object_ok sch x \<Longrightarrow> \<exists>y. clear x = Inr y \<and> object_ok sch y \<and> message_of sch y = pb_new"
  using clear_object_message [OF good(1,3)] by (simp add: clear)

lemma merge_message:
  "object_ok sch from \<Longrightarrow> object_ok sch x \<Longrightarrow>
     \<exists>y. merge False from x = Inr y \<and> object_ok sch y
       \<and> message_of sch y = MergeFrom (message_of sch from) (message_of sch x)"
  using merge_object_message [OF good(1,2)] by (simp add: merge)

lemma copy_message:
  assumes "object_ok sch from" and "object_ok sch x"
  shows "\<exists>y. copy_object clear merge False from x = Inr y \<and> object_ok sch y \<and> message_of sch y = message_of sch from"
proof -
  obtain c where "clear x = Inr c" "object_ok sch c" "message_of sch c = pb_new"
    using clear_message [OF assms(2)] by blast
  then show ?thesis
    using merge_message [OF assms(1), of c] by (auto simp: copy_object_def MergeFrom_new)
qed

lemma size_message: "object_ok sch x \<Longrightarrow> fst (size x) = ByteSize sch (message_of sch x)"
  using size [of x] object_size_message(1) [OF good(1)] by auto

lemma bytes_message: "object_ok sch x \<Longrightarrow> bytes (snd (size x)) = SerializeAsString sch (message_of sch x)"
  by (simp add: bytes object_size_message(2) [OF good(1)])

lemma merge_itself:
  "object_ok sch from \<Longrightarrow> object_ok sch x \<Longrightarrow> merge True from x = Inl AssertFailed"
  by (simp add: merge)

lemma swap_messages:
  assumes "object_ok sch x" and "object_ok sch y"
  shows "\<exists>x' y'. swap_objects swap False (x, y) = (x', y') \<and> object_ok sch x' \<and> object_ok sch y'
    \<and> message_of sch x' = message_of sch y \<and> message_of sch y' = message_of sch x"
proof -
  have "message_of sch (z\<lparr>packed_cached_byte_size := p\<rparr>) = message_of sch z"
    "object_ok sch (z\<lparr>packed_cached_byte_size := p\<rparr>) = object_ok sch z" for z p
    unfolding message_of_def object_ok_def
    by (simp_all add: fields_cong [of 0 "z\<lparr>packed_cached_byte_size := p\<rparr>" z])
  then show ?thesis
    using assms by (simp add: swap_objects_def swap)
qed

text \<open>What is written is read back, and two objects written one behind the other are read merged.\<close>

lemma written_is_read:
  "object_ok sch x \<Longrightarrow> msg_fits sch (message_of sch x) \<Longrightarrow>
     GeneratedParse sch (bytes (snd (size x))) = Some (message_of sch x)"
  using ParseFromString_Serialize [OF good(1)] by (simp add: bytes_message GeneratedParse_eq [OF good(1)])

lemma written_twice:
  "object_ok sch x \<Longrightarrow> object_ok sch y \<Longrightarrow> msg_fits sch (message_of sch x) \<Longrightarrow> msg_fits sch (message_of sch y) \<Longrightarrow>
     GeneratedParse sch (bytes (snd (size x)) @ bytes (snd (size y))) =
       Some (MergeFrom (message_of sch y) (message_of sch x))"
  using ParseFromString_concat [OF good(1)] by (simp add: bytes_message GeneratedParse_eq [OF good(1)])

lemma size_is_length:
  "object_ok sch x \<Longrightarrow> msg_fits sch (message_of sch x) \<Longrightarrow> fst (size x) = length (bytes (snd (size x)))"
  using ByteSize_fits [of 100 sch "message_of sch x"] by (simp add: bytes_message size_message msg_fits_def)

end

subsection \<open>Rules for the code of the classes\<close>

text \<open>The test of a group of bits, one by one.\<close>

definition any_bit :: "nat \<Rightarrow> u32 \<Rightarrow> u32 \<Rightarrow> bool" where
  "any_bit i m b \<longleftrightarrow> drop_bit i b AND m \<noteq> 0"

lemma any_bit_iff: "any_bit i m b \<longleftrightarrow> (\<exists>n. bit b (i + n) \<and> bit m n)"
proof -
  have "bit m n \<Longrightarrow> n < 32" for n
    using bit_imp_le_length [of m n] by simp
  then show ?thesis
    by (auto simp: any_bit_def bit_eq_iff bit_and_iff bit_drop_bit_eq)
qed

lemma any_bit_double: "any_bit i (2 * m) b \<longleftrightarrow> any_bit (i + 1) m b"
proof -
  have "(\<exists>n. bit b (i + n) \<and> bit (2 * m) n) \<longleftrightarrow> (\<exists>n. bit b (i + 1 + n) \<and> bit m n)"
    (is "?L = ?R")
  proof
    assume ?L
    then show ?R by (auto simp: bit_double_iff gr0_conv_Suc)
  next
    assume ?R
    then obtain n where n: "bit b (i + 1 + n)" "bit m n" by blast
    then have "i + 1 + n < 32" using bit_imp_le_length [OF n(1)] by simp
    then have "bit b (i + Suc n) \<and> bit (2 * m) (Suc n)"
      using n by (simp add: bit_double_iff)
    then show ?L by blast
  qed
  then show ?thesis by (simp add: any_bit_iff)
qed

lemma any_bit_simps:
  "any_bit i 1 b \<longleftrightarrow> bit b i"
  "any_bit i (numeral (Num.Bit0 k)) b \<longleftrightarrow> any_bit (i + 1) (numeral k) b"
  "any_bit i (numeral (Num.Bit1 k)) b \<longleftrightarrow> bit b i \<or> any_bit (i + 1) (numeral k) b"
proof -
  show "any_bit i 1 b \<longleftrightarrow> bit b i"
    by (simp add: any_bit_iff bit_1_iff)
  have d: "numeral (Num.Bit0 k) = 2 * (numeral k :: u32)" "numeral (Num.Bit1 k) = 2 * (numeral k :: u32) OR 1"
  proof -
    have "2 * m + 1 = 2 * m OR 1" for m :: u32
      by (rule disjunctive_add) (auto simp: bit_double_iff bit_1_iff)
    then show "numeral (Num.Bit1 k) = 2 * (numeral k :: u32) OR 1"
      by (rule trans [OF numeral_Bit1_eq_inc_double])
    show "numeral (Num.Bit0 k) = 2 * (numeral k :: u32)"
      by (rule numeral_Bit0_eq_double)
  qed
  note arg = d [THEN arg_cong, of "\<lambda>m. any_bit i m b"]
  show "any_bit i (numeral (Num.Bit0 k)) b \<longleftrightarrow> any_bit (i + 1) (numeral k) b"
    by (rule trans [OF arg(1) any_bit_double])
  have "any_bit i (m OR 1) b \<longleftrightarrow> bit b i \<or> any_bit i m b" for m
    by (auto simp: any_bit_iff bit_or_iff bit_1_iff intro: exI [of _ 0])
  then show "any_bit i (numeral (Num.Bit1 k)) b \<longleftrightarrow> bit b i \<or> any_bit (i + 1) (numeral k) b"
    by (rule trans [OF arg(2) trans]) (simp only: any_bit_double)
qed

lemma has_any_bit: "has flag x \<longleftrightarrow> any_bit 0 flag (has_bits x)"
  by (simp add: has_def any_bit_def)

definition copy_bit :: "nat \<Rightarrow> nat \<Rightarrow> pb_object \<Rightarrow> pb_object \<Rightarrow> pb_object" where
  "copy_bit i n from x = (if bit (has_bits from) i then set_member (2 ^ i) n (member from n) x else x)"

lemma copy_field_bit: "i < 32 \<Longrightarrow> copy_field (2 ^ i) n from x = Inr (copy_bit i n from x)"
proof -
  assume "i < 32"
  then have "has (2 ^ i) from \<longleftrightarrow> bit (has_bits from) i"
    by (simp add: has_def and_exp_eq_0_iff_not_bit)
  then show ?thesis by (simp add: copy_field_def copy_bit_def)
qed

lemma copy_field_bits:
  "copy_field 1 n from x = Inr (copy_bit 0 n from x)"
  "copy_field 2 n from x = Inr (copy_bit 1 n from x)"
  "copy_field 4 n from x = Inr (copy_bit 2 n from x)"
  "copy_field 8 n from x = Inr (copy_bit 3 n from x)"
  "copy_field 16 n from x = Inr (copy_bit 4 n from x)"
  "copy_field 32 n from x = Inr (copy_bit 5 n from x)"
  "copy_field 64 n from x = Inr (copy_bit 6 n from x)"
  "copy_field 128 n from x = Inr (copy_bit 7 n from x)"
  "copy_field 256 n from x = Inr (copy_bit 8 n from x)"
  "copy_field 512 n from x = Inr (copy_bit 9 n from x)"
  "copy_field 1024 n from x = Inr (copy_bit 10 n from x)"
  "copy_field 2048 n from x = Inr (copy_bit 11 n from x)"
  "copy_field 4096 n from x = Inr (copy_bit 12 n from x)"
  "copy_field 8192 n from x = Inr (copy_bit 13 n from x)"
  "copy_field 16384 n from x = Inr (copy_bit 14 n from x)"
  "copy_field 32768 n from x = Inr (copy_bit 15 n from x)"
  "copy_field 65536 n from x = Inr (copy_bit 16 n from x)"
  "copy_field 131072 n from x = Inr (copy_bit 17 n from x)"
  "copy_field 262144 n from x = Inr (copy_bit 18 n from x)"
  "copy_field 524288 n from x = Inr (copy_bit 19 n from x)"
  "copy_field 1048576 n from x = Inr (copy_bit 20 n from x)"
  "copy_field 2097152 n from x = Inr (copy_bit 21 n from x)"
  using copy_field_bit [of 0 n "from" x] copy_field_bit [of 1 n "from" x] copy_field_bit [of 2 n "from" x] copy_field_bit [of 3 n "from" x]
    copy_field_bit [of 4 n "from" x] copy_field_bit [of 5 n "from" x] copy_field_bit [of 6 n "from" x] copy_field_bit [of 7 n "from" x]
    copy_field_bit [of 8 n "from" x] copy_field_bit [of 9 n "from" x] copy_field_bit [of 10 n "from" x] copy_field_bit [of 11 n "from" x]
    copy_field_bit [of 12 n "from" x] copy_field_bit [of 13 n "from" x] copy_field_bit [of 14 n "from" x] copy_field_bit [of 15 n "from" x]
    copy_field_bit [of 16 n "from" x] copy_field_bit [of 17 n "from" x] copy_field_bit [of 18 n "from" x] copy_field_bit [of 19 n "from" x]
    copy_field_bit [of 20 n "from" x] copy_field_bit [of 21 n "from" x]
  by simp_all

declare merge_field_object.simps [simp del]

lemma assign_frame:
  "unknown_fields (assign n v x) = unknown_fields x"
  "has_bits (assign n v x) = has_bits x"
  "member (assign n v x) n = v"
  "k \<noteq> n \<Longrightarrow> member (assign n v x) k = member x k"
  "cached_size (assign n v x) = cached_size x"
  "packed_cached_byte_size (assign n v x) = packed_cached_byte_size x"
  by (simp_all add: assign_def)

lemma copy_bit_frame:
  "\<not> bit (has_bits from) i \<Longrightarrow> copy_bit i n from x = x"
  "unknown_fields (copy_bit i n from x) = unknown_fields x"
  "k \<noteq> n \<Longrightarrow> assign k v (copy_bit i n from x) = copy_bit i n from (assign k v x)"
  "k \<noteq> n \<Longrightarrow> member (copy_bit i n from x) k = member x k"
  "copy_bit i n from (x\<lparr>unknown_fields := u\<rparr>) = (copy_bit i n from x)\<lparr>unknown_fields := u\<rparr>"
  by (auto simp: copy_bit_def set_member_def assign_def fun_upd_twist)

lemma merge_scalar:
  "merge_field_object i (n, PB_int32) from x = copy_bit i n from x"
  "merge_field_object i (n, PB_uint32) from x = copy_bit i n from x"
  "merge_field_object i (n, PB_bool) from x = copy_bit i n from x"
  "merge_field_object i (n, PB_string) from x = copy_bit i n from x"
  "merge_field_object i (n, PB_float) from x = copy_bit i n from x"
  "merge_field_object i (n, PB_enum cases) from x = copy_bit i n from x"
  by (simp_all add: merge_field_object.simps copy_bit_def)

lemma copy_enum_ok:
  "val_ok (PB_enum cases) (member from n) \<Longrightarrow> copy_enum cases flag n from x = copy_field flag n from x"
  by (cases "member from n") (simp_all add: copy_enum_def)

lemma run_simps: "run [] x = Inr x" "run (s # ss) x = rbind (s x) (run ss)"
  by (simp_all add: run_def fun_eq_iff) 

text \<open>A guarded group may be run in any case when it does nothing in the other.\<close>

lemma guarded_run: "(\<not> P x \<longrightarrow> run ss x = Inr x) \<Longrightarrow> guarded P ss x = run ss x"
  by (auto simp: guarded_def)

lemma merge_unknown_run:
  "merge_unknown from x = Inr (x\<lparr>unknown_fields := unknown_fields x @ unknown_fields from\<rparr>)"
  by (simp add: merge_unknown_def guarded_def run_simps)

lemmas merge_rules = copy_enum_ok run_simps guarded_run merge_unknown_run copy_field_bits copy_bit_frame assign_frame has_any_bit any_bit_simps
  merge_object_def merge_scalar merge_field_object.simps(1,2) merge_packed_def merge_messages_def object_ok_def

text \<open>A group that is skipped adds nothing.\<close>

lemma group_size: "(\<not> (P \<or> Q) \<longrightarrow> s = 0) \<Longrightarrow> (if P \<or> Q then s else 0) = (s :: nat)"
  by auto

lemma size_rules:
  "val_ok PB_uint32 v \<Longrightarrow> UInt32Size v = pb_size v"
  "val_ok PB_int32 v \<Longrightarrow> Int32Size v = pb_size v"
  "val_ok (PB_enum cases) v \<Longrightarrow> EnumSize v = pb_size v"
  "val_ok PB_string v \<Longrightarrow> StringSize v = pb_size v"
  by (cases v; simp add: UInt32Size_def Int32Size_def EnumSize_def StringSize_def)+

lemma fixed_sizes:
  "val_ok PB_bool v \<Longrightarrow> pb_size v = 1"
  "val_ok PB_float v \<Longrightarrow> pb_size v = 4"
  by (cases v; simp)+

lemma write_rules:
  "val_ok PB_uint32 v \<Longrightarrow> WriteUInt32ToArray n v = WriteVarint32 (field_tag (n, PB_uint32)) @ pb_write v"
  "val_ok PB_int32 v \<Longrightarrow> WriteInt32ToArray n v = WriteVarint32 (field_tag (n, PB_int32)) @ pb_write v"
  "val_ok (PB_enum cases) v \<Longrightarrow> WriteEnumToArray n v = WriteVarint32 (field_tag (n, PB_enum cases)) @ pb_write v"
  "val_ok PB_bool v \<Longrightarrow> WriteBoolToArray n v = WriteVarint32 (field_tag (n, PB_bool)) @ pb_write v"
  "val_ok PB_float v \<Longrightarrow> WriteFloatToArray n v = WriteVarint32 (field_tag (n, PB_float)) @ pb_write v"
  "val_ok PB_string v \<Longrightarrow> WriteStringToArray n v = WriteVarint32 (field_tag (n, PB_string)) @ pb_write v"
  by (cases v; simp add: WriteUInt32ToArray_def WriteInt32ToArray_def WriteEnumToArray_def WriteBoolToArray_def
      WriteFloatToArray_def WriteStringToArray_def WriteTagToArray_def field_tag_def)+

lemma packed_rules:
  "val_ok PB_packed_uint32 v \<Longrightarrow> field_size n PB_packed_uint32 v =
     (if 0 < packed_size (as_packed v)
      then VarintSize32 (MakeTag n 2) + VarintSize32SignExtended (word_of_nat (packed_size (as_packed v))) else 0)
     + packed_size (as_packed v)"
  "val_ok PB_packed_uint32 v \<Longrightarrow> v = Packed [] \<longleftrightarrow> as_packed v = []"
  "val_ok PB_packed_uint32 v \<Longrightarrow> field_bytes n PB_packed_uint32 v =
     (if as_packed v \<noteq> [] then WriteVarint32 (MakeTag n 2) @ WriteVarint32 (word_of_nat (packed_size (as_packed v))) else [])
     @ concat (map WriteVarint32 (as_packed v))"
  by (cases v; simp)+

lemma message_rules:
  "val_ok (PB_message sub) v \<Longrightarrow> field_size n (PB_message sub) v =
     length (as_messages v) * VarintSize32 (MakeTag n 2) + sum_list (map (MessageSizeNoVirtual sub) (as_messages v))"
  "val_ok (PB_message sub) v \<Longrightarrow> v = Messages [] \<longleftrightarrow> as_messages v = []"
  "val_ok (PB_message sub) v \<Longrightarrow> field_bytes n (PB_message sub) v =
     concat (map (WriteMessageNoVirtualToArray sub n) (as_messages v))"
proof -
  have "sum_list (map (\<lambda>x. let len = fields_size sub x + ComputeUnknownFieldsSize (pb_unknown x)
            in VarintSize32 (MakeTag n 2) + (VarintSize32 (word_of_nat len) + len)) xs) =
      length xs * VarintSize32 (MakeTag n 2) + sum_list (map (MessageSizeNoVirtual sub) xs)" for xs
    by (induction xs) (simp_all add: Let_def MessageSizeNoVirtual_def ByteSize_def)
  then show "val_ok (PB_message sub) v \<Longrightarrow> field_size n (PB_message sub) v =
     length (as_messages v) * VarintSize32 (MakeTag n 2) + sum_list (map (MessageSizeNoVirtual sub) (as_messages v))"
    by (cases v) simp_all
  show "val_ok (PB_message sub) v \<Longrightarrow> v = Messages [] \<longleftrightarrow> as_messages v = []"
    by (cases v) simp_all
  have "WriteMessageNoVirtualToArray sub n = (\<lambda>x.
            WriteVarint32 (MakeTag n 2) @ WriteVarint32 (word_of_nat (ByteSize sub x))
            @ fields_bytes sub x @ SerializeUnknownFields (pb_unknown x))"
    by (simp add: fun_eq_iff WriteMessageNoVirtualToArray_def WriteTagToArray_def SerializeAsString_def)
  then show "val_ok (PB_message sub) v \<Longrightarrow> field_bytes n (PB_message sub) v =
     concat (map (WriteMessageNoVirtualToArray sub n) (as_messages v))"
    by (cases v) simp_all
qed

subsection \<open>The contract from the code\<close>

lemma swap_members:
  "distinct ns \<Longrightarrow> fold (\<lambda>s. s) (map swap_member ns) (x, y) =
     (x\<lparr>member := \<lambda>n. if n \<in> set ns then member y n else member x n\<rparr>,
      y\<lparr>member := \<lambda>n. if n \<in> set ns then member x n else member y n\<rparr>)"
proof (induction ns arbitrary: x y)
  case (Cons n ns)
  then show ?case by (auto simp: swap_member_def assign_def fun_eq_iff)
qed simp

lemma swap_class:
  assumes "object_ok sch x" and "object_ok sch y" and "distinct (map fst sch)"
    and "ss = map swap_member (map fst sch) @
           (if sch = [] then [] else [swap_has_bits]) @ [swap_metadata, swap_cached_size]"
  shows "swap_all ss (x, y) = (y\<lparr>packed_cached_byte_size := packed_cached_byte_size x\<rparr>,
    x\<lparr>packed_cached_byte_size := packed_cached_byte_size y\<rparr>)"
proof -
  have out: "member x n = member y n" if "n \<notin> set (map fst sch)" for n
    using that assms(1,2) by (simp add: object_ok_def)
  then have mem: "(\<lambda>n. if n \<in> set (map fst sch) then member y n else member x n) = member y"
    "(\<lambda>n. if n \<in> set (map fst sch) then member x n else member y n) = member x"
    by (auto simp only: fun_eq_iff split: if_split) (metis out)+
  have "sch = [] \<Longrightarrow> has_bits x = has_bits y"
    using assms(1,2) by (auto simp: object_ok_def intro: bit_word_eqI)
  then show ?thesis
    using swap_members [OF assms(3), of x y] unfolding mem
    by (simp add: assms(4) swap_all_def swap_has_bits_def swap_metadata_def swap_cached_size_def)
qed

lemma assign_member: "member (assign n v x) = (member x)(n := v)"
  by (simp add: assign_def)

lemma assign_same: "member x n = v \<Longrightarrow> assign n v x = x"
  by (auto simp: assign_def)

lemma clear_string_run:
  "(\<not> has flag x \<longrightarrow> member x n = Str []) \<Longrightarrow> clear_string flag n x = Inr (assign n (Str []) x)"
  by (auto simp: clear_string_def guarded_def run_simps clear_member_def assign_same)

lemma clear_unknown_run: "clear_unknown x = Inr (x\<lparr>unknown_fields := []\<rparr>)"
  by (auto simp: clear_unknown_def guarded_def run_simps)

text \<open>What \<open>Clear\<close> has to have done; the values of the members follow.\<close>

definition cleared :: "pb_schema \<Rightarrow> pb_object \<Rightarrow> pb_object res \<Rightarrow> bool" where
  "cleared sch x r \<longleftrightarrow>
     (case r of
        Inl e \<Rightarrow> False
      | Inr y \<Rightarrow> has_bits y = 0 \<and> unknown_fields y = [] \<and> cached_size y = cached_size x
          \<and> packed_cached_byte_size y = packed_cached_byte_size x
          \<and> list_all (\<lambda>(n, t). member y n = default_val t) sch
          \<and> (\<forall>n. n \<notin> fst ` set sch \<longrightarrow> member y n = member x n))"

lemma clear_class:
  assumes "cleared sch x r" and "object_ok sch x" and "good_schema sch"
  shows "r = Inr (clear_object sch x)"
proof -
  obtain y where r: "r = Inr y" and y: "has_bits y = 0" "unknown_fields y = []" "cached_size y = cached_size x"
    "packed_cached_byte_size y = packed_cached_byte_size x"
    and members: "\<And>n t. (n, t) \<in> set sch \<Longrightarrow> member y n = default_val t"
      "\<And>n. n \<notin> fst ` set sch \<Longrightarrow> member y n = member x n"
    using assms(1) by (auto simp: cleared_def list_all_iff split: sum.splits)
  have "member y n = default_members sch n" for n
  proof (cases "n \<in> fst ` set sch")
    case True
    then show ?thesis
      using members(1) default_members_val(1) [OF good_schema_distinct [OF assms(3)]] by force
  next
    case False
    then show ?thesis
      using members(2) default_members_val(2) [OF False] assms(2) by (simp add: object_ok_def)
  qed
  then have "y = clear_object sch x"
    using y by (intro pb_object.equality ext) (simp_all add: clear_object_def)
  then show ?thesis by (simp add: r)
qed

lemma tag_sizes:
  "n < 16 \<Longrightarrow> w < 8 \<Longrightarrow> VarintSize32 (MakeTag n w) = 1"
  "16 \<le> n \<Longrightarrow> n < 2048 \<Longrightarrow> w < 8 \<Longrightarrow> VarintSize32 (MakeTag n w) = 2"
  using tag_fields(1) [of n w] by (simp_all add: VarintSize32_def word_less_nat_alt)

lemma field_tag_sizes:
  "n < 16 \<Longrightarrow> VarintSize32 (field_tag (n, t)) = 1"
  "16 \<le> n \<Longrightarrow> n < 2048 \<Longrightarrow> VarintSize32 (field_tag (n, t)) = 2"
  by (simp_all add: field_tag_def tag_sizes pb_wire_small)

lemma packed_size_zero: "packed_size ws = 0 \<longleftrightarrow> ws = []" "packed_size [] = 0"
  using WriteVarint32_nonempty by (cases ws; simp add: packed_size_eq)+

lemma same_but_packed:
  assumes "y\<lparr>packed_cached_byte_size := 0\<rparr> = x\<lparr>cached_size := s, packed_cached_byte_size := 0\<rparr>"
  shows "\<exists>p. y = x\<lparr>cached_size := s, packed_cached_byte_size := p\<rparr>"
proof
  show "y = x\<lparr>cached_size := s, packed_cached_byte_size := packed_cached_byte_size y\<rparr>"
    using assms by (cases x; cases y) simp
qed

lemma message_classI:
  fixes size :: "pb_object \<Rightarrow> nat \<times> pb_object"
  assumes good: "good_schema sch" "length sch \<le> 32" "enums_ok sch"
    and ctor: "\<And>raw. ctor raw = new_object sch raw"
    and clear: "\<And>x. object_ok sch x \<Longrightarrow> cleared sch x (clear x)"
    and merge: "\<And>from x. merge True from x = Inl AssertFailed"
      "\<And>from x. object_ok sch from \<Longrightarrow> object_ok sch x \<Longrightarrow> merge False from x = Inr (merge_object sch from x)"
    and size: "\<And>x. object_ok sch x \<Longrightarrow> fst (size x) = object_size 0 sch x + unknown_fields_size x"
      "\<And>x. (snd (size x))\<lparr>packed_cached_byte_size := 0\<rparr> =
        x\<lparr>cached_size := fst (size x), packed_cached_byte_size := 0\<rparr>"
    and bytes: "\<And>x. object_ok sch x \<Longrightarrow> bytes (snd (size x)) = object_bytes 0 sch x @ unknown_bytes x"
    and swap: "swap = swap_all (map swap_member (map fst sch) @
      (if sch = [] then [] else [swap_has_bits]) @ [swap_metadata, swap_cached_size])"
  shows "message_class sch ctor clear merge size bytes swap"
proof unfold_locales
  show "\<exists>p. size x = (object_size 0 sch x + unknown_fields_size x,
      x\<lparr>cached_size := object_size 0 sch x + unknown_fields_size x, packed_cached_byte_size := p\<rparr>)"
    if "object_ok sch x" for x
    using same_but_packed [OF size(2)] size(1) [OF that] by (metis prod.collapse)
  show "merge same from x = (if same then Inl AssertFailed else Inr (merge_object sch from x))"
    if "object_ok sch from" "object_ok sch x" for same "from" x
    using merge that by (cases same) simp_all
  show "clear x = Inr (clear_object sch x)" if "object_ok sch x" for x
    by (rule clear_class [OF clear [OF that] that good(1)])
  show "swap (x, y) = (y\<lparr>packed_cached_byte_size := packed_cached_byte_size x\<rparr>,
      x\<lparr>packed_cached_byte_size := packed_cached_byte_size y\<rparr>)" if "object_ok sch x" "object_ok sch y" for x y
    by (rule swap_class [OF that good_schema_distinct [OF good(1)] refl, folded swap])
qed (use good ctor bytes in simp_all)

text \<open>The rules that unfold the code of a class, for all its functions at once.\<close>

lemma zero_enums:
  "0 \<in> set CeC2GType" "0 \<in> set CeG2CType" "0 \<in> set PostType" "0 \<in> set EmailState"
  "0 \<in> set CGCAskAddFriend_FriendSendType" "0 \<in> set CGCVipFriend_FriendSendType"
  by (simp_all add: net_enums)

lemmas enum_rules = zero_enums copy_enum_ok
  size_rules(3) [where cases = CeC2GType] write_rules(3) [where cases = CeC2GType]
  size_rules(3) [where cases = CeG2CType] write_rules(3) [where cases = CeG2CType]
  size_rules(3) [where cases = PostType] write_rules(3) [where cases = PostType]
  size_rules(3) [where cases = EmailState] write_rules(3) [where cases = EmailState]
  size_rules(3) [where cases = CGCAskAddFriend_FriendSendType] write_rules(3) [where cases = CGCAskAddFriend_FriendSendType]
  size_rules(3) [where cases = CGCVipFriend_FriendSendType] write_rules(3) [where cases = CGCVipFriend_FriendSendType]

lemmas clear_rules = run_simps guarded_def clear_string_run clear_unknown_run clear_has_bits_def clear_member_def
  has_any_bit any_bit_simps assign_frame cleared_def object_ok_def

lemmas byte_size_rules = size_rules fixed_sizes group_size tag_sizes field_tag_sizes has_any_bit any_bit_simps
  Let_def object_ok_def

lemmas serialize_rules = write_rules unknown_bytes_def has_any_bit any_bit_simps Let_def object_ok_def

lemmas repeated_rules = packed_rules message_rules packed_size_def [symmetric] packed_size_zero WriteTagToArray_def

lemmas class_rules = clear_rules merge_unknown_run copy_field_bits copy_bit_frame merge_object_def merge_scalar
  merge_field_object.simps(1,2) merge_packed_def merge_messages_def
  byte_size_rules serialize_rules new_object_def default_members_def enum_rules

end
