(* ===== verification/NetClasses1.thy ===== *)
theory NetClasses1
  imports PbClass
begin

text \<open>
  The functions generated for the message classes from CNetHead to CGSNotifyRoleAppear
  (src/Server/protobuf/NetMessage.pb.cc, in the order of the file): for each class the members as the
  header declares them, \<open>SharedCtor\<close>, \<open>Clear\<close>, \<open>MergeFrom\<close>, \<open>ByteSize\<close>, \<open>InternalSwap\<close> and
  \<open>SerializeWithCachedSizesToArray\<close> (\<open>_Serialize\<close>), and the proof that they keep the contract of a
  message class.
\<close>

subsection \<open>CNetHead\<close>

definition CNetHead_layout :: "pb_layout" where
  "CNetHead_layout =
     [(1, PB_uint32), (2, PB_uint32), (3, PB_string)]"

definition CNetHead_SharedCtor :: "pb_object \<Rightarrow> pb_object" where
  "CNetHead_SharedCtor raw = raw\<lparr>has_bits := 0, member := (\<lambda>_. no_member)
       (1 := UInt32 0, 2 := UInt32 0, 3 := Str []),
     unknown_fields := [], cached_size := 0\<rparr>"

definition CNetHead_Clear :: "pb_stmt" where
  "CNetHead_Clear = run
     [guarded (has 7) [ZR CNetHead_layout 1 2, clear_string 4 3], clear_has_bits, clear_unknown]"

definition CNetHead_MergeFrom :: "bool \<Rightarrow> pb_object \<Rightarrow> pb_stmt" where
  "CNetHead_MergeFrom same from x =
     (if same then Inl AssertFailed else run
       [guarded (\<lambda>_. has 0xFF from)
        [copy_field 1 1 from, copy_field 2 2 from, copy_field 4 3 from],
        merge_unknown from] x)"

definition CNetHead_ByteSize :: "pb_object \<Rightarrow> nat \<times> pb_object" where
  "CNetHead_ByteSize x =
     (let total_size =
        (if has 7 x then
          (if has 1 x then 1 + UInt32Size (member x 1) else 0) +
          (if has 2 x then 1 + UInt32Size (member x 2) else 0) +
          (if has 4 x then 1 + StringSize (member x 3) else 0)
         else 0) +
        unknown_fields_size x
      in (total_size, x\<lparr>cached_size := total_size\<rparr>))"

definition CNetHead_Serialize :: "pb_object \<Rightarrow> byte list" where
  "CNetHead_Serialize x =
     (if has 1 x then WriteUInt32ToArray 1 (member x 1) else []) @
     (if has 2 x then WriteUInt32ToArray 2 (member x 2) else []) @
     (if has 4 x then WriteStringToArray 3 (member x 3) else []) @ unknown_bytes x"

definition CNetHead_InternalSwap :: "pb_swap" where
  "CNetHead_InternalSwap = swap_all
     [swap_member 1, swap_member 2, swap_member 3, swap_has_bits, swap_metadata, swap_cached_size]"

lemmas CNetHead_code =
  CNetHead_def CNetHead_layout_def CNetHead_SharedCtor_def CNetHead_Clear_def
  CNetHead_MergeFrom_def CNetHead_ByteSize_def CNetHead_Serialize_def CNetHead_InternalSwap_def

lemma CNetHead_class:
  "message_class CNetHead CNetHead_SharedCtor CNetHead_Clear CNetHead_MergeFrom CNetHead_ByteSize
     CNetHead_Serialize CNetHead_InternalSwap"
  by (rule message_classI; simp add: CNetHead_code class_rules del: One_nat_def)

subsection \<open>CRequestLogin\<close>

definition CRequestLogin_layout :: "pb_layout" where
  "CRequestLogin_layout =
     [(1, PB_string), (2, PB_string), (3, PB_string), (4, PB_string), (5, PB_bool)]"

definition CRequestLogin_SharedCtor :: "pb_object \<Rightarrow> pb_object" where
  "CRequestLogin_SharedCtor raw = raw\<lparr>has_bits := 0, member := (\<lambda>_. no_member)
       (1 := Str [], 2 := Str [], 3 := Str [], 4 := Str [], 5 := Bool False),
     unknown_fields := [], cached_size := 0\<rparr>"

definition CRequestLogin_Clear :: "pb_stmt" where
  "CRequestLogin_Clear = run
     [guarded (has 31) [clear_string 1 1, clear_string 2 2, clear_string 4 3, clear_string 8 4,
          clear_member 5 (Bool False)],
      clear_has_bits, clear_unknown]"

definition CRequestLogin_MergeFrom :: "bool \<Rightarrow> pb_object \<Rightarrow> pb_stmt" where
  "CRequestLogin_MergeFrom same from x =
     (if same then Inl AssertFailed else run
       [guarded (\<lambda>_. has 0xFF from)
        [copy_field 1 1 from, copy_field 2 2 from, copy_field 4 3 from, copy_field 8 4 from,
         copy_field 16 5 from],
        merge_unknown from] x)"

definition CRequestLogin_ByteSize :: "pb_object \<Rightarrow> nat \<times> pb_object" where
  "CRequestLogin_ByteSize x =
     (let total_size =
        (if has 31 x then
          (if has 1 x then 1 + StringSize (member x 1) else 0) +
          (if has 2 x then 1 + StringSize (member x 2) else 0) +
          (if has 4 x then 1 + StringSize (member x 3) else 0) +
          (if has 8 x then 1 + StringSize (member x 4) else 0) + (if has 16 x then 1 + 1 else 0)
         else 0) +
        unknown_fields_size x
      in (total_size, x\<lparr>cached_size := total_size\<rparr>))"

definition CRequestLogin_Serialize :: "pb_object \<Rightarrow> byte list" where
  "CRequestLogin_Serialize x =
     (if has 1 x then WriteStringToArray 1 (member x 1) else []) @
     (if has 2 x then WriteStringToArray 2 (member x 2) else []) @
     (if has 4 x then WriteStringToArray 3 (member x 3) else []) @
     (if has 8 x then WriteStringToArray 4 (member x 4) else []) @
     (if has 16 x then WriteBoolToArray 5 (member x 5) else []) @ unknown_bytes x"

definition CRequestLogin_InternalSwap :: "pb_swap" where
  "CRequestLogin_InternalSwap = swap_all
     [swap_member 1, swap_member 2, swap_member 3, swap_member 4, swap_member 5, swap_has_bits,
      swap_metadata, swap_cached_size]"

lemmas CRequestLogin_code =
  CRequestLogin_def CRequestLogin_layout_def CRequestLogin_SharedCtor_def CRequestLogin_Clear_def
  CRequestLogin_MergeFrom_def CRequestLogin_ByteSize_def CRequestLogin_Serialize_def
  CRequestLogin_InternalSwap_def

lemma CRequestLogin_class:
  "message_class CRequestLogin CRequestLogin_SharedCtor CRequestLogin_Clear
     CRequestLogin_MergeFrom CRequestLogin_ByteSize CRequestLogin_Serialize
     CRequestLogin_InternalSwap"
  by (rule message_classI; simp add: CRequestLogin_code class_rules del: One_nat_def)

subsection \<open>CRequestLoginRet\<close>

definition CRequestLoginRet_layout :: "pb_layout" where
  "CRequestLoginRet_layout =
     [(1, PB_string), (2, PB_string), (3, PB_int32)]"

definition CRequestLoginRet_SharedCtor :: "pb_object \<Rightarrow> pb_object" where
  "CRequestLoginRet_SharedCtor raw = raw\<lparr>has_bits := 0, member := (\<lambda>_. no_member)
       (1 := Str [], 2 := Str [], 3 := Int32 0),
     unknown_fields := [], cached_size := 0\<rparr>"

definition CRequestLoginRet_Clear :: "pb_stmt" where
  "CRequestLoginRet_Clear = run
     [guarded (has 7) [clear_string 1 1, clear_string 2 2, clear_member 3 (Int32 0)],
      clear_has_bits, clear_unknown]"

definition CRequestLoginRet_MergeFrom :: "bool \<Rightarrow> pb_object \<Rightarrow> pb_stmt" where
  "CRequestLoginRet_MergeFrom same from x =
     (if same then Inl AssertFailed else run
       [guarded (\<lambda>_. has 0xFF from)
        [copy_field 1 1 from, copy_field 2 2 from, copy_field 4 3 from],
        merge_unknown from] x)"

definition CRequestLoginRet_ByteSize :: "pb_object \<Rightarrow> nat \<times> pb_object" where
  "CRequestLoginRet_ByteSize x =
     (let total_size =
        (if has 7 x then
          (if has 1 x then 1 + StringSize (member x 1) else 0) +
          (if has 2 x then 1 + StringSize (member x 2) else 0) +
          (if has 4 x then 1 + Int32Size (member x 3) else 0)
         else 0) +
        unknown_fields_size x
      in (total_size, x\<lparr>cached_size := total_size\<rparr>))"

definition CRequestLoginRet_Serialize :: "pb_object \<Rightarrow> byte list" where
  "CRequestLoginRet_Serialize x =
     (if has 1 x then WriteStringToArray 1 (member x 1) else []) @
     (if has 2 x then WriteStringToArray 2 (member x 2) else []) @
     (if has 4 x then WriteInt32ToArray 3 (member x 3) else []) @ unknown_bytes x"

definition CRequestLoginRet_InternalSwap :: "pb_swap" where
  "CRequestLoginRet_InternalSwap = swap_all
     [swap_member 1, swap_member 2, swap_member 3, swap_has_bits, swap_metadata, swap_cached_size]"

lemmas CRequestLoginRet_code =
  CRequestLoginRet_def CRequestLoginRet_layout_def CRequestLoginRet_SharedCtor_def
  CRequestLoginRet_Clear_def CRequestLoginRet_MergeFrom_def CRequestLoginRet_ByteSize_def
  CRequestLoginRet_Serialize_def CRequestLoginRet_InternalSwap_def

lemma CRequestLoginRet_class:
  "message_class CRequestLoginRet CRequestLoginRet_SharedCtor CRequestLoginRet_Clear
     CRequestLoginRet_MergeFrom CRequestLoginRet_ByteSize CRequestLoginRet_Serialize
     CRequestLoginRet_InternalSwap"
  by (rule message_classI; simp add: CRequestLoginRet_code class_rules del: One_nat_def)

subsection \<open>CRequestPing\<close>

definition CRequestPing_layout :: "pb_layout" where
  "CRequestPing_layout =
     []"

definition CRequestPing_SharedCtor :: "pb_object \<Rightarrow> pb_object" where
  "CRequestPing_SharedCtor raw = raw\<lparr>has_bits := 0, member := (\<lambda>_. no_member),
     unknown_fields := [], cached_size := 0\<rparr>"

definition CRequestPing_Clear :: "pb_stmt" where
  "CRequestPing_Clear = run
     [clear_has_bits, clear_unknown]"

definition CRequestPing_MergeFrom :: "bool \<Rightarrow> pb_object \<Rightarrow> pb_stmt" where
  "CRequestPing_MergeFrom same from x =
     (if same then Inl AssertFailed else run
       [merge_unknown from] x)"

definition CRequestPing_ByteSize :: "pb_object \<Rightarrow> nat \<times> pb_object" where
  "CRequestPing_ByteSize x =
     (let total_size =
        unknown_fields_size x
      in (total_size, x\<lparr>cached_size := total_size\<rparr>))"

definition CRequestPing_Serialize :: "pb_object \<Rightarrow> byte list" where
  "CRequestPing_Serialize x =
     unknown_bytes x"

definition CRequestPing_InternalSwap :: "pb_swap" where
  "CRequestPing_InternalSwap = swap_all
     [swap_metadata, swap_cached_size]"

lemmas CRequestPing_code =
  CRequestPing_def CRequestPing_layout_def CRequestPing_SharedCtor_def CRequestPing_Clear_def
  CRequestPing_MergeFrom_def CRequestPing_ByteSize_def CRequestPing_Serialize_def
  CRequestPing_InternalSwap_def

lemma CRequestPing_class:
  "message_class CRequestPing CRequestPing_SharedCtor CRequestPing_Clear CRequestPing_MergeFrom
     CRequestPing_ByteSize CRequestPing_Serialize CRequestPing_InternalSwap"
  by (rule message_classI; simp add: CRequestPing_code class_rules del: One_nat_def)

subsection \<open>CGSNotifyRoleBaseInfo\<close>

definition CGSNotifyRoleBaseInfo_layout :: "pb_layout" where
  "CGSNotifyRoleBaseInfo_layout =
     [(2, PB_string), (1, PB_uint32), (3, PB_int32), (4, PB_bool), (5, PB_uint32), (6, PB_uint32),
      (7, PB_uint32), (8, PB_uint32), (9, PB_uint32), (10, PB_uint32), (11, PB_uint32),
      (12, PB_uint32), (13, PB_uint32), (14, PB_uint32), (15, PB_uint32), (16, PB_uint32),
      (17, PB_uint32), (18, PB_uint32), (19, PB_uint32), (20, PB_uint32), (21, PB_uint32),
      (22, PB_uint32)]"

definition CGSNotifyRoleBaseInfo_SharedCtor :: "pb_object \<Rightarrow> pb_object" where
  "CGSNotifyRoleBaseInfo_SharedCtor raw = raw\<lparr>has_bits := 0, member := (\<lambda>_. no_member)
       (1 := UInt32 0, 2 := Str [], 3 := Int32 0, 4 := Bool False, 5 := UInt32 0, 6 := UInt32 0,
        7 := UInt32 0, 8 := UInt32 0, 9 := UInt32 0, 10 := UInt32 0, 11 := UInt32 0,
        12 := UInt32 0, 13 := UInt32 0, 14 := UInt32 0, 15 := UInt32 0, 16 := UInt32 0,
        17 := UInt32 0, 18 := UInt32 0, 19 := UInt32 0, 20 := UInt32 0, 21 := UInt32 0,
        22 := UInt32 0),
     unknown_fields := [], cached_size := 0\<rparr>"

definition CGSNotifyRoleBaseInfo_Clear :: "pb_stmt" where
  "CGSNotifyRoleBaseInfo_Clear = run
     [guarded (has 255) [ZR CGSNotifyRoleBaseInfo_layout 1 8, clear_string 2 2],
      guarded (has 65280) [ZR CGSNotifyRoleBaseInfo_layout 9 16],
      guarded (has 4128768) [ZR CGSNotifyRoleBaseInfo_layout 17 22], clear_has_bits, clear_unknown]"

definition CGSNotifyRoleBaseInfo_MergeFrom :: "bool \<Rightarrow> pb_object \<Rightarrow> pb_stmt" where
  "CGSNotifyRoleBaseInfo_MergeFrom same from x =
     (if same then Inl AssertFailed else run
       [guarded (\<lambda>_. has 0xFF from)
        [copy_field 1 1 from, copy_field 2 2 from, copy_field 4 3 from, copy_field 8 4 from,
         copy_field 16 5 from, copy_field 32 6 from, copy_field 64 7 from, copy_field 128 8 from],
        guarded (\<lambda>_. has 0xFF00 from)
        [copy_field 256 9 from, copy_field 512 10 from, copy_field 1024 11 from,
         copy_field 2048 12 from, copy_field 4096 13 from, copy_field 8192 14 from,
         copy_field 16384 15 from, copy_field 32768 16 from],
        guarded (\<lambda>_. has 0xFF0000 from)
        [copy_field 65536 17 from, copy_field 131072 18 from, copy_field 262144 19 from,
         copy_field 524288 20 from, copy_field 1048576 21 from, copy_field 2097152 22 from],
        merge_unknown from] x)"

definition CGSNotifyRoleBaseInfo_ByteSize :: "pb_object \<Rightarrow> nat \<times> pb_object" where
  "CGSNotifyRoleBaseInfo_ByteSize x =
     (let total_size =
        (if has 255 x then
          (if has 1 x then 1 + UInt32Size (member x 1) else 0) +
          (if has 2 x then 1 + StringSize (member x 2) else 0) +
          (if has 4 x then 1 + Int32Size (member x 3) else 0) + (if has 8 x then 1 + 1 else 0) +
          (if has 16 x then 1 + UInt32Size (member x 5) else 0) +
          (if has 32 x then 1 + UInt32Size (member x 6) else 0) +
          (if has 64 x then 1 + UInt32Size (member x 7) else 0) +
          (if has 128 x then 1 + UInt32Size (member x 8) else 0)
         else 0) +
        (if has 65280 x then
          (if has 256 x then 1 + UInt32Size (member x 9) else 0) +
          (if has 512 x then 1 + UInt32Size (member x 10) else 0) +
          (if has 1024 x then 1 + UInt32Size (member x 11) else 0) +
          (if has 2048 x then 1 + UInt32Size (member x 12) else 0) +
          (if has 4096 x then 1 + UInt32Size (member x 13) else 0) +
          (if has 8192 x then 1 + UInt32Size (member x 14) else 0) +
          (if has 16384 x then 1 + UInt32Size (member x 15) else 0) +
          (if has 32768 x then 2 + UInt32Size (member x 16) else 0)
         else 0) +
        (if has 4128768 x then
          (if has 65536 x then 2 + UInt32Size (member x 17) else 0) +
          (if has 131072 x then 2 + UInt32Size (member x 18) else 0) +
          (if has 262144 x then 2 + UInt32Size (member x 19) else 0) +
          (if has 524288 x then 2 + UInt32Size (member x 20) else 0) +
          (if has 1048576 x then 2 + UInt32Size (member x 21) else 0) +
          (if has 2097152 x then 2 + UInt32Size (member x 22) else 0)
         else 0) +
        unknown_fields_size x
      in (total_size, x\<lparr>cached_size := total_size\<rparr>))"

definition CGSNotifyRoleBaseInfo_Serialize :: "pb_object \<Rightarrow> byte list" where
  "CGSNotifyRoleBaseInfo_Serialize x =
     (if has 1 x then WriteUInt32ToArray 1 (member x 1) else []) @
     (if has 2 x then WriteStringToArray 2 (member x 2) else []) @
     (if has 4 x then WriteInt32ToArray 3 (member x 3) else []) @
     (if has 8 x then WriteBoolToArray 4 (member x 4) else []) @
     (if has 16 x then WriteUInt32ToArray 5 (member x 5) else []) @
     (if has 32 x then WriteUInt32ToArray 6 (member x 6) else []) @
     (if has 64 x then WriteUInt32ToArray 7 (member x 7) else []) @
     (if has 128 x then WriteUInt32ToArray 8 (member x 8) else []) @
     (if has 256 x then WriteUInt32ToArray 9 (member x 9) else []) @
     (if has 512 x then WriteUInt32ToArray 10 (member x 10) else []) @
     (if has 1024 x then WriteUInt32ToArray 11 (member x 11) else []) @
     (if has 2048 x then WriteUInt32ToArray 12 (member x 12) else []) @
     (if has 4096 x then WriteUInt32ToArray 13 (member x 13) else []) @
     (if has 8192 x then WriteUInt32ToArray 14 (member x 14) else []) @
     (if has 16384 x then WriteUInt32ToArray 15 (member x 15) else []) @
     (if has 32768 x then WriteUInt32ToArray 16 (member x 16) else []) @
     (if has 65536 x then WriteUInt32ToArray 17 (member x 17) else []) @
     (if has 131072 x then WriteUInt32ToArray 18 (member x 18) else []) @
     (if has 262144 x then WriteUInt32ToArray 19 (member x 19) else []) @
     (if has 524288 x then WriteUInt32ToArray 20 (member x 20) else []) @
     (if has 1048576 x then WriteUInt32ToArray 21 (member x 21) else []) @
     (if has 2097152 x then WriteUInt32ToArray 22 (member x 22) else []) @ unknown_bytes x"

definition CGSNotifyRoleBaseInfo_InternalSwap :: "pb_swap" where
  "CGSNotifyRoleBaseInfo_InternalSwap = swap_all
     [swap_member 1, swap_member 2, swap_member 3, swap_member 4, swap_member 5, swap_member 6,
      swap_member 7, swap_member 8, swap_member 9, swap_member 10, swap_member 11, swap_member 12,
      swap_member 13, swap_member 14, swap_member 15, swap_member 16, swap_member 17,
      swap_member 18, swap_member 19, swap_member 20, swap_member 21, swap_member 22,
      swap_has_bits, swap_metadata, swap_cached_size]"

lemmas CGSNotifyRoleBaseInfo_code =
  CGSNotifyRoleBaseInfo_def CGSNotifyRoleBaseInfo_layout_def CGSNotifyRoleBaseInfo_SharedCtor_def
  CGSNotifyRoleBaseInfo_Clear_def CGSNotifyRoleBaseInfo_MergeFrom_def
  CGSNotifyRoleBaseInfo_ByteSize_def CGSNotifyRoleBaseInfo_Serialize_def
  CGSNotifyRoleBaseInfo_InternalSwap_def

lemma CGSNotifyRoleBaseInfo_class:
  "message_class CGSNotifyRoleBaseInfo CGSNotifyRoleBaseInfo_SharedCtor
     CGSNotifyRoleBaseInfo_Clear CGSNotifyRoleBaseInfo_MergeFrom CGSNotifyRoleBaseInfo_ByteSize
     CGSNotifyRoleBaseInfo_Serialize CGSNotifyRoleBaseInfo_InternalSwap"
proof (rule message_classI)
  show "cleared CGSNotifyRoleBaseInfo x (CGSNotifyRoleBaseInfo_Clear x)" if "object_ok CGSNotifyRoleBaseInfo x" for x
    using that
    by (cases "has 255 x"; cases "has 65280 x"; cases "has 4128768 x"; 
        simp add: CGSNotifyRoleBaseInfo_code clear_rules del: One_nat_def)
  show "CGSNotifyRoleBaseInfo_MergeFrom False from x = Inr (merge_object CGSNotifyRoleBaseInfo from x)"
    if "object_ok CGSNotifyRoleBaseInfo from" "object_ok CGSNotifyRoleBaseInfo x" for "from" x
    using that by (simp add: CGSNotifyRoleBaseInfo_code merge_rules del: One_nat_def)
  show "fst (CGSNotifyRoleBaseInfo_ByteSize x) = object_size 0 CGSNotifyRoleBaseInfo x + unknown_fields_size x"
    if "object_ok CGSNotifyRoleBaseInfo x" for x
    using that by (simp add: CGSNotifyRoleBaseInfo_code byte_size_rules del: One_nat_def)
  show "CGSNotifyRoleBaseInfo_Serialize (snd (CGSNotifyRoleBaseInfo_ByteSize x)) =
      object_bytes 0 CGSNotifyRoleBaseInfo x @ unknown_bytes x" if "object_ok CGSNotifyRoleBaseInfo x" for x
    using that by (simp add: CGSNotifyRoleBaseInfo_code serialize_rules del: One_nat_def)
qed (simp_all add: CGSNotifyRoleBaseInfo_code class_rules)

subsection \<open>CGCAskSelectRole\<close>

definition CGCAskSelectRole_layout :: "pb_layout" where
  "CGCAskSelectRole_layout =
     [(1, PB_string)]"

definition CGCAskSelectRole_SharedCtor :: "pb_object \<Rightarrow> pb_object" where
  "CGCAskSelectRole_SharedCtor raw = raw\<lparr>has_bits := 0, member := (\<lambda>_. no_member)
       (1 := Str []),
     unknown_fields := [], cached_size := 0\<rparr>"

definition CGCAskSelectRole_Clear :: "pb_stmt" where
  "CGCAskSelectRole_Clear = run
     [clear_string 1 1, clear_has_bits, clear_unknown]"

definition CGCAskSelectRole_MergeFrom :: "bool \<Rightarrow> pb_object \<Rightarrow> pb_stmt" where
  "CGCAskSelectRole_MergeFrom same from x =
     (if same then Inl AssertFailed else run
       [guarded (\<lambda>_. has 0xFF from)
        [copy_field 1 1 from], merge_unknown from] x)"

definition CGCAskSelectRole_ByteSize :: "pb_object \<Rightarrow> nat \<times> pb_object" where
  "CGCAskSelectRole_ByteSize x =
     (let total_size =
        (if has 1 x then 1 + StringSize (member x 1) else 0) + unknown_fields_size x
      in (total_size, x\<lparr>cached_size := total_size\<rparr>))"

definition CGCAskSelectRole_Serialize :: "pb_object \<Rightarrow> byte list" where
  "CGCAskSelectRole_Serialize x =
     (if has 1 x then WriteStringToArray 1 (member x 1) else []) @ unknown_bytes x"

definition CGCAskSelectRole_InternalSwap :: "pb_swap" where
  "CGCAskSelectRole_InternalSwap = swap_all
     [swap_member 1, swap_has_bits, swap_metadata, swap_cached_size]"

lemmas CGCAskSelectRole_code =
  CGCAskSelectRole_def CGCAskSelectRole_layout_def CGCAskSelectRole_SharedCtor_def
  CGCAskSelectRole_Clear_def CGCAskSelectRole_MergeFrom_def CGCAskSelectRole_ByteSize_def
  CGCAskSelectRole_Serialize_def CGCAskSelectRole_InternalSwap_def

lemma CGCAskSelectRole_class:
  "message_class CGCAskSelectRole CGCAskSelectRole_SharedCtor CGCAskSelectRole_Clear
     CGCAskSelectRole_MergeFrom CGCAskSelectRole_ByteSize CGCAskSelectRole_Serialize
     CGCAskSelectRole_InternalSwap"
  by (rule message_classI; simp add: CGCAskSelectRole_code class_rules del: One_nat_def)

subsection \<open>CNetErrorMessage\<close>

definition CNetErrorMessage_layout :: "pb_layout" where
  "CNetErrorMessage_layout =
     [(1, PB_uint32), (2, PB_uint32), (4, PB_string), (3, PB_int32)]"

definition CNetErrorMessage_SharedCtor :: "pb_object \<Rightarrow> pb_object" where
  "CNetErrorMessage_SharedCtor raw = raw\<lparr>has_bits := 0, member := (\<lambda>_. no_member)
       (1 := UInt32 0, 2 := UInt32 0, 3 := Int32 0, 4 := Str []),
     unknown_fields := [], cached_size := 0\<rparr>"

definition CNetErrorMessage_Clear :: "pb_stmt" where
  "CNetErrorMessage_Clear = run
     [guarded (has 15) [ZR CNetErrorMessage_layout 1 2, clear_member 3 (Int32 0), clear_string 8 4],
      clear_has_bits, clear_unknown]"

definition CNetErrorMessage_MergeFrom :: "bool \<Rightarrow> pb_object \<Rightarrow> pb_stmt" where
  "CNetErrorMessage_MergeFrom same from x =
     (if same then Inl AssertFailed else run
       [guarded (\<lambda>_. has 0xFF from)
        [copy_field 1 1 from, copy_field 2 2 from, copy_field 4 3 from, copy_field 8 4 from],
        merge_unknown from] x)"

definition CNetErrorMessage_ByteSize :: "pb_object \<Rightarrow> nat \<times> pb_object" where
  "CNetErrorMessage_ByteSize x =
     (let total_size =
        (if has 15 x then
          (if has 1 x then 1 + UInt32Size (member x 1) else 0) +
          (if has 2 x then 1 + UInt32Size (member x 2) else 0) +
          (if has 4 x then 1 + Int32Size (member x 3) else 0) +
          (if has 8 x then 1 + StringSize (member x 4) else 0)
         else 0) +
        unknown_fields_size x
      in (total_size, x\<lparr>cached_size := total_size\<rparr>))"

definition CNetErrorMessage_Serialize :: "pb_object \<Rightarrow> byte list" where
  "CNetErrorMessage_Serialize x =
     (if has 1 x then WriteUInt32ToArray 1 (member x 1) else []) @
     (if has 2 x then WriteUInt32ToArray 2 (member x 2) else []) @
     (if has 4 x then WriteInt32ToArray 3 (member x 3) else []) @
     (if has 8 x then WriteStringToArray 4 (member x 4) else []) @ unknown_bytes x"

definition CNetErrorMessage_InternalSwap :: "pb_swap" where
  "CNetErrorMessage_InternalSwap = swap_all
     [swap_member 1, swap_member 2, swap_member 3, swap_member 4, swap_has_bits, swap_metadata,
      swap_cached_size]"

lemmas CNetErrorMessage_code =
  CNetErrorMessage_def CNetErrorMessage_layout_def CNetErrorMessage_SharedCtor_def
  CNetErrorMessage_Clear_def CNetErrorMessage_MergeFrom_def CNetErrorMessage_ByteSize_def
  CNetErrorMessage_Serialize_def CNetErrorMessage_InternalSwap_def

lemma CNetErrorMessage_class:
  "message_class CNetErrorMessage CNetErrorMessage_SharedCtor CNetErrorMessage_Clear
     CNetErrorMessage_MergeFrom CNetErrorMessage_ByteSize CNetErrorMessage_Serialize
     CNetErrorMessage_InternalSwap"
  by (rule message_classI; simp add: CNetErrorMessage_code class_rules del: One_nat_def)

subsection \<open>CGSNotifyService\<close>

definition CGSNotifyService_layout :: "pb_layout" where
  "CGSNotifyService_layout =
     [(1, PB_enum PostType), (2, PB_uint32), (3, PB_string), (4, PB_string), (5, PB_string),
      (6, PB_string)]"

definition CGSNotifyService_SharedCtor :: "pb_object \<Rightarrow> pb_object" where
  "CGSNotifyService_SharedCtor raw = raw\<lparr>has_bits := 0, member := (\<lambda>_. no_member)
       (1 := Enum 0, 2 := UInt32 0, 3 := Str [], 4 := Str [], 5 := Str [], 6 := Str []),
     unknown_fields := [], cached_size := 0\<rparr>"

definition CGSNotifyService_Clear :: "pb_stmt" where
  "CGSNotifyService_Clear = run
     [guarded (has 63) [ZR CGSNotifyService_layout 1 2, clear_string 4 3, clear_string 8 4, clear_string 16 5,
          clear_string 32 6],
      clear_has_bits, clear_unknown]"

definition CGSNotifyService_MergeFrom :: "bool \<Rightarrow> pb_object \<Rightarrow> pb_stmt" where
  "CGSNotifyService_MergeFrom same from x =
     (if same then Inl AssertFailed else run
       [guarded (\<lambda>_. has 0xFF from)
        [copy_enum PostType 1 1 from, copy_field 2 2 from, copy_field 4 3 from,
         copy_field 8 4 from, copy_field 16 5 from, copy_field 32 6 from],
        merge_unknown from] x)"

definition CGSNotifyService_ByteSize :: "pb_object \<Rightarrow> nat \<times> pb_object" where
  "CGSNotifyService_ByteSize x =
     (let total_size =
        (if has 63 x then
          (if has 1 x then 1 + EnumSize (member x 1) else 0) +
          (if has 2 x then 1 + UInt32Size (member x 2) else 0) +
          (if has 4 x then 1 + StringSize (member x 3) else 0) +
          (if has 8 x then 1 + StringSize (member x 4) else 0) +
          (if has 16 x then 1 + StringSize (member x 5) else 0) +
          (if has 32 x then 1 + StringSize (member x 6) else 0)
         else 0) +
        unknown_fields_size x
      in (total_size, x\<lparr>cached_size := total_size\<rparr>))"

definition CGSNotifyService_Serialize :: "pb_object \<Rightarrow> byte list" where
  "CGSNotifyService_Serialize x =
     (if has 1 x then WriteEnumToArray 1 (member x 1) else []) @
     (if has 2 x then WriteUInt32ToArray 2 (member x 2) else []) @
     (if has 4 x then WriteStringToArray 3 (member x 3) else []) @
     (if has 8 x then WriteStringToArray 4 (member x 4) else []) @
     (if has 16 x then WriteStringToArray 5 (member x 5) else []) @
     (if has 32 x then WriteStringToArray 6 (member x 6) else []) @ unknown_bytes x"

definition CGSNotifyService_InternalSwap :: "pb_swap" where
  "CGSNotifyService_InternalSwap = swap_all
     [swap_member 1, swap_member 2, swap_member 3, swap_member 4, swap_member 5, swap_member 6,
      swap_has_bits, swap_metadata, swap_cached_size]"

lemmas CGSNotifyService_code =
  CGSNotifyService_def CGSNotifyService_layout_def CGSNotifyService_SharedCtor_def
  CGSNotifyService_Clear_def CGSNotifyService_MergeFrom_def CGSNotifyService_ByteSize_def
  CGSNotifyService_Serialize_def CGSNotifyService_InternalSwap_def

lemma CGSNotifyService_class:
  "message_class CGSNotifyService CGSNotifyService_SharedCtor CGSNotifyService_Clear
     CGSNotifyService_MergeFrom CGSNotifyService_ByteSize CGSNotifyService_Serialize
     CGSNotifyService_InternalSwap"
  by (rule message_classI; simp add: CGSNotifyService_code class_rules del: One_nat_def)

subsection \<open>CGSNotifyChangeScene\<close>

definition CGSNotifyChangeScene_layout :: "pb_layout" where
  "CGSNotifyChangeScene_layout =
     [(1, PB_uint32), (2, PB_uint32), (3, PB_uint32), (4, PB_float), (5, PB_float), (6, PB_float)]"

definition CGSNotifyChangeScene_SharedCtor :: "pb_object \<Rightarrow> pb_object" where
  "CGSNotifyChangeScene_SharedCtor raw = raw\<lparr>has_bits := 0, member := (\<lambda>_. no_member)
       (1 := UInt32 0, 2 := UInt32 0, 3 := UInt32 0, 4 := Float 0, 5 := Float 0, 6 := Float 0),
     unknown_fields := [], cached_size := 0\<rparr>"

definition CGSNotifyChangeScene_Clear :: "pb_stmt" where
  "CGSNotifyChangeScene_Clear = run
     [guarded (has 63) [ZR CGSNotifyChangeScene_layout 1 6], clear_has_bits, clear_unknown]"

definition CGSNotifyChangeScene_MergeFrom :: "bool \<Rightarrow> pb_object \<Rightarrow> pb_stmt" where
  "CGSNotifyChangeScene_MergeFrom same from x =
     (if same then Inl AssertFailed else run
       [guarded (\<lambda>_. has 0xFF from)
        [copy_field 1 1 from, copy_field 2 2 from, copy_field 4 3 from, copy_field 8 4 from,
         copy_field 16 5 from, copy_field 32 6 from],
        merge_unknown from] x)"

definition CGSNotifyChangeScene_ByteSize :: "pb_object \<Rightarrow> nat \<times> pb_object" where
  "CGSNotifyChangeScene_ByteSize x =
     (let total_size =
        (if has 63 x then
          (if has 1 x then 1 + UInt32Size (member x 1) else 0) +
          (if has 2 x then 1 + UInt32Size (member x 2) else 0) +
          (if has 4 x then 1 + UInt32Size (member x 3) else 0) + (if has 8 x then 1 + 4 else 0) +
          (if has 16 x then 1 + 4 else 0) + (if has 32 x then 1 + 4 else 0)
         else 0) +
        unknown_fields_size x
      in (total_size, x\<lparr>cached_size := total_size\<rparr>))"

definition CGSNotifyChangeScene_Serialize :: "pb_object \<Rightarrow> byte list" where
  "CGSNotifyChangeScene_Serialize x =
     (if has 1 x then WriteUInt32ToArray 1 (member x 1) else []) @
     (if has 2 x then WriteUInt32ToArray 2 (member x 2) else []) @
     (if has 4 x then WriteUInt32ToArray 3 (member x 3) else []) @
     (if has 8 x then WriteFloatToArray 4 (member x 4) else []) @
     (if has 16 x then WriteFloatToArray 5 (member x 5) else []) @
     (if has 32 x then WriteFloatToArray 6 (member x 6) else []) @ unknown_bytes x"

definition CGSNotifyChangeScene_InternalSwap :: "pb_swap" where
  "CGSNotifyChangeScene_InternalSwap = swap_all
     [swap_member 1, swap_member 2, swap_member 3, swap_member 4, swap_member 5, swap_member 6,
      swap_has_bits, swap_metadata, swap_cached_size]"

lemmas CGSNotifyChangeScene_code =
  CGSNotifyChangeScene_def CGSNotifyChangeScene_layout_def CGSNotifyChangeScene_SharedCtor_def
  CGSNotifyChangeScene_Clear_def CGSNotifyChangeScene_MergeFrom_def
  CGSNotifyChangeScene_ByteSize_def CGSNotifyChangeScene_Serialize_def
  CGSNotifyChangeScene_InternalSwap_def

lemma CGSNotifyChangeScene_class:
  "message_class CGSNotifyChangeScene CGSNotifyChangeScene_SharedCtor CGSNotifyChangeScene_Clear
     CGSNotifyChangeScene_MergeFrom CGSNotifyChangeScene_ByteSize CGSNotifyChangeScene_Serialize
     CGSNotifyChangeScene_InternalSwap"
  by (rule message_classI; simp add: CGSNotifyChangeScene_code class_rules del: One_nat_def)

subsection \<open>CGSNotifyRoleAppear\<close>

definition CGSNotifyRoleAppear_layout :: "pb_layout" where
  "CGSNotifyRoleAppear_layout =
     [(2, PB_string), (1, PB_uint32), (3, PB_int32), (4, PB_bool), (5, PB_uint32), (6, PB_uint32),
      (7, PB_uint32), (8, PB_float), (9, PB_float), (10, PB_float), (11, PB_float),
      (12, PB_float), (13, PB_float), (14, PB_float), (15, PB_uint32), (16, PB_uint32),
      (17, PB_uint32), (18, PB_uint32), (19, PB_uint32)]"

definition CGSNotifyRoleAppear_SharedCtor :: "pb_object \<Rightarrow> pb_object" where
  "CGSNotifyRoleAppear_SharedCtor raw = raw\<lparr>has_bits := 0, member := (\<lambda>_. no_member)
       (1 := UInt32 0, 2 := Str [], 3 := Int32 0, 4 := Bool False, 5 := UInt32 0, 6 := UInt32 0,
        7 := UInt32 0, 8 := Float 0, 9 := Float 0, 10 := Float 0, 11 := Float 0, 12 := Float 0,
        13 := Float 0, 14 := Float 0, 15 := UInt32 0, 16 := UInt32 0, 17 := UInt32 0,
        18 := UInt32 0, 19 := UInt32 0),
     unknown_fields := [], cached_size := 0\<rparr>"

definition CGSNotifyRoleAppear_Clear :: "pb_stmt" where
  "CGSNotifyRoleAppear_Clear = run
     [guarded (has 255) [ZR CGSNotifyRoleAppear_layout 1 8, clear_string 2 2],
      guarded (has 65280) [ZR CGSNotifyRoleAppear_layout 9 16],
      ZR CGSNotifyRoleAppear_layout 17 19, clear_has_bits, clear_unknown]"

definition CGSNotifyRoleAppear_MergeFrom :: "bool \<Rightarrow> pb_object \<Rightarrow> pb_stmt" where
  "CGSNotifyRoleAppear_MergeFrom same from x =
     (if same then Inl AssertFailed else run
       [guarded (\<lambda>_. has 0xFF from)
        [copy_field 1 1 from, copy_field 2 2 from, copy_field 4 3 from, copy_field 8 4 from,
         copy_field 16 5 from, copy_field 32 6 from, copy_field 64 7 from, copy_field 128 8 from],
        guarded (\<lambda>_. has 0xFF00 from)
        [copy_field 256 9 from, copy_field 512 10 from, copy_field 1024 11 from,
         copy_field 2048 12 from, copy_field 4096 13 from, copy_field 8192 14 from,
         copy_field 16384 15 from, copy_field 32768 16 from],
        guarded (\<lambda>_. has 0xFF0000 from)
        [copy_field 65536 17 from, copy_field 131072 18 from, copy_field 262144 19 from],
        merge_unknown from] x)"

definition CGSNotifyRoleAppear_ByteSize :: "pb_object \<Rightarrow> nat \<times> pb_object" where
  "CGSNotifyRoleAppear_ByteSize x =
     (let total_size =
        (if has 255 x then
          (if has 1 x then 1 + UInt32Size (member x 1) else 0) +
          (if has 2 x then 1 + StringSize (member x 2) else 0) +
          (if has 4 x then 1 + Int32Size (member x 3) else 0) + (if has 8 x then 1 + 1 else 0) +
          (if has 16 x then 1 + UInt32Size (member x 5) else 0) +
          (if has 32 x then 1 + UInt32Size (member x 6) else 0) +
          (if has 64 x then 1 + UInt32Size (member x 7) else 0) + (if has 128 x then 1 + 4 else 0)
         else 0) +
        (if has 65280 x then
          (if has 256 x then 1 + 4 else 0) + (if has 512 x then 1 + 4 else 0) +
          (if has 1024 x then 1 + 4 else 0) + (if has 2048 x then 1 + 4 else 0) +
          (if has 4096 x then 1 + 4 else 0) + (if has 8192 x then 1 + 4 else 0) +
          (if has 16384 x then 1 + UInt32Size (member x 15) else 0) +
          (if has 32768 x then 2 + UInt32Size (member x 16) else 0)
         else 0) +
        (if has 458752 x then
          (if has 65536 x then 2 + UInt32Size (member x 17) else 0) +
          (if has 131072 x then 2 + UInt32Size (member x 18) else 0) +
          (if has 262144 x then 2 + UInt32Size (member x 19) else 0)
         else 0) +
        unknown_fields_size x
      in (total_size, x\<lparr>cached_size := total_size\<rparr>))"

definition CGSNotifyRoleAppear_Serialize :: "pb_object \<Rightarrow> byte list" where
  "CGSNotifyRoleAppear_Serialize x =
     (if has 1 x then WriteUInt32ToArray 1 (member x 1) else []) @
     (if has 2 x then WriteStringToArray 2 (member x 2) else []) @
     (if has 4 x then WriteInt32ToArray 3 (member x 3) else []) @
     (if has 8 x then WriteBoolToArray 4 (member x 4) else []) @
     (if has 16 x then WriteUInt32ToArray 5 (member x 5) else []) @
     (if has 32 x then WriteUInt32ToArray 6 (member x 6) else []) @
     (if has 64 x then WriteUInt32ToArray 7 (member x 7) else []) @
     (if has 128 x then WriteFloatToArray 8 (member x 8) else []) @
     (if has 256 x then WriteFloatToArray 9 (member x 9) else []) @
     (if has 512 x then WriteFloatToArray 10 (member x 10) else []) @
     (if has 1024 x then WriteFloatToArray 11 (member x 11) else []) @
     (if has 2048 x then WriteFloatToArray 12 (member x 12) else []) @
     (if has 4096 x then WriteFloatToArray 13 (member x 13) else []) @
     (if has 8192 x then WriteFloatToArray 14 (member x 14) else []) @
     (if has 16384 x then WriteUInt32ToArray 15 (member x 15) else []) @
     (if has 32768 x then WriteUInt32ToArray 16 (member x 16) else []) @
     (if has 65536 x then WriteUInt32ToArray 17 (member x 17) else []) @
     (if has 131072 x then WriteUInt32ToArray 18 (member x 18) else []) @
     (if has 262144 x then WriteUInt32ToArray 19 (member x 19) else []) @ unknown_bytes x"

definition CGSNotifyRoleAppear_InternalSwap :: "pb_swap" where
  "CGSNotifyRoleAppear_InternalSwap = swap_all
     [swap_member 1, swap_member 2, swap_member 3, swap_member 4, swap_member 5, swap_member 6,
      swap_member 7, swap_member 8, swap_member 9, swap_member 10, swap_member 11, swap_member 12,
      swap_member 13, swap_member 14, swap_member 15, swap_member 16, swap_member 17,
      swap_member 18, swap_member 19, swap_has_bits, swap_metadata, swap_cached_size]"

lemmas CGSNotifyRoleAppear_code =
  CGSNotifyRoleAppear_def CGSNotifyRoleAppear_layout_def CGSNotifyRoleAppear_SharedCtor_def
  CGSNotifyRoleAppear_Clear_def CGSNotifyRoleAppear_MergeFrom_def CGSNotifyRoleAppear_ByteSize_def
  CGSNotifyRoleAppear_Serialize_def CGSNotifyRoleAppear_InternalSwap_def

lemma CGSNotifyRoleAppear_class:
  "message_class CGSNotifyRoleAppear CGSNotifyRoleAppear_SharedCtor CGSNotifyRoleAppear_Clear
     CGSNotifyRoleAppear_MergeFrom CGSNotifyRoleAppear_ByteSize CGSNotifyRoleAppear_Serialize
     CGSNotifyRoleAppear_InternalSwap"
proof (rule message_classI)
  show "cleared CGSNotifyRoleAppear x (CGSNotifyRoleAppear_Clear x)" if "object_ok CGSNotifyRoleAppear x" for x
    using that
    by (cases "has 255 x"; cases "has 65280 x"; 
        simp add: CGSNotifyRoleAppear_code clear_rules del: One_nat_def)
  show "CGSNotifyRoleAppear_MergeFrom False from x = Inr (merge_object CGSNotifyRoleAppear from x)"
    if "object_ok CGSNotifyRoleAppear from" "object_ok CGSNotifyRoleAppear x" for "from" x
    using that by (simp add: CGSNotifyRoleAppear_code merge_rules del: One_nat_def)
  show "fst (CGSNotifyRoleAppear_ByteSize x) = object_size 0 CGSNotifyRoleAppear x + unknown_fields_size x"
    if "object_ok CGSNotifyRoleAppear x" for x
    using that by (simp add: CGSNotifyRoleAppear_code byte_size_rules del: One_nat_def)
  show "CGSNotifyRoleAppear_Serialize (snd (CGSNotifyRoleAppear_ByteSize x)) =
      object_bytes 0 CGSNotifyRoleAppear x @ unknown_bytes x" if "object_ok CGSNotifyRoleAppear x" for x
    using that by (simp add: CGSNotifyRoleAppear_code serialize_rules del: One_nat_def)
qed (simp_all add: CGSNotifyRoleAppear_code class_rules)

end
