(* ===== verification/NetClasses2.thy ===== *)
theory NetClasses2
  imports PbClass
begin

text \<open>
  The functions generated for the message classes from CGSObjectDisappear to CGCReportUseSkill
  (src/Server/protobuf/NetMessage.pb.cc, in the order of the file): for each class the members as the
  header declares them, \<open>SharedCtor\<close>, \<open>Clear\<close>, \<open>MergeFrom\<close>, \<open>ByteSize\<close>, \<open>InternalSwap\<close> and
  \<open>SerializeWithCachedSizesToArray\<close> (\<open>_Serialize\<close>), and the proof that they keep the contract of a
  message class.
\<close>

subsection \<open>CGSObjectDisappear\<close>

definition CGSObjectDisappear_layout :: "pb_layout" where
  "CGSObjectDisappear_layout =
     [(2, PB_packed_uint32), (1, PB_uint32)]"

definition CGSObjectDisappear_SharedCtor :: "pb_object \<Rightarrow> pb_object" where
  "CGSObjectDisappear_SharedCtor raw = raw\<lparr>has_bits := 0, member := (\<lambda>_. no_member)
       (1 := UInt32 0, 2 := Packed []),
     unknown_fields := [], cached_size := 0\<rparr>"

definition CGSObjectDisappear_Clear :: "pb_stmt" where
  "CGSObjectDisappear_Clear = run
     [clear_member 1 (UInt32 0), clear_member 2 (Packed []), clear_has_bits, clear_unknown]"

definition CGSObjectDisappear_MergeFrom :: "bool \<Rightarrow> pb_object \<Rightarrow> pb_stmt" where
  "CGSObjectDisappear_MergeFrom same from x =
     (if same then Inl AssertFailed else run
       [merge_packed 2 from, guarded (\<lambda>_. has 0xFF from)
        [copy_field 1 1 from],
        merge_unknown from] x)"

definition CGSObjectDisappear_ByteSize :: "pb_object \<Rightarrow> nat \<times> pb_object" where
  "CGSObjectDisappear_ByteSize x =
     (let data_size = sum_list (map VarintSize32 (as_packed (member x 2)));
          total_size =
        (if has 1 x then 1 + UInt32Size (member x 1) else 0) +
        (if 0 < data_size then 1 + VarintSize32SignExtended (word_of_nat data_size) else 0) + data_size +
        unknown_fields_size x
      in (total_size, x\<lparr>cached_size := total_size, packed_cached_byte_size := data_size\<rparr>))"

definition CGSObjectDisappear_Serialize :: "pb_object \<Rightarrow> byte list" where
  "CGSObjectDisappear_Serialize x =
     (if has 1 x then WriteUInt32ToArray 1 (member x 1) else []) @
     (if 0 < length (as_packed (member x 2)) then
          WriteTagToArray 2 2 @ WriteVarint32 (word_of_nat (packed_cached_byte_size x))
        else []) @ concat (map WriteVarint32 (as_packed (member x 2))) @
     unknown_bytes x"

definition CGSObjectDisappear_InternalSwap :: "pb_swap" where
  "CGSObjectDisappear_InternalSwap = swap_all
     [swap_member 1, swap_member 2, swap_has_bits, swap_metadata, swap_cached_size]"

lemmas CGSObjectDisappear_code =
  CGSObjectDisappear_def CGSObjectDisappear_layout_def CGSObjectDisappear_SharedCtor_def
  CGSObjectDisappear_Clear_def CGSObjectDisappear_MergeFrom_def CGSObjectDisappear_ByteSize_def
  CGSObjectDisappear_Serialize_def CGSObjectDisappear_InternalSwap_def

lemma CGSObjectDisappear_class:
  "message_class CGSObjectDisappear CGSObjectDisappear_SharedCtor CGSObjectDisappear_Clear
     CGSObjectDisappear_MergeFrom CGSObjectDisappear_ByteSize CGSObjectDisappear_Serialize
     CGSObjectDisappear_InternalSwap"
  by (rule message_classI; simp add: CGSObjectDisappear_code class_rules repeated_rules
      del: One_nat_def field_size.simps(1,2) field_bytes.simps(1,2))

subsection \<open>CGCAskLogout\<close>

definition CGCAskLogout_layout :: "pb_layout" where
  "CGCAskLogout_layout =
     []"

definition CGCAskLogout_SharedCtor :: "pb_object \<Rightarrow> pb_object" where
  "CGCAskLogout_SharedCtor raw = raw\<lparr>has_bits := 0, member := (\<lambda>_. no_member),
     unknown_fields := [], cached_size := 0\<rparr>"

definition CGCAskLogout_Clear :: "pb_stmt" where
  "CGCAskLogout_Clear = run
     [clear_has_bits, clear_unknown]"

definition CGCAskLogout_MergeFrom :: "bool \<Rightarrow> pb_object \<Rightarrow> pb_stmt" where
  "CGCAskLogout_MergeFrom same from x =
     (if same then Inl AssertFailed else run
       [merge_unknown from] x)"

definition CGCAskLogout_ByteSize :: "pb_object \<Rightarrow> nat \<times> pb_object" where
  "CGCAskLogout_ByteSize x =
     (let total_size =
        unknown_fields_size x
      in (total_size, x\<lparr>cached_size := total_size\<rparr>))"

definition CGCAskLogout_Serialize :: "pb_object \<Rightarrow> byte list" where
  "CGCAskLogout_Serialize x =
     unknown_bytes x"

definition CGCAskLogout_InternalSwap :: "pb_swap" where
  "CGCAskLogout_InternalSwap = swap_all
     [swap_metadata, swap_cached_size]"

lemmas CGCAskLogout_code =
  CGCAskLogout_def CGCAskLogout_layout_def CGCAskLogout_SharedCtor_def CGCAskLogout_Clear_def
  CGCAskLogout_MergeFrom_def CGCAskLogout_ByteSize_def CGCAskLogout_Serialize_def
  CGCAskLogout_InternalSwap_def

lemma CGCAskLogout_class:
  "message_class CGCAskLogout CGCAskLogout_SharedCtor CGCAskLogout_Clear CGCAskLogout_MergeFrom
     CGCAskLogout_ByteSize CGCAskLogout_Serialize CGCAskLogout_InternalSwap"
  by (rule message_classI; simp add: CGCAskLogout_code class_rules del: One_nat_def)

subsection \<open>CGSObjectMove\<close>

definition CGSObjectMove_layout :: "pb_layout" where
  "CGSObjectMove_layout =
     [(1, PB_uint32), (2, PB_float), (3, PB_float), (4, PB_float), (5, PB_float), (6, PB_float),
      (7, PB_float), (8, PB_float)]"

definition CGSObjectMove_SharedCtor :: "pb_object \<Rightarrow> pb_object" where
  "CGSObjectMove_SharedCtor raw = raw\<lparr>has_bits := 0, member := (\<lambda>_. no_member)
       (1 := UInt32 0, 2 := Float 0, 3 := Float 0, 4 := Float 0, 5 := Float 0, 6 := Float 0,
        7 := Float 0, 8 := Float 0),
     unknown_fields := [], cached_size := 0\<rparr>"

definition CGSObjectMove_Clear :: "pb_stmt" where
  "CGSObjectMove_Clear = run
     [guarded (has 255) [ZR CGSObjectMove_layout 1 8], clear_has_bits, clear_unknown]"

definition CGSObjectMove_MergeFrom :: "bool \<Rightarrow> pb_object \<Rightarrow> pb_stmt" where
  "CGSObjectMove_MergeFrom same from x =
     (if same then Inl AssertFailed else run
       [guarded (\<lambda>_. has 0xFF from)
        [copy_field 1 1 from, copy_field 2 2 from, copy_field 4 3 from, copy_field 8 4 from,
         copy_field 16 5 from, copy_field 32 6 from, copy_field 64 7 from, copy_field 128 8 from],
        merge_unknown from] x)"

definition CGSObjectMove_ByteSize :: "pb_object \<Rightarrow> nat \<times> pb_object" where
  "CGSObjectMove_ByteSize x =
     (let total_size =
        (if has 255 x then
          (if has 1 x then 1 + UInt32Size (member x 1) else 0) + (if has 2 x then 1 + 4 else 0) +
          (if has 4 x then 1 + 4 else 0) + (if has 8 x then 1 + 4 else 0) +
          (if has 16 x then 1 + 4 else 0) + (if has 32 x then 1 + 4 else 0) +
          (if has 64 x then 1 + 4 else 0) + (if has 128 x then 1 + 4 else 0)
         else 0) +
        unknown_fields_size x
      in (total_size, x\<lparr>cached_size := total_size\<rparr>))"

definition CGSObjectMove_Serialize :: "pb_object \<Rightarrow> byte list" where
  "CGSObjectMove_Serialize x =
     (if has 1 x then WriteUInt32ToArray 1 (member x 1) else []) @
     (if has 2 x then WriteFloatToArray 2 (member x 2) else []) @
     (if has 4 x then WriteFloatToArray 3 (member x 3) else []) @
     (if has 8 x then WriteFloatToArray 4 (member x 4) else []) @
     (if has 16 x then WriteFloatToArray 5 (member x 5) else []) @
     (if has 32 x then WriteFloatToArray 6 (member x 6) else []) @
     (if has 64 x then WriteFloatToArray 7 (member x 7) else []) @
     (if has 128 x then WriteFloatToArray 8 (member x 8) else []) @ unknown_bytes x"

definition CGSObjectMove_InternalSwap :: "pb_swap" where
  "CGSObjectMove_InternalSwap = swap_all
     [swap_member 1, swap_member 2, swap_member 3, swap_member 4, swap_member 5, swap_member 6,
      swap_member 7, swap_member 8, swap_has_bits, swap_metadata, swap_cached_size]"

lemmas CGSObjectMove_code =
  CGSObjectMove_def CGSObjectMove_layout_def CGSObjectMove_SharedCtor_def CGSObjectMove_Clear_def
  CGSObjectMove_MergeFrom_def CGSObjectMove_ByteSize_def CGSObjectMove_Serialize_def
  CGSObjectMove_InternalSwap_def

lemma CGSObjectMove_class:
  "message_class CGSObjectMove CGSObjectMove_SharedCtor CGSObjectMove_Clear
     CGSObjectMove_MergeFrom CGSObjectMove_ByteSize CGSObjectMove_Serialize
     CGSObjectMove_InternalSwap"
  by (rule message_classI; simp add: CGSObjectMove_code class_rules del: One_nat_def)

subsection \<open>CGCAskMove\<close>

definition CGCAskMove_layout :: "pb_layout" where
  "CGCAskMove_layout =
     [(1, PB_uint32), (2, PB_float), (3, PB_float), (4, PB_float), (5, PB_uint32), (6, PB_float),
      (7, PB_float), (8, PB_float)]"

definition CGCAskMove_SharedCtor :: "pb_object \<Rightarrow> pb_object" where
  "CGCAskMove_SharedCtor raw = raw\<lparr>has_bits := 0, member := (\<lambda>_. no_member)
       (1 := UInt32 0, 2 := Float 0, 3 := Float 0, 4 := Float 0, 5 := UInt32 0, 6 := Float 0,
        7 := Float 0, 8 := Float 0),
     unknown_fields := [], cached_size := 0\<rparr>"

definition CGCAskMove_Clear :: "pb_stmt" where
  "CGCAskMove_Clear = run
     [guarded (has 255) [ZR CGCAskMove_layout 1 8], clear_has_bits, clear_unknown]"

definition CGCAskMove_MergeFrom :: "bool \<Rightarrow> pb_object \<Rightarrow> pb_stmt" where
  "CGCAskMove_MergeFrom same from x =
     (if same then Inl AssertFailed else run
       [guarded (\<lambda>_. has 0xFF from)
        [copy_field 1 1 from, copy_field 2 2 from, copy_field 4 3 from, copy_field 8 4 from,
         copy_field 16 5 from, copy_field 32 6 from, copy_field 64 7 from, copy_field 128 8 from],
        merge_unknown from] x)"

definition CGCAskMove_ByteSize :: "pb_object \<Rightarrow> nat \<times> pb_object" where
  "CGCAskMove_ByteSize x =
     (let total_size =
        (if has 255 x then
          (if has 1 x then 1 + UInt32Size (member x 1) else 0) + (if has 2 x then 1 + 4 else 0) +
          (if has 4 x then 1 + 4 else 0) + (if has 8 x then 1 + 4 else 0) +
          (if has 16 x then 1 + UInt32Size (member x 5) else 0) +
          (if has 32 x then 1 + 4 else 0) + (if has 64 x then 1 + 4 else 0) +
          (if has 128 x then 1 + 4 else 0)
         else 0) +
        unknown_fields_size x
      in (total_size, x\<lparr>cached_size := total_size\<rparr>))"

definition CGCAskMove_Serialize :: "pb_object \<Rightarrow> byte list" where
  "CGCAskMove_Serialize x =
     (if has 1 x then WriteUInt32ToArray 1 (member x 1) else []) @
     (if has 2 x then WriteFloatToArray 2 (member x 2) else []) @
     (if has 4 x then WriteFloatToArray 3 (member x 3) else []) @
     (if has 8 x then WriteFloatToArray 4 (member x 4) else []) @
     (if has 16 x then WriteUInt32ToArray 5 (member x 5) else []) @
     (if has 32 x then WriteFloatToArray 6 (member x 6) else []) @
     (if has 64 x then WriteFloatToArray 7 (member x 7) else []) @
     (if has 128 x then WriteFloatToArray 8 (member x 8) else []) @ unknown_bytes x"

definition CGCAskMove_InternalSwap :: "pb_swap" where
  "CGCAskMove_InternalSwap = swap_all
     [swap_member 1, swap_member 2, swap_member 3, swap_member 4, swap_member 5, swap_member 6,
      swap_member 7, swap_member 8, swap_has_bits, swap_metadata, swap_cached_size]"

lemmas CGCAskMove_code =
  CGCAskMove_def CGCAskMove_layout_def CGCAskMove_SharedCtor_def CGCAskMove_Clear_def
  CGCAskMove_MergeFrom_def CGCAskMove_ByteSize_def CGCAskMove_Serialize_def
  CGCAskMove_InternalSwap_def

lemma CGCAskMove_class:
  "message_class CGCAskMove CGCAskMove_SharedCtor CGCAskMove_Clear CGCAskMove_MergeFrom
     CGCAskMove_ByteSize CGCAskMove_Serialize CGCAskMove_InternalSwap"
  by (rule message_classI; simp add: CGCAskMove_code class_rules del: One_nat_def)

subsection \<open>CGSNotifyRoleProfileChange\<close>

definition CGSNotifyRoleProfileChange_layout :: "pb_layout" where
  "CGSNotifyRoleProfileChange_layout =
     [(1, PB_uint32), (2, PB_uint32), (3, PB_uint32), (4, PB_uint32)]"

definition CGSNotifyRoleProfileChange_SharedCtor :: "pb_object \<Rightarrow> pb_object" where
  "CGSNotifyRoleProfileChange_SharedCtor raw = raw\<lparr>has_bits := 0, member := (\<lambda>_. no_member)
       (1 := UInt32 0, 2 := UInt32 0, 3 := UInt32 0, 4 := UInt32 0),
     unknown_fields := [], cached_size := 0\<rparr>"

definition CGSNotifyRoleProfileChange_Clear :: "pb_stmt" where
  "CGSNotifyRoleProfileChange_Clear = run
     [ZR CGSNotifyRoleProfileChange_layout 1 4, clear_has_bits, clear_unknown]"

definition CGSNotifyRoleProfileChange_MergeFrom :: "bool \<Rightarrow> pb_object \<Rightarrow> pb_stmt" where
  "CGSNotifyRoleProfileChange_MergeFrom same from x =
     (if same then Inl AssertFailed else run
       [guarded (\<lambda>_. has 0xFF from)
        [copy_field 1 1 from, copy_field 2 2 from, copy_field 4 3 from, copy_field 8 4 from],
        merge_unknown from] x)"

definition CGSNotifyRoleProfileChange_ByteSize :: "pb_object \<Rightarrow> nat \<times> pb_object" where
  "CGSNotifyRoleProfileChange_ByteSize x =
     (let total_size =
        (if has 15 x then
          (if has 1 x then 1 + UInt32Size (member x 1) else 0) +
          (if has 2 x then 1 + UInt32Size (member x 2) else 0) +
          (if has 4 x then 1 + UInt32Size (member x 3) else 0) +
          (if has 8 x then 1 + UInt32Size (member x 4) else 0)
         else 0) +
        unknown_fields_size x
      in (total_size, x\<lparr>cached_size := total_size\<rparr>))"

definition CGSNotifyRoleProfileChange_Serialize :: "pb_object \<Rightarrow> byte list" where
  "CGSNotifyRoleProfileChange_Serialize x =
     (if has 1 x then WriteUInt32ToArray 1 (member x 1) else []) @
     (if has 2 x then WriteUInt32ToArray 2 (member x 2) else []) @
     (if has 4 x then WriteUInt32ToArray 3 (member x 3) else []) @
     (if has 8 x then WriteUInt32ToArray 4 (member x 4) else []) @ unknown_bytes x"

definition CGSNotifyRoleProfileChange_InternalSwap :: "pb_swap" where
  "CGSNotifyRoleProfileChange_InternalSwap = swap_all
     [swap_member 1, swap_member 2, swap_member 3, swap_member 4, swap_has_bits, swap_metadata,
      swap_cached_size]"

lemmas CGSNotifyRoleProfileChange_code =
  CGSNotifyRoleProfileChange_def CGSNotifyRoleProfileChange_layout_def
  CGSNotifyRoleProfileChange_SharedCtor_def CGSNotifyRoleProfileChange_Clear_def
  CGSNotifyRoleProfileChange_MergeFrom_def CGSNotifyRoleProfileChange_ByteSize_def
  CGSNotifyRoleProfileChange_Serialize_def CGSNotifyRoleProfileChange_InternalSwap_def

lemma CGSNotifyRoleProfileChange_class:
  "message_class CGSNotifyRoleProfileChange CGSNotifyRoleProfileChange_SharedCtor
     CGSNotifyRoleProfileChange_Clear CGSNotifyRoleProfileChange_MergeFrom
     CGSNotifyRoleProfileChange_ByteSize CGSNotifyRoleProfileChange_Serialize
     CGSNotifyRoleProfileChange_InternalSwap"
  by (rule message_classI; simp add: CGSNotifyRoleProfileChange_code class_rules del: One_nat_def)

subsection \<open>CGCReportPassGate\<close>

definition CGCReportPassGate_layout :: "pb_layout" where
  "CGCReportPassGate_layout =
     [(1, PB_uint32), (2, PB_uint32), (3, PB_uint32), (4, PB_uint32), (5, PB_uint32),
      (6, PB_uint32), (7, PB_uint32), (8, PB_bool)]"

definition CGCReportPassGate_SharedCtor :: "pb_object \<Rightarrow> pb_object" where
  "CGCReportPassGate_SharedCtor raw = raw\<lparr>has_bits := 0, member := (\<lambda>_. no_member)
       (1 := UInt32 0, 2 := UInt32 0, 3 := UInt32 0, 4 := UInt32 0, 5 := UInt32 0, 6 := UInt32 0,
        7 := UInt32 0, 8 := Bool False),
     unknown_fields := [], cached_size := 0\<rparr>"

definition CGCReportPassGate_Clear :: "pb_stmt" where
  "CGCReportPassGate_Clear = run
     [guarded (has 255) [ZR CGCReportPassGate_layout 1 8], clear_has_bits, clear_unknown]"

definition CGCReportPassGate_MergeFrom :: "bool \<Rightarrow> pb_object \<Rightarrow> pb_stmt" where
  "CGCReportPassGate_MergeFrom same from x =
     (if same then Inl AssertFailed else run
       [guarded (\<lambda>_. has 0xFF from)
        [copy_field 1 1 from, copy_field 2 2 from, copy_field 4 3 from, copy_field 8 4 from,
         copy_field 16 5 from, copy_field 32 6 from, copy_field 64 7 from, copy_field 128 8 from],
        merge_unknown from] x)"

definition CGCReportPassGate_ByteSize :: "pb_object \<Rightarrow> nat \<times> pb_object" where
  "CGCReportPassGate_ByteSize x =
     (let total_size =
        (if has 255 x then
          (if has 1 x then 1 + UInt32Size (member x 1) else 0) +
          (if has 2 x then 1 + UInt32Size (member x 2) else 0) +
          (if has 4 x then 1 + UInt32Size (member x 3) else 0) +
          (if has 8 x then 1 + UInt32Size (member x 4) else 0) +
          (if has 16 x then 1 + UInt32Size (member x 5) else 0) +
          (if has 32 x then 1 + UInt32Size (member x 6) else 0) +
          (if has 64 x then 1 + UInt32Size (member x 7) else 0) + (if has 128 x then 1 + 1 else 0)
         else 0) +
        unknown_fields_size x
      in (total_size, x\<lparr>cached_size := total_size\<rparr>))"

definition CGCReportPassGate_Serialize :: "pb_object \<Rightarrow> byte list" where
  "CGCReportPassGate_Serialize x =
     (if has 1 x then WriteUInt32ToArray 1 (member x 1) else []) @
     (if has 2 x then WriteUInt32ToArray 2 (member x 2) else []) @
     (if has 4 x then WriteUInt32ToArray 3 (member x 3) else []) @
     (if has 8 x then WriteUInt32ToArray 4 (member x 4) else []) @
     (if has 16 x then WriteUInt32ToArray 5 (member x 5) else []) @
     (if has 32 x then WriteUInt32ToArray 6 (member x 6) else []) @
     (if has 64 x then WriteUInt32ToArray 7 (member x 7) else []) @
     (if has 128 x then WriteBoolToArray 8 (member x 8) else []) @ unknown_bytes x"

definition CGCReportPassGate_InternalSwap :: "pb_swap" where
  "CGCReportPassGate_InternalSwap = swap_all
     [swap_member 1, swap_member 2, swap_member 3, swap_member 4, swap_member 5, swap_member 6,
      swap_member 7, swap_member 8, swap_has_bits, swap_metadata, swap_cached_size]"

lemmas CGCReportPassGate_code =
  CGCReportPassGate_def CGCReportPassGate_layout_def CGCReportPassGate_SharedCtor_def
  CGCReportPassGate_Clear_def CGCReportPassGate_MergeFrom_def CGCReportPassGate_ByteSize_def
  CGCReportPassGate_Serialize_def CGCReportPassGate_InternalSwap_def

lemma CGCReportPassGate_class:
  "message_class CGCReportPassGate CGCReportPassGate_SharedCtor CGCReportPassGate_Clear
     CGCReportPassGate_MergeFrom CGCReportPassGate_ByteSize CGCReportPassGate_Serialize
     CGCReportPassGate_InternalSwap"
  by (rule message_classI; simp add: CGCReportPassGate_code class_rules del: One_nat_def)

subsection \<open>CGCAskTreasureBoxDropGoods\<close>

definition CGCAskTreasureBoxDropGoods_layout :: "pb_layout" where
  "CGCAskTreasureBoxDropGoods_layout =
     [(1, PB_uint32), (2, PB_bool)]"

definition CGCAskTreasureBoxDropGoods_SharedCtor :: "pb_object \<Rightarrow> pb_object" where
  "CGCAskTreasureBoxDropGoods_SharedCtor raw = raw\<lparr>has_bits := 0, member := (\<lambda>_. no_member)
       (1 := UInt32 0, 2 := Bool False),
     unknown_fields := [], cached_size := 0\<rparr>"

definition CGCAskTreasureBoxDropGoods_Clear :: "pb_stmt" where
  "CGCAskTreasureBoxDropGoods_Clear = run
     [ZR CGCAskTreasureBoxDropGoods_layout 1 2, clear_has_bits, clear_unknown]"

definition CGCAskTreasureBoxDropGoods_MergeFrom :: "bool \<Rightarrow> pb_object \<Rightarrow> pb_stmt" where
  "CGCAskTreasureBoxDropGoods_MergeFrom same from x =
     (if same then Inl AssertFailed else run
       [guarded (\<lambda>_. has 0xFF from)
        [copy_field 1 1 from, copy_field 2 2 from],
        merge_unknown from] x)"

definition CGCAskTreasureBoxDropGoods_ByteSize :: "pb_object \<Rightarrow> nat \<times> pb_object" where
  "CGCAskTreasureBoxDropGoods_ByteSize x =
     (let total_size =
        (if has 3 x then
          (if has 1 x then 1 + UInt32Size (member x 1) else 0) + (if has 2 x then 1 + 1 else 0)
         else 0) +
        unknown_fields_size x
      in (total_size, x\<lparr>cached_size := total_size\<rparr>))"

definition CGCAskTreasureBoxDropGoods_Serialize :: "pb_object \<Rightarrow> byte list" where
  "CGCAskTreasureBoxDropGoods_Serialize x =
     (if has 1 x then WriteUInt32ToArray 1 (member x 1) else []) @
     (if has 2 x then WriteBoolToArray 2 (member x 2) else []) @ unknown_bytes x"

definition CGCAskTreasureBoxDropGoods_InternalSwap :: "pb_swap" where
  "CGCAskTreasureBoxDropGoods_InternalSwap = swap_all
     [swap_member 1, swap_member 2, swap_has_bits, swap_metadata, swap_cached_size]"

lemmas CGCAskTreasureBoxDropGoods_code =
  CGCAskTreasureBoxDropGoods_def CGCAskTreasureBoxDropGoods_layout_def
  CGCAskTreasureBoxDropGoods_SharedCtor_def CGCAskTreasureBoxDropGoods_Clear_def
  CGCAskTreasureBoxDropGoods_MergeFrom_def CGCAskTreasureBoxDropGoods_ByteSize_def
  CGCAskTreasureBoxDropGoods_Serialize_def CGCAskTreasureBoxDropGoods_InternalSwap_def

lemma CGCAskTreasureBoxDropGoods_class:
  "message_class CGCAskTreasureBoxDropGoods CGCAskTreasureBoxDropGoods_SharedCtor
     CGCAskTreasureBoxDropGoods_Clear CGCAskTreasureBoxDropGoods_MergeFrom
     CGCAskTreasureBoxDropGoods_ByteSize CGCAskTreasureBoxDropGoods_Serialize
     CGCAskTreasureBoxDropGoods_InternalSwap"
  by (rule message_classI; simp add: CGCAskTreasureBoxDropGoods_code class_rules del: One_nat_def)

subsection \<open>CGCAskEnterScene\<close>

definition CGCAskEnterScene_layout :: "pb_layout" where
  "CGCAskEnterScene_layout =
     [(1, PB_int32), (2, PB_int32), (3, PB_bool), (4, PB_uint32), (5, PB_uint32), (6, PB_uint32),
      (7, PB_uint32)]"

definition CGCAskEnterScene_SharedCtor :: "pb_object \<Rightarrow> pb_object" where
  "CGCAskEnterScene_SharedCtor raw = raw\<lparr>has_bits := 0, member := (\<lambda>_. no_member)
       (1 := Int32 0, 2 := Int32 0, 3 := Bool False, 4 := UInt32 0, 5 := UInt32 0, 6 := UInt32 0,
        7 := UInt32 0),
     unknown_fields := [], cached_size := 0\<rparr>"

definition CGCAskEnterScene_Clear :: "pb_stmt" where
  "CGCAskEnterScene_Clear = run
     [guarded (has 127) [ZR CGCAskEnterScene_layout 1 7], clear_has_bits, clear_unknown]"

definition CGCAskEnterScene_MergeFrom :: "bool \<Rightarrow> pb_object \<Rightarrow> pb_stmt" where
  "CGCAskEnterScene_MergeFrom same from x =
     (if same then Inl AssertFailed else run
       [guarded (\<lambda>_. has 0xFF from)
        [copy_field 1 1 from, copy_field 2 2 from, copy_field 4 3 from, copy_field 8 4 from,
         copy_field 16 5 from, copy_field 32 6 from, copy_field 64 7 from],
        merge_unknown from] x)"

definition CGCAskEnterScene_ByteSize :: "pb_object \<Rightarrow> nat \<times> pb_object" where
  "CGCAskEnterScene_ByteSize x =
     (let total_size =
        (if has 127 x then
          (if has 1 x then 1 + Int32Size (member x 1) else 0) +
          (if has 2 x then 1 + Int32Size (member x 2) else 0) + (if has 4 x then 1 + 1 else 0) +
          (if has 8 x then 1 + UInt32Size (member x 4) else 0) +
          (if has 16 x then 1 + UInt32Size (member x 5) else 0) +
          (if has 32 x then 1 + UInt32Size (member x 6) else 0) +
          (if has 64 x then 1 + UInt32Size (member x 7) else 0)
         else 0) +
        unknown_fields_size x
      in (total_size, x\<lparr>cached_size := total_size\<rparr>))"

definition CGCAskEnterScene_Serialize :: "pb_object \<Rightarrow> byte list" where
  "CGCAskEnterScene_Serialize x =
     (if has 1 x then WriteInt32ToArray 1 (member x 1) else []) @
     (if has 2 x then WriteInt32ToArray 2 (member x 2) else []) @
     (if has 4 x then WriteBoolToArray 3 (member x 3) else []) @
     (if has 8 x then WriteUInt32ToArray 4 (member x 4) else []) @
     (if has 16 x then WriteUInt32ToArray 5 (member x 5) else []) @
     (if has 32 x then WriteUInt32ToArray 6 (member x 6) else []) @
     (if has 64 x then WriteUInt32ToArray 7 (member x 7) else []) @ unknown_bytes x"

definition CGCAskEnterScene_InternalSwap :: "pb_swap" where
  "CGCAskEnterScene_InternalSwap = swap_all
     [swap_member 1, swap_member 2, swap_member 3, swap_member 4, swap_member 5, swap_member 6,
      swap_member 7, swap_has_bits, swap_metadata, swap_cached_size]"

lemmas CGCAskEnterScene_code =
  CGCAskEnterScene_def CGCAskEnterScene_layout_def CGCAskEnterScene_SharedCtor_def
  CGCAskEnterScene_Clear_def CGCAskEnterScene_MergeFrom_def CGCAskEnterScene_ByteSize_def
  CGCAskEnterScene_Serialize_def CGCAskEnterScene_InternalSwap_def

lemma CGCAskEnterScene_class:
  "message_class CGCAskEnterScene CGCAskEnterScene_SharedCtor CGCAskEnterScene_Clear
     CGCAskEnterScene_MergeFrom CGCAskEnterScene_ByteSize CGCAskEnterScene_Serialize
     CGCAskEnterScene_InternalSwap"
  by (rule message_classI; simp add: CGCAskEnterScene_code class_rules del: One_nat_def)

subsection \<open>CGSNotifyRoleMapScheduleList\<close>

definition CGSNotifyRoleMapScheduleList_layout :: "pb_layout" where
  "CGSNotifyRoleMapScheduleList_layout =
     [(1, PB_uint32), (2, PB_uint32)]"

definition CGSNotifyRoleMapScheduleList_SharedCtor :: "pb_object \<Rightarrow> pb_object" where
  "CGSNotifyRoleMapScheduleList_SharedCtor raw = raw\<lparr>has_bits := 0, member := (\<lambda>_. no_member)
       (1 := UInt32 0, 2 := UInt32 0),
     unknown_fields := [], cached_size := 0\<rparr>"

definition CGSNotifyRoleMapScheduleList_Clear :: "pb_stmt" where
  "CGSNotifyRoleMapScheduleList_Clear = run
     [ZR CGSNotifyRoleMapScheduleList_layout 1 2, clear_has_bits, clear_unknown]"

definition CGSNotifyRoleMapScheduleList_MergeFrom :: "bool \<Rightarrow> pb_object \<Rightarrow> pb_stmt" where
  "CGSNotifyRoleMapScheduleList_MergeFrom same from x =
     (if same then Inl AssertFailed else run
       [guarded (\<lambda>_. has 0xFF from)
        [copy_field 1 1 from, copy_field 2 2 from],
        merge_unknown from] x)"

definition CGSNotifyRoleMapScheduleList_ByteSize :: "pb_object \<Rightarrow> nat \<times> pb_object" where
  "CGSNotifyRoleMapScheduleList_ByteSize x =
     (let total_size =
        (if has 3 x then
          (if has 1 x then 1 + UInt32Size (member x 1) else 0) +
          (if has 2 x then 1 + UInt32Size (member x 2) else 0)
         else 0) +
        unknown_fields_size x
      in (total_size, x\<lparr>cached_size := total_size\<rparr>))"

definition CGSNotifyRoleMapScheduleList_Serialize :: "pb_object \<Rightarrow> byte list" where
  "CGSNotifyRoleMapScheduleList_Serialize x =
     (if has 1 x then WriteUInt32ToArray 1 (member x 1) else []) @
     (if has 2 x then WriteUInt32ToArray 2 (member x 2) else []) @ unknown_bytes x"

definition CGSNotifyRoleMapScheduleList_InternalSwap :: "pb_swap" where
  "CGSNotifyRoleMapScheduleList_InternalSwap = swap_all
     [swap_member 1, swap_member 2, swap_has_bits, swap_metadata, swap_cached_size]"

lemmas CGSNotifyRoleMapScheduleList_code =
  CGSNotifyRoleMapScheduleList_def CGSNotifyRoleMapScheduleList_layout_def
  CGSNotifyRoleMapScheduleList_SharedCtor_def CGSNotifyRoleMapScheduleList_Clear_def
  CGSNotifyRoleMapScheduleList_MergeFrom_def CGSNotifyRoleMapScheduleList_ByteSize_def
  CGSNotifyRoleMapScheduleList_Serialize_def CGSNotifyRoleMapScheduleList_InternalSwap_def

lemma CGSNotifyRoleMapScheduleList_class:
  "message_class CGSNotifyRoleMapScheduleList CGSNotifyRoleMapScheduleList_SharedCtor
     CGSNotifyRoleMapScheduleList_Clear CGSNotifyRoleMapScheduleList_MergeFrom
     CGSNotifyRoleMapScheduleList_ByteSize CGSNotifyRoleMapScheduleList_Serialize
     CGSNotifyRoleMapScheduleList_InternalSwap"
  by (rule message_classI; simp add: CGSNotifyRoleMapScheduleList_code class_rules del: One_nat_def)

subsection \<open>CGSNotifyRoleFightProperty\<close>

definition CGSNotifyRoleFightProperty_layout :: "pb_layout" where
  "CGSNotifyRoleFightProperty_layout =
     []"

definition CGSNotifyRoleFightProperty_SharedCtor :: "pb_object \<Rightarrow> pb_object" where
  "CGSNotifyRoleFightProperty_SharedCtor raw = raw\<lparr>has_bits := 0, member := (\<lambda>_. no_member),
     unknown_fields := [], cached_size := 0\<rparr>"

definition CGSNotifyRoleFightProperty_Clear :: "pb_stmt" where
  "CGSNotifyRoleFightProperty_Clear = run
     [clear_has_bits, clear_unknown]"

definition CGSNotifyRoleFightProperty_MergeFrom :: "bool \<Rightarrow> pb_object \<Rightarrow> pb_stmt" where
  "CGSNotifyRoleFightProperty_MergeFrom same from x =
     (if same then Inl AssertFailed else run
       [merge_unknown from] x)"

definition CGSNotifyRoleFightProperty_ByteSize :: "pb_object \<Rightarrow> nat \<times> pb_object" where
  "CGSNotifyRoleFightProperty_ByteSize x =
     (let total_size =
        unknown_fields_size x
      in (total_size, x\<lparr>cached_size := total_size\<rparr>))"

definition CGSNotifyRoleFightProperty_Serialize :: "pb_object \<Rightarrow> byte list" where
  "CGSNotifyRoleFightProperty_Serialize x =
     unknown_bytes x"

definition CGSNotifyRoleFightProperty_InternalSwap :: "pb_swap" where
  "CGSNotifyRoleFightProperty_InternalSwap = swap_all
     [swap_metadata, swap_cached_size]"

lemmas CGSNotifyRoleFightProperty_code =
  CGSNotifyRoleFightProperty_def CGSNotifyRoleFightProperty_layout_def
  CGSNotifyRoleFightProperty_SharedCtor_def CGSNotifyRoleFightProperty_Clear_def
  CGSNotifyRoleFightProperty_MergeFrom_def CGSNotifyRoleFightProperty_ByteSize_def
  CGSNotifyRoleFightProperty_Serialize_def CGSNotifyRoleFightProperty_InternalSwap_def

lemma CGSNotifyRoleFightProperty_class:
  "message_class CGSNotifyRoleFightProperty CGSNotifyRoleFightProperty_SharedCtor
     CGSNotifyRoleFightProperty_Clear CGSNotifyRoleFightProperty_MergeFrom
     CGSNotifyRoleFightProperty_ByteSize CGSNotifyRoleFightProperty_Serialize
     CGSNotifyRoleFightProperty_InternalSwap"
  by (rule message_classI; simp add: CGSNotifyRoleFightProperty_code class_rules del: One_nat_def)

subsection \<open>CGSNotifyAssetChange\<close>

definition CGSNotifyAssetChange_layout :: "pb_layout" where
  "CGSNotifyAssetChange_layout =
     []"

definition CGSNotifyAssetChange_SharedCtor :: "pb_object \<Rightarrow> pb_object" where
  "CGSNotifyAssetChange_SharedCtor raw = raw\<lparr>has_bits := 0, member := (\<lambda>_. no_member),
     unknown_fields := [], cached_size := 0\<rparr>"

definition CGSNotifyAssetChange_Clear :: "pb_stmt" where
  "CGSNotifyAssetChange_Clear = run
     [clear_has_bits, clear_unknown]"

definition CGSNotifyAssetChange_MergeFrom :: "bool \<Rightarrow> pb_object \<Rightarrow> pb_stmt" where
  "CGSNotifyAssetChange_MergeFrom same from x =
     (if same then Inl AssertFailed else run
       [merge_unknown from] x)"

definition CGSNotifyAssetChange_ByteSize :: "pb_object \<Rightarrow> nat \<times> pb_object" where
  "CGSNotifyAssetChange_ByteSize x =
     (let total_size =
        unknown_fields_size x
      in (total_size, x\<lparr>cached_size := total_size\<rparr>))"

definition CGSNotifyAssetChange_Serialize :: "pb_object \<Rightarrow> byte list" where
  "CGSNotifyAssetChange_Serialize x =
     unknown_bytes x"

definition CGSNotifyAssetChange_InternalSwap :: "pb_swap" where
  "CGSNotifyAssetChange_InternalSwap = swap_all
     [swap_metadata, swap_cached_size]"

lemmas CGSNotifyAssetChange_code =
  CGSNotifyAssetChange_def CGSNotifyAssetChange_layout_def CGSNotifyAssetChange_SharedCtor_def
  CGSNotifyAssetChange_Clear_def CGSNotifyAssetChange_MergeFrom_def
  CGSNotifyAssetChange_ByteSize_def CGSNotifyAssetChange_Serialize_def
  CGSNotifyAssetChange_InternalSwap_def

lemma CGSNotifyAssetChange_class:
  "message_class CGSNotifyAssetChange CGSNotifyAssetChange_SharedCtor CGSNotifyAssetChange_Clear
     CGSNotifyAssetChange_MergeFrom CGSNotifyAssetChange_ByteSize CGSNotifyAssetChange_Serialize
     CGSNotifyAssetChange_InternalSwap"
  by (rule message_classI; simp add: CGSNotifyAssetChange_code class_rules del: One_nat_def)

subsection \<open>CGSNotifyLevelChange\<close>

definition CGSNotifyLevelChange_layout :: "pb_layout" where
  "CGSNotifyLevelChange_layout =
     []"

definition CGSNotifyLevelChange_SharedCtor :: "pb_object \<Rightarrow> pb_object" where
  "CGSNotifyLevelChange_SharedCtor raw = raw\<lparr>has_bits := 0, member := (\<lambda>_. no_member),
     unknown_fields := [], cached_size := 0\<rparr>"

definition CGSNotifyLevelChange_Clear :: "pb_stmt" where
  "CGSNotifyLevelChange_Clear = run
     [clear_has_bits, clear_unknown]"

definition CGSNotifyLevelChange_MergeFrom :: "bool \<Rightarrow> pb_object \<Rightarrow> pb_stmt" where
  "CGSNotifyLevelChange_MergeFrom same from x =
     (if same then Inl AssertFailed else run
       [merge_unknown from] x)"

definition CGSNotifyLevelChange_ByteSize :: "pb_object \<Rightarrow> nat \<times> pb_object" where
  "CGSNotifyLevelChange_ByteSize x =
     (let total_size =
        unknown_fields_size x
      in (total_size, x\<lparr>cached_size := total_size\<rparr>))"

definition CGSNotifyLevelChange_Serialize :: "pb_object \<Rightarrow> byte list" where
  "CGSNotifyLevelChange_Serialize x =
     unknown_bytes x"

definition CGSNotifyLevelChange_InternalSwap :: "pb_swap" where
  "CGSNotifyLevelChange_InternalSwap = swap_all
     [swap_metadata, swap_cached_size]"

lemmas CGSNotifyLevelChange_code =
  CGSNotifyLevelChange_def CGSNotifyLevelChange_layout_def CGSNotifyLevelChange_SharedCtor_def
  CGSNotifyLevelChange_Clear_def CGSNotifyLevelChange_MergeFrom_def
  CGSNotifyLevelChange_ByteSize_def CGSNotifyLevelChange_Serialize_def
  CGSNotifyLevelChange_InternalSwap_def

lemma CGSNotifyLevelChange_class:
  "message_class CGSNotifyLevelChange CGSNotifyLevelChange_SharedCtor CGSNotifyLevelChange_Clear
     CGSNotifyLevelChange_MergeFrom CGSNotifyLevelChange_ByteSize CGSNotifyLevelChange_Serialize
     CGSNotifyLevelChange_InternalSwap"
  by (rule message_classI; simp add: CGSNotifyLevelChange_code class_rules del: One_nat_def)

subsection \<open>CGSNotifyExpChange\<close>

definition CGSNotifyExpChange_layout :: "pb_layout" where
  "CGSNotifyExpChange_layout =
     []"

definition CGSNotifyExpChange_SharedCtor :: "pb_object \<Rightarrow> pb_object" where
  "CGSNotifyExpChange_SharedCtor raw = raw\<lparr>has_bits := 0, member := (\<lambda>_. no_member),
     unknown_fields := [], cached_size := 0\<rparr>"

definition CGSNotifyExpChange_Clear :: "pb_stmt" where
  "CGSNotifyExpChange_Clear = run
     [clear_has_bits, clear_unknown]"

definition CGSNotifyExpChange_MergeFrom :: "bool \<Rightarrow> pb_object \<Rightarrow> pb_stmt" where
  "CGSNotifyExpChange_MergeFrom same from x =
     (if same then Inl AssertFailed else run
       [merge_unknown from] x)"

definition CGSNotifyExpChange_ByteSize :: "pb_object \<Rightarrow> nat \<times> pb_object" where
  "CGSNotifyExpChange_ByteSize x =
     (let total_size =
        unknown_fields_size x
      in (total_size, x\<lparr>cached_size := total_size\<rparr>))"

definition CGSNotifyExpChange_Serialize :: "pb_object \<Rightarrow> byte list" where
  "CGSNotifyExpChange_Serialize x =
     unknown_bytes x"

definition CGSNotifyExpChange_InternalSwap :: "pb_swap" where
  "CGSNotifyExpChange_InternalSwap = swap_all
     [swap_metadata, swap_cached_size]"

lemmas CGSNotifyExpChange_code =
  CGSNotifyExpChange_def CGSNotifyExpChange_layout_def CGSNotifyExpChange_SharedCtor_def
  CGSNotifyExpChange_Clear_def CGSNotifyExpChange_MergeFrom_def CGSNotifyExpChange_ByteSize_def
  CGSNotifyExpChange_Serialize_def CGSNotifyExpChange_InternalSwap_def

lemma CGSNotifyExpChange_class:
  "message_class CGSNotifyExpChange CGSNotifyExpChange_SharedCtor CGSNotifyExpChange_Clear
     CGSNotifyExpChange_MergeFrom CGSNotifyExpChange_ByteSize CGSNotifyExpChange_Serialize
     CGSNotifyExpChange_InternalSwap"
  by (rule message_classI; simp add: CGSNotifyExpChange_code class_rules del: One_nat_def)

subsection \<open>CGSNotifyCurProperty\<close>

definition CGSNotifyCurProperty_layout :: "pb_layout" where
  "CGSNotifyCurProperty_layout =
     []"

definition CGSNotifyCurProperty_SharedCtor :: "pb_object \<Rightarrow> pb_object" where
  "CGSNotifyCurProperty_SharedCtor raw = raw\<lparr>has_bits := 0, member := (\<lambda>_. no_member),
     unknown_fields := [], cached_size := 0\<rparr>"

definition CGSNotifyCurProperty_Clear :: "pb_stmt" where
  "CGSNotifyCurProperty_Clear = run
     [clear_has_bits, clear_unknown]"

definition CGSNotifyCurProperty_MergeFrom :: "bool \<Rightarrow> pb_object \<Rightarrow> pb_stmt" where
  "CGSNotifyCurProperty_MergeFrom same from x =
     (if same then Inl AssertFailed else run
       [merge_unknown from] x)"

definition CGSNotifyCurProperty_ByteSize :: "pb_object \<Rightarrow> nat \<times> pb_object" where
  "CGSNotifyCurProperty_ByteSize x =
     (let total_size =
        unknown_fields_size x
      in (total_size, x\<lparr>cached_size := total_size\<rparr>))"

definition CGSNotifyCurProperty_Serialize :: "pb_object \<Rightarrow> byte list" where
  "CGSNotifyCurProperty_Serialize x =
     unknown_bytes x"

definition CGSNotifyCurProperty_InternalSwap :: "pb_swap" where
  "CGSNotifyCurProperty_InternalSwap = swap_all
     [swap_metadata, swap_cached_size]"

lemmas CGSNotifyCurProperty_code =
  CGSNotifyCurProperty_def CGSNotifyCurProperty_layout_def CGSNotifyCurProperty_SharedCtor_def
  CGSNotifyCurProperty_Clear_def CGSNotifyCurProperty_MergeFrom_def
  CGSNotifyCurProperty_ByteSize_def CGSNotifyCurProperty_Serialize_def
  CGSNotifyCurProperty_InternalSwap_def

lemma CGSNotifyCurProperty_class:
  "message_class CGSNotifyCurProperty CGSNotifyCurProperty_SharedCtor CGSNotifyCurProperty_Clear
     CGSNotifyCurProperty_MergeFrom CGSNotifyCurProperty_ByteSize CGSNotifyCurProperty_Serialize
     CGSNotifyCurProperty_InternalSwap"
  by (rule message_classI; simp add: CGSNotifyCurProperty_code class_rules del: One_nat_def)

subsection \<open>CGSNotifyDisplayGateIncome\<close>

definition CGSNotifyDisplayGateIncome_layout :: "pb_layout" where
  "CGSNotifyDisplayGateIncome_layout =
     []"

definition CGSNotifyDisplayGateIncome_SharedCtor :: "pb_object \<Rightarrow> pb_object" where
  "CGSNotifyDisplayGateIncome_SharedCtor raw = raw\<lparr>has_bits := 0, member := (\<lambda>_. no_member),
     unknown_fields := [], cached_size := 0\<rparr>"

definition CGSNotifyDisplayGateIncome_Clear :: "pb_stmt" where
  "CGSNotifyDisplayGateIncome_Clear = run
     [clear_has_bits, clear_unknown]"

definition CGSNotifyDisplayGateIncome_MergeFrom :: "bool \<Rightarrow> pb_object \<Rightarrow> pb_stmt" where
  "CGSNotifyDisplayGateIncome_MergeFrom same from x =
     (if same then Inl AssertFailed else run
       [merge_unknown from] x)"

definition CGSNotifyDisplayGateIncome_ByteSize :: "pb_object \<Rightarrow> nat \<times> pb_object" where
  "CGSNotifyDisplayGateIncome_ByteSize x =
     (let total_size =
        unknown_fields_size x
      in (total_size, x\<lparr>cached_size := total_size\<rparr>))"

definition CGSNotifyDisplayGateIncome_Serialize :: "pb_object \<Rightarrow> byte list" where
  "CGSNotifyDisplayGateIncome_Serialize x =
     unknown_bytes x"

definition CGSNotifyDisplayGateIncome_InternalSwap :: "pb_swap" where
  "CGSNotifyDisplayGateIncome_InternalSwap = swap_all
     [swap_metadata, swap_cached_size]"

lemmas CGSNotifyDisplayGateIncome_code =
  CGSNotifyDisplayGateIncome_def CGSNotifyDisplayGateIncome_layout_def
  CGSNotifyDisplayGateIncome_SharedCtor_def CGSNotifyDisplayGateIncome_Clear_def
  CGSNotifyDisplayGateIncome_MergeFrom_def CGSNotifyDisplayGateIncome_ByteSize_def
  CGSNotifyDisplayGateIncome_Serialize_def CGSNotifyDisplayGateIncome_InternalSwap_def

lemma CGSNotifyDisplayGateIncome_class:
  "message_class CGSNotifyDisplayGateIncome CGSNotifyDisplayGateIncome_SharedCtor
     CGSNotifyDisplayGateIncome_Clear CGSNotifyDisplayGateIncome_MergeFrom
     CGSNotifyDisplayGateIncome_ByteSize CGSNotifyDisplayGateIncome_Serialize
     CGSNotifyDisplayGateIncome_InternalSwap"
  by (rule message_classI; simp add: CGSNotifyDisplayGateIncome_code class_rules del: One_nat_def)

subsection \<open>CGCAskRelive\<close>

definition CGCAskRelive_layout :: "pb_layout" where
  "CGCAskRelive_layout =
     [(1, PB_bool), (2, PB_bool), (3, PB_uint32)]"

definition CGCAskRelive_SharedCtor :: "pb_object \<Rightarrow> pb_object" where
  "CGCAskRelive_SharedCtor raw = raw\<lparr>has_bits := 0, member := (\<lambda>_. no_member)
       (1 := Bool False, 2 := Bool False, 3 := UInt32 0),
     unknown_fields := [], cached_size := 0\<rparr>"

definition CGCAskRelive_Clear :: "pb_stmt" where
  "CGCAskRelive_Clear = run
     [ZR CGCAskRelive_layout 1 3, clear_has_bits, clear_unknown]"

definition CGCAskRelive_MergeFrom :: "bool \<Rightarrow> pb_object \<Rightarrow> pb_stmt" where
  "CGCAskRelive_MergeFrom same from x =
     (if same then Inl AssertFailed else run
       [guarded (\<lambda>_. has 0xFF from)
        [copy_field 1 1 from, copy_field 2 2 from, copy_field 4 3 from],
        merge_unknown from] x)"

definition CGCAskRelive_ByteSize :: "pb_object \<Rightarrow> nat \<times> pb_object" where
  "CGCAskRelive_ByteSize x =
     (let total_size =
        (if has 7 x then
          (if has 1 x then 1 + 1 else 0) + (if has 2 x then 1 + 1 else 0) +
          (if has 4 x then 1 + UInt32Size (member x 3) else 0)
         else 0) +
        unknown_fields_size x
      in (total_size, x\<lparr>cached_size := total_size\<rparr>))"

definition CGCAskRelive_Serialize :: "pb_object \<Rightarrow> byte list" where
  "CGCAskRelive_Serialize x =
     (if has 1 x then WriteBoolToArray 1 (member x 1) else []) @
     (if has 2 x then WriteBoolToArray 2 (member x 2) else []) @
     (if has 4 x then WriteUInt32ToArray 3 (member x 3) else []) @ unknown_bytes x"

definition CGCAskRelive_InternalSwap :: "pb_swap" where
  "CGCAskRelive_InternalSwap = swap_all
     [swap_member 1, swap_member 2, swap_member 3, swap_has_bits, swap_metadata, swap_cached_size]"

lemmas CGCAskRelive_code =
  CGCAskRelive_def CGCAskRelive_layout_def CGCAskRelive_SharedCtor_def CGCAskRelive_Clear_def
  CGCAskRelive_MergeFrom_def CGCAskRelive_ByteSize_def CGCAskRelive_Serialize_def
  CGCAskRelive_InternalSwap_def

lemma CGCAskRelive_class:
  "message_class CGCAskRelive CGCAskRelive_SharedCtor CGCAskRelive_Clear CGCAskRelive_MergeFrom
     CGCAskRelive_ByteSize CGCAskRelive_Serialize CGCAskRelive_InternalSwap"
  by (rule message_classI; simp add: CGCAskRelive_code class_rules del: One_nat_def)

subsection \<open>CGCReportExp\<close>

definition CGCReportExp_layout :: "pb_layout" where
  "CGCReportExp_layout =
     [(1, PB_uint32)]"

definition CGCReportExp_SharedCtor :: "pb_object \<Rightarrow> pb_object" where
  "CGCReportExp_SharedCtor raw = raw\<lparr>has_bits := 0, member := (\<lambda>_. no_member)
       (1 := UInt32 0),
     unknown_fields := [], cached_size := 0\<rparr>"

definition CGCReportExp_Clear :: "pb_stmt" where
  "CGCReportExp_Clear = run
     [clear_member 1 (UInt32 0), clear_has_bits, clear_unknown]"

definition CGCReportExp_MergeFrom :: "bool \<Rightarrow> pb_object \<Rightarrow> pb_stmt" where
  "CGCReportExp_MergeFrom same from x =
     (if same then Inl AssertFailed else run
       [guarded (\<lambda>_. has 0xFF from)
        [copy_field 1 1 from], merge_unknown from] x)"

definition CGCReportExp_ByteSize :: "pb_object \<Rightarrow> nat \<times> pb_object" where
  "CGCReportExp_ByteSize x =
     (let total_size =
        (if has 1 x then 1 + UInt32Size (member x 1) else 0) + unknown_fields_size x
      in (total_size, x\<lparr>cached_size := total_size\<rparr>))"

definition CGCReportExp_Serialize :: "pb_object \<Rightarrow> byte list" where
  "CGCReportExp_Serialize x =
     (if has 1 x then WriteUInt32ToArray 1 (member x 1) else []) @ unknown_bytes x"

definition CGCReportExp_InternalSwap :: "pb_swap" where
  "CGCReportExp_InternalSwap = swap_all
     [swap_member 1, swap_has_bits, swap_metadata, swap_cached_size]"

lemmas CGCReportExp_code =
  CGCReportExp_def CGCReportExp_layout_def CGCReportExp_SharedCtor_def CGCReportExp_Clear_def
  CGCReportExp_MergeFrom_def CGCReportExp_ByteSize_def CGCReportExp_Serialize_def
  CGCReportExp_InternalSwap_def

lemma CGCReportExp_class:
  "message_class CGCReportExp CGCReportExp_SharedCtor CGCReportExp_Clear CGCReportExp_MergeFrom
     CGCReportExp_ByteSize CGCReportExp_Serialize CGCReportExp_InternalSwap"
  by (rule message_classI; simp add: CGCReportExp_code class_rules del: One_nat_def)

subsection \<open>CGCReportUseSkill\<close>

definition CGCReportUseSkill_layout :: "pb_layout" where
  "CGCReportUseSkill_layout =
     [(1, PB_uint32), (2, PB_uint32), (3, PB_float), (4, PB_float), (5, PB_float), (6, PB_float),
      (7, PB_float), (8, PB_float)]"

definition CGCReportUseSkill_SharedCtor :: "pb_object \<Rightarrow> pb_object" where
  "CGCReportUseSkill_SharedCtor raw = raw\<lparr>has_bits := 0, member := (\<lambda>_. no_member)
       (1 := UInt32 0, 2 := UInt32 0, 3 := Float 0, 4 := Float 0, 5 := Float 0, 6 := Float 0,
        7 := Float 0, 8 := Float 0),
     unknown_fields := [], cached_size := 0\<rparr>"

definition CGCReportUseSkill_Clear :: "pb_stmt" where
  "CGCReportUseSkill_Clear = run
     [guarded (has 255) [ZR CGCReportUseSkill_layout 1 8], clear_has_bits, clear_unknown]"

definition CGCReportUseSkill_MergeFrom :: "bool \<Rightarrow> pb_object \<Rightarrow> pb_stmt" where
  "CGCReportUseSkill_MergeFrom same from x =
     (if same then Inl AssertFailed else run
       [guarded (\<lambda>_. has 0xFF from)
        [copy_field 1 1 from, copy_field 2 2 from, copy_field 4 3 from, copy_field 8 4 from,
         copy_field 16 5 from, copy_field 32 6 from, copy_field 64 7 from, copy_field 128 8 from],
        merge_unknown from] x)"

definition CGCReportUseSkill_ByteSize :: "pb_object \<Rightarrow> nat \<times> pb_object" where
  "CGCReportUseSkill_ByteSize x =
     (let total_size =
        (if has 255 x then
          (if has 1 x then 1 + UInt32Size (member x 1) else 0) +
          (if has 2 x then 1 + UInt32Size (member x 2) else 0) + (if has 4 x then 1 + 4 else 0) +
          (if has 8 x then 1 + 4 else 0) + (if has 16 x then 1 + 4 else 0) +
          (if has 32 x then 1 + 4 else 0) + (if has 64 x then 1 + 4 else 0) +
          (if has 128 x then 1 + 4 else 0)
         else 0) +
        unknown_fields_size x
      in (total_size, x\<lparr>cached_size := total_size\<rparr>))"

definition CGCReportUseSkill_Serialize :: "pb_object \<Rightarrow> byte list" where
  "CGCReportUseSkill_Serialize x =
     (if has 1 x then WriteUInt32ToArray 1 (member x 1) else []) @
     (if has 2 x then WriteUInt32ToArray 2 (member x 2) else []) @
     (if has 4 x then WriteFloatToArray 3 (member x 3) else []) @
     (if has 8 x then WriteFloatToArray 4 (member x 4) else []) @
     (if has 16 x then WriteFloatToArray 5 (member x 5) else []) @
     (if has 32 x then WriteFloatToArray 6 (member x 6) else []) @
     (if has 64 x then WriteFloatToArray 7 (member x 7) else []) @
     (if has 128 x then WriteFloatToArray 8 (member x 8) else []) @ unknown_bytes x"

definition CGCReportUseSkill_InternalSwap :: "pb_swap" where
  "CGCReportUseSkill_InternalSwap = swap_all
     [swap_member 1, swap_member 2, swap_member 3, swap_member 4, swap_member 5, swap_member 6,
      swap_member 7, swap_member 8, swap_has_bits, swap_metadata, swap_cached_size]"

lemmas CGCReportUseSkill_code =
  CGCReportUseSkill_def CGCReportUseSkill_layout_def CGCReportUseSkill_SharedCtor_def
  CGCReportUseSkill_Clear_def CGCReportUseSkill_MergeFrom_def CGCReportUseSkill_ByteSize_def
  CGCReportUseSkill_Serialize_def CGCReportUseSkill_InternalSwap_def

lemma CGCReportUseSkill_class:
  "message_class CGCReportUseSkill CGCReportUseSkill_SharedCtor CGCReportUseSkill_Clear
     CGCReportUseSkill_MergeFrom CGCReportUseSkill_ByteSize CGCReportUseSkill_Serialize
     CGCReportUseSkill_InternalSwap"
  by (rule message_classI; simp add: CGCReportUseSkill_code class_rules del: One_nat_def)

end
