(* ===== verification/NetClasses3.thy ===== *)
theory NetClasses3
  imports PbClass
begin

text \<open>
  The functions generated for the message classes from CGSNotifySkillReleased to CGCReportTowerInstanceScore
  (src/Server/protobuf/NetMessage.pb.cc, in the order of the file): for each class the members as the
  header declares them, \<open>SharedCtor\<close>, \<open>Clear\<close>, \<open>MergeFrom\<close>, \<open>ByteSize\<close>, \<open>InternalSwap\<close> and
  \<open>SerializeWithCachedSizesToArray\<close> (\<open>_Serialize\<close>), and the proof that they keep the contract of a
  message class.
\<close>

subsection \<open>CGSNotifySkillReleased\<close>

definition CGSNotifySkillReleased_layout :: "pb_layout" where
  "CGSNotifySkillReleased_layout =
     [(1, PB_uint32), (2, PB_uint32), (3, PB_float), (4, PB_float), (5, PB_float), (6, PB_float),
      (7, PB_float), (8, PB_float)]"

definition CGSNotifySkillReleased_SharedCtor :: "pb_object \<Rightarrow> pb_object" where
  "CGSNotifySkillReleased_SharedCtor raw = raw\<lparr>has_bits := 0, member := (\<lambda>_. no_member)
       (1 := UInt32 0, 2 := UInt32 0, 3 := Float 0, 4 := Float 0, 5 := Float 0, 6 := Float 0,
        7 := Float 0, 8 := Float 0),
     unknown_fields := [], cached_size := 0\<rparr>"

definition CGSNotifySkillReleased_Clear :: "pb_stmt" where
  "CGSNotifySkillReleased_Clear = run
     [guarded (has 255) [ZR CGSNotifySkillReleased_layout 1 8], clear_has_bits, clear_unknown]"

definition CGSNotifySkillReleased_MergeFrom :: "bool \<Rightarrow> pb_object \<Rightarrow> pb_stmt" where
  "CGSNotifySkillReleased_MergeFrom same from x =
     (if same then Inl AssertFailed else run
       [guarded (\<lambda>_. has 0xFF from)
        [copy_field 1 1 from, copy_field 2 2 from, copy_field 4 3 from, copy_field 8 4 from,
         copy_field 16 5 from, copy_field 32 6 from, copy_field 64 7 from, copy_field 128 8 from],
        merge_unknown from] x)"

definition CGSNotifySkillReleased_ByteSize :: "pb_object \<Rightarrow> nat \<times> pb_object" where
  "CGSNotifySkillReleased_ByteSize x =
     (let total_size =
        (if has 255 x then
          (if has 1 x then 1 + UInt32Size (member x 1) else 0) +
          (if has 2 x then 1 + UInt32Size (member x 2) else 0) + (if has 4 x then 1 + 4 else 0) +
          (if has 8 x then 1 + 4 else 0) + (if has 16 x then 1 + 4 else 0) +
          (if has 32 x then 1 + 4 else 0) + (if has 64 x then 1 + 4 else 0) +
          (if has 128 x then 1 + 4 else 0)
         else 0) +
        unknown_fields_size x
      in (total_size, x\<lparr>cached_size := total_size\<rparr>))"

definition CGSNotifySkillReleased_Serialize :: "pb_object \<Rightarrow> byte list" where
  "CGSNotifySkillReleased_Serialize x =
     (if has 1 x then WriteUInt32ToArray 1 (member x 1) else []) @
     (if has 2 x then WriteUInt32ToArray 2 (member x 2) else []) @
     (if has 4 x then WriteFloatToArray 3 (member x 3) else []) @
     (if has 8 x then WriteFloatToArray 4 (member x 4) else []) @
     (if has 16 x then WriteFloatToArray 5 (member x 5) else []) @
     (if has 32 x then WriteFloatToArray 6 (member x 6) else []) @
     (if has 64 x then WriteFloatToArray 7 (member x 7) else []) @
     (if has 128 x then WriteFloatToArray 8 (member x 8) else []) @ unknown_bytes x"

definition CGSNotifySkillReleased_InternalSwap :: "pb_swap" where
  "CGSNotifySkillReleased_InternalSwap = swap_all
     [swap_member 1, swap_member 2, swap_member 3, swap_member 4, swap_member 5, swap_member 6,
      swap_member 7, swap_member 8, swap_has_bits, swap_metadata, swap_cached_size]"

lemmas CGSNotifySkillReleased_code =
  CGSNotifySkillReleased_def CGSNotifySkillReleased_layout_def
  CGSNotifySkillReleased_SharedCtor_def CGSNotifySkillReleased_Clear_def
  CGSNotifySkillReleased_MergeFrom_def CGSNotifySkillReleased_ByteSize_def
  CGSNotifySkillReleased_Serialize_def CGSNotifySkillReleased_InternalSwap_def

lemma CGSNotifySkillReleased_class:
  "message_class CGSNotifySkillReleased CGSNotifySkillReleased_SharedCtor
     CGSNotifySkillReleased_Clear CGSNotifySkillReleased_MergeFrom CGSNotifySkillReleased_ByteSize
     CGSNotifySkillReleased_Serialize CGSNotifySkillReleased_InternalSwap"
  by (rule message_classI; simp add: CGSNotifySkillReleased_code class_rules del: One_nat_def)

subsection \<open>CGCReportOBjectAppear\<close>

definition CGCReportOBjectAppear_layout :: "pb_layout" where
  "CGCReportOBjectAppear_layout =
     [(1, PB_uint32), (2, PB_uint32), (3, PB_float), (4, PB_float), (5, PB_float), (6, PB_float),
      (7, PB_float), (8, PB_float)]"

definition CGCReportOBjectAppear_SharedCtor :: "pb_object \<Rightarrow> pb_object" where
  "CGCReportOBjectAppear_SharedCtor raw = raw\<lparr>has_bits := 0, member := (\<lambda>_. no_member)
       (1 := UInt32 0, 2 := UInt32 0, 3 := Float 0, 4 := Float 0, 5 := Float 0, 6 := Float 0,
        7 := Float 0, 8 := Float 0),
     unknown_fields := [], cached_size := 0\<rparr>"

definition CGCReportOBjectAppear_Clear :: "pb_stmt" where
  "CGCReportOBjectAppear_Clear = run
     [guarded (has 255) [ZR CGCReportOBjectAppear_layout 1 8], clear_has_bits, clear_unknown]"

definition CGCReportOBjectAppear_MergeFrom :: "bool \<Rightarrow> pb_object \<Rightarrow> pb_stmt" where
  "CGCReportOBjectAppear_MergeFrom same from x =
     (if same then Inl AssertFailed else run
       [guarded (\<lambda>_. has 0xFF from)
        [copy_field 1 1 from, copy_field 2 2 from, copy_field 4 3 from, copy_field 8 4 from,
         copy_field 16 5 from, copy_field 32 6 from, copy_field 64 7 from, copy_field 128 8 from],
        merge_unknown from] x)"

definition CGCReportOBjectAppear_ByteSize :: "pb_object \<Rightarrow> nat \<times> pb_object" where
  "CGCReportOBjectAppear_ByteSize x =
     (let total_size =
        (if has 255 x then
          (if has 1 x then 1 + UInt32Size (member x 1) else 0) +
          (if has 2 x then 1 + UInt32Size (member x 2) else 0) + (if has 4 x then 1 + 4 else 0) +
          (if has 8 x then 1 + 4 else 0) + (if has 16 x then 1 + 4 else 0) +
          (if has 32 x then 1 + 4 else 0) + (if has 64 x then 1 + 4 else 0) +
          (if has 128 x then 1 + 4 else 0)
         else 0) +
        unknown_fields_size x
      in (total_size, x\<lparr>cached_size := total_size\<rparr>))"

definition CGCReportOBjectAppear_Serialize :: "pb_object \<Rightarrow> byte list" where
  "CGCReportOBjectAppear_Serialize x =
     (if has 1 x then WriteUInt32ToArray 1 (member x 1) else []) @
     (if has 2 x then WriteUInt32ToArray 2 (member x 2) else []) @
     (if has 4 x then WriteFloatToArray 3 (member x 3) else []) @
     (if has 8 x then WriteFloatToArray 4 (member x 4) else []) @
     (if has 16 x then WriteFloatToArray 5 (member x 5) else []) @
     (if has 32 x then WriteFloatToArray 6 (member x 6) else []) @
     (if has 64 x then WriteFloatToArray 7 (member x 7) else []) @
     (if has 128 x then WriteFloatToArray 8 (member x 8) else []) @ unknown_bytes x"

definition CGCReportOBjectAppear_InternalSwap :: "pb_swap" where
  "CGCReportOBjectAppear_InternalSwap = swap_all
     [swap_member 1, swap_member 2, swap_member 3, swap_member 4, swap_member 5, swap_member 6,
      swap_member 7, swap_member 8, swap_has_bits, swap_metadata, swap_cached_size]"

lemmas CGCReportOBjectAppear_code =
  CGCReportOBjectAppear_def CGCReportOBjectAppear_layout_def CGCReportOBjectAppear_SharedCtor_def
  CGCReportOBjectAppear_Clear_def CGCReportOBjectAppear_MergeFrom_def
  CGCReportOBjectAppear_ByteSize_def CGCReportOBjectAppear_Serialize_def
  CGCReportOBjectAppear_InternalSwap_def

lemma CGCReportOBjectAppear_class:
  "message_class CGCReportOBjectAppear CGCReportOBjectAppear_SharedCtor
     CGCReportOBjectAppear_Clear CGCReportOBjectAppear_MergeFrom CGCReportOBjectAppear_ByteSize
     CGCReportOBjectAppear_Serialize CGCReportOBjectAppear_InternalSwap"
  by (rule message_classI; simp add: CGCReportOBjectAppear_code class_rules del: One_nat_def)

subsection \<open>CGSNotifyObjectAppear\<close>

definition CGSNotifyObjectAppear_layout :: "pb_layout" where
  "CGSNotifyObjectAppear_layout =
     [(1, PB_uint32), (2, PB_uint32), (3, PB_float), (4, PB_float), (5, PB_float), (6, PB_float),
      (7, PB_float), (8, PB_float)]"

definition CGSNotifyObjectAppear_SharedCtor :: "pb_object \<Rightarrow> pb_object" where
  "CGSNotifyObjectAppear_SharedCtor raw = raw\<lparr>has_bits := 0, member := (\<lambda>_. no_member)
       (1 := UInt32 0, 2 := UInt32 0, 3 := Float 0, 4 := Float 0, 5 := Float 0, 6 := Float 0,
        7 := Float 0, 8 := Float 0),
     unknown_fields := [], cached_size := 0\<rparr>"

definition CGSNotifyObjectAppear_Clear :: "pb_stmt" where
  "CGSNotifyObjectAppear_Clear = run
     [guarded (has 255) [ZR CGSNotifyObjectAppear_layout 1 8], clear_has_bits, clear_unknown]"

definition CGSNotifyObjectAppear_MergeFrom :: "bool \<Rightarrow> pb_object \<Rightarrow> pb_stmt" where
  "CGSNotifyObjectAppear_MergeFrom same from x =
     (if same then Inl AssertFailed else run
       [guarded (\<lambda>_. has 0xFF from)
        [copy_field 1 1 from, copy_field 2 2 from, copy_field 4 3 from, copy_field 8 4 from,
         copy_field 16 5 from, copy_field 32 6 from, copy_field 64 7 from, copy_field 128 8 from],
        merge_unknown from] x)"

definition CGSNotifyObjectAppear_ByteSize :: "pb_object \<Rightarrow> nat \<times> pb_object" where
  "CGSNotifyObjectAppear_ByteSize x =
     (let total_size =
        (if has 255 x then
          (if has 1 x then 1 + UInt32Size (member x 1) else 0) +
          (if has 2 x then 1 + UInt32Size (member x 2) else 0) + (if has 4 x then 1 + 4 else 0) +
          (if has 8 x then 1 + 4 else 0) + (if has 16 x then 1 + 4 else 0) +
          (if has 32 x then 1 + 4 else 0) + (if has 64 x then 1 + 4 else 0) +
          (if has 128 x then 1 + 4 else 0)
         else 0) +
        unknown_fields_size x
      in (total_size, x\<lparr>cached_size := total_size\<rparr>))"

definition CGSNotifyObjectAppear_Serialize :: "pb_object \<Rightarrow> byte list" where
  "CGSNotifyObjectAppear_Serialize x =
     (if has 1 x then WriteUInt32ToArray 1 (member x 1) else []) @
     (if has 2 x then WriteUInt32ToArray 2 (member x 2) else []) @
     (if has 4 x then WriteFloatToArray 3 (member x 3) else []) @
     (if has 8 x then WriteFloatToArray 4 (member x 4) else []) @
     (if has 16 x then WriteFloatToArray 5 (member x 5) else []) @
     (if has 32 x then WriteFloatToArray 6 (member x 6) else []) @
     (if has 64 x then WriteFloatToArray 7 (member x 7) else []) @
     (if has 128 x then WriteFloatToArray 8 (member x 8) else []) @ unknown_bytes x"

definition CGSNotifyObjectAppear_InternalSwap :: "pb_swap" where
  "CGSNotifyObjectAppear_InternalSwap = swap_all
     [swap_member 1, swap_member 2, swap_member 3, swap_member 4, swap_member 5, swap_member 6,
      swap_member 7, swap_member 8, swap_has_bits, swap_metadata, swap_cached_size]"

lemmas CGSNotifyObjectAppear_code =
  CGSNotifyObjectAppear_def CGSNotifyObjectAppear_layout_def CGSNotifyObjectAppear_SharedCtor_def
  CGSNotifyObjectAppear_Clear_def CGSNotifyObjectAppear_MergeFrom_def
  CGSNotifyObjectAppear_ByteSize_def CGSNotifyObjectAppear_Serialize_def
  CGSNotifyObjectAppear_InternalSwap_def

lemma CGSNotifyObjectAppear_class:
  "message_class CGSNotifyObjectAppear CGSNotifyObjectAppear_SharedCtor
     CGSNotifyObjectAppear_Clear CGSNotifyObjectAppear_MergeFrom CGSNotifyObjectAppear_ByteSize
     CGSNotifyObjectAppear_Serialize CGSNotifyObjectAppear_InternalSwap"
  by (rule message_classI; simp add: CGSNotifyObjectAppear_code class_rules del: One_nat_def)

subsection \<open>CGCReportOBjectDisappear\<close>

definition CGCReportOBjectDisappear_layout :: "pb_layout" where
  "CGCReportOBjectDisappear_layout =
     [(1, PB_uint32), (2, PB_int32)]"

definition CGCReportOBjectDisappear_SharedCtor :: "pb_object \<Rightarrow> pb_object" where
  "CGCReportOBjectDisappear_SharedCtor raw = raw\<lparr>has_bits := 0, member := (\<lambda>_. no_member)
       (1 := UInt32 0, 2 := Int32 0),
     unknown_fields := [], cached_size := 0\<rparr>"

definition CGCReportOBjectDisappear_Clear :: "pb_stmt" where
  "CGCReportOBjectDisappear_Clear = run
     [ZR CGCReportOBjectDisappear_layout 1 2, clear_has_bits, clear_unknown]"

definition CGCReportOBjectDisappear_MergeFrom :: "bool \<Rightarrow> pb_object \<Rightarrow> pb_stmt" where
  "CGCReportOBjectDisappear_MergeFrom same from x =
     (if same then Inl AssertFailed else run
       [guarded (\<lambda>_. has 0xFF from)
        [copy_field 1 1 from, copy_field 2 2 from],
        merge_unknown from] x)"

definition CGCReportOBjectDisappear_ByteSize :: "pb_object \<Rightarrow> nat \<times> pb_object" where
  "CGCReportOBjectDisappear_ByteSize x =
     (let total_size =
        (if has 3 x then
          (if has 1 x then 1 + UInt32Size (member x 1) else 0) +
          (if has 2 x then 1 + Int32Size (member x 2) else 0)
         else 0) +
        unknown_fields_size x
      in (total_size, x\<lparr>cached_size := total_size\<rparr>))"

definition CGCReportOBjectDisappear_Serialize :: "pb_object \<Rightarrow> byte list" where
  "CGCReportOBjectDisappear_Serialize x =
     (if has 1 x then WriteUInt32ToArray 1 (member x 1) else []) @
     (if has 2 x then WriteInt32ToArray 2 (member x 2) else []) @ unknown_bytes x"

definition CGCReportOBjectDisappear_InternalSwap :: "pb_swap" where
  "CGCReportOBjectDisappear_InternalSwap = swap_all
     [swap_member 1, swap_member 2, swap_has_bits, swap_metadata, swap_cached_size]"

lemmas CGCReportOBjectDisappear_code =
  CGCReportOBjectDisappear_def CGCReportOBjectDisappear_layout_def
  CGCReportOBjectDisappear_SharedCtor_def CGCReportOBjectDisappear_Clear_def
  CGCReportOBjectDisappear_MergeFrom_def CGCReportOBjectDisappear_ByteSize_def
  CGCReportOBjectDisappear_Serialize_def CGCReportOBjectDisappear_InternalSwap_def

lemma CGCReportOBjectDisappear_class:
  "message_class CGCReportOBjectDisappear CGCReportOBjectDisappear_SharedCtor
     CGCReportOBjectDisappear_Clear CGCReportOBjectDisappear_MergeFrom
     CGCReportOBjectDisappear_ByteSize CGCReportOBjectDisappear_Serialize
     CGCReportOBjectDisappear_InternalSwap"
  by (rule message_classI; simp add: CGCReportOBjectDisappear_code class_rules del: One_nat_def)

subsection \<open>CGSNotifyObjectDisappear\<close>

definition CGSNotifyObjectDisappear_layout :: "pb_layout" where
  "CGSNotifyObjectDisappear_layout =
     [(1, PB_uint32), (2, PB_int32)]"

definition CGSNotifyObjectDisappear_SharedCtor :: "pb_object \<Rightarrow> pb_object" where
  "CGSNotifyObjectDisappear_SharedCtor raw = raw\<lparr>has_bits := 0, member := (\<lambda>_. no_member)
       (1 := UInt32 0, 2 := Int32 0),
     unknown_fields := [], cached_size := 0\<rparr>"

definition CGSNotifyObjectDisappear_Clear :: "pb_stmt" where
  "CGSNotifyObjectDisappear_Clear = run
     [ZR CGSNotifyObjectDisappear_layout 1 2, clear_has_bits, clear_unknown]"

definition CGSNotifyObjectDisappear_MergeFrom :: "bool \<Rightarrow> pb_object \<Rightarrow> pb_stmt" where
  "CGSNotifyObjectDisappear_MergeFrom same from x =
     (if same then Inl AssertFailed else run
       [guarded (\<lambda>_. has 0xFF from)
        [copy_field 1 1 from, copy_field 2 2 from],
        merge_unknown from] x)"

definition CGSNotifyObjectDisappear_ByteSize :: "pb_object \<Rightarrow> nat \<times> pb_object" where
  "CGSNotifyObjectDisappear_ByteSize x =
     (let total_size =
        (if has 3 x then
          (if has 1 x then 1 + UInt32Size (member x 1) else 0) +
          (if has 2 x then 1 + Int32Size (member x 2) else 0)
         else 0) +
        unknown_fields_size x
      in (total_size, x\<lparr>cached_size := total_size\<rparr>))"

definition CGSNotifyObjectDisappear_Serialize :: "pb_object \<Rightarrow> byte list" where
  "CGSNotifyObjectDisappear_Serialize x =
     (if has 1 x then WriteUInt32ToArray 1 (member x 1) else []) @
     (if has 2 x then WriteInt32ToArray 2 (member x 2) else []) @ unknown_bytes x"

definition CGSNotifyObjectDisappear_InternalSwap :: "pb_swap" where
  "CGSNotifyObjectDisappear_InternalSwap = swap_all
     [swap_member 1, swap_member 2, swap_has_bits, swap_metadata, swap_cached_size]"

lemmas CGSNotifyObjectDisappear_code =
  CGSNotifyObjectDisappear_def CGSNotifyObjectDisappear_layout_def
  CGSNotifyObjectDisappear_SharedCtor_def CGSNotifyObjectDisappear_Clear_def
  CGSNotifyObjectDisappear_MergeFrom_def CGSNotifyObjectDisappear_ByteSize_def
  CGSNotifyObjectDisappear_Serialize_def CGSNotifyObjectDisappear_InternalSwap_def

lemma CGSNotifyObjectDisappear_class:
  "message_class CGSNotifyObjectDisappear CGSNotifyObjectDisappear_SharedCtor
     CGSNotifyObjectDisappear_Clear CGSNotifyObjectDisappear_MergeFrom
     CGSNotifyObjectDisappear_ByteSize CGSNotifyObjectDisappear_Serialize
     CGSNotifyObjectDisappear_InternalSwap"
  by (rule message_classI; simp add: CGSNotifyObjectDisappear_code class_rules del: One_nat_def)

subsection \<open>CGCReportObjectAction\<close>

definition CGCReportObjectAction_layout :: "pb_layout" where
  "CGCReportObjectAction_layout =
     [(1, PB_uint32), (2, PB_int32), (3, PB_float), (4, PB_float), (5, PB_float), (6, PB_float),
      (7, PB_float), (8, PB_float)]"

definition CGCReportObjectAction_SharedCtor :: "pb_object \<Rightarrow> pb_object" where
  "CGCReportObjectAction_SharedCtor raw = raw\<lparr>has_bits := 0, member := (\<lambda>_. no_member)
       (1 := UInt32 0, 2 := Int32 0, 3 := Float 0, 4 := Float 0, 5 := Float 0, 6 := Float 0,
        7 := Float 0, 8 := Float 0),
     unknown_fields := [], cached_size := 0\<rparr>"

definition CGCReportObjectAction_Clear :: "pb_stmt" where
  "CGCReportObjectAction_Clear = run
     [guarded (has 255) [ZR CGCReportObjectAction_layout 1 8], clear_has_bits, clear_unknown]"

definition CGCReportObjectAction_MergeFrom :: "bool \<Rightarrow> pb_object \<Rightarrow> pb_stmt" where
  "CGCReportObjectAction_MergeFrom same from x =
     (if same then Inl AssertFailed else run
       [guarded (\<lambda>_. has 0xFF from)
        [copy_field 1 1 from, copy_field 2 2 from, copy_field 4 3 from, copy_field 8 4 from,
         copy_field 16 5 from, copy_field 32 6 from, copy_field 64 7 from, copy_field 128 8 from],
        merge_unknown from] x)"

definition CGCReportObjectAction_ByteSize :: "pb_object \<Rightarrow> nat \<times> pb_object" where
  "CGCReportObjectAction_ByteSize x =
     (let total_size =
        (if has 255 x then
          (if has 1 x then 1 + UInt32Size (member x 1) else 0) +
          (if has 2 x then 1 + Int32Size (member x 2) else 0) + (if has 4 x then 1 + 4 else 0) +
          (if has 8 x then 1 + 4 else 0) + (if has 16 x then 1 + 4 else 0) +
          (if has 32 x then 1 + 4 else 0) + (if has 64 x then 1 + 4 else 0) +
          (if has 128 x then 1 + 4 else 0)
         else 0) +
        unknown_fields_size x
      in (total_size, x\<lparr>cached_size := total_size\<rparr>))"

definition CGCReportObjectAction_Serialize :: "pb_object \<Rightarrow> byte list" where
  "CGCReportObjectAction_Serialize x =
     (if has 1 x then WriteUInt32ToArray 1 (member x 1) else []) @
     (if has 2 x then WriteInt32ToArray 2 (member x 2) else []) @
     (if has 4 x then WriteFloatToArray 3 (member x 3) else []) @
     (if has 8 x then WriteFloatToArray 4 (member x 4) else []) @
     (if has 16 x then WriteFloatToArray 5 (member x 5) else []) @
     (if has 32 x then WriteFloatToArray 6 (member x 6) else []) @
     (if has 64 x then WriteFloatToArray 7 (member x 7) else []) @
     (if has 128 x then WriteFloatToArray 8 (member x 8) else []) @ unknown_bytes x"

definition CGCReportObjectAction_InternalSwap :: "pb_swap" where
  "CGCReportObjectAction_InternalSwap = swap_all
     [swap_member 1, swap_member 2, swap_member 3, swap_member 4, swap_member 5, swap_member 6,
      swap_member 7, swap_member 8, swap_has_bits, swap_metadata, swap_cached_size]"

lemmas CGCReportObjectAction_code =
  CGCReportObjectAction_def CGCReportObjectAction_layout_def CGCReportObjectAction_SharedCtor_def
  CGCReportObjectAction_Clear_def CGCReportObjectAction_MergeFrom_def
  CGCReportObjectAction_ByteSize_def CGCReportObjectAction_Serialize_def
  CGCReportObjectAction_InternalSwap_def

lemma CGCReportObjectAction_class:
  "message_class CGCReportObjectAction CGCReportObjectAction_SharedCtor
     CGCReportObjectAction_Clear CGCReportObjectAction_MergeFrom CGCReportObjectAction_ByteSize
     CGCReportObjectAction_Serialize CGCReportObjectAction_InternalSwap"
  by (rule message_classI; simp add: CGCReportObjectAction_code class_rules del: One_nat_def)

subsection \<open>CGSNotifyObjectAction\<close>

definition CGSNotifyObjectAction_layout :: "pb_layout" where
  "CGSNotifyObjectAction_layout =
     [(1, PB_uint32), (2, PB_int32), (3, PB_float), (4, PB_float), (5, PB_float), (6, PB_float),
      (7, PB_float), (8, PB_float)]"

definition CGSNotifyObjectAction_SharedCtor :: "pb_object \<Rightarrow> pb_object" where
  "CGSNotifyObjectAction_SharedCtor raw = raw\<lparr>has_bits := 0, member := (\<lambda>_. no_member)
       (1 := UInt32 0, 2 := Int32 0, 3 := Float 0, 4 := Float 0, 5 := Float 0, 6 := Float 0,
        7 := Float 0, 8 := Float 0),
     unknown_fields := [], cached_size := 0\<rparr>"

definition CGSNotifyObjectAction_Clear :: "pb_stmt" where
  "CGSNotifyObjectAction_Clear = run
     [guarded (has 255) [ZR CGSNotifyObjectAction_layout 1 8], clear_has_bits, clear_unknown]"

definition CGSNotifyObjectAction_MergeFrom :: "bool \<Rightarrow> pb_object \<Rightarrow> pb_stmt" where
  "CGSNotifyObjectAction_MergeFrom same from x =
     (if same then Inl AssertFailed else run
       [guarded (\<lambda>_. has 0xFF from)
        [copy_field 1 1 from, copy_field 2 2 from, copy_field 4 3 from, copy_field 8 4 from,
         copy_field 16 5 from, copy_field 32 6 from, copy_field 64 7 from, copy_field 128 8 from],
        merge_unknown from] x)"

definition CGSNotifyObjectAction_ByteSize :: "pb_object \<Rightarrow> nat \<times> pb_object" where
  "CGSNotifyObjectAction_ByteSize x =
     (let total_size =
        (if has 255 x then
          (if has 1 x then 1 + UInt32Size (member x 1) else 0) +
          (if has 2 x then 1 + Int32Size (member x 2) else 0) + (if has 4 x then 1 + 4 else 0) +
          (if has 8 x then 1 + 4 else 0) + (if has 16 x then 1 + 4 else 0) +
          (if has 32 x then 1 + 4 else 0) + (if has 64 x then 1 + 4 else 0) +
          (if has 128 x then 1 + 4 else 0)
         else 0) +
        unknown_fields_size x
      in (total_size, x\<lparr>cached_size := total_size\<rparr>))"

definition CGSNotifyObjectAction_Serialize :: "pb_object \<Rightarrow> byte list" where
  "CGSNotifyObjectAction_Serialize x =
     (if has 1 x then WriteUInt32ToArray 1 (member x 1) else []) @
     (if has 2 x then WriteInt32ToArray 2 (member x 2) else []) @
     (if has 4 x then WriteFloatToArray 3 (member x 3) else []) @
     (if has 8 x then WriteFloatToArray 4 (member x 4) else []) @
     (if has 16 x then WriteFloatToArray 5 (member x 5) else []) @
     (if has 32 x then WriteFloatToArray 6 (member x 6) else []) @
     (if has 64 x then WriteFloatToArray 7 (member x 7) else []) @
     (if has 128 x then WriteFloatToArray 8 (member x 8) else []) @ unknown_bytes x"

definition CGSNotifyObjectAction_InternalSwap :: "pb_swap" where
  "CGSNotifyObjectAction_InternalSwap = swap_all
     [swap_member 1, swap_member 2, swap_member 3, swap_member 4, swap_member 5, swap_member 6,
      swap_member 7, swap_member 8, swap_has_bits, swap_metadata, swap_cached_size]"

lemmas CGSNotifyObjectAction_code =
  CGSNotifyObjectAction_def CGSNotifyObjectAction_layout_def CGSNotifyObjectAction_SharedCtor_def
  CGSNotifyObjectAction_Clear_def CGSNotifyObjectAction_MergeFrom_def
  CGSNotifyObjectAction_ByteSize_def CGSNotifyObjectAction_Serialize_def
  CGSNotifyObjectAction_InternalSwap_def

lemma CGSNotifyObjectAction_class:
  "message_class CGSNotifyObjectAction CGSNotifyObjectAction_SharedCtor
     CGSNotifyObjectAction_Clear CGSNotifyObjectAction_MergeFrom CGSNotifyObjectAction_ByteSize
     CGSNotifyObjectAction_Serialize CGSNotifyObjectAction_InternalSwap"
  by (rule message_classI; simp add: CGSNotifyObjectAction_code class_rules del: One_nat_def)

subsection \<open>CGCReportObjectHurm\<close>

definition CGCReportObjectHurm_layout :: "pb_layout" where
  "CGCReportObjectHurm_layout =
     [(1, PB_bool), (2, PB_uint32), (3, PB_int32), (4, PB_int32), (5, PB_int32)]"

definition CGCReportObjectHurm_SharedCtor :: "pb_object \<Rightarrow> pb_object" where
  "CGCReportObjectHurm_SharedCtor raw = raw\<lparr>has_bits := 0, member := (\<lambda>_. no_member)
       (1 := Bool False, 2 := UInt32 0, 3 := Int32 0, 4 := Int32 0, 5 := Int32 0),
     unknown_fields := [], cached_size := 0\<rparr>"

definition CGCReportObjectHurm_Clear :: "pb_stmt" where
  "CGCReportObjectHurm_Clear = run
     [guarded (has 31) [ZR CGCReportObjectHurm_layout 1 5], clear_has_bits, clear_unknown]"

definition CGCReportObjectHurm_MergeFrom :: "bool \<Rightarrow> pb_object \<Rightarrow> pb_stmt" where
  "CGCReportObjectHurm_MergeFrom same from x =
     (if same then Inl AssertFailed else run
       [guarded (\<lambda>_. has 0xFF from)
        [copy_field 1 1 from, copy_field 2 2 from, copy_field 4 3 from, copy_field 8 4 from,
         copy_field 16 5 from],
        merge_unknown from] x)"

definition CGCReportObjectHurm_ByteSize :: "pb_object \<Rightarrow> nat \<times> pb_object" where
  "CGCReportObjectHurm_ByteSize x =
     (let total_size =
        (if has 31 x then
          (if has 1 x then 1 + 1 else 0) + (if has 2 x then 1 + UInt32Size (member x 2) else 0) +
          (if has 4 x then 1 + Int32Size (member x 3) else 0) +
          (if has 8 x then 1 + Int32Size (member x 4) else 0) +
          (if has 16 x then 1 + Int32Size (member x 5) else 0)
         else 0) +
        unknown_fields_size x
      in (total_size, x\<lparr>cached_size := total_size\<rparr>))"

definition CGCReportObjectHurm_Serialize :: "pb_object \<Rightarrow> byte list" where
  "CGCReportObjectHurm_Serialize x =
     (if has 1 x then WriteBoolToArray 1 (member x 1) else []) @
     (if has 2 x then WriteUInt32ToArray 2 (member x 2) else []) @
     (if has 4 x then WriteInt32ToArray 3 (member x 3) else []) @
     (if has 8 x then WriteInt32ToArray 4 (member x 4) else []) @
     (if has 16 x then WriteInt32ToArray 5 (member x 5) else []) @ unknown_bytes x"

definition CGCReportObjectHurm_InternalSwap :: "pb_swap" where
  "CGCReportObjectHurm_InternalSwap = swap_all
     [swap_member 1, swap_member 2, swap_member 3, swap_member 4, swap_member 5, swap_has_bits,
      swap_metadata, swap_cached_size]"

lemmas CGCReportObjectHurm_code =
  CGCReportObjectHurm_def CGCReportObjectHurm_layout_def CGCReportObjectHurm_SharedCtor_def
  CGCReportObjectHurm_Clear_def CGCReportObjectHurm_MergeFrom_def CGCReportObjectHurm_ByteSize_def
  CGCReportObjectHurm_Serialize_def CGCReportObjectHurm_InternalSwap_def

lemma CGCReportObjectHurm_class:
  "message_class CGCReportObjectHurm CGCReportObjectHurm_SharedCtor CGCReportObjectHurm_Clear
     CGCReportObjectHurm_MergeFrom CGCReportObjectHurm_ByteSize CGCReportObjectHurm_Serialize
     CGCReportObjectHurm_InternalSwap"
  by (rule message_classI; simp add: CGCReportObjectHurm_code class_rules del: One_nat_def)

subsection \<open>CGSNotifyObjectHurm\<close>

definition CGSNotifyObjectHurm_layout :: "pb_layout" where
  "CGSNotifyObjectHurm_layout =
     [(1, PB_bool), (2, PB_uint32), (3, PB_int32), (4, PB_int32), (5, PB_int32)]"

definition CGSNotifyObjectHurm_SharedCtor :: "pb_object \<Rightarrow> pb_object" where
  "CGSNotifyObjectHurm_SharedCtor raw = raw\<lparr>has_bits := 0, member := (\<lambda>_. no_member)
       (1 := Bool False, 2 := UInt32 0, 3 := Int32 0, 4 := Int32 0, 5 := Int32 0),
     unknown_fields := [], cached_size := 0\<rparr>"

definition CGSNotifyObjectHurm_Clear :: "pb_stmt" where
  "CGSNotifyObjectHurm_Clear = run
     [guarded (has 31) [ZR CGSNotifyObjectHurm_layout 1 5], clear_has_bits, clear_unknown]"

definition CGSNotifyObjectHurm_MergeFrom :: "bool \<Rightarrow> pb_object \<Rightarrow> pb_stmt" where
  "CGSNotifyObjectHurm_MergeFrom same from x =
     (if same then Inl AssertFailed else run
       [guarded (\<lambda>_. has 0xFF from)
        [copy_field 1 1 from, copy_field 2 2 from, copy_field 4 3 from, copy_field 8 4 from,
         copy_field 16 5 from],
        merge_unknown from] x)"

definition CGSNotifyObjectHurm_ByteSize :: "pb_object \<Rightarrow> nat \<times> pb_object" where
  "CGSNotifyObjectHurm_ByteSize x =
     (let total_size =
        (if has 31 x then
          (if has 1 x then 1 + 1 else 0) + (if has 2 x then 1 + UInt32Size (member x 2) else 0) +
          (if has 4 x then 1 + Int32Size (member x 3) else 0) +
          (if has 8 x then 1 + Int32Size (member x 4) else 0) +
          (if has 16 x then 1 + Int32Size (member x 5) else 0)
         else 0) +
        unknown_fields_size x
      in (total_size, x\<lparr>cached_size := total_size\<rparr>))"

definition CGSNotifyObjectHurm_Serialize :: "pb_object \<Rightarrow> byte list" where
  "CGSNotifyObjectHurm_Serialize x =
     (if has 1 x then WriteBoolToArray 1 (member x 1) else []) @
     (if has 2 x then WriteUInt32ToArray 2 (member x 2) else []) @
     (if has 4 x then WriteInt32ToArray 3 (member x 3) else []) @
     (if has 8 x then WriteInt32ToArray 4 (member x 4) else []) @
     (if has 16 x then WriteInt32ToArray 5 (member x 5) else []) @ unknown_bytes x"

definition CGSNotifyObjectHurm_InternalSwap :: "pb_swap" where
  "CGSNotifyObjectHurm_InternalSwap = swap_all
     [swap_member 1, swap_member 2, swap_member 3, swap_member 4, swap_member 5, swap_has_bits,
      swap_metadata, swap_cached_size]"

lemmas CGSNotifyObjectHurm_code =
  CGSNotifyObjectHurm_def CGSNotifyObjectHurm_layout_def CGSNotifyObjectHurm_SharedCtor_def
  CGSNotifyObjectHurm_Clear_def CGSNotifyObjectHurm_MergeFrom_def CGSNotifyObjectHurm_ByteSize_def
  CGSNotifyObjectHurm_Serialize_def CGSNotifyObjectHurm_InternalSwap_def

lemma CGSNotifyObjectHurm_class:
  "message_class CGSNotifyObjectHurm CGSNotifyObjectHurm_SharedCtor CGSNotifyObjectHurm_Clear
     CGSNotifyObjectHurm_MergeFrom CGSNotifyObjectHurm_ByteSize CGSNotifyObjectHurm_Serialize
     CGSNotifyObjectHurm_InternalSwap"
  by (rule message_classI; simp add: CGSNotifyObjectHurm_code class_rules del: One_nat_def)

subsection \<open>CGCAskEnterTowerInstance\<close>

definition CGCAskEnterTowerInstance_layout :: "pb_layout" where
  "CGCAskEnterTowerInstance_layout =
     [(1, PB_uint32), (2, PB_bool)]"

definition CGCAskEnterTowerInstance_SharedCtor :: "pb_object \<Rightarrow> pb_object" where
  "CGCAskEnterTowerInstance_SharedCtor raw = raw\<lparr>has_bits := 0, member := (\<lambda>_. no_member)
       (1 := UInt32 0, 2 := Bool False),
     unknown_fields := [], cached_size := 0\<rparr>"

definition CGCAskEnterTowerInstance_Clear :: "pb_stmt" where
  "CGCAskEnterTowerInstance_Clear = run
     [ZR CGCAskEnterTowerInstance_layout 1 2, clear_has_bits, clear_unknown]"

definition CGCAskEnterTowerInstance_MergeFrom :: "bool \<Rightarrow> pb_object \<Rightarrow> pb_stmt" where
  "CGCAskEnterTowerInstance_MergeFrom same from x =
     (if same then Inl AssertFailed else run
       [guarded (\<lambda>_. has 0xFF from)
        [copy_field 1 1 from, copy_field 2 2 from],
        merge_unknown from] x)"

definition CGCAskEnterTowerInstance_ByteSize :: "pb_object \<Rightarrow> nat \<times> pb_object" where
  "CGCAskEnterTowerInstance_ByteSize x =
     (let total_size =
        (if has 3 x then
          (if has 1 x then 1 + UInt32Size (member x 1) else 0) + (if has 2 x then 1 + 1 else 0)
         else 0) +
        unknown_fields_size x
      in (total_size, x\<lparr>cached_size := total_size\<rparr>))"

definition CGCAskEnterTowerInstance_Serialize :: "pb_object \<Rightarrow> byte list" where
  "CGCAskEnterTowerInstance_Serialize x =
     (if has 1 x then WriteUInt32ToArray 1 (member x 1) else []) @
     (if has 2 x then WriteBoolToArray 2 (member x 2) else []) @ unknown_bytes x"

definition CGCAskEnterTowerInstance_InternalSwap :: "pb_swap" where
  "CGCAskEnterTowerInstance_InternalSwap = swap_all
     [swap_member 1, swap_member 2, swap_has_bits, swap_metadata, swap_cached_size]"

lemmas CGCAskEnterTowerInstance_code =
  CGCAskEnterTowerInstance_def CGCAskEnterTowerInstance_layout_def
  CGCAskEnterTowerInstance_SharedCtor_def CGCAskEnterTowerInstance_Clear_def
  CGCAskEnterTowerInstance_MergeFrom_def CGCAskEnterTowerInstance_ByteSize_def
  CGCAskEnterTowerInstance_Serialize_def CGCAskEnterTowerInstance_InternalSwap_def

lemma CGCAskEnterTowerInstance_class:
  "message_class CGCAskEnterTowerInstance CGCAskEnterTowerInstance_SharedCtor
     CGCAskEnterTowerInstance_Clear CGCAskEnterTowerInstance_MergeFrom
     CGCAskEnterTowerInstance_ByteSize CGCAskEnterTowerInstance_Serialize
     CGCAskEnterTowerInstance_InternalSwap"
  by (rule message_classI; simp add: CGCAskEnterTowerInstance_code class_rules del: One_nat_def)

subsection \<open>CGCReportTowerInstanceScore\<close>

definition CGCReportTowerInstanceScore_layout :: "pb_layout" where
  "CGCReportTowerInstanceScore_layout =
     [(1, PB_uint32)]"

definition CGCReportTowerInstanceScore_SharedCtor :: "pb_object \<Rightarrow> pb_object" where
  "CGCReportTowerInstanceScore_SharedCtor raw = raw\<lparr>has_bits := 0, member := (\<lambda>_. no_member)
       (1 := UInt32 0),
     unknown_fields := [], cached_size := 0\<rparr>"

definition CGCReportTowerInstanceScore_Clear :: "pb_stmt" where
  "CGCReportTowerInstanceScore_Clear = run
     [clear_member 1 (UInt32 0), clear_has_bits, clear_unknown]"

definition CGCReportTowerInstanceScore_MergeFrom :: "bool \<Rightarrow> pb_object \<Rightarrow> pb_stmt" where
  "CGCReportTowerInstanceScore_MergeFrom same from x =
     (if same then Inl AssertFailed else run
       [guarded (\<lambda>_. has 0xFF from)
        [copy_field 1 1 from], merge_unknown from] x)"

definition CGCReportTowerInstanceScore_ByteSize :: "pb_object \<Rightarrow> nat \<times> pb_object" where
  "CGCReportTowerInstanceScore_ByteSize x =
     (let total_size =
        (if has 1 x then 1 + UInt32Size (member x 1) else 0) + unknown_fields_size x
      in (total_size, x\<lparr>cached_size := total_size\<rparr>))"

definition CGCReportTowerInstanceScore_Serialize :: "pb_object \<Rightarrow> byte list" where
  "CGCReportTowerInstanceScore_Serialize x =
     (if has 1 x then WriteUInt32ToArray 1 (member x 1) else []) @ unknown_bytes x"

definition CGCReportTowerInstanceScore_InternalSwap :: "pb_swap" where
  "CGCReportTowerInstanceScore_InternalSwap = swap_all
     [swap_member 1, swap_has_bits, swap_metadata, swap_cached_size]"

lemmas CGCReportTowerInstanceScore_code =
  CGCReportTowerInstanceScore_def CGCReportTowerInstanceScore_layout_def
  CGCReportTowerInstanceScore_SharedCtor_def CGCReportTowerInstanceScore_Clear_def
  CGCReportTowerInstanceScore_MergeFrom_def CGCReportTowerInstanceScore_ByteSize_def
  CGCReportTowerInstanceScore_Serialize_def CGCReportTowerInstanceScore_InternalSwap_def

lemma CGCReportTowerInstanceScore_class:
  "message_class CGCReportTowerInstanceScore CGCReportTowerInstanceScore_SharedCtor
     CGCReportTowerInstanceScore_Clear CGCReportTowerInstanceScore_MergeFrom
     CGCReportTowerInstanceScore_ByteSize CGCReportTowerInstanceScore_Serialize
     CGCReportTowerInstanceScore_InternalSwap"
  by (rule message_classI; simp add: CGCReportTowerInstanceScore_code class_rules del: One_nat_def)

end
