(* ===== verification/NetClasses4.thy ===== *)
theory NetClasses4
  imports PbClass
begin

text \<open>
  The functions generated for the message classes from CGCAskTowerInstanceRank to CGCAskGuideComplate
  (src/Server/protobuf/NetMessage.pb.cc, in the order of the file): for each class the members as the
  header declares them, \<open>SharedCtor\<close>, \<open>Clear\<close>, \<open>MergeFrom\<close>, \<open>ByteSize\<close>, \<open>InternalSwap\<close> and
  \<open>SerializeWithCachedSizesToArray\<close> (\<open>_Serialize\<close>), and the proof that they keep the contract of a
  message class.
\<close>

subsection \<open>CGCAskTowerInstanceRank\<close>

definition CGCAskTowerInstanceRank_layout :: "pb_layout" where
  "CGCAskTowerInstanceRank_layout =
     [(1, PB_int32)]"

definition CGCAskTowerInstanceRank_SharedCtor :: "pb_object \<Rightarrow> pb_object" where
  "CGCAskTowerInstanceRank_SharedCtor raw = raw\<lparr>has_bits := 0, member := (\<lambda>_. no_member)
       (1 := Int32 0),
     unknown_fields := [], cached_size := 0\<rparr>"

definition CGCAskTowerInstanceRank_Clear :: "pb_stmt" where
  "CGCAskTowerInstanceRank_Clear = run
     [clear_member 1 (Int32 0), clear_has_bits, clear_unknown]"

definition CGCAskTowerInstanceRank_MergeFrom :: "bool \<Rightarrow> pb_object \<Rightarrow> pb_stmt" where
  "CGCAskTowerInstanceRank_MergeFrom same from x =
     (if same then Inl AssertFailed else run
       [guarded (\<lambda>_. has 0xFF from)
        [copy_field 1 1 from], merge_unknown from] x)"

definition CGCAskTowerInstanceRank_ByteSize :: "pb_object \<Rightarrow> nat \<times> pb_object" where
  "CGCAskTowerInstanceRank_ByteSize x =
     (let total_size =
        (if has 1 x then 1 + Int32Size (member x 1) else 0) + unknown_fields_size x
      in (total_size, x\<lparr>cached_size := total_size\<rparr>))"

definition CGCAskTowerInstanceRank_Serialize :: "pb_object \<Rightarrow> byte list" where
  "CGCAskTowerInstanceRank_Serialize x =
     (if has 1 x then WriteInt32ToArray 1 (member x 1) else []) @ unknown_bytes x"

definition CGCAskTowerInstanceRank_InternalSwap :: "pb_swap" where
  "CGCAskTowerInstanceRank_InternalSwap = swap_all
     [swap_member 1, swap_has_bits, swap_metadata, swap_cached_size]"

lemmas CGCAskTowerInstanceRank_code =
  CGCAskTowerInstanceRank_def CGCAskTowerInstanceRank_layout_def
  CGCAskTowerInstanceRank_SharedCtor_def CGCAskTowerInstanceRank_Clear_def
  CGCAskTowerInstanceRank_MergeFrom_def CGCAskTowerInstanceRank_ByteSize_def
  CGCAskTowerInstanceRank_Serialize_def CGCAskTowerInstanceRank_InternalSwap_def

lemma CGCAskTowerInstanceRank_class:
  "message_class CGCAskTowerInstanceRank CGCAskTowerInstanceRank_SharedCtor
     CGCAskTowerInstanceRank_Clear CGCAskTowerInstanceRank_MergeFrom
     CGCAskTowerInstanceRank_ByteSize CGCAskTowerInstanceRank_Serialize
     CGCAskTowerInstanceRank_InternalSwap"
  by (rule message_classI; simp add: CGCAskTowerInstanceRank_code class_rules del: One_nat_def)

subsection \<open>CGCAskTowerInstanceAward\<close>

definition CGCAskTowerInstanceAward_layout :: "pb_layout" where
  "CGCAskTowerInstanceAward_layout =
     [(1, PB_uint32), (2, PB_uint32)]"

definition CGCAskTowerInstanceAward_SharedCtor :: "pb_object \<Rightarrow> pb_object" where
  "CGCAskTowerInstanceAward_SharedCtor raw = raw\<lparr>has_bits := 0, member := (\<lambda>_. no_member)
       (1 := UInt32 0, 2 := UInt32 0),
     unknown_fields := [], cached_size := 0\<rparr>"

definition CGCAskTowerInstanceAward_Clear :: "pb_stmt" where
  "CGCAskTowerInstanceAward_Clear = run
     [ZR CGCAskTowerInstanceAward_layout 1 2, clear_has_bits, clear_unknown]"

definition CGCAskTowerInstanceAward_MergeFrom :: "bool \<Rightarrow> pb_object \<Rightarrow> pb_stmt" where
  "CGCAskTowerInstanceAward_MergeFrom same from x =
     (if same then Inl AssertFailed else run
       [guarded (\<lambda>_. has 0xFF from)
        [copy_field 1 1 from, copy_field 2 2 from],
        merge_unknown from] x)"

definition CGCAskTowerInstanceAward_ByteSize :: "pb_object \<Rightarrow> nat \<times> pb_object" where
  "CGCAskTowerInstanceAward_ByteSize x =
     (let total_size =
        (if has 3 x then
          (if has 1 x then 1 + UInt32Size (member x 1) else 0) +
          (if has 2 x then 1 + UInt32Size (member x 2) else 0)
         else 0) +
        unknown_fields_size x
      in (total_size, x\<lparr>cached_size := total_size\<rparr>))"

definition CGCAskTowerInstanceAward_Serialize :: "pb_object \<Rightarrow> byte list" where
  "CGCAskTowerInstanceAward_Serialize x =
     (if has 1 x then WriteUInt32ToArray 1 (member x 1) else []) @
     (if has 2 x then WriteUInt32ToArray 2 (member x 2) else []) @ unknown_bytes x"

definition CGCAskTowerInstanceAward_InternalSwap :: "pb_swap" where
  "CGCAskTowerInstanceAward_InternalSwap = swap_all
     [swap_member 1, swap_member 2, swap_has_bits, swap_metadata, swap_cached_size]"

lemmas CGCAskTowerInstanceAward_code =
  CGCAskTowerInstanceAward_def CGCAskTowerInstanceAward_layout_def
  CGCAskTowerInstanceAward_SharedCtor_def CGCAskTowerInstanceAward_Clear_def
  CGCAskTowerInstanceAward_MergeFrom_def CGCAskTowerInstanceAward_ByteSize_def
  CGCAskTowerInstanceAward_Serialize_def CGCAskTowerInstanceAward_InternalSwap_def

lemma CGCAskTowerInstanceAward_class:
  "message_class CGCAskTowerInstanceAward CGCAskTowerInstanceAward_SharedCtor
     CGCAskTowerInstanceAward_Clear CGCAskTowerInstanceAward_MergeFrom
     CGCAskTowerInstanceAward_ByteSize CGCAskTowerInstanceAward_Serialize
     CGCAskTowerInstanceAward_InternalSwap"
  by (rule message_classI; simp add: CGCAskTowerInstanceAward_code class_rules del: One_nat_def)

subsection \<open>MainInfo\<close>

definition MainInfo_layout :: "pb_layout" where
  "MainInfo_layout =
     [(2, PB_string), (1, PB_uint32), (4, PB_enum EmailState), (3, PB_string),
      (5, PB_enum EmailState)]"

definition MainInfo_SharedCtor :: "pb_object \<Rightarrow> pb_object" where
  "MainInfo_SharedCtor raw = raw\<lparr>has_bits := 0, member := (\<lambda>_. no_member)
       (1 := UInt32 0, 2 := Str [], 3 := Str [], 4 := Enum 0, 5 := Enum 0),
     unknown_fields := [], cached_size := 0\<rparr>"

definition MainInfo_Clear :: "pb_stmt" where
  "MainInfo_Clear = run
     [guarded (has 31) [ZR MainInfo_layout 1 4, clear_string 2 2, clear_string 4 3, clear_member 5 (Enum 0)],
      clear_has_bits, clear_unknown]"

definition MainInfo_MergeFrom :: "bool \<Rightarrow> pb_object \<Rightarrow> pb_stmt" where
  "MainInfo_MergeFrom same from x =
     (if same then Inl AssertFailed else run
       [guarded (\<lambda>_. has 0xFF from)
        [copy_field 1 1 from, copy_field 2 2 from, copy_field 4 3 from,
         copy_enum EmailState 8 4 from, copy_enum EmailState 16 5 from],
        merge_unknown from] x)"

definition MainInfo_ByteSize :: "pb_object \<Rightarrow> nat \<times> pb_object" where
  "MainInfo_ByteSize x =
     (let total_size =
        (if has 31 x then
          (if has 1 x then 1 + UInt32Size (member x 1) else 0) +
          (if has 2 x then 1 + StringSize (member x 2) else 0) +
          (if has 4 x then 1 + StringSize (member x 3) else 0) +
          (if has 8 x then 1 + EnumSize (member x 4) else 0) +
          (if has 16 x then 1 + EnumSize (member x 5) else 0)
         else 0) +
        unknown_fields_size x
      in (total_size, x\<lparr>cached_size := total_size\<rparr>))"

definition MainInfo_Serialize :: "pb_object \<Rightarrow> byte list" where
  "MainInfo_Serialize x =
     (if has 1 x then WriteUInt32ToArray 1 (member x 1) else []) @
     (if has 2 x then WriteStringToArray 2 (member x 2) else []) @
     (if has 4 x then WriteStringToArray 3 (member x 3) else []) @
     (if has 8 x then WriteEnumToArray 4 (member x 4) else []) @
     (if has 16 x then WriteEnumToArray 5 (member x 5) else []) @ unknown_bytes x"

definition MainInfo_InternalSwap :: "pb_swap" where
  "MainInfo_InternalSwap = swap_all
     [swap_member 1, swap_member 2, swap_member 3, swap_member 4, swap_member 5, swap_has_bits,
      swap_metadata, swap_cached_size]"

lemmas MainInfo_code =
  MainInfo_def MainInfo_layout_def MainInfo_SharedCtor_def MainInfo_Clear_def
  MainInfo_MergeFrom_def MainInfo_ByteSize_def MainInfo_Serialize_def MainInfo_InternalSwap_def

lemma MainInfo_class:
  "message_class MainInfo MainInfo_SharedCtor MainInfo_Clear MainInfo_MergeFrom MainInfo_ByteSize
     MainInfo_Serialize MainInfo_InternalSwap"
  by (rule message_classI; simp add: MainInfo_code class_rules del: One_nat_def)

subsection \<open>CGSNotifyEMailList\<close>

definition CGSNotifyEMailList_layout :: "pb_layout" where
  "CGSNotifyEMailList_layout =
     [(2, PB_message MainInfo), (1, PB_uint32)]"

definition CGSNotifyEMailList_SharedCtor :: "pb_object \<Rightarrow> pb_object" where
  "CGSNotifyEMailList_SharedCtor raw = raw\<lparr>has_bits := 0, member := (\<lambda>_. no_member)
       (1 := UInt32 0, 2 := Messages []),
     unknown_fields := [], cached_size := 0\<rparr>"

definition CGSNotifyEMailList_Clear :: "pb_stmt" where
  "CGSNotifyEMailList_Clear = run
     [clear_member 1 (UInt32 0), clear_member 2 (Messages []), clear_has_bits, clear_unknown]"

definition CGSNotifyEMailList_MergeFrom :: "bool \<Rightarrow> pb_object \<Rightarrow> pb_stmt" where
  "CGSNotifyEMailList_MergeFrom same from x =
     (if same then Inl AssertFailed else run
       [merge_messages 2 from, guarded (\<lambda>_. has 0xFF from)
        [copy_field 1 1 from],
        merge_unknown from] x)"

definition CGSNotifyEMailList_ByteSize :: "pb_object \<Rightarrow> nat \<times> pb_object" where
  "CGSNotifyEMailList_ByteSize x =
     (let total_size =
        (if has 1 x then 1 + UInt32Size (member x 1) else 0) +
        1 * length (as_messages (member x 2)) +
        sum_list (map (MessageSizeNoVirtual MainInfo) (as_messages (member x 2))) +
        unknown_fields_size x
      in (total_size, x\<lparr>cached_size := total_size\<rparr>))"

definition CGSNotifyEMailList_Serialize :: "pb_object \<Rightarrow> byte list" where
  "CGSNotifyEMailList_Serialize x =
     (if has 1 x then WriteUInt32ToArray 1 (member x 1) else []) @
     concat (map (WriteMessageNoVirtualToArray MainInfo 2) (as_messages (member x 2))) @
     unknown_bytes x"

definition CGSNotifyEMailList_InternalSwap :: "pb_swap" where
  "CGSNotifyEMailList_InternalSwap = swap_all
     [swap_member 1, swap_member 2, swap_has_bits, swap_metadata, swap_cached_size]"

lemmas CGSNotifyEMailList_code =
  CGSNotifyEMailList_def CGSNotifyEMailList_layout_def CGSNotifyEMailList_SharedCtor_def
  CGSNotifyEMailList_Clear_def CGSNotifyEMailList_MergeFrom_def CGSNotifyEMailList_ByteSize_def
  CGSNotifyEMailList_Serialize_def CGSNotifyEMailList_InternalSwap_def

lemma CGSNotifyEMailList_class:
  "message_class CGSNotifyEMailList CGSNotifyEMailList_SharedCtor CGSNotifyEMailList_Clear
     CGSNotifyEMailList_MergeFrom CGSNotifyEMailList_ByteSize CGSNotifyEMailList_Serialize
     CGSNotifyEMailList_InternalSwap"
  by (rule message_classI; simp add: CGSNotifyEMailList_code class_rules repeated_rules
      del: One_nat_def field_size.simps(1,2) field_bytes.simps(1,2))

subsection \<open>GCAskReadEMail\<close>

definition GCAskReadEMail_layout :: "pb_layout" where
  "GCAskReadEMail_layout =
     [(1, PB_uint32)]"

definition GCAskReadEMail_SharedCtor :: "pb_object \<Rightarrow> pb_object" where
  "GCAskReadEMail_SharedCtor raw = raw\<lparr>has_bits := 0, member := (\<lambda>_. no_member)
       (1 := UInt32 0),
     unknown_fields := [], cached_size := 0\<rparr>"

definition GCAskReadEMail_Clear :: "pb_stmt" where
  "GCAskReadEMail_Clear = run
     [clear_member 1 (UInt32 0), clear_has_bits, clear_unknown]"

definition GCAskReadEMail_MergeFrom :: "bool \<Rightarrow> pb_object \<Rightarrow> pb_stmt" where
  "GCAskReadEMail_MergeFrom same from x =
     (if same then Inl AssertFailed else run
       [guarded (\<lambda>_. has 0xFF from)
        [copy_field 1 1 from], merge_unknown from] x)"

definition GCAskReadEMail_ByteSize :: "pb_object \<Rightarrow> nat \<times> pb_object" where
  "GCAskReadEMail_ByteSize x =
     (let total_size =
        (if has 1 x then 1 + UInt32Size (member x 1) else 0) + unknown_fields_size x
      in (total_size, x\<lparr>cached_size := total_size\<rparr>))"

definition GCAskReadEMail_Serialize :: "pb_object \<Rightarrow> byte list" where
  "GCAskReadEMail_Serialize x =
     (if has 1 x then WriteUInt32ToArray 1 (member x 1) else []) @ unknown_bytes x"

definition GCAskReadEMail_InternalSwap :: "pb_swap" where
  "GCAskReadEMail_InternalSwap = swap_all
     [swap_member 1, swap_has_bits, swap_metadata, swap_cached_size]"

lemmas GCAskReadEMail_code =
  GCAskReadEMail_def GCAskReadEMail_layout_def GCAskReadEMail_SharedCtor_def
  GCAskReadEMail_Clear_def GCAskReadEMail_MergeFrom_def GCAskReadEMail_ByteSize_def
  GCAskReadEMail_Serialize_def GCAskReadEMail_InternalSwap_def

lemma GCAskReadEMail_class:
  "message_class GCAskReadEMail GCAskReadEMail_SharedCtor GCAskReadEMail_Clear
     GCAskReadEMail_MergeFrom GCAskReadEMail_ByteSize GCAskReadEMail_Serialize
     GCAskReadEMail_InternalSwap"
  by (rule message_classI; simp add: GCAskReadEMail_code class_rules del: One_nat_def)

subsection \<open>CGCAskGetEMailPrize\<close>

definition CGCAskGetEMailPrize_layout :: "pb_layout" where
  "CGCAskGetEMailPrize_layout =
     [(1, PB_uint32)]"

definition CGCAskGetEMailPrize_SharedCtor :: "pb_object \<Rightarrow> pb_object" where
  "CGCAskGetEMailPrize_SharedCtor raw = raw\<lparr>has_bits := 0, member := (\<lambda>_. no_member)
       (1 := UInt32 0),
     unknown_fields := [], cached_size := 0\<rparr>"

definition CGCAskGetEMailPrize_Clear :: "pb_stmt" where
  "CGCAskGetEMailPrize_Clear = run
     [clear_member 1 (UInt32 0), clear_has_bits, clear_unknown]"

definition CGCAskGetEMailPrize_MergeFrom :: "bool \<Rightarrow> pb_object \<Rightarrow> pb_stmt" where
  "CGCAskGetEMailPrize_MergeFrom same from x =
     (if same then Inl AssertFailed else run
       [guarded (\<lambda>_. has 0xFF from)
        [copy_field 1 1 from], merge_unknown from] x)"

definition CGCAskGetEMailPrize_ByteSize :: "pb_object \<Rightarrow> nat \<times> pb_object" where
  "CGCAskGetEMailPrize_ByteSize x =
     (let total_size =
        (if has 1 x then 1 + UInt32Size (member x 1) else 0) + unknown_fields_size x
      in (total_size, x\<lparr>cached_size := total_size\<rparr>))"

definition CGCAskGetEMailPrize_Serialize :: "pb_object \<Rightarrow> byte list" where
  "CGCAskGetEMailPrize_Serialize x =
     (if has 1 x then WriteUInt32ToArray 1 (member x 1) else []) @ unknown_bytes x"

definition CGCAskGetEMailPrize_InternalSwap :: "pb_swap" where
  "CGCAskGetEMailPrize_InternalSwap = swap_all
     [swap_member 1, swap_has_bits, swap_metadata, swap_cached_size]"

lemmas CGCAskGetEMailPrize_code =
  CGCAskGetEMailPrize_def CGCAskGetEMailPrize_layout_def CGCAskGetEMailPrize_SharedCtor_def
  CGCAskGetEMailPrize_Clear_def CGCAskGetEMailPrize_MergeFrom_def CGCAskGetEMailPrize_ByteSize_def
  CGCAskGetEMailPrize_Serialize_def CGCAskGetEMailPrize_InternalSwap_def

lemma CGCAskGetEMailPrize_class:
  "message_class CGCAskGetEMailPrize CGCAskGetEMailPrize_SharedCtor CGCAskGetEMailPrize_Clear
     CGCAskGetEMailPrize_MergeFrom CGCAskGetEMailPrize_ByteSize CGCAskGetEMailPrize_Serialize
     CGCAskGetEMailPrize_InternalSwap"
  by (rule message_classI; simp add: CGCAskGetEMailPrize_code class_rules del: One_nat_def)

subsection \<open>CGCAskRemoveEMail\<close>

definition CGCAskRemoveEMail_layout :: "pb_layout" where
  "CGCAskRemoveEMail_layout =
     [(1, PB_uint32)]"

definition CGCAskRemoveEMail_SharedCtor :: "pb_object \<Rightarrow> pb_object" where
  "CGCAskRemoveEMail_SharedCtor raw = raw\<lparr>has_bits := 0, member := (\<lambda>_. no_member)
       (1 := UInt32 0),
     unknown_fields := [], cached_size := 0\<rparr>"

definition CGCAskRemoveEMail_Clear :: "pb_stmt" where
  "CGCAskRemoveEMail_Clear = run
     [clear_member 1 (UInt32 0), clear_has_bits, clear_unknown]"

definition CGCAskRemoveEMail_MergeFrom :: "bool \<Rightarrow> pb_object \<Rightarrow> pb_stmt" where
  "CGCAskRemoveEMail_MergeFrom same from x =
     (if same then Inl AssertFailed else run
       [guarded (\<lambda>_. has 0xFF from)
        [copy_field 1 1 from], merge_unknown from] x)"

definition CGCAskRemoveEMail_ByteSize :: "pb_object \<Rightarrow> nat \<times> pb_object" where
  "CGCAskRemoveEMail_ByteSize x =
     (let total_size =
        (if has 1 x then 1 + UInt32Size (member x 1) else 0) + unknown_fields_size x
      in (total_size, x\<lparr>cached_size := total_size\<rparr>))"

definition CGCAskRemoveEMail_Serialize :: "pb_object \<Rightarrow> byte list" where
  "CGCAskRemoveEMail_Serialize x =
     (if has 1 x then WriteUInt32ToArray 1 (member x 1) else []) @ unknown_bytes x"

definition CGCAskRemoveEMail_InternalSwap :: "pb_swap" where
  "CGCAskRemoveEMail_InternalSwap = swap_all
     [swap_member 1, swap_has_bits, swap_metadata, swap_cached_size]"

lemmas CGCAskRemoveEMail_code =
  CGCAskRemoveEMail_def CGCAskRemoveEMail_layout_def CGCAskRemoveEMail_SharedCtor_def
  CGCAskRemoveEMail_Clear_def CGCAskRemoveEMail_MergeFrom_def CGCAskRemoveEMail_ByteSize_def
  CGCAskRemoveEMail_Serialize_def CGCAskRemoveEMail_InternalSwap_def

lemma CGCAskRemoveEMail_class:
  "message_class CGCAskRemoveEMail CGCAskRemoveEMail_SharedCtor CGCAskRemoveEMail_Clear
     CGCAskRemoveEMail_MergeFrom CGCAskRemoveEMail_ByteSize CGCAskRemoveEMail_Serialize
     CGCAskRemoveEMail_InternalSwap"
  by (rule message_classI; simp add: CGCAskRemoveEMail_code class_rules del: One_nat_def)

subsection \<open>CGSNotifyRankList\<close>

definition CGSNotifyRankList_layout :: "pb_layout" where
  "CGSNotifyRankList_layout =
     [(1, PB_int32), (2, PB_int32), (3, PB_int32), (4, PB_int32)]"

definition CGSNotifyRankList_SharedCtor :: "pb_object \<Rightarrow> pb_object" where
  "CGSNotifyRankList_SharedCtor raw = raw\<lparr>has_bits := 0, member := (\<lambda>_. no_member)
       (1 := Int32 0, 2 := Int32 0, 3 := Int32 0, 4 := Int32 0),
     unknown_fields := [], cached_size := 0\<rparr>"

definition CGSNotifyRankList_Clear :: "pb_stmt" where
  "CGSNotifyRankList_Clear = run
     [ZR CGSNotifyRankList_layout 1 4, clear_has_bits, clear_unknown]"

definition CGSNotifyRankList_MergeFrom :: "bool \<Rightarrow> pb_object \<Rightarrow> pb_stmt" where
  "CGSNotifyRankList_MergeFrom same from x =
     (if same then Inl AssertFailed else run
       [guarded (\<lambda>_. has 0xFF from)
        [copy_field 1 1 from, copy_field 2 2 from, copy_field 4 3 from, copy_field 8 4 from],
        merge_unknown from] x)"

definition CGSNotifyRankList_ByteSize :: "pb_object \<Rightarrow> nat \<times> pb_object" where
  "CGSNotifyRankList_ByteSize x =
     (let total_size =
        (if has 15 x then
          (if has 1 x then 1 + Int32Size (member x 1) else 0) +
          (if has 2 x then 1 + Int32Size (member x 2) else 0) +
          (if has 4 x then 1 + Int32Size (member x 3) else 0) +
          (if has 8 x then 1 + Int32Size (member x 4) else 0)
         else 0) +
        unknown_fields_size x
      in (total_size, x\<lparr>cached_size := total_size\<rparr>))"

definition CGSNotifyRankList_Serialize :: "pb_object \<Rightarrow> byte list" where
  "CGSNotifyRankList_Serialize x =
     (if has 1 x then WriteInt32ToArray 1 (member x 1) else []) @
     (if has 2 x then WriteInt32ToArray 2 (member x 2) else []) @
     (if has 4 x then WriteInt32ToArray 3 (member x 3) else []) @
     (if has 8 x then WriteInt32ToArray 4 (member x 4) else []) @ unknown_bytes x"

definition CGSNotifyRankList_InternalSwap :: "pb_swap" where
  "CGSNotifyRankList_InternalSwap = swap_all
     [swap_member 1, swap_member 2, swap_member 3, swap_member 4, swap_has_bits, swap_metadata,
      swap_cached_size]"

lemmas CGSNotifyRankList_code =
  CGSNotifyRankList_def CGSNotifyRankList_layout_def CGSNotifyRankList_SharedCtor_def
  CGSNotifyRankList_Clear_def CGSNotifyRankList_MergeFrom_def CGSNotifyRankList_ByteSize_def
  CGSNotifyRankList_Serialize_def CGSNotifyRankList_InternalSwap_def

lemma CGSNotifyRankList_class:
  "message_class CGSNotifyRankList CGSNotifyRankList_SharedCtor CGSNotifyRankList_Clear
     CGSNotifyRankList_MergeFrom CGSNotifyRankList_ByteSize CGSNotifyRankList_Serialize
     CGSNotifyRankList_InternalSwap"
  by (rule message_classI; simp add: CGSNotifyRankList_code class_rules del: One_nat_def)

subsection \<open>CGCSendCreateRole\<close>

definition CGCSendCreateRole_layout :: "pb_layout" where
  "CGCSendCreateRole_layout =
     [(1, PB_uint32), (2, PB_bool), (4, PB_bool), (3, PB_string)]"

definition CGCSendCreateRole_SharedCtor :: "pb_object \<Rightarrow> pb_object" where
  "CGCSendCreateRole_SharedCtor raw = raw\<lparr>has_bits := 0, member := (\<lambda>_. no_member)
       (1 := UInt32 0, 2 := Bool False, 3 := Str [], 4 := Bool False),
     unknown_fields := [], cached_size := 0\<rparr>"

definition CGCSendCreateRole_Clear :: "pb_stmt" where
  "CGCSendCreateRole_Clear = run
     [guarded (has 15) [ZR CGCSendCreateRole_layout 1 4, clear_string 4 3], clear_has_bits,
      clear_unknown]"

definition CGCSendCreateRole_MergeFrom :: "bool \<Rightarrow> pb_object \<Rightarrow> pb_stmt" where
  "CGCSendCreateRole_MergeFrom same from x =
     (if same then Inl AssertFailed else run
       [guarded (\<lambda>_. has 0xFF from)
        [copy_field 1 1 from, copy_field 2 2 from, copy_field 4 3 from, copy_field 8 4 from],
        merge_unknown from] x)"

definition CGCSendCreateRole_ByteSize :: "pb_object \<Rightarrow> nat \<times> pb_object" where
  "CGCSendCreateRole_ByteSize x =
     (let total_size =
        (if has 15 x then
          (if has 1 x then 1 + UInt32Size (member x 1) else 0) + (if has 2 x then 1 + 1 else 0) +
          (if has 4 x then 1 + StringSize (member x 3) else 0) + (if has 8 x then 1 + 1 else 0)
         else 0) +
        unknown_fields_size x
      in (total_size, x\<lparr>cached_size := total_size\<rparr>))"

definition CGCSendCreateRole_Serialize :: "pb_object \<Rightarrow> byte list" where
  "CGCSendCreateRole_Serialize x =
     (if has 1 x then WriteUInt32ToArray 1 (member x 1) else []) @
     (if has 2 x then WriteBoolToArray 2 (member x 2) else []) @
     (if has 4 x then WriteStringToArray 3 (member x 3) else []) @
     (if has 8 x then WriteBoolToArray 4 (member x 4) else []) @ unknown_bytes x"

definition CGCSendCreateRole_InternalSwap :: "pb_swap" where
  "CGCSendCreateRole_InternalSwap = swap_all
     [swap_member 1, swap_member 2, swap_member 3, swap_member 4, swap_has_bits, swap_metadata,
      swap_cached_size]"

lemmas CGCSendCreateRole_code =
  CGCSendCreateRole_def CGCSendCreateRole_layout_def CGCSendCreateRole_SharedCtor_def
  CGCSendCreateRole_Clear_def CGCSendCreateRole_MergeFrom_def CGCSendCreateRole_ByteSize_def
  CGCSendCreateRole_Serialize_def CGCSendCreateRole_InternalSwap_def

lemma CGCSendCreateRole_class:
  "message_class CGCSendCreateRole CGCSendCreateRole_SharedCtor CGCSendCreateRole_Clear
     CGCSendCreateRole_MergeFrom CGCSendCreateRole_ByteSize CGCSendCreateRole_Serialize
     CGCSendCreateRole_InternalSwap"
  by (rule message_classI; simp add: CGCSendCreateRole_code class_rules del: One_nat_def)

subsection \<open>CGCSendCreateRoleRet\<close>

definition CGCSendCreateRoleRet_layout :: "pb_layout" where
  "CGCSendCreateRoleRet_layout =
     [(1, PB_int32)]"

definition CGCSendCreateRoleRet_SharedCtor :: "pb_object \<Rightarrow> pb_object" where
  "CGCSendCreateRoleRet_SharedCtor raw = raw\<lparr>has_bits := 0, member := (\<lambda>_. no_member)
       (1 := Int32 0),
     unknown_fields := [], cached_size := 0\<rparr>"

definition CGCSendCreateRoleRet_Clear :: "pb_stmt" where
  "CGCSendCreateRoleRet_Clear = run
     [clear_member 1 (Int32 0), clear_has_bits, clear_unknown]"

definition CGCSendCreateRoleRet_MergeFrom :: "bool \<Rightarrow> pb_object \<Rightarrow> pb_stmt" where
  "CGCSendCreateRoleRet_MergeFrom same from x =
     (if same then Inl AssertFailed else run
       [guarded (\<lambda>_. has 0xFF from)
        [copy_field 1 1 from], merge_unknown from] x)"

definition CGCSendCreateRoleRet_ByteSize :: "pb_object \<Rightarrow> nat \<times> pb_object" where
  "CGCSendCreateRoleRet_ByteSize x =
     (let total_size =
        (if has 1 x then 1 + Int32Size (member x 1) else 0) + unknown_fields_size x
      in (total_size, x\<lparr>cached_size := total_size\<rparr>))"

definition CGCSendCreateRoleRet_Serialize :: "pb_object \<Rightarrow> byte list" where
  "CGCSendCreateRoleRet_Serialize x =
     (if has 1 x then WriteInt32ToArray 1 (member x 1) else []) @ unknown_bytes x"

definition CGCSendCreateRoleRet_InternalSwap :: "pb_swap" where
  "CGCSendCreateRoleRet_InternalSwap = swap_all
     [swap_member 1, swap_has_bits, swap_metadata, swap_cached_size]"

lemmas CGCSendCreateRoleRet_code =
  CGCSendCreateRoleRet_def CGCSendCreateRoleRet_layout_def CGCSendCreateRoleRet_SharedCtor_def
  CGCSendCreateRoleRet_Clear_def CGCSendCreateRoleRet_MergeFrom_def
  CGCSendCreateRoleRet_ByteSize_def CGCSendCreateRoleRet_Serialize_def
  CGCSendCreateRoleRet_InternalSwap_def

lemma CGCSendCreateRoleRet_class:
  "message_class CGCSendCreateRoleRet CGCSendCreateRoleRet_SharedCtor CGCSendCreateRoleRet_Clear
     CGCSendCreateRoleRet_MergeFrom CGCSendCreateRoleRet_ByteSize CGCSendCreateRoleRet_Serialize
     CGCSendCreateRoleRet_InternalSwap"
  by (rule message_classI; simp add: CGCSendCreateRoleRet_code class_rules del: One_nat_def)

subsection \<open>CGCAskRankList\<close>

definition CGCAskRankList_layout :: "pb_layout" where
  "CGCAskRankList_layout =
     [(1, PB_uint32)]"

definition CGCAskRankList_SharedCtor :: "pb_object \<Rightarrow> pb_object" where
  "CGCAskRankList_SharedCtor raw = raw\<lparr>has_bits := 0, member := (\<lambda>_. no_member)
       (1 := UInt32 0),
     unknown_fields := [], cached_size := 0\<rparr>"

definition CGCAskRankList_Clear :: "pb_stmt" where
  "CGCAskRankList_Clear = run
     [clear_member 1 (UInt32 0), clear_has_bits, clear_unknown]"

definition CGCAskRankList_MergeFrom :: "bool \<Rightarrow> pb_object \<Rightarrow> pb_stmt" where
  "CGCAskRankList_MergeFrom same from x =
     (if same then Inl AssertFailed else run
       [guarded (\<lambda>_. has 0xFF from)
        [copy_field 1 1 from], merge_unknown from] x)"

definition CGCAskRankList_ByteSize :: "pb_object \<Rightarrow> nat \<times> pb_object" where
  "CGCAskRankList_ByteSize x =
     (let total_size =
        (if has 1 x then 1 + UInt32Size (member x 1) else 0) + unknown_fields_size x
      in (total_size, x\<lparr>cached_size := total_size\<rparr>))"

definition CGCAskRankList_Serialize :: "pb_object \<Rightarrow> byte list" where
  "CGCAskRankList_Serialize x =
     (if has 1 x then WriteUInt32ToArray 1 (member x 1) else []) @ unknown_bytes x"

definition CGCAskRankList_InternalSwap :: "pb_swap" where
  "CGCAskRankList_InternalSwap = swap_all
     [swap_member 1, swap_has_bits, swap_metadata, swap_cached_size]"

lemmas CGCAskRankList_code =
  CGCAskRankList_def CGCAskRankList_layout_def CGCAskRankList_SharedCtor_def
  CGCAskRankList_Clear_def CGCAskRankList_MergeFrom_def CGCAskRankList_ByteSize_def
  CGCAskRankList_Serialize_def CGCAskRankList_InternalSwap_def

lemma CGCAskRankList_class:
  "message_class CGCAskRankList CGCAskRankList_SharedCtor CGCAskRankList_Clear
     CGCAskRankList_MergeFrom CGCAskRankList_ByteSize CGCAskRankList_Serialize
     CGCAskRankList_InternalSwap"
  by (rule message_classI; simp add: CGCAskRankList_code class_rules del: One_nat_def)

subsection \<open>CGCAsChargeIOS\<close>

definition CGCAsChargeIOS_layout :: "pb_layout" where
  "CGCAsChargeIOS_layout =
     [(1, PB_bool), (2, PB_uint32), (3, PB_string)]"

definition CGCAsChargeIOS_SharedCtor :: "pb_object \<Rightarrow> pb_object" where
  "CGCAsChargeIOS_SharedCtor raw = raw\<lparr>has_bits := 0, member := (\<lambda>_. no_member)
       (1 := Bool False, 2 := UInt32 0, 3 := Str []),
     unknown_fields := [], cached_size := 0\<rparr>"

definition CGCAsChargeIOS_Clear :: "pb_stmt" where
  "CGCAsChargeIOS_Clear = run
     [guarded (has 7) [ZR CGCAsChargeIOS_layout 1 2, clear_string 4 3], clear_has_bits,
      clear_unknown]"

definition CGCAsChargeIOS_MergeFrom :: "bool \<Rightarrow> pb_object \<Rightarrow> pb_stmt" where
  "CGCAsChargeIOS_MergeFrom same from x =
     (if same then Inl AssertFailed else run
       [guarded (\<lambda>_. has 0xFF from)
        [copy_field 1 1 from, copy_field 2 2 from, copy_field 4 3 from],
        merge_unknown from] x)"

definition CGCAsChargeIOS_ByteSize :: "pb_object \<Rightarrow> nat \<times> pb_object" where
  "CGCAsChargeIOS_ByteSize x =
     (let total_size =
        (if has 7 x then
          (if has 1 x then 1 + 1 else 0) + (if has 2 x then 1 + UInt32Size (member x 2) else 0) +
          (if has 4 x then 1 + StringSize (member x 3) else 0)
         else 0) +
        unknown_fields_size x
      in (total_size, x\<lparr>cached_size := total_size\<rparr>))"

definition CGCAsChargeIOS_Serialize :: "pb_object \<Rightarrow> byte list" where
  "CGCAsChargeIOS_Serialize x =
     (if has 1 x then WriteBoolToArray 1 (member x 1) else []) @
     (if has 2 x then WriteUInt32ToArray 2 (member x 2) else []) @
     (if has 4 x then WriteStringToArray 3 (member x 3) else []) @ unknown_bytes x"

definition CGCAsChargeIOS_InternalSwap :: "pb_swap" where
  "CGCAsChargeIOS_InternalSwap = swap_all
     [swap_member 1, swap_member 2, swap_member 3, swap_has_bits, swap_metadata, swap_cached_size]"

lemmas CGCAsChargeIOS_code =
  CGCAsChargeIOS_def CGCAsChargeIOS_layout_def CGCAsChargeIOS_SharedCtor_def
  CGCAsChargeIOS_Clear_def CGCAsChargeIOS_MergeFrom_def CGCAsChargeIOS_ByteSize_def
  CGCAsChargeIOS_Serialize_def CGCAsChargeIOS_InternalSwap_def

lemma CGCAsChargeIOS_class:
  "message_class CGCAsChargeIOS CGCAsChargeIOS_SharedCtor CGCAsChargeIOS_Clear
     CGCAsChargeIOS_MergeFrom CGCAsChargeIOS_ByteSize CGCAsChargeIOS_Serialize
     CGCAsChargeIOS_InternalSwap"
  by (rule message_classI; simp add: CGCAsChargeIOS_code class_rules del: One_nat_def)

subsection \<open>CGCNotifyChargeIOS\<close>

definition CGCNotifyChargeIOS_layout :: "pb_layout" where
  "CGCNotifyChargeIOS_layout =
     [(1, PB_int32), (2, PB_uint32), (3, PB_string)]"

definition CGCNotifyChargeIOS_SharedCtor :: "pb_object \<Rightarrow> pb_object" where
  "CGCNotifyChargeIOS_SharedCtor raw = raw\<lparr>has_bits := 0, member := (\<lambda>_. no_member)
       (1 := Int32 0, 2 := UInt32 0, 3 := Str []),
     unknown_fields := [], cached_size := 0\<rparr>"

definition CGCNotifyChargeIOS_Clear :: "pb_stmt" where
  "CGCNotifyChargeIOS_Clear = run
     [guarded (has 7) [ZR CGCNotifyChargeIOS_layout 1 2, clear_string 4 3], clear_has_bits,
      clear_unknown]"

definition CGCNotifyChargeIOS_MergeFrom :: "bool \<Rightarrow> pb_object \<Rightarrow> pb_stmt" where
  "CGCNotifyChargeIOS_MergeFrom same from x =
     (if same then Inl AssertFailed else run
       [guarded (\<lambda>_. has 0xFF from)
        [copy_field 1 1 from, copy_field 2 2 from, copy_field 4 3 from],
        merge_unknown from] x)"

definition CGCNotifyChargeIOS_ByteSize :: "pb_object \<Rightarrow> nat \<times> pb_object" where
  "CGCNotifyChargeIOS_ByteSize x =
     (let total_size =
        (if has 7 x then
          (if has 1 x then 1 + Int32Size (member x 1) else 0) +
          (if has 2 x then 1 + UInt32Size (member x 2) else 0) +
          (if has 4 x then 1 + StringSize (member x 3) else 0)
         else 0) +
        unknown_fields_size x
      in (total_size, x\<lparr>cached_size := total_size\<rparr>))"

definition CGCNotifyChargeIOS_Serialize :: "pb_object \<Rightarrow> byte list" where
  "CGCNotifyChargeIOS_Serialize x =
     (if has 1 x then WriteInt32ToArray 1 (member x 1) else []) @
     (if has 2 x then WriteUInt32ToArray 2 (member x 2) else []) @
     (if has 4 x then WriteStringToArray 3 (member x 3) else []) @ unknown_bytes x"

definition CGCNotifyChargeIOS_InternalSwap :: "pb_swap" where
  "CGCNotifyChargeIOS_InternalSwap = swap_all
     [swap_member 1, swap_member 2, swap_member 3, swap_has_bits, swap_metadata, swap_cached_size]"

lemmas CGCNotifyChargeIOS_code =
  CGCNotifyChargeIOS_def CGCNotifyChargeIOS_layout_def CGCNotifyChargeIOS_SharedCtor_def
  CGCNotifyChargeIOS_Clear_def CGCNotifyChargeIOS_MergeFrom_def CGCNotifyChargeIOS_ByteSize_def
  CGCNotifyChargeIOS_Serialize_def CGCNotifyChargeIOS_InternalSwap_def

lemma CGCNotifyChargeIOS_class:
  "message_class CGCNotifyChargeIOS CGCNotifyChargeIOS_SharedCtor CGCNotifyChargeIOS_Clear
     CGCNotifyChargeIOS_MergeFrom CGCNotifyChargeIOS_ByteSize CGCNotifyChargeIOS_Serialize
     CGCNotifyChargeIOS_InternalSwap"
  by (rule message_classI; simp add: CGCNotifyChargeIOS_code class_rules del: One_nat_def)

subsection \<open>CGCReportProcuce\<close>

definition CGCReportProcuce_layout :: "pb_layout" where
  "CGCReportProcuce_layout =
     [(1, PB_uint32), (2, PB_bool)]"

definition CGCReportProcuce_SharedCtor :: "pb_object \<Rightarrow> pb_object" where
  "CGCReportProcuce_SharedCtor raw = raw\<lparr>has_bits := 0, member := (\<lambda>_. no_member)
       (1 := UInt32 0, 2 := Bool False),
     unknown_fields := [], cached_size := 0\<rparr>"

definition CGCReportProcuce_Clear :: "pb_stmt" where
  "CGCReportProcuce_Clear = run
     [ZR CGCReportProcuce_layout 1 2, clear_has_bits, clear_unknown]"

definition CGCReportProcuce_MergeFrom :: "bool \<Rightarrow> pb_object \<Rightarrow> pb_stmt" where
  "CGCReportProcuce_MergeFrom same from x =
     (if same then Inl AssertFailed else run
       [guarded (\<lambda>_. has 0xFF from)
        [copy_field 1 1 from, copy_field 2 2 from],
        merge_unknown from] x)"

definition CGCReportProcuce_ByteSize :: "pb_object \<Rightarrow> nat \<times> pb_object" where
  "CGCReportProcuce_ByteSize x =
     (let total_size =
        (if has 3 x then
          (if has 1 x then 1 + UInt32Size (member x 1) else 0) + (if has 2 x then 1 + 1 else 0)
         else 0) +
        unknown_fields_size x
      in (total_size, x\<lparr>cached_size := total_size\<rparr>))"

definition CGCReportProcuce_Serialize :: "pb_object \<Rightarrow> byte list" where
  "CGCReportProcuce_Serialize x =
     (if has 1 x then WriteUInt32ToArray 1 (member x 1) else []) @
     (if has 2 x then WriteBoolToArray 2 (member x 2) else []) @ unknown_bytes x"

definition CGCReportProcuce_InternalSwap :: "pb_swap" where
  "CGCReportProcuce_InternalSwap = swap_all
     [swap_member 1, swap_member 2, swap_has_bits, swap_metadata, swap_cached_size]"

lemmas CGCReportProcuce_code =
  CGCReportProcuce_def CGCReportProcuce_layout_def CGCReportProcuce_SharedCtor_def
  CGCReportProcuce_Clear_def CGCReportProcuce_MergeFrom_def CGCReportProcuce_ByteSize_def
  CGCReportProcuce_Serialize_def CGCReportProcuce_InternalSwap_def

lemma CGCReportProcuce_class:
  "message_class CGCReportProcuce CGCReportProcuce_SharedCtor CGCReportProcuce_Clear
     CGCReportProcuce_MergeFrom CGCReportProcuce_ByteSize CGCReportProcuce_Serialize
     CGCReportProcuce_InternalSwap"
  by (rule message_classI; simp add: CGCReportProcuce_code class_rules del: One_nat_def)

subsection \<open>CGCAskChapterAward\<close>

definition CGCAskChapterAward_layout :: "pb_layout" where
  "CGCAskChapterAward_layout =
     [(1, PB_int32), (2, PB_bool)]"

definition CGCAskChapterAward_SharedCtor :: "pb_object \<Rightarrow> pb_object" where
  "CGCAskChapterAward_SharedCtor raw = raw\<lparr>has_bits := 0, member := (\<lambda>_. no_member)
       (1 := Int32 0, 2 := Bool False),
     unknown_fields := [], cached_size := 0\<rparr>"

definition CGCAskChapterAward_Clear :: "pb_stmt" where
  "CGCAskChapterAward_Clear = run
     [ZR CGCAskChapterAward_layout 1 2, clear_has_bits, clear_unknown]"

definition CGCAskChapterAward_MergeFrom :: "bool \<Rightarrow> pb_object \<Rightarrow> pb_stmt" where
  "CGCAskChapterAward_MergeFrom same from x =
     (if same then Inl AssertFailed else run
       [guarded (\<lambda>_. has 0xFF from)
        [copy_field 1 1 from, copy_field 2 2 from],
        merge_unknown from] x)"

definition CGCAskChapterAward_ByteSize :: "pb_object \<Rightarrow> nat \<times> pb_object" where
  "CGCAskChapterAward_ByteSize x =
     (let total_size =
        (if has 3 x then
          (if has 1 x then 1 + Int32Size (member x 1) else 0) + (if has 2 x then 1 + 1 else 0)
         else 0) +
        unknown_fields_size x
      in (total_size, x\<lparr>cached_size := total_size\<rparr>))"

definition CGCAskChapterAward_Serialize :: "pb_object \<Rightarrow> byte list" where
  "CGCAskChapterAward_Serialize x =
     (if has 1 x then WriteInt32ToArray 1 (member x 1) else []) @
     (if has 2 x then WriteBoolToArray 2 (member x 2) else []) @ unknown_bytes x"

definition CGCAskChapterAward_InternalSwap :: "pb_swap" where
  "CGCAskChapterAward_InternalSwap = swap_all
     [swap_member 1, swap_member 2, swap_has_bits, swap_metadata, swap_cached_size]"

lemmas CGCAskChapterAward_code =
  CGCAskChapterAward_def CGCAskChapterAward_layout_def CGCAskChapterAward_SharedCtor_def
  CGCAskChapterAward_Clear_def CGCAskChapterAward_MergeFrom_def CGCAskChapterAward_ByteSize_def
  CGCAskChapterAward_Serialize_def CGCAskChapterAward_InternalSwap_def

lemma CGCAskChapterAward_class:
  "message_class CGCAskChapterAward CGCAskChapterAward_SharedCtor CGCAskChapterAward_Clear
     CGCAskChapterAward_MergeFrom CGCAskChapterAward_ByteSize CGCAskChapterAward_Serialize
     CGCAskChapterAward_InternalSwap"
  by (rule message_classI; simp add: CGCAskChapterAward_code class_rules del: One_nat_def)

subsection \<open>CGCAskMedalInfo\<close>

definition CGCAskMedalInfo_layout :: "pb_layout" where
  "CGCAskMedalInfo_layout =
     []"

definition CGCAskMedalInfo_SharedCtor :: "pb_object \<Rightarrow> pb_object" where
  "CGCAskMedalInfo_SharedCtor raw = raw\<lparr>has_bits := 0, member := (\<lambda>_. no_member),
     unknown_fields := [], cached_size := 0\<rparr>"

definition CGCAskMedalInfo_Clear :: "pb_stmt" where
  "CGCAskMedalInfo_Clear = run
     [clear_has_bits, clear_unknown]"

definition CGCAskMedalInfo_MergeFrom :: "bool \<Rightarrow> pb_object \<Rightarrow> pb_stmt" where
  "CGCAskMedalInfo_MergeFrom same from x =
     (if same then Inl AssertFailed else run
       [merge_unknown from] x)"

definition CGCAskMedalInfo_ByteSize :: "pb_object \<Rightarrow> nat \<times> pb_object" where
  "CGCAskMedalInfo_ByteSize x =
     (let total_size =
        unknown_fields_size x
      in (total_size, x\<lparr>cached_size := total_size\<rparr>))"

definition CGCAskMedalInfo_Serialize :: "pb_object \<Rightarrow> byte list" where
  "CGCAskMedalInfo_Serialize x =
     unknown_bytes x"

definition CGCAskMedalInfo_InternalSwap :: "pb_swap" where
  "CGCAskMedalInfo_InternalSwap = swap_all
     [swap_metadata, swap_cached_size]"

lemmas CGCAskMedalInfo_code =
  CGCAskMedalInfo_def CGCAskMedalInfo_layout_def CGCAskMedalInfo_SharedCtor_def
  CGCAskMedalInfo_Clear_def CGCAskMedalInfo_MergeFrom_def CGCAskMedalInfo_ByteSize_def
  CGCAskMedalInfo_Serialize_def CGCAskMedalInfo_InternalSwap_def

lemma CGCAskMedalInfo_class:
  "message_class CGCAskMedalInfo CGCAskMedalInfo_SharedCtor CGCAskMedalInfo_Clear
     CGCAskMedalInfo_MergeFrom CGCAskMedalInfo_ByteSize CGCAskMedalInfo_Serialize
     CGCAskMedalInfo_InternalSwap"
  by (rule message_classI; simp add: CGCAskMedalInfo_code class_rules del: One_nat_def)

subsection \<open>CGCAskMedalLevelUp\<close>

definition CGCAskMedalLevelUp_layout :: "pb_layout" where
  "CGCAskMedalLevelUp_layout =
     []"

definition CGCAskMedalLevelUp_SharedCtor :: "pb_object \<Rightarrow> pb_object" where
  "CGCAskMedalLevelUp_SharedCtor raw = raw\<lparr>has_bits := 0, member := (\<lambda>_. no_member),
     unknown_fields := [], cached_size := 0\<rparr>"

definition CGCAskMedalLevelUp_Clear :: "pb_stmt" where
  "CGCAskMedalLevelUp_Clear = run
     [clear_has_bits, clear_unknown]"

definition CGCAskMedalLevelUp_MergeFrom :: "bool \<Rightarrow> pb_object \<Rightarrow> pb_stmt" where
  "CGCAskMedalLevelUp_MergeFrom same from x =
     (if same then Inl AssertFailed else run
       [merge_unknown from] x)"

definition CGCAskMedalLevelUp_ByteSize :: "pb_object \<Rightarrow> nat \<times> pb_object" where
  "CGCAskMedalLevelUp_ByteSize x =
     (let total_size =
        unknown_fields_size x
      in (total_size, x\<lparr>cached_size := total_size\<rparr>))"

definition CGCAskMedalLevelUp_Serialize :: "pb_object \<Rightarrow> byte list" where
  "CGCAskMedalLevelUp_Serialize x =
     unknown_bytes x"

definition CGCAskMedalLevelUp_InternalSwap :: "pb_swap" where
  "CGCAskMedalLevelUp_InternalSwap = swap_all
     [swap_metadata, swap_cached_size]"

lemmas CGCAskMedalLevelUp_code =
  CGCAskMedalLevelUp_def CGCAskMedalLevelUp_layout_def CGCAskMedalLevelUp_SharedCtor_def
  CGCAskMedalLevelUp_Clear_def CGCAskMedalLevelUp_MergeFrom_def CGCAskMedalLevelUp_ByteSize_def
  CGCAskMedalLevelUp_Serialize_def CGCAskMedalLevelUp_InternalSwap_def

lemma CGCAskMedalLevelUp_class:
  "message_class CGCAskMedalLevelUp CGCAskMedalLevelUp_SharedCtor CGCAskMedalLevelUp_Clear
     CGCAskMedalLevelUp_MergeFrom CGCAskMedalLevelUp_ByteSize CGCAskMedalLevelUp_Serialize
     CGCAskMedalLevelUp_InternalSwap"
  by (rule message_classI; simp add: CGCAskMedalLevelUp_code class_rules del: One_nat_def)

subsection \<open>CGCAskAddFriend\<close>

definition CGCAskAddFriend_layout :: "pb_layout" where
  "CGCAskAddFriend_layout =
     [(2, PB_string), (1, PB_enum CGCAskAddFriend_FriendSendType)]"

definition CGCAskAddFriend_SharedCtor :: "pb_object \<Rightarrow> pb_object" where
  "CGCAskAddFriend_SharedCtor raw = raw\<lparr>has_bits := 0, member := (\<lambda>_. no_member)
       (1 := Enum 0, 2 := Str []),
     unknown_fields := [], cached_size := 0\<rparr>"

definition CGCAskAddFriend_Clear :: "pb_stmt" where
  "CGCAskAddFriend_Clear = run
     [guarded (has 3) [clear_member 1 (Enum 0), clear_string 2 2], clear_has_bits, clear_unknown]"

definition CGCAskAddFriend_MergeFrom :: "bool \<Rightarrow> pb_object \<Rightarrow> pb_stmt" where
  "CGCAskAddFriend_MergeFrom same from x =
     (if same then Inl AssertFailed else run
       [guarded (\<lambda>_. has 0xFF from)
        [copy_enum CGCAskAddFriend_FriendSendType 1 1 from, copy_field 2 2 from],
        merge_unknown from] x)"

definition CGCAskAddFriend_ByteSize :: "pb_object \<Rightarrow> nat \<times> pb_object" where
  "CGCAskAddFriend_ByteSize x =
     (let total_size =
        (if has 3 x then
          (if has 1 x then 1 + EnumSize (member x 1) else 0) +
          (if has 2 x then 1 + StringSize (member x 2) else 0)
         else 0) +
        unknown_fields_size x
      in (total_size, x\<lparr>cached_size := total_size\<rparr>))"

definition CGCAskAddFriend_Serialize :: "pb_object \<Rightarrow> byte list" where
  "CGCAskAddFriend_Serialize x =
     (if has 1 x then WriteEnumToArray 1 (member x 1) else []) @
     (if has 2 x then WriteStringToArray 2 (member x 2) else []) @ unknown_bytes x"

definition CGCAskAddFriend_InternalSwap :: "pb_swap" where
  "CGCAskAddFriend_InternalSwap = swap_all
     [swap_member 1, swap_member 2, swap_has_bits, swap_metadata, swap_cached_size]"

lemmas CGCAskAddFriend_code =
  CGCAskAddFriend_def CGCAskAddFriend_layout_def CGCAskAddFriend_SharedCtor_def
  CGCAskAddFriend_Clear_def CGCAskAddFriend_MergeFrom_def CGCAskAddFriend_ByteSize_def
  CGCAskAddFriend_Serialize_def CGCAskAddFriend_InternalSwap_def

lemma CGCAskAddFriend_class:
  "message_class CGCAskAddFriend CGCAskAddFriend_SharedCtor CGCAskAddFriend_Clear
     CGCAskAddFriend_MergeFrom CGCAskAddFriend_ByteSize CGCAskAddFriend_Serialize
     CGCAskAddFriend_InternalSwap"
  by (rule message_classI; simp add: CGCAskAddFriend_code class_rules del: One_nat_def)

subsection \<open>CGCVipFriend\<close>

definition CGCVipFriend_layout :: "pb_layout" where
  "CGCVipFriend_layout =
     [(1, PB_enum CGCVipFriend_FriendSendType)]"

definition CGCVipFriend_SharedCtor :: "pb_object \<Rightarrow> pb_object" where
  "CGCVipFriend_SharedCtor raw = raw\<lparr>has_bits := 0, member := (\<lambda>_. no_member)
       (1 := Enum 0),
     unknown_fields := [], cached_size := 0\<rparr>"

definition CGCVipFriend_Clear :: "pb_stmt" where
  "CGCVipFriend_Clear = run
     [clear_member 1 (Enum 0), clear_has_bits, clear_unknown]"

definition CGCVipFriend_MergeFrom :: "bool \<Rightarrow> pb_object \<Rightarrow> pb_stmt" where
  "CGCVipFriend_MergeFrom same from x =
     (if same then Inl AssertFailed else run
       [guarded (\<lambda>_. has 0xFF from)
        [copy_enum CGCVipFriend_FriendSendType 1 1 from],
        merge_unknown from] x)"

definition CGCVipFriend_ByteSize :: "pb_object \<Rightarrow> nat \<times> pb_object" where
  "CGCVipFriend_ByteSize x =
     (let total_size =
        (if has 1 x then 1 + EnumSize (member x 1) else 0) + unknown_fields_size x
      in (total_size, x\<lparr>cached_size := total_size\<rparr>))"

definition CGCVipFriend_Serialize :: "pb_object \<Rightarrow> byte list" where
  "CGCVipFriend_Serialize x =
     (if has 1 x then WriteEnumToArray 1 (member x 1) else []) @ unknown_bytes x"

definition CGCVipFriend_InternalSwap :: "pb_swap" where
  "CGCVipFriend_InternalSwap = swap_all
     [swap_member 1, swap_has_bits, swap_metadata, swap_cached_size]"

lemmas CGCVipFriend_code =
  CGCVipFriend_def CGCVipFriend_layout_def CGCVipFriend_SharedCtor_def CGCVipFriend_Clear_def
  CGCVipFriend_MergeFrom_def CGCVipFriend_ByteSize_def CGCVipFriend_Serialize_def
  CGCVipFriend_InternalSwap_def

lemma CGCVipFriend_class:
  "message_class CGCVipFriend CGCVipFriend_SharedCtor CGCVipFriend_Clear CGCVipFriend_MergeFrom
     CGCVipFriend_ByteSize CGCVipFriend_Serialize CGCVipFriend_InternalSwap"
  by (rule message_classI; simp add: CGCVipFriend_code class_rules del: One_nat_def)

subsection \<open>CGCAskFriendRecord\<close>

definition CGCAskFriendRecord_layout :: "pb_layout" where
  "CGCAskFriendRecord_layout =
     []"

definition CGCAskFriendRecord_SharedCtor :: "pb_object \<Rightarrow> pb_object" where
  "CGCAskFriendRecord_SharedCtor raw = raw\<lparr>has_bits := 0, member := (\<lambda>_. no_member),
     unknown_fields := [], cached_size := 0\<rparr>"

definition CGCAskFriendRecord_Clear :: "pb_stmt" where
  "CGCAskFriendRecord_Clear = run
     [clear_has_bits, clear_unknown]"

definition CGCAskFriendRecord_MergeFrom :: "bool \<Rightarrow> pb_object \<Rightarrow> pb_stmt" where
  "CGCAskFriendRecord_MergeFrom same from x =
     (if same then Inl AssertFailed else run
       [merge_unknown from] x)"

definition CGCAskFriendRecord_ByteSize :: "pb_object \<Rightarrow> nat \<times> pb_object" where
  "CGCAskFriendRecord_ByteSize x =
     (let total_size =
        unknown_fields_size x
      in (total_size, x\<lparr>cached_size := total_size\<rparr>))"

definition CGCAskFriendRecord_Serialize :: "pb_object \<Rightarrow> byte list" where
  "CGCAskFriendRecord_Serialize x =
     unknown_bytes x"

definition CGCAskFriendRecord_InternalSwap :: "pb_swap" where
  "CGCAskFriendRecord_InternalSwap = swap_all
     [swap_metadata, swap_cached_size]"

lemmas CGCAskFriendRecord_code =
  CGCAskFriendRecord_def CGCAskFriendRecord_layout_def CGCAskFriendRecord_SharedCtor_def
  CGCAskFriendRecord_Clear_def CGCAskFriendRecord_MergeFrom_def CGCAskFriendRecord_ByteSize_def
  CGCAskFriendRecord_Serialize_def CGCAskFriendRecord_InternalSwap_def

lemma CGCAskFriendRecord_class:
  "message_class CGCAskFriendRecord CGCAskFriendRecord_SharedCtor CGCAskFriendRecord_Clear
     CGCAskFriendRecord_MergeFrom CGCAskFriendRecord_ByteSize CGCAskFriendRecord_Serialize
     CGCAskFriendRecord_InternalSwap"
  by (rule message_classI; simp add: CGCAskFriendRecord_code class_rules del: One_nat_def)

subsection \<open>CGCAskSelectPlayer\<close>

definition CGCAskSelectPlayer_layout :: "pb_layout" where
  "CGCAskSelectPlayer_layout =
     [(1, PB_string)]"

definition CGCAskSelectPlayer_SharedCtor :: "pb_object \<Rightarrow> pb_object" where
  "CGCAskSelectPlayer_SharedCtor raw = raw\<lparr>has_bits := 0, member := (\<lambda>_. no_member)
       (1 := Str []),
     unknown_fields := [], cached_size := 0\<rparr>"

definition CGCAskSelectPlayer_Clear :: "pb_stmt" where
  "CGCAskSelectPlayer_Clear = run
     [clear_string 1 1, clear_has_bits, clear_unknown]"

definition CGCAskSelectPlayer_MergeFrom :: "bool \<Rightarrow> pb_object \<Rightarrow> pb_stmt" where
  "CGCAskSelectPlayer_MergeFrom same from x =
     (if same then Inl AssertFailed else run
       [guarded (\<lambda>_. has 0xFF from)
        [copy_field 1 1 from], merge_unknown from] x)"

definition CGCAskSelectPlayer_ByteSize :: "pb_object \<Rightarrow> nat \<times> pb_object" where
  "CGCAskSelectPlayer_ByteSize x =
     (let total_size =
        (if has 1 x then 1 + StringSize (member x 1) else 0) + unknown_fields_size x
      in (total_size, x\<lparr>cached_size := total_size\<rparr>))"

definition CGCAskSelectPlayer_Serialize :: "pb_object \<Rightarrow> byte list" where
  "CGCAskSelectPlayer_Serialize x =
     (if has 1 x then WriteStringToArray 1 (member x 1) else []) @ unknown_bytes x"

definition CGCAskSelectPlayer_InternalSwap :: "pb_swap" where
  "CGCAskSelectPlayer_InternalSwap = swap_all
     [swap_member 1, swap_has_bits, swap_metadata, swap_cached_size]"

lemmas CGCAskSelectPlayer_code =
  CGCAskSelectPlayer_def CGCAskSelectPlayer_layout_def CGCAskSelectPlayer_SharedCtor_def
  CGCAskSelectPlayer_Clear_def CGCAskSelectPlayer_MergeFrom_def CGCAskSelectPlayer_ByteSize_def
  CGCAskSelectPlayer_Serialize_def CGCAskSelectPlayer_InternalSwap_def

lemma CGCAskSelectPlayer_class:
  "message_class CGCAskSelectPlayer CGCAskSelectPlayer_SharedCtor CGCAskSelectPlayer_Clear
     CGCAskSelectPlayer_MergeFrom CGCAskSelectPlayer_ByteSize CGCAskSelectPlayer_Serialize
     CGCAskSelectPlayer_InternalSwap"
  by (rule message_classI; simp add: CGCAskSelectPlayer_code class_rules del: One_nat_def)

subsection \<open>CGCAskGuideComplate\<close>

definition CGCAskGuideComplate_layout :: "pb_layout" where
  "CGCAskGuideComplate_layout =
     [(1, PB_uint32), (2, PB_bool)]"

definition CGCAskGuideComplate_SharedCtor :: "pb_object \<Rightarrow> pb_object" where
  "CGCAskGuideComplate_SharedCtor raw = raw\<lparr>has_bits := 0, member := (\<lambda>_. no_member)
       (1 := UInt32 0, 2 := Bool False),
     unknown_fields := [], cached_size := 0\<rparr>"

definition CGCAskGuideComplate_Clear :: "pb_stmt" where
  "CGCAskGuideComplate_Clear = run
     [ZR CGCAskGuideComplate_layout 1 2, clear_has_bits, clear_unknown]"

definition CGCAskGuideComplate_MergeFrom :: "bool \<Rightarrow> pb_object \<Rightarrow> pb_stmt" where
  "CGCAskGuideComplate_MergeFrom same from x =
     (if same then Inl AssertFailed else run
       [guarded (\<lambda>_. has 0xFF from)
        [copy_field 1 1 from, copy_field 2 2 from],
        merge_unknown from] x)"

definition CGCAskGuideComplate_ByteSize :: "pb_object \<Rightarrow> nat \<times> pb_object" where
  "CGCAskGuideComplate_ByteSize x =
     (let total_size =
        (if has 3 x then
          (if has 1 x then 1 + UInt32Size (member x 1) else 0) + (if has 2 x then 1 + 1 else 0)
         else 0) +
        unknown_fields_size x
      in (total_size, x\<lparr>cached_size := total_size\<rparr>))"

definition CGCAskGuideComplate_Serialize :: "pb_object \<Rightarrow> byte list" where
  "CGCAskGuideComplate_Serialize x =
     (if has 1 x then WriteUInt32ToArray 1 (member x 1) else []) @
     (if has 2 x then WriteBoolToArray 2 (member x 2) else []) @ unknown_bytes x"

definition CGCAskGuideComplate_InternalSwap :: "pb_swap" where
  "CGCAskGuideComplate_InternalSwap = swap_all
     [swap_member 1, swap_member 2, swap_has_bits, swap_metadata, swap_cached_size]"

lemmas CGCAskGuideComplate_code =
  CGCAskGuideComplate_def CGCAskGuideComplate_layout_def CGCAskGuideComplate_SharedCtor_def
  CGCAskGuideComplate_Clear_def CGCAskGuideComplate_MergeFrom_def CGCAskGuideComplate_ByteSize_def
  CGCAskGuideComplate_Serialize_def CGCAskGuideComplate_InternalSwap_def

lemma CGCAskGuideComplate_class:
  "message_class CGCAskGuideComplate CGCAskGuideComplate_SharedCtor CGCAskGuideComplate_Clear
     CGCAskGuideComplate_MergeFrom CGCAskGuideComplate_ByteSize CGCAskGuideComplate_Serialize
     CGCAskGuideComplate_InternalSwap"
  by (rule message_classI; simp add: CGCAskGuideComplate_code class_rules del: One_nat_def)

end
