(* ===== verification/NetClasses.thy ===== *)
theory NetClasses
  imports NetClasses1 NetClasses2 NetClasses3 NetClasses4
begin

text \<open>
  The message classes of src/Server/protobuf/NetMessage.pb.cc in one table: the schema of each, the cutoff
  its parser gives to \<open>ReadTagWithCutoff\<close>, and its generated functions. Every row is a \<open>message_class\<close>, so what
  follows from that contract holds for all of them.
\<close>

record pb_class =
  class_schema :: pb_schema
  class_cutoff :: u32
  class_ctor :: "pb_object \<Rightarrow> pb_object"
  class_clear :: pb_stmt
  class_merge :: "bool \<Rightarrow> pb_object \<Rightarrow> pb_stmt"
  class_size :: "pb_object \<Rightarrow> nat \<times> pb_object"
  class_bytes :: "pb_object \<Rightarrow> byte list"
  class_swap :: pb_swap

definition pb_class_of ::
    "pb_schema \<Rightarrow> u32 \<Rightarrow> (pb_object \<Rightarrow> pb_object) \<Rightarrow> pb_stmt \<Rightarrow> (bool \<Rightarrow> pb_object \<Rightarrow> pb_stmt) \<Rightarrow>
     (pb_object \<Rightarrow> nat \<times> pb_object) \<Rightarrow> (pb_object \<Rightarrow> byte list) \<Rightarrow> pb_swap \<Rightarrow> pb_class" where
  "pb_class_of sch cutoff ctor clear merge byte_size bytes swap =
     \<lparr>class_schema = sch, class_cutoff = cutoff, class_ctor = ctor, class_clear = clear, class_merge = merge,
      class_size = byte_size, class_bytes = bytes, class_swap = swap\<rparr>"

definition net_classes :: "pb_class list" where
  "net_classes =
    [pb_class_of CNetHead 127 CNetHead_SharedCtor CNetHead_Clear CNetHead_MergeFrom
       CNetHead_ByteSize CNetHead_Serialize CNetHead_InternalSwap,
     pb_class_of CRequestLogin 127 CRequestLogin_SharedCtor CRequestLogin_Clear
       CRequestLogin_MergeFrom CRequestLogin_ByteSize CRequestLogin_Serialize
       CRequestLogin_InternalSwap,
     pb_class_of CRequestLoginRet 127 CRequestLoginRet_SharedCtor CRequestLoginRet_Clear
       CRequestLoginRet_MergeFrom CRequestLoginRet_ByteSize CRequestLoginRet_Serialize
       CRequestLoginRet_InternalSwap,
     pb_class_of CRequestPing 127 CRequestPing_SharedCtor CRequestPing_Clear
       CRequestPing_MergeFrom CRequestPing_ByteSize CRequestPing_Serialize
       CRequestPing_InternalSwap,
     pb_class_of CGSNotifyRoleBaseInfo 16383 CGSNotifyRoleBaseInfo_SharedCtor
       CGSNotifyRoleBaseInfo_Clear CGSNotifyRoleBaseInfo_MergeFrom
       CGSNotifyRoleBaseInfo_ByteSize CGSNotifyRoleBaseInfo_Serialize
       CGSNotifyRoleBaseInfo_InternalSwap,
     pb_class_of CGCAskSelectRole 127 CGCAskSelectRole_SharedCtor CGCAskSelectRole_Clear
       CGCAskSelectRole_MergeFrom CGCAskSelectRole_ByteSize CGCAskSelectRole_Serialize
       CGCAskSelectRole_InternalSwap,
     pb_class_of CNetErrorMessage 127 CNetErrorMessage_SharedCtor CNetErrorMessage_Clear
       CNetErrorMessage_MergeFrom CNetErrorMessage_ByteSize CNetErrorMessage_Serialize
       CNetErrorMessage_InternalSwap,
     pb_class_of CGSNotifyService 127 CGSNotifyService_SharedCtor CGSNotifyService_Clear
       CGSNotifyService_MergeFrom CGSNotifyService_ByteSize CGSNotifyService_Serialize
       CGSNotifyService_InternalSwap,
     pb_class_of CGSNotifyChangeScene 127 CGSNotifyChangeScene_SharedCtor
       CGSNotifyChangeScene_Clear CGSNotifyChangeScene_MergeFrom CGSNotifyChangeScene_ByteSize
       CGSNotifyChangeScene_Serialize CGSNotifyChangeScene_InternalSwap,
     pb_class_of CGSNotifyRoleAppear 16383 CGSNotifyRoleAppear_SharedCtor
       CGSNotifyRoleAppear_Clear CGSNotifyRoleAppear_MergeFrom CGSNotifyRoleAppear_ByteSize
       CGSNotifyRoleAppear_Serialize CGSNotifyRoleAppear_InternalSwap,
     pb_class_of CGSObjectDisappear 127 CGSObjectDisappear_SharedCtor CGSObjectDisappear_Clear
       CGSObjectDisappear_MergeFrom CGSObjectDisappear_ByteSize CGSObjectDisappear_Serialize
       CGSObjectDisappear_InternalSwap,
     pb_class_of CGCAskLogout 127 CGCAskLogout_SharedCtor CGCAskLogout_Clear
       CGCAskLogout_MergeFrom CGCAskLogout_ByteSize CGCAskLogout_Serialize
       CGCAskLogout_InternalSwap,
     pb_class_of CGSObjectMove 127 CGSObjectMove_SharedCtor CGSObjectMove_Clear
       CGSObjectMove_MergeFrom CGSObjectMove_ByteSize CGSObjectMove_Serialize
       CGSObjectMove_InternalSwap,
     pb_class_of CGCAskMove 127 CGCAskMove_SharedCtor CGCAskMove_Clear CGCAskMove_MergeFrom
       CGCAskMove_ByteSize CGCAskMove_Serialize CGCAskMove_InternalSwap,
     pb_class_of CGSNotifyRoleProfileChange 127 CGSNotifyRoleProfileChange_SharedCtor
       CGSNotifyRoleProfileChange_Clear CGSNotifyRoleProfileChange_MergeFrom
       CGSNotifyRoleProfileChange_ByteSize CGSNotifyRoleProfileChange_Serialize
       CGSNotifyRoleProfileChange_InternalSwap,
     pb_class_of CGCReportPassGate 127 CGCReportPassGate_SharedCtor CGCReportPassGate_Clear
       CGCReportPassGate_MergeFrom CGCReportPassGate_ByteSize CGCReportPassGate_Serialize
       CGCReportPassGate_InternalSwap,
     pb_class_of CGCAskTreasureBoxDropGoods 127 CGCAskTreasureBoxDropGoods_SharedCtor
       CGCAskTreasureBoxDropGoods_Clear CGCAskTreasureBoxDropGoods_MergeFrom
       CGCAskTreasureBoxDropGoods_ByteSize CGCAskTreasureBoxDropGoods_Serialize
       CGCAskTreasureBoxDropGoods_InternalSwap,
     pb_class_of CGCAskEnterScene 127 CGCAskEnterScene_SharedCtor CGCAskEnterScene_Clear
       CGCAskEnterScene_MergeFrom CGCAskEnterScene_ByteSize CGCAskEnterScene_Serialize
       CGCAskEnterScene_InternalSwap,
     pb_class_of CGSNotifyRoleMapScheduleList 127 CGSNotifyRoleMapScheduleList_SharedCtor
       CGSNotifyRoleMapScheduleList_Clear CGSNotifyRoleMapScheduleList_MergeFrom
       CGSNotifyRoleMapScheduleList_ByteSize CGSNotifyRoleMapScheduleList_Serialize
       CGSNotifyRoleMapScheduleList_InternalSwap,
     pb_class_of CGSNotifyRoleFightProperty 127 CGSNotifyRoleFightProperty_SharedCtor
       CGSNotifyRoleFightProperty_Clear CGSNotifyRoleFightProperty_MergeFrom
       CGSNotifyRoleFightProperty_ByteSize CGSNotifyRoleFightProperty_Serialize
       CGSNotifyRoleFightProperty_InternalSwap,
     pb_class_of CGSNotifyAssetChange 127 CGSNotifyAssetChange_SharedCtor
       CGSNotifyAssetChange_Clear CGSNotifyAssetChange_MergeFrom CGSNotifyAssetChange_ByteSize
       CGSNotifyAssetChange_Serialize CGSNotifyAssetChange_InternalSwap,
     pb_class_of CGSNotifyLevelChange 127 CGSNotifyLevelChange_SharedCtor
       CGSNotifyLevelChange_Clear CGSNotifyLevelChange_MergeFrom CGSNotifyLevelChange_ByteSize
       CGSNotifyLevelChange_Serialize CGSNotifyLevelChange_InternalSwap,
     pb_class_of CGSNotifyExpChange 127 CGSNotifyExpChange_SharedCtor CGSNotifyExpChange_Clear
       CGSNotifyExpChange_MergeFrom CGSNotifyExpChange_ByteSize CGSNotifyExpChange_Serialize
       CGSNotifyExpChange_InternalSwap,
     pb_class_of CGSNotifyCurProperty 127 CGSNotifyCurProperty_SharedCtor
       CGSNotifyCurProperty_Clear CGSNotifyCurProperty_MergeFrom CGSNotifyCurProperty_ByteSize
       CGSNotifyCurProperty_Serialize CGSNotifyCurProperty_InternalSwap,
     pb_class_of CGSNotifyDisplayGateIncome 127 CGSNotifyDisplayGateIncome_SharedCtor
       CGSNotifyDisplayGateIncome_Clear CGSNotifyDisplayGateIncome_MergeFrom
       CGSNotifyDisplayGateIncome_ByteSize CGSNotifyDisplayGateIncome_Serialize
       CGSNotifyDisplayGateIncome_InternalSwap,
     pb_class_of CGCAskRelive 127 CGCAskRelive_SharedCtor CGCAskRelive_Clear
       CGCAskRelive_MergeFrom CGCAskRelive_ByteSize CGCAskRelive_Serialize
       CGCAskRelive_InternalSwap,
     pb_class_of CGCReportExp 127 CGCReportExp_SharedCtor CGCReportExp_Clear
       CGCReportExp_MergeFrom CGCReportExp_ByteSize CGCReportExp_Serialize
       CGCReportExp_InternalSwap,
     pb_class_of CGCReportUseSkill 127 CGCReportUseSkill_SharedCtor CGCReportUseSkill_Clear
       CGCReportUseSkill_MergeFrom CGCReportUseSkill_ByteSize CGCReportUseSkill_Serialize
       CGCReportUseSkill_InternalSwap,
     pb_class_of CGSNotifySkillReleased 127 CGSNotifySkillReleased_SharedCtor
       CGSNotifySkillReleased_Clear CGSNotifySkillReleased_MergeFrom
       CGSNotifySkillReleased_ByteSize CGSNotifySkillReleased_Serialize
       CGSNotifySkillReleased_InternalSwap,
     pb_class_of CGCReportOBjectAppear 127 CGCReportOBjectAppear_SharedCtor
       CGCReportOBjectAppear_Clear CGCReportOBjectAppear_MergeFrom
       CGCReportOBjectAppear_ByteSize CGCReportOBjectAppear_Serialize
       CGCReportOBjectAppear_InternalSwap,
     pb_class_of CGSNotifyObjectAppear 127 CGSNotifyObjectAppear_SharedCtor
       CGSNotifyObjectAppear_Clear CGSNotifyObjectAppear_MergeFrom
       CGSNotifyObjectAppear_ByteSize CGSNotifyObjectAppear_Serialize
       CGSNotifyObjectAppear_InternalSwap,
     pb_class_of CGCReportOBjectDisappear 127 CGCReportOBjectDisappear_SharedCtor
       CGCReportOBjectDisappear_Clear CGCReportOBjectDisappear_MergeFrom
       CGCReportOBjectDisappear_ByteSize CGCReportOBjectDisappear_Serialize
       CGCReportOBjectDisappear_InternalSwap,
     pb_class_of CGSNotifyObjectDisappear 127 CGSNotifyObjectDisappear_SharedCtor
       CGSNotifyObjectDisappear_Clear CGSNotifyObjectDisappear_MergeFrom
       CGSNotifyObjectDisappear_ByteSize CGSNotifyObjectDisappear_Serialize
       CGSNotifyObjectDisappear_InternalSwap,
     pb_class_of CGCReportObjectAction 127 CGCReportObjectAction_SharedCtor
       CGCReportObjectAction_Clear CGCReportObjectAction_MergeFrom
       CGCReportObjectAction_ByteSize CGCReportObjectAction_Serialize
       CGCReportObjectAction_InternalSwap,
     pb_class_of CGSNotifyObjectAction 127 CGSNotifyObjectAction_SharedCtor
       CGSNotifyObjectAction_Clear CGSNotifyObjectAction_MergeFrom
       CGSNotifyObjectAction_ByteSize CGSNotifyObjectAction_Serialize
       CGSNotifyObjectAction_InternalSwap,
     pb_class_of CGCReportObjectHurm 127 CGCReportObjectHurm_SharedCtor
       CGCReportObjectHurm_Clear CGCReportObjectHurm_MergeFrom CGCReportObjectHurm_ByteSize
       CGCReportObjectHurm_Serialize CGCReportObjectHurm_InternalSwap,
     pb_class_of CGSNotifyObjectHurm 127 CGSNotifyObjectHurm_SharedCtor
       CGSNotifyObjectHurm_Clear CGSNotifyObjectHurm_MergeFrom CGSNotifyObjectHurm_ByteSize
       CGSNotifyObjectHurm_Serialize CGSNotifyObjectHurm_InternalSwap,
     pb_class_of CGCAskEnterTowerInstance 127 CGCAskEnterTowerInstance_SharedCtor
       CGCAskEnterTowerInstance_Clear CGCAskEnterTowerInstance_MergeFrom
       CGCAskEnterTowerInstance_ByteSize CGCAskEnterTowerInstance_Serialize
       CGCAskEnterTowerInstance_InternalSwap,
     pb_class_of CGCReportTowerInstanceScore 127 CGCReportTowerInstanceScore_SharedCtor
       CGCReportTowerInstanceScore_Clear CGCReportTowerInstanceScore_MergeFrom
       CGCReportTowerInstanceScore_ByteSize CGCReportTowerInstanceScore_Serialize
       CGCReportTowerInstanceScore_InternalSwap,
     pb_class_of CGCAskTowerInstanceRank 127 CGCAskTowerInstanceRank_SharedCtor
       CGCAskTowerInstanceRank_Clear CGCAskTowerInstanceRank_MergeFrom
       CGCAskTowerInstanceRank_ByteSize CGCAskTowerInstanceRank_Serialize
       CGCAskTowerInstanceRank_InternalSwap,
     pb_class_of CGCAskTowerInstanceAward 127 CGCAskTowerInstanceAward_SharedCtor
       CGCAskTowerInstanceAward_Clear CGCAskTowerInstanceAward_MergeFrom
       CGCAskTowerInstanceAward_ByteSize CGCAskTowerInstanceAward_Serialize
       CGCAskTowerInstanceAward_InternalSwap,
     pb_class_of MainInfo 127 MainInfo_SharedCtor MainInfo_Clear MainInfo_MergeFrom
       MainInfo_ByteSize MainInfo_Serialize MainInfo_InternalSwap,
     pb_class_of CGSNotifyEMailList 127 CGSNotifyEMailList_SharedCtor CGSNotifyEMailList_Clear
       CGSNotifyEMailList_MergeFrom CGSNotifyEMailList_ByteSize CGSNotifyEMailList_Serialize
       CGSNotifyEMailList_InternalSwap,
     pb_class_of GCAskReadEMail 127 GCAskReadEMail_SharedCtor GCAskReadEMail_Clear
       GCAskReadEMail_MergeFrom GCAskReadEMail_ByteSize GCAskReadEMail_Serialize
       GCAskReadEMail_InternalSwap,
     pb_class_of CGCAskGetEMailPrize 127 CGCAskGetEMailPrize_SharedCtor
       CGCAskGetEMailPrize_Clear CGCAskGetEMailPrize_MergeFrom CGCAskGetEMailPrize_ByteSize
       CGCAskGetEMailPrize_Serialize CGCAskGetEMailPrize_InternalSwap,
     pb_class_of CGCAskRemoveEMail 127 CGCAskRemoveEMail_SharedCtor CGCAskRemoveEMail_Clear
       CGCAskRemoveEMail_MergeFrom CGCAskRemoveEMail_ByteSize CGCAskRemoveEMail_Serialize
       CGCAskRemoveEMail_InternalSwap,
     pb_class_of CGSNotifyRankList 127 CGSNotifyRankList_SharedCtor CGSNotifyRankList_Clear
       CGSNotifyRankList_MergeFrom CGSNotifyRankList_ByteSize CGSNotifyRankList_Serialize
       CGSNotifyRankList_InternalSwap,
     pb_class_of CGCSendCreateRole 127 CGCSendCreateRole_SharedCtor CGCSendCreateRole_Clear
       CGCSendCreateRole_MergeFrom CGCSendCreateRole_ByteSize CGCSendCreateRole_Serialize
       CGCSendCreateRole_InternalSwap,
     pb_class_of CGCSendCreateRoleRet 127 CGCSendCreateRoleRet_SharedCtor
       CGCSendCreateRoleRet_Clear CGCSendCreateRoleRet_MergeFrom CGCSendCreateRoleRet_ByteSize
       CGCSendCreateRoleRet_Serialize CGCSendCreateRoleRet_InternalSwap,
     pb_class_of CGCAskRankList 127 CGCAskRankList_SharedCtor CGCAskRankList_Clear
       CGCAskRankList_MergeFrom CGCAskRankList_ByteSize CGCAskRankList_Serialize
       CGCAskRankList_InternalSwap,
     pb_class_of CGCAsChargeIOS 127 CGCAsChargeIOS_SharedCtor CGCAsChargeIOS_Clear
       CGCAsChargeIOS_MergeFrom CGCAsChargeIOS_ByteSize CGCAsChargeIOS_Serialize
       CGCAsChargeIOS_InternalSwap,
     pb_class_of CGCNotifyChargeIOS 127 CGCNotifyChargeIOS_SharedCtor CGCNotifyChargeIOS_Clear
       CGCNotifyChargeIOS_MergeFrom CGCNotifyChargeIOS_ByteSize CGCNotifyChargeIOS_Serialize
       CGCNotifyChargeIOS_InternalSwap,
     pb_class_of CGCReportProcuce 127 CGCReportProcuce_SharedCtor CGCReportProcuce_Clear
       CGCReportProcuce_MergeFrom CGCReportProcuce_ByteSize CGCReportProcuce_Serialize
       CGCReportProcuce_InternalSwap,
     pb_class_of CGCAskChapterAward 127 CGCAskChapterAward_SharedCtor CGCAskChapterAward_Clear
       CGCAskChapterAward_MergeFrom CGCAskChapterAward_ByteSize CGCAskChapterAward_Serialize
       CGCAskChapterAward_InternalSwap,
     pb_class_of CGCAskMedalInfo 127 CGCAskMedalInfo_SharedCtor CGCAskMedalInfo_Clear
       CGCAskMedalInfo_MergeFrom CGCAskMedalInfo_ByteSize CGCAskMedalInfo_Serialize
       CGCAskMedalInfo_InternalSwap,
     pb_class_of CGCAskMedalLevelUp 127 CGCAskMedalLevelUp_SharedCtor CGCAskMedalLevelUp_Clear
       CGCAskMedalLevelUp_MergeFrom CGCAskMedalLevelUp_ByteSize CGCAskMedalLevelUp_Serialize
       CGCAskMedalLevelUp_InternalSwap,
     pb_class_of CGCAskAddFriend 127 CGCAskAddFriend_SharedCtor CGCAskAddFriend_Clear
       CGCAskAddFriend_MergeFrom CGCAskAddFriend_ByteSize CGCAskAddFriend_Serialize
       CGCAskAddFriend_InternalSwap,
     pb_class_of CGCVipFriend 127 CGCVipFriend_SharedCtor CGCVipFriend_Clear
       CGCVipFriend_MergeFrom CGCVipFriend_ByteSize CGCVipFriend_Serialize
       CGCVipFriend_InternalSwap,
     pb_class_of CGCAskFriendRecord 127 CGCAskFriendRecord_SharedCtor CGCAskFriendRecord_Clear
       CGCAskFriendRecord_MergeFrom CGCAskFriendRecord_ByteSize CGCAskFriendRecord_Serialize
       CGCAskFriendRecord_InternalSwap,
     pb_class_of CGCAskSelectPlayer 127 CGCAskSelectPlayer_SharedCtor CGCAskSelectPlayer_Clear
       CGCAskSelectPlayer_MergeFrom CGCAskSelectPlayer_ByteSize CGCAskSelectPlayer_Serialize
       CGCAskSelectPlayer_InternalSwap,
     pb_class_of CGCAskGuideComplate 127 CGCAskGuideComplate_SharedCtor
       CGCAskGuideComplate_Clear CGCAskGuideComplate_MergeFrom CGCAskGuideComplate_ByteSize
       CGCAskGuideComplate_Serialize CGCAskGuideComplate_InternalSwap]"

definition is_class :: "pb_class \<Rightarrow> bool" where
  "is_class c \<longleftrightarrow> message_class (class_schema c) (class_ctor c) (class_clear c) (class_merge c) (class_size c)
     (class_bytes c) (class_swap c)"

lemma is_class_of:
  "is_class (pb_class_of sch cutoff ctor clear merge byte_size bytes swap) \<longleftrightarrow>
     message_class sch ctor clear merge byte_size bytes swap"
  by (simp add: is_class_def pb_class_of_def)

lemma net_classes_list: "list_all is_class net_classes"
  unfolding net_classes_def list.pred_inject is_class_of
  by (intro conjI list.pred_inject(1)
      CNetHead_class CRequestLogin_class CRequestLoginRet_class CRequestPing_class
      CGSNotifyRoleBaseInfo_class CGCAskSelectRole_class CNetErrorMessage_class
      CGSNotifyService_class CGSNotifyChangeScene_class CGSNotifyRoleAppear_class
      CGSObjectDisappear_class CGCAskLogout_class CGSObjectMove_class CGCAskMove_class
      CGSNotifyRoleProfileChange_class CGCReportPassGate_class CGCAskTreasureBoxDropGoods_class
      CGCAskEnterScene_class CGSNotifyRoleMapScheduleList_class CGSNotifyRoleFightProperty_class
      CGSNotifyAssetChange_class CGSNotifyLevelChange_class CGSNotifyExpChange_class
      CGSNotifyCurProperty_class CGSNotifyDisplayGateIncome_class CGCAskRelive_class
      CGCReportExp_class CGCReportUseSkill_class CGSNotifySkillReleased_class
      CGCReportOBjectAppear_class CGSNotifyObjectAppear_class CGCReportOBjectDisappear_class
      CGSNotifyObjectDisappear_class CGCReportObjectAction_class CGSNotifyObjectAction_class
      CGCReportObjectHurm_class CGSNotifyObjectHurm_class CGCAskEnterTowerInstance_class
      CGCReportTowerInstanceScore_class CGCAskTowerInstanceRank_class
      CGCAskTowerInstanceAward_class MainInfo_class CGSNotifyEMailList_class GCAskReadEMail_class
      CGCAskGetEMailPrize_class CGCAskRemoveEMail_class CGSNotifyRankList_class
      CGCSendCreateRole_class CGCSendCreateRoleRet_class CGCAskRankList_class CGCAsChargeIOS_class
      CGCNotifyChargeIOS_class CGCReportProcuce_class CGCAskChapterAward_class
      CGCAskMedalInfo_class CGCAskMedalLevelUp_class CGCAskAddFriend_class CGCVipFriend_class
      CGCAskFriendRecord_class CGCAskSelectPlayer_class CGCAskGuideComplate_class)

lemma net_classes_ok: "c \<in> set net_classes \<Longrightarrow> is_class c"
  using net_classes_list by (simp add: list_all_iff)

text \<open>The cutoffs protoc has put into the parsers are those of the schemas.\<close>

lemma net_cutoffs_list: "list_all (\<lambda>c. class_cutoff c = tag_cutoff (class_schema c)) net_classes"
  unfolding net_classes_def list.pred_inject pb_class_of_def
  by (simp add: net_schemas tag_cutoff_def field_tag_def MakeTag_def)

lemma net_cutoffs: "c \<in> set net_classes \<Longrightarrow> class_cutoff c = tag_cutoff (class_schema c)"
  using net_cutoffs_list by (simp add: list_all_iff)

text \<open>The facts of the contract that a client of the classes uses.\<close>

lemma net_classes_good: "c \<in> set net_classes \<Longrightarrow> good_schema (class_schema c)"
  using net_classes_ok unfolding is_class_def by (rule message_class.good(1))

lemmas class_facts =
  net_classes_ok [unfolded is_class_def, THEN message_class.ctor_message(1)]
  net_classes_ok [unfolded is_class_def, THEN message_class.ctor_message(2)]
  net_classes_ok [unfolded is_class_def, THEN message_class.clear_message]
  net_classes_ok [unfolded is_class_def, THEN message_class.merge_message]
  net_classes_ok [unfolded is_class_def, THEN message_class.merge_itself]
  net_classes_ok [unfolded is_class_def, THEN message_class.copy_message]
  net_classes_ok [unfolded is_class_def, THEN message_class.size_message]
  net_classes_ok [unfolded is_class_def, THEN message_class.bytes_message]
  net_classes_ok [unfolded is_class_def, THEN message_class.swap_messages]
  net_classes_ok [unfolded is_class_def, THEN message_class.written_is_read]
  net_classes_ok [unfolded is_class_def, THEN message_class.written_twice]
  net_classes_ok [unfolded is_class_def, THEN message_class.size_is_length]

lemma class_rows:
  "class_schema (pb_class_of sch cutoff ctor clear merge byte_size bytes swap) = sch"
  "class_cutoff (pb_class_of sch cutoff ctor clear merge byte_size bytes swap) = cutoff"
  "class_ctor (pb_class_of sch cutoff ctor clear merge byte_size bytes swap) = ctor"
  "class_clear (pb_class_of sch cutoff ctor clear merge byte_size bytes swap) = clear"
  "class_merge (pb_class_of sch cutoff ctor clear merge byte_size bytes swap) = merge"
  "class_size (pb_class_of sch cutoff ctor clear merge byte_size bytes swap) = byte_size"
  "class_bytes (pb_class_of sch cutoff ctor clear merge byte_size bytes swap) = bytes"
  "class_swap (pb_class_of sch cutoff ctor clear merge byte_size bytes swap) = swap"
  by (simp_all add: pb_class_of_def)

lemma class_in_list:
  "pb_class_of CGSNotifyEMailList 127 CGSNotifyEMailList_SharedCtor CGSNotifyEMailList_Clear
     CGSNotifyEMailList_MergeFrom CGSNotifyEMailList_ByteSize CGSNotifyEMailList_Serialize
     CGSNotifyEMailList_InternalSwap \<in> set net_classes"
  "pb_class_of CRequestLogin 127 CRequestLogin_SharedCtor CRequestLogin_Clear CRequestLogin_MergeFrom
     CRequestLogin_ByteSize CRequestLogin_Serialize CRequestLogin_InternalSwap \<in> set net_classes"
  by (simp_all add: net_classes_def)

text \<open>The contract at the classes the servers build and parse.\<close>

interpretation login_class: message_class CRequestLogin CRequestLogin_SharedCtor CRequestLogin_Clear
    CRequestLogin_MergeFrom CRequestLogin_ByteSize CRequestLogin_Serialize CRequestLogin_InternalSwap
  by (rule CRequestLogin_class)

interpretation login_ret_class: message_class CRequestLoginRet CRequestLoginRet_SharedCtor CRequestLoginRet_Clear
    CRequestLoginRet_MergeFrom CRequestLoginRet_ByteSize CRequestLoginRet_Serialize CRequestLoginRet_InternalSwap
  by (rule CRequestLoginRet_class)

interpretation mail_list_class: message_class CGSNotifyEMailList CGSNotifyEMailList_SharedCtor CGSNotifyEMailList_Clear
    CGSNotifyEMailList_MergeFrom CGSNotifyEMailList_ByteSize CGSNotifyEMailList_Serialize
    CGSNotifyEMailList_InternalSwap
  by (rule CGSNotifyEMailList_class)

end
