(* ===== verification/PbAccess.thy ===== *)
theory PbAccess
  imports PbClass
begin

text \<open>
  The accessors of the message classes (src/Server/protobuf/NetMessage.pb.h): \<open>has_x\<close>, \<open>x\<close>, \<open>set_x\<close>, \<open>clear_x\<close>, \<open>mutable_x\<close>,
  \<open>release_x\<close> and \<open>set_allocated_x\<close> of an optional field, and the accessors of a repeated field. The code
  of a field is given by the constants that protoc has put into it; a class has a list of these in the order of
  its fields. The theory shows what they do to the message that the object stands for, when the
  constants are those of the schema.
\<close>

subsection \<open>Accessors of an optional field\<close>

text \<open>
  The member, the three masks in \<open>has_x\<close>, \<open>set_has_x\<close> and \<open>clear_has_x\<close>, and the value that \<open>clear_x\<close> stores.
\<close>

record accessor =
  acc_member :: nat
  acc_type :: pb_type
  acc_has :: u32
  acc_set_has :: u32
  acc_clear_has :: u32
  acc_default :: pb_val

definition has_x :: "accessor \<Rightarrow> pb_object \<Rightarrow> bool" where
  "has_x a x = has (acc_has a) x"

definition set_has_x :: "accessor \<Rightarrow> pb_object \<Rightarrow> pb_object" where
  "set_has_x a x = x\<lparr>has_bits := has_bits x OR acc_set_has a\<rparr>"

definition clear_has_x :: "accessor \<Rightarrow> pb_object \<Rightarrow> pb_object" where
  "clear_has_x a x = x\<lparr>has_bits := has_bits x AND NOT (acc_clear_has a)\<rparr>"

definition get_x :: "accessor \<Rightarrow> pb_object \<Rightarrow> pb_val" where
  "get_x a x = member x (acc_member a)"

definition clear_x :: "accessor \<Rightarrow> pb_object \<Rightarrow> pb_object" where
  "clear_x a x = clear_has_x a (assign (acc_member a) (acc_default a) x)"

text \<open>The setter of an enumeration asserts that the number is one of it, before anything else.\<close>

definition set_x :: "accessor \<Rightarrow> pb_val \<Rightarrow> pb_stmt" where
  "set_x a v x =
     (case acc_type a of
        PB_enum cases \<Rightarrow>
          if sint (as_uint32 v) \<in> set cases then Inr (assign (acc_member a) v (set_has_x a x)) else Inl AssertFailed
      | _ \<Rightarrow> Inr (assign (acc_member a) v (set_has_x a x)))"

text \<open>
  The other accessors of a string: from a C string, from a pointer and a size, by a pointer through which
  the caller changes the string, and by handing the string over. \<open>allocated\<close> tells whether the string is one of
  its own; a string that never was written is the shared empty one, and \<open>release_x\<close> returns a null pointer then.
\<close>

definition set_x_chars :: "accessor \<Rightarrow> byte list \<Rightarrow> pb_stmt" where
  "set_x_chars a value x = rbind (c_strlen value) (\<lambda>n. set_x a (Str (take n value)) x)"

definition set_x_sized :: "accessor \<Rightarrow> byte list \<Rightarrow> nat \<Rightarrow> pb_stmt" where
  "set_x_sized a value n x = rbind (memcpy_from value 0 n) (\<lambda>bs. set_x a (Str bs) x)"

definition mutable_x :: "accessor \<Rightarrow> (byte list \<Rightarrow> byte list) \<Rightarrow> pb_object \<Rightarrow> pb_object" where
  "mutable_x a write x =
     (let x1 = set_has_x a x in assign (acc_member a) (Str (write (as_string (member x1 (acc_member a))))) x1)"

definition release_x :: "bool \<Rightarrow> accessor \<Rightarrow> pb_object \<Rightarrow> byte list option \<times> pb_object" where
  "release_x allocated a x =
     (let x1 = clear_has_x a x in
      if allocated then (Some (as_string (member x1 (acc_member a))), assign (acc_member a) (Str []) x1)
      else (None, x1))"

definition set_allocated_x :: "accessor \<Rightarrow> byte list option \<Rightarrow> pb_object \<Rightarrow> pb_object" where
  "set_allocated_x a value x =
     (case value of
        Some s \<Rightarrow> assign (acc_member a) (Str s) (set_has_x a x)
      | None \<Rightarrow> assign (acc_member a) (Str []) (clear_has_x a x))"

subsection \<open>Accessors of a repeated field\<close>

text \<open>An index that is not below the size reads or writes behind the elements.\<close>

definition packed_len :: "nat \<Rightarrow> pb_object \<Rightarrow> nat" where
  "packed_len n x = length (as_packed (member x n))"

definition get_packed_at :: "nat \<Rightarrow> nat \<Rightarrow> pb_object \<Rightarrow> u32 res" where
  "get_packed_at n i x =
     (if i < packed_len n x then Inr (as_packed (member x n) ! i) else Inl OutOfBounds)"

definition set_packed_at :: "nat \<Rightarrow> nat \<Rightarrow> u32 \<Rightarrow> pb_stmt" where
  "set_packed_at n i w x =
     (if i < packed_len n x then Inr (assign n (Packed ((as_packed (member x n))[i := w])) x) else Inl OutOfBounds)"

definition add_packed_x :: "nat \<Rightarrow> u32 \<Rightarrow> pb_object \<Rightarrow> pb_object" where
  "add_packed_x n w x = assign n (Packed (as_packed (member x n) @ [w])) x"

definition clear_packed_x :: "nat \<Rightarrow> pb_object \<Rightarrow> pb_object" where
  "clear_packed_x n x = assign n (Packed []) x"

definition messages_len :: "nat \<Rightarrow> pb_object \<Rightarrow> nat" where
  "messages_len n x = length (as_messages (member x n))"

definition get_message_at :: "nat \<Rightarrow> nat \<Rightarrow> pb_object \<Rightarrow> pb_msg res" where
  "get_message_at n i x =
     (if i < messages_len n x then Inr (as_messages (member x n) ! i) else Inl OutOfBounds)"

definition mutable_message_at :: "nat \<Rightarrow> nat \<Rightarrow> (pb_msg \<Rightarrow> pb_msg) \<Rightarrow> pb_stmt" where
  "mutable_message_at n i write x =
     (if i < messages_len n x
      then Inr (assign n (Messages ((as_messages (member x n))[i := write (as_messages (member x n) ! i)])) x)
      else Inl OutOfBounds)"

text \<open>\<open>add_x\<close> appends an empty message and returns a pointer to it.\<close>

definition add_message_x :: "nat \<Rightarrow> (pb_msg \<Rightarrow> pb_msg) \<Rightarrow> pb_object \<Rightarrow> pb_object" where
  "add_message_x n write x = assign n (Messages (as_messages (member x n) @ [write pb_new])) x"

definition clear_messages_x :: "nat \<Rightarrow> pb_object \<Rightarrow> pb_object" where
  "clear_messages_x n x = assign n (Messages []) x"

subsection \<open>The accessors of a class\<close>

datatype field_accessors =
    Optional accessor
  | Repeated_uint32 nat
  | Repeated_message nat

definition optional :: "nat \<Rightarrow> pb_type \<Rightarrow> u32 \<Rightarrow> u32 \<Rightarrow> u32 \<Rightarrow> pb_val \<Rightarrow> field_accessors" where
  "optional n t h s c d =
     Optional \<lparr>acc_member = n, acc_type = t, acc_has = h, acc_set_has = s, acc_clear_has = c, acc_default = d\<rparr>"

fun is_singular :: "pb_type \<Rightarrow> bool" where
  "is_singular PB_packed_uint32 \<longleftrightarrow> False"
| "is_singular (PB_message sub) \<longleftrightarrow> False"
| "is_singular _ \<longleftrightarrow> True"

definition accessor_ok :: "nat \<Rightarrow> nat \<times> pb_type \<Rightarrow> accessor \<Rightarrow> bool" where
  "accessor_ok i f a \<longleftrightarrow>
     f = (acc_member a, acc_type a) \<and> is_singular (acc_type a) \<and> acc_default a = default_val (acc_type a)
     \<and> acc_has a = 2 ^ i \<and> acc_set_has a = 2 ^ i \<and> acc_clear_has a = 2 ^ i"

text \<open>The constants are those of the schema: bit \<open>i\<close> for field \<open>i\<close>, and its default.\<close>

fun field_accessors_ok :: "nat \<Rightarrow> nat \<times> pb_type \<Rightarrow> field_accessors \<Rightarrow> bool" where
  "field_accessors_ok i f (Optional a) \<longleftrightarrow> accessor_ok i f a"
| "field_accessors_ok i f (Repeated_uint32 n) \<longleftrightarrow> f = (n, PB_packed_uint32)"
| "field_accessors_ok i f (Repeated_message n) \<longleftrightarrow> fst f = n \<and> sub_schema (snd f) \<noteq> None"

fun accessors_ok :: "nat \<Rightarrow> pb_schema \<Rightarrow> field_accessors list \<Rightarrow> bool" where
  "accessors_ok i [] [] \<longleftrightarrow> True"
| "accessors_ok i (f # fs) (acc # as) \<longleftrightarrow> field_accessors_ok i f acc \<and> accessors_ok (i + 1) fs as"
| "accessors_ok i _ _ \<longleftrightarrow> False"

lemma accessors_nth:
  "accessors_ok i sch accs \<Longrightarrow> acc \<in> set accs \<Longrightarrow>
     \<exists>k < length sch. field_accessors_ok (i + k) (sch ! k) acc"
proof (induction i sch accs rule: accessors_ok.induct)
  case (2 i f fs a as)
  show ?case
  proof (cases "field_accessors_ok i f acc")
    case False
    then obtain k where "k < length fs" "field_accessors_ok (i + 1 + k) (fs ! k) acc"
      using 2 by auto
    then show ?thesis by (intro exI [of _ "Suc k"]) simp
  qed (auto intro: exI [of _ 0])
qed simp_all

subsection \<open>What the accessors do to the message\<close>

lemma field_update:
  assumes "good_schema sch" and "object_ok sch x" and "k < length sch" and "sch ! k = (n, t)"
    and "\<And>j. j \<noteq> k \<Longrightarrow> bit (has_bits y) j \<longleftrightarrow> bit (has_bits x) j"
    and "\<And>m. m \<noteq> n \<Longrightarrow> member y m = member x m" and "unknown_fields y = unknown_fields x"
    and "val_ok t (member y n)" and "\<not> is_set k (n, t) y \<longrightarrow> member y n = default_val t"
  shows "object_ok sch y"
    and "message_of sch y =
      Msg ((pb_fields (message_of sch x))(n := set_val k (n, t) y)) (pb_unknown (message_of sch x))"
proof -
  have y: "fields_of 0 sch y = (fields_of 0 sch x)(n := set_val (0 + k) (n, t) y) \<and> fields_ok 0 sch y"
    by (rule fields_update [where k = k])
      (use assms good_schema_distinct [OF assms(1)] in \<open>auto simp: object_ok_def\<close>)
  have "n \<in> fst ` set sch" using assms(3,4) nth_mem by force
  then show "object_ok sch y"
    using y assms(2,3,5,6) unfolding object_ok_def by metis
  show "message_of sch y =
      Msg ((pb_fields (message_of sch x))(n := set_val k (n, t) y)) (pb_unknown (message_of sch x))"
    using y assms(7) by (simp add: message_of_def)
qed

lemma singular_is_set: "is_singular t \<Longrightarrow> is_set i (n, t) x \<longleftrightarrow> bit (has_bits x) i"
  by (cases t) simp_all

text \<open>An optional field, its bit and the object that holds_field it.\<close>

definition holds_field :: "pb_schema \<Rightarrow> accessor \<Rightarrow> pb_object \<Rightarrow> bool" where
  "holds_field sch a x \<longleftrightarrow> good_schema sch \<and> length sch \<le> 32 \<and> enums_ok sch \<and> object_ok sch x
     \<and> (\<exists>k < length sch. accessor_ok k (sch ! k) a)"

lemma holdsE:
  assumes "holds_field sch a x"
  obtains k where "k < length sch" "k < 32" "sch ! k = (acc_member a, acc_type a)" "is_singular (acc_type a)"
    "acc_default a = default_val (acc_type a)" "acc_has a = 2 ^ k" "acc_set_has a = 2 ^ k" "acc_clear_has a = 2 ^ k"
    "good_schema sch" "object_ok sch x"
  using assms by (auto simp: holds_field_def accessor_ok_def)

lemma enums_default: "enums_ok sch \<Longrightarrow> (n, t) \<in> set sch \<Longrightarrow> val_ok t (default_val t)"
  by (induction sch rule: enums_ok.induct; cases t) auto

lemma holds_default: "holds_field sch a x \<Longrightarrow> val_ok (acc_type a) (acc_default a)"
  using nth_mem by (fastforce simp: holds_field_def accessor_ok_def intro: enums_default)

lemma has_get_message:
  assumes "holds_field sch a x"
  shows "has_x a x = has_field (acc_member a) (message_of sch x)"
    and "get_x a x = (case pb_fields (message_of sch x) (acc_member a) of Some v \<Rightarrow> v | None \<Rightarrow> acc_default a)"
    and "val_ok (acc_type a) (get_x a x)"
    and "\<not> has_x a x \<Longrightarrow> get_x a x = acc_default a"
proof -
  from assms obtain k where k: "k < length sch" "k < 32" "sch ! k = (acc_member a, acc_type a)" "is_singular (acc_type a)"
    "acc_default a = default_val (acc_type a)" "acc_has a = 2 ^ k" "good_schema sch" "object_ok sch x"
    by (rule holdsE)
  note nth = fields_nth [of 0 sch x k, OF _ good_schema_distinct [OF k(7)] k(1,3)]
    and set = singular_is_set [OF k(4)]
  have bit: "has_x a x = bit (has_bits x) k"
    using k(2,6) by (simp add: has_x_def has_def and_exp_eq_0_iff_not_bit)
  show "has_x a x = has_field (acc_member a) (message_of sch x)"
    and "get_x a x = (case pb_fields (message_of sch x) (acc_member a) of Some v \<Rightarrow> v | None \<Rightarrow> acc_default a)"
    and "val_ok (acc_type a) (get_x a x)" and "\<not> has_x a x \<Longrightarrow> get_x a x = acc_default a"
    using nth k(5,8) set bit by (simp_all add: object_ok_def message_of_def has_field_def get_x_def)
qed

lemma write_message:
  assumes "holds_field sch a x" and "val_ok (acc_type a) v"
  shows "object_ok sch (assign (acc_member a) v (set_has_x a x))"
    and "message_of sch (assign (acc_member a) v (set_has_x a x)) = set_field (acc_member a) v (message_of sch x)"
proof -
  let ?y = "assign (acc_member a) v (set_has_x a x)"
  from assms(1) obtain k where k: "k < length sch" "k < 32" "sch ! k = (acc_member a, acc_type a)" "is_singular (acc_type a)"
    "acc_set_has a = 2 ^ k" "good_schema sch" "object_ok sch x"
    by (rule holdsE)
  have bit: "bit (has_bits ?y) j \<longleftrightarrow> j = k \<or> bit (has_bits x) j" for j
    using k(2,5) by (auto simp: assign_def set_has_x_def bit_or_iff bit_exp_iff)
  note y = field_update [OF k(6,7,1,3), of ?y]
  have "set_val k (acc_member a, acc_type a) ?y = Some v"
    using singular_is_set [OF k(4)] bit by (simp add: set_val_def) (simp add: assign_def)
  then show "object_ok sch ?y" "message_of sch ?y = set_field (acc_member a) v (message_of sch x)"
    using y assms(2) bit singular_is_set [OF k(4)]
    by (simp_all add: set_field_def) (simp_all add: assign_def set_has_x_def)
qed

lemma erase_message:
  assumes "holds_field sch a x"
  shows "object_ok sch (assign (acc_member a) (acc_default a) (clear_has_x a x))"
    and "message_of sch (assign (acc_member a) (acc_default a) (clear_has_x a x)) = clear_field (acc_member a) (message_of sch x)"
proof -
  let ?y = "assign (acc_member a) (acc_default a) (clear_has_x a x)"
  from assms obtain k where k: "k < length sch" "k < 32" "sch ! k = (acc_member a, acc_type a)" "is_singular (acc_type a)"
    "acc_default a = default_val (acc_type a)" "acc_clear_has a = 2 ^ k" "good_schema sch" "object_ok sch x"
    by (rule holdsE)
  have bit: "bit (has_bits ?y) j \<longleftrightarrow> j \<noteq> k \<and> bit (has_bits x) j" for j
    using k(2,6) bit_imp_le_length [of "has_bits x" j]
    by (auto simp: assign_def clear_has_x_def bit_and_iff bit_not_iff bit_exp_iff)
  note y = field_update [OF k(7,8,1,3), of ?y]
  have "set_val k (acc_member a, acc_type a) ?y = None"
    using singular_is_set [OF k(4)] bit by (simp add: set_val_def)
  moreover have "val_ok (acc_type a) (acc_default a)"
    by (rule holds_default [OF assms])
  ultimately show "object_ok sch ?y" "message_of sch ?y = clear_field (acc_member a) (message_of sch x)"
    using y bit singular_is_set [OF k(4)] k(5)
    by (simp_all add: clear_field_def) (simp_all add: assign_def clear_has_x_def)
qed

text \<open>The accessors of the header, one by one.\<close>

lemma set_x_message:
  assumes "holds_field sch a x" and "val_ok (acc_type a) v"
  shows "\<exists>y. set_x a v x = Inr y \<and> object_ok sch y \<and> message_of sch y = set_field (acc_member a) v (message_of sch x)"
proof -
  have "set_x a v x = Inr (assign (acc_member a) v (set_has_x a x))"
    using assms(2) by (cases "acc_type a"; cases v) (simp_all add: set_x_def)
  then show ?thesis using write_message [OF assms] by simp
qed

lemma set_x_wrong_enum:
  "acc_type a = PB_enum cases \<Longrightarrow> sint w \<notin> set cases \<Longrightarrow> set_x a (Enum w) x = Inl AssertFailed"
  by (simp add: set_x_def)

lemma clear_x_message:
  assumes "holds_field sch a x"
  shows "object_ok sch (clear_x a x)" and "message_of sch (clear_x a x) = clear_field (acc_member a) (message_of sch x)"
proof -
  have "clear_x a x = assign (acc_member a) (acc_default a) (clear_has_x a x)"
    by (simp add: clear_x_def clear_has_x_def assign_def)
  then show "object_ok sch (clear_x a x)" "message_of sch (clear_x a x) = clear_field (acc_member a) (message_of sch x)"
    using erase_message [OF assms] by simp_all
qed

lemma set_x_chars_eq:
  "set_x_chars a value x = (if 0 \<in> set value then set_x a (Str (c_str value)) x else Inl OutOfBounds)"
proof -
  have "take (length (c_str value)) value = c_str value"
    unfolding c_str_def by (metis takeWhile_eq_take)
  then show ?thesis by (simp add: set_x_chars_def c_strlen_def)
qed

lemma set_x_sized_eq:
  "set_x_sized a value n x = (if n \<le> length value then set_x a (Str (take n value)) x else Inl OutOfBounds)"
  by (simp add: set_x_sized_def memcpy_from_def)

lemma string_accessors:
  assumes "holds_field sch a x" and "acc_type a = PB_string"
  shows "object_ok sch (mutable_x a write x)"
    and "message_of sch (mutable_x a write x) =
      set_field (acc_member a) (Str (write (as_string (get_x a x)))) (message_of sch x)"
    and "allocated \<or> get_x a x = Str [] \<Longrightarrow> object_ok sch (snd (release_x allocated a x))"
    and "allocated \<or> get_x a x = Str [] \<Longrightarrow>
      message_of sch (snd (release_x allocated a x)) = clear_field (acc_member a) (message_of sch x)"
    and "fst (release_x True a x) = Some (as_string (get_x a x))"
    and "object_ok sch (set_allocated_x a value x)"
    and "message_of sch (set_allocated_x a value x) =
      (case value of None \<Rightarrow> clear_field (acc_member a) (message_of sch x)
       | Some s \<Rightarrow> set_field (acc_member a) (Str s) (message_of sch x))"
proof -
  have default: "acc_default a = Str []"
    using assms by (auto simp: holds_field_def accessor_ok_def)
  note w = write_message [OF assms(1)] and e = erase_message [OF assms(1), unfolded default]
  show "object_ok sch (mutable_x a write x)" "message_of sch (mutable_x a write x) =
      set_field (acc_member a) (Str (write (as_string (get_x a x)))) (message_of sch x)"
    using w assms(2) by (simp_all add: mutable_x_def Let_def get_x_def set_has_x_def)
  have "snd (release_x allocated a x) = assign (acc_member a) (Str []) (clear_has_x a x)"
    if "allocated \<or> get_x a x = Str []"
    using that by (auto simp: release_x_def Let_def get_x_def clear_has_x_def assign_def fun_upd_idem)
  then show "allocated \<or> get_x a x = Str [] \<Longrightarrow> object_ok sch (snd (release_x allocated a x))"
    "allocated \<or> get_x a x = Str [] \<Longrightarrow>
      message_of sch (snd (release_x allocated a x)) = clear_field (acc_member a) (message_of sch x)"
    using e by simp_all
  show "fst (release_x True a x) = Some (as_string (get_x a x))"
    by (simp add: release_x_def Let_def get_x_def clear_has_x_def)
  show "object_ok sch (set_allocated_x a value x)" "message_of sch (set_allocated_x a value x) =
      (case value of None \<Rightarrow> clear_field (acc_member a) (message_of sch x)
       | Some s \<Rightarrow> set_field (acc_member a) (Str s) (message_of sch x))"
    using w e assms(2) by (simp_all add: set_allocated_x_def split: option.split)
qed

subsection \<open>Repeated fields\<close>

definition holds_repeated :: "pb_schema \<Rightarrow> nat \<times> pb_type \<Rightarrow> pb_object \<Rightarrow> bool" where
  "holds_repeated sch f x \<longleftrightarrow> good_schema sch \<and> length sch \<le> 32 \<and> object_ok sch x \<and> f \<in> set sch"

lemma repeated_member:
  assumes "holds_repeated sch (n, t) x"
  shows "member x n = (case pb_fields (message_of sch x) n of Some v \<Rightarrow> v | None \<Rightarrow> default_val t)"
    and "val_ok t (member x n)"
proof -
  have x: "object_ok sch x" "good_schema sch" "(n, t) \<in> set sch" using assms by (simp_all add: holds_repeated_def)
  then show "member x n = (case pb_fields (message_of sch x) n of Some v \<Rightarrow> v | None \<Rightarrow> default_val t)"
    by (rule getter_value)
  obtain k where "k < length sch" "sch ! k = (n, t)" using x(3) by (auto simp: in_set_conv_nth)
  then show "val_ok t (member x n)"
    using fields_nth [of 0 sch x k n t] x(1) good_schema_distinct [OF x(2)] by (simp add: object_ok_def)
qed

lemma repeated_write:
  assumes "holds_repeated sch (n, t) x" and "\<not> is_singular t" and "val_ok t v"
  shows "object_ok sch (assign n v x)"
    and "message_of sch (assign n v x) =
      (if v = default_val t then clear_field n (message_of sch x) else set_field n v (message_of sch x))"
proof -
  obtain k where k: "k < length sch" "sch ! k = (n, t)" "good_schema sch" "object_ok sch x"
    using assms(1) by (auto simp: holds_repeated_def in_set_conv_nth)
  note y = field_update [OF k(3,4,1,2), of "assign n v x"]
  have set: "is_set k (n, t) (assign n v x) \<longleftrightarrow> v \<noteq> default_val t"
    using assms(2) by (cases t) (simp_all add: assign_def)
  have mem: "member (assign n v x) n = v" by (simp add: assign_def)
  show "object_ok sch (assign n v x)"
    by (rule y(1)) (use assms(3) set mem in \<open>simp_all add: assign_def\<close>)
  have "message_of sch (assign n v x) =
      Msg ((pb_fields (message_of sch x))(n := set_val k (n, t) (assign n v x))) (pb_unknown (message_of sch x))"
    by (rule y(2)) (use assms(3) set mem in \<open>simp_all add: assign_def\<close>)
  then show "message_of sch (assign n v x) =
      (if v = default_val t then clear_field n (message_of sch x) else set_field n v (message_of sch x))"
    by (simp add: set_val_def set mem clear_field_def set_field_def)
qed

lemma packed_accessors:
  assumes "holds_repeated sch (n, PB_packed_uint32) x"
  defines "ws \<equiv> get_packed n (message_of sch x)"
  shows "packed_len n x = length ws"
    and "get_packed_at n i x = (if i < length ws then Inr (ws ! i) else Inl OutOfBounds)"
    and "i < length ws \<Longrightarrow> \<exists>y. set_packed_at n i w x = Inr y \<and> object_ok sch y
      \<and> message_of sch y = set_field n (Packed (ws[i := w])) (message_of sch x)"
    and "\<not> i < length ws \<Longrightarrow> set_packed_at n i w x = Inl OutOfBounds"
    and "object_ok sch (add_packed_x n w x)" and "message_of sch (add_packed_x n w x) = add_packed n [w] (message_of sch x)"
    and "object_ok sch (clear_packed_x n x)" and "message_of sch (clear_packed_x n x) = clear_field n (message_of sch x)"
proof -
  have m: "member x n = Packed ws"
    using repeated_member [OF assms(1)]
    by (cases "member x n"; cases "pb_fields (message_of sch x) n") (simp_all add: get_packed_def ws_def)
  note w = repeated_write [OF assms(1), of "Packed _"]
  show "packed_len n x = length ws"
    and "get_packed_at n i x = (if i < length ws then Inr (ws ! i) else Inl OutOfBounds)"
    and "\<not> i < length ws \<Longrightarrow> set_packed_at n i w x = Inl OutOfBounds"
    by (simp_all add: packed_len_def get_packed_at_def set_packed_at_def m)
  show "i < length ws \<Longrightarrow> \<exists>y. set_packed_at n i w x = Inr y \<and> object_ok sch y
      \<and> message_of sch y = set_field n (Packed (ws[i := w])) (message_of sch x)"
    using w by (auto simp: set_packed_at_def packed_len_def m)
  show "object_ok sch (add_packed_x n w x)" "message_of sch (add_packed_x n w x) = add_packed n [w] (message_of sch x)"
    using w by (simp_all add: add_packed_x_def m add_packed_def set_field_def ws_def)
  show "object_ok sch (clear_packed_x n x)" "message_of sch (clear_packed_x n x) = clear_field n (message_of sch x)"
    using w by (simp_all add: clear_packed_x_def)
qed

lemma message_accessors:
  assumes "holds_repeated sch (n, PB_message sub) x"
  defines "ms \<equiv> get_messages n (message_of sch x)"
  shows "messages_len n x = length ms"
    and "get_message_at n i x = (if i < length ms then Inr (ms ! i) else Inl OutOfBounds)"
    and "i < length ms \<Longrightarrow> \<exists>y. mutable_message_at n i write x = Inr y \<and> object_ok sch y
      \<and> message_of sch y = set_field n (Messages (ms[i := write (ms ! i)])) (message_of sch x)"
    and "\<not> i < length ms \<Longrightarrow> mutable_message_at n i write x = Inl OutOfBounds"
    and "object_ok sch (add_message_x n write x)"
    and "message_of sch (add_message_x n write x) = add_message n (write pb_new) (message_of sch x)"
    and "object_ok sch (clear_messages_x n x)" and "message_of sch (clear_messages_x n x) = clear_field n (message_of sch x)"
proof -
  have m: "member x n = Messages ms"
    using repeated_member [OF assms(1)]
    by (cases "member x n"; cases "pb_fields (message_of sch x) n") (simp_all add: get_messages_def ms_def)
  note w = repeated_write [OF assms(1), of "Messages _"]
  show "messages_len n x = length ms"
    and "get_message_at n i x = (if i < length ms then Inr (ms ! i) else Inl OutOfBounds)"
    and "\<not> i < length ms \<Longrightarrow> mutable_message_at n i write x = Inl OutOfBounds"
    by (simp_all add: messages_len_def get_message_at_def mutable_message_at_def m)
  show "i < length ms \<Longrightarrow> \<exists>y. mutable_message_at n i write x = Inr y \<and> object_ok sch y
      \<and> message_of sch y = set_field n (Messages (ms[i := write (ms ! i)])) (message_of sch x)"
    using w by (auto simp: mutable_message_at_def messages_len_def m)
  show "object_ok sch (add_message_x n write x)"
    "message_of sch (add_message_x n write x) = add_message n (write pb_new) (message_of sch x)"
    using w by (simp_all add: add_message_x_def m add_message_def set_field_def ms_def)
  show "object_ok sch (clear_messages_x n x)" "message_of sch (clear_messages_x n x) = clear_field n (message_of sch x)"
    using w by (simp_all add: clear_messages_x_def)
qed

lemma holds_optional:
  assumes "accessors_ok 0 sch accs" and "Optional a \<in> set accs"
    and "good_schema sch" and "length sch \<le> 32" and "enums_ok sch" and "object_ok sch x"
  shows "holds_field sch a x"
  using accessors_nth [OF assms(1,2)] assms(3-) by (auto simp: holds_field_def)

lemma holds_repeated_uint32:
  assumes "accessors_ok 0 sch accs" and "Repeated_uint32 n \<in> set accs"
    and "good_schema sch" and "length sch \<le> 32" and "object_ok sch x"
  shows "holds_repeated sch (n, PB_packed_uint32) x"
  using accessors_nth [OF assms(1,2)] assms(3-) nth_mem by (fastforce simp: holds_repeated_def)

lemma holds_repeated_message:
  assumes "accessors_ok 0 sch accs" and "Repeated_message n \<in> set accs"
    and "good_schema sch" and "length sch \<le> 32" and "object_ok sch x"
  shows "\<exists>sub. holds_repeated sch (n, PB_message sub) x"
proof -
  obtain k where k: "k < length sch" "fst (sch ! k) = n" "sub_schema (snd (sch ! k)) \<noteq> None"
    using accessors_nth [OF assms(1,2)] by auto
  then obtain sub where "sch ! k = (n, PB_message sub)"
    by (cases "sch ! k"; cases "snd (sch ! k)") auto
  then have "(n, PB_message sub) \<in> set sch" using k(1) nth_mem by metis
  then show ?thesis using assms(3-) by (auto simp: holds_repeated_def)
qed

subsection \<open>The contract of a class with its accessors\<close>

locale accessor_class = message_class +
  fixes accs :: "field_accessors list"
  assumes accessors: "accessors_ok 0 sch accs"
begin

lemma optional_holds: "Optional a \<in> set accs \<Longrightarrow> object_ok sch x \<Longrightarrow> holds_field sch a x"
  using holds_optional [OF accessors] good by blast

lemma uint32s_hold: "Repeated_uint32 n \<in> set accs \<Longrightarrow> object_ok sch x \<Longrightarrow> holds_repeated sch (n, PB_packed_uint32) x"
  using holds_repeated_uint32 [OF accessors] good by blast

lemma messages_hold:
  "Repeated_message n \<in> set accs \<Longrightarrow> object_ok sch x \<Longrightarrow> \<exists>sub. holds_repeated sch (n, PB_message sub) x"
  using holds_repeated_message [OF accessors] good by blast

text \<open>A field is not set in a new object, and it is set, with the value, once it has been written.\<close>

lemma new_object_unset: "Optional a \<in> set accs \<Longrightarrow> \<not> has_x a (ctor raw) \<and> get_x a (ctor raw) = acc_default a"
  using has_get_message [OF optional_holds [OF _ ctor_message(1)]] ctor_message(2)
  by (simp add: has_field_def)

lemma set_get:
  assumes "Optional a \<in> set accs" and "object_ok sch x" and "set_x a v x = Inr y" and "val_ok (acc_type a) v"
  shows "has_x a y \<and> get_x a y = v"
proof -
  have y: "object_ok sch y" "message_of sch y = set_field (acc_member a) v (message_of sch x)"
    using set_x_message [OF optional_holds [OF assms(1,2)] assms(4)] assms(3) by auto
  then show ?thesis
    using has_get_message(1,2) [OF optional_holds [OF assms(1) y(1)]] by (simp add: has_field_def set_field_def)
qed

end

end
