(* ===== verification/NetAccess.thy ===== *)
theory NetAccess
  imports NetClasses PbAccess
begin

text \<open>
  The accessors of the message classes of src/Server/protobuf/NetMessage.pb.h: for each class, in the order of
  its fields, the member, the type, the masks in \<open>has_x\<close>, \<open>set_has_x\<close> and \<open>clear_has_x\<close>, and the value that
  \<open>clear_x\<close> stores; and the proof that they fit the schema of the class.
\<close>

subsection \<open>The classes\<close>

definition CNetHead_accessors :: "field_accessors list" where
  "CNetHead_accessors =
     [optional 1 PB_uint32 0x1 0x1 0x1 (UInt32 0), optional 2 PB_uint32 0x2 0x2 0x2 (UInt32 0),
      optional 3 PB_string 0x4 0x4 0x4 (Str [])]"

definition CRequestLogin_accessors :: "field_accessors list" where
  "CRequestLogin_accessors =
     [optional 1 PB_string 0x1 0x1 0x1 (Str []), optional 2 PB_string 0x2 0x2 0x2 (Str []),
      optional 3 PB_string 0x4 0x4 0x4 (Str []), optional 4 PB_string 0x8 0x8 0x8 (Str []),
      optional 5 PB_bool 0x10 0x10 0x10 (Bool False)]"

definition CRequestLoginRet_accessors :: "field_accessors list" where
  "CRequestLoginRet_accessors =
     [optional 1 PB_string 0x1 0x1 0x1 (Str []), optional 2 PB_string 0x2 0x2 0x2 (Str []),
      optional 3 PB_int32 0x4 0x4 0x4 (Int32 0)]"

definition CRequestPing_accessors :: "field_accessors list" where
  "CRequestPing_accessors =
     []"

definition CGSNotifyRoleBaseInfo_accessors :: "field_accessors list" where
  "CGSNotifyRoleBaseInfo_accessors =
     [optional 1 PB_uint32 0x1 0x1 0x1 (UInt32 0), optional 2 PB_string 0x2 0x2 0x2 (Str []),
      optional 3 PB_int32 0x4 0x4 0x4 (Int32 0), optional 4 PB_bool 0x8 0x8 0x8 (Bool False),
      optional 5 PB_uint32 0x10 0x10 0x10 (UInt32 0),
      optional 6 PB_uint32 0x20 0x20 0x20 (UInt32 0),
      optional 7 PB_uint32 0x40 0x40 0x40 (UInt32 0),
      optional 8 PB_uint32 0x80 0x80 0x80 (UInt32 0),
      optional 9 PB_uint32 0x100 0x100 0x100 (UInt32 0),
      optional 10 PB_uint32 0x200 0x200 0x200 (UInt32 0),
      optional 11 PB_uint32 0x400 0x400 0x400 (UInt32 0),
      optional 12 PB_uint32 0x800 0x800 0x800 (UInt32 0),
      optional 13 PB_uint32 0x1000 0x1000 0x1000 (UInt32 0),
      optional 14 PB_uint32 0x2000 0x2000 0x2000 (UInt32 0),
      optional 15 PB_uint32 0x4000 0x4000 0x4000 (UInt32 0),
      optional 16 PB_uint32 0x8000 0x8000 0x8000 (UInt32 0),
      optional 17 PB_uint32 0x10000 0x10000 0x10000 (UInt32 0),
      optional 18 PB_uint32 0x20000 0x20000 0x20000 (UInt32 0),
      optional 19 PB_uint32 0x40000 0x40000 0x40000 (UInt32 0),
      optional 20 PB_uint32 0x80000 0x80000 0x80000 (UInt32 0),
      optional 21 PB_uint32 0x100000 0x100000 0x100000 (UInt32 0),
      optional 22 PB_uint32 0x200000 0x200000 0x200000 (UInt32 0)]"

definition CGCAskSelectRole_accessors :: "field_accessors list" where
  "CGCAskSelectRole_accessors =
     [optional 1 PB_string 0x1 0x1 0x1 (Str [])]"

definition CNetErrorMessage_accessors :: "field_accessors list" where
  "CNetErrorMessage_accessors =
     [optional 1 PB_uint32 0x1 0x1 0x1 (UInt32 0), optional 2 PB_uint32 0x2 0x2 0x2 (UInt32 0),
      optional 3 PB_int32 0x4 0x4 0x4 (Int32 0), optional 4 PB_string 0x8 0x8 0x8 (Str [])]"

definition CGSNotifyService_accessors :: "field_accessors list" where
  "CGSNotifyService_accessors =
     [optional 1 (PB_enum PostType) 0x1 0x1 0x1 (Enum 0),
      optional 2 PB_uint32 0x2 0x2 0x2 (UInt32 0), optional 3 PB_string 0x4 0x4 0x4 (Str []),
      optional 4 PB_string 0x8 0x8 0x8 (Str []), optional 5 PB_string 0x10 0x10 0x10 (Str []),
      optional 6 PB_string 0x20 0x20 0x20 (Str [])]"

definition CGSNotifyChangeScene_accessors :: "field_accessors list" where
  "CGSNotifyChangeScene_accessors =
     [optional 1 PB_uint32 0x1 0x1 0x1 (UInt32 0), optional 2 PB_uint32 0x2 0x2 0x2 (UInt32 0),
      optional 3 PB_uint32 0x4 0x4 0x4 (UInt32 0), optional 4 PB_float 0x8 0x8 0x8 (Float 0),
      optional 5 PB_float 0x10 0x10 0x10 (Float 0), optional 6 PB_float 0x20 0x20 0x20 (Float 0)]"

definition CGSNotifyRoleAppear_accessors :: "field_accessors list" where
  "CGSNotifyRoleAppear_accessors =
     [optional 1 PB_uint32 0x1 0x1 0x1 (UInt32 0), optional 2 PB_string 0x2 0x2 0x2 (Str []),
      optional 3 PB_int32 0x4 0x4 0x4 (Int32 0), optional 4 PB_bool 0x8 0x8 0x8 (Bool False),
      optional 5 PB_uint32 0x10 0x10 0x10 (UInt32 0),
      optional 6 PB_uint32 0x20 0x20 0x20 (UInt32 0),
      optional 7 PB_uint32 0x40 0x40 0x40 (UInt32 0),
      optional 8 PB_float 0x80 0x80 0x80 (Float 0),
      optional 9 PB_float 0x100 0x100 0x100 (Float 0),
      optional 10 PB_float 0x200 0x200 0x200 (Float 0),
      optional 11 PB_float 0x400 0x400 0x400 (Float 0),
      optional 12 PB_float 0x800 0x800 0x800 (Float 0),
      optional 13 PB_float 0x1000 0x1000 0x1000 (Float 0),
      optional 14 PB_float 0x2000 0x2000 0x2000 (Float 0),
      optional 15 PB_uint32 0x4000 0x4000 0x4000 (UInt32 0),
      optional 16 PB_uint32 0x8000 0x8000 0x8000 (UInt32 0),
      optional 17 PB_uint32 0x10000 0x10000 0x10000 (UInt32 0),
      optional 18 PB_uint32 0x20000 0x20000 0x20000 (UInt32 0),
      optional 19 PB_uint32 0x40000 0x40000 0x40000 (UInt32 0)]"

definition CGSObjectDisappear_accessors :: "field_accessors list" where
  "CGSObjectDisappear_accessors =
     [optional 1 PB_uint32 0x1 0x1 0x1 (UInt32 0), Repeated_uint32 2]"

definition CGCAskLogout_accessors :: "field_accessors list" where
  "CGCAskLogout_accessors =
     []"

definition CGSObjectMove_accessors :: "field_accessors list" where
  "CGSObjectMove_accessors =
     [optional 1 PB_uint32 0x1 0x1 0x1 (UInt32 0), optional 2 PB_float 0x2 0x2 0x2 (Float 0),
      optional 3 PB_float 0x4 0x4 0x4 (Float 0), optional 4 PB_float 0x8 0x8 0x8 (Float 0),
      optional 5 PB_float 0x10 0x10 0x10 (Float 0), optional 6 PB_float 0x20 0x20 0x20 (Float 0),
      optional 7 PB_float 0x40 0x40 0x40 (Float 0), optional 8 PB_float 0x80 0x80 0x80 (Float 0)]"

definition CGCAskMove_accessors :: "field_accessors list" where
  "CGCAskMove_accessors =
     [optional 1 PB_uint32 0x1 0x1 0x1 (UInt32 0), optional 2 PB_float 0x2 0x2 0x2 (Float 0),
      optional 3 PB_float 0x4 0x4 0x4 (Float 0), optional 4 PB_float 0x8 0x8 0x8 (Float 0),
      optional 5 PB_uint32 0x10 0x10 0x10 (UInt32 0),
      optional 6 PB_float 0x20 0x20 0x20 (Float 0), optional 7 PB_float 0x40 0x40 0x40 (Float 0),
      optional 8 PB_float 0x80 0x80 0x80 (Float 0)]"

definition CGSNotifyRoleProfileChange_accessors :: "field_accessors list" where
  "CGSNotifyRoleProfileChange_accessors =
     [optional 1 PB_uint32 0x1 0x1 0x1 (UInt32 0), optional 2 PB_uint32 0x2 0x2 0x2 (UInt32 0),
      optional 3 PB_uint32 0x4 0x4 0x4 (UInt32 0), optional 4 PB_uint32 0x8 0x8 0x8 (UInt32 0)]"

definition CGCReportPassGate_accessors :: "field_accessors list" where
  "CGCReportPassGate_accessors =
     [optional 1 PB_uint32 0x1 0x1 0x1 (UInt32 0), optional 2 PB_uint32 0x2 0x2 0x2 (UInt32 0),
      optional 3 PB_uint32 0x4 0x4 0x4 (UInt32 0), optional 4 PB_uint32 0x8 0x8 0x8 (UInt32 0),
      optional 5 PB_uint32 0x10 0x10 0x10 (UInt32 0),
      optional 6 PB_uint32 0x20 0x20 0x20 (UInt32 0),
      optional 7 PB_uint32 0x40 0x40 0x40 (UInt32 0),
      optional 8 PB_bool 0x80 0x80 0x80 (Bool False)]"

definition CGCAskTreasureBoxDropGoods_accessors :: "field_accessors list" where
  "CGCAskTreasureBoxDropGoods_accessors =
     [optional 1 PB_uint32 0x1 0x1 0x1 (UInt32 0), optional 2 PB_bool 0x2 0x2 0x2 (Bool False)]"

definition CGCAskEnterScene_accessors :: "field_accessors list" where
  "CGCAskEnterScene_accessors =
     [optional 1 PB_int32 0x1 0x1 0x1 (Int32 0), optional 2 PB_int32 0x2 0x2 0x2 (Int32 0),
      optional 3 PB_bool 0x4 0x4 0x4 (Bool False), optional 4 PB_uint32 0x8 0x8 0x8 (UInt32 0),
      optional 5 PB_uint32 0x10 0x10 0x10 (UInt32 0),
      optional 6 PB_uint32 0x20 0x20 0x20 (UInt32 0),
      optional 7 PB_uint32 0x40 0x40 0x40 (UInt32 0)]"

definition CGSNotifyRoleMapScheduleList_accessors :: "field_accessors list" where
  "CGSNotifyRoleMapScheduleList_accessors =
     [optional 1 PB_uint32 0x1 0x1 0x1 (UInt32 0), optional 2 PB_uint32 0x2 0x2 0x2 (UInt32 0)]"

definition CGSNotifyRoleFightProperty_accessors :: "field_accessors list" where
  "CGSNotifyRoleFightProperty_accessors =
     []"

definition CGSNotifyAssetChange_accessors :: "field_accessors list" where
  "CGSNotifyAssetChange_accessors =
     []"

definition CGSNotifyLevelChange_accessors :: "field_accessors list" where
  "CGSNotifyLevelChange_accessors =
     []"

definition CGSNotifyExpChange_accessors :: "field_accessors list" where
  "CGSNotifyExpChange_accessors =
     []"

definition CGSNotifyCurProperty_accessors :: "field_accessors list" where
  "CGSNotifyCurProperty_accessors =
     []"

definition CGSNotifyDisplayGateIncome_accessors :: "field_accessors list" where
  "CGSNotifyDisplayGateIncome_accessors =
     []"

definition CGCAskRelive_accessors :: "field_accessors list" where
  "CGCAskRelive_accessors =
     [optional 1 PB_bool 0x1 0x1 0x1 (Bool False), optional 2 PB_bool 0x2 0x2 0x2 (Bool False),
      optional 3 PB_uint32 0x4 0x4 0x4 (UInt32 0)]"

definition CGCReportExp_accessors :: "field_accessors list" where
  "CGCReportExp_accessors =
     [optional 1 PB_uint32 0x1 0x1 0x1 (UInt32 0)]"

definition CGCReportUseSkill_accessors :: "field_accessors list" where
  "CGCReportUseSkill_accessors =
     [optional 1 PB_uint32 0x1 0x1 0x1 (UInt32 0), optional 2 PB_uint32 0x2 0x2 0x2 (UInt32 0),
      optional 3 PB_float 0x4 0x4 0x4 (Float 0), optional 4 PB_float 0x8 0x8 0x8 (Float 0),
      optional 5 PB_float 0x10 0x10 0x10 (Float 0), optional 6 PB_float 0x20 0x20 0x20 (Float 0),
      optional 7 PB_float 0x40 0x40 0x40 (Float 0), optional 8 PB_float 0x80 0x80 0x80 (Float 0)]"

definition CGSNotifySkillReleased_accessors :: "field_accessors list" where
  "CGSNotifySkillReleased_accessors =
     [optional 1 PB_uint32 0x1 0x1 0x1 (UInt32 0), optional 2 PB_uint32 0x2 0x2 0x2 (UInt32 0),
      optional 3 PB_float 0x4 0x4 0x4 (Float 0), optional 4 PB_float 0x8 0x8 0x8 (Float 0),
      optional 5 PB_float 0x10 0x10 0x10 (Float 0), optional 6 PB_float 0x20 0x20 0x20 (Float 0),
      optional 7 PB_float 0x40 0x40 0x40 (Float 0), optional 8 PB_float 0x80 0x80 0x80 (Float 0)]"

definition CGCReportOBjectAppear_accessors :: "field_accessors list" where
  "CGCReportOBjectAppear_accessors =
     [optional 1 PB_uint32 0x1 0x1 0x1 (UInt32 0), optional 2 PB_uint32 0x2 0x2 0x2 (UInt32 0),
      optional 3 PB_float 0x4 0x4 0x4 (Float 0), optional 4 PB_float 0x8 0x8 0x8 (Float 0),
      optional 5 PB_float 0x10 0x10 0x10 (Float 0), optional 6 PB_float 0x20 0x20 0x20 (Float 0),
      optional 7 PB_float 0x40 0x40 0x40 (Float 0), optional 8 PB_float 0x80 0x80 0x80 (Float 0)]"

definition CGSNotifyObjectAppear_accessors :: "field_accessors list" where
  "CGSNotifyObjectAppear_accessors =
     [optional 1 PB_uint32 0x1 0x1 0x1 (UInt32 0), optional 2 PB_uint32 0x2 0x2 0x2 (UInt32 0),
      optional 3 PB_float 0x4 0x4 0x4 (Float 0), optional 4 PB_float 0x8 0x8 0x8 (Float 0),
      optional 5 PB_float 0x10 0x10 0x10 (Float 0), optional 6 PB_float 0x20 0x20 0x20 (Float 0),
      optional 7 PB_float 0x40 0x40 0x40 (Float 0), optional 8 PB_float 0x80 0x80 0x80 (Float 0)]"

definition CGCReportOBjectDisappear_accessors :: "field_accessors list" where
  "CGCReportOBjectDisappear_accessors =
     [optional 1 PB_uint32 0x1 0x1 0x1 (UInt32 0), optional 2 PB_int32 0x2 0x2 0x2 (Int32 0)]"

definition CGSNotifyObjectDisappear_accessors :: "field_accessors list" where
  "CGSNotifyObjectDisappear_accessors =
     [optional 1 PB_uint32 0x1 0x1 0x1 (UInt32 0), optional 2 PB_int32 0x2 0x2 0x2 (Int32 0)]"

definition CGCReportObjectAction_accessors :: "field_accessors list" where
  "CGCReportObjectAction_accessors =
     [optional 1 PB_uint32 0x1 0x1 0x1 (UInt32 0), optional 2 PB_int32 0x2 0x2 0x2 (Int32 0),
      optional 3 PB_float 0x4 0x4 0x4 (Float 0), optional 4 PB_float 0x8 0x8 0x8 (Float 0),
      optional 5 PB_float 0x10 0x10 0x10 (Float 0), optional 6 PB_float 0x20 0x20 0x20 (Float 0),
      optional 7 PB_float 0x40 0x40 0x40 (Float 0), optional 8 PB_float 0x80 0x80 0x80 (Float 0)]"

definition CGSNotifyObjectAction_accessors :: "field_accessors list" where
  "CGSNotifyObjectAction_accessors =
     [optional 1 PB_uint32 0x1 0x1 0x1 (UInt32 0), optional 2 PB_int32 0x2 0x2 0x2 (Int32 0),
      optional 3 PB_float 0x4 0x4 0x4 (Float 0), optional 4 PB_float 0x8 0x8 0x8 (Float 0),
      optional 5 PB_float 0x10 0x10 0x10 (Float 0), optional 6 PB_float 0x20 0x20 0x20 (Float 0),
      optional 7 PB_float 0x40 0x40 0x40 (Float 0), optional 8 PB_float 0x80 0x80 0x80 (Float 0)]"

definition CGCReportObjectHurm_accessors :: "field_accessors list" where
  "CGCReportObjectHurm_accessors =
     [optional 1 PB_bool 0x1 0x1 0x1 (Bool False), optional 2 PB_uint32 0x2 0x2 0x2 (UInt32 0),
      optional 3 PB_int32 0x4 0x4 0x4 (Int32 0), optional 4 PB_int32 0x8 0x8 0x8 (Int32 0),
      optional 5 PB_int32 0x10 0x10 0x10 (Int32 0)]"

definition CGSNotifyObjectHurm_accessors :: "field_accessors list" where
  "CGSNotifyObjectHurm_accessors =
     [optional 1 PB_bool 0x1 0x1 0x1 (Bool False), optional 2 PB_uint32 0x2 0x2 0x2 (UInt32 0),
      optional 3 PB_int32 0x4 0x4 0x4 (Int32 0), optional 4 PB_int32 0x8 0x8 0x8 (Int32 0),
      optional 5 PB_int32 0x10 0x10 0x10 (Int32 0)]"

definition CGCAskEnterTowerInstance_accessors :: "field_accessors list" where
  "CGCAskEnterTowerInstance_accessors =
     [optional 1 PB_uint32 0x1 0x1 0x1 (UInt32 0), optional 2 PB_bool 0x2 0x2 0x2 (Bool False)]"

definition CGCReportTowerInstanceScore_accessors :: "field_accessors list" where
  "CGCReportTowerInstanceScore_accessors =
     [optional 1 PB_uint32 0x1 0x1 0x1 (UInt32 0)]"

definition CGCAskTowerInstanceRank_accessors :: "field_accessors list" where
  "CGCAskTowerInstanceRank_accessors =
     [optional 1 PB_int32 0x1 0x1 0x1 (Int32 0)]"

definition CGCAskTowerInstanceAward_accessors :: "field_accessors list" where
  "CGCAskTowerInstanceAward_accessors =
     [optional 1 PB_uint32 0x1 0x1 0x1 (UInt32 0), optional 2 PB_uint32 0x2 0x2 0x2 (UInt32 0)]"

definition MainInfo_accessors :: "field_accessors list" where
  "MainInfo_accessors =
     [optional 1 PB_uint32 0x1 0x1 0x1 (UInt32 0), optional 2 PB_string 0x2 0x2 0x2 (Str []),
      optional 3 PB_string 0x4 0x4 0x4 (Str []),
      optional 4 (PB_enum EmailState) 0x8 0x8 0x8 (Enum 0),
      optional 5 (PB_enum EmailState) 0x10 0x10 0x10 (Enum 0)]"

definition CGSNotifyEMailList_accessors :: "field_accessors list" where
  "CGSNotifyEMailList_accessors =
     [optional 1 PB_uint32 0x1 0x1 0x1 (UInt32 0), Repeated_message 2]"

definition GCAskReadEMail_accessors :: "field_accessors list" where
  "GCAskReadEMail_accessors =
     [optional 1 PB_uint32 0x1 0x1 0x1 (UInt32 0)]"

definition CGCAskGetEMailPrize_accessors :: "field_accessors list" where
  "CGCAskGetEMailPrize_accessors =
     [optional 1 PB_uint32 0x1 0x1 0x1 (UInt32 0)]"

definition CGCAskRemoveEMail_accessors :: "field_accessors list" where
  "CGCAskRemoveEMail_accessors =
     [optional 1 PB_uint32 0x1 0x1 0x1 (UInt32 0)]"

definition CGSNotifyRankList_accessors :: "field_accessors list" where
  "CGSNotifyRankList_accessors =
     [optional 1 PB_int32 0x1 0x1 0x1 (Int32 0), optional 2 PB_int32 0x2 0x2 0x2 (Int32 0),
      optional 3 PB_int32 0x4 0x4 0x4 (Int32 0), optional 4 PB_int32 0x8 0x8 0x8 (Int32 0)]"

definition CGCSendCreateRole_accessors :: "field_accessors list" where
  "CGCSendCreateRole_accessors =
     [optional 1 PB_uint32 0x1 0x1 0x1 (UInt32 0), optional 2 PB_bool 0x2 0x2 0x2 (Bool False),
      optional 3 PB_string 0x4 0x4 0x4 (Str []), optional 4 PB_bool 0x8 0x8 0x8 (Bool False)]"

definition CGCSendCreateRoleRet_accessors :: "field_accessors list" where
  "CGCSendCreateRoleRet_accessors =
     [optional 1 PB_int32 0x1 0x1 0x1 (Int32 0)]"

definition CGCAskRankList_accessors :: "field_accessors list" where
  "CGCAskRankList_accessors =
     [optional 1 PB_uint32 0x1 0x1 0x1 (UInt32 0)]"

definition CGCAsChargeIOS_accessors :: "field_accessors list" where
  "CGCAsChargeIOS_accessors =
     [optional 1 PB_bool 0x1 0x1 0x1 (Bool False), optional 2 PB_uint32 0x2 0x2 0x2 (UInt32 0),
      optional 3 PB_string 0x4 0x4 0x4 (Str [])]"

definition CGCNotifyChargeIOS_accessors :: "field_accessors list" where
  "CGCNotifyChargeIOS_accessors =
     [optional 1 PB_int32 0x1 0x1 0x1 (Int32 0), optional 2 PB_uint32 0x2 0x2 0x2 (UInt32 0),
      optional 3 PB_string 0x4 0x4 0x4 (Str [])]"

definition CGCReportProcuce_accessors :: "field_accessors list" where
  "CGCReportProcuce_accessors =
     [optional 1 PB_uint32 0x1 0x1 0x1 (UInt32 0), optional 2 PB_bool 0x2 0x2 0x2 (Bool False)]"

definition CGCAskChapterAward_accessors :: "field_accessors list" where
  "CGCAskChapterAward_accessors =
     [optional 1 PB_int32 0x1 0x1 0x1 (Int32 0), optional 2 PB_bool 0x2 0x2 0x2 (Bool False)]"

definition CGCAskMedalInfo_accessors :: "field_accessors list" where
  "CGCAskMedalInfo_accessors =
     []"

definition CGCAskMedalLevelUp_accessors :: "field_accessors list" where
  "CGCAskMedalLevelUp_accessors =
     []"

definition CGCAskAddFriend_accessors :: "field_accessors list" where
  "CGCAskAddFriend_accessors =
     [optional 1 (PB_enum CGCAskAddFriend_FriendSendType) 0x1 0x1 0x1 (Enum 0),
      optional 2 PB_string 0x2 0x2 0x2 (Str [])]"

definition CGCVipFriend_accessors :: "field_accessors list" where
  "CGCVipFriend_accessors =
     [optional 1 (PB_enum CGCVipFriend_FriendSendType) 0x1 0x1 0x1 (Enum 0)]"

definition CGCAskFriendRecord_accessors :: "field_accessors list" where
  "CGCAskFriendRecord_accessors =
     []"

definition CGCAskSelectPlayer_accessors :: "field_accessors list" where
  "CGCAskSelectPlayer_accessors =
     [optional 1 PB_string 0x1 0x1 0x1 (Str [])]"

definition CGCAskGuideComplate_accessors :: "field_accessors list" where
  "CGCAskGuideComplate_accessors =
     [optional 1 PB_uint32 0x1 0x1 0x1 (UInt32 0), optional 2 PB_bool 0x2 0x2 0x2 (Bool False)]"

subsection \<open>All of them fit\<close>

lemmas accessor_tables =
  CNetHead_accessors_def CRequestLogin_accessors_def CRequestLoginRet_accessors_def
  CRequestPing_accessors_def CGSNotifyRoleBaseInfo_accessors_def CGCAskSelectRole_accessors_def
  CNetErrorMessage_accessors_def CGSNotifyService_accessors_def CGSNotifyChangeScene_accessors_def
  CGSNotifyRoleAppear_accessors_def CGSObjectDisappear_accessors_def CGCAskLogout_accessors_def
  CGSObjectMove_accessors_def CGCAskMove_accessors_def CGSNotifyRoleProfileChange_accessors_def
  CGCReportPassGate_accessors_def CGCAskTreasureBoxDropGoods_accessors_def
  CGCAskEnterScene_accessors_def CGSNotifyRoleMapScheduleList_accessors_def
  CGSNotifyRoleFightProperty_accessors_def CGSNotifyAssetChange_accessors_def
  CGSNotifyLevelChange_accessors_def CGSNotifyExpChange_accessors_def
  CGSNotifyCurProperty_accessors_def CGSNotifyDisplayGateIncome_accessors_def
  CGCAskRelive_accessors_def CGCReportExp_accessors_def CGCReportUseSkill_accessors_def
  CGSNotifySkillReleased_accessors_def CGCReportOBjectAppear_accessors_def
  CGSNotifyObjectAppear_accessors_def CGCReportOBjectDisappear_accessors_def
  CGSNotifyObjectDisappear_accessors_def CGCReportObjectAction_accessors_def
  CGSNotifyObjectAction_accessors_def CGCReportObjectHurm_accessors_def
  CGSNotifyObjectHurm_accessors_def CGCAskEnterTowerInstance_accessors_def
  CGCReportTowerInstanceScore_accessors_def CGCAskTowerInstanceRank_accessors_def
  CGCAskTowerInstanceAward_accessors_def MainInfo_accessors_def CGSNotifyEMailList_accessors_def
  GCAskReadEMail_accessors_def CGCAskGetEMailPrize_accessors_def CGCAskRemoveEMail_accessors_def
  CGSNotifyRankList_accessors_def CGCSendCreateRole_accessors_def
  CGCSendCreateRoleRet_accessors_def CGCAskRankList_accessors_def CGCAsChargeIOS_accessors_def
  CGCNotifyChargeIOS_accessors_def CGCReportProcuce_accessors_def CGCAskChapterAward_accessors_def
  CGCAskMedalInfo_accessors_def CGCAskMedalLevelUp_accessors_def CGCAskAddFriend_accessors_def
  CGCVipFriend_accessors_def CGCAskFriendRecord_accessors_def CGCAskSelectPlayer_accessors_def
  CGCAskGuideComplate_accessors_def

definition net_accessors :: "(pb_class \<times> field_accessors list) list" where
  "net_accessors = zip net_classes
    [CNetHead_accessors, CRequestLogin_accessors, CRequestLoginRet_accessors,
     CRequestPing_accessors, CGSNotifyRoleBaseInfo_accessors, CGCAskSelectRole_accessors,
     CNetErrorMessage_accessors, CGSNotifyService_accessors, CGSNotifyChangeScene_accessors,
     CGSNotifyRoleAppear_accessors, CGSObjectDisappear_accessors, CGCAskLogout_accessors,
     CGSObjectMove_accessors, CGCAskMove_accessors, CGSNotifyRoleProfileChange_accessors,
     CGCReportPassGate_accessors, CGCAskTreasureBoxDropGoods_accessors,
     CGCAskEnterScene_accessors, CGSNotifyRoleMapScheduleList_accessors,
     CGSNotifyRoleFightProperty_accessors, CGSNotifyAssetChange_accessors,
     CGSNotifyLevelChange_accessors, CGSNotifyExpChange_accessors, CGSNotifyCurProperty_accessors,
     CGSNotifyDisplayGateIncome_accessors, CGCAskRelive_accessors, CGCReportExp_accessors,
     CGCReportUseSkill_accessors, CGSNotifySkillReleased_accessors,
     CGCReportOBjectAppear_accessors, CGSNotifyObjectAppear_accessors,
     CGCReportOBjectDisappear_accessors, CGSNotifyObjectDisappear_accessors,
     CGCReportObjectAction_accessors, CGSNotifyObjectAction_accessors,
     CGCReportObjectHurm_accessors, CGSNotifyObjectHurm_accessors,
     CGCAskEnterTowerInstance_accessors, CGCReportTowerInstanceScore_accessors,
     CGCAskTowerInstanceRank_accessors, CGCAskTowerInstanceAward_accessors, MainInfo_accessors,
     CGSNotifyEMailList_accessors, GCAskReadEMail_accessors, CGCAskGetEMailPrize_accessors,
     CGCAskRemoveEMail_accessors, CGSNotifyRankList_accessors, CGCSendCreateRole_accessors,
     CGCSendCreateRoleRet_accessors, CGCAskRankList_accessors, CGCAsChargeIOS_accessors,
     CGCNotifyChargeIOS_accessors, CGCReportProcuce_accessors, CGCAskChapterAward_accessors,
     CGCAskMedalInfo_accessors, CGCAskMedalLevelUp_accessors, CGCAskAddFriend_accessors,
     CGCVipFriend_accessors, CGCAskFriendRecord_accessors, CGCAskSelectPlayer_accessors,
     CGCAskGuideComplate_accessors]"

lemmas accessor_rules = optional_def accessor_ok_def net_schemas

lemma CNetHead_accessors_ok: "accessors_ok 0 CNetHead CNetHead_accessors"
  by (simp add: CNetHead_accessors_def accessor_rules)

lemma CRequestLogin_accessors_ok: "accessors_ok 0 CRequestLogin CRequestLogin_accessors"
  by (simp add: CRequestLogin_accessors_def accessor_rules)

lemma CRequestLoginRet_accessors_ok: "accessors_ok 0 CRequestLoginRet CRequestLoginRet_accessors"
  by (simp add: CRequestLoginRet_accessors_def accessor_rules)

lemma CRequestPing_accessors_ok: "accessors_ok 0 CRequestPing CRequestPing_accessors"
  by (simp add: CRequestPing_accessors_def accessor_rules)

lemma CGSNotifyRoleBaseInfo_accessors_ok: "accessors_ok 0 CGSNotifyRoleBaseInfo CGSNotifyRoleBaseInfo_accessors"
  by (simp add: CGSNotifyRoleBaseInfo_accessors_def accessor_rules)

lemma CGCAskSelectRole_accessors_ok: "accessors_ok 0 CGCAskSelectRole CGCAskSelectRole_accessors"
  by (simp add: CGCAskSelectRole_accessors_def accessor_rules)

lemma CNetErrorMessage_accessors_ok: "accessors_ok 0 CNetErrorMessage CNetErrorMessage_accessors"
  by (simp add: CNetErrorMessage_accessors_def accessor_rules)

lemma CGSNotifyService_accessors_ok: "accessors_ok 0 CGSNotifyService CGSNotifyService_accessors"
  by (simp add: CGSNotifyService_accessors_def accessor_rules)

lemma CGSNotifyChangeScene_accessors_ok: "accessors_ok 0 CGSNotifyChangeScene CGSNotifyChangeScene_accessors"
  by (simp add: CGSNotifyChangeScene_accessors_def accessor_rules)

lemma CGSNotifyRoleAppear_accessors_ok: "accessors_ok 0 CGSNotifyRoleAppear CGSNotifyRoleAppear_accessors"
  by (simp add: CGSNotifyRoleAppear_accessors_def accessor_rules)

lemma CGSObjectDisappear_accessors_ok: "accessors_ok 0 CGSObjectDisappear CGSObjectDisappear_accessors"
  by (simp add: CGSObjectDisappear_accessors_def accessor_rules)

lemma CGCAskLogout_accessors_ok: "accessors_ok 0 CGCAskLogout CGCAskLogout_accessors"
  by (simp add: CGCAskLogout_accessors_def accessor_rules)

lemma CGSObjectMove_accessors_ok: "accessors_ok 0 CGSObjectMove CGSObjectMove_accessors"
  by (simp add: CGSObjectMove_accessors_def accessor_rules)

lemma CGCAskMove_accessors_ok: "accessors_ok 0 CGCAskMove CGCAskMove_accessors"
  by (simp add: CGCAskMove_accessors_def accessor_rules)

lemma CGSNotifyRoleProfileChange_accessors_ok: "accessors_ok 0 CGSNotifyRoleProfileChange CGSNotifyRoleProfileChange_accessors"
  by (simp add: CGSNotifyRoleProfileChange_accessors_def accessor_rules)

lemma CGCReportPassGate_accessors_ok: "accessors_ok 0 CGCReportPassGate CGCReportPassGate_accessors"
  by (simp add: CGCReportPassGate_accessors_def accessor_rules)

lemma CGCAskTreasureBoxDropGoods_accessors_ok: "accessors_ok 0 CGCAskTreasureBoxDropGoods CGCAskTreasureBoxDropGoods_accessors"
  by (simp add: CGCAskTreasureBoxDropGoods_accessors_def accessor_rules)

lemma CGCAskEnterScene_accessors_ok: "accessors_ok 0 CGCAskEnterScene CGCAskEnterScene_accessors"
  by (simp add: CGCAskEnterScene_accessors_def accessor_rules)

lemma CGSNotifyRoleMapScheduleList_accessors_ok: "accessors_ok 0 CGSNotifyRoleMapScheduleList CGSNotifyRoleMapScheduleList_accessors"
  by (simp add: CGSNotifyRoleMapScheduleList_accessors_def accessor_rules)

lemma CGSNotifyRoleFightProperty_accessors_ok: "accessors_ok 0 CGSNotifyRoleFightProperty CGSNotifyRoleFightProperty_accessors"
  by (simp add: CGSNotifyRoleFightProperty_accessors_def accessor_rules)

lemma CGSNotifyAssetChange_accessors_ok: "accessors_ok 0 CGSNotifyAssetChange CGSNotifyAssetChange_accessors"
  by (simp add: CGSNotifyAssetChange_accessors_def accessor_rules)

lemma CGSNotifyLevelChange_accessors_ok: "accessors_ok 0 CGSNotifyLevelChange CGSNotifyLevelChange_accessors"
  by (simp add: CGSNotifyLevelChange_accessors_def accessor_rules)

lemma CGSNotifyExpChange_accessors_ok: "accessors_ok 0 CGSNotifyExpChange CGSNotifyExpChange_accessors"
  by (simp add: CGSNotifyExpChange_accessors_def accessor_rules)

lemma CGSNotifyCurProperty_accessors_ok: "accessors_ok 0 CGSNotifyCurProperty CGSNotifyCurProperty_accessors"
  by (simp add: CGSNotifyCurProperty_accessors_def accessor_rules)

lemma CGSNotifyDisplayGateIncome_accessors_ok: "accessors_ok 0 CGSNotifyDisplayGateIncome CGSNotifyDisplayGateIncome_accessors"
  by (simp add: CGSNotifyDisplayGateIncome_accessors_def accessor_rules)

lemma CGCAskRelive_accessors_ok: "accessors_ok 0 CGCAskRelive CGCAskRelive_accessors"
  by (simp add: CGCAskRelive_accessors_def accessor_rules)

lemma CGCReportExp_accessors_ok: "accessors_ok 0 CGCReportExp CGCReportExp_accessors"
  by (simp add: CGCReportExp_accessors_def accessor_rules)

lemma CGCReportUseSkill_accessors_ok: "accessors_ok 0 CGCReportUseSkill CGCReportUseSkill_accessors"
  by (simp add: CGCReportUseSkill_accessors_def accessor_rules)

lemma CGSNotifySkillReleased_accessors_ok: "accessors_ok 0 CGSNotifySkillReleased CGSNotifySkillReleased_accessors"
  by (simp add: CGSNotifySkillReleased_accessors_def accessor_rules)

lemma CGCReportOBjectAppear_accessors_ok: "accessors_ok 0 CGCReportOBjectAppear CGCReportOBjectAppear_accessors"
  by (simp add: CGCReportOBjectAppear_accessors_def accessor_rules)

lemma CGSNotifyObjectAppear_accessors_ok: "accessors_ok 0 CGSNotifyObjectAppear CGSNotifyObjectAppear_accessors"
  by (simp add: CGSNotifyObjectAppear_accessors_def accessor_rules)

lemma CGCReportOBjectDisappear_accessors_ok: "accessors_ok 0 CGCReportOBjectDisappear CGCReportOBjectDisappear_accessors"
  by (simp add: CGCReportOBjectDisappear_accessors_def accessor_rules)

lemma CGSNotifyObjectDisappear_accessors_ok: "accessors_ok 0 CGSNotifyObjectDisappear CGSNotifyObjectDisappear_accessors"
  by (simp add: CGSNotifyObjectDisappear_accessors_def accessor_rules)

lemma CGCReportObjectAction_accessors_ok: "accessors_ok 0 CGCReportObjectAction CGCReportObjectAction_accessors"
  by (simp add: CGCReportObjectAction_accessors_def accessor_rules)

lemma CGSNotifyObjectAction_accessors_ok: "accessors_ok 0 CGSNotifyObjectAction CGSNotifyObjectAction_accessors"
  by (simp add: CGSNotifyObjectAction_accessors_def accessor_rules)

lemma CGCReportObjectHurm_accessors_ok: "accessors_ok 0 CGCReportObjectHurm CGCReportObjectHurm_accessors"
  by (simp add: CGCReportObjectHurm_accessors_def accessor_rules)

lemma CGSNotifyObjectHurm_accessors_ok: "accessors_ok 0 CGSNotifyObjectHurm CGSNotifyObjectHurm_accessors"
  by (simp add: CGSNotifyObjectHurm_accessors_def accessor_rules)

lemma CGCAskEnterTowerInstance_accessors_ok: "accessors_ok 0 CGCAskEnterTowerInstance CGCAskEnterTowerInstance_accessors"
  by (simp add: CGCAskEnterTowerInstance_accessors_def accessor_rules)

lemma CGCReportTowerInstanceScore_accessors_ok: "accessors_ok 0 CGCReportTowerInstanceScore CGCReportTowerInstanceScore_accessors"
  by (simp add: CGCReportTowerInstanceScore_accessors_def accessor_rules)

lemma CGCAskTowerInstanceRank_accessors_ok: "accessors_ok 0 CGCAskTowerInstanceRank CGCAskTowerInstanceRank_accessors"
  by (simp add: CGCAskTowerInstanceRank_accessors_def accessor_rules)

lemma CGCAskTowerInstanceAward_accessors_ok: "accessors_ok 0 CGCAskTowerInstanceAward CGCAskTowerInstanceAward_accessors"
  by (simp add: CGCAskTowerInstanceAward_accessors_def accessor_rules)

lemma MainInfo_accessors_ok: "accessors_ok 0 MainInfo MainInfo_accessors"
  by (simp add: MainInfo_accessors_def accessor_rules)

lemma CGSNotifyEMailList_accessors_ok: "accessors_ok 0 CGSNotifyEMailList CGSNotifyEMailList_accessors"
  by (simp add: CGSNotifyEMailList_accessors_def accessor_rules)

lemma GCAskReadEMail_accessors_ok: "accessors_ok 0 GCAskReadEMail GCAskReadEMail_accessors"
  by (simp add: GCAskReadEMail_accessors_def accessor_rules)

lemma CGCAskGetEMailPrize_accessors_ok: "accessors_ok 0 CGCAskGetEMailPrize CGCAskGetEMailPrize_accessors"
  by (simp add: CGCAskGetEMailPrize_accessors_def accessor_rules)

lemma CGCAskRemoveEMail_accessors_ok: "accessors_ok 0 CGCAskRemoveEMail CGCAskRemoveEMail_accessors"
  by (simp add: CGCAskRemoveEMail_accessors_def accessor_rules)

lemma CGSNotifyRankList_accessors_ok: "accessors_ok 0 CGSNotifyRankList CGSNotifyRankList_accessors"
  by (simp add: CGSNotifyRankList_accessors_def accessor_rules)

lemma CGCSendCreateRole_accessors_ok: "accessors_ok 0 CGCSendCreateRole CGCSendCreateRole_accessors"
  by (simp add: CGCSendCreateRole_accessors_def accessor_rules)

lemma CGCSendCreateRoleRet_accessors_ok: "accessors_ok 0 CGCSendCreateRoleRet CGCSendCreateRoleRet_accessors"
  by (simp add: CGCSendCreateRoleRet_accessors_def accessor_rules)

lemma CGCAskRankList_accessors_ok: "accessors_ok 0 CGCAskRankList CGCAskRankList_accessors"
  by (simp add: CGCAskRankList_accessors_def accessor_rules)

lemma CGCAsChargeIOS_accessors_ok: "accessors_ok 0 CGCAsChargeIOS CGCAsChargeIOS_accessors"
  by (simp add: CGCAsChargeIOS_accessors_def accessor_rules)

lemma CGCNotifyChargeIOS_accessors_ok: "accessors_ok 0 CGCNotifyChargeIOS CGCNotifyChargeIOS_accessors"
  by (simp add: CGCNotifyChargeIOS_accessors_def accessor_rules)

lemma CGCReportProcuce_accessors_ok: "accessors_ok 0 CGCReportProcuce CGCReportProcuce_accessors"
  by (simp add: CGCReportProcuce_accessors_def accessor_rules)

lemma CGCAskChapterAward_accessors_ok: "accessors_ok 0 CGCAskChapterAward CGCAskChapterAward_accessors"
  by (simp add: CGCAskChapterAward_accessors_def accessor_rules)

lemma CGCAskMedalInfo_accessors_ok: "accessors_ok 0 CGCAskMedalInfo CGCAskMedalInfo_accessors"
  by (simp add: CGCAskMedalInfo_accessors_def accessor_rules)

lemma CGCAskMedalLevelUp_accessors_ok: "accessors_ok 0 CGCAskMedalLevelUp CGCAskMedalLevelUp_accessors"
  by (simp add: CGCAskMedalLevelUp_accessors_def accessor_rules)

lemma CGCAskAddFriend_accessors_ok: "accessors_ok 0 CGCAskAddFriend CGCAskAddFriend_accessors"
  by (simp add: CGCAskAddFriend_accessors_def accessor_rules)

lemma CGCVipFriend_accessors_ok: "accessors_ok 0 CGCVipFriend CGCVipFriend_accessors"
  by (simp add: CGCVipFriend_accessors_def accessor_rules)

lemma CGCAskFriendRecord_accessors_ok: "accessors_ok 0 CGCAskFriendRecord CGCAskFriendRecord_accessors"
  by (simp add: CGCAskFriendRecord_accessors_def accessor_rules)

lemma CGCAskSelectPlayer_accessors_ok: "accessors_ok 0 CGCAskSelectPlayer CGCAskSelectPlayer_accessors"
  by (simp add: CGCAskSelectPlayer_accessors_def accessor_rules)

lemma CGCAskGuideComplate_accessors_ok: "accessors_ok 0 CGCAskGuideComplate CGCAskGuideComplate_accessors"
  by (simp add: CGCAskGuideComplate_accessors_def accessor_rules)

lemma net_accessors_ok: "(c, accs) \<in> set net_accessors \<Longrightarrow> c \<in> set net_classes \<and> accessors_ok 0 (class_schema c) accs"
proof -
  have "list_all (\<lambda>(c, accs). accessors_ok 0 (class_schema c) accs) net_accessors"
    unfolding net_accessors_def net_classes_def zip_Cons_Cons zip_Nil list.pred_inject prod.case class_rows
    by (intro conjI list.pred_inject(1)
      CNetHead_accessors_ok CRequestLogin_accessors_ok CRequestLoginRet_accessors_ok
      CRequestPing_accessors_ok CGSNotifyRoleBaseInfo_accessors_ok CGCAskSelectRole_accessors_ok
      CNetErrorMessage_accessors_ok CGSNotifyService_accessors_ok
      CGSNotifyChangeScene_accessors_ok CGSNotifyRoleAppear_accessors_ok
      CGSObjectDisappear_accessors_ok CGCAskLogout_accessors_ok CGSObjectMove_accessors_ok
      CGCAskMove_accessors_ok CGSNotifyRoleProfileChange_accessors_ok
      CGCReportPassGate_accessors_ok CGCAskTreasureBoxDropGoods_accessors_ok
      CGCAskEnterScene_accessors_ok CGSNotifyRoleMapScheduleList_accessors_ok
      CGSNotifyRoleFightProperty_accessors_ok CGSNotifyAssetChange_accessors_ok
      CGSNotifyLevelChange_accessors_ok CGSNotifyExpChange_accessors_ok
      CGSNotifyCurProperty_accessors_ok CGSNotifyDisplayGateIncome_accessors_ok
      CGCAskRelive_accessors_ok CGCReportExp_accessors_ok CGCReportUseSkill_accessors_ok
      CGSNotifySkillReleased_accessors_ok CGCReportOBjectAppear_accessors_ok
      CGSNotifyObjectAppear_accessors_ok CGCReportOBjectDisappear_accessors_ok
      CGSNotifyObjectDisappear_accessors_ok CGCReportObjectAction_accessors_ok
      CGSNotifyObjectAction_accessors_ok CGCReportObjectHurm_accessors_ok
      CGSNotifyObjectHurm_accessors_ok CGCAskEnterTowerInstance_accessors_ok
      CGCReportTowerInstanceScore_accessors_ok CGCAskTowerInstanceRank_accessors_ok
      CGCAskTowerInstanceAward_accessors_ok MainInfo_accessors_ok CGSNotifyEMailList_accessors_ok
      GCAskReadEMail_accessors_ok CGCAskGetEMailPrize_accessors_ok CGCAskRemoveEMail_accessors_ok
      CGSNotifyRankList_accessors_ok CGCSendCreateRole_accessors_ok
      CGCSendCreateRoleRet_accessors_ok CGCAskRankList_accessors_ok CGCAsChargeIOS_accessors_ok
      CGCNotifyChargeIOS_accessors_ok CGCReportProcuce_accessors_ok
      CGCAskChapterAward_accessors_ok CGCAskMedalInfo_accessors_ok CGCAskMedalLevelUp_accessors_ok
      CGCAskAddFriend_accessors_ok CGCVipFriend_accessors_ok CGCAskFriendRecord_accessors_ok
      CGCAskSelectPlayer_accessors_ok CGCAskGuideComplate_accessors_ok)
  then show "(c, accs) \<in> set net_accessors \<Longrightarrow> c \<in> set net_classes \<and> accessors_ok 0 (class_schema c) accs"
    by (auto simp: list_all_iff net_accessors_def dest: set_zip_leftD)
qed

lemma net_accessor_class:
  assumes "(c, accs) \<in> set net_accessors"
  shows "accessor_class (class_schema c) (class_ctor c) (class_clear c) (class_merge c) (class_size c)
    (class_bytes c) (class_swap c) accs"
  using net_accessors_ok [OF assms] net_classes_ok
  by (auto simp: is_class_def accessor_class_def accessor_class_axioms_def)

lemma accessors_in_list:
  "(pb_class_of CRequestLogin 127 CRequestLogin_SharedCtor CRequestLogin_Clear CRequestLogin_MergeFrom
      CRequestLogin_ByteSize CRequestLogin_Serialize CRequestLogin_InternalSwap, CRequestLogin_accessors)
    \<in> set net_accessors"
  by (simp add: net_accessors_def net_classes_def)

text \<open>The classes the servers build and parse.\<close>

interpretation login_accessors: accessor_class CRequestLogin CRequestLogin_SharedCtor CRequestLogin_Clear
    CRequestLogin_MergeFrom CRequestLogin_ByteSize CRequestLogin_Serialize CRequestLogin_InternalSwap
    CRequestLogin_accessors
  by unfold_locales (rule CRequestLogin_accessors_ok)

interpretation mail_list_accessors: accessor_class CGSNotifyEMailList CGSNotifyEMailList_SharedCtor
    CGSNotifyEMailList_Clear CGSNotifyEMailList_MergeFrom CGSNotifyEMailList_ByteSize
    CGSNotifyEMailList_Serialize CGSNotifyEMailList_InternalSwap CGSNotifyEMailList_accessors
  by unfold_locales (rule CGSNotifyEMailList_accessors_ok)

end
