(* ===== verification/OutStream.thy ===== *)
theory OutStream
  imports PbClass VarintFast
begin

text \<open>
  Writing to a stream: \<open>CodedOutputStream\<close> of src/Server/protobuf/google/protobuf/io/coded_stream.h and .cc over the
  buffers that a \<open>ZeroCopyOutputStream\<close> hands out, the writers of WireFormatLite that use it, and
  \<open>SerializePartialToCodedStream\<close> of message_lite.cc. Every writer has a path for a buffer with enough room and one
  for a value that may cross its end; the theory shows that they all write what the array writers do.
\<close>

subsection \<open>The stream\<close>

text \<open>
  \<open>os_next\<close> are the sizes of the buffers that the calls of \<open>Next\<close> will hand out; when there is none left \<open>Next\<close>
  fails, for good. A buffer may be empty. \<open>os_written\<close> is what the buffers hold up to \<open>buffer_\<close>, and \<open>os_room\<close>
  is \<open>buffer_size_\<close>. The flag for aliasing is left out: no stream of the repository allows it, so it is never set and
  \<open>WriteRawMaybeAliased\<close> is \<open>WriteRaw\<close>. Strings of more than 2 GB, which the writers refuse, are left out.
\<close>

record out_stream =
  os_written :: "byte list"
  os_room :: nat
  os_total :: int
  os_error :: bool
  os_next :: "nat list"

definition Advance_out :: "nat \<Rightarrow> out_stream \<Rightarrow> out_stream" where
  "Advance_out n s = s\<lparr>os_room := os_room s - n\<rparr>"

text \<open>Copying bytes to \<open>buffer_\<close> and advancing over them.\<close>

definition copy_out :: "byte list \<Rightarrow> out_stream \<Rightarrow> out_stream" where
  "copy_out bs s = Advance_out (length bs) (s\<lparr>os_written := os_written s @ bs\<rparr>)"

definition Refresh :: "out_stream \<Rightarrow> bool \<times> out_stream" where
  "Refresh s =
     (case os_next s of
        n # ns \<Rightarrow> (True, s\<lparr>os_room := n, os_total := os_total s + int n, os_next := ns\<rparr>)
      | [] \<Rightarrow> (False, s\<lparr>os_room := 0, os_error := True\<rparr>))"

definition CodedOutputStream_new :: "nat list \<Rightarrow> out_stream" where
  "CodedOutputStream_new sizes =
     (snd (Refresh \<lparr>os_written = [], os_room = 0, os_total = 0, os_error = False, os_next = sizes\<rparr>))\<lparr>os_error := False\<rparr>"

definition ByteCount :: "out_stream \<Rightarrow> int" where
  "ByteCount s = os_total s - int (os_room s)"

text \<open>\<open>BackUp\<close> gives the unused rest of the last buffer back; it does not become part of the output.\<close>

definition Trim :: "out_stream \<Rightarrow> out_stream" where
  "Trim s = (if 0 < os_room s then s\<lparr>os_total := os_total s - int (os_room s), os_room := 0\<rparr> else s)"

function WriteRaw :: "byte list \<Rightarrow> out_stream \<Rightarrow> out_stream" where
  "WriteRaw data s =
     (if os_room s < length data then
        let s1 = s\<lparr>os_written := os_written s @ take (os_room s) data\<rparr>;
            data1 = drop (os_room s) data;
            (ok, s2) = Refresh s1
        in if ok then WriteRaw data1 s2 else s2
      else copy_out data s)"
  by auto
termination
  by (relation "measure (\<lambda>(data, s). length (os_next s))") (auto simp: Refresh_def split: list.splits)

declare WriteRaw.simps [simp del]

text \<open>
  \<open>GetDirectBufferForNBytesAndAdvance\<close> gives a pointer to \<open>n\<close> bytes of the buffer; the caller fills them.
\<close>

definition GetDirectBuffer :: "nat \<Rightarrow> out_stream \<Rightarrow> out_stream option" where
  "GetDirectBuffer n s = (if os_room s < n then None else Some (Advance_out n s))"

definition fill_buffer :: "byte list \<Rightarrow> out_stream \<Rightarrow> out_stream" where
  "fill_buffer bs s = s\<lparr>os_written := os_written s @ bs\<rparr>"

definition WriteVarint32SlowPath :: "u32 \<Rightarrow> out_stream \<Rightarrow> out_stream" where
  "WriteVarint32SlowPath v s = WriteRaw (WriteVarint32ToArray v) s"

definition out_varint32 :: "u32 \<Rightarrow> out_stream \<Rightarrow> out_stream" where
  "out_varint32 v s =
     (if 5 \<le> os_room s then copy_out (WriteVarint32ToArray v) s else WriteVarint32SlowPath v s)"

text \<open>The slow path is the loop of \<open>WriteVarint64\<close> in WireFormat, into an array of its own.\<close>

definition out_varint64 :: "u64 \<Rightarrow> out_stream \<Rightarrow> out_stream" where
  "out_varint64 v s =
     (if 10 \<le> os_room s then copy_out (WriteVarint64ToArrayInline v) s else WriteRaw (WriteVarint64 v) s)"

definition out_varint32_sign_extended :: "u32 \<Rightarrow> out_stream \<Rightarrow> out_stream" where
  "out_varint32_sign_extended v s =
     (if sint v < 0 then out_varint64 (scast v) s else out_varint32 v s)"

definition out_little_endian32 :: "u32 \<Rightarrow> out_stream \<Rightarrow> out_stream" where
  "out_little_endian32 v s = (if 4 \<le> os_room s then copy_out (le_bytes 4 v) s else WriteRaw (le_bytes 4 v) s)"

definition out_little_endian64 :: "u64 \<Rightarrow> out_stream \<Rightarrow> out_stream" where
  "out_little_endian64 v s = (if 8 \<le> os_room s then copy_out (le_bytes 8 v) s else WriteRaw (le_bytes 8 v) s)"

subsection \<open>What \<open>WriteRaw\<close> does\<close>

definition capacity :: "out_stream \<Rightarrow> nat" where
  "capacity s = os_room s + sum_list (os_next s)"

lemma copy_out_fields:
  "os_written (copy_out bs s) = os_written s @ bs" "os_room (copy_out bs s) = os_room s - length bs"
  "os_total (copy_out bs s) = os_total s" "os_error (copy_out bs s) = os_error s" "os_next (copy_out bs s) = os_next s"
  by (simp_all add: copy_out_def Advance_out_def)

text \<open>It writes as much as there is room for, and reports an error when that is not all.\<close>

lemma WriteRaw_effect:
  "os_written (WriteRaw bs s) = os_written s @ take (capacity s) bs
   \<and> os_error (WriteRaw bs s) = (os_error s \<or> capacity s < length bs)
   \<and> capacity (WriteRaw bs s) = capacity s - length bs
   \<and> (length bs \<le> capacity s \<longrightarrow> ByteCount (WriteRaw bs s) = ByteCount s + int (length bs))"
proof (induction bs s rule: WriteRaw.induct)
  case (1 data s)
  show ?case
  proof (cases "os_room s < length data")
    case False
    then show ?thesis
      by (simp add: WriteRaw.simps [of data s] copy_out_fields capacity_def ByteCount_def)
  next
    case True
    show ?thesis
    proof (cases "os_next s")
      case Nil
      then show ?thesis
        using True by (simp add: WriteRaw.simps [of data s] Refresh_def Let_def capacity_def)
    next
      case (Cons n ns)
      let ?s2 = "s\<lparr>os_written := os_written s @ take (os_room s) data, os_room := n, os_total := os_total s + int n, os_next := ns\<rparr>"
      have run: "WriteRaw data s = WriteRaw (drop (os_room s) data) ?s2"
        using True Cons by (simp add: WriteRaw.simps [of data s] Refresh_def Let_def)
      have cap: "capacity s = os_room s + capacity ?s2" using Cons by (simp add: capacity_def)
      have take: "take (os_room s) data @ take (capacity ?s2) (drop (os_room s) data) = take (capacity s) data"
        unfolding cap by (simp add: take_add)
      show ?thesis
        unfolding run
        using 1 [of "s\<lparr>os_written := os_written s @ take (os_room s) data\<rparr>" "drop (os_room s) data" "(True, ?s2)" True ?s2]
          True Cons take
        by (auto simp: Refresh_def cap ByteCount_def)
    qed
  qed
qed

lemma WriteRaw_nil: "WriteRaw [] s = s"
  by (simp add: WriteRaw.simps copy_out_def Advance_out_def)

lemma copy_out_append: "copy_out (a @ b) s = copy_out b (copy_out a s)"
  by (simp add: copy_out_def Advance_out_def)

text \<open>Two writes are one of both.\<close>

lemma WriteRaw_append: "WriteRaw (a @ b) s = WriteRaw b (WriteRaw a s)"
proof (induction a s rule: WriteRaw.induct)
  case (1 a s)
  show ?case
  proof (cases "os_room s < length a")
    case True
    show ?thesis
    proof (cases "os_next s")
      case Nil
      then show ?thesis
        using True by (cases "b = []")
          (simp_all add: WriteRaw.simps [of a s] WriteRaw.simps [of "a @ b" s] WriteRaw.simps [of b] WriteRaw.simps [of "[]"] Refresh_def Let_def copy_out_def Advance_out_def)
    next
      case (Cons n ns)
      then show ?thesis
        using 1 True by (simp add: WriteRaw.simps [of a s] WriteRaw.simps [of "a @ b" s] Refresh_def Let_def)
    qed
  next
    case False
    then have a: "WriteRaw a s = copy_out a s" by (simp add: WriteRaw.simps)
    show ?thesis
    proof (cases "os_room s < length (a @ b)")
      case True
      then have "os_room (copy_out a s) < length b" using False by (simp add: copy_out_fields)
      then show ?thesis
        using True False unfolding a WriteRaw.simps [of "a @ b" s] WriteRaw.simps [of b "copy_out a s"]
        by (simp add: Refresh_def Let_def copy_out_def Advance_out_def split: list.split)
    next
      case b: False
      then show ?thesis
        unfolding a by (simp add: WriteRaw.simps [of "a @ b"] WriteRaw.simps [of b] copy_out_fields copy_out_append)
    qed
  qed
qed

lemma copy_out_WriteRaw: "length bs \<le> os_room s \<Longrightarrow> copy_out bs s = WriteRaw bs s"
  by (simp add: WriteRaw.simps)

text \<open>Every writer is \<open>WriteRaw\<close> of the bytes of its value, whichever path it takes.\<close>

lemma varint_lengths: "length (WriteVarint32 v) \<le> 5" "length (WriteVarint64 w) \<le> 10"
  unfolding VarintSize32_eq [symmetric] VarintSize64_eq [symmetric]
  by (simp_all add: VarintSize32_def VarintSize64_def)

lemma signed_varint: "\<not> sint (v :: u32) < 0 \<Longrightarrow> WriteVarint32 v = WriteVarint64 (scast v)"
proof -
  assume "\<not> sint v < 0"
  then have "\<not> bit v 31" by (simp add: sint_neg_bit)
  then have "(ucast v :: u64) = scast v"
    by (intro bit_word_eqI) (auto simp: bit_word_scast_iff bit_word_ucast_iff bit_imp_le_length dest: bit_imp_le_length)
  then show ?thesis by (simp add: WriteVarint32_def)
qed

lemma out_varint_eq:
  "out_varint32 v = WriteRaw (WriteVarint32 v)"
  "out_varint64 w = WriteRaw (WriteVarint64 w)"
  "out_varint32_sign_extended v = WriteRaw (WriteVarint64 (scast v))"
  "out_little_endian32 v = WriteRaw (le_bytes 4 v)"
  "out_little_endian64 w = WriteRaw (le_bytes 8 w)"
proof -
  show out: "out_varint32 v = WriteRaw (WriteVarint32 v)" "out_varint64 w = WriteRaw (WriteVarint64 w)" for v w
    by (auto simp: fun_eq_iff out_varint32_def out_varint64_def WriteVarint32SlowPath_def WriteVarint32ToArray_loop
        WriteVarint64ToArrayInline_loop intro!: copy_out_WriteRaw
        intro: le_trans [OF varint_lengths(1)] le_trans [OF varint_lengths(2)])
  show "out_varint32_sign_extended v = WriteRaw (WriteVarint64 (scast v))"
    using signed_varint [of v] by (auto simp: fun_eq_iff out_varint32_sign_extended_def out)
  show "out_little_endian32 v = WriteRaw (le_bytes 4 v)" "out_little_endian64 w = WriteRaw (le_bytes 8 w)"
    by (auto simp: fun_eq_iff out_little_endian32_def out_little_endian64_def intro!: copy_out_WriteRaw)
qed

subsection \<open>The writers of WireFormatLite\<close>

type_synonym out_stmt = "out_stream \<Rightarrow> out_stream"

definition run_out :: "out_stmt list \<Rightarrow> out_stmt" where
  "run_out ss = fold (\<lambda>s. s) ss"

definition out_when :: "bool \<Rightarrow> out_stmt \<Rightarrow> out_stmt" where
  "out_when b f s = (if b then f s else s)"

definition out_tag :: "nat \<Rightarrow> nat \<Rightarrow> out_stmt" where
  "out_tag n wire = out_varint32 (MakeTag n wire)"

definition out_uint32 :: "nat \<Rightarrow> pb_val \<Rightarrow> out_stmt" where
  "out_uint32 n v = run_out [out_tag n 0, out_varint32 (as_uint32 v)]"
definition out_int32 :: "nat \<Rightarrow> pb_val \<Rightarrow> out_stmt" where
  "out_int32 n v = run_out [out_tag n 0, out_varint32_sign_extended (as_uint32 v)]"
definition out_enum :: "nat \<Rightarrow> pb_val \<Rightarrow> out_stmt" where
  "out_enum n v = run_out [out_tag n 0, out_varint32_sign_extended (as_uint32 v)]"
definition out_bool :: "nat \<Rightarrow> pb_val \<Rightarrow> out_stmt" where
  "out_bool n v = run_out [out_tag n 0, out_varint32 (if as_bool v then 1 else 0)]"
definition out_float :: "nat \<Rightarrow> pb_val \<Rightarrow> out_stmt" where
  "out_float n v = run_out [out_tag n 5, out_little_endian32 (as_uint32 v)]"
definition out_string :: "nat \<Rightarrow> pb_val \<Rightarrow> out_stmt" where
  "out_string n v =
     run_out [out_tag n 2, out_varint32 (word_of_nat (length (as_string v))), WriteRaw (as_string v)]"

fun out_unknown :: "unknown_field \<Rightarrow> out_stmt" where
  "out_unknown (U_varint n v) = run_out [out_varint32 (MakeTag n 0), out_varint64 v]"
| "out_unknown (U_fixed32 n v) = run_out [out_varint32 (MakeTag n 5), out_little_endian32 v]"
| "out_unknown (U_fixed64 n v) = run_out [out_varint32 (MakeTag n 1), out_little_endian64 v]"
| "out_unknown (U_length_delimited n v) =
     run_out [out_varint32 (MakeTag n 2), out_varint32 (word_of_nat (length v)), WriteRaw v]"
| "out_unknown (U_group n us) =
     run_out [out_varint32 (MakeTag n 3), run_out (map out_unknown us), out_varint32 (MakeTag n 4)]"

definition out_unknown_fields :: "unknown_field list \<Rightarrow> out_stmt" where
  "out_unknown_fields us = run_out (map out_unknown us)"

text \<open>
  \<open>WriteMessageMaybeToArray\<close> writes a sub-message into the buffer when it has room for all of it, and calls its
  \<open>SerializeWithCachedSizes\<close> otherwise, for which \<open>stream\<close> stands.
\<close>

definition out_message :: "pb_schema \<Rightarrow> (pb_msg \<Rightarrow> out_stmt) \<Rightarrow> nat \<Rightarrow> pb_msg \<Rightarrow> out_stmt" where
  "out_message sub stream n m s =
     (let size = ByteSize sub m;
          s1 = run_out [out_tag n 2, out_varint32 (word_of_nat size)] s
      in case GetDirectBuffer size s1 of
           Some s2 \<Rightarrow> fill_buffer (SerializeAsString sub m) s2
         | None \<Rightarrow> stream m s1)"

definition out_packed :: "nat \<Rightarrow> nat \<Rightarrow> u32 list \<Rightarrow> out_stmt" where
  "out_packed n data_size ws =
     run_out [out_when (0 < length ws) (run_out [out_tag n 2, out_varint32 (word_of_nat data_size)]),
       run_out (map out_varint32 ws)]"

lemma run_out_WriteRaw:
  "run_out [] = WriteRaw []" "run_out (WriteRaw bs # ss) s = run_out ss (WriteRaw bs s)"
  by (simp_all add: run_out_def fun_eq_iff WriteRaw_nil)

lemma run_out_raw:
  "run_out [] = WriteRaw []"
  "run_out (map WriteRaw bss) = WriteRaw (concat bss)"
  "run_out [WriteRaw a] = WriteRaw a"
  "run_out [WriteRaw a, WriteRaw b] = WriteRaw (a @ b)"
  "run_out [WriteRaw a, WriteRaw b, WriteRaw c] = WriteRaw (a @ b @ c)"
  "out_when p (WriteRaw a) = WriteRaw (if p then a else [])"
proof -
  show "run_out (map WriteRaw bss) = WriteRaw (concat bss)"
    by (rule ext) (induction bss, simp_all add: run_out_def WriteRaw_nil WriteRaw_append)
qed (simp_all add: run_out_def fun_eq_iff WriteRaw_nil WriteRaw_append out_when_def)

text \<open>They write what the array writers write.\<close>

lemma out_writers_eq:
  "out_tag n wire = WriteRaw (WriteTagToArray n wire)"
  "out_uint32 n v = WriteRaw (WriteUInt32ToArray n v)"
  "out_int32 n v = WriteRaw (WriteInt32ToArray n v)"
  "out_enum n v = WriteRaw (WriteEnumToArray n v)"
  "out_bool n v = WriteRaw (WriteBoolToArray n v)"
  "out_float n v = WriteRaw (WriteFloatToArray n v)"
  "out_string n v = WriteRaw (WriteStringToArray n v)"
proof -
  have bool: "WriteVarint32 (if b then 1 else 0) = [if b then 1 else 0]" for b
    by (simp add: WriteVarint32_def WriteVarint64.simps)
  show "out_tag n wire = WriteRaw (WriteTagToArray n wire)"
    "out_uint32 n v = WriteRaw (WriteUInt32ToArray n v)"
    "out_int32 n v = WriteRaw (WriteInt32ToArray n v)"
    "out_enum n v = WriteRaw (WriteEnumToArray n v)"
    "out_bool n v = WriteRaw (WriteBoolToArray n v)"
    "out_float n v = WriteRaw (WriteFloatToArray n v)"
    "out_string n v = WriteRaw (WriteStringToArray n v)"
    unfolding out_tag_def out_uint32_def out_int32_def out_enum_def out_bool_def out_float_def out_string_def
      out_varint_eq run_out_raw WriteTagToArray_def WriteUInt32ToArray_def WriteInt32ToArray_def WriteEnumToArray_def
      WriteBoolToArray_def WriteFloatToArray_def WriteStringToArray_def bool by (rule refl)+
qed

lemma out_unknown_eq: "out_unknown u = WriteRaw (WriteVarint32 (unknown_tag u) @ unknown_body u)"
proof (induction u)
  case (U_group n us)
  then have "map out_unknown us = map WriteRaw (map (\<lambda>u. WriteVarint32 (unknown_tag u) @ unknown_body u) us)"
    by simp
  then show ?case by (simp only: out_unknown.simps out_varint_eq run_out_raw unknown_tag.simps unknown_body.simps)
qed (simp_all add: out_varint_eq run_out_raw)

lemma out_unknown_fields_eq: "out_unknown_fields us = WriteRaw (SerializeUnknownFields us)"
proof -
  have "map out_unknown us = map WriteRaw (map (\<lambda>u. WriteVarint32 (unknown_tag u) @ unknown_body u) us)"
    by (simp add: out_unknown_eq)
  then show ?thesis by (simp only: out_unknown_fields_def SerializeUnknownFields_def run_out_raw)
qed

lemma out_packed_eq:
  "out_packed n data_size ws = WriteRaw ((if 0 < length ws then
     WriteTagToArray n 2 @ WriteVarint32 (word_of_nat data_size) else []) @ concat (map WriteVarint32 ws))"
proof -
  have "map out_varint32 ws = map WriteRaw (map WriteVarint32 ws)" by (simp add: out_varint_eq)
  then show ?thesis
    by (simp only: out_packed_def out_varint_eq out_writers_eq run_out_raw)
qed

lemma out_message_eq:
  assumes "all_sizes_ok sub m" and "stream m = WriteRaw (SerializeAsString sub m)"
  shows "out_message sub stream n m = WriteRaw (WriteMessageNoVirtualToArray sub n m)"
proof
  fix s
  let ?b = "SerializeAsString sub m" and ?size = "ByteSize sub m"
  let ?s1 = "WriteRaw (WriteTagToArray n 2 @ WriteVarint32 (word_of_nat ?size)) s"
  have "?size = length ?b" by (rule ByteSize_eq [OF assms(1)])
  then have "?size \<le> os_room ?s1 \<Longrightarrow> fill_buffer ?b (Advance_out ?size ?s1) = WriteRaw ?b ?s1"
    by (simp add: copy_out_WriteRaw [symmetric] copy_out_def Advance_out_def fill_buffer_def)
  then show "out_message sub stream n m s = WriteRaw (WriteMessageNoVirtualToArray sub n m) s"
    by (simp add: out_message_def Let_def GetDirectBuffer_def out_writers_eq out_varint_eq run_out_raw assms(2)
        WriteMessageNoVirtualToArray_def WriteRaw_append)
qed

subsection \<open>Messages\<close>

text \<open>
  \<open>SerializeWithCachedSizes\<close> of a message, as the function of the list of its fields that it amounts to.
\<close>

fun out_val :: "pb_val \<Rightarrow> out_stmt" where
  "out_val (Int32 w) = out_varint32_sign_extended w"
| "out_val (UInt32 w) = out_varint32 w"
| "out_val (Bool b) = out_varint32 (if b then 1 else 0)"
| "out_val (Str s) = run_out [out_varint32 (word_of_nat (length s)), WriteRaw s]"
| "out_val (Float w) = out_little_endian32 w"
| "out_val (Enum w) = out_varint32_sign_extended w"
| "out_val _ = run_out []"

fun out_field :: "nat \<Rightarrow> pb_type \<Rightarrow> pb_val \<Rightarrow> out_stmt" and out_fields :: "pb_schema \<Rightarrow> pb_msg \<Rightarrow> out_stmt" where
  "out_field n (PB_message sub) v =
     (case v of
        Messages xs \<Rightarrow>
          run_out (map (out_message sub (\<lambda>x. run_out [out_fields sub x, out_unknown_fields (pb_unknown x)]) n) xs)
      | _ \<Rightarrow> run_out [])"
| "out_field n PB_packed_uint32 v =
     (case v of Packed ws \<Rightarrow> out_packed n (packed_size ws) ws | _ \<Rightarrow> run_out [])"
| "out_field n t v = run_out [out_varint32 (field_tag (n, t)), out_val v]"
| "out_fields [] m = run_out []"
| "out_fields ((n, t) # fs) m =
     run_out [case pb_fields m n of None \<Rightarrow> run_out [] | Some v \<Rightarrow> out_field n t v, out_fields fs m]"

definition SerializeWithCachedSizes :: "pb_schema \<Rightarrow> pb_msg \<Rightarrow> out_stmt" where
  "SerializeWithCachedSizes sch m = run_out [out_fields sch m, out_unknown_fields (pb_unknown m)]"

lemma out_val_eq: "out_val v = WriteRaw (pb_write v)"
proof (cases v)
  case (Bool b)
  then show ?thesis by (simp add: out_varint_eq WriteVarint32_def WriteVarint64.simps)
qed (simp_all add: out_varint_eq run_out_raw)

lemma out_fields_eq:
  "sizes_ok t v \<Longrightarrow> out_field n t v = WriteRaw (field_bytes n t v)"
  "all_sizes_ok sch m \<Longrightarrow> out_fields sch m = WriteRaw (fields_bytes sch m)"
proof (induction n t v and sch m rule: out_field_out_fields.induct)
  case (1 n sub v)
  show ?case
  proof (cases v)
    case (Messages xs)
    let ?stream = "\<lambda>x. run_out [out_fields sub x, out_unknown_fields (pb_unknown x)]"
    have "out_message sub ?stream n x = WriteRaw (WriteMessageNoVirtualToArray sub n x)" if "x \<in> set xs" for x
    proof (rule out_message_eq)
      show ok: "all_sizes_ok sub x" using 1(2) Messages that by (simp add: list_all_iff)
      show "?stream x = WriteRaw (SerializeAsString sub x)"
        using 1(1) [OF Messages that ok] by (simp add: out_unknown_fields_eq run_out_raw SerializeAsString_def)
    qed
    then have "map (out_message sub ?stream n) xs = map WriteRaw (map (WriteMessageNoVirtualToArray sub n) xs)"
      by simp
    then have "out_field n (PB_message sub) v = WriteRaw (concat (map (WriteMessageNoVirtualToArray sub n) xs))"
      using Messages by (simp add: run_out_raw del: map_map)
    then show ?thesis using message_rules(3) [of sub v n] Messages by simp
  qed (simp_all add: run_out_raw)
next
  case (2 n v)
  show ?case
    by (cases v) (simp_all add: run_out_raw out_packed_eq WriteTagToArray_def)
qed (simp_all add: out_varint_eq out_val_eq run_out_raw split: option.splits)

lemma SerializeWithCachedSizes_eq:
  "all_sizes_ok sch m \<Longrightarrow> SerializeWithCachedSizes sch m = WriteRaw (SerializeAsString sch m)"
  by (simp add: SerializeWithCachedSizes_def out_fields_eq(2) out_unknown_fields_eq run_out_raw SerializeAsString_def)

subsection \<open>Writing an object\<close>

text \<open>
  The arguments are the \<open>ByteSize\<close>, the array writer and the stream writer of the class of the object.
  \<open>ByteSizeConsistencyError\<close> stops the program. The test \<open>size < 0\<close> of the code, for a \<open>ByteSize\<close> of 2 GB and
  more that has overflowed its \<open>int\<close>, is left out: sizes are natural numbers here, and a message that large
  does not fit into the address space of the 32-bit build.
\<close>

definition SerializePartialToCodedStream ::
    "(pb_object \<Rightarrow> nat \<times> pb_object) \<Rightarrow> (pb_object \<Rightarrow> byte list) \<Rightarrow> (pb_object \<Rightarrow> out_stmt) \<Rightarrow>
     pb_object \<Rightarrow> out_stream \<Rightarrow> (bool \<times> out_stream) res" where
  "SerializePartialToCodedStream byte_size to_array to_stream x s =
     (let (n, y) = byte_size x in
      case GetDirectBuffer n s of
        Some s1 \<Rightarrow>
          if length (to_array y) \<noteq> n then Inl AssertFailed else Inr (True, fill_buffer (to_array y) s1)
      | None \<Rightarrow>
          let original_byte_count = ByteCount s; s1 = to_stream y s in
          if os_error s1 then Inr (False, s1)
          else if ByteCount s1 - original_byte_count \<noteq> int n then Inl AssertFailed
          else Inr (True, s1))"

text \<open>The encoder is destroyed at the end, which trims its last buffer.\<close>

definition SerializePartialToZeroCopyStream ::
    "(pb_object \<Rightarrow> nat \<times> pb_object) \<Rightarrow> (pb_object \<Rightarrow> byte list) \<Rightarrow> (pb_object \<Rightarrow> out_stmt) \<Rightarrow>
     pb_object \<Rightarrow> nat list \<Rightarrow> (bool \<times> byte list) res" where
  "SerializePartialToZeroCopyStream byte_size to_array to_stream x sizes =
     rbind (SerializePartialToCodedStream byte_size to_array to_stream x (CodedOutputStream_new sizes))
       (\<lambda>(ok, s). Inr (ok, os_written (Trim s)))"

lemma new_stream:
  "os_written (CodedOutputStream_new sizes) = []" "\<not> os_error (CodedOutputStream_new sizes)"
  "capacity (CodedOutputStream_new sizes) = sum_list sizes"
  by (cases sizes; simp add: CodedOutputStream_new_def Refresh_def capacity_def)+

lemma SerializePartialToCodedStream_eq:
  assumes "byte_size x = (length bs, y)" and "to_array y = bs" and "to_stream y = WriteRaw bs" and "\<not> os_error s"
  shows "SerializePartialToCodedStream byte_size to_array to_stream x s = Inr (length bs \<le> capacity s, WriteRaw bs s)"
proof (cases "length bs \<le> os_room s")
  case True
  then have "fill_buffer bs (Advance_out (length bs) s) = WriteRaw bs s"
    by (simp add: copy_out_WriteRaw [symmetric] copy_out_def Advance_out_def fill_buffer_def)
  then show ?thesis
    using True assms by (simp add: SerializePartialToCodedStream_def GetDirectBuffer_def capacity_def)
next
  case False
  then show ?thesis
    using WriteRaw_effect [of bs s] assms
    by (auto simp: SerializePartialToCodedStream_def GetDirectBuffer_def Let_def not_le)
qed

lemma SerializePartialToZeroCopyStream_eq:
  assumes "byte_size x = (length bs, y)" and "to_array y = bs" and "to_stream y = WriteRaw bs"
  shows "SerializePartialToZeroCopyStream byte_size to_array to_stream x sizes =
    Inr (length bs \<le> sum_list sizes, take (sum_list sizes) bs)"
proof -
  have "os_written (Trim s) = os_written s" for s by (simp add: Trim_def)
  then show ?thesis
    using SerializePartialToCodedStream_eq [of byte_size x bs y to_array to_stream, OF assms new_stream(2)]
      WriteRaw_effect [of bs "CodedOutputStream_new sizes"]
    by (simp add: SerializePartialToZeroCopyStream_def new_stream)
qed

end
