(* ===== verification/NetStream.thy ===== *)
theory NetStream
  imports NetClasses OutStream
begin

text \<open>
  \<open>SerializeWithCachedSizes\<close> of every message class of src/Server/protobuf/NetMessage.pb.cc, which writes an object
  to a stream field by field, and the proof that each of them writes what the array writer of its class writes.
\<close>

definition out_unknown_object :: "pb_object \<Rightarrow> out_stmt" where
  "out_unknown_object x = out_when (unknown_fields x \<noteq> []) (out_unknown_fields (unknown_fields x))"

subsection \<open>The classes\<close>

definition CNetHead_SerializeTo :: "pb_object \<Rightarrow> out_stmt" where
  "CNetHead_SerializeTo x = run_out
     [out_when (has 1 x) (out_uint32 1 (member x 1)),
      out_when (has 2 x) (out_uint32 2 (member x 2)),
      out_when (has 4 x) (out_string 3 (member x 3)), out_unknown_object x]"

definition CRequestLogin_SerializeTo :: "pb_object \<Rightarrow> out_stmt" where
  "CRequestLogin_SerializeTo x = run_out
     [out_when (has 1 x) (out_string 1 (member x 1)),
      out_when (has 2 x) (out_string 2 (member x 2)),
      out_when (has 4 x) (out_string 3 (member x 3)),
      out_when (has 8 x) (out_string 4 (member x 4)),
      out_when (has 16 x) (out_bool 5 (member x 5)), out_unknown_object x]"

definition CRequestLoginRet_SerializeTo :: "pb_object \<Rightarrow> out_stmt" where
  "CRequestLoginRet_SerializeTo x = run_out
     [out_when (has 1 x) (out_string 1 (member x 1)),
      out_when (has 2 x) (out_string 2 (member x 2)),
      out_when (has 4 x) (out_int32 3 (member x 3)), out_unknown_object x]"

definition CRequestPing_SerializeTo :: "pb_object \<Rightarrow> out_stmt" where
  "CRequestPing_SerializeTo x = run_out
     [out_unknown_object x]"

definition CGSNotifyRoleBaseInfo_SerializeTo :: "pb_object \<Rightarrow> out_stmt" where
  "CGSNotifyRoleBaseInfo_SerializeTo x = run_out
     [out_when (has 1 x) (out_uint32 1 (member x 1)),
      out_when (has 2 x) (out_string 2 (member x 2)),
      out_when (has 4 x) (out_int32 3 (member x 3)), out_when (has 8 x) (out_bool 4 (member x 4)),
      out_when (has 16 x) (out_uint32 5 (member x 5)),
      out_when (has 32 x) (out_uint32 6 (member x 6)),
      out_when (has 64 x) (out_uint32 7 (member x 7)),
      out_when (has 128 x) (out_uint32 8 (member x 8)),
      out_when (has 256 x) (out_uint32 9 (member x 9)),
      out_when (has 512 x) (out_uint32 10 (member x 10)),
      out_when (has 1024 x) (out_uint32 11 (member x 11)),
      out_when (has 2048 x) (out_uint32 12 (member x 12)),
      out_when (has 4096 x) (out_uint32 13 (member x 13)),
      out_when (has 8192 x) (out_uint32 14 (member x 14)),
      out_when (has 16384 x) (out_uint32 15 (member x 15)),
      out_when (has 32768 x) (out_uint32 16 (member x 16)),
      out_when (has 65536 x) (out_uint32 17 (member x 17)),
      out_when (has 131072 x) (out_uint32 18 (member x 18)),
      out_when (has 262144 x) (out_uint32 19 (member x 19)),
      out_when (has 524288 x) (out_uint32 20 (member x 20)),
      out_when (has 1048576 x) (out_uint32 21 (member x 21)),
      out_when (has 2097152 x) (out_uint32 22 (member x 22)), out_unknown_object x]"

definition CGCAskSelectRole_SerializeTo :: "pb_object \<Rightarrow> out_stmt" where
  "CGCAskSelectRole_SerializeTo x = run_out
     [out_when (has 1 x) (out_string 1 (member x 1)), out_unknown_object x]"

definition CNetErrorMessage_SerializeTo :: "pb_object \<Rightarrow> out_stmt" where
  "CNetErrorMessage_SerializeTo x = run_out
     [out_when (has 1 x) (out_uint32 1 (member x 1)),
      out_when (has 2 x) (out_uint32 2 (member x 2)),
      out_when (has 4 x) (out_int32 3 (member x 3)),
      out_when (has 8 x) (out_string 4 (member x 4)), out_unknown_object x]"

definition CGSNotifyService_SerializeTo :: "pb_object \<Rightarrow> out_stmt" where
  "CGSNotifyService_SerializeTo x = run_out
     [out_when (has 1 x) (out_enum 1 (member x 1)),
      out_when (has 2 x) (out_uint32 2 (member x 2)),
      out_when (has 4 x) (out_string 3 (member x 3)),
      out_when (has 8 x) (out_string 4 (member x 4)),
      out_when (has 16 x) (out_string 5 (member x 5)),
      out_when (has 32 x) (out_string 6 (member x 6)), out_unknown_object x]"

definition CGSNotifyChangeScene_SerializeTo :: "pb_object \<Rightarrow> out_stmt" where
  "CGSNotifyChangeScene_SerializeTo x = run_out
     [out_when (has 1 x) (out_uint32 1 (member x 1)),
      out_when (has 2 x) (out_uint32 2 (member x 2)),
      out_when (has 4 x) (out_uint32 3 (member x 3)),
      out_when (has 8 x) (out_float 4 (member x 4)),
      out_when (has 16 x) (out_float 5 (member x 5)),
      out_when (has 32 x) (out_float 6 (member x 6)), out_unknown_object x]"

definition CGSNotifyRoleAppear_SerializeTo :: "pb_object \<Rightarrow> out_stmt" where
  "CGSNotifyRoleAppear_SerializeTo x = run_out
     [out_when (has 1 x) (out_uint32 1 (member x 1)),
      out_when (has 2 x) (out_string 2 (member x 2)),
      out_when (has 4 x) (out_int32 3 (member x 3)), out_when (has 8 x) (out_bool 4 (member x 4)),
      out_when (has 16 x) (out_uint32 5 (member x 5)),
      out_when (has 32 x) (out_uint32 6 (member x 6)),
      out_when (has 64 x) (out_uint32 7 (member x 7)),
      out_when (has 128 x) (out_float 8 (member x 8)),
      out_when (has 256 x) (out_float 9 (member x 9)),
      out_when (has 512 x) (out_float 10 (member x 10)),
      out_when (has 1024 x) (out_float 11 (member x 11)),
      out_when (has 2048 x) (out_float 12 (member x 12)),
      out_when (has 4096 x) (out_float 13 (member x 13)),
      out_when (has 8192 x) (out_float 14 (member x 14)),
      out_when (has 16384 x) (out_uint32 15 (member x 15)),
      out_when (has 32768 x) (out_uint32 16 (member x 16)),
      out_when (has 65536 x) (out_uint32 17 (member x 17)),
      out_when (has 131072 x) (out_uint32 18 (member x 18)),
      out_when (has 262144 x) (out_uint32 19 (member x 19)), out_unknown_object x]"

definition CGSObjectDisappear_SerializeTo :: "pb_object \<Rightarrow> out_stmt" where
  "CGSObjectDisappear_SerializeTo x = run_out
     [out_when (has 1 x) (out_uint32 1 (member x 1)),
      out_packed 2 (packed_cached_byte_size x) (as_packed (member x 2)), out_unknown_object x]"

definition CGCAskLogout_SerializeTo :: "pb_object \<Rightarrow> out_stmt" where
  "CGCAskLogout_SerializeTo x = run_out
     [out_unknown_object x]"

definition CGSObjectMove_SerializeTo :: "pb_object \<Rightarrow> out_stmt" where
  "CGSObjectMove_SerializeTo x = run_out
     [out_when (has 1 x) (out_uint32 1 (member x 1)),
      out_when (has 2 x) (out_float 2 (member x 2)),
      out_when (has 4 x) (out_float 3 (member x 3)),
      out_when (has 8 x) (out_float 4 (member x 4)),
      out_when (has 16 x) (out_float 5 (member x 5)),
      out_when (has 32 x) (out_float 6 (member x 6)),
      out_when (has 64 x) (out_float 7 (member x 7)),
      out_when (has 128 x) (out_float 8 (member x 8)), out_unknown_object x]"

definition CGCAskMove_SerializeTo :: "pb_object \<Rightarrow> out_stmt" where
  "CGCAskMove_SerializeTo x = run_out
     [out_when (has 1 x) (out_uint32 1 (member x 1)),
      out_when (has 2 x) (out_float 2 (member x 2)),
      out_when (has 4 x) (out_float 3 (member x 3)),
      out_when (has 8 x) (out_float 4 (member x 4)),
      out_when (has 16 x) (out_uint32 5 (member x 5)),
      out_when (has 32 x) (out_float 6 (member x 6)),
      out_when (has 64 x) (out_float 7 (member x 7)),
      out_when (has 128 x) (out_float 8 (member x 8)), out_unknown_object x]"

definition CGSNotifyRoleProfileChange_SerializeTo :: "pb_object \<Rightarrow> out_stmt" where
  "CGSNotifyRoleProfileChange_SerializeTo x = run_out
     [out_when (has 1 x) (out_uint32 1 (member x 1)),
      out_when (has 2 x) (out_uint32 2 (member x 2)),
      out_when (has 4 x) (out_uint32 3 (member x 3)),
      out_when (has 8 x) (out_uint32 4 (member x 4)), out_unknown_object x]"

definition CGCReportPassGate_SerializeTo :: "pb_object \<Rightarrow> out_stmt" where
  "CGCReportPassGate_SerializeTo x = run_out
     [out_when (has 1 x) (out_uint32 1 (member x 1)),
      out_when (has 2 x) (out_uint32 2 (member x 2)),
      out_when (has 4 x) (out_uint32 3 (member x 3)),
      out_when (has 8 x) (out_uint32 4 (member x 4)),
      out_when (has 16 x) (out_uint32 5 (member x 5)),
      out_when (has 32 x) (out_uint32 6 (member x 6)),
      out_when (has 64 x) (out_uint32 7 (member x 7)),
      out_when (has 128 x) (out_bool 8 (member x 8)), out_unknown_object x]"

definition CGCAskTreasureBoxDropGoods_SerializeTo :: "pb_object \<Rightarrow> out_stmt" where
  "CGCAskTreasureBoxDropGoods_SerializeTo x = run_out
     [out_when (has 1 x) (out_uint32 1 (member x 1)),
      out_when (has 2 x) (out_bool 2 (member x 2)), out_unknown_object x]"

definition CGCAskEnterScene_SerializeTo :: "pb_object \<Rightarrow> out_stmt" where
  "CGCAskEnterScene_SerializeTo x = run_out
     [out_when (has 1 x) (out_int32 1 (member x 1)),
      out_when (has 2 x) (out_int32 2 (member x 2)), out_when (has 4 x) (out_bool 3 (member x 3)),
      out_when (has 8 x) (out_uint32 4 (member x 4)),
      out_when (has 16 x) (out_uint32 5 (member x 5)),
      out_when (has 32 x) (out_uint32 6 (member x 6)),
      out_when (has 64 x) (out_uint32 7 (member x 7)), out_unknown_object x]"

definition CGSNotifyRoleMapScheduleList_SerializeTo :: "pb_object \<Rightarrow> out_stmt" where
  "CGSNotifyRoleMapScheduleList_SerializeTo x = run_out
     [out_when (has 1 x) (out_uint32 1 (member x 1)),
      out_when (has 2 x) (out_uint32 2 (member x 2)), out_unknown_object x]"

definition CGSNotifyRoleFightProperty_SerializeTo :: "pb_object \<Rightarrow> out_stmt" where
  "CGSNotifyRoleFightProperty_SerializeTo x = run_out
     [out_unknown_object x]"

definition CGSNotifyAssetChange_SerializeTo :: "pb_object \<Rightarrow> out_stmt" where
  "CGSNotifyAssetChange_SerializeTo x = run_out
     [out_unknown_object x]"

definition CGSNotifyLevelChange_SerializeTo :: "pb_object \<Rightarrow> out_stmt" where
  "CGSNotifyLevelChange_SerializeTo x = run_out
     [out_unknown_object x]"

definition CGSNotifyExpChange_SerializeTo :: "pb_object \<Rightarrow> out_stmt" where
  "CGSNotifyExpChange_SerializeTo x = run_out
     [out_unknown_object x]"

definition CGSNotifyCurProperty_SerializeTo :: "pb_object \<Rightarrow> out_stmt" where
  "CGSNotifyCurProperty_SerializeTo x = run_out
     [out_unknown_object x]"

definition CGSNotifyDisplayGateIncome_SerializeTo :: "pb_object \<Rightarrow> out_stmt" where
  "CGSNotifyDisplayGateIncome_SerializeTo x = run_out
     [out_unknown_object x]"

definition CGCAskRelive_SerializeTo :: "pb_object \<Rightarrow> out_stmt" where
  "CGCAskRelive_SerializeTo x = run_out
     [out_when (has 1 x) (out_bool 1 (member x 1)), out_when (has 2 x) (out_bool 2 (member x 2)),
      out_when (has 4 x) (out_uint32 3 (member x 3)), out_unknown_object x]"

definition CGCReportExp_SerializeTo :: "pb_object \<Rightarrow> out_stmt" where
  "CGCReportExp_SerializeTo x = run_out
     [out_when (has 1 x) (out_uint32 1 (member x 1)), out_unknown_object x]"

definition CGCReportUseSkill_SerializeTo :: "pb_object \<Rightarrow> out_stmt" where
  "CGCReportUseSkill_SerializeTo x = run_out
     [out_when (has 1 x) (out_uint32 1 (member x 1)),
      out_when (has 2 x) (out_uint32 2 (member x 2)),
      out_when (has 4 x) (out_float 3 (member x 3)),
      out_when (has 8 x) (out_float 4 (member x 4)),
      out_when (has 16 x) (out_float 5 (member x 5)),
      out_when (has 32 x) (out_float 6 (member x 6)),
      out_when (has 64 x) (out_float 7 (member x 7)),
      out_when (has 128 x) (out_float 8 (member x 8)), out_unknown_object x]"

definition CGSNotifySkillReleased_SerializeTo :: "pb_object \<Rightarrow> out_stmt" where
  "CGSNotifySkillReleased_SerializeTo x = run_out
     [out_when (has 1 x) (out_uint32 1 (member x 1)),
      out_when (has 2 x) (out_uint32 2 (member x 2)),
      out_when (has 4 x) (out_float 3 (member x 3)),
      out_when (has 8 x) (out_float 4 (member x 4)),
      out_when (has 16 x) (out_float 5 (member x 5)),
      out_when (has 32 x) (out_float 6 (member x 6)),
      out_when (has 64 x) (out_float 7 (member x 7)),
      out_when (has 128 x) (out_float 8 (member x 8)), out_unknown_object x]"

definition CGCReportOBjectAppear_SerializeTo :: "pb_object \<Rightarrow> out_stmt" where
  "CGCReportOBjectAppear_SerializeTo x = run_out
     [out_when (has 1 x) (out_uint32 1 (member x 1)),
      out_when (has 2 x) (out_uint32 2 (member x 2)),
      out_when (has 4 x) (out_float 3 (member x 3)),
      out_when (has 8 x) (out_float 4 (member x 4)),
      out_when (has 16 x) (out_float 5 (member x 5)),
      out_when (has 32 x) (out_float 6 (member x 6)),
      out_when (has 64 x) (out_float 7 (member x 7)),
      out_when (has 128 x) (out_float 8 (member x 8)), out_unknown_object x]"

definition CGSNotifyObjectAppear_SerializeTo :: "pb_object \<Rightarrow> out_stmt" where
  "CGSNotifyObjectAppear_SerializeTo x = run_out
     [out_when (has 1 x) (out_uint32 1 (member x 1)),
      out_when (has 2 x) (out_uint32 2 (member x 2)),
      out_when (has 4 x) (out_float 3 (member x 3)),
      out_when (has 8 x) (out_float 4 (member x 4)),
      out_when (has 16 x) (out_float 5 (member x 5)),
      out_when (has 32 x) (out_float 6 (member x 6)),
      out_when (has 64 x) (out_float 7 (member x 7)),
      out_when (has 128 x) (out_float 8 (member x 8)), out_unknown_object x]"

definition CGCReportOBjectDisappear_SerializeTo :: "pb_object \<Rightarrow> out_stmt" where
  "CGCReportOBjectDisappear_SerializeTo x = run_out
     [out_when (has 1 x) (out_uint32 1 (member x 1)),
      out_when (has 2 x) (out_int32 2 (member x 2)), out_unknown_object x]"

definition CGSNotifyObjectDisappear_SerializeTo :: "pb_object \<Rightarrow> out_stmt" where
  "CGSNotifyObjectDisappear_SerializeTo x = run_out
     [out_when (has 1 x) (out_uint32 1 (member x 1)),
      out_when (has 2 x) (out_int32 2 (member x 2)), out_unknown_object x]"

definition CGCReportObjectAction_SerializeTo :: "pb_object \<Rightarrow> out_stmt" where
  "CGCReportObjectAction_SerializeTo x = run_out
     [out_when (has 1 x) (out_uint32 1 (member x 1)),
      out_when (has 2 x) (out_int32 2 (member x 2)),
      out_when (has 4 x) (out_float 3 (member x 3)),
      out_when (has 8 x) (out_float 4 (member x 4)),
      out_when (has 16 x) (out_float 5 (member x 5)),
      out_when (has 32 x) (out_float 6 (member x 6)),
      out_when (has 64 x) (out_float 7 (member x 7)),
      out_when (has 128 x) (out_float 8 (member x 8)), out_unknown_object x]"

definition CGSNotifyObjectAction_SerializeTo :: "pb_object \<Rightarrow> out_stmt" where
  "CGSNotifyObjectAction_SerializeTo x = run_out
     [out_when (has 1 x) (out_uint32 1 (member x 1)),
      out_when (has 2 x) (out_int32 2 (member x 2)),
      out_when (has 4 x) (out_float 3 (member x 3)),
      out_when (has 8 x) (out_float 4 (member x 4)),
      out_when (has 16 x) (out_float 5 (member x 5)),
      out_when (has 32 x) (out_float 6 (member x 6)),
      out_when (has 64 x) (out_float 7 (member x 7)),
      out_when (has 128 x) (out_float 8 (member x 8)), out_unknown_object x]"

definition CGCReportObjectHurm_SerializeTo :: "pb_object \<Rightarrow> out_stmt" where
  "CGCReportObjectHurm_SerializeTo x = run_out
     [out_when (has 1 x) (out_bool 1 (member x 1)),
      out_when (has 2 x) (out_uint32 2 (member x 2)),
      out_when (has 4 x) (out_int32 3 (member x 3)),
      out_when (has 8 x) (out_int32 4 (member x 4)),
      out_when (has 16 x) (out_int32 5 (member x 5)), out_unknown_object x]"

definition CGSNotifyObjectHurm_SerializeTo :: "pb_object \<Rightarrow> out_stmt" where
  "CGSNotifyObjectHurm_SerializeTo x = run_out
     [out_when (has 1 x) (out_bool 1 (member x 1)),
      out_when (has 2 x) (out_uint32 2 (member x 2)),
      out_when (has 4 x) (out_int32 3 (member x 3)),
      out_when (has 8 x) (out_int32 4 (member x 4)),
      out_when (has 16 x) (out_int32 5 (member x 5)), out_unknown_object x]"

definition CGCAskEnterTowerInstance_SerializeTo :: "pb_object \<Rightarrow> out_stmt" where
  "CGCAskEnterTowerInstance_SerializeTo x = run_out
     [out_when (has 1 x) (out_uint32 1 (member x 1)),
      out_when (has 2 x) (out_bool 2 (member x 2)), out_unknown_object x]"

definition CGCReportTowerInstanceScore_SerializeTo :: "pb_object \<Rightarrow> out_stmt" where
  "CGCReportTowerInstanceScore_SerializeTo x = run_out
     [out_when (has 1 x) (out_uint32 1 (member x 1)), out_unknown_object x]"

definition CGCAskTowerInstanceRank_SerializeTo :: "pb_object \<Rightarrow> out_stmt" where
  "CGCAskTowerInstanceRank_SerializeTo x = run_out
     [out_when (has 1 x) (out_int32 1 (member x 1)), out_unknown_object x]"

definition CGCAskTowerInstanceAward_SerializeTo :: "pb_object \<Rightarrow> out_stmt" where
  "CGCAskTowerInstanceAward_SerializeTo x = run_out
     [out_when (has 1 x) (out_uint32 1 (member x 1)),
      out_when (has 2 x) (out_uint32 2 (member x 2)), out_unknown_object x]"

definition MainInfo_SerializeTo :: "pb_object \<Rightarrow> out_stmt" where
  "MainInfo_SerializeTo x = run_out
     [out_when (has 1 x) (out_uint32 1 (member x 1)),
      out_when (has 2 x) (out_string 2 (member x 2)),
      out_when (has 4 x) (out_string 3 (member x 3)),
      out_when (has 8 x) (out_enum 4 (member x 4)), out_when (has 16 x) (out_enum 5 (member x 5)),
      out_unknown_object x]"

definition CGSNotifyEMailList_SerializeTo :: "pb_object \<Rightarrow> out_stmt" where
  "CGSNotifyEMailList_SerializeTo x = run_out
     [out_when (has 1 x) (out_uint32 1 (member x 1)),
      run_out (map (out_message MainInfo (SerializeWithCachedSizes MainInfo) 2) (as_messages (member x 2))),
      out_unknown_object x]"

definition GCAskReadEMail_SerializeTo :: "pb_object \<Rightarrow> out_stmt" where
  "GCAskReadEMail_SerializeTo x = run_out
     [out_when (has 1 x) (out_uint32 1 (member x 1)), out_unknown_object x]"

definition CGCAskGetEMailPrize_SerializeTo :: "pb_object \<Rightarrow> out_stmt" where
  "CGCAskGetEMailPrize_SerializeTo x = run_out
     [out_when (has 1 x) (out_uint32 1 (member x 1)), out_unknown_object x]"

definition CGCAskRemoveEMail_SerializeTo :: "pb_object \<Rightarrow> out_stmt" where
  "CGCAskRemoveEMail_SerializeTo x = run_out
     [out_when (has 1 x) (out_uint32 1 (member x 1)), out_unknown_object x]"

definition CGSNotifyRankList_SerializeTo :: "pb_object \<Rightarrow> out_stmt" where
  "CGSNotifyRankList_SerializeTo x = run_out
     [out_when (has 1 x) (out_int32 1 (member x 1)),
      out_when (has 2 x) (out_int32 2 (member x 2)),
      out_when (has 4 x) (out_int32 3 (member x 3)),
      out_when (has 8 x) (out_int32 4 (member x 4)), out_unknown_object x]"

definition CGCSendCreateRole_SerializeTo :: "pb_object \<Rightarrow> out_stmt" where
  "CGCSendCreateRole_SerializeTo x = run_out
     [out_when (has 1 x) (out_uint32 1 (member x 1)),
      out_when (has 2 x) (out_bool 2 (member x 2)),
      out_when (has 4 x) (out_string 3 (member x 3)),
      out_when (has 8 x) (out_bool 4 (member x 4)), out_unknown_object x]"

definition CGCSendCreateRoleRet_SerializeTo :: "pb_object \<Rightarrow> out_stmt" where
  "CGCSendCreateRoleRet_SerializeTo x = run_out
     [out_when (has 1 x) (out_int32 1 (member x 1)), out_unknown_object x]"

definition CGCAskRankList_SerializeTo :: "pb_object \<Rightarrow> out_stmt" where
  "CGCAskRankList_SerializeTo x = run_out
     [out_when (has 1 x) (out_uint32 1 (member x 1)), out_unknown_object x]"

definition CGCAsChargeIOS_SerializeTo :: "pb_object \<Rightarrow> out_stmt" where
  "CGCAsChargeIOS_SerializeTo x = run_out
     [out_when (has 1 x) (out_bool 1 (member x 1)),
      out_when (has 2 x) (out_uint32 2 (member x 2)),
      out_when (has 4 x) (out_string 3 (member x 3)), out_unknown_object x]"

definition CGCNotifyChargeIOS_SerializeTo :: "pb_object \<Rightarrow> out_stmt" where
  "CGCNotifyChargeIOS_SerializeTo x = run_out
     [out_when (has 1 x) (out_int32 1 (member x 1)),
      out_when (has 2 x) (out_uint32 2 (member x 2)),
      out_when (has 4 x) (out_string 3 (member x 3)), out_unknown_object x]"

definition CGCReportProcuce_SerializeTo :: "pb_object \<Rightarrow> out_stmt" where
  "CGCReportProcuce_SerializeTo x = run_out
     [out_when (has 1 x) (out_uint32 1 (member x 1)),
      out_when (has 2 x) (out_bool 2 (member x 2)), out_unknown_object x]"

definition CGCAskChapterAward_SerializeTo :: "pb_object \<Rightarrow> out_stmt" where
  "CGCAskChapterAward_SerializeTo x = run_out
     [out_when (has 1 x) (out_int32 1 (member x 1)), out_when (has 2 x) (out_bool 2 (member x 2)),
      out_unknown_object x]"

definition CGCAskMedalInfo_SerializeTo :: "pb_object \<Rightarrow> out_stmt" where
  "CGCAskMedalInfo_SerializeTo x = run_out
     [out_unknown_object x]"

definition CGCAskMedalLevelUp_SerializeTo :: "pb_object \<Rightarrow> out_stmt" where
  "CGCAskMedalLevelUp_SerializeTo x = run_out
     [out_unknown_object x]"

definition CGCAskAddFriend_SerializeTo :: "pb_object \<Rightarrow> out_stmt" where
  "CGCAskAddFriend_SerializeTo x = run_out
     [out_when (has 1 x) (out_enum 1 (member x 1)),
      out_when (has 2 x) (out_string 2 (member x 2)), out_unknown_object x]"

definition CGCVipFriend_SerializeTo :: "pb_object \<Rightarrow> out_stmt" where
  "CGCVipFriend_SerializeTo x = run_out
     [out_when (has 1 x) (out_enum 1 (member x 1)), out_unknown_object x]"

definition CGCAskFriendRecord_SerializeTo :: "pb_object \<Rightarrow> out_stmt" where
  "CGCAskFriendRecord_SerializeTo x = run_out
     [out_unknown_object x]"

definition CGCAskSelectPlayer_SerializeTo :: "pb_object \<Rightarrow> out_stmt" where
  "CGCAskSelectPlayer_SerializeTo x = run_out
     [out_when (has 1 x) (out_string 1 (member x 1)), out_unknown_object x]"

definition CGCAskGuideComplate_SerializeTo :: "pb_object \<Rightarrow> out_stmt" where
  "CGCAskGuideComplate_SerializeTo x = run_out
     [out_when (has 1 x) (out_uint32 1 (member x 1)),
      out_when (has 2 x) (out_bool 2 (member x 2)), out_unknown_object x]"

subsection \<open>They write what the array writers write\<close>

lemma run_out_chain:
  "run_out (WriteRaw a # WriteRaw b # ss) = run_out (WriteRaw (a @ b) # ss)"
  "run_out [WriteRaw a] = WriteRaw a"
  by (simp_all add: run_out_def fun_eq_iff WriteRaw_append)

lemma out_unknown_object_eq: "out_unknown_object x = WriteRaw (unknown_bytes x)"
  by (simp add: out_unknown_object_def out_unknown_fields_eq run_out_raw unknown_bytes_def)

lemmas stream_rules = out_writers_eq out_packed_eq out_unknown_object_eq run_out_raw(6) run_out_chain append_assoc

lemma CNetHead_stream: "CNetHead_SerializeTo x = WriteRaw (CNetHead_Serialize x)"
  by (simp only: CNetHead_SerializeTo_def CNetHead_Serialize_def stream_rules)

lemma CRequestLogin_stream: "CRequestLogin_SerializeTo x = WriteRaw (CRequestLogin_Serialize x)"
  by (simp only: CRequestLogin_SerializeTo_def CRequestLogin_Serialize_def stream_rules)

lemma CRequestLoginRet_stream: "CRequestLoginRet_SerializeTo x = WriteRaw (CRequestLoginRet_Serialize x)"
  by (simp only: CRequestLoginRet_SerializeTo_def CRequestLoginRet_Serialize_def stream_rules)

lemma CRequestPing_stream: "CRequestPing_SerializeTo x = WriteRaw (CRequestPing_Serialize x)"
  by (simp only: CRequestPing_SerializeTo_def CRequestPing_Serialize_def stream_rules)

lemma CGSNotifyRoleBaseInfo_stream:
  "CGSNotifyRoleBaseInfo_SerializeTo x = WriteRaw (CGSNotifyRoleBaseInfo_Serialize x)"
  by (simp only: CGSNotifyRoleBaseInfo_SerializeTo_def CGSNotifyRoleBaseInfo_Serialize_def stream_rules)

lemma CGCAskSelectRole_stream: "CGCAskSelectRole_SerializeTo x = WriteRaw (CGCAskSelectRole_Serialize x)"
  by (simp only: CGCAskSelectRole_SerializeTo_def CGCAskSelectRole_Serialize_def stream_rules)

lemma CNetErrorMessage_stream: "CNetErrorMessage_SerializeTo x = WriteRaw (CNetErrorMessage_Serialize x)"
  by (simp only: CNetErrorMessage_SerializeTo_def CNetErrorMessage_Serialize_def stream_rules)

lemma CGSNotifyService_stream: "CGSNotifyService_SerializeTo x = WriteRaw (CGSNotifyService_Serialize x)"
  by (simp only: CGSNotifyService_SerializeTo_def CGSNotifyService_Serialize_def stream_rules)

lemma CGSNotifyChangeScene_stream:
  "CGSNotifyChangeScene_SerializeTo x = WriteRaw (CGSNotifyChangeScene_Serialize x)"
  by (simp only: CGSNotifyChangeScene_SerializeTo_def CGSNotifyChangeScene_Serialize_def stream_rules)

lemma CGSNotifyRoleAppear_stream:
  "CGSNotifyRoleAppear_SerializeTo x = WriteRaw (CGSNotifyRoleAppear_Serialize x)"
  by (simp only: CGSNotifyRoleAppear_SerializeTo_def CGSNotifyRoleAppear_Serialize_def stream_rules)

lemma CGSObjectDisappear_stream:
  "CGSObjectDisappear_SerializeTo x = WriteRaw (CGSObjectDisappear_Serialize x)"
  by (simp only: CGSObjectDisappear_SerializeTo_def CGSObjectDisappear_Serialize_def stream_rules)

lemma CGCAskLogout_stream: "CGCAskLogout_SerializeTo x = WriteRaw (CGCAskLogout_Serialize x)"
  by (simp only: CGCAskLogout_SerializeTo_def CGCAskLogout_Serialize_def stream_rules)

lemma CGSObjectMove_stream: "CGSObjectMove_SerializeTo x = WriteRaw (CGSObjectMove_Serialize x)"
  by (simp only: CGSObjectMove_SerializeTo_def CGSObjectMove_Serialize_def stream_rules)

lemma CGCAskMove_stream: "CGCAskMove_SerializeTo x = WriteRaw (CGCAskMove_Serialize x)"
  by (simp only: CGCAskMove_SerializeTo_def CGCAskMove_Serialize_def stream_rules)

lemma CGSNotifyRoleProfileChange_stream:
  "CGSNotifyRoleProfileChange_SerializeTo x = WriteRaw (CGSNotifyRoleProfileChange_Serialize x)"
  by (simp only: CGSNotifyRoleProfileChange_SerializeTo_def CGSNotifyRoleProfileChange_Serialize_def stream_rules)

lemma CGCReportPassGate_stream: "CGCReportPassGate_SerializeTo x = WriteRaw (CGCReportPassGate_Serialize x)"
  by (simp only: CGCReportPassGate_SerializeTo_def CGCReportPassGate_Serialize_def stream_rules)

lemma CGCAskTreasureBoxDropGoods_stream:
  "CGCAskTreasureBoxDropGoods_SerializeTo x = WriteRaw (CGCAskTreasureBoxDropGoods_Serialize x)"
  by (simp only: CGCAskTreasureBoxDropGoods_SerializeTo_def CGCAskTreasureBoxDropGoods_Serialize_def stream_rules)

lemma CGCAskEnterScene_stream: "CGCAskEnterScene_SerializeTo x = WriteRaw (CGCAskEnterScene_Serialize x)"
  by (simp only: CGCAskEnterScene_SerializeTo_def CGCAskEnterScene_Serialize_def stream_rules)

lemma CGSNotifyRoleMapScheduleList_stream:
  "CGSNotifyRoleMapScheduleList_SerializeTo x = WriteRaw (CGSNotifyRoleMapScheduleList_Serialize x)"
  by (simp only: CGSNotifyRoleMapScheduleList_SerializeTo_def CGSNotifyRoleMapScheduleList_Serialize_def stream_rules)

lemma CGSNotifyRoleFightProperty_stream:
  "CGSNotifyRoleFightProperty_SerializeTo x = WriteRaw (CGSNotifyRoleFightProperty_Serialize x)"
  by (simp only: CGSNotifyRoleFightProperty_SerializeTo_def CGSNotifyRoleFightProperty_Serialize_def stream_rules)

lemma CGSNotifyAssetChange_stream:
  "CGSNotifyAssetChange_SerializeTo x = WriteRaw (CGSNotifyAssetChange_Serialize x)"
  by (simp only: CGSNotifyAssetChange_SerializeTo_def CGSNotifyAssetChange_Serialize_def stream_rules)

lemma CGSNotifyLevelChange_stream:
  "CGSNotifyLevelChange_SerializeTo x = WriteRaw (CGSNotifyLevelChange_Serialize x)"
  by (simp only: CGSNotifyLevelChange_SerializeTo_def CGSNotifyLevelChange_Serialize_def stream_rules)

lemma CGSNotifyExpChange_stream:
  "CGSNotifyExpChange_SerializeTo x = WriteRaw (CGSNotifyExpChange_Serialize x)"
  by (simp only: CGSNotifyExpChange_SerializeTo_def CGSNotifyExpChange_Serialize_def stream_rules)

lemma CGSNotifyCurProperty_stream:
  "CGSNotifyCurProperty_SerializeTo x = WriteRaw (CGSNotifyCurProperty_Serialize x)"
  by (simp only: CGSNotifyCurProperty_SerializeTo_def CGSNotifyCurProperty_Serialize_def stream_rules)

lemma CGSNotifyDisplayGateIncome_stream:
  "CGSNotifyDisplayGateIncome_SerializeTo x = WriteRaw (CGSNotifyDisplayGateIncome_Serialize x)"
  by (simp only: CGSNotifyDisplayGateIncome_SerializeTo_def CGSNotifyDisplayGateIncome_Serialize_def stream_rules)

lemma CGCAskRelive_stream: "CGCAskRelive_SerializeTo x = WriteRaw (CGCAskRelive_Serialize x)"
  by (simp only: CGCAskRelive_SerializeTo_def CGCAskRelive_Serialize_def stream_rules)

lemma CGCReportExp_stream: "CGCReportExp_SerializeTo x = WriteRaw (CGCReportExp_Serialize x)"
  by (simp only: CGCReportExp_SerializeTo_def CGCReportExp_Serialize_def stream_rules)

lemma CGCReportUseSkill_stream: "CGCReportUseSkill_SerializeTo x = WriteRaw (CGCReportUseSkill_Serialize x)"
  by (simp only: CGCReportUseSkill_SerializeTo_def CGCReportUseSkill_Serialize_def stream_rules)

lemma CGSNotifySkillReleased_stream:
  "CGSNotifySkillReleased_SerializeTo x = WriteRaw (CGSNotifySkillReleased_Serialize x)"
  by (simp only: CGSNotifySkillReleased_SerializeTo_def CGSNotifySkillReleased_Serialize_def stream_rules)

lemma CGCReportOBjectAppear_stream:
  "CGCReportOBjectAppear_SerializeTo x = WriteRaw (CGCReportOBjectAppear_Serialize x)"
  by (simp only: CGCReportOBjectAppear_SerializeTo_def CGCReportOBjectAppear_Serialize_def stream_rules)

lemma CGSNotifyObjectAppear_stream:
  "CGSNotifyObjectAppear_SerializeTo x = WriteRaw (CGSNotifyObjectAppear_Serialize x)"
  by (simp only: CGSNotifyObjectAppear_SerializeTo_def CGSNotifyObjectAppear_Serialize_def stream_rules)

lemma CGCReportOBjectDisappear_stream:
  "CGCReportOBjectDisappear_SerializeTo x = WriteRaw (CGCReportOBjectDisappear_Serialize x)"
  by (simp only: CGCReportOBjectDisappear_SerializeTo_def CGCReportOBjectDisappear_Serialize_def stream_rules)

lemma CGSNotifyObjectDisappear_stream:
  "CGSNotifyObjectDisappear_SerializeTo x = WriteRaw (CGSNotifyObjectDisappear_Serialize x)"
  by (simp only: CGSNotifyObjectDisappear_SerializeTo_def CGSNotifyObjectDisappear_Serialize_def stream_rules)

lemma CGCReportObjectAction_stream:
  "CGCReportObjectAction_SerializeTo x = WriteRaw (CGCReportObjectAction_Serialize x)"
  by (simp only: CGCReportObjectAction_SerializeTo_def CGCReportObjectAction_Serialize_def stream_rules)

lemma CGSNotifyObjectAction_stream:
  "CGSNotifyObjectAction_SerializeTo x = WriteRaw (CGSNotifyObjectAction_Serialize x)"
  by (simp only: CGSNotifyObjectAction_SerializeTo_def CGSNotifyObjectAction_Serialize_def stream_rules)

lemma CGCReportObjectHurm_stream:
  "CGCReportObjectHurm_SerializeTo x = WriteRaw (CGCReportObjectHurm_Serialize x)"
  by (simp only: CGCReportObjectHurm_SerializeTo_def CGCReportObjectHurm_Serialize_def stream_rules)

lemma CGSNotifyObjectHurm_stream:
  "CGSNotifyObjectHurm_SerializeTo x = WriteRaw (CGSNotifyObjectHurm_Serialize x)"
  by (simp only: CGSNotifyObjectHurm_SerializeTo_def CGSNotifyObjectHurm_Serialize_def stream_rules)

lemma CGCAskEnterTowerInstance_stream:
  "CGCAskEnterTowerInstance_SerializeTo x = WriteRaw (CGCAskEnterTowerInstance_Serialize x)"
  by (simp only: CGCAskEnterTowerInstance_SerializeTo_def CGCAskEnterTowerInstance_Serialize_def stream_rules)

lemma CGCReportTowerInstanceScore_stream:
  "CGCReportTowerInstanceScore_SerializeTo x = WriteRaw (CGCReportTowerInstanceScore_Serialize x)"
  by (simp only: CGCReportTowerInstanceScore_SerializeTo_def CGCReportTowerInstanceScore_Serialize_def stream_rules)

lemma CGCAskTowerInstanceRank_stream:
  "CGCAskTowerInstanceRank_SerializeTo x = WriteRaw (CGCAskTowerInstanceRank_Serialize x)"
  by (simp only: CGCAskTowerInstanceRank_SerializeTo_def CGCAskTowerInstanceRank_Serialize_def stream_rules)

lemma CGCAskTowerInstanceAward_stream:
  "CGCAskTowerInstanceAward_SerializeTo x = WriteRaw (CGCAskTowerInstanceAward_Serialize x)"
  by (simp only: CGCAskTowerInstanceAward_SerializeTo_def CGCAskTowerInstanceAward_Serialize_def stream_rules)

lemma MainInfo_stream: "MainInfo_SerializeTo x = WriteRaw (MainInfo_Serialize x)"
  by (simp only: MainInfo_SerializeTo_def MainInfo_Serialize_def stream_rules)

lemma GCAskReadEMail_stream: "GCAskReadEMail_SerializeTo x = WriteRaw (GCAskReadEMail_Serialize x)"
  by (simp only: GCAskReadEMail_SerializeTo_def GCAskReadEMail_Serialize_def stream_rules)

lemma CGCAskGetEMailPrize_stream:
  "CGCAskGetEMailPrize_SerializeTo x = WriteRaw (CGCAskGetEMailPrize_Serialize x)"
  by (simp only: CGCAskGetEMailPrize_SerializeTo_def CGCAskGetEMailPrize_Serialize_def stream_rules)

lemma CGCAskRemoveEMail_stream: "CGCAskRemoveEMail_SerializeTo x = WriteRaw (CGCAskRemoveEMail_Serialize x)"
  by (simp only: CGCAskRemoveEMail_SerializeTo_def CGCAskRemoveEMail_Serialize_def stream_rules)

lemma CGSNotifyRankList_stream: "CGSNotifyRankList_SerializeTo x = WriteRaw (CGSNotifyRankList_Serialize x)"
  by (simp only: CGSNotifyRankList_SerializeTo_def CGSNotifyRankList_Serialize_def stream_rules)

lemma CGCSendCreateRole_stream: "CGCSendCreateRole_SerializeTo x = WriteRaw (CGCSendCreateRole_Serialize x)"
  by (simp only: CGCSendCreateRole_SerializeTo_def CGCSendCreateRole_Serialize_def stream_rules)

lemma CGCSendCreateRoleRet_stream:
  "CGCSendCreateRoleRet_SerializeTo x = WriteRaw (CGCSendCreateRoleRet_Serialize x)"
  by (simp only: CGCSendCreateRoleRet_SerializeTo_def CGCSendCreateRoleRet_Serialize_def stream_rules)

lemma CGCAskRankList_stream: "CGCAskRankList_SerializeTo x = WriteRaw (CGCAskRankList_Serialize x)"
  by (simp only: CGCAskRankList_SerializeTo_def CGCAskRankList_Serialize_def stream_rules)

lemma CGCAsChargeIOS_stream: "CGCAsChargeIOS_SerializeTo x = WriteRaw (CGCAsChargeIOS_Serialize x)"
  by (simp only: CGCAsChargeIOS_SerializeTo_def CGCAsChargeIOS_Serialize_def stream_rules)

lemma CGCNotifyChargeIOS_stream:
  "CGCNotifyChargeIOS_SerializeTo x = WriteRaw (CGCNotifyChargeIOS_Serialize x)"
  by (simp only: CGCNotifyChargeIOS_SerializeTo_def CGCNotifyChargeIOS_Serialize_def stream_rules)

lemma CGCReportProcuce_stream: "CGCReportProcuce_SerializeTo x = WriteRaw (CGCReportProcuce_Serialize x)"
  by (simp only: CGCReportProcuce_SerializeTo_def CGCReportProcuce_Serialize_def stream_rules)

lemma CGCAskChapterAward_stream:
  "CGCAskChapterAward_SerializeTo x = WriteRaw (CGCAskChapterAward_Serialize x)"
  by (simp only: CGCAskChapterAward_SerializeTo_def CGCAskChapterAward_Serialize_def stream_rules)

lemma CGCAskMedalInfo_stream: "CGCAskMedalInfo_SerializeTo x = WriteRaw (CGCAskMedalInfo_Serialize x)"
  by (simp only: CGCAskMedalInfo_SerializeTo_def CGCAskMedalInfo_Serialize_def stream_rules)

lemma CGCAskMedalLevelUp_stream:
  "CGCAskMedalLevelUp_SerializeTo x = WriteRaw (CGCAskMedalLevelUp_Serialize x)"
  by (simp only: CGCAskMedalLevelUp_SerializeTo_def CGCAskMedalLevelUp_Serialize_def stream_rules)

lemma CGCAskAddFriend_stream: "CGCAskAddFriend_SerializeTo x = WriteRaw (CGCAskAddFriend_Serialize x)"
  by (simp only: CGCAskAddFriend_SerializeTo_def CGCAskAddFriend_Serialize_def stream_rules)

lemma CGCVipFriend_stream: "CGCVipFriend_SerializeTo x = WriteRaw (CGCVipFriend_Serialize x)"
  by (simp only: CGCVipFriend_SerializeTo_def CGCVipFriend_Serialize_def stream_rules)

lemma CGCAskFriendRecord_stream:
  "CGCAskFriendRecord_SerializeTo x = WriteRaw (CGCAskFriendRecord_Serialize x)"
  by (simp only: CGCAskFriendRecord_SerializeTo_def CGCAskFriendRecord_Serialize_def stream_rules)

lemma CGCAskSelectPlayer_stream:
  "CGCAskSelectPlayer_SerializeTo x = WriteRaw (CGCAskSelectPlayer_Serialize x)"
  by (simp only: CGCAskSelectPlayer_SerializeTo_def CGCAskSelectPlayer_Serialize_def stream_rules)

lemma CGCAskGuideComplate_stream:
  "CGCAskGuideComplate_SerializeTo x = WriteRaw (CGCAskGuideComplate_Serialize x)"
  by (simp only: CGCAskGuideComplate_SerializeTo_def CGCAskGuideComplate_Serialize_def stream_rules)

lemma CGSNotifyEMailList_stream:
  assumes "list_all (all_sizes_ok MainInfo) (as_messages (member x 2))"
  shows "CGSNotifyEMailList_SerializeTo x = WriteRaw (CGSNotifyEMailList_Serialize x)"
proof -
  have "map (out_message MainInfo (SerializeWithCachedSizes MainInfo) 2) (as_messages (member x 2)) =
      map WriteRaw (map (WriteMessageNoVirtualToArray MainInfo 2) (as_messages (member x 2)))"
    using assms by (simp add: list_all_iff out_message_eq SerializeWithCachedSizes_eq)
  then show ?thesis
    by (simp only: CGSNotifyEMailList_SerializeTo_def CGSNotifyEMailList_Serialize_def stream_rules run_out_raw(2))
qed

subsection \<open>The table\<close>

definition net_streams :: "(pb_class \<times> (pb_object \<Rightarrow> out_stmt)) list" where
  "net_streams = zip net_classes
    [CNetHead_SerializeTo, CRequestLogin_SerializeTo, CRequestLoginRet_SerializeTo,
     CRequestPing_SerializeTo, CGSNotifyRoleBaseInfo_SerializeTo, CGCAskSelectRole_SerializeTo,
     CNetErrorMessage_SerializeTo, CGSNotifyService_SerializeTo, CGSNotifyChangeScene_SerializeTo,
     CGSNotifyRoleAppear_SerializeTo, CGSObjectDisappear_SerializeTo, CGCAskLogout_SerializeTo,
     CGSObjectMove_SerializeTo, CGCAskMove_SerializeTo, CGSNotifyRoleProfileChange_SerializeTo,
     CGCReportPassGate_SerializeTo, CGCAskTreasureBoxDropGoods_SerializeTo,
     CGCAskEnterScene_SerializeTo, CGSNotifyRoleMapScheduleList_SerializeTo,
     CGSNotifyRoleFightProperty_SerializeTo, CGSNotifyAssetChange_SerializeTo,
     CGSNotifyLevelChange_SerializeTo, CGSNotifyExpChange_SerializeTo,
     CGSNotifyCurProperty_SerializeTo, CGSNotifyDisplayGateIncome_SerializeTo,
     CGCAskRelive_SerializeTo, CGCReportExp_SerializeTo, CGCReportUseSkill_SerializeTo,
     CGSNotifySkillReleased_SerializeTo, CGCReportOBjectAppear_SerializeTo,
     CGSNotifyObjectAppear_SerializeTo, CGCReportOBjectDisappear_SerializeTo,
     CGSNotifyObjectDisappear_SerializeTo, CGCReportObjectAction_SerializeTo,
     CGSNotifyObjectAction_SerializeTo, CGCReportObjectHurm_SerializeTo,
     CGSNotifyObjectHurm_SerializeTo, CGCAskEnterTowerInstance_SerializeTo,
     CGCReportTowerInstanceScore_SerializeTo, CGCAskTowerInstanceRank_SerializeTo,
     CGCAskTowerInstanceAward_SerializeTo, MainInfo_SerializeTo, CGSNotifyEMailList_SerializeTo,
     GCAskReadEMail_SerializeTo, CGCAskGetEMailPrize_SerializeTo, CGCAskRemoveEMail_SerializeTo,
     CGSNotifyRankList_SerializeTo, CGCSendCreateRole_SerializeTo,
     CGCSendCreateRoleRet_SerializeTo, CGCAskRankList_SerializeTo, CGCAsChargeIOS_SerializeTo,
     CGCNotifyChargeIOS_SerializeTo, CGCReportProcuce_SerializeTo, CGCAskChapterAward_SerializeTo,
     CGCAskMedalInfo_SerializeTo, CGCAskMedalLevelUp_SerializeTo, CGCAskAddFriend_SerializeTo,
     CGCVipFriend_SerializeTo, CGCAskFriendRecord_SerializeTo, CGCAskSelectPlayer_SerializeTo,
     CGCAskGuideComplate_SerializeTo]"

definition stream_ok :: "pb_class \<Rightarrow> (pb_object \<Rightarrow> out_stmt) \<Rightarrow> bool" where
  "stream_ok c w \<longleftrightarrow> (\<forall>x. object_ok (class_schema c) x \<longrightarrow>
     all_sizes_ok (class_schema c) (message_of (class_schema c) x) \<longrightarrow> w x = WriteRaw (class_bytes c x))"

lemma stream_okI:
  "(\<And>x. w x = WriteRaw (bytes x)) \<Longrightarrow> stream_ok (pb_class_of sch cutoff ctor clear merge byte_size bytes swap) w"
  by (simp add: stream_ok_def class_rows)

lemma mail_list_stream_ok:
  "stream_ok (pb_class_of CGSNotifyEMailList 127 CGSNotifyEMailList_SharedCtor CGSNotifyEMailList_Clear
     CGSNotifyEMailList_MergeFrom CGSNotifyEMailList_ByteSize CGSNotifyEMailList_Serialize
     CGSNotifyEMailList_InternalSwap) CGSNotifyEMailList_SerializeTo"
proof -
  have "list_all (all_sizes_ok MainInfo) (as_messages (member x 2))"
    if "object_ok CGSNotifyEMailList x" "all_sizes_ok CGSNotifyEMailList (message_of CGSNotifyEMailList x)" for x
    using that by (cases "member x 2 = Messages []")
      (auto simp: CGSNotifyEMailList_def object_ok_def message_of_def split: pb_val.splits if_splits)
  then show ?thesis by (simp add: stream_ok_def class_rows CGSNotifyEMailList_stream)
qed

lemma net_streams_ok: "(c, w) \<in> set net_streams \<Longrightarrow> c \<in> set net_classes \<and> stream_ok c w"
proof -
  have "list_all (\<lambda>(c, w). stream_ok c w) net_streams"
    unfolding net_streams_def net_classes_def zip_Cons_Cons zip_Nil list.pred_inject prod.case
    by (intro conjI list.pred_inject(1) mail_list_stream_ok; rule stream_okI)
      (rule CNetHead_stream CRequestLogin_stream CRequestLoginRet_stream CRequestPing_stream
        CGSNotifyRoleBaseInfo_stream CGCAskSelectRole_stream CNetErrorMessage_stream
        CGSNotifyService_stream CGSNotifyChangeScene_stream CGSNotifyRoleAppear_stream
        CGSObjectDisappear_stream CGCAskLogout_stream CGSObjectMove_stream CGCAskMove_stream
        CGSNotifyRoleProfileChange_stream CGCReportPassGate_stream
        CGCAskTreasureBoxDropGoods_stream CGCAskEnterScene_stream
        CGSNotifyRoleMapScheduleList_stream CGSNotifyRoleFightProperty_stream
        CGSNotifyAssetChange_stream CGSNotifyLevelChange_stream CGSNotifyExpChange_stream
        CGSNotifyCurProperty_stream CGSNotifyDisplayGateIncome_stream CGCAskRelive_stream
        CGCReportExp_stream CGCReportUseSkill_stream CGSNotifySkillReleased_stream
        CGCReportOBjectAppear_stream CGSNotifyObjectAppear_stream CGCReportOBjectDisappear_stream
        CGSNotifyObjectDisappear_stream CGCReportObjectAction_stream CGSNotifyObjectAction_stream
        CGCReportObjectHurm_stream CGSNotifyObjectHurm_stream CGCAskEnterTowerInstance_stream
        CGCReportTowerInstanceScore_stream CGCAskTowerInstanceRank_stream
        CGCAskTowerInstanceAward_stream MainInfo_stream GCAskReadEMail_stream
        CGCAskGetEMailPrize_stream CGCAskRemoveEMail_stream CGSNotifyRankList_stream
        CGCSendCreateRole_stream CGCSendCreateRoleRet_stream CGCAskRankList_stream
        CGCAsChargeIOS_stream CGCNotifyChargeIOS_stream CGCReportProcuce_stream
        CGCAskChapterAward_stream CGCAskMedalInfo_stream CGCAskMedalLevelUp_stream
        CGCAskAddFriend_stream CGCVipFriend_stream CGCAskFriendRecord_stream
        CGCAskSelectPlayer_stream CGCAskGuideComplate_stream)+
  then show "(c, w) \<in> set net_streams \<Longrightarrow> c \<in> set net_classes \<and> stream_ok c w"
    by (auto simp: list_all_iff net_streams_def dest: set_zip_leftD)
qed

lemma mail_list_in_streams:
  "(pb_class_of CGSNotifyEMailList 127 CGSNotifyEMailList_SharedCtor CGSNotifyEMailList_Clear
     CGSNotifyEMailList_MergeFrom CGSNotifyEMailList_ByteSize CGSNotifyEMailList_Serialize
     CGSNotifyEMailList_InternalSwap, CGSNotifyEMailList_SerializeTo) \<in> set net_streams"
  by (simp add: net_streams_def net_classes_def)

subsection \<open>Writing an object to a stream\<close>

text \<open>Computing the sizes changes neither the invariant nor the message.\<close>

lemma size_object:
  assumes "c \<in> set net_classes" and "object_ok (class_schema c) x"
  shows "object_ok (class_schema c) (snd (class_size c x))"
    and "message_of (class_schema c) (snd (class_size c x)) = message_of (class_schema c) x"
proof -
  obtain k p where y: "snd (class_size c x) = x\<lparr>cached_size := k, packed_cached_byte_size := p\<rparr>"
    using message_class.size [OF net_classes_ok [OF assms(1), unfolded is_class_def] assms(2)] by auto
  show "object_ok (class_schema c) (snd (class_size c x))"
    "message_of (class_schema c) (snd (class_size c x)) = message_of (class_schema c) x"
    using assms(2) unfolding y message_of_def object_ok_def
    by (simp_all add: fields_cong [of 0 "x\<lparr>cached_size := k, packed_cached_byte_size := p\<rparr>" x])
qed

lemma written_to_stream:
  assumes "(c, w) \<in> set net_streams" and "object_ok (class_schema c) x"
    and "all_sizes_ok (class_schema c) (message_of (class_schema c) x)"
  shows "class_size c x = (length (SerializeAsString (class_schema c) (message_of (class_schema c) x)), snd (class_size c x))"
    and "class_bytes c (snd (class_size c x)) = SerializeAsString (class_schema c) (message_of (class_schema c) x)"
    and "w (snd (class_size c x)) = WriteRaw (SerializeAsString (class_schema c) (message_of (class_schema c) x))"
proof -
  note c = net_streams_ok [OF assms(1)]
  note y = size_object [OF conjunct1 [OF c] assms(2)]
  show "class_size c x = (length (SerializeAsString (class_schema c) (message_of (class_schema c) x)), snd (class_size c x))"
    using class_facts(7) [OF conjunct1 [OF c] assms(2)] ByteSize_eq [OF assms(3)] by (metis prod.collapse)
  show b: "class_bytes c (snd (class_size c x)) = SerializeAsString (class_schema c) (message_of (class_schema c) x)"
    using class_facts(8) [OF conjunct1 [OF c] assms(2)] .
  show "w (snd (class_size c x)) = WriteRaw (SerializeAsString (class_schema c) (message_of (class_schema c) x))"
    using c y assms(3) unfolding stream_ok_def b [symmetric] by simp
qed

lemma stream_whole:
  assumes "(c, w) \<in> set net_streams" and "object_ok (class_schema c) x"
    and "all_sizes_ok (class_schema c) (message_of (class_schema c) x)"
  shows "SerializePartialToZeroCopyStream (class_size c) (class_bytes c) w x sizes =
    Inr (ByteSize (class_schema c) (message_of (class_schema c) x) \<le> sum_list sizes,
      take (sum_list sizes) (SerializeAsString (class_schema c) (message_of (class_schema c) x)))"
  unfolding ByteSize_eq [OF assms(3)]
  by (rule SerializePartialToZeroCopyStream_eq) (rule written_to_stream [OF assms])+

lemma stream_more:
  assumes "(c, w) \<in> set net_streams" and "object_ok (class_schema c) x"
    and "all_sizes_ok (class_schema c) (message_of (class_schema c) x)" and "\<not> os_error s"
  shows "SerializePartialToCodedStream (class_size c) (class_bytes c) w x s =
    Inr (ByteSize (class_schema c) (message_of (class_schema c) x) \<le> capacity s,
      WriteRaw (SerializeAsString (class_schema c) (message_of (class_schema c) x)) s)"
  unfolding ByteSize_eq [OF assms(3)]
  by (rule SerializePartialToCodedStream_eq) (rule written_to_stream [OF assms(1-3)] assms(4))+

end
