(* ===== verification/PbTyped.thy ===== *)
theory PbTyped
  imports PbAccess
begin

text \<open>
  The parser accepts typed messages only: whatever the input, every field it stores has the type of its schema,
  down to the sub-messages, and a repeated field that is present has elements. So there is an object of the
  class, which satisfies the invariant of the objects, for every message that is parsed.
\<close>

subsection \<open>Typed messages\<close>

fun val_typed :: "pb_type \<Rightarrow> pb_val \<Rightarrow> bool"
  and fields_typed :: "pb_schema \<Rightarrow> pb_msg \<Rightarrow> bool" where
  "val_typed (PB_message sub) v \<longleftrightarrow>
     (case v of
        Messages xs \<Rightarrow> xs \<noteq> [] \<and> list_all (\<lambda>x. fields_typed sub x \<and> dom (pb_fields x) \<subseteq> fst ` set sub) xs
      | _ \<Rightarrow> False)"
| "val_typed PB_packed_uint32 v \<longleftrightarrow> (case v of Packed ws \<Rightarrow> ws \<noteq> [] | _ \<Rightarrow> False)"
| "val_typed t v \<longleftrightarrow> val_ok t v"
| "fields_typed [] m \<longleftrightarrow> True"
| "fields_typed ((n, t) # fs) m \<longleftrightarrow>
     (case pb_fields m n of None \<Rightarrow> True | Some v \<Rightarrow> val_typed t v) \<and> fields_typed fs m"

definition msg_typed :: "pb_schema \<Rightarrow> pb_msg \<Rightarrow> bool" where
  "msg_typed sch m \<longleftrightarrow> fields_typed sch m \<and> dom (pb_fields m) \<subseteq> fst ` set sch"

lemma fields_typed_iff:
  "fields_typed sch m \<longleftrightarrow> (\<forall>(n, t) \<in> set sch. \<forall>v. pb_fields m n = Some v \<longrightarrow> val_typed t v)"
  by (induction sch) (auto split: option.splits)

lemma val_typed_ok: "val_typed t v \<Longrightarrow> val_ok t v \<and> (\<not> is_singular t \<longrightarrow> v \<noteq> default_val t)"
  by (cases t; cases v) auto

lemma typed_new: "msg_typed sch pb_new"
  by (simp add: msg_typed_def fields_typed_iff)

lemma typed_unknown: "msg_typed sch m \<Longrightarrow> msg_typed sch (add_unknown u m)"
  by (simp add: msg_typed_def fields_typed_iff add_unknown_def)

lemma typed_set:
  assumes "good_schema sch" and "msg_typed sch m" and "(n, t) \<in> set sch" and "val_typed t v"
  shows "msg_typed sch (pb_set n v m)"
proof -
  have "val_typed t' w" if f: "(k, t') \<in> set sch" and w: "pb_fields (pb_set n v m) k = Some w" for k t' w
  proof (cases "k = n")
    case True
    then have "t' = t"
      using good_schema_distinct [OF assms(1)] f assms(3) eq_key_imp_eq_value by metis
    then show ?thesis using True w assms(4) by simp
  next
    case False
    then show ?thesis
      using f w assms(2) unfolding msg_typed_def fields_typed_iff by fastforce
  qed
  moreover have "n \<in> fst ` set sch" using assms(3) by force
  ultimately show ?thesis
    using assms(2) unfolding msg_typed_def fields_typed_iff by auto
qed

lemma typed_field:
  "msg_typed sch m \<Longrightarrow> (n, t) \<in> set sch \<Longrightarrow> pb_fields m n = Some v \<Longrightarrow> val_typed t v"
  by (auto simp: msg_typed_def fields_typed_iff)

lemma typed_packed:
  assumes "good_schema sch" and "msg_typed sch m" and "(n, PB_packed_uint32) \<in> set sch"
  shows "msg_typed sch (add_packed n ws m)"
  using typed_set [OF assms, of "Packed _"] assms(2) by (simp add: add_packed_def)

lemma typed_message:
  assumes "good_schema sch" and "msg_typed sch m" and "(n, PB_message sub) \<in> set sch" and "msg_typed sub x"
  shows "msg_typed sch (add_message n x m)"
proof -
  have "list_all (\<lambda>x. fields_typed sub x \<and> dom (pb_fields x) \<subseteq> fst ` set sub) (get_messages n m)"
    using typed_field [OF assms(2,3)] by (auto simp: get_messages_def split: option.splits pb_val.splits)
  then show ?thesis
    unfolding add_message_def using assms(4) by (intro typed_set [OF assms(1-3)]) (simp add: msg_typed_def)
qed

lemma typed_read:
  assumes "good_schema sch" and "msg_typed sch m" and "f \<in> set sch" and "sub_schema (snd f) = None"
    and "read_field f bs m = Some (m', r)"
  shows "msg_typed sch m'"
proof (cases "snd f = PB_packed_uint32")
  case True
  then show ?thesis
    using assms typed_packed [OF assms(1,2), of "fst f"] by (cases f) (auto simp: read_field_def)
next
  case False
  then obtain v where v: "pb_read (snd f) bs = Some (v, r)" "m' = store f v m"
    using assms(5) by (auto simp: read_field_def)
  note set = typed_set [OF assms(1,2), of "fst f" "snd f"]
  show ?thesis
    using v set assms(2,3) False
    by (cases f; cases "snd f") (auto simp: store_def intro: typed_unknown)
qed

theorem parsed_typed:
  "MergePartial fuel depth sch m bs = Some m' \<Longrightarrow> good_schema sch \<Longrightarrow> msg_typed sch m \<Longrightarrow> msg_typed sch m'"
proof (induction fuel depth sch m bs arbitrary: m' rule: MergePartial.induct)
  case (2 fuel depth sch m bs)
  obtain tag r where t: "ReadTag bs = (tag, r)" by (cases "ReadTag bs")
  note good = 2(7) and typed = 2(8) and run = 2(6)
  consider (nil) "bs = []"
    | (skip) u r' where "bs \<noteq> []" "field_with_tag tag sch = None" "unpacked_with_tag tag sch = None"
        "\<not> (tag = 0 \<or> GetTagWireType tag = 4)" "SkipField (2 * length bs) depth tag r = Some (u, r')"
        "MergePartial fuel depth sch (add_unknown u m) r' = Some m'"
    | (single) n ws r' where "bs \<noteq> []" "field_with_tag tag sch = None" "unpacked_with_tag tag sch = Some n"
        "ReadRepeatedPrimitive (MakeTag n 2) (length (get_packed n m)) r = Some (ws, r')"
        "MergePartial fuel depth sch (add_packed n ws m) r' = Some m'"
    | (field) f m1 r' where "bs \<noteq> []" "field_with_tag tag sch = Some f" "sub_schema (snd f) = None"
        "read_field f r m = Some (m1, r')" "MergePartial fuel depth sch m1 r' = Some m'"
    | (sub) f s x where "bs \<noteq> []" "field_with_tag tag sch = Some f" "sub_schema (snd f) = Some s" "depth \<noteq> 0"
        "MergePartial fuel (depth - 1) s pb_new (fst (ReadLengthAndPushLimit r)) = Some x"
        "MergePartial fuel depth sch (add_message (fst f) x m) (snd (ReadLengthAndPushLimit r)) = Some m'"
    using run t by (auto simp: MergePartial.simps(2) split: if_splits option.splits)
  then show ?case
  proof cases
    case nil
    then show ?thesis using run typed by (simp add: MergePartial.simps(2))
  next
    case skip
    show ?thesis
      by (rule 2(1) [OF skip(1) t [symmetric] refl skip(2,3,4,5) refl skip(6) good typed_unknown [OF typed]])
  next
    case single
    have "(n, PB_packed_uint32) \<in> set sch" using unpacked_with_tag_number [OF good single(3)] by blast
    from typed_packed [OF good typed this] show ?thesis
      by (rule 2(2) [OF single(1) t [symmetric] refl single(2,3,4) refl single(5) good])
  next
    case field
    have "f \<in> set sch" using field_with_tag_number [OF good field(2)] by blast
    from typed_read [OF good typed this field(3,4)] show ?thesis
      by (rule 2(3) [OF field(1) t [symmetric] refl field(2,3,4) refl field(5) good])
  next
    case sub
    have f: "(fst f, PB_message s) \<in> set sch"
      using field_with_tag_number [OF good sub(2)] sub(3) by (cases f; cases "snd f") auto
    then have good_sub: "good_schema s" using good_schema_field [OF good f] by simp
    have "msg_typed s x"
      by (rule 2(4) [OF sub(1) t [symmetric] refl sub(2,3,4,5) good_sub typed_new])
    from typed_message [OF good typed f this] show ?thesis
      by (rule 2(5) [OF sub(1) t [symmetric] refl sub(2,3,4,5,6) good])
  qed
qed simp

corollary ParseFromString_typed: "good_schema sch \<Longrightarrow> ParseFromString sch bs = Some m \<Longrightarrow> msg_typed sch m"
  unfolding ParseFromString_def by (rule parsed_typed [OF _ _ typed_new])

subsection \<open>The object of a message\<close>

fun field_bits :: "nat \<Rightarrow> pb_schema \<Rightarrow> pb_msg \<Rightarrow> u32" where
  "field_bits i [] m = 0"
| "field_bits i ((n, t) # fs) m =
     (if is_singular t \<and> pb_fields m n \<noteq> None then 2 ^ i else 0) OR field_bits (i + 1) fs m"

text \<open>\<open>raw\<close> is the object the parser has started with; it keeps what the parser does not touch.\<close>

definition object_of :: "pb_schema \<Rightarrow> pb_msg \<Rightarrow> pb_object \<Rightarrow> pb_object" where
  "object_of sch m raw =
     raw\<lparr>has_bits := field_bits 0 sch m,
       member := (\<lambda>n. case pb_fields m n of Some v \<Rightarrow> v | None \<Rightarrow> default_members sch n),
       unknown_fields := pb_unknown m\<rparr>"

lemma bit_field_bits:
  "i + length sch \<le> 32 \<Longrightarrow> bit (field_bits i sch m) j \<longleftrightarrow>
     (\<exists>k < length sch. j = i + k \<and> is_singular (snd (sch ! k)) \<and> pb_fields m (fst (sch ! k)) \<noteq> None)"
proof (induction i sch m rule: field_bits.induct)
  case (2 i n t fs m)
  have "(\<exists>k < length ((n, t) # fs). j = i + k \<and> is_singular (snd (((n, t) # fs) ! k))
        \<and> pb_fields m (fst (((n, t) # fs) ! k)) \<noteq> None) \<longleftrightarrow>
      (j = i \<and> is_singular t \<and> pb_fields m n \<noteq> None) \<or>
      (\<exists>k < length fs. j = i + 1 + k \<and> is_singular (snd (fs ! k)) \<and> pb_fields m (fst (fs ! k)) \<noteq> None)"
    by (auto simp: less_Suc_eq_0_disj)
  then show ?case
    using 2 by (auto simp: bit_or_iff bit_exp_iff)
qed simp

lemma object_of_fields:
  assumes "\<And>k. k < length sch \<Longrightarrow> is_set (i + k) (sch ! k) x \<longleftrightarrow> pb_fields m (fst (sch ! k)) \<noteq> None"
    and "\<And>n t. (n, t) \<in> set sch \<Longrightarrow> member x n = (case pb_fields m n of Some v \<Rightarrow> v | None \<Rightarrow> default_val t)"
    and "\<And>n t. (n, t) \<in> set sch \<Longrightarrow> val_ok t (member x n)" and "distinct (map fst sch)"
  shows "fields_ok i sch x" and "fields_of i sch x = (\<lambda>n. if n \<in> fst ` set sch then pb_fields m n else None)"
proof -
  have "fields_ok i sch x \<and> fields_of i sch x = (\<lambda>n. if n \<in> fst ` set sch then pb_fields m n else None)"
    using assms
  proof (induction sch arbitrary: i)
    case (Cons f fs)
    obtain n t where f: "f = (n, t)" by (cases f)
    have "fields_ok (i + 1) fs x \<and> fields_of (i + 1) fs x = (\<lambda>n. if n \<in> fst ` set fs then pb_fields m n else None)"
    proof (rule Cons.IH)
      show "is_set (i + 1 + k) (fs ! k) x \<longleftrightarrow> pb_fields m (fst (fs ! k)) \<noteq> None" if "k < length fs" for k
        using Cons.prems(1) [of "Suc k"] that by simp
      show "member x n = (case pb_fields m n of Some v \<Rightarrow> v | None \<Rightarrow> default_val t)" if "(n, t) \<in> set fs" for n t
        by (rule Cons.prems(2)) (simp add: that)
      show "val_ok t (member x n)" if "(n, t) \<in> set fs" for n t
        by (rule Cons.prems(3)) (simp add: that)
      show "distinct (map fst fs)" using Cons.prems(4) by simp
    qed
    then show ?case
      using Cons.prems(1) [of 0] Cons.prems(2,3) [of n t] Cons.prems(4) f
      by (auto simp: fun_eq_iff)
  qed simp
  then show "fields_ok i sch x" and "fields_of i sch x = (\<lambda>n. if n \<in> fst ` set sch then pb_fields m n else None)"
    by blast+
qed

lemma object_of_message:
  assumes "good_schema sch" and "length sch \<le> 32" and "enums_ok sch" and "msg_typed sch m"
  shows "object_ok sch (object_of sch m raw)" and "message_of sch (object_of sch m raw) = m"
proof -
  let ?x = "object_of sch m raw"
  note distinct = good_schema_distinct [OF assms(1)]
  have member: "member ?x n = (case pb_fields m n of Some v \<Rightarrow> v | None \<Rightarrow> default_val t)" if "(n, t) \<in> set sch" for n t
    using default_members_val(1) [OF distinct that] by (simp add: object_of_def split: option.split)
  have ok: "val_ok t (member ?x n)" if f: "(n, t) \<in> set sch" for n t
    using typed_field [OF assms(4) f] val_typed_ok enums_default [OF assms(3) f] member [OF f]
    by (auto split: option.splits)
  have bits: "bit (has_bits ?x) j \<longleftrightarrow>
      (\<exists>k < length sch. j = k \<and> is_singular (snd (sch ! k)) \<and> pb_fields m (fst (sch ! k)) \<noteq> None)" for j
    using bit_field_bits [of 0 sch m j] assms(2) by (simp add: object_of_def)
  have set: "is_set (0 + k) (sch ! k) ?x \<longleftrightarrow> pb_fields m (fst (sch ! k)) \<noteq> None" if k: "k < length sch" for k
  proof -
    obtain n t where f: "sch ! k = (n, t)" by (cases "sch ! k")
    then have mem: "(n, t) \<in> set sch" using k nth_mem by metis
    show ?thesis
    proof (cases "is_singular t")
      case True
      then show ?thesis using singular_is_set [OF True] bits [of k] k f by auto
    next
      case False
      then have "is_set k (n, t) ?x \<longleftrightarrow> member ?x n \<noteq> default_val t" by (cases t) simp_all
      then show ?thesis
        using member [OF mem] typed_field [OF assms(4) mem] val_typed_ok False f by (auto split: option.splits)
    qed
  qed
  note fields = object_of_fields [OF set member ok distinct]
  have dom: "pb_fields m n = None" if "n \<notin> fst ` set sch" for n
    using assms(4) that by (auto simp: msg_typed_def)
  show "object_ok sch ?x"
    unfolding object_ok_def
    using fields(1) bits dom default_members_val(2) by (auto simp: object_of_def)
  show "message_of sch ?x = m"
  proof -
    have "fields_of 0 sch ?x = pb_fields m" using fields(2) dom by (auto simp: fun_eq_iff)
    then have "message_of sch ?x = Msg (pb_fields m) (pb_unknown m)"
      by (simp add: message_of_def) (simp add: object_of_def)
    then show ?thesis by simp
  qed
qed

end
