(* ===== verification/LoginObjects.thy ===== *)
theory LoginObjects
  imports Login NetAccess PbTyped
begin

text \<open>
  The handlers of src/Server/Server/CLogin.cpp as they are written: on objects of the generated classes, with
  their constructors, the generated parser, the accessors of NetMessage.pb.h, the assignment of a message and
  \<open>SerializeAsString\<close>. The handlers of theory \<open>Login\<close> do the same on the messages that the objects stand for.
\<close>

subsection \<open>Operations by field number\<close>

fun accessor_of :: "field_accessors list \<Rightarrow> nat \<Rightarrow> accessor option" where
  "accessor_of [] n = None"
| "accessor_of (acc # accs) n =
     (case acc of
        Optional a \<Rightarrow> if acc_member a = n then Some a else accessor_of accs n
      | _ \<Rightarrow> accessor_of accs n)"

definition get_field_x :: "field_accessors list \<Rightarrow> nat \<Rightarrow> pb_object \<Rightarrow> pb_val" where
  "get_field_x accs n x = (case accessor_of accs n of Some a \<Rightarrow> get_x a x | None \<Rightarrow> no_member)"

definition set_field_x :: "field_accessors list \<Rightarrow> nat \<Rightarrow> pb_val \<Rightarrow> pb_stmt" where
  "set_field_x accs n v x = (case accessor_of accs n of Some a \<Rightarrow> set_x a v x | None \<Rightarrow> Inl OutOfBounds)"

text \<open>\<open>ParseFromString\<close> on an object clears it and reads into it; \<open>SerializeAsString\<close> computes the sizes first.\<close>

definition parse_object :: "pb_schema \<Rightarrow> byte list \<Rightarrow> pb_object \<Rightarrow> pb_object option" where
  "parse_object sch bs x = (case GeneratedParse sch bs of None \<Rightarrow> None | Some m \<Rightarrow> Some (object_of sch m x))"

definition serialize_object :: "(pb_object \<Rightarrow> nat \<times> pb_object) \<Rightarrow> (pb_object \<Rightarrow> byte list) \<Rightarrow> pb_object \<Rightarrow> byte list" where
  "serialize_object byte_size bytes x = bytes (snd (byte_size x))"

lemma accessor_of_mem: "accessor_of accs n = Some a \<Longrightarrow> Optional a \<in> set accs \<and> acc_member a = n"
  by (induction accs) (auto split: field_accessors.splits if_splits)

lemma parse_object_message:
  assumes "good_schema sch" and "length sch \<le> 32" and "enums_ok sch"
  shows "ParseFromString sch bs = None \<Longrightarrow> parse_object sch bs x = None"
    and "ParseFromString sch bs = Some m \<Longrightarrow>
      \<exists>y. parse_object sch bs x = Some y \<and> object_ok sch y \<and> message_of sch y = m"
  using object_of_message [OF assms ParseFromString_typed [OF assms(1)]]
  by (auto simp: parse_object_def GeneratedParse_eq [OF assms(1)])

text \<open>The values that a list of setters stores have the types of the fields.\<close>

definition typed_fields :: "field_accessors list \<Rightarrow> (nat \<times> pb_val) list \<Rightarrow> bool" where
  "typed_fields accs fs \<longleftrightarrow> list_all (\<lambda>(n, v). \<exists>a. accessor_of accs n = Some a \<and> val_ok (acc_type a) v) fs"

context accessor_class
begin

lemma get_field_message:
  assumes "accessor_of accs n = Some a" and "object_ok sch x"
  shows "get_field_x accs n x = (case pb_fields (message_of sch x) n of Some v \<Rightarrow> v | None \<Rightarrow> acc_default a)"
    and "val_ok (acc_type a) (get_field_x accs n x)"
proof -
  note a = accessor_of_mem [OF assms(1)]
  have holds: "holds_field sch a x" using optional_holds assms(2) a by blast
  show "get_field_x accs n x = (case pb_fields (message_of sch x) n of Some v \<Rightarrow> v | None \<Rightarrow> acc_default a)"
    using has_get_message(2) [OF holds] a by (simp add: get_field_x_def assms(1))
  show "val_ok (acc_type a) (get_field_x accs n x)"
    using has_get_message(3) [OF holds] by (simp add: get_field_x_def assms(1))
qed

lemma set_fields_message:
  assumes "typed_fields accs fs" and "object_ok sch x"
  shows "\<exists>y. run (map (\<lambda>(n, v). set_field_x accs n v) fs) x = Inr y \<and> object_ok sch y
    \<and> message_of sch y = fold (\<lambda>(n, v). set_field n v) fs (message_of sch x)"
  using assms
proof (induction fs arbitrary: x)
  case Nil
  then show ?case by (simp add: run_def)
next
  case (Cons f fs)
  obtain n v where f: "f = (n, v)" by (cases f)
  then obtain a where a: "accessor_of accs n = Some a" "val_ok (acc_type a) v" and fs: "typed_fields accs fs"
    using Cons.prems(1) by (auto simp: typed_fields_def)
  obtain y where y: "set_x a v x = Inr y" "object_ok sch y" "message_of sch y = set_field n v (message_of sch x)"
    using set_x_message [OF optional_holds [OF _ Cons.prems(2)] a(2)] accessor_of_mem [OF a(1)] by auto
  show ?case
    using Cons.IH [OF fs y(2)] f a(1) y by (simp add: run_simps set_field_x_def)
qed

lemma new_fields_message:
  assumes "typed_fields accs fs"
  obtains y where "run (map (\<lambda>(n, v). set_field_x accs n v) fs) (ctor raw) = Inr y" "object_ok sch y"
    "message_of sch y = fold (\<lambda>(n, v). set_field n v) fs pb_new"
    "serialize_object size bytes y = SerializeAsString sch (fold (\<lambda>(n, v). set_field n v) fs pb_new)"
proof -
  obtain y where "run (map (\<lambda>(n, v). set_field_x accs n v) fs) (ctor raw) = Inr y" "object_ok sch y"
    "message_of sch y = fold (\<lambda>(n, v). set_field n v) fs pb_new"
    using set_fields_message [OF assms ctor_message(1)] unfolding ctor_message(2) by blast
  then show thesis
    using that bytes_message by (simp add: serialize_object_def)
qed

end

subsection \<open>The handlers\<close>

text \<open>The arguments \<open>raw\<close> are the memory in which the local objects are constructed.\<close>

definition HandleLogin_x :: "pb_object \<Rightarrow> pb_object \<Rightarrow> login_app handler" where
  "HandleLogin_x raw1 raw2 cmd connection recvMsg a =
     (case parse_object CRequestLogin recvMsg (CRequestLogin_SharedCtor raw1) of
        None \<Rightarrow> Inr a
      | Some inData \<Rightarrow>
          rbind (run [set_field_x CRequestLoginRet_accessors 1
                        (Str (as_string (get_field_x CRequestLogin_accessors 1 inData)))]
                   (CRequestLoginRet_SharedCtor raw2))
            (\<lambda>loginRet. SendClient (word_of_int connection) G2C_LoginRet
               (Some (serialize_object CRequestLoginRet_ByteSize CRequestLoginRet_Serialize loginRet)) a))"

text \<open>
  \<open>m_UserList[connection]\<close> is an object that is constructed when there is none for the connection; it is
  kept as the message it stands for.
\<close>

definition user_object :: "pb_object \<Rightarrow> int \<Rightarrow> login_app \<Rightarrow> pb_object" where
  "user_object raw connection a =
     (case m_UserList a connection of
        Some m \<Rightarrow> object_of CGCSendCreateRole m raw
      | None \<Rightarrow> CGCSendCreateRole_SharedCtor raw)"

definition role_setters :: "pb_object \<Rightarrow> pb_stmt list" where
  "role_setters inData =
     map (\<lambda>(n, v). set_field_x CGSNotifyRoleBaseInfo_accessors n v)
       [(1, UInt32 1), (2, Str (as_string (get_field_x CGCSendCreateRole_accessors 3 inData))),
        (3, Int32 (as_uint32 (get_field_x CGCSendCreateRole_accessors 1 inData))),
        (4, Bool (as_bool (get_field_x CGCSendCreateRole_accessors 2 inData))),
        (5, UInt32 1), (6, UInt32 1), (6, UInt32 1), (7, UInt32 1), (8, UInt32 1), (9, UInt32 1),
        (10, UInt32 1), (11, UInt32 1), (12, UInt32 1), (13, UInt32 1), (14, UInt32 1), (15, UInt32 1),
        (16, UInt32 1), (17, UInt32 100), (18, UInt32 100), (19, UInt32 100), (20, UInt32 100),
        (21, UInt32 1), (22, UInt32 1)]"

definition HandleCreateRole_x ::
    "pb_object \<Rightarrow> pb_object \<Rightarrow> pb_object \<Rightarrow> pb_object \<Rightarrow> login_app handler" where
  "HandleCreateRole_x raw1 raw2 raw3 raw4 cmd connection recvMsg a =
     (case parse_object CGCSendCreateRole recvMsg (CGCSendCreateRole_SharedCtor raw1) of
        None \<Rightarrow> Inr a
      | Some inData \<Rightarrow>
          rbind (copy_object CGCSendCreateRole_Clear CGCSendCreateRole_MergeFrom False inData (user_object raw2 connection a))
            (\<lambda>user.
          let a1 = a\<lparr>m_UserList := (m_UserList a)(connection \<mapsto> message_of CGCSendCreateRole user)\<rparr>
          in rbind (run [set_field_x CGCSendCreateRoleRet_accessors 1 (Int32 0)] (CGCSendCreateRoleRet_SharedCtor raw3))
               (\<lambda>loginRet.
             rbind (SendClient (word_of_int connection) G2C_RoleCreateRet
                      (Some (serialize_object CGCSendCreateRoleRet_ByteSize CGCSendCreateRoleRet_Serialize loginRet)) a1)
               (\<lambda>a2.
             rbind (run (role_setters inData) (CGSNotifyRoleBaseInfo_SharedCtor raw4))
               (\<lambda>roleRet. SendClient (word_of_int connection) G2C_RoleList
                  (Some (serialize_object CGSNotifyRoleBaseInfo_ByteSize CGSNotifyRoleBaseInfo_Serialize roleRet)) a2)))))"

definition HandleSelectRole_x :: "pb_object \<Rightarrow> pb_object \<Rightarrow> login_app handler" where
  "HandleSelectRole_x raw1 raw2 cmd connection recvMsg a =
     (case parse_object CGCAskSelectRole recvMsg (CGCAskSelectRole_SharedCtor raw1) of
        None \<Rightarrow> Inr a
      | Some inData \<Rightarrow>
          rbind (run (map (\<lambda>(n, v). set_field_x CGSNotifyChangeScene_accessors n v)
                   [(1, UInt32 100000001), (2, UInt32 1), (3, UInt32 19),
                    (4, Float 0xC007AE14), (5, Float 0xBF51EB85), (6, Float 0xBC23D70A)])
                   (CGSNotifyChangeScene_SharedCtor raw2))
            (\<lambda>outData. SendClient (word_of_int connection) G2C_RoleChangeScene
               (Some (serialize_object CGSNotifyChangeScene_ByteSize CGSNotifyChangeScene_Serialize outData)) a))"

subsection \<open>The classes of the handlers\<close>

interpretation login_ret_accessors: accessor_class CRequestLoginRet CRequestLoginRet_SharedCtor CRequestLoginRet_Clear
    CRequestLoginRet_MergeFrom CRequestLoginRet_ByteSize CRequestLoginRet_Serialize CRequestLoginRet_InternalSwap
    CRequestLoginRet_accessors
  by (intro accessor_class.intro CRequestLoginRet_class accessor_class_axioms.intro CRequestLoginRet_accessors_ok)

interpretation create_role: accessor_class CGCSendCreateRole CGCSendCreateRole_SharedCtor CGCSendCreateRole_Clear
    CGCSendCreateRole_MergeFrom CGCSendCreateRole_ByteSize CGCSendCreateRole_Serialize CGCSendCreateRole_InternalSwap
    CGCSendCreateRole_accessors
  by (intro accessor_class.intro CGCSendCreateRole_class accessor_class_axioms.intro CGCSendCreateRole_accessors_ok)

interpretation create_role_ret: accessor_class CGCSendCreateRoleRet CGCSendCreateRoleRet_SharedCtor
    CGCSendCreateRoleRet_Clear CGCSendCreateRoleRet_MergeFrom CGCSendCreateRoleRet_ByteSize
    CGCSendCreateRoleRet_Serialize CGCSendCreateRoleRet_InternalSwap CGCSendCreateRoleRet_accessors
  by (intro accessor_class.intro CGCSendCreateRoleRet_class accessor_class_axioms.intro CGCSendCreateRoleRet_accessors_ok)

interpretation role_info: accessor_class CGSNotifyRoleBaseInfo CGSNotifyRoleBaseInfo_SharedCtor
    CGSNotifyRoleBaseInfo_Clear CGSNotifyRoleBaseInfo_MergeFrom CGSNotifyRoleBaseInfo_ByteSize
    CGSNotifyRoleBaseInfo_Serialize CGSNotifyRoleBaseInfo_InternalSwap CGSNotifyRoleBaseInfo_accessors
  by (intro accessor_class.intro CGSNotifyRoleBaseInfo_class accessor_class_axioms.intro CGSNotifyRoleBaseInfo_accessors_ok)

interpretation select_role: message_class CGCAskSelectRole CGCAskSelectRole_SharedCtor CGCAskSelectRole_Clear
    CGCAskSelectRole_MergeFrom CGCAskSelectRole_ByteSize CGCAskSelectRole_Serialize CGCAskSelectRole_InternalSwap
  by (rule CGCAskSelectRole_class)

interpretation change_scene_class: accessor_class CGSNotifyChangeScene CGSNotifyChangeScene_SharedCtor
    CGSNotifyChangeScene_Clear CGSNotifyChangeScene_MergeFrom CGSNotifyChangeScene_ByteSize
    CGSNotifyChangeScene_Serialize CGSNotifyChangeScene_InternalSwap CGSNotifyChangeScene_accessors
  by (intro accessor_class.intro CGSNotifyChangeScene_class accessor_class_axioms.intro CGSNotifyChangeScene_accessors_ok)

subsection \<open>The handlers on objects do what the handlers on messages do\<close>

lemma HandleLogin_x_eq: "HandleLogin_x raw1 raw2 = HandleLogin"
proof (intro ext)
  fix cmd connection recvMsg a
  note parse = parse_object_message [OF login_class.good, where bs = recvMsg and x = "CRequestLogin_SharedCtor raw1"]
  show "HandleLogin_x raw1 raw2 cmd connection recvMsg a = HandleLogin cmd connection recvMsg a"
  proof (cases "ParseFromString CRequestLogin recvMsg")
    case None
    then show ?thesis using parse(1) by (simp add: HandleLogin_x_def HandleLogin_def)
  next
    case (Some m)
    obtain x where x: "parse_object CRequestLogin recvMsg (CRequestLogin_SharedCtor raw1) = Some x"
      "object_ok CRequestLogin x" "message_of CRequestLogin x = m"
      using parse(2) [OF Some] by blast
    have name: "as_string (get_field_x CRequestLogin_accessors 1 x) = get_string m 1"
      using login_accessors.get_field_message(1) [OF _ x(2), of 1] x(3)
      by (auto simp: CRequestLogin_accessors_def optional_def get_string_def split: option.split pb_val.split)
    have typed: "typed_fields CRequestLoginRet_accessors [(1, Str (get_string m 1))]"
      by (simp add: typed_fields_def CRequestLoginRet_accessors_def optional_def)
    show ?thesis
      by (rule login_ret_accessors.new_fields_message [OF typed, of raw2])
        (simp add: HandleLogin_x_def HandleLogin_def x(1) Some name Let_def set_field_def del: One_nat_def)
  qed
qed

text \<open>The users are stored as messages of their class; the handlers keep that.\<close>

definition users_typed :: "login_app \<Rightarrow> bool" where
  "users_typed a \<longleftrightarrow> (\<forall>c m. m_UserList a c = Some m \<longrightarrow> msg_typed CGCSendCreateRole m)"

lemma SendClient_users: "SendClient conn cmd msg a = Inr a' \<Longrightarrow> m_UserList a' = m_UserList a"
  by (auto simp: SendClient_def Let_def rbind_Inr_iff echo_push_def split: option.splits)

lemma handlers_keep_users:
  assumes "users_typed a"
  shows "HandleLogin cmd c msg a = Inr a' \<Longrightarrow> users_typed a'"
    and "HandleCreateRole cmd c msg a = Inr a' \<Longrightarrow> users_typed a'"
    and "HandleSelectRole cmd c msg a = Inr a' \<Longrightarrow> users_typed a'"
proof -
  show "HandleLogin cmd c msg a = Inr a' \<Longrightarrow> users_typed a'"
    and "HandleSelectRole cmd c msg a = Inr a' \<Longrightarrow> users_typed a'"
    using assms by (auto simp: HandleLogin_def HandleSelectRole_def users_typed_def Let_def
        dest: SendClient_users split: option.splits)
  show "HandleCreateRole cmd c msg a = Inr a' \<Longrightarrow> users_typed a'"
    using assms ParseFromString_typed [OF create_role.good(1)]
    by (auto simp: HandleCreateRole_def users_typed_def Let_def rbind_Inr_iff
        dest!: SendClient_users split: option.splits if_splits)
qed

lemma user_object_ok: "users_typed a \<Longrightarrow> object_ok CGCSendCreateRole (user_object raw c a)"
  using object_of_message(1) [OF create_role.good] create_role.ctor_message(1)
  by (auto simp: user_object_def users_typed_def split: option.split)

lemma role_setters_message:
  assumes "object_ok CGCSendCreateRole x" and "message_of CGCSendCreateRole x = m"
  obtains y where "run (role_setters x) (CGSNotifyRoleBaseInfo_SharedCtor raw) = Inr y"
    "serialize_object CGSNotifyRoleBaseInfo_ByteSize CGSNotifyRoleBaseInfo_Serialize y =
       SerializeAsString CGSNotifyRoleBaseInfo (role_base_info m)"
proof -
  note get = create_role.get_field_message [OF _ assms(1), unfolded assms(2)]
  have fields: "as_string (get_field_x CGCSendCreateRole_accessors 3 x) = get_string m 3"
    "as_uint32 (get_field_x CGCSendCreateRole_accessors 1 x) = get_uint32 m 1"
    "as_bool (get_field_x CGCSendCreateRole_accessors 2 x) = get_bool m 2"
    using get [of 3] get [of 1] get [of 2]
    by (auto simp: CGCSendCreateRole_accessors_def optional_def get_string_def get_uint32_def get_bool_def
        simp del: One_nat_def split: option.splits pb_val.splits)
  let ?fs = "[(1, UInt32 1), (2, Str (get_string m 3)), (3, Int32 (get_uint32 m 1)), (4, Bool (get_bool m 2)),
        (5, UInt32 1), (6, UInt32 1), (6, UInt32 1), (7, UInt32 1), (8, UInt32 1), (9, UInt32 1),
        (10, UInt32 1), (11, UInt32 1), (12, UInt32 1), (13, UInt32 1), (14, UInt32 1), (15, UInt32 1),
        (16, UInt32 1), (17, UInt32 100), (18, UInt32 100), (19, UInt32 100), (20, UInt32 100),
        (21, UInt32 1), (22, UInt32 1)]"
  have typed: "typed_fields CGSNotifyRoleBaseInfo_accessors ?fs"
    by (simp add: typed_fields_def CGSNotifyRoleBaseInfo_accessors_def optional_def)
  have role: "fold (\<lambda>(n, v). set_field n v) ?fs pb_new = role_base_info m"
    by (simp add: set_field_def role_base_info_def)
  show thesis
    using that unfolding role_setters_def fields
    by (rule role_info.new_fields_message [OF typed, of raw, unfolded role])
qed

lemma HandleCreateRole_x_eq:
  assumes "users_typed a"
  shows "HandleCreateRole_x raw1 raw2 raw3 raw4 cmd connection recvMsg a = HandleCreateRole cmd connection recvMsg a"
proof (cases "ParseFromString CGCSendCreateRole recvMsg")
  note parse = parse_object_message [OF create_role.good, where bs = recvMsg and x = "CGCSendCreateRole_SharedCtor raw1"]
  case None
  then show ?thesis using parse(1) by (simp add: HandleCreateRole_x_def HandleCreateRole_def)
next
  note parse = parse_object_message [OF create_role.good, where bs = recvMsg and x = "CGCSendCreateRole_SharedCtor raw1"]
  case (Some m)
  obtain x where x: "parse_object CGCSendCreateRole recvMsg (CGCSendCreateRole_SharedCtor raw1) = Some x"
    "object_ok CGCSendCreateRole x" "message_of CGCSendCreateRole x = m"
    using parse(2) [OF Some] by blast
  obtain user where user: "copy_object CGCSendCreateRole_Clear CGCSendCreateRole_MergeFrom False x
      (user_object raw2 connection a) = Inr user" "message_of CGCSendCreateRole user = m"
    using create_role.copy_message [OF x(2) user_object_ok [OF assms, of raw2 connection]] x(3) by blast
  have typed: "typed_fields CGCSendCreateRoleRet_accessors [(1, Int32 0)]"
    by (simp add: typed_fields_def CGCSendCreateRoleRet_accessors_def optional_def)
  obtain ret where ret:
    "run [set_field_x CGCSendCreateRoleRet_accessors 1 (Int32 0)] (CGCSendCreateRoleRet_SharedCtor raw3) = Inr ret"
    "serialize_object CGCSendCreateRoleRet_ByteSize CGCSendCreateRoleRet_Serialize ret =
       SerializeAsString CGCSendCreateRoleRet (pb_set 1 (Int32 0) pb_new)"
    by (rule create_role_ret.new_fields_message [OF typed, of raw3]) (simp add: set_field_def)
  obtain role where role: "run (role_setters x) (CGSNotifyRoleBaseInfo_SharedCtor raw4) = Inr role"
    "serialize_object CGSNotifyRoleBaseInfo_ByteSize CGSNotifyRoleBaseInfo_Serialize role =
       SerializeAsString CGSNotifyRoleBaseInfo (role_base_info m)"
    by (rule role_setters_message [OF x(2,3)])
  show ?thesis
    by (simp add: HandleCreateRole_x_def HandleCreateRole_def x(1) Some user ret role Let_def del: One_nat_def)
qed

lemma HandleSelectRole_x_eq: "HandleSelectRole_x raw1 raw2 = HandleSelectRole"
proof (intro ext)
  fix cmd connection recvMsg a
  note parse = parse_object_message [OF select_role.good, where bs = recvMsg and x = "CGCAskSelectRole_SharedCtor raw1"]
  let ?fs = "[(1, UInt32 100000001), (2, UInt32 1), (3, UInt32 19),
              (4, Float 0xC007AE14), (5, Float 0xBF51EB85), (6, Float 0xBC23D70A)]"
  show "HandleSelectRole_x raw1 raw2 cmd connection recvMsg a = HandleSelectRole cmd connection recvMsg a"
  proof (cases "ParseFromString CGCAskSelectRole recvMsg")
    case None
    then show ?thesis using parse(1) by (simp add: HandleSelectRole_x_def HandleSelectRole_def)
  next
    case (Some m)
    obtain x where x: "parse_object CGCAskSelectRole recvMsg (CGCAskSelectRole_SharedCtor raw1) = Some x"
      using parse(2) [OF Some] by blast
    have typed: "typed_fields CGSNotifyChangeScene_accessors ?fs"
      by (simp add: typed_fields_def CGSNotifyChangeScene_accessors_def optional_def)
    have fields: "fold (\<lambda>(n, v). set_field n v) ?fs pb_new = change_scene"
      by (simp add: set_field_def change_scene_def)
    show ?thesis
      using x Some by (rule_tac change_scene_class.new_fields_message [OF typed, of raw2])
        (simp add: HandleSelectRole_x_def HandleSelectRole_def fields [simplified])
  qed
qed

end
