(* ===== verification/ServerStreams.thy ===== *)
theory ServerStreams
  imports TcpServer
begin

text \<open>
  The life of the stream objects of \<open>uv::TCPServer\<close> (NetFrame.cpp): \<open>on_connection\<close> allocates one with
  \<open>malloc\<close>, \<open>after_shutdown\<close> closes it and \<open>on_close\<close> frees it. The server's step function is the one of
  TcpServer; what is added is what libuv and the allocator know of a stream: whether it is allocated, read,
  about to be shut down or being closed. The theory shows when the two connection tables are inverse to each
  other, and the run in which they are not.
\<close>

subsection \<open>The streams around the server\<close>

record net_world =
  nw_srv :: tcp_server
  nw_heap :: "handle set"       \<comment> \<open>allocated and not freed\<close>
  nw_reading :: "handle set"    \<comment> \<open>\<open>uv_read_start\<close> has succeeded and libuv has not stopped reading\<close>
  nw_shutting :: "handle set"   \<comment> \<open>\<open>uv_shutdown\<close> has been called, \<open>after_shutdown\<close> has not run\<close>
  nw_closing :: "handle set"    \<comment> \<open>\<open>uv_close\<close> has been called, \<open>on_close\<close> has not run\<close>

definition net_start :: "tcp_server \<Rightarrow> net_world" where
  "net_start s = \<lparr>nw_srv = s, nw_heap = {}, nw_reading = {}, nw_shutting = {}, nw_closing = {}\<rparr>"

datatype net_event =
    Nw_srv srv_event
  | Nw_freed handle

text \<open>
  \<open>malloc\<close> returns an address that is not in use. A stream is read when reading has been started on it. The
  callback of a shutdown runs when one was asked for.
\<close>

fun net_enabled :: "net_world \<Rightarrow> srv_event \<Rightarrow> bool" where
  "net_enabled w (Ev_connect status stream r1 r2 r3) =
     (status = 0 \<longrightarrow> (case stream of None \<Rightarrow> True | Some h \<Rightarrow> h \<notin> nw_heap w))"
| "net_enabled w (Ev_read h nread buf) = (h \<in> nw_reading w)"
| "net_enabled w (Ev_shutdown_done h) = (h \<in> nw_shutting w)"
| "net_enabled w _ = True"

text \<open>The streams whose shutdown a step of the server asks for.\<close>

fun shutdowns :: "uv_action list \<Rightarrow> handle set" where
  "shutdowns [] = {}"
| "shutdowns (UvShutdown h # l) = insert h (shutdowns l)"
| "shutdowns (_ # l) = shutdowns l"

definition new_shutdowns :: "tcp_server \<Rightarrow> tcp_server \<Rightarrow> handle set" where
  "new_shutdowns s s' = shutdowns (drop (length (ts_log s)) (ts_log s'))"

fun heap_after :: "srv_event \<Rightarrow> handle set \<Rightarrow> handle set" where
  "heap_after (Ev_connect status (Some h) r1 r2 r3) H = (if status = 0 then insert h H else H)"
| "heap_after _ H = H"

text \<open>libuv stops reading a stream when the read fails and when the stream is closed.\<close>

fun reading_after :: "srv_event \<Rightarrow> handle set \<Rightarrow> handle set" where
  "reading_after (Ev_connect status (Some h) r1 r2 r3) R =
     (if status = 0 \<and> r1 = 0 \<and> r2 = 0 \<and> r3 = 0 then insert h R else R)"
| "reading_after (Ev_read h nread buf) R = (if nread < 0 then R - {h} else R)"
| "reading_after (Ev_shutdown_done h) R = R - {h}"
| "reading_after _ R = R"

fun pending_after :: "srv_event \<Rightarrow> handle set \<Rightarrow> handle set" where
  "pending_after (Ev_shutdown_done h) S = S - {h}"
| "pending_after _ S = S"

fun closing_after :: "srv_event \<Rightarrow> handle set \<Rightarrow> handle set" where
  "closing_after (Ev_shutdown_done h) C = insert h C"
| "closing_after _ C = C"

definition net_after :: "net_world \<Rightarrow> srv_event \<Rightarrow> tcp_server \<Rightarrow> net_world" where
  "net_after w e s' =
     \<lparr>nw_srv = s', nw_heap = heap_after e (nw_heap w), nw_reading = reading_after e (nw_reading w),
      nw_shutting = pending_after e (nw_shutting w) \<union> new_shutdowns (nw_srv w) s',
      nw_closing = closing_after e (nw_closing w)\<rparr>"

definition on_close :: "handle \<Rightarrow> net_world \<Rightarrow> net_world" where
  "on_close h w =
     w\<lparr>nw_heap := nw_heap w - {h}, nw_reading := nw_reading w - {h},
       nw_shutting := nw_shutting w - {h}, nw_closing := nw_closing w - {h}\<rparr>"

inductive net_step :: "net_world \<Rightarrow> net_event \<Rightarrow> net_world \<Rightarrow> bool" where
  net_srv: "net_enabled w e \<Longrightarrow> srv_step e (nw_srv w) = Inr s' \<Longrightarrow>
     net_step w (Nw_srv e) (net_after w e s')"
| net_freed: "h \<in> nw_closing w \<Longrightarrow> net_step w (Nw_freed h) (on_close h w)"

inductive_cases net_step_cases: "net_step w e w'"

inductive_simps net_step_simps: "net_step w (Nw_srv e) w'" "net_step w (Nw_freed h) w'"

inductive net_run :: "net_world \<Rightarrow> net_event list \<Rightarrow> net_world \<Rightarrow> bool" where
  net_run_nil: "net_run w [] w"
| net_run_snoc: "net_run w es w' \<Longrightarrow> net_step w' e w'' \<Longrightarrow> net_run w (es @ [e]) w''"

subsection \<open>Every run\<close>

lemma net_step_ok:
  assumes "net_step w e w'" and "server_ok n (nw_srv w)" and "n < 2 ^ 32 - 1"
  shows "server_ok (Suc n) (nw_srv w')"
  using assms(1)
proof (cases rule: net_step.cases)
  case (net_srv se s')
  then show ?thesis using srv_ok.event_inv [OF assms(2,3)] by (simp add: net_after_def)
next
  case (net_freed h)
  then show ?thesis using assms(2) ids_ok_Suc by (simp add: on_close_def server_ok_def)
qed

lemma net_run_ok:
  assumes "net_run w es w'" and "server_ok n (nw_srv w)" and "n + length es \<le> 2 ^ 32 - 1"
  shows "server_ok (n + length es) (nw_srv w')"
  using assms
proof (induction rule: net_run.induct)
  case (net_run_snoc w es w' e w'')
  then have "server_ok (n + length es) (nw_srv w')" by simp
  with net_step_ok [OF net_run_snoc.hyps(2)] net_run_snoc.prems(2) show ?case by simp
qed simp

subsection \<open>Runs in which no connection is kicked\<close>

text \<open>
  The logic thread asks for the end of a connection by pushing a message without a buffer. It is the only
  way to shut down a stream that is in the tables.
\<close>

fun kicks :: "net_event \<Rightarrow> bool" where
  "kicks (Nw_srv (Ev_push c None n)) = True"
| "kicks _ = False"

definition listed :: "tcp_server \<Rightarrow> handle set" where
  "listed s = snd ` set (m_OnlineID s)"

text \<open>
  Every stream in the tables is allocated and is not going away, every stream that is read is in the tables,
  and no message without a buffer is queued.
\<close>

definition streams_live :: "net_world \<Rightarrow> bool" where
  "streams_live w \<longleftrightarrow>
     srv_linked (nw_srv w) \<and> listed (nw_srv w) \<subseteq> nw_heap w
     \<and> nw_reading w \<subseteq> listed (nw_srv w)
     \<and> nw_shutting w \<subseteq> nw_heap w \<and> nw_closing w \<subseteq> nw_heap w
     \<and> listed (nw_srv w) \<inter> (nw_shutting w \<union> nw_closing w) = {}
     \<and> 0 \<notin> ran (map_of (m_OnlineStream (nw_srv w)))
     \<and> (\<forall>m \<in> set (m_SendMessage (nw_srv w)). mi_buf m \<noteq> None)"

lemma listed_map: "distinct (map fst (m_OnlineID s)) \<Longrightarrow> h \<in> listed s \<longleftrightarrow> (\<exists>c. map_of (m_OnlineID s) c = Some h)"
  by (force simp: listed_def dest: map_of_SomeD)

lemma listed_frame: "m_OnlineID s' = m_OnlineID s \<Longrightarrow> listed s' = listed s"
  by (simp add: listed_def)

lemma shutdowns_append [simp]: "shutdowns (k @ l) = shutdowns k \<union> shutdowns l"
  by (induction k rule: shutdowns.induct) auto

lemma new_shutdowns_log: "ts_log s' = ts_log s @ l \<Longrightarrow> new_shutdowns s s' = shutdowns l"
  by (simp add: new_shutdowns_def)

lemma PushRecv_log [simp]:
  "ts_log (PushRecvMessage h buf n s) = ts_log s"
  "m_SendMessage (PushRecvMessage h buf n s) = m_SendMessage s"
  by (simp_all add: PushRecvMessage_def stream_subscript_def split: prod.split option.split)

lemma Release_log [simp]:
  "ts_log (ReleaseConnection h s) = ts_log s" "m_SendMessage (ReleaseConnection h s) = m_SendMessage s"
  by (simp_all add: ReleaseConnection_def Let_def split: option.split)

text \<open>What a step does to the streams in the tables and which shutdowns it asks for.\<close>

lemma failed_read:
  assumes "srv_linked s" and "map_of (m_OnlineID s) c = Some h" and "n < 0" and "after_read h n buf s = Inr s'"
  shows "listed s' = listed s - {h}" and "srv_linked s'" and "new_shutdowns s s' \<subseteq> {h}"
    and "m_SendMessage s' = m_SendMessage s"
    and "map_of (m_OnlineStream s') = (map_of (m_OnlineStream s))(h := None)"
proof -
  let ?t = "if n = UV_EOF \<or> n = UV_ECONNRESET then s else log_action (UvShutdown h) s"
  have s': "s' = ReleaseConnection h (PushRecvMessage h None 0 ?t)"
    using after_read_cases [OF assms(4)] assms(3) by auto
  have "srv_linked ?t" using assms(1) by (simp add: srv_linked_def)
  then show linked: "srv_linked s'" unfolding s' by (intro linked_release PushRecv_linked)
  show "m_SendMessage s' = m_SendMessage s" by (simp add: s')
  have "ts_log s' = ts_log s @ (if n = UV_EOF \<or> n = UV_ECONNRESET then [] else [UvShutdown h])"
    by (simp add: s')
  then show "new_shutdowns s s' \<subseteq> {h}" by (simp add: new_shutdowns_log)
  have maps: "map_of (m_OnlineID s') = (map_of (m_OnlineID s))(c := None)"
    "map_of (m_OnlineStream s') = (map_of (m_OnlineStream s))(h := None)"
    using disconnect_effect [OF assms(1-3), of buf] assms(4) by auto
  show "map_of (m_OnlineStream s') = (map_of (m_OnlineStream s))(h := None)" by (rule maps)
  have own: "d = c" if "map_of (m_OnlineID s) d = Some h" for d
    using linked_inj [OF assms(1) that assms(2)] .
  show "listed s' = listed s - {h}"
  proof (rule set_eqI)
    fix g
    have "g \<in> listed s' \<longleftrightarrow> (\<exists>d. map_of (m_OnlineID s') d = Some g)"
      using linked by (intro listed_map) (simp add: srv_linked_def)
    also have "\<dots> \<longleftrightarrow> (\<exists>d. d \<noteq> c \<and> map_of (m_OnlineID s) d = Some g)"
      by (auto simp: maps(1))
    also have "\<dots> \<longleftrightarrow> g \<noteq> h \<and> (\<exists>d. map_of (m_OnlineID s) d = Some g)"
      using own assms(2) by (metis option.inject)
    also have "\<dots> \<longleftrightarrow> g \<in> listed s - {h}"
      using listed_map [of s g] assms(1) by (auto simp: srv_linked_def)
    finally show "g \<in> listed s' \<longleftrightarrow> g \<in> listed s - {h}" .
  qed
qed

lemma good_read:
  assumes "srv_linked s" and "map_of (m_OnlineID s) c = Some h" and "0 \<le> n" and "after_read h n buf s = Inr s'"
  shows "m_OnlineID s' = m_OnlineID s" "m_OnlineStream s' = m_OnlineStream s"
    "m_SendMessage s' = m_SendMessage s" "new_shutdowns s s' = {}"
proof -
  have "s' = s \<or> (\<exists>b k. s' = PushRecvMessage h b k s)"
    using after_read_cases [OF assms(4)] assms(3) by auto
  then have "m_OnlineID s' = m_OnlineID s \<and> m_OnlineStream s' = m_OnlineStream s
      \<and> m_SendMessage s' = m_SendMessage s \<and> ts_log s' = ts_log s"
    by (auto simp: PushRecv_known [OF assms(1,2)])
  then show "m_OnlineID s' = m_OnlineID s" "m_OnlineStream s' = m_OnlineStream s"
    "m_SendMessage s' = m_SendMessage s" "new_shutdowns s s' = {}"
    by (simp_all add: new_shutdowns_def)
qed

lemma send_one_shutdowns:
  assumes "send_one m s = Inr s'" and "mi_buf m \<noteq> None"
  shows "\<exists>l. ts_log s' = ts_log s @ l \<and> shutdowns l = {}"
  using assms by (auto simp: send_one_def rbind_Inr_iff split: option.splits if_splits)

lemma timer_shutdowns:
  assumes "timer_cb s = Inr s'" and "\<forall>m \<in> set (m_SendMessage s). mi_buf m \<noteq> None"
  shows "new_shutdowns s s' = {}" and "set (m_SendMessage s') \<subseteq> set (m_SendMessage s)"
proof -
  have tail: "ts_log s' = ts_log t @ l \<and> shutdowns l = {} \<and> m_SendMessage s' = m_SendMessage t"
    if "(if ts_status t = CLOSE then Inr (log_action UvStop t) else Inr (log_action UvTimerStart t)) = (Inr s' :: tcp_server res)"
      "l = (if ts_status t = CLOSE then [UvStop] else [UvTimerStart])" for t l
    using that by (auto split: if_splits)
  have "new_shutdowns s s' = {} \<and> set (m_SendMessage s') \<subseteq> set (m_SendMessage s)"
  proof (cases "m_SendMessage s")
    case Nil
    then show ?thesis
      using assms(1) tail [of s] by (auto simp: timer_cb_def GetSendMessage_def new_shutdowns_def split: if_splits)
  next
    case (Cons m q)
    then have send: "rbind (send_one m (s\<lparr>m_SendMessage := q\<rparr>)) (\<lambda>t.
        if ts_status t = CLOSE then Inr (log_action UvStop t) else Inr (log_action UvTimerStart t)) = Inr s'"
      using assms(1) by (simp add: timer_cb_def GetSend_Cons)
    then obtain t where t: "send_one m (s\<lparr>m_SendMessage := q\<rparr>) = Inr t"
      and fin: "(if ts_status t = CLOSE then Inr (log_action UvStop t) else Inr (log_action UvTimerStart t)) = (Inr s' :: tcp_server res)"
      by (auto simp: rbind_Inr_iff)
    obtain l where "ts_log t = ts_log s @ l" "shutdowns l = {}"
      using send_one_shutdowns [OF t] assms(2) Cons by auto
    then show ?thesis
      using tail [OF fin refl] send_one_ids(5) [OF t] Cons by (auto simp: new_shutdowns_def)
  qed
  then show "new_shutdowns s s' = {}" and "set (m_SendMessage s') \<subseteq> set (m_SendMessage s)"
    by blast+
qed

lemma set_update_new: "k \<notin> fst ` set al \<Longrightarrow> set (AList.update k v al) = insert (k, v) (set al)"
  by (induction al) auto

lemma get_frame:
  assumes "GetConnectionID s = (d, t)"
  shows "m_OnlineID t = m_OnlineID s" "ts_log t = ts_log s" "m_SendMessage t = m_SendMessage s"
    "m_OnlineStream t = m_OnlineStream s"
  using assms by (auto simp: GetConnectionID_def split: list.splits)

lemma streams_liveI:
  assumes "srv_linked (nw_srv w)" and "listed (nw_srv w) \<subseteq> nw_heap w"
    and "nw_reading w \<subseteq> listed (nw_srv w)"
    and "nw_shutting w \<union> nw_closing w \<subseteq> nw_heap w - listed (nw_srv w)"
    and "0 \<notin> ran (map_of (m_OnlineStream (nw_srv w)))"
    and "\<forall>m \<in> set (m_SendMessage (nw_srv w)). mi_buf m \<noteq> None"
  shows "streams_live w"
  using assms unfolding streams_live_def by blast

lemma streams_liveD:
  assumes "streams_live w"
  shows "srv_linked (nw_srv w)" and "listed (nw_srv w) \<subseteq> nw_heap w"
    and "nw_reading w \<subseteq> listed (nw_srv w)"
    and "nw_shutting w \<union> nw_closing w \<subseteq> nw_heap w - listed (nw_srv w)"
    and "0 \<notin> ran (map_of (m_OnlineStream (nw_srv w)))"
    and "\<forall>m \<in> set (m_SendMessage (nw_srv w)). mi_buf m \<noteq> None"
  using assms unfolding streams_live_def by blast+

lemma net_after_simps [simp]:
  "nw_srv (net_after w e s') = s'" "nw_heap (net_after w e s') = heap_after e (nw_heap w)"
  "nw_reading (net_after w e s') = reading_after e (nw_reading w)"
  "nw_shutting (net_after w e s') = pending_after e (nw_shutting w) \<union> new_shutdowns (nw_srv w) s'"
  "nw_closing (net_after w e s') = closing_after e (nw_closing w)"
  by (simp_all add: net_after_def)

lemma new_shutdowns_same [simp]: "ts_log s' = ts_log s \<Longrightarrow> new_shutdowns s s' = {}"
  by (simp add: new_shutdowns_def)

text \<open>An event that leaves the tables alone and asks for no shutdown.\<close>

lemma live_quiet:
  assumes "streams_live w" and "m_OnlineID s' = m_OnlineID (nw_srv w)"
    and "m_OnlineStream s' = m_OnlineStream (nw_srv w)"
    and "\<forall>m \<in> set (m_SendMessage s'). mi_buf m \<noteq> None"
    and "new_shutdowns (nw_srv w) s' = {}"
    and "heap_after e (nw_heap w) \<supseteq> nw_heap w" and "reading_after e (nw_reading w) \<subseteq> nw_reading w"
    and "pending_after e (nw_shutting w) \<subseteq> nw_shutting w"
    and "closing_after e (nw_closing w) \<subseteq> nw_shutting w \<union> nw_closing w"
  shows "streams_live (net_after w e s')"
proof (rule streams_liveI; unfold net_after_simps listed_frame [OF assms(2)])
  show "srv_linked s'" using linked_frame [OF assms(2,3)] streams_liveD(1) [OF assms(1)] by simp
  show "pending_after e (nw_shutting w) \<union> new_shutdowns (nw_srv w) s' \<union> closing_after e (nw_closing w)
      \<subseteq> heap_after e (nw_heap w) - listed (nw_srv w)"
    using streams_liveD(4) [OF assms(1)] assms(5-9) by blast
qed (use assms(3-7) streams_liveD [OF assms(1)] in auto)

lemma net_connect_live:
  assumes "streams_live w" and "ids_ok n (nw_srv w)" and "n < 2 ^ 32 - 1"
    and "net_enabled w (Ev_connect st stream r1 r2 r3)"
    and "on_connection st stream r1 r2 r3 (nw_srv w) = s'"
  shows "streams_live (net_after w (Ev_connect st stream r1 r2 r3) s')"
  using on_connection_cases [OF assms(5)]
proof (elim disjE exE conjE)
  assume "s' = nw_srv w" and "\<not> (st = 0 \<and> stream \<noteq> None \<and> r1 = 0 \<and> r2 = 0 \<and> r3 = 0)"
  then show ?thesis
    using streams_liveD(6) [OF assms(1)] by (intro live_quiet [OF assms(1)]) (cases stream; auto)+
next
  fix d t g
  assume all: "st = 0" "stream = Some g" "r1 = 0" "r2 = 0" "r3 = 0"
    and get: "GetConnectionID (nw_srv w) = (d, t)" and s': "s' = AddConnection d g t"
  note live = streams_liveD [OF assms(1)]
  note new = GetConnectionID_ok [OF assms(2,3) get]
  note t = get_frame [OF get]
  have "d \<in> online_ids (AddConnection d g t)" by simp
  then have "1 \<le> unat d" using new(4) unfolding ids_ok_def by blast
  then have d: "d \<noteq> 0" by auto
  have g: "g \<notin> nw_heap w" using assms(4) all by simp
  have listed: "listed s' = insert g (listed (nw_srv w))"
    using new(1) by (simp add: s' t online_ids_def set_update_new listed_def)
  show ?thesis
  proof (rule streams_liveI; unfold net_after_simps)
    show "srv_linked s'"
      unfolding s' using live(1,2) g linked_get [OF live(1) get] by (intro linked_add) (auto simp: listed_def)
    show "0 \<notin> ran (map_of (m_OnlineStream s'))"
      using live(5) d by (auto simp: s' t alist_simps ran_def)
    show "\<forall>m \<in> set (m_SendMessage s'). mi_buf m \<noteq> None"
      using live(6) by (simp add: s' t)
    have "new_shutdowns (nw_srv w) s' = {}" by (simp add: s' t)
    then show "pending_after (Ev_connect st stream r1 r2 r3) (nw_shutting w) \<union> new_shutdowns (nw_srv w) s'
        \<union> closing_after (Ev_connect st stream r1 r2 r3) (nw_closing w)
      \<subseteq> heap_after (Ev_connect st stream r1 r2 r3) (nw_heap w) - listed s'"
      using live(4) g by (auto simp: all listed)
  qed (use live(2,3) in \<open>auto simp: all listed\<close>)
qed

lemma net_read_live:
  assumes "streams_live w" and "h \<in> nw_reading w" and "after_read h k buf (nw_srv w) = Inr s'"
  shows "streams_live (net_after w (Ev_read h k buf) s')"
proof -
  note live = streams_liveD [OF assms(1)]
  have h: "h \<in> listed (nw_srv w)" using assms(2) live(3) by blast
  then obtain c where c: "map_of (m_OnlineID (nw_srv w)) c = Some h"
    using live(1) by (auto simp: listed_map srv_linked_def)
  show ?thesis
  proof (cases "k < 0")
    case True
    note read = failed_read [OF live(1) c True assms(3)]
    show ?thesis
    proof (rule streams_liveI; unfold net_after_simps read(1))
      show "srv_linked s'" by (rule read(2))
      show "0 \<notin> ran (map_of (m_OnlineStream s'))"
        using live(5) by (auto simp: read(5) ran_def)
      show "pending_after (Ev_read h k buf) (nw_shutting w) \<union> new_shutdowns (nw_srv w) s'
          \<union> closing_after (Ev_read h k buf) (nw_closing w)
        \<subseteq> heap_after (Ev_read h k buf) (nw_heap w) - (listed (nw_srv w) - {h})"
        using live(2,4) read(3) h by auto
    qed (use live(2,3,6) read(4) True in auto)
  next
    case False
    note read = good_read [OF live(1) c _ assms(3)]
    show ?thesis
      using live(6) False read by (intro live_quiet [OF assms(1)]) auto
  qed
qed

lemma net_step_live:
  assumes "net_step w e w'" and "\<not> kicks e" and "streams_live w" and "ids_ok n (nw_srv w)" and "n < 2 ^ 32 - 1"
  shows "streams_live w'"
  using assms(1)
proof (cases rule: net_step.cases)
  case (net_freed h)
  note live = streams_liveD [OF assms(3)]
  show ?thesis
    unfolding net_freed(2)
    by (rule streams_liveI) (use live net_freed(3) in \<open>auto simp: on_close_def\<close>)
next
  case (net_srv se s')
  note live = streams_liveD [OF assms(3)]
  show ?thesis
  proof (cases se)
    case (Ev_connect st stream r1 r2 r3)
    then show ?thesis using net_srv net_connect_live [OF assms(3-5)] by simp
  next
    case (Ev_read h k buf)
    then show ?thesis using net_srv net_read_live [OF assms(3)] by simp
  next
    case (Ev_shutdown_done h)
    then have s': "s' = log_action (UvClose h) (nw_srv w)" "h \<in> nw_shutting w"
      using net_srv by (simp_all add: after_shutdown_def)
    show ?thesis
      unfolding net_srv(2)
      by (rule live_quiet [OF assms(3)]) (use live(6) s' Ev_shutdown_done in \<open>auto simp: new_shutdowns_log\<close>)
  next
    case Ev_timer
    then have t: "timer_cb (nw_srv w) = Inr s'" using net_srv by simp
    show ?thesis
      unfolding net_srv(2)
      by (rule live_quiet [OF assms(3)])
        (use live(6) timer_cb_ids [OF t] timer_shutdowns [OF t live(6)] Ev_timer in auto)
  next
    case (Ev_push c buf k)
    then obtain b where "buf = Some b" using assms(2) net_srv(1) by (cases buf) auto
    then show ?thesis
      unfolding net_srv(2)
      by (intro live_quiet [OF assms(3)])
        (use live(6) net_srv(4) Ev_push in \<open>auto simp: PushSendMessage_def queue_push_def\<close>)
  next
    case Ev_get
    then have "s' = snd (GetRecvMessage (nw_srv w))" using net_srv by simp
    then show ?thesis
      unfolding net_srv(2)
      by (intro live_quiet [OF assms(3)])
        (use live(6) Ev_get in \<open>auto simp: GetRecvMessage_def split: option.splits\<close>)
  next
    case Ev_close
    then have "s' = (nw_srv w)\<lparr>ts_status := CLOSE\<rparr>" using net_srv by (simp add: Close_def SetStatus_def)
    then show ?thesis
      unfolding net_srv(2)
      by (intro live_quiet [OF assms(3)]) (use live(6) Ev_close in auto)
  qed
qed

lemma net_start_live: "srv_init s \<Longrightarrow> streams_live (net_start s)"
  using srv_init_empty [of s]
  by (intro streams_liveI) (auto simp: net_start_def srv_linked_def listed_def)

lemma net_run_live:
  assumes "net_run w es w'" and "\<forall>e \<in> set es. \<not> kicks e" and "streams_live w"
    and "server_ok n (nw_srv w)" and "n + length es \<le> 2 ^ 32 - 1"
  shows "streams_live w'"
  using assms
proof (induction rule: net_run.induct)
  case (net_run_snoc w es w' e w'')
  have "server_ok (n + length es) (nw_srv w')"
    using net_run_ok [OF net_run_snoc.hyps(1)] net_run_snoc.prems by simp
  moreover have "streams_live w'" using net_run_snoc by simp
  ultimately show ?case
    using net_step_live [OF net_run_snoc.hyps(2), of "n + length es"] net_run_snoc.prems
    by (simp add: server_ok_def)
qed simp

text \<open>In such a run the tables are inverse to each other and name allocated streams only.\<close>

lemma live_inverse:
  assumes "streams_live w" and "server_ok n (nw_srv w)"
  shows "map_of (m_OnlineID (nw_srv w)) c = Some h \<longleftrightarrow> map_of (m_OnlineStream (nw_srv w)) h = Some c"
    and "map_of (m_OnlineID (nw_srv w)) c = Some h \<Longrightarrow> h \<in> nw_heap w - nw_closing w"
proof -
  note live = streams_liveD [OF assms(1)]
  show "map_of (m_OnlineID (nw_srv w)) c = Some h \<longleftrightarrow> map_of (m_OnlineStream (nw_srv w)) h = Some c"
  proof
    assume "map_of (m_OnlineStream (nw_srv w)) h = Some c"
    moreover from this have "c \<noteq> 0" using live(5) by (auto simp: ran_def)
    ultimately show "map_of (m_OnlineID (nw_srv w)) c = Some h" using server_ok_lookup assms(2) by blast
  qed (rule linked_stream [OF live(1)])
  assume "map_of (m_OnlineID (nw_srv w)) c = Some h"
  then have "h \<in> listed (nw_srv w)" using live(1) by (auto simp: listed_map srv_linked_def)
  then show "h \<in> nw_heap w - nw_closing w" using live(2,4) by blast
qed

subsection \<open>A kicked connection\<close>

lemma net_run_cons: "net_run w' es w'' \<Longrightarrow> net_step w e w' \<Longrightarrow> net_run w (e # es) w''"
proof (induction rule: net_run.induct)
  case (net_run_nil w')
  then show ?case using net_run_snoc [OF net_run.net_run_nil] by fastforce
next
  case (net_run_snoc w' es t f u)
  then show ?case using net_run.net_run_snoc [of w "e # es" t f u] by simp
qed

text \<open>
  When the logic thread ends a connection, the stream is closed and freed while its number stays in the
  table of numbers. The allocator may then return the same address for the next connection, and two numbers
  name one stream.
\<close>

theorem kicked_stream_is_shared:
  assumes "srv_init s"
  shows "\<exists>w. net_run (net_start s)
      [Nw_srv (Ev_connect 0 (Some h) 0 0 0), Nw_srv (Ev_push 1 None 0), Nw_srv Ev_timer,
       Nw_srv (Ev_shutdown_done h), Nw_freed h, Nw_srv (Ev_connect 0 (Some h) 0 0 0)] w
    \<and> map_of (m_OnlineID (nw_srv w)) 1 = Some h \<and> map_of (m_OnlineID (nw_srv w)) 2 = Some h
    \<and> map_of (m_OnlineStream (nw_srv w)) h = Some 2"
proof -
  note empty = srv_init_empty [OF assms]
  have up: "ts_status s \<noteq> CLOSE"
    using assms by (auto simp: srv_init_def TCPServer_new_def rbind_Inr_iff split: if_splits)
  let ?msg = "\<lparr>mi_conn = 1, mi_buf = None, mi_len = 0\<rparr>"
  let ?s1 = "s\<lparr>m_MaxConnectionID := 1, m_OnlineStream := [(h, 1)], m_OnlineID := [(1, h)]\<rparr>"
  let ?s2 = "?s1\<lparr>m_SendMessage := [?msg]\<rparr>"
  let ?s3 = "?s1\<lparr>m_SendMessage := [], ts_log := [UvShutdown h, UvTimerStart]\<rparr>"
  let ?s4 = "?s3\<lparr>ts_log := [UvShutdown h, UvTimerStart, UvClose h]\<rparr>"
  let ?s6 = "?s4\<lparr>m_MaxConnectionID := 2, m_OnlineStream := [(h, 2)], m_OnlineID := [(1, h), (2, h)]\<rparr>"
  have steps: "srv_step (Ev_connect 0 (Some h) 0 0 0) s = Inr ?s1" "srv_step (Ev_push 1 None 0) ?s1 = Inr ?s2"
    "srv_step Ev_timer ?s2 = Inr ?s3" "srv_step (Ev_shutdown_done h) ?s3 = Inr ?s4"
    "srv_step (Ev_connect 0 (Some h) 0 0 0) ?s4 = Inr ?s6"
    using empty up
    by (simp_all add: on_connection_def GetConnectionID_def AddConnection_def PushSendMessage_def
        queue_push_def timer_cb_def GetSendMessage_def send_one_def log_action_def after_shutdown_def)
  let ?w = "\<lambda>t H R S C. \<lparr>nw_srv = t, nw_heap = H, nw_reading = R, nw_shutting = S, nw_closing = C\<rparr>"
  have "net_step (net_start s) (Nw_srv (Ev_connect 0 (Some h) 0 0 0)) (?w ?s1 {h} {h} {} {})"
    "net_step (?w ?s1 {h} {h} {} {}) (Nw_srv (Ev_push 1 None 0)) (?w ?s2 {h} {h} {} {})"
    "net_step (?w ?s2 {h} {h} {} {}) (Nw_srv Ev_timer) (?w ?s3 {h} {h} {h} {})"
    "net_step (?w ?s3 {h} {h} {h} {}) (Nw_srv (Ev_shutdown_done h)) (?w ?s4 {h} {} {} {h})"
    "net_step (?w ?s4 {h} {} {} {h}) (Nw_freed h) (?w ?s4 {} {} {} {})"
    "net_step (?w ?s4 {} {} {} {}) (Nw_srv (Ev_connect 0 (Some h) 0 0 0)) (?w ?s6 {h} {h} {} {})"
    using steps by (simp_all add: net_step_simps net_start_def net_after_def new_shutdowns_def on_close_def empty
        del: srv_step.simps)
  note run = net_run_cons [OF net_run_cons [OF net_run_cons [OF net_run_cons [OF net_run_cons [OF net_run_cons
        [OF net_run_nil this(6)] this(5)] this(4)] this(3)] this(2)] this(1)]
  show ?thesis by (rule exI, rule conjI, rule run) simp_all
qed

end
