(* ===== verification/ClientServer.thy ===== *)
theory ClientServer
  imports TcpClient
begin

text \<open>
  A \<open>TCPClient\<close> connected to the \<open>TCPServer\<close>, with the bytes that are on their way between them. The
  client's and the server's part of a step are the step relations of TcpClient and TcpServer; what is added
  is the stream of bytes. TCP delivers in order and cuts as it likes the bytes of the writes that libuv has
  taken; a write that \<open>uv_write\<close> refuses puts nothing on the wire. The theory shows what arrives at
  \<open>GetRecvMessage\<close> of the server of what was given to \<open>PushSendMssage\<close> of the client.
\<close>

subsection \<open>The composed system\<close>

record link =
  lk_client :: tcp_client
  lk_wire :: "byte list"           \<comment> \<open>taken by libuv from the client, not yet read by the server\<close>
  lk_server :: tcp_server
  lk_taken :: "MessageInfo list"   \<comment> \<open>what the logic thread of the server has taken\<close>

definition buf_bytes :: "byte list option \<Rightarrow> u32 \<Rightarrow> byte list" where
  "buf_bytes buf n = (case buf of None \<Rightarrow> [] | Some bs \<Rightarrow> take (unat n) bs)"

definition bytes_of :: "(byte list option \<times> u32) list \<Rightarrow> byte list" where
  "bytes_of ws = concat (map (\<lambda>(buf, n). buf_bytes buf n) ws)"

text \<open>The writes that a client has tried since it was in the state \<open>c\<close>, with their results.\<close>

definition tries_since :: "tcp_client \<Rightarrow> tcp_client \<Rightarrow> ((byte list option \<times> u32) \<times> int) list" where
  "tries_since c c' = drop (length (client_tries (tc_log c))) (client_tries (tc_log c'))"

text \<open>
  The messages of the client have as many bytes as they say. Its reads do not fail, a write that libuv has
  taken does not fail later, and no further attempt to connect succeeds: after that the client would go on with
  another stream.
\<close>

fun stays_connected :: "cl_event \<Rightarrow> bool" where
  "stays_connected (Cl_push info) =
     (case mi_buf info of None \<Rightarrow> False | Some bs \<Rightarrow> unat (mi_len info) \<le> length bs)"
| "stays_connected (Cl_read nread) = (0 \<le> nread)"
| "stays_connected (Cl_written st) = (st = 0)"
| "stays_connected (Cl_connected st r1 r2) = False"
| "stays_connected _ = True"

datatype link_event =
    Lk_client cl_event
  | Lk_server srv_event
  | Lk_deliver nat "byte list"

text \<open>
  The events of the server that concern the stream object itself: a read of it, and a new connection to which
  \<open>malloc\<close> gives its address.
\<close>

fun touches :: "handle \<Rightarrow> srv_event \<Rightarrow> bool" where
  "touches h (Ev_read h' nread buf) = (h' = h)"
| "touches h (Ev_connect st stream r1 r2 r3) = (stream = Some h)"
| "touches h e = False"

text \<open>The message that an event of the logic thread takes.\<close>

definition taken_by :: "srv_event \<Rightarrow> tcp_server \<Rightarrow> MessageInfo list" where
  "taken_by e s = (if e = Ev_get then (case fst (GetRecvMessage s) of None \<Rightarrow> [] | Some m \<Rightarrow> [m]) else [])"

text \<open>
  A read of the server's stream for this client gets some of the bytes on the wire, in a buffer that may be
  longer. The stream object stays allocated, so that \<open>malloc\<close> does not return its address. All other events
  of the server are free.
\<close>

inductive link_step :: "handle \<Rightarrow> link \<Rightarrow> link_event \<Rightarrow> link \<Rightarrow> bool" for h where
  link_client: "cl_step (lk_client k) e c' \<Longrightarrow> stays_connected e \<Longrightarrow>
     link_step h k (Lk_client e)
       (k\<lparr>lk_client := c', lk_wire := lk_wire k @ bytes_of (accepted_writes (tries_since (lk_client k) c'))\<rparr>)"
| link_deliver: "0 < n \<Longrightarrow> n \<le> length (lk_wire k) \<Longrightarrow> n < 2 ^ 31 \<Longrightarrow>
     srv_step (Ev_read h (int n) (take n (lk_wire k) @ junk)) (lk_server k) = Inr s' \<Longrightarrow>
     link_step h k (Lk_deliver n junk) (k\<lparr>lk_wire := drop n (lk_wire k), lk_server := s'\<rparr>)"
| link_server: "\<not> touches h e \<Longrightarrow> srv_step e (lk_server k) = Inr s' \<Longrightarrow>
     link_step h k (Lk_server e) (k\<lparr>lk_server := s', lk_taken := lk_taken k @ taken_by e (lk_server k)\<rparr>)"

inductive_cases link_step_cases: "link_step h k e k'"

inductive link_run :: "handle \<Rightarrow> link \<Rightarrow> link_event list \<Rightarrow> link \<Rightarrow> bool" for h where
  link_run_nil: "link_run h k [] k"
| link_run_snoc: "link_run h k es k' \<Longrightarrow> link_step h k' e k'' \<Longrightarrow> link_run h k (es @ [e]) k''"

subsection \<open>The server's side\<close>

text \<open>The bytes of the messages of connection \<open>c\<close>.\<close>

definition conn_bytes :: "u32 \<Rightarrow> MessageInfo list \<Rightarrow> byte list" where
  "conn_bytes c ms = bytes_of (map (\<lambda>m. (mi_buf m, mi_len m)) (filter (\<lambda>m. mi_conn m = c) ms))"

lemma bytes_of_simps [simp]:
  "bytes_of [] = []" "bytes_of (p # ws) = buf_bytes (fst p) (snd p) @ bytes_of ws"
  "bytes_of (ws @ ws') = bytes_of ws @ bytes_of ws'"
  by (simp_all add: bytes_of_def split: prod.split)

lemma conn_bytes_append [simp]: "conn_bytes c (ms @ ms') = conn_bytes c ms @ conn_bytes c ms'"
  by (simp add: conn_bytes_def)

text \<open>Stream \<open>h\<close> is filed under \<open>c\<close>; no other stream is, since a stream leads back to its number.\<close>

definition connected :: "u32 \<Rightarrow> handle \<Rightarrow> nat \<Rightarrow> tcp_server \<Rightarrow> bool" where
  "connected c h n s \<longleftrightarrow> server_ok n s \<and> map_of (m_OnlineStream s) h = Some c \<and> c \<noteq> 0"

lemma connected_other: "connected c h n s \<Longrightarrow> h' \<noteq> h \<Longrightarrow> map_of (m_OnlineStream s) h' \<noteq> Some c"
  unfolding connected_def using server_ok_lookup by (metis option.inject)

lemma other_push:
  assumes "connected c h n s" and "h' \<noteq> h"
  shows "conn_bytes c (m_RecvMessage (PushRecvMessage h' buf k s)) = conn_bytes c (m_RecvMessage s)"
    and "map_of (m_OnlineStream (PushRecvMessage h' buf k s)) h = Some c"
  using assms connected_other [OF assms]
  by (auto simp: PushRecvMessage_def stream_subscript_def queue_push_def conn_bytes_def
      connected_def alist_simps split: option.splits)

lemma Release_other: "h' \<noteq> h \<Longrightarrow> map_of (m_OnlineStream (ReleaseConnection h' s)) h = map_of (m_OnlineStream s) h"
  by (simp add: ReleaseConnection_def Let_def alist_simps split: option.split)

lemma Release_recv [simp]: "m_RecvMessage (ReleaseConnection h s) = m_RecvMessage s"
  by (simp add: ReleaseConnection_def Let_def split: option.split)

lemma timer_cb_recv: "timer_cb s = Inr s' \<Longrightarrow> m_RecvMessage s' = m_RecvMessage s"
  by (auto simp: timer_cb_def send_one_def GetSendMessage_def rbind_Inr_iff Let_def
      split: prod.splits option.splits if_splits)

lemma other_read:
  assumes "connected c h n s" and "h' \<noteq> h" and "after_read h' nread buf s = Inr s'"
  shows "map_of (m_OnlineStream s') h = Some c"
    and "conn_bytes c (m_RecvMessage s') = conn_bytes c (m_RecvMessage s)"
proof -
  have log: "connected c h n (log_action a s)" for a
    using assms(1) exact_frame [of "log_action a s" s] ids_ok_frame [of "log_action a s" s n]
    by (simp add: connected_def server_ok_def)
  let ?t = "if nread = UV_EOF \<or> nread = UV_ECONNRESET then s else log_action (UvShutdown h') s"
  have t: "connected c h n ?t" "m_RecvMessage ?t = m_RecvMessage s" using assms(1) log by simp_all
  have "map_of (m_OnlineStream s') h = Some c \<and> conn_bytes c (m_RecvMessage s') = conn_bytes c (m_RecvMessage s)"
    using after_read_cases [OF assms(3)]
  proof (elim disjE conjE exE)
    assume "s' = ReleaseConnection h' (PushRecvMessage h' None 0 ?t)"
    then show ?thesis using other_push [OF t(1) assms(2)] by (simp only: Release_recv Release_other [OF assms(2)] t(2))
  next
    fix b k
    assume "s' = PushRecvMessage h' b k s"
    then show ?thesis using other_push [OF assms(1,2)] by simp
  qed (use assms(1) in \<open>simp add: connected_def\<close>)
  then show "map_of (m_OnlineStream s') h = Some c"
    and "conn_bytes c (m_RecvMessage s') = conn_bytes c (m_RecvMessage s)" by blast+
qed

lemma server_step:
  assumes "connected c h n s" and "n < 2 ^ 32 - 1" and "srv_step e s = Inr s'" and "\<not> touches h e"
  shows "connected c h (Suc n) s'"
    and "conn_bytes c (taken_by e s @ m_RecvMessage s') = conn_bytes c (m_RecvMessage s)"
proof -
  have ok: "server_ok (Suc n) s'"
    using srv_ok.event_inv [OF _ assms(2,3)] assms(1) by (simp add: connected_def)
  have "map_of (m_OnlineStream s') h = Some c
      \<and> conn_bytes c (taken_by e s @ m_RecvMessage s') = conn_bytes c (m_RecvMessage s)"
  proof (cases e)
    case (Ev_connect status stream r1 r2 r3)
    then have "on_connection status stream r1 r2 r3 s = s'" using assms(3) by simp
    from on_connection_cases [OF this] show ?thesis
    proof (elim disjE exE conjE)
      fix d t g
      assume "stream = Some g" and get: "GetConnectionID s = (d, t)" and s': "s' = AddConnection d g t"
      moreover from this have "g \<noteq> h" using assms(4) Ev_connect by simp
      moreover have "m_OnlineStream t = m_OnlineStream s" "m_RecvMessage t = m_RecvMessage s"
        using get by (auto simp: GetConnectionID_def split: list.splits)
      ultimately show ?thesis
        using assms(1) Ev_connect by (simp add: taken_by_def connected_def alist_simps)
    qed (use assms(1) Ev_connect in \<open>simp add: connected_def taken_by_def\<close>)
  next
    case (Ev_read h' nread buf)
    then show ?thesis
      using assms(3,4) other_read [OF assms(1), of h' nread buf s'] by (simp add: taken_by_def)
  next
    case Ev_timer
    then have timer: "timer_cb s = Inr s'" using assms(3) by simp
    then show ?thesis
      using assms(1) Ev_timer timer_cb_ids [OF timer] timer_cb_recv [OF timer]
      by (simp add: taken_by_def connected_def)
  next
    case Ev_get
    then show ?thesis
      using assms(1,3) by (cases "m_RecvMessage s")
        (auto simp: taken_by_def connected_def GetRecvMessage_def conn_bytes_def)
  qed (use assms(1,3) in \<open>auto simp: taken_by_def connected_def PushSendMessage_def
      Close_def SetStatus_def after_shutdown_def\<close>)
  then show "connected c h (Suc n) s'"
    and "conn_bytes c (taken_by e s @ m_RecvMessage s') = conn_bytes c (m_RecvMessage s)"
    using ok assms(1) by (simp_all add: connected_def)
qed

lemma server_deliver:
  assumes "connected c h n s" and "n < 2 ^ 32 - 1" and "srv_step (Ev_read h (int k) (bs @ junk)) s = Inr s'"
    and "length bs = k" and "0 < k" and "k < 2 ^ 31"
  shows "connected c h (Suc n) s'" and "conn_bytes c (m_RecvMessage s') = conn_bytes c (m_RecvMessage s) @ bs"
proof -
  have s': "s' = s\<lparr>m_RecvMessage := m_RecvMessage s @ [\<lparr>mi_conn = c, mi_buf = Some (bs @ junk), mi_len = word_of_nat k\<rparr>]\<rparr>"
    using assms(1,3,5)
    by (auto simp: connected_def after_read_def rbind_Inr_iff PushRecvMessage_def stream_subscript_def queue_push_def)
  have "unat (word_of_nat k :: u32) = k" using assms(6) by (simp add: unsigned_of_nat take_bit_nat_eq_self_iff)
  then show "conn_bytes c (m_RecvMessage s') = conn_bytes c (m_RecvMessage s) @ bs"
    using assms(4) by (simp add: s' conn_bytes_def buf_bytes_def)
  have "server_ok (Suc n) s'"
    using srv_ok.event_inv [OF _ assms(2,3)] assms(1) by (simp add: connected_def)
  then show "connected c h (Suc n) s'" using assms(1) by (simp add: s' connected_def)
qed

subsection \<open>The byte stream\<close>

text \<open>
  The bytes of the connection that have left the client, from the oldest to the newest: taken by the logic
  thread, waiting in the queue of the server, on the wire.
\<close>

definition stream_bytes :: "u32 \<Rightarrow> link \<Rightarrow> byte list" where
  "stream_bytes c k =
     conn_bytes c (lk_taken k) @ conn_bytes c (m_RecvMessage (lk_server k)) @ lk_wire k"

fun pushed_on :: "link_event list \<Rightarrow> (byte list option \<times> u32) list" where
  "pushed_on [] = []"
| "pushed_on (Lk_client e # es) = pushed [e] @ pushed_on es"
| "pushed_on (_ # es) = pushed_on es"

lemma pushed_on_append [simp]: "pushed_on (es @ es') = pushed_on es @ pushed_on es'"
  by (induction es rule: pushed_on.induct) simp_all

text \<open>What a step adds to the tries and to the stream, and what it leaves in the client's queue.\<close>

definition link_adds :: "u32 \<Rightarrow> link \<Rightarrow> link_event list \<Rightarrow> ((byte list option \<times> u32) \<times> int) list \<Rightarrow> link \<Rightarrow> bool" where
  "link_adds c k es ts k' \<longleftrightarrow>
     client_tries (tc_log (lk_client k')) = client_tries (tc_log (lk_client k)) @ ts
     \<and> map fst ts @ queued (lk_client k') = queued (lk_client k) @ pushed_on es
     \<and> stream_bytes c k' = stream_bytes c k @ bytes_of (accepted_writes ts)"

lemma link_adds_trans:
  "link_adds c k es ts k' \<Longrightarrow> link_adds c k' fs us k'' \<Longrightarrow> link_adds c k (es @ fs) (ts @ us) k''"
  unfolding link_adds_def by (metis accepted_writes_append append_assoc bytes_of_simps(3) map_append pushed_on_append)

lemma link_step_stream:
  assumes "link_step h k e k'" and "connected c h n (lk_server k)" and "n < 2 ^ 32 - 1"
  shows "connected c h (Suc n) (lk_server k') \<and> (\<exists>ts. link_adds c k [e] ts k')"
  using assms(1)
proof (cases rule: link_step.cases)
  case (link_client ce c')
  then obtain ts where "client_tries (tc_log c') = client_tries (tc_log (lk_client k)) @ ts"
    "map fst ts @ queued c' = queued (lk_client k) @ pushed [ce]"
    using cl_step_outbox by blast
  moreover from this have "tries_since (lk_client k) c' = ts" by (simp add: tries_since_def)
  ultimately show ?thesis
    using link_client assms(2) ids_ok_Suc
    by (auto simp: stream_bytes_def link_adds_def connected_def server_ok_def)
next
  case (link_deliver m junk s')
  then show ?thesis
    using server_deliver [OF assms(2,3), of m "take m (lk_wire k)" junk s']
    by (simp add: stream_bytes_def link_adds_def accepted_writes_def)
next
  case (link_server se s')
  then show ?thesis
    using server_step [OF assms(2,3), of se s'] by (simp add: stream_bytes_def link_adds_def accepted_writes_def)
qed

lemma link_run_stream:
  assumes "link_run h k es k'" and "connected c h n (lk_server k)" and "n + length es \<le> 2 ^ 32 - 1"
  shows "connected c h (n + length es) (lk_server k') \<and> (\<exists>ts. link_adds c k es ts k')"
  using assms
proof (induction rule: link_run.induct)
  case (link_run_nil k)
  then show ?case by (simp add: link_adds_def accepted_writes_def)
next
  case (link_run_snoc k es k' e k'')
  then obtain ts where IH: "connected c h (n + length es) (lk_server k')" "link_adds c k es ts k'"
    by auto
  then show ?case
    using link_step_stream [OF link_run_snoc.hyps(2) IH(1)] link_run_snoc.prems(2) link_adds_trans [OF IH(2)]
    by auto
qed

lemma link_run_tries:
  assumes "link_run h k es k'" and "connected c h n (lk_server k)" and "n + length es \<le> 2 ^ 32 - 1"
  shows "link_adds c k es (tries_since (lk_client k) (lk_client k')) k'"
  using link_run_stream [OF assms] by (auto simp: link_adds_def tries_since_def)

end
