(* ===== verification/Spec2Isabelle.thy ===== *)
theory Spec2Isabelle
  imports MessageTypes MessageHead Dispatch TcpServer AppServer Login ReadSafety TcpClient TextStream MessageBuffer
    DbApp OldServer OldClient NetAccess NetStream LoginObjects ServerStreams ClientServer
begin

text \<open>
  A verification development for the game server under \<open>src/\<close>: the network library and the servers
  written on top of it. Every definition is translated from the C++ source of the same name; what third-party
  libraries return (libuv, tbb, the MySQL client) is an argument. The part of the protobuf runtime that the
  generated messages call is modelled too.

  \<^bold>\<open>The program.\<close> A client of the game sends protocol messages in frames. \<open>TCPServer\<close> (NetFrame) accepts
  connections in the callbacks of libuv, gives them numbers, and puts what arrives in one queue and
  sends what it finds in another. The main loop of Server.cpp takes the received messages out;
  \<open>AppManager\<close> parses the frame (\<open>MessageHead\<close>), finds the handler of its command (\<open>MessageDispatch\<close>)
  and runs it; the handlers of \<open>CLogin\<close> and \<open>MaillManager\<close> parse the body as a protobuf message and answer with
  another, which is framed and queued. The database server (DBApp) turns messages into queries for a
  pool of worker threads. Beside protobuf the repository has its own message format, the streams of
  netPack and the structs that macros declare over them; and an earlier network layer, ServerApp.

  \<^bold>\<open>The theories\<close>, in the order of their imports, with the sources under src/Server they model:
  \<^item> \<open>GR_Prelude\<close>: the machine types (a 32-bit little-endian Windows build), the faults, results that
    may be faults, \<open>memcpy\<close> with its bounds, the interfaces of state machines (\<open>event_system\<close>,
    \<open>counted_event_system\<close>) and of queues (\<open>fifo\<close>). \<open>ByteOrder\<close>: memory images of integers, byte swaps.
  \<^item> \<open>BinaryWrite\<close>, \<open>BinaryRead\<close>: \<open>BinaryWriteStream\<close> and \<open>BinaryReadStream\<close> of netPack/commDef.
    \<open>BinaryWriteSpec\<close>: the abstract write (chunks that fit are appended, the others dropped) and the
    interface \<open>inserter\<close>; \<open>StreamType\<close>: the interfaces \<open>extractor\<close> and \<open>stream_type\<close>; every operator is
    an instance, and vectors are derived from their elements once.
  \<^item> \<open>StructMacros\<close>: the macros \<open>DEFINE_STRUCT_n\<close> and \<open>DEFINE_MSG_n\<close>; \<open>MessageTypes\<close>: the messages of
    netPack/MessageBuf.hpp; \<open>ReadSafety\<close>: what \<open>UnPack\<close> makes of arbitrary bytes, as a function of the bytes alone.
  \<^item> \<open>TextNum\<close>, \<open>TextStream\<close>: the text streams of netPack/commDef in both versions, instances of the
    interface \<open>text_version\<close>. \<open>MessageBuffer\<close>: NetApp/Buffer.h, with the interface \<open>buffer_type\<close>.
  \<^item> \<open>MessageHead\<close> (Server/AppManager), \<open>Dispatch\<close> (NetApp/MessageDispatch.hpp, interface
    \<open>handler_table\<close>), \<open>TcpServer\<close> and \<open>TcpClient\<close> (NetApp/NetFrame). \<open>ServerStreams\<close>: the life of the stream objects
    of \<open>TCPServer\<close> from \<open>malloc\<close> in \<open>on_connection\<close> to \<open>free\<close> in \<open>on_close\<close>, around the step function of \<open>TcpServer\<close>.
  \<^item> \<open>AppServer\<close>: Server/AppManager, AppInitialze and the main loop of Server.cpp.
  \<^item> \<open>WireFormat\<close>: varints, tags and unknown fields, the part of the protobuf runtime that generated code
    calls, as its slow paths have it; \<open>VarintFast\<close>: the unrolled fast paths of the same functions. \<open>Protobuf\<close>: the
    messages as finite maps from field numbers to values, with parsing, writing, \<open>ByteSize\<close> and \<open>MergeFrom\<close> as
    functions of the list of the fields: the specification of what follows. \<open>NetMessages\<close>: the 61 messages and 6
    enumerations of protobuf/NetMessage.pb.cc as such lists, and two malformed inputs that are accepted.
  \<^item> \<open>GenParser\<close>: the control flow of the generated \<open>MergePartialFromCodedStream\<close>, with its labels and jumps.
    \<open>PbObject\<close>: the objects of the message classes (\<open>_has_bits_\<close>, members, cached sizes), the statements of
    the generated functions, the invariant of the objects and the message an object stands for. \<open>PbClass\<close>: the
    interface \<open>message_class\<close> that the generated functions keep. \<open>NetClasses1\<close> to \<open>NetClasses4\<close>: the functions of
    each of the 61 classes, statement by statement, each group an instance; \<open>NetClasses\<close>: their table.
    \<open>PbAccess\<close>: the accessors of protobuf/NetMessage.pb.h and the interface \<open>accessor_class\<close>; \<open>NetAccess\<close>: the
    accessors of each class. \<open>OutStream\<close>: \<open>CodedOutputStream\<close> and the writers to it; \<open>NetStream\<close>:
    \<open>SerializeWithCachedSizes\<close> of each class. \<open>PbTyped\<close>: what the parser accepts is typed, and has an object.
  \<^item> \<open>Login\<close>: Server/CLogin and Mail, on the messages that the objects stand for; \<open>LoginObjects\<close>: the handlers of
    CLogin.cpp on the objects themselves.
  \<^item> \<open>ClientServer\<close>: a \<open>TCPClient\<close> and the \<open>TCPServer\<close> with the bytes between them; a write that \<open>uv_write\<close> refuses
    puts none on the wire.
  \<^item> \<open>DbConnection\<close>, \<open>DbPool\<close>, \<open>DbApp\<close>: the connections, the thread pool with its queue, and the manager
    with the main loop of DBApp.
  \<^item> \<open>OldSocket\<close>, \<open>OldServer\<close>, \<open>OldClient\<close>: src/ServerApp/ServerApp/NetSocket.

  \<^bold>\<open>How code becomes definitions.\<close> An object is a record of its members. A pointer into a buffer is an
  offset (\<open>cur - ptr\<close> is \<open>ws_cur\<close>), the buffer a list of bytes, and every copy whose bounds the code does
  not check is a \<open>memcpy_from\<close> or \<open>memcpy_to\<close> that faults when it leaves the object: what the language
  leaves undefined is a value of type \<open>fault\<close>, so a theorem that a result is \<open>Inr\<close> says that nothing
  undefined happens. Giving libuv a request object again that it still owns is a fault too. Integers are words of their width, and casts are \<open>ucast\<close>, \<open>scast\<close> and \<open>word_of_nat\<close>
  where the code has them. An out parameter is an argument and a component of the result. What is
  indeterminate in the code (fresh memory) is an argument called \<open>junk\<close>. Calls to libuv that have an effect
  are recorded in order (\<open>ts_log\<close>), their results are arguments of the callback that makes them. Sizes that the
  protobuf code keeps in an \<open>int\<close> are natural numbers; its tests \<open>size < 0\<close> (message_lite.cc, in
  \<open>SerializePartialToCodedStream\<close> and \<open>AppendPartialToString\<close>), for messages of more than 2 GB, which the 32-bit build
  cannot hold, are left out. Hash
  maps are association lists, and a queue of tbb or std is a list. Threads are interleaved by
  inductive step relations whose steps are the code under a lock (\<open>pool_step\<close>), or one callback
  (\<open>cl_step\<close>, \<open>oc_step\<close>).

  \<^bold>\<open>What is shown\<close> (C1 to C40 below, each after its statement in words):
  messages and streams, C1 to C7: round trips, refinement of the abstract write, bounds, what goes wrong
  for long strings, long vectors and 64-bit numbers, and the exact result or fault of reading any bytes; frames and
  dispatch, C8 to C10; the network server, C11 to C15: its connection numbers are conserved over every run, its tables
  are inverse to each other unless the program itself ends a connection, what a disconnect and the timer do, and what
  goes wrong when the program ends a connection; the whole server, C16; protobuf messages, C17 to C24: round trip,
  size, merging and termination of the specification, the fast paths equal the loops, the generated parser
  equals the loop over the tags, and the generated classes write, read, clear, merge, copy, swap and access their
  fields as the specification says, to streams of any buffers as to arrays; the handlers, C25 to C27: what a client gets for its requests, and when it gets nothing, and that the code
  on objects does what the handlers on messages do; text streams, C28 and C29; message buffers, C30; the TCP client, alone
  and with the server, C31 and C32 (which bytes arrive, and that the refused writes are exactly what is lost); the database server, C33 to C38: the order of its tasks, who may use a
  connection, what wakes and ends its threads, and what its loop posts; the old network layer, C39 and C40.
  The component theories hold the lemmas these rest on: for each operation an equation for
  every branch (\<open>..._eq\<close>), the preservation of the invariant (\<open>..._ok\<close>), and its abstract effect.

  \<^bold>\<open>Termination.\<close> Loops over data are structural recursions, and \<open>WriteVarint64\<close> and the loop over packed
  elements have a measure. The protobuf parser counts steps: \<open>ParseFromString\<close> gives it one more than the length of the input and \<open>SkipField\<close>
  twice the length; C18 shows that more changes nothing, so \<open>None\<close> always is a failure of the
  code. The generated parser gets three steps for each byte and one more, which always suffice (C20). The loop of \<open>connect\<close>, which need not end, is a step that can be taken again and again (\<open>oc_poll\<close>).

  \<^bold>\<open>Not modelled:\<close> when memory is freed, except for the streams of \<open>TCPServer\<close> (so not that
  \<open>timer_cb\<close> of the server frees the buffer it has just handed to \<open>uv_write\<close>, with a request on its stack); log and console output, and timing (\<open>Sleep\<close>, the
  periods of timers); the inside of libuv, tbb, boost and the MySQL client; the reflection, arenas and
  descriptors of protobuf, the reader from a stream that is not one array, and the limit of 64 MB; the recursion of libuv into the program while it is closing (\<open>close\<close> called from a
  callback of the old server); \<open>Subject\<close> of NetApp/Observer, whose members are empty; LogApp, a demonstration of
  boost.log; the \<open>main\<close> of ServerApp, which only starts the old server in a thread and loops.
\<close>

section \<open>Messages and streams\<close>

text \<open>C1: A message packed into a cleared stream with room for it is read back as the
  same object: the reader gets the message id, then \<open>UnPack\<close> gives every member its old value,
  whatever the object held before, and the stream is at its end. The members have to be values that
  their operators can carry: strings shorter than 32768 bytes, vectors of at most 1000 elements,
  and no \<open>long long\<close> that \<open>operator>>\<close> garbles (see C5).\<close>

theorem message_roundtrip:
  assumes "has_type ob t" and "has_type old t"
    and "list_all field_insertable (obj_vals ob)" and "list_all field_readable (obj_vals ob)"
    and "ws_ok w" and "4 + length (obj_enc ob) \<le> ws_len w"
  shows "\<exists>w' r1 r2. Pack ob (ws_Clear w) = Inr w' \<and> ws_GetSize w' = 4 + length (obj_enc ob)
    \<and> (case obj_msgID ob of
         None \<Rightarrow> r1 = BinaryReadStream_new (ws_sent w') (ws_GetSize w')
       | Some i \<Rightarrow> rs_ext_int 0 (BinaryReadStream_new (ws_sent w') (ws_GetSize w')) = Inr (i, r1))
    \<and> UnPack junk old r1 = Inr (ob, r2) \<and> rs_IsEnd r2 = Inr True"
proof -
  have ins: "\<And>v. v \<in> set (obj_vals ob) \<Longrightarrow> field_insertable v"
    using assms(3) by (simp add: list_all_iff)
  obtain w' where w': "Pack ob (ws_Clear w) = Inr w'" "ws_ok w'" "ws_payload w' = obj_enc ob"
    by (rule Pack_cleared [OF ins assms(5,6)])
  let ?r = "BinaryReadStream_new (ws_sent w') (ws_GetSize w')"
  let ?n = "case obj_msgID ob of None \<Rightarrow> 0 | Some _ \<Rightarrow> 4"
  let ?r1 = "rs_adv ?n ?r"
  have r: "rs_ok ?r" "rs_rest ?r = obj_enc ob" "rs_cur ?r = 4"
    using reader_of_writer [OF w'(2)] w'(3) by (simp_all add: BinaryReadStream_new_def)
  have size: "ws_GetSize w' = 4 + length (obj_enc ob)"
    using ws_payload_length [OF w'(2)] w'(2,3) by (auto simp: ws_GetSize_def ws_ok_def)
  have "case obj_msgID ob of None \<Rightarrow> ?r1 = ?r | Some i \<Rightarrow> rs_ext_int 0 ?r = Inr (i, ?r1)"
    using r by (auto simp: rs_ext_int_eq obj_enc_def rs_adv_def split: option.split)
  moreover have "UnPack junk old ?r1 = Inr (ob, rs_adv (length (members_enc ob)) ?r1)"
    using r by (intro UnPack_enc [OF _ assms(4,1,2), where r = "[]"])
      (auto simp: obj_enc_def split: option.split)
  moreover have "rs_IsEnd (rs_adv (?n + length (members_enc ob)) ?r) = Inr True"
    using r size by (intro IsEnd_all_read)
      (auto simp: obj_enc_def BinaryReadStream_new_def split: option.split)
  ultimately show ?thesis
    using w'(1) size by auto
qed

definition ping_example :: obj where
  "ping_example = \<lparr>obj_msgID = Some 1, obj_vals = [V_string [104, 105]]\<rparr>"

definition wide_stream :: wstream where
  "wide_stream = \<lparr>ws_mem = replicate 40 7, ws_len = 40, ws_cur = 9\<rparr>"

theorem message_roundtrip_witness:
  "\<exists>w' r1 r2. Pack ping_example (ws_Clear wide_stream) = Inr w'
    \<and> ws_GetSize w' = 4 + length (obj_enc ping_example)
    \<and> (case obj_msgID ping_example of
         None \<Rightarrow> r1 = BinaryReadStream_new (ws_sent w') (ws_GetSize w')
       | Some i \<Rightarrow> rs_ext_int 0 (BinaryReadStream_new (ws_sent w') (ws_GetSize w')) = Inr (i, r1))
    \<and> UnPack 0 \<lparr>obj_msgID = Some 1, obj_vals = [V_string []]\<rparr> r1 = Inr (ping_example, r2)
    \<and> rs_IsEnd r2 = Inr True"
  by (rule message_roundtrip [where t = RequestPing])
    (simp_all add: has_type_def ping_example_def wide_stream_def ws_ok_def obj_enc_def
      members_enc_def field_enc_def string_chunk_def be16_def be32_def RequestPing_def macro_defs
      msg_type_def)

text \<open>C2: \<open>Pack\<close> never faults on a well-formed stream and implements the abstract write:
  every member is a list of chunks, a chunk that fits is appended to the payload, one that does
  not fit is dropped. Afterwards the length field at the front of the bytes that are sent is their
  number, in network byte order.\<close>

theorem Pack_refines:
  assumes "list_all field_insertable (obj_vals ob)" and "ws_ok s"
  shows "\<exists>s'. Pack ob s = Inr s' \<and> ws_ok s'
    \<and> ws_payload s' = abs_puts (ws_len s) (obj_chunks ob) (ws_payload s)
    \<and> (s' = s \<or> take 4 (ws_sent s') = be32 (word_of_nat (length (ws_sent s'))))"
proof -
  have "ws_implements (Pack ob) (obj_chunks ob)"
    using assms(1) by (intro Pack_implements) (simp add: list_all_iff)
  then show ?thesis
    using assms(2) by (rule ws_implementsE) (auto dest: ws_sent_header)
qed

theorem Pack_refines_witness:
  "\<exists>s'. Pack ping_example wide_stream = Inr s' \<and> ws_ok s'
    \<and> ws_payload s' = abs_puts (ws_len wide_stream) (obj_chunks ping_example) (ws_payload wide_stream)
    \<and> (s' = wide_stream \<or> take 4 (ws_sent s') = be32 (word_of_nat (length (ws_sent s'))))"
  by (rule Pack_refines) (simp_all add: ping_example_def wide_stream_def ws_ok_def)

text \<open>C3: The stream that the constructor makes has ten bytes, so a message whose
  members all need more than two bytes per chunk loses all of them: its payload is the message id
  and nothing else, and no error is reported.\<close>

theorem default_stream_keeps_only_the_id:
  assumes "obj_msgID ob = Some i" and "list_all field_insertable (obj_vals ob)"
    and "\<And>v c. v \<in> set (obj_vals ob) \<Longrightarrow> c \<in> set (field_chunks v) \<Longrightarrow> 2 < length c"
  shows "\<exists>s'. Pack ob (BinaryWriteStream_new junk) = Inr s' \<and> ws_payload s' = be32 i"
proof -
  have "ws_implements (Pack ob) (obj_chunks ob)"
    using assms(2) by (intro Pack_implements) (simp add: list_all_iff)
  then obtain s' where s': "Pack ob (BinaryWriteStream_new junk) = Inr s'"
    "ws_payload s' = abs_puts (ws_len (BinaryWriteStream_new junk)) (obj_chunks ob)
       (ws_payload (BinaryWriteStream_new junk))"
    using ws_new_ok by (rule ws_implementsE)
  have "abs_puts 10 (concat (map field_chunks (obj_vals ob))) (be32 i) = be32 i"
    using assms(3) by (intro abs_puts_full) fastforce
  with s' assms(1) show ?thesis
    using ws_new_payload [of junk]
    by (auto simp: obj_chunks_def BinaryWriteStream_new_def abs_put_def)
qed

theorem default_stream_keeps_only_the_id_witness:
  "\<exists>s'. Pack ping_example (BinaryWriteStream_new (\<lambda>_. 0)) = Inr s' \<and> ws_payload s' = be32 1"
  by (rule default_stream_keeps_only_the_id)
    (auto simp: ping_example_def string_chunk_def be16_def)

text \<open>C4: A string of 32768 to 65534 bytes passes the bounds check of \<open>operator<<\<close>,
  because its length is negative as a \<open>short\<close>, and the copy then leaves the object.\<close>

theorem string_over_short:
  assumes "ws_ok s" and "32768 \<le> length str" and "length str < 65535"
  shows "ws_ins_string str s = Inl OutOfBounds"
proof -
  let ?l = "sint (word_of_nat (length str) :: u16)"
  let ?n = "size_t_of_int ?l"
  have l: "?l = int (length str) - 65536"
    using assms(2,3) by (intro short_of_large) auto
  have n: "2 ^ 31 \<le> ?n"
    unfolding l using assms(2,3) by (intro size_t_of_int_neg) auto
  have room: "\<not> int (ws_len s) < int (ws_cur s) + ?l + 2"
    using assms(1,3) l by (auto simp: ws_ok_def)
  have copy: "memcpy_from (str @ [0]) 0 ?n = Inl OutOfBounds"
    using n assms(3) by (simp add: memcpy_from_def)
  have "ws_WriteLength ?n s = Inl OutOfBounds \<or> (\<exists>s1. ws_WriteLength ?n s = Inr (True, s1))"
    by (cases rule: memcpy_to_cases [of "ws_mem s" "ws_cur s" "le_bytes 2 (htons (word_of_nat ?n))"])
      (auto simp: ws_WriteLength_def ws_copy_def)
  with copy room show ?thesis
    by (auto simp: ws_ins_string_def Let_def)
qed

theorem string_over_short_witness:
  "ws_ins_string (replicate 40000 65) wide_stream = Inl OutOfBounds"
  by (rule string_over_short) (simp_all add: wide_stream_def ws_ok_def)

text \<open>C5: A \<open>long long\<close> written to an empty stream is read back as itself exactly when bit
  31 is clear or the upper half is all ones: the reader sign-extends the lower half into the upper
  one.\<close>

theorem llong_roundtrip_iff:
  assumes "ws_ok w" and "ws_cur w = 4" and "12 \<le> ws_len w"
  shows "\<exists>w' j r'. ws_ins_llong i w = Inr w'
    \<and> rs_ext_llong old (BinaryReadStream_new (ws_sent w') (ws_GetSize w')) = Inr (j, r')
    \<and> (j = i \<longleftrightarrow> \<not> bit i 31 \<or> signed_drop_bit 32 i = -1)"
proof -
  have "ws_payload w = []" using ws_payload_length [OF assms(1)] assms(2) by simp
  then obtain w' where w': "ws_ins_llong i w = Inr w'" "ws_ok w'" "ws_payload w' = llong_enc i"
    using ins_llong.ins_room [where v = i and s = w] assms by (auto simp: st_llong.enc_chunks llong_chunks_def be32_def)
  then show ?thesis
    using rs_ext_llong_enc [OF reader_of_writer(1) [OF w'(2)], of i "[]" old] reader_of_writer(2) [OF w'(2)]
      llong_back_eq_iff [of i] by (auto simp: llong_readable_def)
qed

theorem llong_roundtrip_iff_witness:
  "\<exists>w' j r'. ws_ins_llong 0x80000000 (ws_Clear wide_stream) = Inr w'
    \<and> rs_ext_llong 0 (BinaryReadStream_new (ws_sent w') (ws_GetSize w')) = Inr (j, r')
    \<and> (j = 0x80000000 \<longleftrightarrow> \<not> bit (0x80000000 :: u64) 31 \<or> signed_drop_bit 32 (0x80000000 :: u64) = -1)"
  by (rule llong_roundtrip_iff) (simp_all add: wide_stream_def ws_ok_def ws_Clear_def)

text \<open>C6: A vector of ints of any length, written to a stream with room for it, wherever the writer stands, and
  read back from there: the first \<open>n\<close> elements come back and the others stay in the stream, where the next
  member is read from. Here \<open>n\<close> is the length modulo \<open>2 ^ 16\<close> when that is at most 1000, and 0 otherwise; so
  a vector is read back whole exactly when it has at most 1000 elements, and no error is reported
  for the others.\<close>

theorem long_vector_lost:
  assumes "ws_ok w" and "ws_cur w + 2 + 4 * length vs \<le> ws_len w"
    and "n = (if length vs mod 65536 \<le> 1000 then length vs mod 65536 else 0)"
  shows "\<exists>w' r'. ws_ins_vector ws_ins_int vs w = Inr w'
    \<and> rs_ext_vector rs_ext_int t0 old
        (rs_adv (length (ws_payload w)) (BinaryReadStream_new (ws_sent w') (ws_GetSize w'))) = Inr (take n vs, r')
    \<and> rs_rest r' = concat (map be32 (drop n vs))
    \<and> (take n vs = vs \<longleftrightarrow> length vs \<le> 1000)"
proof -
  have enc: "length (concat (map be32 us)) = 4 * length us" for us
    by (induction us) (simp_all add: be32_def)
  have "length (concat (vec_int_chunks vs)) = 2 + 4 * length vs"
    by (simp add: st_vec_int.enc_chunks [symmetric] vec_int_enc_def enc be16_def)
  then obtain w' where w': "ws_ins_vector ws_ins_int vs w = Inr w'" "ws_ok w'"
    "ws_payload w' = ws_payload w @ vec_int_enc vs"
    using st_vec_int.ins_room [where v = vs and s = w] assms(1,2) by (auto simp: st_vec_int.enc_chunks)
  let ?r = "rs_adv (length (ws_payload w)) (BinaryReadStream_new (ws_sent w') (ws_GetSize w'))"
  have r: "rs_ok ?r" "rs_rest ?r = vec_int_enc vs"
    using reader_of_writer [OF w'(2)] w'(3) by simp_all
  have n: "vector_count vs = n" by (simp add: vector_count_def Let_def assms(3))
  have "rs_ext_vector rs_ext_int t0 old ?r = Inr (take n vs, rs_adv (2 + length (concat (map be32 (take n vs)))) ?r)"
    using st_int.vector_cut [OF r(1), of vs "[]" t0 old] r(2) unfolding n by (simp add: vec_int_enc_def)
  moreover have "rs_rest (rs_adv (2 + length (concat (map be32 (take n vs)))) ?r) = concat (map be32 (drop n vs))"
  proof -
    let ?read = "be16 (word_of_nat (length vs)) @ concat (map be32 (take n vs))"
    have "concat (map be32 vs) = concat (map be32 (take n vs)) @ concat (map be32 (drop n vs))"
      by (metis append_take_drop_id concat_append map_append)
    then have "rs_rest ?r = ?read @ concat (map be32 (drop n vs))"
      unfolding r(2) by (simp add: vec_int_enc_def)
    moreover have "length ?read = 2 + length (concat (map be32 (take n vs)))" by (simp add: be16_def)
    ultimately show ?thesis by (metis append_eq_conv_conj rs_adv_laws(1))
  qed
  moreover have "take n vs = vs \<longleftrightarrow> length vs \<le> 1000"
    by (auto simp: assms(3) mod_le_divisor take_all_iff split: if_splits)
  ultimately show ?thesis using w'(1) by blast
qed

definition vector_stream :: "nat \<Rightarrow> wstream" where
  "vector_stream n = \<lparr>ws_mem = replicate n 0, ws_len = n, ws_cur = 4\<rparr>"

theorem long_vector_lost_witness:
  "\<exists>w' r'. ws_ins_vector ws_ins_int (replicate 65537 5) (vector_stream 300000) = Inr w'
    \<and> rs_ext_vector rs_ext_int 0 []
        (rs_adv (length (ws_payload (vector_stream 300000))) (BinaryReadStream_new (ws_sent w') (ws_GetSize w')))
        = Inr (take 1 (replicate 65537 5), r')
    \<and> rs_rest r' = concat (map be32 (drop 1 (replicate 65537 5)))
    \<and> (take 1 (replicate 65537 5) = replicate 65537 (5 :: u32) \<longleftrightarrow> length (replicate 65537 (5 :: u32)) \<le> 1000)"
  by (rule long_vector_lost) (simp_all add: vector_stream_def ws_ok_def)

text \<open>C7: \<open>UnPack\<close> on any bytes does exactly what \<open>decode_all\<close> says of the unread bytes: the same values, the same
  number of bytes used, or the same fault. A number whose bytes are not all there keeps its old value, and
  never leaves the buffer. A fault only comes from a string whose declared length is more than what is
  left, or from a vector whose count is missing, so a struct without strings and vectors is always
  read; and the members keep their types and the reader ends inside the buffer.\<close>

theorem unpack_type_safe:
  assumes "rs_ok r" and "rs_cur r \<le> rs_len r" and "has_type old t"
  shows "case decode_all junk (obj_vals old) (rs_rest r) of
      Inl e \<Rightarrow> UnPack junk old r = Inl e
        \<and> (e = OutOfBounds \<and> T_string \<in> fst ` set (st_members t)
           \<or> e = Uninitialised \<and> T_vector_int \<in> fst ` set (st_members t))
    | Inr (vs, n) \<Rightarrow> UnPack junk old r = Inr (old\<lparr>obj_vals := vs\<rparr>, rs_adv n r)
        \<and> has_type (old\<lparr>obj_vals := vs\<rparr>) t \<and> rs_cur r + n \<le> rs_len r"
proof -
  have types: "map type_of (obj_vals old) = map fst (st_members t)" "obj_msgID old = st_msgID t"
    using assms(3) by (simp_all add: has_type_def)
  then have "type_of ` set (obj_vals old) = fst ` set (st_members t)"
    by (metis list.set_map)
  then show ?thesis
    using UnPack_decode [OF assms(1), of junk old] decode_all_fault [of junk "obj_vals old" "rs_rest r"]
      decode_all_type [of junk "obj_vals old" "rs_rest r"] assms(1,2) types
    by (auto simp: decoded_def has_type_def rs_ok_def rs_rest_def split: sum.split)
qed

theorem unpack_type_safe_witness:
  "case decode_all 0 (obj_vals ping_example) (rs_rest (BinaryReadStream_new [0, 0, 0, 7, 0, 1, 65, 9] 8)) of
      Inl e \<Rightarrow> UnPack 0 ping_example (BinaryReadStream_new [0, 0, 0, 7, 0, 1, 65, 9] 8) = Inl e
        \<and> (e = OutOfBounds \<and> T_string \<in> fst ` set (st_members RequestPing)
           \<or> e = Uninitialised \<and> T_vector_int \<in> fst ` set (st_members RequestPing))
    | Inr (vs, n) \<Rightarrow> UnPack 0 ping_example (BinaryReadStream_new [0, 0, 0, 7, 0, 1, 65, 9] 8)
          = Inr (ping_example\<lparr>obj_vals := vs\<rparr>, rs_adv n (BinaryReadStream_new [0, 0, 0, 7, 0, 1, 65, 9] 8))
        \<and> has_type (ping_example\<lparr>obj_vals := vs\<rparr>) RequestPing
        \<and> rs_cur (BinaryReadStream_new [0, 0, 0, 7, 0, 1, 65, 9] 8) + n \<le> rs_len (BinaryReadStream_new [0, 0, 0, 7, 0, 1, 65, 9] 8)"
  by (rule unpack_type_safe)
    (simp_all add: rs_ok_def BinaryReadStream_new_def has_type_def ping_example_def RequestPing_def
      macro_defs msg_type_def BINARY_PACKLEN_LEN_def)

section \<open>Frames and dispatch\<close>

text \<open>C8: A body of 1 to 65531 bytes that \<open>Pack\<close> frames is what \<open>Parse\<close> gives back, with the same
  command and with the zero byte that \<open>Parse\<close> adds.\<close>

theorem frame_roundtrip:
  assumes "0 < length body" and "length body \<le> 65531"
  shows "\<exists>out head. MH_Pack (body @ [0]) (word_of_nat (length body)) cmd MessageHead_new = Inr (out, head)
    \<and> Parse out (mh_len head) MessageHead_new =
        Inr (True, \<lparr>mh_len = mh_len head, mh_cmd = cmd, mh_body = Some (body @ [0])\<rparr>)"
proof -
  have "MH_Pack (body @ [0]) (word_of_nat (length body)) cmd MessageHead_new =
      Inr (frame cmd body @ [0], MessageHead_new\<lparr>mh_len := word_of_nat (4 + length body)\<rparr>)"
    using assms(2) by (intro MH_Pack_eq) simp_all
  moreover have "Parse (frame cmd body @ [0]) (word_of_nat (4 + length body)) MessageHead_new =
      Inr (True, MessageHead_new\<lparr>mh_len := word_of_nat (4 + length body), mh_cmd := cmd,
                                 mh_body := Some (body @ [0])\<rparr>)"
    using assms by (rule Parse_frame)
  ultimately show ?thesis by (auto simp: MessageHead_new_def simp del: of_nat_add)
qed

theorem frame_roundtrip_witness:
  "\<exists>out head. MH_Pack ([104, 0, 105] @ [0]) (word_of_nat (length [104 :: byte, 0, 105])) 2 MessageHead_new = Inr (out, head)
    \<and> Parse out (mh_len head) MessageHead_new =
        Inr (True, \<lparr>mh_len = mh_len head, mh_cmd = 2, mh_body = Some ([104, 0, 105] @ [0])\<rparr>)"
  by (rule frame_roundtrip) simp_all

text \<open>C9: What \<open>Parse\<close> does with a buffer of the length it is told: at most four bytes are
  rejected and leave the head alone, everything longer is accepted; the length field in the buffer
  is copied but never compared with anything, and the body is all that follows the first four
  bytes.\<close>

theorem Parse_exact:
  assumes "unat length16 = length msg"
  shows "Parse msg length16 h =
    Inr (if length msg \<le> 4 then (False, h)
         else (True, h\<lparr>mh_len := le_word (take 2 msg), mh_cmd := le_word (take 2 (drop 2 msg)),
                       mh_body := Some (drop 4 msg @ [0])\<rparr>))"
  using Parse_short [of length16 msg h] Parse_long [OF _ assms, of h] assms
  by (cases "length msg \<le> 4") auto

theorem Parse_exact_witness:
  "Parse [9, 0, 2, 0, 104] 5 MessageHead_new =
    Inr (if length [9, 0, 2, 0, 104 :: byte] \<le> 4 then (False, MessageHead_new)
         else (True, MessageHead_new\<lparr>mh_len := le_word (take 2 [9, 0, 2, 0, 104]),
                       mh_cmd := le_word (take 2 (drop 2 [9, 0, 2, 0, 104])),
                       mh_body := Some (drop 4 [9, 0, 2, 0, 104] @ [0])\<rparr>))"
  by (rule Parse_exact) simp

text \<open>C10: After handlers are registered for distinct commands, dispatching one of them calls its
  handler with the arguments and leaves the table alone; dispatching any other command reports
  failure and changes no state.\<close>

theorem dispatch_registered:
  assumes "distinct (map fst khs)"
    and "m = fold (\<lambda>(k, f). RegisterMessageHandle k f) khs Map.empty"
  shows "DispatchMessageHandle cmd a1 a2 a3 (m, st) =
    (case map_of khs cmd of
       Some f \<Rightarrow> rbind (f a1 a2 a3 st) (\<lambda>st'. Inr (True, m, st'))
     | None \<Rightarrow> Inr (False, m(cmd \<mapsto> None), st))"
proof -
  have "handler_of m = map_of (rev khs)"
    unfolding assms(2) dispatch.register_all by (simp add: map_add_def handler_of_def fun_eq_iff split: option.split)
  also have "\<dots> = map_of khs"
    using assms(1) by (intro map_of_inject_set [THEN iffD2]) (auto simp: rev_map [symmetric])
  finally have h: "handler_of m cmd = map_of khs cmd" by simp
  show ?thesis
    using dispatch_known [of m cmd _ a1 a2 a3 st] dispatch_unknown [of m cmd a1 a2 a3 st] h
    by (auto simp: handler_of_def split: option.split)
qed

definition count_handler :: "nat handler" where
  "count_handler cmd conn msg n = Inr (n + 1)"

theorem dispatch_registered_witness:
  "DispatchMessageHandle 2 2 7 [104] (RegisterMessageHandle 2 count_handler Map.empty, 5) =
    (case map_of [(2 :: int, count_handler)] 2 of
       Some f \<Rightarrow> rbind (f 2 7 [104] 5) (\<lambda>st'. Inr (True, RegisterMessageHandle 2 count_handler Map.empty, st'))
     | None \<Rightarrow> Inr (False, (RegisterMessageHandle 2 count_handler Map.empty)(2 \<mapsto> None), 5))"
  by (rule dispatch_registered) simp_all

section \<open>The network server\<close>

text \<open>C11: However the callbacks and the calls of the logic thread are interleaved, up to
  \<open>2 ^ 32 - 1\<close> of them, connection ids are conserved: the ids of the live connections are distinct,
  none of them is in the free list, and together with the free list they are exactly the ids from
  one to the largest one ever handed out.\<close>

theorem connection_ids_conserved:
  assumes "TCPServer_new ip_arg port_arg = Inr s0" and "length es \<le> 2 ^ 32 - 1"
    and "rfold srv_step es s0 = Inr s"
  shows "distinct (map fst (m_OnlineID s)) \<and> distinct (m_ConnectionID s)
    \<and> set (m_ConnectionID s) \<inter> fst ` set (m_OnlineID s) = {}
    \<and> set (m_ConnectionID s) \<union> fst ` set (m_OnlineID s)
        = {i. 1 \<le> unat i \<and> unat i \<le> unat (m_MaxConnectionID s)}
    \<and> unat (m_MaxConnectionID s) \<le> length es"
proof -
  have "srv_init s0" using assms(1) unfolding srv_init_def by blast
  from srv_ids.run_from_init [OF this assms(2,3)] show ?thesis
    unfolding ids_ok_def online_ids_def .
qed

definition fresh_server :: tcp_server where
  "fresh_server =
     \<lparr>m_OnlineStream = [], m_OnlineID = [], m_ConnectionID = [], m_SendMessage = [],
      m_RecvMessage = [], m_MaxConnectionID = 0, ts_ip = local_address, ts_port = 9999,
      ts_status = NONE, ts_log = []\<rparr>"

lemma fresh_server_new: "TCPServer_new local_address 9999 = Inr fresh_server"
  by (simp add: TCPServer_new_def c_strlen_def c_str_def memcpy_from_def memcpy_to_def
      fresh_server_def local_address_def)

definition online_server :: tcp_server where
  "online_server = fresh_server\<lparr>m_OnlineStream := [(100, 1)], m_OnlineID := [(1, 100)],
                                m_MaxConnectionID := 1\<rparr>"

lemma online_server_step: "srv_step (Ev_connect 0 (Some 100) 0 0 0) fresh_server = Inr online_server"
  by (simp add: on_connection_def GetConnectionID_def AddConnection_def
      fresh_server_def online_server_def)

lemma online_server_reached:
  "rfold srv_step [Ev_connect 0 (Some 100) 0 0 0] fresh_server = Inr online_server"
  using online_server_step by simp

theorem connection_ids_conserved_witness:
  "distinct (map fst (m_OnlineID online_server)) \<and> distinct (m_ConnectionID online_server)
    \<and> set (m_ConnectionID online_server) \<inter> fst ` set (m_OnlineID online_server) = {}
    \<and> set (m_ConnectionID online_server) \<union> fst ` set (m_OnlineID online_server)
        = {i. 1 \<le> unat i \<and> unat i \<le> unat (m_MaxConnectionID online_server)}
    \<and> unat (m_MaxConnectionID online_server) \<le> length [Ev_connect 0 (Some 100) 0 0 0]"
  by (rule connection_ids_conserved [OF fresh_server_new _ online_server_reached]) simp

text \<open>C12: The connection tables in every run of the server together with its streams, which \<open>malloc\<close> allocates at an
  address that is not in use and \<open>on_close\<close> frees, up to \<open>2 ^ 32 - 1\<close> events. Always, a stream that is filed under a
  number (other than the 0 that \<open>operator[]\<close> inserts) is the one that number leads to. And as long as the logic thread ends
  no connection by a message without a buffer, the two tables are inverse to each other, and every stream
  in them is allocated and not being closed. (A connection ended that way stays in \<open>m_OnlineID\<close> while its
  stream is freed, C15, and a later connection may get the same address: \<open>kicked_stream_is_shared\<close> in
  \<open>ServerStreams\<close> is a run in which two numbers then lead to one stream.)\<close>

theorem tables_agree:
  assumes "TCPServer_new ip_arg port_arg = Inr s0" and "net_run (net_start s0) es w" and "length es \<le> 2 ^ 32 - 1"
  shows "(map_of (m_OnlineStream (nw_srv w)) h = Some c \<longrightarrow> c \<noteq> 0 \<longrightarrow> map_of (m_OnlineID (nw_srv w)) c = Some h)
    \<and> ((\<forall>d n. Nw_srv (Ev_push d None n) \<notin> set es) \<longrightarrow>
         (map_of (m_OnlineID (nw_srv w)) c = Some h \<longleftrightarrow> map_of (m_OnlineStream (nw_srv w)) h = Some c)
         \<and> (map_of (m_OnlineID (nw_srv w)) c = Some h \<longrightarrow> h \<in> nw_heap w - nw_closing w))"
proof -
  have init: "srv_init s0" using assms(1) unfolding srv_init_def by blast
  have start: "server_ok 0 (nw_srv (net_start s0))"
    using srv_ok.init_inv [OF init] by (simp add: net_start_def)
  have ok: "server_ok (length es) (nw_srv w)"
    using net_run_ok [OF assms(2) start] assms(3) by simp
  have "streams_live w" if "\<forall>d n. Nw_srv (Ev_push d None n) \<notin> set es"
  proof -
    have "\<not> kicks e" if "e \<in> set es" for e
      using \<open>\<forall>d n. _ d n\<close> that by (cases e rule: kicks.cases) auto
    then show ?thesis using net_run_live [OF assms(2) _ net_start_live [OF init] start] assms(3) by simp
  qed
  then show ?thesis using live_inverse [OF _ ok] server_ok_lookup [OF ok] by blast
qed

definition online_world :: net_world where
  "online_world = \<lparr>nw_srv = online_server, nw_heap = {100}, nw_reading = {100}, nw_shutting = {}, nw_closing = {}\<rparr>"

lemma online_world_reached: "net_run (net_start fresh_server) [Nw_srv (Ev_connect 0 (Some 100) 0 0 0)] online_world"
proof -
  have "net_step (net_start fresh_server) (Nw_srv (Ev_connect 0 (Some 100) 0 0 0)) online_world"
    unfolding net_step_simps online_world_def net_after_def net_start_def
    using online_server_step by (simp add: new_shutdowns_def online_server_def fresh_server_def del: srv_step.simps)
  then show ?thesis by (rule net_run_cons [OF net_run_nil])
qed

theorem tables_agree_witness:
  "map_of (m_OnlineID (nw_srv online_world)) 1 = Some 100 \<and> (100 :: nat) \<in> nw_heap online_world - nw_closing online_world"
proof -
  have "\<forall>d n. Nw_srv (Ev_push d None n) \<notin> set [Nw_srv (Ev_connect 0 (Some 100) 0 0 0)]" by simp
  moreover have "map_of (m_OnlineStream (nw_srv online_world)) 100 = Some 1"
    by (simp add: online_world_def online_server_def)
  ultimately show ?thesis
    using tables_agree [OF fresh_server_new online_world_reached, of 100 1] by simp
qed

text \<open>C13: When a read reports an error or the end of the stream, the logic thread is told once,
  with an empty message from that connection, both table entries disappear, the other entries stay,
  and the id goes to the end of the free list.\<close>

theorem disconnect:
  assumes "srv_linked s" and "map_of (m_OnlineID s) c = Some h" and "nread < 0"
  shows "\<exists>s'. after_read h nread buf s = Inr s'
    \<and> m_RecvMessage s' = m_RecvMessage s @ [\<lparr>mi_conn = c, mi_buf = None, mi_len = 0\<rparr>]
    \<and> map_of (m_OnlineID s') = (map_of (m_OnlineID s))(c := None)
    \<and> map_of (m_OnlineStream s') = (map_of (m_OnlineStream s))(h := None)
    \<and> m_ConnectionID s' = m_ConnectionID s @ [c]"
  using assms by (rule disconnect_effect)

lemma online_server_linked: "srv_linked online_server"
  by (simp add: srv_linked_def online_server_def fresh_server_def)

theorem disconnect_witness:
  "\<exists>s'. after_read 100 (-4095) [] online_server = Inr s'
    \<and> m_RecvMessage s' = m_RecvMessage online_server @ [\<lparr>mi_conn = 1, mi_buf = None, mi_len = 0\<rparr>]
    \<and> map_of (m_OnlineID s') = (map_of (m_OnlineID online_server))(1 := None)
    \<and> map_of (m_OnlineStream s') = (map_of (m_OnlineStream online_server))(100 := None)
    \<and> m_ConnectionID s' = m_ConnectionID online_server @ [1]"
  by (rule disconnect [OF online_server_linked]) (simp_all add: online_server_def)

text \<open>C14: The send queue is first in, first out, one message for each timer event, and emptying a
  queue of \<open>n\<close> messages takes exactly \<open>n\<close> timer events: a message for an unknown connection is
  dropped, a null message shuts its stream down, a message whose first byte is zero is dropped,
  every other one is written to its stream.\<close>

theorem send_queue_drains:
  assumes "m_SendMessage s = ms" and "ts_status s \<noteq> CLOSE"
    and "\<And>m. m \<in> set ms \<Longrightarrow>
      case mi_buf m of None \<Rightarrow> True | Some buf \<Rightarrow> buf \<noteq> [] \<and> unat (mi_len m) \<le> length buf"
  shows "rfold srv_step (replicate (length ms) Ev_timer) s =
    Inr (s\<lparr>m_SendMessage := [],
           ts_log := ts_log s @ concat (map (\<lambda>m.
             (case map_of (m_OnlineID s) (mi_conn m) of
                None \<Rightarrow> []
              | Some h \<Rightarrow> (case mi_buf m of
                    None \<Rightarrow> [UvShutdown h]
                  | Some buf \<Rightarrow> if hd buf = 0 then [] else [UvWrite h (take (unat (mi_len m)) buf)]))
             @ [UvTimerStart]) ms)\<rparr>)"
  using timer_drain [OF assms(1) _ assms(2)] assms(3)
  unfolding sendable_def send_effect_def by blast

definition two_messages :: "MessageInfo list" where
  "two_messages = [\<lparr>mi_conn = 1, mi_buf = Some [65, 0], mi_len = 1\<rparr>, \<lparr>mi_conn = 2, mi_buf = None, mi_len = 0\<rparr>]"

theorem send_queue_drains_witness:
  "rfold srv_step (replicate (length two_messages) Ev_timer) (online_server\<lparr>m_SendMessage := two_messages\<rparr>) =
    Inr (online_server\<lparr>m_SendMessage := two_messages\<rparr>\<lparr>m_SendMessage := [],
           ts_log := ts_log (online_server\<lparr>m_SendMessage := two_messages\<rparr>) @ concat (map (\<lambda>m.
             (case map_of (m_OnlineID (online_server\<lparr>m_SendMessage := two_messages\<rparr>)) (mi_conn m) of
                None \<Rightarrow> []
              | Some h \<Rightarrow> (case mi_buf m of
                    None \<Rightarrow> [UvShutdown h]
                  | Some buf \<Rightarrow> if hd buf = 0 then [] else [UvWrite h (take (unat (mi_len m)) buf)]))
             @ [UvTimerStart]) two_messages)\<rparr>)"
proof (rule send_queue_drains)
  show "m_SendMessage (online_server\<lparr>m_SendMessage := two_messages\<rparr>) = two_messages" by simp
  show "ts_status (online_server\<lparr>m_SendMessage := two_messages\<rparr>) \<noteq> CLOSE"
    by (simp add: online_server_def fresh_server_def)
  show "case mi_buf m of None \<Rightarrow> True | Some buf \<Rightarrow> buf \<noteq> [] \<and> unat (mi_len m) \<le> length buf"
    if "m \<in> set two_messages" for m
    using that by (auto simp: two_messages_def)
qed

text \<open>C15: A connection that the server ends itself is never taken out of the tables: after the
  null message is processed and the shutdown completed, the stream is closed (and its memory is
  freed by the close callback), and the next message for that connection is still written to it.\<close>

theorem kicked_connection_dangles:
  assumes "map_of (m_OnlineID s) c = Some h" and "m_SendMessage s = []" and "ts_status s \<noteq> CLOSE"
    and "b \<noteq> 0"
  shows "\<exists>s'. rfold srv_step
      [Ev_push c None 0, Ev_timer, Ev_shutdown_done h, Ev_push c (Some [b]) 1, Ev_timer] s = Inr s'
    \<and> map_of (m_OnlineID s') c = Some h
    \<and> ts_log s' = ts_log s @
        [UvShutdown h, UvTimerStart, UvClose h, UvWrite h [b], UvTimerStart]"
  using assms
  by (simp add: PushSendMessage_def queue_push_def timer_cb_def GetSendMessage_def send_one_def
      after_shutdown_def log_action_def is_empty_c_str_def memcpy_from_def)

theorem kicked_connection_dangles_witness:
  "\<exists>s'. rfold srv_step
      [Ev_push 1 None 0, Ev_timer, Ev_shutdown_done 100, Ev_push 1 (Some [65]) 1, Ev_timer] online_server = Inr s'
    \<and> map_of (m_OnlineID s') 1 = Some 100
    \<and> ts_log s' = ts_log online_server @
        [UvShutdown 100, UvTimerStart, UvClose 100, UvWrite 100 [65], UvTimerStart]"
  by (rule kicked_connection_dangles) (simp_all add: online_server_def fresh_server_def)

section \<open>The application server\<close>

text \<open>C16: A request that arrives whole in one read reaches the handler of its command with its
  body up to the first zero byte, and if the handler answers with one message, one turn of the main
  loop and one timer event write that message, framed, to the stream the request came from; nothing
  else in the server changes. A reply whose frame has a multiple of 256 bytes is the exception: it
  is never written.\<close>

theorem request_is_answered:
  assumes "srv_linked srv" and "map_of (m_OnlineID srv) conn = Some h"
    and "m_RecvMessage srv = []" and "m_SendMessage srv = []" and "ts_status srv \<noteq> CLOSE"
    and "am_status a \<noteq> App_CLOSED" and "m_EchoServer a = Some srv"
    and "0 < length req" and "length req \<le> 65531" and "0 \<in> set (frame cmd req @ rest)"
    and "handler_of m (uint cmd) = Some f"
    and "f (uint cmd) (sint conn) (c_str req) a = SendClient conn rcmd (Some reply) a"
    and "length reply \<le> 65531"
  shows "rfold sys_step
      [Sys_net (Ev_read h (int (4 + length req)) (frame cmd req @ rest)), Sys_turn, Sys_net Ev_timer]
      (m, a) =
    Inr (m, a\<lparr>m_EchoServer := Some (srv\<lparr>ts_log := ts_log srv
            @ (if (4 + length reply) mod 256 = 0 then []
               else [UvWrite h (frame (ucast rcmd) reply)]) @ [UvTimerStart]\<rparr>)\<rparr>)"
  using request_reply [OF assms] unfolding written_def .

definition echo_app :: app_manager where
  "echo_app = \<lparr>m_EchoServer = Some online_server, am_status = App_RUNING\<rparr>"

definition echo_handler :: "app_manager handler" where
  "echo_handler cmd connection msg = SendClient (word_of_int connection) 3 (Some (msg @ [33]))"

definition echo_table :: "app_manager dispatcher" where
  "echo_table = RegisterMessageHandle 2 echo_handler Map.empty"

theorem request_is_answered_witness:
  "rfold sys_step
      [Sys_net (Ev_read 100 (int (4 + length [104 :: byte, 105])) (frame 2 [104, 105] @ [0])), Sys_turn, Sys_net Ev_timer]
      (echo_table, echo_app) =
    Inr (echo_table, echo_app\<lparr>m_EchoServer := Some (online_server\<lparr>ts_log := ts_log online_server
            @ (if (4 + length [104 :: byte, 105, 33]) mod 256 = 0 then []
               else [UvWrite 100 (frame (ucast (3 :: u32)) [104, 105, 33])]) @ [UvTimerStart]\<rparr>)\<rparr>)"
proof (rule request_is_answered [OF online_server_linked])
  show "handler_of echo_table (uint (2 :: u16)) = Some echo_handler"
    by (simp add: echo_table_def handler_of_register)
  show "echo_handler (uint (2 :: u16)) (sint (1 :: u32)) (c_str [104, 105]) echo_app =
      SendClient 1 3 (Some [104, 105, 33]) echo_app"
    by (simp add: echo_handler_def c_str_def)
qed (simp_all add: online_server_def fresh_server_def echo_app_def)

section \<open>Protocol messages\<close>

text \<open>C17: A protocol message whose fields have the types of its schema, with sub-messages, packed
  fields, enumerations and unknown fields in any number, is parsed again from its serialisation;
  \<open>ByteSize\<close> is the number of bytes that are written; and parsing two serialisations one after the other
  gives the first message with the second merged into it.\<close>

theorem protocol_roundtrip:
  assumes "good_schema sch" and "msg_fits sch msg" and "msg_fits sch second"
  shows "ParseFromString sch (SerializeAsString sch msg) = Some msg
    \<and> ByteSize sch msg = length (SerializeAsString sch msg)
    \<and> ParseFromString sch (SerializeAsString sch msg @ SerializeAsString sch second) =
        Some (MergeFrom second msg)"
  using ParseFromString_Serialize [OF assms(1,2)] ParseFromString_concat [OF assms]
    ByteSize_fits [of 100 sch msg] assms(2) by (simp add: msg_fits_def)

definition mail_example :: pb_msg where
  "mail_example =
     Msg [1 \<mapsto> UInt32 2,
          2 \<mapsto> Messages [Msg [1 \<mapsto> UInt32 7, 4 \<mapsto> Enum 1] [U_varint 5 9],
                         Msg [2 \<mapsto> Str [104, 105]] []]]
         [U_group 7 [U_fixed32 1 5, U_length_delimited 2 [65]], U_varint 9 300]"

definition mail_list_example :: pb_msg where
  "mail_list_example = Msg [2 \<mapsto> Messages [Msg [1 \<mapsto> UInt32 8] []]] []"

lemma mail_examples_fit:
  "msg_fits CGSNotifyEMailList mail_example" "msg_fits CGSNotifyEMailList mail_list_example"
proof -
  have w: "scast (9 :: u32) = (9 :: u64)" "ucast (9 :: u64) = (9 :: u32)"
    by simp_all
  show "msg_fits CGSNotifyEMailList mail_example"
    by (auto simp: msg_fits_def msg_fits_at_def CGSNotifyEMailList_def MainInfo_def EmailState_def
        mail_example_def unknown_fits_def field_tag_def MakeTag_def ByteSize_def
        ComputeUnknownFieldsSize_def VarintSize32_def VarintSize64_def
        VarintSize32SignExtended_def w split: if_splits)
  show "msg_fits CGSNotifyEMailList mail_list_example"
    by (auto simp: msg_fits_def msg_fits_at_def CGSNotifyEMailList_def MainInfo_def
        mail_list_example_def field_tag_def MakeTag_def ByteSize_def
        ComputeUnknownFieldsSize_def VarintSize32_def split: if_splits)
qed

theorem protocol_roundtrip_witness:
  "ParseFromString CGSNotifyEMailList (SerializeAsString CGSNotifyEMailList mail_example) = Some mail_example
    \<and> ByteSize CGSNotifyEMailList mail_example = length (SerializeAsString CGSNotifyEMailList mail_example)
    \<and> ParseFromString CGSNotifyEMailList (SerializeAsString CGSNotifyEMailList mail_example
          @ SerializeAsString CGSNotifyEMailList mail_list_example) =
        Some (MergeFrom mail_list_example mail_example)"
  by (rule protocol_roundtrip) (simp_all add: mail_examples_fit)

text \<open>C18: The parser of the protocol messages needs no more steps than it is given: any larger
  bound gives the same result, so running out of steps is never the reason for a failure.\<close>

theorem protocol_parser_total:
  assumes "good_schema sch" and "length bs + 1 \<le> fuel"
  shows "MergePartial fuel 100 sch pb_new bs = ParseFromString sch bs
    \<and> (2 * length bs + 2 \<le> g \<longrightarrow> 2 * length bs + 2 \<le> k \<longrightarrow>
         SkipField g depth tag bs = SkipField k depth tag bs)"
proof -
  have "MergePartial fuel 100 sch pb_new bs = MergePartial (length bs + 1) 100 sch pb_new bs"
    using assms(2) by (intro MergePartial_fuel [OF assms(1)]) simp_all
  then show ?thesis
    using Skip_fuel(1) [of bs g k depth tag] by (simp add: ParseFromString_def)
qed

theorem protocol_parser_total_witness:
  "MergePartial 9 100 CRequestLogin pb_new [10, 1, 65] = ParseFromString CRequestLogin [10, 1, 65]"
proof -
  have "good_schema CRequestLogin" "length [10 :: byte, 1, 65] + 1 \<le> 9"
    by simp_all
  then show ?thesis by (rule protocol_parser_total [THEN conjunct1])
qed

text \<open>C19: The unrolled readers and writers of variable-length integers, which look at the end of the buffer once
  and at each byte with arithmetic of 32 bits, agree with the plain loops on every buffer and every value, and
  never read a byte behind the end of the buffer.\<close>

theorem varint_fast_paths:
  "ReadVarint32_inline bs = Inr (ReadVarint32 bs)
    \<and> ReadVarint64_inline bs = Inr (ReadVarint64 bs)
    \<and> ReadTag_inline bs = Inr (ReadTag bs)
    \<and> WriteVarint32ToArray v = WriteVarint32 v
    \<and> WriteVarint64ToArrayInline w = WriteVarint64 w"
  by (simp add: ReadVarint32_inline_loop ReadVarint64_inline_loop ReadTag_inline_loop
      WriteVarint32ToArray_loop WriteVarint64ToArrayInline_loop)

text \<open>C20: The generated parsers jump from the code of one field into the code of the next when the tag they
  expect comes, and test the other tags against a cutoff. For every class of the protocol, on every input, this
  control flow stops after at most three steps for each byte, and accepts and rejects, field by field,
  exactly as the loop that reads one tag after the other; and the cutoff in the code is the one of its fields.\<close>

theorem generated_parser_is_the_loop:
  assumes "c \<in> set net_classes" and "3 * length bs + 1 \<le> fuel"
  shows "accepted (RunCode fuel 100 (class_schema c) L_loop pb_new bs) = ParseFromString (class_schema c) bs
    \<and> class_cutoff c = tag_cutoff (class_schema c)"
  using RunCode_Merge [of "class_schema c" 100 L_loop bs fuel pb_new] net_classes_good [OF assms(1)]
    net_cutoffs [OF assms(1)] assms(2)
  by (simp add: ParseFromString_def Merge_def)

theorem generated_parser_is_the_loop_witness:
  "accepted (RunCode 20 100 CRequestLogin L_loop pb_new [10, 1, 65, 40, 1]) =
      ParseFromString CRequestLogin [10, 1, 65, 40, 1]
    \<and> 127 = tag_cutoff CRequestLogin"
  using generated_parser_is_the_loop [OF class_in_list(2), of "[10, 1, 65, 40, 1]" 20]
  by (simp add: class_rows)

text \<open>C21: Every message class of the protocol, on objects that satisfy the invariant of the classes (typed
  members, default values where the bit of the field is clear): what \<open>ByteSize\<close> counts is what
  \<open>SerializeWithCachedSizesToArray\<close> then writes, the generated parser reads it back as the message of the
  object, and two objects written one behind the other as the second merged into the first.\<close>

theorem class_roundtrip:
  assumes "c \<in> set net_classes" and "object_ok (class_schema c) x" and "object_ok (class_schema c) y"
    and "msg_fits (class_schema c) (message_of (class_schema c) x)"
    and "msg_fits (class_schema c) (message_of (class_schema c) y)"
  shows "fst (class_size c x) = length (class_bytes c (snd (class_size c x)))
    \<and> GeneratedParse (class_schema c) (class_bytes c (snd (class_size c x))) = Some (message_of (class_schema c) x)
    \<and> GeneratedParse (class_schema c) (class_bytes c (snd (class_size c x)) @ class_bytes c (snd (class_size c y))) =
        Some (MergeFrom (message_of (class_schema c) y) (message_of (class_schema c) x))"
  by (intro conjI class_facts [OF assms(1)] assms(2-))

text \<open>A list of mails with one mail.\<close>

definition mail_object :: pb_object where
  "mail_object = \<lparr>has_bits = 0, member = (\<lambda>_. no_member)(1 := UInt32 0, 2 := Messages [Msg [1 \<mapsto> UInt32 8] []]),
     unknown_fields = [], cached_size = 0, packed_cached_byte_size = 0\<rparr>"

lemma mail_object_ok:
  "object_ok CGSNotifyEMailList mail_object" "message_of CGSNotifyEMailList mail_object = mail_list_example"
  by (simp_all add: object_ok_def message_of_def CGSNotifyEMailList_def mail_object_def mail_list_example_def)

theorem class_roundtrip_witness:
  "fst (CGSNotifyEMailList_ByteSize mail_object) =
      length (CGSNotifyEMailList_Serialize (snd (CGSNotifyEMailList_ByteSize mail_object)))
    \<and> GeneratedParse CGSNotifyEMailList (CGSNotifyEMailList_Serialize (snd (CGSNotifyEMailList_ByteSize mail_object))) =
        Some mail_list_example"
  using class_roundtrip [OF class_in_list(1), of mail_object mail_object]
  by (simp add: class_rows mail_object_ok mail_examples_fit)

text \<open>C22: The constructor, \<open>Clear\<close>, \<open>MergeFrom\<close>, \<open>CopyFrom\<close> and \<open>Swap\<close> of every message class of the protocol
  keep the invariant of the objects and do to them what their names say of messages: the new and the cleared
  message are empty, the source is merged, copied or exchanged. None of them zeroes a string pointer or
  copies a number that is none of its enumeration; merging an object into itself ends the program.\<close>

theorem class_functions_refine:
  assumes "c \<in> set net_classes" and "object_ok (class_schema c) source" and "object_ok (class_schema c) x"
  shows "object_ok (class_schema c) (class_ctor c raw) \<and> message_of (class_schema c) (class_ctor c raw) = pb_new
    \<and> (\<exists>y. class_clear c x = Inr y \<and> object_ok (class_schema c) y \<and> message_of (class_schema c) y = pb_new)
    \<and> (\<exists>y. class_merge c False source x = Inr y \<and> object_ok (class_schema c) y
        \<and> message_of (class_schema c) y = MergeFrom (message_of (class_schema c) source) (message_of (class_schema c) x))
    \<and> class_merge c True source x = Inl AssertFailed
    \<and> (\<exists>y. copy_object (class_clear c) (class_merge c) False source x = Inr y \<and> object_ok (class_schema c) y
        \<and> message_of (class_schema c) y = message_of (class_schema c) source)
    \<and> (\<exists>x' y'. swap_objects (class_swap c) False (source, x) = (x', y')
        \<and> object_ok (class_schema c) x' \<and> object_ok (class_schema c) y'
        \<and> message_of (class_schema c) x' = message_of (class_schema c) x
        \<and> message_of (class_schema c) y' = message_of (class_schema c) source)"
  by (intro conjI class_facts [OF assms(1)] assms(2-))

theorem class_functions_refine_witness:
  "(\<exists>y. copy_object CGSNotifyEMailList_Clear CGSNotifyEMailList_MergeFrom False mail_object mail_object = Inr y
      \<and> message_of CGSNotifyEMailList y = mail_list_example)
    \<and> CGSNotifyEMailList_MergeFrom True mail_object mail_object = Inl AssertFailed"
  using class_functions_refine [OF class_in_list(1), of mail_object mail_object]
  by (simp add: class_rows mail_object_ok) blast

text \<open>C23: The accessors of the optional fields of every message class do to the message what their names say: \<open>has_x\<close>
  tells whether the field is set and \<open>x\<close> gives its value or the default; \<open>set_x\<close> sets it, and refuses a number
  that is none of the enumeration; \<open>clear_x\<close> removes it; and the setter that takes a C string stores the
  bytes before the first zero byte, or leaves the buffer when there is none. The invariant of the objects is kept.\<close>

theorem class_accessors_refine:
  assumes "(c, accs) \<in> set net_accessors" and "Optional a \<in> set accs" and "object_ok (class_schema c) x"
  shows "has_x a x = has_field (acc_member a) (message_of (class_schema c) x)
    \<and> get_x a x = (case pb_fields (message_of (class_schema c) x) (acc_member a) of Some v \<Rightarrow> v | None \<Rightarrow> acc_default a)
    \<and> (val_ok (acc_type a) v \<longrightarrow> (\<exists>y. set_x a v x = Inr y \<and> object_ok (class_schema c) y
        \<and> message_of (class_schema c) y = set_field (acc_member a) v (message_of (class_schema c) x)))
    \<and> (acc_type a = PB_enum cases \<longrightarrow> sint w \<notin> set cases \<longrightarrow> set_x a (Enum w) x = Inl AssertFailed)
    \<and> object_ok (class_schema c) (clear_x a x)
    \<and> message_of (class_schema c) (clear_x a x) = clear_field (acc_member a) (message_of (class_schema c) x)
    \<and> set_x_chars a buf x = (if 0 \<in> set buf then set_x a (Str (c_str buf)) x else Inl OutOfBounds)"
proof -
  have "holds_field (class_schema c) a x"
    by (rule accessor_class.optional_holds [OF net_accessor_class [OF assms(1)] assms(2,3)])
  then show ?thesis
    using set_x_message [of "class_schema c" a x v]
    by (intro conjI impI has_get_message clear_x_message set_x_wrong_enum set_x_chars_eq)
qed

text \<open>The user name of a login request.\<close>

definition user_name_accessor :: accessor where
  "user_name_accessor = \<lparr>acc_member = 1, acc_type = PB_string, acc_has = 1, acc_set_has = 1, acc_clear_has = 1,
     acc_default = Str []\<rparr>"

theorem class_accessors_refine_witness:
  "\<exists>y. set_x_chars user_name_accessor [98, 111, 98, 0, 7] (CRequestLogin_SharedCtor mail_object) = Inr y
    \<and> object_ok CRequestLogin y \<and> message_of CRequestLogin y = Msg [1 \<mapsto> Str [98, 111, 98]] []"
proof -
  let ?x = "CRequestLogin_SharedCtor mail_object"
  have x: "object_ok CRequestLogin ?x" "message_of CRequestLogin ?x = pb_new"
    by (rule login_class.ctor_message)+
  have "Optional user_name_accessor \<in> set CRequestLogin_accessors"
    by (simp add: CRequestLogin_accessors_def optional_def user_name_accessor_def)
  from class_accessors_refine [OF accessors_in_list(1) this, of ?x "Str [98, 111, 98]" _ _ "[98, 111, 98, 0, 7]"] show ?thesis
    using x by (simp add: class_rows user_name_accessor_def c_str_def set_field_def)
qed

text \<open>C24: Every message class of the protocol, written to a stream: whatever buffers the stream hands out,
  of whatever sizes, what ends up in them is what the array writer writes, in order, as far as there is
  room, and \<open>SerializePartialToZeroCopyStream\<close> reports success exactly when all of it fits; on a stream that is written
  to already the same holds for what is left of it, and \<open>ByteCount\<close> advances by \<open>ByteSize\<close>. The check that compares
  the two never stops the program.\<close>

theorem stream_writers_refine:
  assumes "(c, w) \<in> set net_streams" and "object_ok (class_schema c) x"
    and "all_sizes_ok (class_schema c) (message_of (class_schema c) x)" and "\<not> os_error s"
  shows "SerializePartialToZeroCopyStream (class_size c) (class_bytes c) w x sizes =
      Inr (ByteSize (class_schema c) (message_of (class_schema c) x) \<le> sum_list sizes,
        take (sum_list sizes) (SerializeAsString (class_schema c) (message_of (class_schema c) x)))
    \<and> (\<exists>t. SerializePartialToCodedStream (class_size c) (class_bytes c) w x s =
        Inr (ByteSize (class_schema c) (message_of (class_schema c) x) \<le> capacity s, t)
      \<and> os_written t = os_written s @ take (capacity s) (SerializeAsString (class_schema c) (message_of (class_schema c) x))
      \<and> (ByteSize (class_schema c) (message_of (class_schema c) x) \<le> capacity s \<longrightarrow>
          ByteCount t = ByteCount s + int (ByteSize (class_schema c) (message_of (class_schema c) x))))"
  using stream_whole [OF assms(1-3), of sizes] stream_more [OF assms]
    WriteRaw_effect [of "SerializeAsString (class_schema c) (message_of (class_schema c) x)" s]
  by (simp add: ByteSize_eq [OF assms(3)])

text \<open>The mail list takes four bytes: buffers of one, no and two bytes are too small.\<close>

theorem stream_writers_refine_witness:
  "SerializePartialToZeroCopyStream CGSNotifyEMailList_ByteSize CGSNotifyEMailList_Serialize
      CGSNotifyEMailList_SerializeTo mail_object [1, 0, 2] =
    Inr (False, take 3 (SerializeAsString CGSNotifyEMailList mail_list_example))"
proof -
  have "ByteSize CGSNotifyEMailList mail_list_example = 4"
    by (simp add: ByteSize_def CGSNotifyEMailList_def MainInfo_def mail_list_example_def field_tag_def MakeTag_def
        ComputeUnknownFieldsSize_def VarintSize32_def Let_def)
  moreover have "all_sizes_ok CGSNotifyEMailList mail_list_example"
    by (simp add: CGSNotifyEMailList_def MainInfo_def mail_list_example_def)
  ultimately show ?thesis
    using stream_writers_refine [OF mail_list_in_streams, of mail_object "CodedOutputStream_new []" "[1, 0, 2]"]
    by (simp add: class_rows mail_object_ok new_stream numeral_3_eq_3)
qed

section \<open>Login\<close>

text \<open>C25: A client that sends a login request with its user name, without empty strings, zero
  bytes, a false flag or unknown fields, and whose frame arrives whole: after one turn of the main loop and one timer
  event the login reply, which parses to its own name and nothing else, is written to its own
  stream, and nothing else in the server changes. A reply whose frame has a multiple of 256 bytes is the exception
  (a name of 249 bytes, for example): it is never written, see C16.\<close>

theorem login_request_is_answered:
  assumes "srv_linked srv" and "map_of (m_OnlineID srv) conn = Some h"
    and "m_RecvMessage srv = []" and "m_SendMessage srv = []" and "ts_status srv \<noteq> CLOSE"
    and "am_status a \<noteq> App_CLOSED" and "m_EchoServer a = Some srv"
    and "msg_fits CRequestLogin req" and "pb_unknown req = []"
    and "\<And>n v. pb_fields req n = Some v \<Longrightarrow> pb_no_nul v"
    and "pb_fields req 1 = Some (Str name)"
    and "length (SerializeAsString CRequestLogin req) \<le> 65531"
    and "length reply \<le> 65531" and "reply = SerializeAsString CRequestLoginRet (pb_set 1 (Str name) pb_new)"
  shows "rfold sys_step
      [Sys_net (Ev_read h (int (4 + length (SerializeAsString CRequestLogin req)))
                 (frame 2 (SerializeAsString CRequestLogin req) @ rest)),
       Sys_turn, Sys_net Ev_timer] (RegisterMessage m, a) =
    Inr (RegisterMessage m, a\<lparr>m_EchoServer := Some (srv\<lparr>ts_log := ts_log srv
      @ (if (4 + length reply) mod 256 = 0 then [] else [UvWrite h (frame 1 reply)]) @ [UvTimerStart]\<rparr>)\<rparr>)
    \<and> ParseFromString CRequestLoginRet reply = Some (pb_set 1 (Str name) pb_new)"
proof -
  have login: "handler_of (RegisterMessage m) C2G_Login = Some HandleLogin"
    by (simp add: handler_of_RegisterMessage C2G_Login_def)
  have "length name < 2 ^ 31"
    using assms(8,11) by (auto simp: msg_fits_def msg_fits_at_def CRequestLogin_def)
  then have "ParseFromString CRequestLoginRet (SerializeAsString CRequestLoginRet (pb_set 1 (Str name) pb_new)) =
      Some (pb_set 1 (Str name) pb_new)"
    by (intro ParseFromString_Serialize [OF net_good_schemas(3)])
      (auto simp: msg_fits_def msg_fits_at_def CRequestLoginRet_def)
  then show ?thesis
    using login_answered [OF assms(1-7) login assms(8-12), where rest = rest] assms(13)
    by (simp add: written_def assms(14))
qed

definition login_example :: pb_msg where
  "login_example = Msg [1 \<mapsto> Str [98, 111, 98], 5 \<mapsto> Bool True] []"

definition login_state :: login_app where
  "login_state = \<lparr>m_EchoServer = Some online_server, am_status = App_RUNING, m_UserList = Map.empty\<rparr>"

theorem login_request_is_answered_witness:
  "rfold sys_step
      [Sys_net (Ev_read 100 (int (4 + length (SerializeAsString CRequestLogin login_example)))
                 (frame 2 (SerializeAsString CRequestLogin login_example) @ [])),
       Sys_turn, Sys_net Ev_timer] (RegisterMessage Map.empty, login_state) =
    Inr (RegisterMessage Map.empty, login_state\<lparr>m_EchoServer := Some (online_server\<lparr>ts_log := ts_log online_server
      @ (if (4 + length [10 :: byte, 3, 98, 111, 98]) mod 256 = 0 then [] else [UvWrite 100 (frame 1 [10, 3, 98, 111, 98])])
      @ [UvTimerStart]\<rparr>)\<rparr>)
    \<and> ParseFromString CRequestLoginRet [10, 3, 98, 111, 98] = Some (pb_set 1 (Str [98, 111, 98]) pb_new)"
proof (rule login_request_is_answered [OF online_server_linked])
  show "msg_fits CRequestLogin login_example"
    by (auto simp: msg_fits_def msg_fits_at_def CRequestLogin_def login_example_def split: if_splits)
  show "pb_no_nul v" if "pb_fields login_example n = Some v" for n v
    using that by (auto simp: login_example_def split: if_splits)
qed (simp_all add: online_server_def fresh_server_def login_state_def login_example_def
      SerializeAsString_def SerializeUnknownFields_def CRequestLogin_def CRequestLoginRet_def field_tag_def
      MakeTag_def WriteVarint32_def WriteVarint64.simps)

text \<open>C26: A request to create a role whose gender is false is never answered: the byte that
  encodes the flag is zero, so the text the handler gets ends inside the field and cannot be parsed;
  nothing is stored and nothing is sent.\<close>

theorem create_role_unanswered:
  assumes "msg_fits CGCSendCreateRole req" and "pb_fields req 2 = Some (Bool False)"
    and "\<And>v. pb_fields req 1 = Some v \<Longrightarrow> pb_no_nul v"
    and "length (SerializeAsString CGCSendCreateRole req) \<le> 65531"
  shows "RecivedMessage conn (Some (frame 3 (SerializeAsString CGCSendCreateRole req) @ rest))
      (word_of_nat (4 + length (SerializeAsString CGCSendCreateRole req))) (RegisterMessage m, a) =
    Inr (RegisterMessage m, a)"
proof -
  let ?body = "SerializeAsString CGCSendCreateRole req"
  have "handler_of (RegisterMessage m) (uint (3 :: u16)) = Some HandleCreateRole"
    by (simp add: handler_of_RegisterMessage)
  moreover have "HandleCreateRole (uint (3 :: u16)) (sint conn) (c_str ?body) a = Inr a"
    using create_role_cut [OF assms(1-3)] by (simp add: HandleCreateRole_def)
  moreover have "0 < length ?body"
    using assms(2) WriteVarint64_nonempty
    by (auto simp: SerializeAsString_def CGCSendCreateRole_def WriteVarint32_def)
  ultimately show ?thesis
    using received_frame [of ?body conn 3 rest "RegisterMessage m" a] assms(4)
    by (simp only: dispatch_known rbind.simps prod.case)
qed

theorem create_role_unanswered_witness:
  "RecivedMessage 1 (Some (frame 3 (SerializeAsString CGCSendCreateRole
        (Msg [1 \<mapsto> UInt32 2, 2 \<mapsto> Bool False, 3 \<mapsto> Str [98]] [])) @ []))
      (word_of_nat (4 + length (SerializeAsString CGCSendCreateRole
        (Msg [1 \<mapsto> UInt32 2, 2 \<mapsto> Bool False, 3 \<mapsto> Str [98]] [])))) (RegisterMessage Map.empty, login_state) =
    Inr (RegisterMessage Map.empty, login_state)"
  by (rule create_role_unanswered)
    (auto simp: msg_fits_def msg_fits_at_def CGCSendCreateRole_def SerializeAsString_def
      SerializeUnknownFields_def field_tag_def MakeTag_def WriteVarint32_def WriteVarint64.simps)

text \<open>C27: The handlers of CLogin.cpp as they are written, on objects of the generated classes with their
  constructors, parsers, accessors, assignment and serialisation, in whatever memory the objects are constructed, do
  what the handlers on messages do, and end with the same state or the same fault, once the stored users are
  messages of their class, which the handlers keep.\<close>

theorem handlers_on_objects:
  assumes "users_typed a"
  shows "HandleLogin_x raw1 raw2 cmd c msg a = HandleLogin cmd c msg a
    \<and> HandleCreateRole_x raw1 raw2 raw3 raw4 cmd c msg a = HandleCreateRole cmd c msg a
    \<and> HandleSelectRole_x raw1 raw2 cmd c msg a = HandleSelectRole cmd c msg a
    \<and> (\<forall>f \<in> {HandleLogin, HandleCreateRole, HandleSelectRole}. \<forall>a'. f cmd c msg a = Inr a' \<longrightarrow> users_typed a')"
  using handlers_keep_users [OF assms] by (auto simp: HandleLogin_x_eq HandleSelectRole_x_eq HandleCreateRole_x_eq [OF assms])

text \<open>A second request to create a role on the same connection replaces the first.\<close>

definition role_request :: pb_msg where
  "role_request = Msg [1 \<mapsto> UInt32 2, 2 \<mapsto> Bool True, 3 \<mapsto> Str [98]] []"

definition role_state :: login_app where
  "role_state = login_state\<lparr>m_UserList := [1 \<mapsto> Msg [1 \<mapsto> UInt32 7] []]\<rparr>"

lemma role_request_stored:
  "\<exists>a. HandleCreateRole 3 1 (SerializeAsString CGCSendCreateRole role_request) role_state = Inr a
    \<and> m_UserList a = [1 \<mapsto> role_request]"
proof -
  have "msg_fits CGCSendCreateRole role_request"
    by (auto simp: msg_fits_def msg_fits_at_def CGCSendCreateRole_def role_request_def split: if_splits)
  then have parse: "ParseFromString CGCSendCreateRole (SerializeAsString CGCSendCreateRole role_request) = Some role_request"
    by (rule ParseFromString_Serialize [OF create_role.good(1)])
  have "length (SerializeAsString CGCSendCreateRoleRet (pb_set 1 (Int32 0) pb_new)) \<le> 65531"
    "length (SerializeAsString CGSNotifyRoleBaseInfo (role_base_info role_request)) \<le> 65531"
    by (simp_all add: SerializeAsString_def SerializeUnknownFields_def CGCSendCreateRoleRet_def
        CGSNotifyRoleBaseInfo_def role_base_info_def role_request_def get_string_def get_uint32_def get_bool_def
        field_tag_def MakeTag_def WriteVarint32_def WriteVarint64.simps)
  then show ?thesis
    using parse by (simp add: HandleCreateRole_def Let_def SendClient_eq echo_push_def role_state_def login_state_def)
qed

theorem handlers_on_objects_witness:
  "\<exists>a. HandleCreateRole_x mail_object mail_object mail_object mail_object 3 1
        (SerializeAsString CGCSendCreateRole role_request) role_state = Inr a
    \<and> m_UserList a = [1 \<mapsto> role_request] \<and> users_typed a"
proof -
  have "users_typed role_state"
    by (simp add: users_typed_def msg_typed_def CGCSendCreateRole_def role_state_def)
  from handlers_on_objects [OF this, of mail_object mail_object 3 1 "SerializeAsString CGCSendCreateRole role_request"
      mail_object mail_object]
  show ?thesis
    using role_request_stored by auto
qed

section \<open>Text streams\<close>

text \<open>C28: An \<open>int\<close> written to a text stream with room for it is read back by a reader on the bytes of
  that stream, in both versions.\<close>

theorem text_int_roundtrip:
  assumes "tx_ok s" and "tx_cur s = 4" and "19 \<le> tx_len s"
    and "tx_ok s2" and "tx_cur s2 = 6" and "23 \<le> tx_len s2"
  shows "(\<exists>t r. TextWriteStream_Write_int i s = Inr (True, t) \<and>
      TextReadStream_Read_int old (TextReadStream_new (take (text_GetSize t) (tx_mem t)) (text_GetSize t)) =
        Inr (True, i, r))
    \<and> (\<exists>t r. TextWriteStream2_Write_int i s2 = Inr (True, t) \<and>
      TextReadStream2_Read_int old (TextReadStream2_new (take (text_GetSize t) (tx_mem t)) (text_GetSize t)) =
        Inr (True, i, r))"
proof
  let ?str = "print_int (sint i)"
  have "- (2 ^ 31) \<le> sint i" "sint i < 2 ^ 31"
    using sint_range_size [of i] by (simp_all add: word_size)
  then have len: "length ?str \<le> 11" by (rule length_print_int)
  let ?t = "tx_app (text_field TEXT_PACKLEN_LEN ?str) s"
  have small: "length ?str < 16 ^ TEXT_PACKLEN_LEN" using len by (simp add: TEXT_PACKLEN_LEN_def)
  have room: "TEXT_PACKLEN_LEN + length (text_field TEXT_PACKLEN_LEN ?str) \<le> tx_len s"
    using assms(3) len text1.field_length [OF small] by (simp add: TEXT_PACKLEN_LEN_def)
  have "TextWriteStream_Write_int i s = Inr (True, ?t)"
    using text1.Write_eq [OF assms(1) small, of "[0]"] assms(2) room text1.field_length [OF small]
    by (simp add: TextWriteStream_Write_int_def TextWriteStream_Write_def Let_def TEXT_PACKLEN_LEN_def)
  moreover have "\<exists>r. TextReadStream_Read_int old (TextReadStream_new (take (text_GetSize ?t) (tx_mem ?t)) (text_GetSize ?t)) = Inr (True, i, r)"
    using text1.Read_int_field [OF text1.text_reader_of_writer(1) [OF assms(1) _ room], of i "[]" old]
      text1.text_reader_of_writer(2) [OF assms(1) _ room] assms(2)
    by (simp add: TextReadStream_Read_int_def TextReadStream_new_def TEXT_PACKLEN_LEN_def)
  ultimately show "\<exists>t r. TextWriteStream_Write_int i s = Inr (True, t) \<and>
      TextReadStream_Read_int old (TextReadStream_new (take (text_GetSize t) (tx_mem t)) (text_GetSize t)) =
        Inr (True, i, r)" by blast
  let ?u = "tx_app (text_field TEXT_PACKLEN_LEN_2 ?str) s2"
  have small2: "length ?str < 16 ^ TEXT_PACKLEN_LEN_2" using len by (simp add: TEXT_PACKLEN_LEN_2_def)
  have room2: "TEXT_PACKLEN_LEN_2 + length (text_field TEXT_PACKLEN_LEN_2 ?str) \<le> tx_len s2"
    using assms(6) len text2.field_length [OF small2] by (simp add: TEXT_PACKLEN_LEN_2_def)
  have "TextWriteStream2_Write_int i s2 = Inr (True, ?u)"
    using text2.Write_eq [OF assms(4) small2, of "[0]"] assms(5) room2 text2.field_length [OF small2]
    by (simp add: TextWriteStream2_Write_int_def TextWriteStream2_Write_def Let_def TEXT_PACKLEN_LEN_2_def)
  moreover have "\<exists>r. TextReadStream2_Read_int old (TextReadStream2_new (take (text_GetSize ?u) (tx_mem ?u)) (text_GetSize ?u)) = Inr (True, i, r)"
    using text2.Read_int_field [OF text2.text_reader_of_writer(1) [OF assms(4) _ room2], of i "[]" old]
      text2.text_reader_of_writer(2) [OF assms(4) _ room2] assms(5)
    by (simp add: TextReadStream2_Read_int_def TextReadStream2_new_def TEXT_PACKLEN_LEN_2_def)
  ultimately show "\<exists>t r. TextWriteStream2_Write_int i s2 = Inr (True, t) \<and>
      TextReadStream2_Read_int old (TextReadStream2_new (take (text_GetSize t) (tx_mem t)) (text_GetSize t)) =
        Inr (True, i, r)" by blast
qed

theorem text_int_roundtrip_witness:
  "(\<exists>t r. TextWriteStream_Write_int (- 305) (TextWriteStream_new (replicate 20 0) 20) = Inr (True, t) \<and>
      TextReadStream_Read_int 7 (TextReadStream_new (take (text_GetSize t) (tx_mem t)) (text_GetSize t)) =
        Inr (True, - 305, r))
    \<and> (\<exists>t r. TextWriteStream2_Write_int (- 305) (TextWriteStream2_new (replicate 30 0) 30) = Inr (True, t) \<and>
      TextReadStream2_Read_int 7 (TextReadStream2_new (take (text_GetSize t) (tx_mem t)) (text_GetSize t)) =
        Inr (True, - 305, r))"
  by (rule text_int_roundtrip)
    (simp_all add: tx_ok_def TextWriteStream_new_def TextWriteStream2_new_def text_new_def
      TEXT_PACKLEN_LEN_def TEXT_PACKLEN_LEN_2_def)

text \<open>C29: Whatever bytes a text stream holds, reading a string never leaves the buffer or the
  target: it succeeds with at most \<open>strlen\<close> bytes and ends inside the buffer, or it reports failure
  and leaves the target alone. A failed read leaves a stream of the first version where it was; one
  of the second version may have moved past the length field.\<close>

theorem text_read_stays_inside:
  assumes "tx_ok s" and "strlen \<le> length dest"
  shows "(\<exists>ok dest' n t. TextReadStream_Read dest strlen outlen s = Inr (ok, dest', n, t)
      \<and> tx_mem t = tx_mem s \<and> length dest' = length dest
      \<and> (if ok then n \<le> strlen \<and> tx_cur t = tx_cur s + 4 + n \<and> tx_cur t \<le> tx_len s
         else dest' = dest \<and> n = outlen \<and> t = s))
    \<and> (\<exists>ok dest' n t. TextReadStream2_Read dest strlen outlen s = Inr (ok, dest', n, t)
      \<and> tx_mem t = tx_mem s \<and> length dest' = length dest
      \<and> (if ok then n \<le> strlen \<and> tx_cur t = tx_cur s + 6 + n \<and> tx_cur t \<le> tx_len s
         else dest' = dest \<and> n = outlen \<and> (t = s \<or> t = s\<lparr>tx_cur := tx_cur s + 6\<rparr>)))"
proof
  obtain ok dest' n t where "TextReadStream_Read dest strlen outlen s = Inr (ok, dest', n, t)"
    "length dest' = length dest" "tx_mem t = tx_mem s"
    "ok \<longrightarrow> n \<le> strlen \<and> tx_cur t = tx_cur s + 4 + n \<and> tx_cur t \<le> tx_len s"
    "\<not> ok \<longrightarrow> dest' = dest \<and> n = outlen \<and> t = s"
    using text1.Read_total [OF assms, of outlen]
    unfolding TextReadStream_Read_def TEXT_PACKLEN_LEN_def by blast
  then show "\<exists>ok dest' n t. TextReadStream_Read dest strlen outlen s = Inr (ok, dest', n, t)
      \<and> tx_mem t = tx_mem s \<and> length dest' = length dest
      \<and> (if ok then n \<le> strlen \<and> tx_cur t = tx_cur s + 4 + n \<and> tx_cur t \<le> tx_len s
         else dest' = dest \<and> n = outlen \<and> t = s)"
    by (intro exI [of _ ok] exI [of _ dest'] exI [of _ n] exI [of _ t]) auto
  obtain ok dest' n t where "TextReadStream2_Read dest strlen outlen s = Inr (ok, dest', n, t)"
    "length dest' = length dest" "tx_mem t = tx_mem s"
    "ok \<longrightarrow> n \<le> strlen \<and> tx_cur t = tx_cur s + 6 + n \<and> tx_cur t \<le> tx_len s"
    "\<not> ok \<longrightarrow> dest' = dest \<and> n = outlen \<and> (t = s \<or> t = s\<lparr>tx_cur := tx_cur s + 6\<rparr>)"
    using text2.Read_total [OF assms, of outlen]
    unfolding TextReadStream2_Read_def TEXT_PACKLEN_LEN_2_def by blast
  then show "\<exists>ok dest' n t. TextReadStream2_Read dest strlen outlen s = Inr (ok, dest', n, t)
      \<and> tx_mem t = tx_mem s \<and> length dest' = length dest
      \<and> (if ok then n \<le> strlen \<and> tx_cur t = tx_cur s + 6 + n \<and> tx_cur t \<le> tx_len s
         else dest' = dest \<and> n = outlen \<and> (t = s \<or> t = s\<lparr>tx_cur := tx_cur s + 6\<rparr>))"
    by (intro exI [of _ ok] exI [of _ dest'] exI [of _ n] exI [of _ t]) auto
qed

theorem text_read_stays_inside_witness:
  "(\<exists>ok dest' n t. TextReadStream_Read [1, 2] 2 5 (TextReadStream_new [48, 48, 48, 52, 70, 70, 70, 70, 65] 9) = Inr (ok, dest', n, t)
      \<and> tx_mem t = tx_mem (TextReadStream_new [48, 48, 48, 52, 70, 70, 70, 70, 65] 9) \<and> length dest' = length [1 :: byte, 2]
      \<and> (if ok then n \<le> 2 \<and> tx_cur t = tx_cur (TextReadStream_new [48, 48, 48, 52, 70, 70, 70, 70, 65] 9) + 4 + n
           \<and> tx_cur t \<le> tx_len (TextReadStream_new [48, 48, 48, 52, 70, 70, 70, 70, 65] 9)
         else dest' = [1, 2] \<and> n = 5 \<and> t = TextReadStream_new [48, 48, 48, 52, 70, 70, 70, 70, 65] 9))"
  by (rule text_read_stays_inside [THEN conjunct1]) (simp_all add: tx_ok_def TextReadStream_new_def text_new_def)

section \<open>Message buffers\<close>

text \<open>C30: Values of the types whose operators return, put into a buffer in any order, are got back in that
  order when the buffer was empty, whatever the targets held; then the buffer is empty again. The
  floating-point numbers have to be finite and the strings free of zero bytes.\<close>

theorem buffer_roundtrip:
  assumes "mb_ok b" and "unread b = []" and "list_all mb_fine vs" and "list_all2 mb_same_type vs olds"
  shows "\<exists>b' b''. rfold mb_put vs b = Inr b' \<and> GetActiveSize b' = length (concat (map mb_enc vs)) mod 2 ^ 32
    \<and> mb_get_all olds b' = (vs, b'') \<and> unread b'' = []"
proof -
  let ?bs = "concat (map mb_enc vs)"
  let ?b = "mb_app ?bs b"
  have "unread ?b = ?bs @ []" using assms(1,2) by (simp add: unread_app)
  then have "mb_get_all olds ?b = (vs, mb_adv (length ?bs) ?b)"
    using assms(1,3,4) by (intro mb_get_all_eq) (simp_all add: mb_app_ok)
  moreover have "unread (mb_adv (length ?bs) ?b) = []"
    using assms(1,2) by (simp add: unread_adv unread_app)
  moreover have "mb_wpos b = mb_rpos b"
    using length_unread [OF assms(1)] assms(1,2) by (simp add: mb_ok_def)
  then have "GetActiveSize ?b = length ?bs mod 2 ^ 32"
    by (simp add: GetActiveSize_def mb_app_def size_t_of_int_def nat_mod_distrib)
  ultimately show ?thesis using mb_put_all [OF assms(1), of vs] by blast
qed

theorem buffer_roundtrip_witness:
  "\<exists>b' b''. rfold mb_put [MB_int16 300, MB_string [104, 105], MB_uint8 7] MessageBuffer_new = Inr b'
    \<and> GetActiveSize b' = length (concat (map mb_enc [MB_int16 300, MB_string [104, 105], MB_uint8 7])) mod 2 ^ 32
    \<and> mb_get_all [MB_int16 0, MB_string [1], MB_uint8 0] b' = ([MB_int16 300, MB_string [104, 105], MB_uint8 7], b'')
    \<and> unread b'' = []"
  by (rule buffer_roundtrip) simp_all

section \<open>The TCP client\<close>

text \<open>C31: In every run of a client that has been started, whatever the server sends, \<open>GetRecvMessage\<close>
  returns nothing: the callback for received data throws the message away.\<close>

theorem client_delivers_nothing:
  assumes "cl_started s" and "cl_run s es t"
  shows "fst (client_GetRecvMessage t) = None"
  using cl_run_recv [OF assms(2)] cl_started_fields(3) [OF assms(1)]
  by (simp add: client_GetRecvMessage_def)

definition client_example :: tcp_client where
  "client_example = \<lparr>tc_status = NONE, tc_unicode = 1, tc_ip = [49, 0, 0, 0, 0, 0, 0, 0, 0, 0], tc_port = 9998,
     tc_SendMessage = [], tc_RecvMessage = [], tc_timer = False, tc_connecting = True,
     tc_reading = False, tc_closing = False, tc_writing = False, tc_log = [UcConnect]\<rparr>"

lemma client_example_started: "cl_started client_example"
proof -
  have "TCPClient_new 1 [49, 0] 9998 = Inr (client_example\<lparr>tc_connecting := False, tc_log := []\<rparr>)"
    by (simp add: TCPClient_new_def c_strlen_def c_str_def memcpy_from_def memcpy_to_def
        client_example_def eval_nat_numeral)
  then show ?thesis
    unfolding cl_started_def
    by (intro exI conjI) (assumption, simp add: client_Start_def uc_connect_def client_example_def)
qed

text \<open>The connection succeeds, a message is pushed, the timer fires, data arrives.\<close>

definition client_events :: "cl_event list" where
  "client_events = [Cl_connected 0 0 0, Cl_push \<lparr>mi_conn = 0, mi_buf = Some [65], mi_len = 1\<rparr>,
     Cl_timer 0 0 0 0, Cl_read 5]"

definition client_after :: tcp_client where
  "client_after = client_example\<lparr>tc_status := RUNING, tc_timer := True, tc_connecting := False,
     tc_reading := True, tc_writing := True, tc_log := [UcConnect, UcReadStart, UcWrite (Some [65]) 1 0]\<rparr>"

lemma client_after_run: "cl_run client_example client_events client_after"
proof -
  let ?m = "\<lparr>mi_conn = 0, mi_buf = Some [65], mi_len = 1\<rparr> :: MessageInfo"
  let ?s = "client_example\<lparr>tc_status := RUNING, tc_timer := True, tc_connecting := False\<rparr>"
  let ?t = "?s\<lparr>tc_SendMessage := [?m]\<rparr>"
  have steps: "cl_step client_example (Cl_connected 0 0 0) ?s" "cl_step ?s (Cl_push ?m) ?t"
    "cl_step ?t (Cl_timer 0 0 0 0) client_after" "cl_step client_after (Cl_read 5) client_after"
    by (simp_all add: cl_step_simps client_defs client_example_def client_after_def queue_push_def)
  show ?thesis
    using cl_run_snoc [OF cl_run_snoc [OF cl_run_snoc [OF cl_run_snoc [OF cl_run_nil steps(1)]
      steps(2)] steps(3)] steps(4)]
    by (simp add: client_events_def)
qed

theorem client_delivers_nothing_witness:
  "fst (client_GetRecvMessage client_after) = None"
  by (rule client_delivers_nothing [OF client_example_started client_after_run])

text \<open>C32: A client and the server together. From any state that the server reaches in which stream \<open>h\<close> has the
  number \<open>c\<close>, however the callbacks of both sides, the pushes of the client, other connections, and the reads of the
  logic thread are interleaved and however TCP cuts the bytes, as long as the connection lasts (the reads of both
  sides do not fail, no write fails after libuv has taken it, and the stream object is not freed) and every
  message of the client has a buffer of at least its length: the messages that the client has tried to write
  since, followed by those that wait in its queue, are those that waited at the start followed by the pushed ones,
  in order; and what has been taken from the server's queue for \<open>c\<close>, what waits in that queue and what
  is on the wire are, in this order, what they were at the start followed by the bytes of the tries for which
  \<open>uv_write\<close> has returned 0. So a message is lost exactly when \<open>uv_write\<close> refuses it (it has left the queue by then), and
  no other byte is lost, doubled, reordered or given to another connection. The client must not be given a turn of its
  timer while its last write is under way: that is a fault, see \<open>write_request_reused\<close> in \<open>TcpClient\<close>.\<close>

theorem client_server_stream:
  assumes "TCPServer_new ip port = Inr s0" and "rfold srv_step es0 s0 = Inr (lk_server k)"
    and "map_of (m_OnlineStream (lk_server k)) h = Some c" and "c \<noteq> 0"
    and "link_run h k es k'" and "length es0 + length es \<le> 2 ^ 32 - 1"
  shows "\<exists>ts. client_tries (tc_log (lk_client k')) = client_tries (tc_log (lk_client k)) @ ts
    \<and> map fst ts @ map (\<lambda>m. (mi_buf m, mi_len m)) (tc_SendMessage (lk_client k')) =
        map (\<lambda>m. (mi_buf m, mi_len m)) (tc_SendMessage (lk_client k)) @ pushed_on es
    \<and> conn_bytes c (lk_taken k') @ conn_bytes c (m_RecvMessage (lk_server k')) @ lk_wire k' =
        conn_bytes c (lk_taken k) @ conn_bytes c (m_RecvMessage (lk_server k)) @ lk_wire k
          @ bytes_of (map fst (filter (\<lambda>t. snd t = 0) ts))"
proof -
  have "srv_init s0" using assms(1) unfolding srv_init_def by blast
  then have "server_ok (length es0) (lk_server k)"
    using assms(2,6) by (intro srv_ok.run_from_init) simp_all
  then have "connected c h (length es0) (lk_server k)" using assms(3,4) by (simp add: connected_def)
  from link_run_tries [OF assms(5) this assms(6)] show ?thesis
    by (auto simp: link_adds_def stream_bytes_def queued_def accepted_writes_def)
qed

text \<open>Two messages are pushed; the write of the first is taken and completes, the second is refused. The first arrives
  byte by byte.\<close>

definition link_start :: link where
  "link_start = \<lparr>lk_client = client_example\<lparr>tc_status := RUNING, tc_timer := True, tc_connecting := False\<rparr>,
     lk_wire = [], lk_server = online_server, lk_taken = []\<rparr>"

definition link_events :: "link_event list" where
  "link_events = [Lk_client (Cl_push \<lparr>mi_conn = 0, mi_buf = Some [65, 66], mi_len = 2\<rparr>),
     Lk_client (Cl_push \<lparr>mi_conn = 0, mi_buf = Some [67], mi_len = 1\<rparr>), Lk_client (Cl_timer 0 0 0 0),
     Lk_client (Cl_written 0), Lk_client (Cl_timer 0 0 (- 32) 0), Lk_deliver 1 [0], Lk_server Ev_get, Lk_deliver 1 [0]]"

definition link_end :: link where
  "link_end = \<lparr>lk_client = client_example\<lparr>tc_status := RUNING, tc_timer := True, tc_connecting := False,
       tc_reading := True, tc_log := [UcConnect, UcReadStart, UcWrite (Some [65, 66]) 2 0, UcReadStart, UcWrite (Some [67]) 1 (- 32)]\<rparr>,
     lk_wire = [], lk_server = online_server\<lparr>m_RecvMessage := [\<lparr>mi_conn = 1, mi_buf = Some [66, 0], mi_len = 1\<rparr>]\<rparr>,
     lk_taken = [\<lparr>mi_conn = 1, mi_buf = Some [65, 0], mi_len = 1\<rparr>]\<rparr>"

lemma link_end_run: "link_run 100 link_start link_events link_end"
proof -
  let ?m = "\<lparr>mi_conn = 0, mi_buf = Some [65, 66], mi_len = 2\<rparr> :: MessageInfo"
  let ?n = "\<lparr>mi_conn = 0, mi_buf = Some [67], mi_len = 1\<rparr> :: MessageInfo"
  let ?c = "lk_client link_start" and ?d = "lk_client link_end"
  let ?got = "\<lambda>b. \<lparr>mi_conn = 1, mi_buf = Some [b, 0], mi_len = 1\<rparr> :: MessageInfo"
  let ?c2 = "?c\<lparr>tc_SendMessage := [?m, ?n]\<rparr>"
  let ?c3 = "?c\<lparr>tc_SendMessage := [?n], tc_reading := True, tc_writing := True,
      tc_log := [UcConnect, UcReadStart, UcWrite (Some [65, 66]) 2 0]\<rparr>"
  let ?k5 = "link_start\<lparr>lk_client := ?d, lk_wire := [65, 66]\<rparr>"
  let ?k6 = "?k5\<lparr>lk_wire := [66], lk_server := online_server\<lparr>m_RecvMessage := [?got 65]\<rparr>\<rparr>"
  let ?k7 = "?k5\<lparr>lk_wire := [66], lk_taken := [?got 65]\<rparr>"
  have step: "link_step 100 k (Lk_client e) k'"
    if "cl_step (lk_client k) e c'" "stays_connected e"
      "k' = k\<lparr>lk_client := c', lk_wire := lk_wire k @ bytes_of (accepted_writes (tries_since (lk_client k) c'))\<rparr>" for k k' e c'
    unfolding that(3) by (rule link_step.link_client [OF that(1,2)])
  have client: "cl_step ?c (Cl_push ?m) (?c\<lparr>tc_SendMessage := [?m]\<rparr>)"
    "cl_step (?c\<lparr>tc_SendMessage := [?m]\<rparr>) (Cl_push ?n) ?c2" "cl_step ?c2 (Cl_timer 0 0 0 0) ?c3"
    "cl_step ?c3 (Cl_written 0) (?c3\<lparr>tc_writing := False\<rparr>)"
    "cl_step (?c3\<lparr>tc_writing := False\<rparr>) (Cl_timer 0 0 (- 32) 0) ?d"
    by (simp_all add: cl_step_simps client_defs client_example_def link_start_def link_end_def queue_push_def)
  have server: "srv_step (Ev_read 100 1 [b, 0]) online_server = Inr (online_server\<lparr>m_RecvMessage := [?got b]\<rparr>)" for b
    by (simp add: after_read_def c_strlen_def c_str_def PushRecvMessage_def stream_subscript_def
        queue_push_def online_server_def fresh_server_def)
  note defs = link_start_def link_end_def client_example_def tries_since_def accepted_writes_def buf_bytes_def taken_by_def
    GetRecvMessage_def
  have "link_step 100 link_start (Lk_client (Cl_push ?m)) (link_start\<lparr>lk_client := ?c\<lparr>tc_SendMessage := [?m]\<rparr>\<rparr>)"
    by (rule step [OF client(1)]) (simp_all add: defs)
  moreover have "link_step 100 (link_start\<lparr>lk_client := ?c\<lparr>tc_SendMessage := [?m]\<rparr>\<rparr>) (Lk_client (Cl_push ?n))
      (link_start\<lparr>lk_client := ?c2\<rparr>)"
    by (rule step [where c' = ?c2]) (use client(2) in \<open>simp_all add: defs\<close>)
  moreover have "link_step 100 (link_start\<lparr>lk_client := ?c2\<rparr>) (Lk_client (Cl_timer 0 0 0 0))
      (link_start\<lparr>lk_client := ?c3, lk_wire := [65, 66]\<rparr>)"
    by (rule step [where c' = ?c3]) (use client(3) in \<open>simp_all add: defs\<close>)
  moreover have "link_step 100 (link_start\<lparr>lk_client := ?c3, lk_wire := [65, 66]\<rparr>) (Lk_client (Cl_written 0))
      (link_start\<lparr>lk_client := ?c3\<lparr>tc_writing := False\<rparr>, lk_wire := [65, 66]\<rparr>)"
    by (rule step [where c' = "?c3\<lparr>tc_writing := False\<rparr>"]) (use client(4) in \<open>simp_all add: defs\<close>)
  moreover have "link_step 100 (link_start\<lparr>lk_client := ?c3\<lparr>tc_writing := False\<rparr>, lk_wire := [65, 66]\<rparr>)
      (Lk_client (Cl_timer 0 0 (- 32) 0)) ?k5"
    by (rule step [where c' = ?d]) (use client(5) in \<open>simp_all add: defs\<close>)
  moreover have "link_step 100 ?k5 (Lk_deliver 1 [0]) ?k6"
    using link_step.link_deliver [of 1 ?k5 100 "[0]"] server [of 65] by (simp add: link_start_def)
  moreover have "link_step 100 ?k6 (Lk_server Ev_get) ?k7"
    using link_step.link_server [of 100 Ev_get ?k6] by (simp add: defs online_server_def fresh_server_def)
  moreover have "link_step 100 ?k7 (Lk_deliver 1 [0]) link_end"
    using link_step.link_deliver [of 1 ?k7 100 "[0]"] server [of 66] by (simp add: link_start_def link_end_def)
  ultimately have "link_run 100 link_start ([] @ [Lk_client (Cl_push ?m)] @ [Lk_client (Cl_push ?n)] @ [Lk_client (Cl_timer 0 0 0 0)] @
      [Lk_client (Cl_written 0)] @ [Lk_client (Cl_timer 0 0 (- 32) 0)] @
      [Lk_deliver 1 [0]] @ [Lk_server Ev_get] @ [Lk_deliver 1 [0]]) link_end"
    unfolding append_assoc [symmetric] by (blast intro: link_run.intros)
  then show ?thesis by (simp add: link_events_def)
qed

theorem client_server_stream_witness:
  "\<exists>ts. client_tries (tc_log (lk_client link_end)) = client_tries (tc_log (lk_client link_start)) @ ts
    \<and> map fst ts @ map (\<lambda>m. (mi_buf m, mi_len m)) (tc_SendMessage (lk_client link_end)) =
        map (\<lambda>m. (mi_buf m, mi_len m)) (tc_SendMessage (lk_client link_start)) @ pushed_on link_events
    \<and> conn_bytes 1 (lk_taken link_end) @ conn_bytes 1 (m_RecvMessage (lk_server link_end)) @ lk_wire link_end =
        conn_bytes 1 (lk_taken link_start) @ conn_bytes 1 (m_RecvMessage (lk_server link_start)) @ lk_wire link_start
          @ bytes_of (map fst (filter (\<lambda>t. snd t = 0) ts))"
proof (rule client_server_stream [OF fresh_server_new _ _ _ link_end_run])
  show "rfold srv_step [Ev_connect 0 (Some 100) 0 0 0] fresh_server = Inr (lk_server link_start)"
    unfolding online_server_reached by (simp add: link_start_def)
qed (simp_all add: link_start_def link_events_def online_server_def)

section \<open>The database application\<close>

text \<open>C33: In every run of the pool the tasks that have been taken, followed by those that wait, are the
  posted ones in the order of posting: every task is taken at most once, and first come, first
  served.\<close>

theorem tasks_taken_in_order:
  assumes "pool_run (CreateThreadPool n (db_pool_new shut)) es s"
  shows "tp_taken s @ pq_queue s = posted es"
  using pool_run_fifo [OF assms] by (simp add: CreateThreadPool_def db_pool_new_def)

definition example_task :: TaskInfo where
  "example_task = \<lparr>ti_conn = Some 0, ti_cmd = [65]\<rparr>"

definition good_mysql :: mysql_env where
  "good_mysql = \<lparr>r_mysql_init = Some 5, r_mysql_options = 0, r_mysql_real_connect = Some 6\<rparr>"

text \<open>Two threads; the first sleeps, is woken for a task and gets a connection.\<close>

definition pool_events :: "db_event list" where
  "pool_events = [Db_new game_data, Db_wait 0, Db_post example_task (Some 0), Db_pop 0, Db_connect 0 good_mysql]"

definition pool_example :: db_pool where
  "pool_example = \<lparr>pq_queue = [], pq_shutDown = 0,
     tp_threads = [W_query example_task \<lparr>sc_addr = 0, sc_mysql = Some 6\<rparr>, W_loop],
     tp_conns = [game_data], tp_fresh = 1, tp_taken = [example_task], tp_results = []\<rparr>"

lemma pool_example_run: "pool_run (CreateThreadPool 2 (db_pool_new 0)) pool_events pool_example"
proof -
  let ?a = "CreateThreadPool 2 (db_pool_new 0)"
  let ?b = "?a\<lparr>tp_conns := [game_data]\<rparr>"
  let ?c = "?b\<lparr>tp_threads := [W_waiting, W_loop]\<rparr>"
  let ?d = "?c\<lparr>pq_queue := [example_task], tp_threads := [W_woken, W_loop]\<rparr>"
  let ?e = "?d\<lparr>pq_queue := [], tp_taken := [example_task], tp_threads := [W_task example_task, W_loop]\<rparr>"
  have steps: "pool_step ?a (Db_new game_data) ?b" "pool_step ?b (Db_wait 0) ?c"
    "pool_step ?c (Db_post example_task (Some 0)) ?d" "pool_step ?d (Db_pop 0) ?e"
    by (simp_all add: pool_step_simps CreateThreadPool_def db_pool_new_def game_data_def Connction_new_def
        pool_defs eval_nat_numeral example_task_def)
  have "GetSqlConnection good_mysql 0 game_data = (Some \<lparr>sc_addr = 0, sc_mysql = Some 6\<rparr>, game_data)"
    by (simp add: GetSqlConnection_def game_data_def Connction_new_def MySqlConnection_init_def
        MySqlConnection_new_def good_mysql_def)
  then have last: "pool_step ?e (Db_connect 0 good_mysql) pool_example"
    by (simp add: pool_step_simps run_connect_def set_conn_def set_worker_def CreateThreadPool_def
        db_pool_new_def example_task_def pool_example_def)
  show ?thesis
    using pool_snoc [OF pool_snoc [OF pool_snoc [OF pool_snoc [OF pool_snoc [OF pool_nil steps(1)]
      steps(2)] steps(3)] steps(4)] last]
    by (simp add: pool_events_def)
qed

theorem tasks_taken_in_order_witness:
  "tp_taken pool_example @ pq_queue pool_example = posted pool_events"
  by (rule tasks_taken_in_order [OF pool_example_run])

text \<open>C34: A task that is posted before the threads have gone to sleep wakes nobody, and the threads
  do not look at the queue before they wait: for every number of threads there is a run after which
  the task is in the queue and no thread can do anything until something else is posted or the
  platform wakes a thread without a reason.\<close>

theorem lost_wakeup:
  "\<exists>s. pool_run (CreateThreadPool n (db_pool_new shut)) (Db_post value None # sleep_events n) s
    \<and> pq_queue s = [value] \<and> tp_taken s = []
    \<and> {e. by_threads e \<and> (\<exists>t. pool_step s e t)} = {}"
proof -
  let ?a = "CreateThreadPool n (db_pool_new shut)"
  let ?b = "pq_Push value None ?a"
  let ?c = "?b\<lparr>tp_threads := replicate n W_waiting\<rparr>"
  have "pool_step ?a (Db_post value None) ?b"
    by (rule st_post) (simp add: CreateThreadPool_def db_pool_new_def)
  then have one: "pool_run ?a [Db_post value None] ?b" by (simp add: pool_run_single_iff)
  have "tp_threads ?b = replicate n W_loop"
    by (simp add: pq_Push_def CreateThreadPool_def db_pool_new_def)
  from all_sleep [OF this order_refl] have "pool_run ?b (sleep_events n) ?c" by simp
  with one have "pool_run ?a ([Db_post value None] @ sleep_events n) ?c"
    unfolding pool_run_append_iff by blast
  moreover have "asleep ?c" by (simp add: asleep_def list_all_length)
  ultimately show ?thesis
    using asleep_stuck
    by (intro exI [of _ ?c])
      (auto simp: pq_Push_def queue_push_def CreateThreadPool_def db_pool_new_def)
qed

text \<open>C35: In every run of the pool, whatever the posted tasks are, a MySQL connection that a thread uses is
  not used by another thread at the same time and is in no pool.\<close>

theorem connections_exclusive:
  assumes "pool_run (CreateThreadPool n (db_pool_new shut)) es s"
    and "i < length (tp_threads s)" and "j < length (tp_threads s)" and "i \<noteq> j"
    and "a \<in> set (holds (tp_threads s ! i))"
  shows "a \<notin> set (holds (tp_threads s ! j)) \<and> a \<notin> (\<Union>c \<in> set (tp_conns s). set (conn_addrs c))"
proof -
  have "conns_ok (CreateThreadPool n (db_pool_new shut))"
    by (simp add: conns_ok_def sql_addrs_def CreateThreadPool_def db_pool_new_def)
  then have "conns_ok s"
    using pool_run_invariant [of conns_ok, OF _ assms(1)] conns_ok_step by blast
  from conns_ok_exclusive [OF this assms(2-5)] show ?thesis by blast
qed

theorem connections_exclusive_witness:
  "0 \<notin> set (holds (tp_threads pool_example ! 1))
    \<and> 0 \<notin> (\<Union>c \<in> set (tp_conns pool_example). set (conn_addrs c))"
  by (rule connections_exclusive [OF pool_example_run, of 0])
    (simp_all add: pool_example_def)

text \<open>C36: When all threads sleep and the queue is empty, closing the pool ends them: after any run in
  which the empty tasks of \<open>ClosePool\<close> have been posted, every thread that takes a step returns, so
  there are at most as many steps as threads, and when no more are possible all threads have
  returned and \<open>wait\<close> returns.\<close>

theorem close_ends_sleeping_threads:
  assumes "list_all (\<lambda>w. w = W_waiting) (tp_threads s)" and "pq_queue s = []"
    and "pool_run s es t" and "posted es = ClosePool_tasks s"
    and "pool_run t fs u" and "list_all by_threads fs"
  shows "length fs \<le> length (tp_threads s) \<and> (wait_returns u \<or> (\<exists>i v. pool_step u (Db_pop i) v))"
proof -
  have "draining s" using assms(1,2) by (auto simp: draining_def list_all_iff)
  moreover have "list_all (\<lambda>v. ti_conn v = None) (posted es)"
    using assms(4) by (simp add: ClosePool_tasks_def TaskInfo_new_def list_all_length)
  ultimately have t: "draining t" "waiters t \<le> waiters s - length (tp_threads s)"
    using draining_run [OF assms(3)] assms(4) by (simp_all add: ClosePool_tasks_def)
  moreover have "waiters s \<le> length (tp_threads s)"
    by (simp add: waiters_def count_mset count_le_length)
  ultimately have idle: "waiters t = 0" by simp
  have "length (tp_threads t) = length (tp_threads s)"
    using pool_run_invariant [of "\<lambda>v. length (tp_threads v) = length (tp_threads s)", OF _ assms(3)]
      pool_step_length by auto
  then show ?thesis
    using wakers_run [OF assms(5) t(1) idle assms(6)] wakers_le [of t] draining_progress [of u] by auto
qed

theorem close_ends_sleeping_threads_witness:
  "length [Db_pop 0] \<le> length (tp_threads ((db_pool_new 0)\<lparr>tp_threads := [W_waiting]\<rparr>))
    \<and> (wait_returns ((db_pool_new 0)\<lparr>tp_threads := [W_done], tp_taken := [TaskInfo_new]\<rparr>)
      \<or> (\<exists>i v. pool_step ((db_pool_new 0)\<lparr>tp_threads := [W_done], tp_taken := [TaskInfo_new]\<rparr>) (Db_pop i) v))"
proof (rule close_ends_sleeping_threads)
  show "pool_run ((db_pool_new 0)\<lparr>tp_threads := [W_waiting]\<rparr>) [Db_post TaskInfo_new (Some 0)]
      ((db_pool_new 0)\<lparr>tp_threads := [W_woken], pq_queue := [TaskInfo_new]\<rparr>)"
    "pool_run ((db_pool_new 0)\<lparr>tp_threads := [W_woken], pq_queue := [TaskInfo_new]\<rparr>) [Db_pop 0]
      ((db_pool_new 0)\<lparr>tp_threads := [W_done], tp_taken := [TaskInfo_new]\<rparr>)"
    by (simp_all add: pool_run_single_iff pool_step_simps pool_defs db_pool_new_def TaskInfo_new_def)
qed (simp_all add: ClosePool_tasks_def db_pool_new_def)

text \<open>C37: The list of messages only grows, and once it has a message of connection 1 (which the main loop makes
  up itself when nothing has arrived), every turn of the main loop posts the same query again, whatever
  the network and the workers do.\<close>

theorem query_posted_every_turn:
  assumes "db_run (db_start shut srv0) es (a, srv, p)" and "1 \<in> mi_conn ` set (da_MessageList a)"
    and "db_run (a, srv, p) fs (a', srv', p')"
  shows "length (da_MessageList a') = length (da_MessageList a) + turns fs
    \<and> length (tp_taken p' @ pq_queue p') = length (tp_taken p @ pq_queue p) + turns fs"
  using db_run_forever [OF assms(3) refl refl db_run_ok [OF assms(1) db_start_ok] assms(2)] by blast

text \<open>The first turn: nothing has arrived and no thread has started to wait.\<close>

definition db_task :: "nat \<Rightarrow> TaskInfo" where
  "db_task n = \<lparr>ti_conn = Some n, ti_cmd = select_platform\<rparr>"

definition db_app_after :: "nat \<Rightarrow> db_app" where
  "db_app_after n = \<lparr>da_status = Db_RUNNING, da_UserStatus = [1 \<mapsto> True],
     da_MessageList = replicate n made_up_message, da_TaskMgr = [1 \<mapsto> n - 1], da_made = n\<rparr>"

definition db_pool_after :: "nat \<Rightarrow> worker list \<Rightarrow> db_pool" where
  "db_pool_after n ws = (db_pool_new 0)\<lparr>tp_threads := ws, tp_conns := replicate n game_data,
     pq_queue := map db_task [0..<n]\<rparr>"

lemma db_turn_example:
  assumes "notify_ok pick ws" and "ws' = notify_one pick ws" and "a = db_app_after n \<or> n = 0 \<and> a = db_app_new\<lparr>da_status := Db_RUNNING\<rparr>"
  shows "db_turn (a, fresh_server, db_pool_after n ws) (db_app_after (Suc n), fresh_server, db_pool_after (Suc n) ws')"
proof (rule db_turn [where es = "[]" and fs = "[Db_post (db_task n) pick]"])
  let ?a = "a\<lparr>da_MessageList := da_MessageList a @ [made_up_message]\<rparr>"
  show "db_receive fresh_server a = (?a, fresh_server)"
    by (simp add: db_receive_def GetRecvMessage_def fresh_server_def db_RecivedMessage_def)
  have "only_user_1 ?a" using assms(3) by (auto simp: only_user_1_def db_app_after_def db_app_new_def split: if_splits)
  from db_OnUpdate_eq [OF this] show "db_OnUpdate ?a = (db_app_after (Suc n), game_data, [db_task n])"
    using assms(3)
    by (auto simp: db_app_after_def db_app_new_def db_task_def made_up_message_def fun_eq_iff replicate_append_same)
  show "da_status a \<noteq> Db_CLOSE" using assms(3) by (auto simp: db_app_after_def db_app_new_def)
  have "pool_step (db_pool_after n ws) (Db_new game_data)
      ((db_pool_after n ws)\<lparr>tp_conns := replicate (Suc n) game_data\<rparr>)"
    by (simp add: pool_step_simps db_pool_after_def game_data_def Connction_new_def replicate_append_same)
  moreover have "pool_step ((db_pool_after n ws)\<lparr>tp_conns := replicate (Suc n) game_data\<rparr>)
      (Db_post (db_task n) pick) (db_pool_after (Suc n) ws')"
    using assms(1,2) by (simp add: pool_step_simps db_pool_after_def pq_Push_def queue_push_def)
  ultimately show "pool_run (db_pool_after n ws) ([] @ Db_new game_data # [Db_post (db_task n) pick])
      (db_pool_after (Suc n) ws')"
    using pool_snoc [OF pool_snoc [OF pool_nil]] by simp
qed simp_all

lemma db_start_example:
  "db_start 0 fresh_server = (db_app_new\<lparr>da_status := Db_RUNNING\<rparr>, fresh_server, db_pool_after 0 (replicate 10 W_loop))"
  by (simp add: db_start_def db_Run_def db_LoadConfigValue_def db_StartDB_def CreateThreadPool_def
      db_pool_after_def db_pool_new_def)

lemma db_first_turns:
  "db_run (db_start 0 fresh_server) [Dbs_turn] (db_app_after 1, fresh_server, db_pool_after 1 (replicate 10 W_loop))"
  "db_run (db_app_after 1, fresh_server, db_pool_after 1 (replicate 10 W_loop)) [Dbs_turn]
     (db_app_after 2, fresh_server, db_pool_after 2 (replicate 10 W_loop))"
proof -
  have turn: "db_turn (a, fresh_server, db_pool_after n (replicate 10 W_loop))
      (db_app_after (Suc n), fresh_server, db_pool_after (Suc n) (replicate 10 W_loop))"
    if "a = db_app_after n \<or> n = 0 \<and> a = db_app_new\<lparr>da_status := Db_RUNNING\<rparr>" for a n
    using that by (intro db_turn_example [of None]) simp_all
  show "db_run (db_start 0 fresh_server) [Dbs_turn] (db_app_after 1, fresh_server, db_pool_after 1 (replicate 10 W_loop))"
    using db_run_turn [OF db_run_nil turn [of "db_app_new\<lparr>da_status := Db_RUNNING\<rparr>" 0]]
    by (simp add: db_start_example)
  show "db_run (db_app_after 1, fresh_server, db_pool_after 1 (replicate 10 W_loop)) [Dbs_turn]
      (db_app_after 2, fresh_server, db_pool_after 2 (replicate 10 W_loop))"
    using db_run_turn [OF db_run_nil turn [of "db_app_after 1" 1]] by (simp add: numeral_2_eq_2)
qed

theorem query_posted_every_turn_witness:
  "length (da_MessageList (db_app_after 2)) = length (da_MessageList (db_app_after 1)) + turns [Dbs_turn]
    \<and> length (tp_taken (db_pool_after 2 (replicate 10 W_loop)) @ pq_queue (db_pool_after 2 (replicate 10 W_loop))) =
      length (tp_taken (db_pool_after 1 (replicate 10 W_loop)) @ pq_queue (db_pool_after 1 (replicate 10 W_loop)))
        + turns [Dbs_turn]"
  by (rule query_posted_every_turn [OF db_first_turns(1) _ db_first_turns(2)])
    (simp add: db_app_after_def made_up_message_def)

text \<open>C38: The pools of MySQL connections are never used: in every run of the program a worker that asks for
  a connection finds the pool of its task empty and opens a new one, or drops the task when that
  fails; each turn of the main loop makes a new pool for connection 1.\<close>

theorem pools_never_reused:
  assumes "db_run (db_start shut srv0) es (a, srv, p)"
    and "i < length (tp_threads p)" and "tp_threads p ! i = W_task v" and "ti_conn v = Some c"
  shows "GetSqlConnection env addr (tp_conns p ! c) =
    (let (ok, sc) = MySqlConnection_init env (MySqlConnection_new addr)
     in (if ok then Some sc else None, tp_conns p ! c))"
proof -
  have "single_use p"
    using db_run_ok [OF assms(1) db_start_ok] by (simp add: db_ok_def)
  from single_use_connect(2) [OF this assms(2-4)] show ?thesis
    by (simp add: GetSqlConnection_def split: prod.split)
qed

text \<open>A thread has gone to sleep before the second turn, which wakes it for the first task.\<close>

lemma db_task_run:
  "db_run (db_start 0 fresh_server)
     ((([Dbs_turn] @ [Dbs_thread (Db_wait 0)]) @ [Dbs_turn]) @ [Dbs_thread (Db_pop 0)])
     (db_app_after 2, fresh_server, (db_pool_after 2 (W_task (db_task 0) # replicate 9 W_loop))
        \<lparr>pq_queue := [db_task 1], tp_taken := [db_task 0]\<rparr>)"
proof (rule db_run_thread, rule db_run_turn, rule db_run_thread, rule db_first_turns(1))
  show "pool_step (db_pool_after 1 (replicate 10 W_loop)) (Db_wait 0)
      (db_pool_after 1 (W_waiting # replicate 9 W_loop))"
    by (simp add: pool_step_simps run_wait_def set_worker_def db_pool_after_def eval_nat_numeral)
  show "db_turn (db_app_after 1, fresh_server, db_pool_after 1 (W_waiting # replicate 9 W_loop))
      (db_app_after 2, fresh_server, db_pool_after 2 (W_woken # replicate 9 W_loop))"
    using db_turn_example [of "Some 0" "W_waiting # replicate 9 W_loop" _ "db_app_after 1" 1]
    by (simp add: numeral_2_eq_2)
  show "pool_step (db_pool_after 2 (W_woken # replicate 9 W_loop)) (Db_pop 0)
      ((db_pool_after 2 (W_task (db_task 0) # replicate 9 W_loop))\<lparr>pq_queue := [db_task 1], tp_taken := [db_task 0]\<rparr>)"
    by (simp add: pool_step_simps pool_defs db_pool_after_def db_pool_new_def db_task_def upt_conv_Cons)
qed simp_all

theorem pools_never_reused_witness:
  "GetSqlConnection good_mysql 3 (tp_conns ((db_pool_after 2 (W_task (db_task 0) # replicate 9 W_loop))
        \<lparr>pq_queue := [db_task 1], tp_taken := [db_task 0]\<rparr>) ! 0) =
    (let (ok, sc) = MySqlConnection_init good_mysql (MySqlConnection_new 3)
     in (if ok then Some sc else None, tp_conns ((db_pool_after 2 (W_task (db_task 0) # replicate 9 W_loop))
        \<lparr>pq_queue := [db_task 1], tp_taken := [db_task 0]\<rparr>) ! 0))"
  by (rule pools_never_reused [OF db_task_run, of 0 "db_task 0"])
    (simp_all add: db_pool_after_def db_task_def)

section \<open>The old network layer\<close>

text \<open>C39: In every run of a server that has been started, until it is closed, whatever the registered functions call:
  the table of clients is exactly what the events say, the clients that libuv has accepted and no failed read has
  ended since, in the order of their ids, each under its own id with the stream object of its connection. The
  \<open>n\<close>-th connection has the id \<open>n\<close>, so no id is given twice. Every stream object ever made either
  belongs to a client in the table or has been closed or deleted, never both, and none is closed or
  deleted twice.\<close>

theorem old_server_streams:
  assumes "os_started s" and "rfold (os_step junk on_new on_recv) es s = Inr t"
    and "fold table_after es (0, []) = (n, tbl)"
  shows "map (\<lambda>(k, c). (k, cd_handle c)) (os_clients t) = tbl
    \<and> list_all (\<lambda>(k, c). cd_client_id c = k) (os_clients t) \<and> os_s_id t = int n
    \<and> sorted_wrt (<) (map fst (os_clients t))
    \<and> snd ` set tbl \<union> set (closed_streams (os_log t) @ deleted_streams (os_log t)) = {..<n}
    \<and> snd ` set tbl \<inter> set (closed_streams (os_log t) @ deleted_streams (os_log t)) = {}
    \<and> distinct (closed_streams (os_log t)) \<and> distinct (deleted_streams (os_log t))"
proof -
  have ok: "os_ok t" using assms(1,2) by (rule old_srv.run_inv)
  have sim: "os_sim (n, tbl) t"
    using os_run_sim [OF os_started_sim [OF assms(1)] assms(2)] assms(3) by simp
  have view: "map fst (client_view t) = map fst (os_clients t)" "set (client_handles t) = table_streams t"
    by (simp_all add: client_view_def client_handles_def table_streams_def client_table_def image_image case_prod_beta)
  have "list_all (\<lambda>(k, i, h). k = i \<and> 0 < k \<and> k \<le> os_s_id t) (client_view t)"
    using ok unfolding os_ok_def by blast
  then have ids: "list_all (\<lambda>(k, c). cd_client_id c = k) (os_clients t)"
    unfolding client_view_def list.pred_map by (rule list.pred_mono_strong) auto
  have "distinct (client_handles t @ closed_streams (os_log t))"
    "distinct (client_handles t @ closing_handles t @ deleted_streams (os_log t))"
    "sorted_wrt (<) (map fst (client_view t))"
    using ok unfolding os_ok_def by blast+
  then have "sorted_wrt (<) (map fst (os_clients t))" "distinct (closed_streams (os_log t))"
    "distinct (deleted_streams (os_log t))" "table_streams t \<inter> gone_streams t = {}"
    unfolding gone_streams_def view(1) view(2) [symmetric] by auto
  moreover have "client_table t = tbl" "os_s_id t = int n" "table_streams t \<union> gone_streams t = {..<n}"
    using sim by (auto simp: os_sim_def)
  ultimately show ?thesis
    using ids unfolding table_streams_def gone_streams_def client_table_def by simp
qed

definition old_server_example :: old_server where
  "old_server_example = (os_new True)\<lparr>os_mutex := Mx_free, os_isinit := True\<rparr>"

lemma old_server_example_started: "os_started old_server_example"
  unfolding os_started_def
  by (rule exI [of _ "\<lparr>rr_mutex = 0, rr_tcp = 0, rr_addr = 0, rr_bind = 0, rr_listen = 0, rr_run = 0\<rparr>"])
    (simp add: old_server_example_def os_new_def os_Start_def os_close_def os_init_def os_bind_def
      os_listen_def os_run_def)

definition old_events :: "os_event list" where
  "old_events = [Os_accept 0 0 0, Os_accept 0 0 0, Os_accept 0 (- 1) 0, Os_read 1 True (- 1) [], Os_client_closed]"

theorem old_server_streams_witness:
  "\<exists>t. rfold (os_step (\<lambda>_. 0) (\<lambda>_ _. []) (\<lambda>_ _ _. [])) old_events old_server_example = Inr t
    \<and> map (\<lambda>(k, c). (k, cd_handle c)) (os_clients t) = [(2, 1)]
    \<and> list_all (\<lambda>(k, c). cd_client_id c = k) (os_clients t) \<and> os_s_id t = int 3
    \<and> sorted_wrt (<) (map fst (os_clients t))
    \<and> snd ` set [(2 :: int, 1)] \<union> set (closed_streams (os_log t) @ deleted_streams (os_log t)) = {..<3}
    \<and> snd ` set [(2 :: int, 1)] \<inter> set (closed_streams (os_log t) @ deleted_streams (os_log t)) = {}
    \<and> distinct (closed_streams (os_log t)) \<and> distinct (deleted_streams (os_log t))"
proof -
  have "\<exists>t. rfold (os_step (\<lambda>_. 0) (\<lambda>_ _. []) (\<lambda>_ _ _. [])) old_events old_server_example = Inr t"
    by (simp add: os_acceptConnection_def GetAvailaClientID_def old_server_example_def os_new_def
        os_act_def AfterServerRecv_def DeleteClient_def clientdata_new_def map_erase_def AfterClientClose_def
        old_events_def)
  then obtain t where t: "rfold (os_step (\<lambda>_. 0) (\<lambda>_ _. []) (\<lambda>_ _ _. [])) old_events old_server_example = Inr t"
    by blast
  have "fold table_after old_events (0, []) = (3, [(2, 1)])" by (simp add: old_events_def)
  note result = old_server_streams [OF old_server_example_started t this]
  show ?thesis by (rule exI [of _ t], rule conjI [OF t result])
qed

text \<open>C40: A connection attempt that fails before libuv has taken it (a bad address, or an error of
  \<open>uv_tcp_connect\<close>) is never reported: the call of \<open>connect\<close> of a new client keeps waiting, whatever
  happens afterwards.\<close>

theorem connect_never_returns:
  assumes "oc_connect r_tcp r_mutex 0 ip port (oc_new junk loop) = Inr s"
    and "oc_step s (Oce_thread r_addr r_connect) t" and "r_addr \<noteq> 0 \<or> r_connect \<noteq> 0"
    and "oc_run_to t es u"
  shows "oc_waiting u \<and> oc_result u = None"
proof -
  have "oc_stuck t"
    using oc_connect_first [OF assms(1)] assms(2,3)
    by (auto simp: oc_first_call_def oc_stuck_def oc_defs elim!: oc_step_cases split: if_splits)
  from oc_stuck_run [OF assms(4) this] show ?thesis by (simp add: oc_stuck_def)
qed

definition old_client_example :: old_client where
  "old_client_example = (oc_new (\<lambda>_. 0) True)\<lparr>oc_isinit := True, oc_stream := St_open, oc_mutex := Mx_free,
     oc_connectip := ''x'', oc_connectport := 1, oc_waiting := True, oc_thread := True\<rparr>"

theorem connect_never_returns_witness:
  "oc_waiting (oc_poll (old_client_example\<lparr>oc_thread := False, oc_errmsg := Err_uv (- 22)\<rparr>))
    \<and> oc_result (oc_poll (old_client_example\<lparr>oc_thread := False, oc_errmsg := Err_uv (- 22)\<rparr>)) = None"
proof (rule connect_never_returns)
  let ?t = "old_client_example\<lparr>oc_thread := False, oc_errmsg := Err_uv (- 22)\<rparr>"
  show "oc_connect 0 0 0 ''x'' 1 (oc_new (\<lambda>_. 0) True) = Inr old_client_example"
    by (simp add: oc_connect_def oc_close_def oc_init_def oc_new_def old_client_example_def)
  have "oc_step old_client_example (Oce_thread (- 22) 0)
      (ConnectThread (- 22) 0 (old_client_example\<lparr>oc_thread := False\<rparr>))"
    by (rule oc_thread) (simp add: old_client_example_def)
  then show "oc_step old_client_example (Oce_thread (- 22) 0) ?t"
    by (simp add: ConnectThread_def oc_fail_def GetUVError_def)
  show "oc_run_to ?t [Oce_poll] (oc_poll ?t)"
    by (rule oc_cons [OF _ oc_nil], rule oc_step.oc_poll) (simp add: old_client_example_def)
qed simp

end
